(* ===== verification/Prelude.thy ===== *)
theory Prelude
  imports Main "HOL-Library.Word" "HOL-Library.Multiset"
begin

text \<open>
  What every component of the development shares: names for the fixed-width integers of the
  source (\<open>uint8\<close> .. \<open>uint64\<close> of \<open>Define.h\<close>), the raw value of an \<open>ObjectGuid\<close>, the
  result type of operations that may throw, the collections of simplification rules, the
  contract of an operation set that keeps an invariant, and generic lemmas on words, lists
  and results.
\<close>

unbundle bit_operations_syntax

section \<open>Names of the machine types\<close>

type_synonym uint8 = "8 word"
type_synonym uint16 = "16 word"
type_synonym uint32 = "32 word"
type_synonym uint64 = "64 word"

text \<open>An \<open>ObjectGuid\<close> is its raw 64-bit value; \<open>ObjectGuid::Empty\<close> is 0.\<close>

type_synonym guid = uint64

text \<open>An operation that throws or aborts returns \<open>Inl\<close> of the error.\<close>

type_synonym ('e, 'a) result = "'e + 'a"

section \<open>Rule collections\<close>

named_theorems byte_simps \<open>evaluation of buffer operations on well-formed buffers\<close>
named_theorems container_simps \<open>lookup and membership laws of the standard containers\<close>
named_theorems flag_simps \<open>setting, clearing and testing bits of flag fields\<close>

section \<open>Results\<close>

definition bind_result :: "('e, 'a) result \<Rightarrow> ('a \<Rightarrow> ('e, 'b) result) \<Rightarrow> ('e, 'b) result" where
  "bind_result r f = (case r of Inl e \<Rightarrow> Inl e | Inr x \<Rightarrow> f x)"

lemma bind_result_simps [simp]:
  "bind_result (Inr x) f = f x"
  "bind_result (Inl e) f = Inl e"
  by (simp_all add: bind_result_def)

lemma bind_result_Inr_iff:
  "bind_result r f = Inr y \<longleftrightarrow> (\<exists>x. r = Inr x \<and> f x = Inr y)"
  by (cases r) simp_all

text \<open>
  A loop whose body may fail, and total correctness of a fallible computation: it returns, and
  what it returns satisfies the postcondition.
\<close>

fun fold_result :: "('a \<Rightarrow> 's \<Rightarrow> ('e, 's) result) \<Rightarrow> 'a list \<Rightarrow> 's \<Rightarrow> ('e, 's) result" where
  "fold_result f [] s = Inr s"
| "fold_result f (x # xs) s = bind_result (f x s) (fold_result f xs)"

definition yields :: "('e, 'a) result \<Rightarrow> ('a \<Rightarrow> bool) \<Rightarrow> bool" where
  "yields r P \<longleftrightarrow> (\<exists>x. r = Inr x \<and> P x)"

lemma yields_simps [simp]: "yields (Inr x) P \<longleftrightarrow> P x" "\<not> yields (Inl e) P"
  by (simp_all add: yields_def)

lemma yields_bind: "yields (bind_result r f) P \<longleftrightarrow> yields r (\<lambda>x. yields (f x) P)"
  by (cases r) simp_all

lemma yields_if: "yields (if b then r else r') P \<longleftrightarrow> (if b then yields r P else yields r' P)"
  by simp

lemma yields_mono: "yields r P \<Longrightarrow> (\<And>x. P x \<Longrightarrow> Q x) \<Longrightarrow> yields r Q"
  by (auto simp: yields_def)

lemma yields_bindI: "yields r P \<Longrightarrow> (\<And>x. P x \<Longrightarrow> yields (f x) Q) \<Longrightarrow> yields (bind_result r f) Q"
  by (auto simp: yields_def)

lemma yieldsD: "yields r P \<Longrightarrow> r = Inr x \<Longrightarrow> P x"
  by (simp add: yields_def)

lemma yields_fold:
  assumes "I s" and "\<And>x s. x \<in> set xs \<Longrightarrow> I s \<Longrightarrow> yields (f x s) I"
  shows "yields (fold_result f xs s) I"
  using assms
proof (induction xs arbitrary: s)
  case (Cons x xs)
  then show ?case by (auto intro!: yields_bindI [where P = I])
qed simp

lemma fold_result_invar:
  "fold_result f xs s = Inr t \<Longrightarrow> I s \<Longrightarrow>
   (\<And>x s s'. x \<in> set xs \<Longrightarrow> I s \<Longrightarrow> f x s = Inr s' \<Longrightarrow> I s') \<Longrightarrow> I t"
  by (induction xs arbitrary: s) (auto simp: bind_result_Inr_iff)

section \<open>Flag fields\<close>

text \<open>
  The source tests a flag with \<open>flags & FLAG\<close> and updates it with \<open>flags |= FLAG\<close> and
  \<open>flags &= ~FLAG\<close>. For a single-bit flag \<open>2 ^ n\<close> these are the bit operations below.
\<close>

definition has_flag :: "'a::len word \<Rightarrow> 'a word \<Rightarrow> bool" where
  "has_flag w f \<longleftrightarrow> w AND f \<noteq> 0"

definition add_flag :: "'a::len word \<Rightarrow> 'a word \<Rightarrow> 'a word" where
  "add_flag w f = w OR f"

definition del_flag :: "'a::len word \<Rightarrow> 'a word \<Rightarrow> 'a word" where
  "del_flag w f = w AND NOT f"

lemma has_flag_iff_bit: "has_flag w f \<longleftrightarrow> (\<exists>n. bit w n \<and> bit f n)"
  by (auto simp: has_flag_def bit_eq_iff bit_and_iff dest: bit_imp_le_length)

lemma has_flag_0 [simp]: "\<not> has_flag 0 f" "\<not> has_flag w 0"
  by (simp_all add: has_flag_def)

lemma has_flag_add [flag_simps]: "has_flag (add_flag w f) g \<longleftrightarrow> has_flag w g \<or> has_flag f g"
  by (auto simp: has_flag_iff_bit add_flag_def bit_or_iff)

lemma has_flag_add_same [flag_simps]: "f \<noteq> 0 \<Longrightarrow> has_flag (add_flag w f) f"
  by (metis (no_types, opaque_lifting) and.idem has_flag_add has_flag_def)

lemma has_flag_del_same [flag_simps]: "\<not> has_flag (del_flag w f) f"
  by (auto simp: has_flag_iff_bit del_flag_def bit_and_iff bit_not_iff)

lemma has_flag_del_other [flag_simps]:
  "f AND g = 0 \<Longrightarrow> has_flag (del_flag w f) g \<longleftrightarrow> has_flag w g"
  unfolding has_flag_iff_bit del_flag_def bit_and_iff bit_not_iff
  by (metis bit_and_iff bit_imp_possible_bit zero_and_eq bit_0_eq bot_apply bot_bool_def)

lemma del_flag_absent [flag_simps]: "\<not> has_flag w f \<Longrightarrow> del_flag w f = w"
  by (auto simp: has_flag_iff_bit del_flag_def bit_eq_iff bit_and_iff bit_not_iff
      dest: bit_imp_le_length)

lemma add_flag_present_again [flag_simps]: "add_flag (add_flag w f) f = add_flag w f"
  by (simp add: add_flag_def or.assoc)

section \<open>Folds\<close>

lemma fold_preserves: "(\<And>x s. P (f x s) = P s) \<Longrightarrow> P (fold f xs s) = P s"
  by (induction xs arbitrary: s) simp_all

section \<open>Operations that keep an invariant\<close>

text \<open>
  The contract of a component whose state only its own operations change: an operation type,
  the function that runs one, and an invariant every operation keeps. A component proves its
  operations one by one, interprets the locale, and obtains the invariant for every sequence
  of operations and for every reachable state.
\<close>

fun run_ops :: "('s \<Rightarrow> 'op \<Rightarrow> 's) \<Rightarrow> 's \<Rightarrow> 'op list \<Rightarrow> 's" where
  "run_ops step s [] = s"
| "run_ops step s (x # xs) = run_ops step (step s x) xs"

lemma run_ops_append: "run_ops step s (xs @ ys) = run_ops step (run_ops step s xs) ys"
  by (induction xs arbitrary: s) simp_all

inductive reachable_from :: "('s \<Rightarrow> 'op \<Rightarrow> 's) \<Rightarrow> 's \<Rightarrow> 's \<Rightarrow> bool" for step s0 where
  reach_start: "reachable_from step s0 s0"
| reach_step: "reachable_from step s0 s \<Longrightarrow> reachable_from step s0 (step s x)"

lemma reachable_from_iff_run: "reachable_from step s0 s \<longleftrightarrow> (\<exists>xs. s = run_ops step s0 xs)"
proof
  assume "reachable_from step s0 s"
  then show "\<exists>xs. s = run_ops step s0 xs"
  proof induction
    case reach_start
    show ?case by (rule exI [of _ "[]"]) simp
  next
    case (reach_step s x)
    then obtain xs where "s = run_ops step s0 xs" by blast
    then have "step s x = run_ops step s0 (xs @ [x])" by (simp add: run_ops_append)
    then show ?case by blast
  qed
next
  have "reachable_from step s0 s \<Longrightarrow> reachable_from step s0 (run_ops step s xs)" for s xs
    by (induction xs arbitrary: s) (auto intro: reachable_from.reach_step)
  then show "\<exists>xs. s = run_ops step s0 xs \<Longrightarrow> reachable_from step s0 s"
    using reachable_from.reach_start by metis
qed

locale invariant_ops =
  fixes step :: "'s \<Rightarrow> 'op \<Rightarrow> 's"
    and inv :: "'s \<Rightarrow> bool"
    and admissible :: "'s \<Rightarrow> 'op \<Rightarrow> bool"
  assumes step_inv: "inv s \<Longrightarrow> admissible s x \<Longrightarrow> inv (step s x)"
begin

fun all_admissible :: "'s \<Rightarrow> 'op list \<Rightarrow> bool" where
  "all_admissible s [] = True"
| "all_admissible s (x # xs) = (admissible s x \<and> all_admissible (step s x) xs)"

lemma run_inv: "inv s \<Longrightarrow> all_admissible s xs \<Longrightarrow> inv (run_ops step s xs)"
  by (induction xs arbitrary: s) (auto intro: step_inv)

lemma all_admissibleI: "(\<And>s x. admissible s x) \<Longrightarrow> all_admissible s xs"
  by (induction xs arbitrary: s) simp_all

lemma run_inv_total: "(\<And>s x. admissible s x) \<Longrightarrow> inv s \<Longrightarrow> inv (run_ops step s xs)"
  by (blast intro: run_inv all_admissibleI)

lemma reachable_inv:
  "(\<And>s x. admissible s x) \<Longrightarrow> inv s0 \<Longrightarrow> reachable_from step s0 s \<Longrightarrow> inv s"
  by (auto simp: reachable_from_iff_run intro: run_inv_total)

end

end
