(* ===== verification/Containers.thy ===== *)
theory Containers
  imports Prelude
begin

text \<open>
  The standard containers the source uses where their iteration order is observable:
  \<open>std::map\<close> (ascending keys, unique), \<open>std::set\<close> (ascending, unique) and
  \<open>std::multimap\<close> (ascending keys, equal keys in insertion order). Each is a list in iteration
  order with the operations the source calls. The locales \<open>ordered_map\<close>, \<open>ordered_set\<close> and
  \<open>timed_queue\<close> state what clients rely on; the interpretations at the end of each section
  discharge the laws for the list model.
\<close>

section \<open>std::map\<close>

type_synonym ('k, 'v) omap = "('k \<times> 'v) list"

definition omap_find :: "('k, 'v) omap \<Rightarrow> 'k \<Rightarrow> 'v option" where
  "omap_find m k = map_of m k"

definition omap_has :: "('k, 'v) omap \<Rightarrow> 'k \<Rightarrow> bool" where
  "omap_has m k \<longleftrightarrow> omap_find m k \<noteq> None"

fun omap_set :: "'k::linorder \<Rightarrow> 'v \<Rightarrow> ('k, 'v) omap \<Rightarrow> ('k, 'v) omap" where
  "omap_set k v [] = [(k, v)]"
| "omap_set k v ((k', v') # m) =
     (if k < k' then (k, v) # (k', v') # m
      else if k = k' then (k, v) # m
      else (k', v') # omap_set k v m)"

fun omap_erase :: "'k \<Rightarrow> ('k, 'v) omap \<Rightarrow> ('k, 'v) omap" where
  "omap_erase k [] = []"
| "omap_erase k ((k', v') # m) = (if k = k' then m else (k', v') # omap_erase k m)"

text \<open>\<open>m[k]\<close> inserts a value-initialised entry when the key is absent.\<close>

definition omap_index :: "'v \<Rightarrow> 'k::linorder \<Rightarrow> ('k, 'v) omap \<Rightarrow> 'v \<times> ('k, 'v) omap" where
  "omap_index dflt k m =
     (case omap_find m k of Some v \<Rightarrow> (v, m) | None \<Rightarrow> (dflt, omap_set k dflt m))"

definition omap_ok :: "('k::linorder, 'v) omap \<Rightarrow> bool" where
  "omap_ok m \<longleftrightarrow> sorted_wrt (<) (map fst m)"

locale ordered_map =
  fixes empty :: 'm
    and find :: "'m \<Rightarrow> 'k::linorder \<Rightarrow> 'v option"
    and put :: "'k \<Rightarrow> 'v \<Rightarrow> 'm \<Rightarrow> 'm"
    and erase :: "'k \<Rightarrow> 'm \<Rightarrow> 'm"
    and keys :: "'m \<Rightarrow> 'k list"
    and invar :: "'m \<Rightarrow> bool"
  assumes find_empty: "find empty = Map.empty"
    and invar_empty: "invar empty"
    and find_put: "invar m \<Longrightarrow> find (put k v m) = (find m)(k \<mapsto> v)"
    and invar_put: "invar m \<Longrightarrow> invar (put k v m)"
    and find_erase: "invar m \<Longrightarrow> find (erase k m) = (find m)(k := None)"
    and invar_erase: "invar m \<Longrightarrow> invar (erase k m)"
    and set_keys: "invar m \<Longrightarrow> set (keys m) = dom (find m)"
    and sorted_keys: "invar m \<Longrightarrow> sorted_wrt (<) (keys m)"
begin

lemma distinct_keys: "invar m \<Longrightarrow> distinct (keys m)"
  using sorted_keys strict_sorted_iff by blast

lemma keys_unique:
  "invar m \<Longrightarrow> invar m' \<Longrightarrow> dom (find m) = dom (find m') \<Longrightarrow> keys m = keys m'"
  using set_keys sorted_keys strict_sorted_equal by metis

lemma keys_put_present: "invar m \<Longrightarrow> find m k \<noteq> None \<Longrightarrow> keys (put k v m) = keys m"
  by (rule keys_unique) (auto simp: invar_put find_put)

lemma keys_erase_absent: "invar m \<Longrightarrow> find m k = None \<Longrightarrow> keys (erase k m) = keys m"
  by (rule keys_unique) (auto simp: invar_erase find_erase)

lemma length_keys: "invar m \<Longrightarrow> length (keys m) = card (dom (find m))"
  by (metis distinct_card distinct_keys set_keys)

lemma length_keys_put_absent:
  "invar m \<Longrightarrow> find m k = None \<Longrightarrow> length (keys (put k v m)) = Suc (length (keys m))"
  by (simp add: length_keys invar_put find_put domIff)
    (metis List.finite_set card_insert_disjoint domIff set_keys)

lemma first_key_least: "invar m \<Longrightarrow> keys m \<noteq> [] \<Longrightarrow> find m k \<noteq> None \<Longrightarrow> hd (keys m) \<le> k"
  by (metis domI hd_Cons_tl less_imp_le not_Some_eq set_ConsD set_keys sorted_keys
      sorted_wrt.simps(2) order_refl)

lemma find_put_erase: "invar m \<Longrightarrow> find (put k v (erase k m)) = find (put k v m)"
  by (simp add: find_put find_erase invar_erase)

end

lemma omap_set_dom: "fst ` set (omap_set k v m) = insert k (fst ` set m)"
  by (induction k v m rule: omap_set.induct) auto

lemma omap_set_ok: "omap_ok m \<Longrightarrow> omap_ok (omap_set k v m)"
proof (induction k v m rule: omap_set.induct)
  case (2 k v k' v' m)
  then show ?case
    using omap_set_dom [of k v m] by (auto simp: omap_ok_def)
qed (simp add: omap_ok_def)

lemma omap_erase_dom: "fst ` set (omap_erase k m) \<subseteq> fst ` set m"
  by (induction k m rule: omap_erase.induct) auto

lemma omap_erase_ok: "omap_ok m \<Longrightarrow> omap_ok (omap_erase k m)"
proof (induction k m rule: omap_erase.induct)
  case (2 k k' v' m)
  then show ?case
    using omap_erase_dom [of k m] by (force simp: omap_ok_def)
qed (simp add: omap_ok_def)

lemma omap_find_set: "omap_ok m \<Longrightarrow> omap_find (omap_set k v m) = (omap_find m)(k \<mapsto> v)"
  by (induction k v m rule: omap_set.induct) (auto simp: omap_find_def omap_ok_def fun_eq_iff)

lemma omap_find_erase: "omap_ok m \<Longrightarrow> omap_find (omap_erase k m) = (omap_find m)(k := None)"
proof (induction k m rule: omap_erase.induct)
  case (2 k k' v' m)
  then show ?case
    by (auto simp: omap_find_def omap_ok_def fun_eq_iff)
      (metis less_irrefl map_of_SomeD image_eqI fst_conv not_None_eq)
qed (simp add: omap_find_def fun_eq_iff)

interpretation om: ordered_map "[]" omap_find omap_set omap_erase "map fst" omap_ok
  by unfold_locales
    (auto simp: omap_find_set omap_find_erase omap_set_ok omap_erase_ok,
     auto simp: omap_find_def omap_ok_def dom_map_of_conv_image_fst [symmetric]
       dest: weak_map_of_SomeI)

lemmas omap_laws [container_simps] =
  om.find_put om.find_erase om.invar_put om.invar_erase om.find_empty om.invar_empty

lemma omap_has_set [container_simps]:
  "omap_ok m \<Longrightarrow> omap_has (omap_set k v m) k' \<longleftrightarrow> k' = k \<or> omap_has m k'"
  by (auto simp: omap_has_def om.find_put)

lemma omap_has_erase [container_simps]:
  "omap_ok m \<Longrightarrow> omap_has (omap_erase k m) k' \<longleftrightarrow> k' \<noteq> k \<and> omap_has m k'"
  by (auto simp: omap_has_def om.find_erase)

lemma omap_has_iff_key: "omap_has m k \<longleftrightarrow> k \<in> fst ` set m"
  by (simp add: omap_has_def omap_find_def map_of_eq_None_iff)

lemma omap_find_in_set: "omap_find m k = Some v \<Longrightarrow> (k, v) \<in> set m"
  by (simp add: omap_find_def map_of_SomeD)

lemma omap_in_set_find: "omap_ok m \<Longrightarrow> (k, v) \<in> set m \<Longrightarrow> omap_find m k = Some v"
  by (simp add: omap_find_def omap_ok_def strict_sorted_iff)

lemma omap_index_present: "omap_find m k = Some v \<Longrightarrow> omap_index d k m = (v, m)"
  by (simp add: omap_index_def)

lemma omap_index_ok: "omap_ok m \<Longrightarrow> omap_ok (snd (omap_index d k m))"
  by (simp add: omap_index_def omap_set_ok split: option.split)

lemma omap_has_index: "omap_ok m \<Longrightarrow> omap_has (snd (omap_index d k m)) k' \<longleftrightarrow> k' = k \<or> omap_has m k'"
  by (auto simp: omap_index_def omap_has_def om.find_put split: option.split)

lemma omap_count_set:
  assumes "omap_ok m"
  shows "length (filter P (omap_set k v m)) +
           (case omap_find m k of None \<Rightarrow> 0 | Some v0 \<Rightarrow> of_bool (P (k, v0))) =
         length (filter P m) + of_bool (P (k, v))"
  using assms
proof (induction k v m rule: omap_set.induct)
  case (2 k v k' v' m)
  have "k < k' \<Longrightarrow> omap_find m k = None"
    using "2.prems" by (force simp: omap_ok_def omap_find_def map_of_eq_None_iff)
  then show ?case using 2 by (auto simp: omap_find_def omap_ok_def)
qed (simp add: omap_find_def)

lemma omap_erase_subset: "set (omap_erase k m) \<subseteq> set m"
  by (induction k m rule: omap_erase.induct) auto

lemma omap_count_erase: "length (filter P (omap_erase k m)) \<le> length (filter P m)"
  by (induction k m rule: omap_erase.induct) auto

section \<open>std::set\<close>

type_synonym 'a oset = "'a list"

fun oset_insert :: "'a::linorder \<Rightarrow> 'a oset \<Rightarrow> 'a oset" where
  "oset_insert x [] = [x]"
| "oset_insert x (y # ys) =
     (if x < y then x # y # ys else if x = y then y # ys else y # oset_insert x ys)"

fun oset_erase :: "'a \<Rightarrow> 'a oset \<Rightarrow> 'a oset" where
  "oset_erase x [] = []"
| "oset_erase x (y # ys) = (if x = y then ys else y # oset_erase x ys)"

definition oset_has :: "'a oset \<Rightarrow> 'a \<Rightarrow> bool" where
  "oset_has xs x \<longleftrightarrow> List.member xs x"

definition oset_ok :: "'a::linorder oset \<Rightarrow> bool" where
  "oset_ok xs \<longleftrightarrow> sorted_wrt (<) xs"

locale ordered_set =
  fixes has :: "'s \<Rightarrow> 'a::linorder \<Rightarrow> bool"
    and ins :: "'a \<Rightarrow> 's \<Rightarrow> 's"
    and del :: "'a \<Rightarrow> 's \<Rightarrow> 's"
    and elems :: "'s \<Rightarrow> 'a list"
    and invar :: "'s \<Rightarrow> bool"
  assumes has_elems: "invar s \<Longrightarrow> has s x \<longleftrightarrow> x \<in> set (elems s)"
    and elems_ins: "invar s \<Longrightarrow> set (elems (ins x s)) = insert x (set (elems s))"
    and elems_del: "invar s \<Longrightarrow> set (elems (del x s)) = set (elems s) - {x}"
    and invar_ins: "invar s \<Longrightarrow> invar (ins x s)"
    and invar_del: "invar s \<Longrightarrow> invar (del x s)"
    and sorted_elems: "invar s \<Longrightarrow> sorted_wrt (<) (elems s)"
begin

lemma has_ins: "invar s \<Longrightarrow> has (ins x s) y \<longleftrightarrow> y = x \<or> has s y"
  by (simp add: has_elems elems_ins invar_ins)

lemma has_del: "invar s \<Longrightarrow> has (del x s) y \<longleftrightarrow> y \<noteq> x \<and> has s y"
  by (auto simp: has_elems elems_del invar_del)

lemma elems_unique:
  "invar s \<Longrightarrow> invar t \<Longrightarrow> set (elems s) = set (elems t) \<Longrightarrow> elems s = elems t"
  using sorted_elems strict_sorted_equal by blast

lemma invar_fold_ins: "invar s \<Longrightarrow> invar (fold ins xs s)"
  by (induction xs arbitrary: s) (simp_all add: invar_ins)

lemma invar_fold_del: "invar s \<Longrightarrow> invar (fold del xs s)"
  by (induction xs arbitrary: s) (simp_all add: invar_del)

lemma elems_fold_ins: "invar s \<Longrightarrow> set (elems (fold ins xs s)) = set xs \<union> set (elems s)"
  by (induction xs arbitrary: s) (auto simp: elems_ins invar_ins)

lemma elems_fold_del: "invar s \<Longrightarrow> set (elems (fold del xs s)) = set (elems s) - set xs"
  by (induction xs arbitrary: s) (auto simp: elems_del invar_del)

lemma del_ins_absent: "invar s \<Longrightarrow> \<not> has s x \<Longrightarrow> elems (del x (ins x s)) = elems s"
  by (rule elems_unique) (auto simp: elems_del elems_ins has_elems invar_ins invar_del)

end

lemma oset_insert_set: "set (oset_insert x xs) = insert x (set xs)"
  by (induction x xs rule: oset_insert.induct) auto

lemma oset_insert_ok: "oset_ok xs \<Longrightarrow> oset_ok (oset_insert x xs)"
  by (induction x xs rule: oset_insert.induct) (auto simp: oset_ok_def oset_insert_set)

lemma oset_erase_subset: "set (oset_erase x xs) \<subseteq> set xs"
  by (induction x xs rule: oset_erase.induct) auto

lemma oset_erase_ok: "oset_ok xs \<Longrightarrow> oset_ok (oset_erase x xs)"
proof (induction x xs rule: oset_erase.induct)
  case (2 x y ys)
  then show ?case using oset_erase_subset [of x ys] by (auto simp: oset_ok_def)
qed (simp add: oset_ok_def)

lemma oset_erase_set: "oset_ok xs \<Longrightarrow> set (oset_erase x xs) = set xs - {x}"
  by (induction x xs rule: oset_erase.induct) (auto simp: oset_ok_def)

interpretation os: ordered_set oset_has oset_insert oset_erase "\<lambda>xs. xs" oset_ok
  by unfold_locales
    (simp_all add: oset_has_def oset_insert_set oset_erase_set oset_insert_ok oset_erase_ok,
     simp add: oset_ok_def)

lemmas oset_laws [container_simps] =
  os.has_ins os.has_del os.invar_ins os.invar_del os.has_elems

section \<open>std::multimap\<close>

type_synonym ('k, 'v) mmap = "('k \<times> 'v) list"

text \<open>\<open>insert\<close> places a pair at the upper bound of the range of equal keys.\<close>

fun mmap_insert :: "'k::linorder \<Rightarrow> 'v \<Rightarrow> ('k, 'v) mmap \<Rightarrow> ('k, 'v) mmap" where
  "mmap_insert k v [] = [(k, v)]"
| "mmap_insert k v ((k', v') # m) =
     (if k < k' then (k, v) # (k', v') # m else (k', v') # mmap_insert k v m)"

text \<open>\<open>m.insert(first, last)\<close>: the pairs one by one, in order.\<close>

definition mmap_insert_all :: "('k::linorder \<times> 'v) list \<Rightarrow> ('k, 'v) mmap \<Rightarrow> ('k, 'v) mmap" where
  "mmap_insert_all ps m = fold (\<lambda>(k, v). mmap_insert k v) ps m"

definition mmap_ok :: "('k::linorder, 'v) mmap \<Rightarrow> bool" where
  "mmap_ok m \<longleftrightarrow> sorted (map fst m)"

locale timed_queue =
  fixes push :: "'t::linorder \<Rightarrow> 'e \<Rightarrow> 'q \<Rightarrow> 'q"
    and entries :: "'q \<Rightarrow> ('t \<times> 'e) list"
    and invar :: "'q \<Rightarrow> bool"
  assumes entries_push: "invar q \<Longrightarrow> mset (entries (push t e q)) = add_mset (t, e) (mset (entries q))"
    and invar_push: "invar q \<Longrightarrow> invar (push t e q)"
    and sorted_entries: "invar q \<Longrightarrow> sorted (map fst (entries q))"
    and push_stable: "invar q \<Longrightarrow>
      filter (\<lambda>p. fst p = t') (entries (push t e q)) =
      filter (\<lambda>p. fst p = t') (entries q) @ (if t' = t then [(t, e)] else [])"
begin

lemma set_push: "invar q \<Longrightarrow> set (entries (push t e q)) = insert (t, e) (set (entries q))"
  by (metis entries_push set_mset_add_mset_insert set_mset_mset)

lemma length_push: "invar q \<Longrightarrow> length (entries (push t e q)) = Suc (length (entries q))"
  by (metis entries_push size_add_mset size_mset)

lemma head_is_earliest:
  "invar q \<Longrightarrow> entries q = p # ps \<Longrightarrow> x \<in> set (entries q) \<Longrightarrow> fst p \<le> fst x"
  using sorted_entries [of q] by auto

lemma no_entry_due:
  "invar q \<Longrightarrow> entries q = p # ps \<Longrightarrow> now < fst p \<Longrightarrow> x \<in> set (entries q) \<Longrightarrow> now < fst x"
  using head_is_earliest less_le_trans by blast

end

lemma mmap_insert_mset: "mset (mmap_insert k v m) = add_mset (k, v) (mset m)"
  by (induction k v m rule: mmap_insert.induct) auto

lemma mmap_insert_set: "set (mmap_insert k v m) = insert (k, v) (set m)"
  by (metis mmap_insert_mset set_mset_add_mset_insert set_mset_mset)

lemma mmap_insert_ok: "mmap_ok m \<Longrightarrow> mmap_ok (mmap_insert k v m)"
  by (induction k v m rule: mmap_insert.induct) (auto simp: mmap_ok_def mmap_insert_set)

lemma mmap_insert_stable:
  "mmap_ok m \<Longrightarrow> filter (\<lambda>p. fst p = t) (mmap_insert k v m) =
     filter (\<lambda>p. fst p = t) m @ (if t = k then [(k, v)] else [])"
proof (induction k v m rule: mmap_insert.induct)
  case (2 k v k' v' m)
  then have none: "k < k' \<Longrightarrow> filter (\<lambda>p. fst p = k) ((k', v') # m) = []"
    by (force simp: mmap_ok_def filter_empty_conv)
  from 2 none show ?case by (auto simp: mmap_ok_def)
qed simp

interpretation mq: timed_queue mmap_insert "\<lambda>m. m" mmap_ok
  by unfold_locales
    (simp_all add: mmap_insert_mset mmap_insert_ok mmap_insert_stable, simp add: mmap_ok_def)

lemma mmap_insert_all_mset: "mset (mmap_insert_all ps m) = mset ps + mset m"
  by (induction ps arbitrary: m) (auto simp: mmap_insert_all_def mmap_insert_mset)

lemma mmap_insert_all_ok: "mmap_ok m \<Longrightarrow> mmap_ok (mmap_insert_all ps m)"
  by (induction ps arbitrary: m) (auto simp: mmap_insert_all_def mmap_insert_ok)

lemma mmap_filter_ok: "mmap_ok m \<Longrightarrow> mmap_ok (filter P m)"
  by (simp add: mmap_ok_def sorted_filter)

lemma mmap_tl_ok: "mmap_ok (p # m) \<Longrightarrow> mmap_ok m"
  by (simp add: mmap_ok_def)

end
