(* ===== verification/ByteBuffer.thy ===== *)
theory ByteBuffer
  imports Containers
begin

text \<open>
  \<open>ByteBuffer\<close> (src/src/server/shared/Packets/ByteBuffer.h), the growable byte array behind
  every packet, with its read and write positions, its exceptions, its typed readers and
  writers, packed guids, packed times and the generic container writers, and
  \<open>WorldPacket\<close>, a buffer with an opcode. Multi-byte values are stored in little-endian order:
  \<open>EndianConvert\<close> is the identity on a little-endian host and swaps on a big-endian one.
  A \<open>size_t\<close> sum in a bound check wraps at 64 bits, as in the source; a copy that would then
  leave the vector is the result \<open>OutOfBounds\<close>. The locale \<open>codec\<close> is the contract of a
  writer and reader pair; it is interpreted for the unsigned integers, strings and packed
  guids, and gives the round trip of the generic \<open>vector\<close>, \<open>list\<close> and \<open>map\<close> operators.
\<close>

section \<open>State and errors\<close>

record byte_buffer =
  bb_rpos :: nat
  bb_wpos :: nat
  bb_storage :: "uint8 list"

datatype bb_error =
    ByteBufferException
  | ByteBufferPositionException bool nat nat nat
  | ByteBufferSourceException nat nat nat
  | AssertionFailure
  | OutOfBounds

definition bb_size :: "byte_buffer \<Rightarrow> nat" where
  "bb_size b = length (bb_storage b)"

definition bb_new :: byte_buffer where
  "bb_new = \<lparr>bb_rpos = 0, bb_wpos = 0, bb_storage = []\<rparr>"

definition size_add :: "nat \<Rightarrow> nat \<Rightarrow> nat" where
  "size_add a c = (a + c) mod 2 ^ 64"

text \<open>\<open>vector::resize\<close> pads with zero bytes; \<open>memcpy\<close> overwrites a range.\<close>

definition resize_storage :: "nat \<Rightarrow> uint8 list \<Rightarrow> uint8 list" where
  "resize_storage n xs = take n xs @ replicate (n - length xs) 0"

definition write_at :: "nat \<Rightarrow> uint8 list \<Rightarrow> uint8 list \<Rightarrow> uint8 list" where
  "write_at pos src xs = take pos xs @ src @ drop (pos + length src) xs"

section \<open>Little-endian bytes of a word\<close>

definition le_byte :: "nat \<Rightarrow> 'a::len word \<Rightarrow> uint8" where
  "le_byte i w = ucast (drop_bit (8 * i) w)"

definition to_le :: "'a::len word \<Rightarrow> uint8 list" where
  "to_le w = map (\<lambda>i. le_byte i w) [0..<LENGTH('a) div 8]"

fun from_le :: "uint8 list \<Rightarrow> 'a::len word" where
  "from_le [] = 0"
| "from_le (x # xs) = ucast x OR push_bit 8 (from_le xs)"

section \<open>Positions, clearing, resizing\<close>

definition bb_clear :: "byte_buffer \<Rightarrow> byte_buffer" where
  "bb_clear b = b\<lparr>bb_storage := [], bb_rpos := 0, bb_wpos := 0\<rparr>"

definition bb_set_rpos :: "nat \<Rightarrow> byte_buffer \<Rightarrow> byte_buffer" where
  "bb_set_rpos n b = b\<lparr>bb_rpos := n\<rparr>"

definition bb_rfinish :: "byte_buffer \<Rightarrow> byte_buffer" where
  "bb_rfinish b = b\<lparr>bb_rpos := bb_wpos b\<rparr>"

definition bb_set_wpos :: "nat \<Rightarrow> byte_buffer \<Rightarrow> byte_buffer" where
  "bb_set_wpos n b = b\<lparr>bb_wpos := n\<rparr>"

definition bb_resize :: "nat \<Rightarrow> byte_buffer \<Rightarrow> byte_buffer" where
  "bb_resize n b = (let st = resize_storage n (bb_storage b)
                    in b\<lparr>bb_storage := st, bb_rpos := 0, bb_wpos := length st\<rparr>)"

definition bb_at :: "nat \<Rightarrow> byte_buffer \<Rightarrow> (bb_error, uint8) result" where
  "bb_at pos b = (if pos \<ge> bb_size b then Inl (ByteBufferPositionException False pos 1 (bb_size b))
                  else Inr (bb_storage b ! pos))"

definition bb_contents :: "byte_buffer \<Rightarrow> (bb_error, uint8 list) result" where
  "bb_contents b = (if bb_storage b = [] then Inl ByteBufferException else Inr (bb_storage b))"

section \<open>Writing\<close>

text \<open>\<open>append(src, cnt)\<close>; \<open>None\<close> is the null pointer.\<close>

definition append_raw ::
  "uint8 list option \<Rightarrow> nat \<Rightarrow> byte_buffer \<Rightarrow> (bb_error, byte_buffer) result" where
  "append_raw src cnt b =
     (if cnt = 0 then Inl (ByteBufferSourceException (bb_wpos b) (bb_size b) cnt)
      else case src of
        None \<Rightarrow> Inl (ByteBufferSourceException (bb_wpos b) (bb_size b) cnt)
      | Some bs \<Rightarrow>
          if \<not> bb_size b < 10000000 then Inl AssertionFailure
          else let need = size_add (bb_wpos b) cnt;
                   st = (if bb_size b < need then resize_storage need (bb_storage b)
                         else bb_storage b)
               in if bb_wpos b + cnt \<le> length st \<and> cnt \<le> length bs
                  then Inr (b\<lparr>bb_storage := write_at (bb_wpos b) (take cnt bs) st,
                              bb_wpos := bb_wpos b + cnt\<rparr>)
                  else Inl OutOfBounds)"

definition append_word :: "'a::len word \<Rightarrow> byte_buffer \<Rightarrow> (bb_error, byte_buffer) result" where
  "append_word v b = append_raw (Some (to_le v)) (LENGTH('a) div 8) b"

definition append_buffer :: "byte_buffer \<Rightarrow> byte_buffer \<Rightarrow> (bb_error, byte_buffer) result" where
  "append_buffer other b =
     (if bb_wpos other \<noteq> 0
      then bind_result (bb_contents other) (\<lambda>src. append_raw (Some src) (bb_wpos other) b)
      else Inr b)"

definition put_raw ::
  "nat \<Rightarrow> uint8 list option \<Rightarrow> nat \<Rightarrow> byte_buffer \<Rightarrow> (bb_error, byte_buffer) result" where
  "put_raw pos src cnt b =
     (if size_add pos cnt > bb_size b
      then Inl (ByteBufferPositionException True pos cnt (bb_size b))
      else case src of
        None \<Rightarrow> Inl (ByteBufferSourceException (bb_wpos b) (bb_size b) cnt)
      | Some bs \<Rightarrow>
          if pos + cnt \<le> bb_size b \<and> cnt \<le> length bs
          then Inr (b\<lparr>bb_storage := write_at pos (take cnt bs) (bb_storage b)\<rparr>)
          else Inl OutOfBounds)"

definition put_word :: "nat \<Rightarrow> 'a::len word \<Rightarrow> byte_buffer \<Rightarrow> (bb_error, byte_buffer) result" where
  "put_word pos v b = put_raw pos (Some (to_le v)) (LENGTH('a) div 8) b"

definition byte_of_char :: "char \<Rightarrow> uint8" where
  "byte_of_char c = of_nat (of_char c)"

definition char_of_byte :: "uint8 \<Rightarrow> char" where
  "char_of_byte x = char_of (unat x)"

definition append_string :: "string \<Rightarrow> byte_buffer \<Rightarrow> (bb_error, byte_buffer) result" where
  "append_string s b =
     bind_result
       (if length s \<noteq> 0 then append_raw (Some (map byte_of_char s)) (length s) b else Inr b)
       (append_word (0 :: uint8))"

section \<open>Reading\<close>

definition read_skip :: "nat \<Rightarrow> byte_buffer \<Rightarrow> (bb_error, byte_buffer) result" where
  "read_skip skip b =
     (if size_add (bb_rpos b) skip > bb_size b
      then Inl (ByteBufferPositionException False (bb_rpos b) skip (bb_size b))
      else Inr (b\<lparr>bb_rpos := size_add (bb_rpos b) skip\<rparr>))"

definition read_word_at :: "nat \<Rightarrow> byte_buffer \<Rightarrow> (bb_error, 'a::len word) result" where
  "read_word_at pos b =
     (let n = LENGTH('a) div 8 in
      if size_add pos n > bb_size b
      then Inl (ByteBufferPositionException False pos n (bb_size b))
      else if pos + n \<le> bb_size b then Inr (from_le (take n (drop pos (bb_storage b))))
      else Inl OutOfBounds)"

definition read_word :: "byte_buffer \<Rightarrow> (bb_error, 'a::len word \<times> byte_buffer) result" where
  "read_word b =
     bind_result (read_word_at (bb_rpos b) b)
       (\<lambda>r :: 'a word. Inr (r, b\<lparr>bb_rpos := bb_rpos b + LENGTH('a) div 8\<rparr>))"

definition read_bytes :: "nat \<Rightarrow> byte_buffer \<Rightarrow> (bb_error, uint8 list \<times> byte_buffer) result" where
  "read_bytes len b =
     (if size_add (bb_rpos b) len > bb_size b
      then Inl (ByteBufferPositionException False (bb_rpos b) len (bb_size b))
      else if bb_rpos b + len \<le> bb_size b
      then Inr (take len (drop (bb_rpos b) (bb_storage b)), b\<lparr>bb_rpos := bb_rpos b + len\<rparr>)
      else Inl OutOfBounds)"

text \<open>\<open>operator>>(bool)\<close> reads a \<open>char\<close>, signed on the supported targets.\<close>

definition read_bool :: "byte_buffer \<Rightarrow> (bb_error, bool \<times> byte_buffer) result" where
  "read_bool b = bind_result (read_word b) (\<lambda>(c :: uint8, b'). Inr (sint c > 0, b'))"

text \<open>A \<open>float\<close> travels as its 32-bit pattern; reading rejects infinities and NaNs.\<close>

definition read_float_bits :: "byte_buffer \<Rightarrow> (bb_error, uint32 \<times> byte_buffer) result" where
  "read_float_bits b =
     bind_result (read_word b)
       (\<lambda>(v :: uint32, b'). if v AND 0x7F800000 = 0x7F800000 then Inl ByteBufferException
                            else Inr (v, b'))"

function read_string_loop :: "byte_buffer \<Rightarrow> string \<Rightarrow> (bb_error, string \<times> byte_buffer) result" where
  "read_string_loop b acc =
     (if bb_rpos b < bb_size b then
        case read_word b of
          Inl e \<Rightarrow> Inl e
        | Inr (c :: uint8, b') \<Rightarrow>
            if c = 0 then Inr (acc, b') else read_string_loop b' (acc @ [char_of_byte c])
      else Inr (acc, b))"
  by pat_completeness auto
termination
  by (relation "measure (\<lambda>(b, acc). bb_size b - bb_rpos b)")
    (auto simp: read_word_def bind_result_Inr_iff bb_size_def)

declare read_string_loop.simps [simp del]

definition read_string :: "byte_buffer \<Rightarrow> (bb_error, string \<times> byte_buffer) result" where
  "read_string b = read_string_loop b []"

section \<open>Packed guids\<close>

text \<open>
  The loop of \<open>appendPackGUID\<close>: bit \<open>i\<close> of the mask says that byte \<open>i\<close> of the guid is not
  zero and follows. It ends because the guid is shifted right by a byte in every iteration.
\<close>

lemma drop_bit_8_less: "g \<noteq> 0 \<Longrightarrow> unat (drop_bit 8 g) < unat (g :: uint64)"
  by (simp add: drop_bit_eq_div unat_div unat_gt_0)

function pack_guid_loop :: "nat \<Rightarrow> uint64 \<Rightarrow> uint8 \<Rightarrow> uint8 list \<Rightarrow> uint8 \<times> uint8 list" where
  "pack_guid_loop i g mk bs =
     (if g = 0 then (mk, bs)
      else if g AND 0xFF \<noteq> 0
      then pack_guid_loop (Suc i) (drop_bit 8 g) (mk OR push_bit i 1) (bs @ [ucast (g AND 0xFF)])
      else pack_guid_loop (Suc i) (drop_bit 8 g) mk bs)"
  by pat_completeness auto
termination
  by (relation "measure (\<lambda>(i, g, mk, bs). unat g)") (simp_all add: drop_bit_8_less)

declare pack_guid_loop.simps [simp del]

definition pack_guid_bytes :: "uint64 \<Rightarrow> uint8 list" where
  "pack_guid_bytes g = (case pack_guid_loop 0 g 0 [] of (mk, bs) \<Rightarrow> mk # bs)"

definition append_pack_guid :: "uint64 \<Rightarrow> byte_buffer \<Rightarrow> (bb_error, byte_buffer) result" where
  "append_pack_guid g b = append_raw (Some (pack_guid_bytes g)) (length (pack_guid_bytes g)) b"

fun unpack_guid_loop ::
  "nat list \<Rightarrow> uint8 \<Rightarrow> uint64 \<Rightarrow> byte_buffer \<Rightarrow> (bb_error, uint64 \<times> byte_buffer) result" where
  "unpack_guid_loop [] mark g b = Inr (g, b)"
| "unpack_guid_loop (i # is) mark g b =
     (if mark AND push_bit i 1 \<noteq> 0 then
        if size_add (bb_rpos b) 1 > bb_size b
        then Inl (ByteBufferPositionException False (bb_rpos b) 1 (bb_size b))
        else case read_word b of
               Inl e \<Rightarrow> Inl e
             | Inr (x :: uint8, b') \<Rightarrow>
                 unpack_guid_loop is mark (g OR push_bit (i * 8) (ucast x)) b'
      else unpack_guid_loop is mark g b)"

definition read_pack_guid :: "byte_buffer \<Rightarrow> (bb_error, uint64 \<times> byte_buffer) result" where
  "read_pack_guid b =
     (if size_add (bb_rpos b) 1 > bb_size b
      then Inl (ByteBufferPositionException False (bb_rpos b) 1 (bb_size b))
      else bind_result (read_word b)
             (\<lambda>(mark :: uint8, b'). unpack_guid_loop [0..<8] mark 0 b'))"

section \<open>Packed times\<close>

text \<open>
  The broken-down time fields the packed format carries (\<open>struct tm\<close>), at the width of
  \<open>int\<close>. \<open>localtime_r\<close> and \<open>mktime\<close> are functions of the C library and of the host's time
  zone: they are arguments of the two operations.
\<close>

record tm =
  tm_min :: uint32
  tm_hour :: uint32
  tm_mday :: uint32
  tm_mon :: uint32
  tm_year :: uint32
  tm_wday :: uint32

definition pack_time :: "tm \<Rightarrow> uint32" where
  "pack_time lt = push_bit 24 (tm_year lt - 100) OR push_bit 20 (tm_mon lt) OR
     push_bit 14 (tm_mday lt - 1) OR push_bit 11 (tm_wday lt) OR push_bit 6 (tm_hour lt) OR tm_min lt"

definition unpack_time :: "uint32 \<Rightarrow> tm" where
  "unpack_time p = \<lparr>tm_min = p AND 0x3F, tm_hour = drop_bit 6 p AND 0x1F,
     tm_mday = (drop_bit 14 p AND 0x3F) + 1, tm_mon = drop_bit 20 p AND 0xF,
     tm_year = (drop_bit 24 p AND 0x1F) + 100, tm_wday = 0\<rparr>"

definition append_packed_time ::
  "('t \<Rightarrow> tm) \<Rightarrow> 't \<Rightarrow> byte_buffer \<Rightarrow> (bb_error, byte_buffer) result" where
  "append_packed_time localtime_r t b = append_word (pack_time (localtime_r t)) b"

definition read_packed_time ::
  "(tm \<Rightarrow> uint32) \<Rightarrow> byte_buffer \<Rightarrow> (bb_error, uint32 \<times> byte_buffer) result" where
  "read_packed_time mktime b =
     bind_result (read_word b) (\<lambda>(p, b'). Inr (mktime (unpack_time p), b'))"

section \<open>Container operators\<close>

text \<open>
  \<open>operator<<\<close> and \<open>operator>>\<close> for \<open>std::vector<T>\<close>, \<open>std::list<T>\<close> and \<open>std::map<K, V>\<close>,
  over the element operators: a 32-bit count, then the elements.
\<close>

fun write_elems ::
  "('a \<Rightarrow> byte_buffer \<Rightarrow> (bb_error, byte_buffer) result) \<Rightarrow> 'a list \<Rightarrow> byte_buffer
    \<Rightarrow> (bb_error, byte_buffer) result" where
  "write_elems put [] b = Inr b"
| "write_elems put (x # xs) b = bind_result (put x b) (write_elems put xs)"

definition write_vector ::
  "('a \<Rightarrow> byte_buffer \<Rightarrow> (bb_error, byte_buffer) result) \<Rightarrow> 'a list \<Rightarrow> byte_buffer
    \<Rightarrow> (bb_error, byte_buffer) result" where
  "write_vector put v b =
     bind_result (append_word (of_nat (length v) :: uint32) b) (write_elems put v)"

fun read_elems ::
  "(byte_buffer \<Rightarrow> (bb_error, 'a \<times> byte_buffer) result) \<Rightarrow> nat \<Rightarrow> byte_buffer
    \<Rightarrow> (bb_error, 'a list \<times> byte_buffer) result" where
  "read_elems get 0 b = Inr ([], b)"
| "read_elems get (Suc n) b =
     bind_result (get b) (\<lambda>(x, b'). bind_result (read_elems get n b') (\<lambda>(xs, b''). Inr (x # xs, b'')))"

definition read_vector ::
  "(byte_buffer \<Rightarrow> (bb_error, 'a \<times> byte_buffer) result) \<Rightarrow> byte_buffer
    \<Rightarrow> (bb_error, 'a list \<times> byte_buffer) result" where
  "read_vector get b =
     bind_result (read_word b) (\<lambda>(vsize :: uint32, b'). read_elems get (unat vsize) b')"

definition write_pair ::
  "('k \<Rightarrow> byte_buffer \<Rightarrow> (bb_error, byte_buffer) result) \<Rightarrow>
   ('v \<Rightarrow> byte_buffer \<Rightarrow> (bb_error, byte_buffer) result) \<Rightarrow>
   'k \<times> 'v \<Rightarrow> byte_buffer \<Rightarrow> (bb_error, byte_buffer) result" where
  "write_pair putk putv p b = bind_result (putk (fst p) b) (putv (snd p))"

definition read_pair ::
  "(byte_buffer \<Rightarrow> (bb_error, 'k \<times> byte_buffer) result) \<Rightarrow>
   (byte_buffer \<Rightarrow> (bb_error, 'v \<times> byte_buffer) result) \<Rightarrow>
   byte_buffer \<Rightarrow> (bb_error, ('k \<times> 'v) \<times> byte_buffer) result" where
  "read_pair getk getv b =
     bind_result (getk b) (\<lambda>(k, b'). bind_result (getv b') (\<lambda>(v, b''). Inr ((k, v), b'')))"

definition write_map ::
  "('k \<Rightarrow> byte_buffer \<Rightarrow> (bb_error, byte_buffer) result) \<Rightarrow>
   ('v \<Rightarrow> byte_buffer \<Rightarrow> (bb_error, byte_buffer) result) \<Rightarrow>
   ('k, 'v) omap \<Rightarrow> byte_buffer \<Rightarrow> (bb_error, byte_buffer) result" where
  "write_map putk putv m b = write_vector (write_pair putk putv) m b"

text \<open>\<open>m.insert(make_pair(k, v))\<close> keeps an entry whose key is already present.\<close>

definition omap_insert :: "'k::linorder \<times> 'v \<Rightarrow> ('k, 'v) omap \<Rightarrow> ('k, 'v) omap" where
  "omap_insert p m = (if omap_has m (fst p) then m else omap_set (fst p) (snd p) m)"

definition read_map ::
  "(byte_buffer \<Rightarrow> (bb_error, 'k::linorder \<times> byte_buffer) result) \<Rightarrow>
   (byte_buffer \<Rightarrow> (bb_error, 'v \<times> byte_buffer) result) \<Rightarrow>
   byte_buffer \<Rightarrow> (bb_error, ('k, 'v) omap \<times> byte_buffer) result" where
  "read_map getk getv b =
     bind_result (read_vector (read_pair getk getv) b)
       (\<lambda>(ps, b'). Inr (fold omap_insert ps [], b'))"

section \<open>WorldPacket\<close>

text \<open>
  A packet under construction is its opcode and the values written to it with \<open>operator<<\<close>,
  in order, each with the overload that was chosen. \<open>serialize\<close> runs those writes on the
  buffer that \<open>Initialize\<close> has cleared.
\<close>

datatype field = U8 uint8 | U16 uint16 | U32 uint32 | U64 uint64 | Str string

datatype field_type = TU8 | TU16 | TU32 | TU64 | TStr

fun write_field :: "field \<Rightarrow> byte_buffer \<Rightarrow> (bb_error, byte_buffer) result" where
  "write_field (U8 v) b = append_word v b"
| "write_field (U16 v) b = append_word v b"
| "write_field (U32 v) b = append_word v b"
| "write_field (U64 v) b = append_word v b"
| "write_field (Str s) b = append_string s b"

fun read_field :: "field_type \<Rightarrow> byte_buffer \<Rightarrow> (bb_error, field \<times> byte_buffer) result" where
  "read_field TU8 b = bind_result (read_word b) (\<lambda>(v, b'). Inr (U8 v, b'))"
| "read_field TU16 b = bind_result (read_word b) (\<lambda>(v, b'). Inr (U16 v, b'))"
| "read_field TU32 b = bind_result (read_word b) (\<lambda>(v, b'). Inr (U32 v, b'))"
| "read_field TU64 b = bind_result (read_word b) (\<lambda>(v, b'). Inr (U64 v, b'))"
| "read_field TStr b = bind_result (read_string b) (\<lambda>(s, b'). Inr (Str s, b'))"

fun read_fields ::
  "field_type list \<Rightarrow> byte_buffer \<Rightarrow> (bb_error, field list \<times> byte_buffer) result" where
  "read_fields [] b = Inr ([], b)"
| "read_fields (t # ts) b =
     bind_result (read_field t b)
       (\<lambda>(x, b'). bind_result (read_fields ts b') (\<lambda>(xs, b''). Inr (x # xs, b'')))"

record world_packet =
  wp_opcode :: uint16
  wp_fields :: "field list"

definition wp_initialize :: "uint16 \<Rightarrow> world_packet \<Rightarrow> world_packet" where
  "wp_initialize opcode p = p\<lparr>wp_fields := [], wp_opcode := opcode\<rparr>"

definition wp_new :: "uint16 \<Rightarrow> world_packet" where
  "wp_new opcode = \<lparr>wp_opcode = opcode, wp_fields = []\<rparr>"

definition wp_add :: "field \<Rightarrow> world_packet \<Rightarrow> world_packet" where
  "wp_add f p = p\<lparr>wp_fields := wp_fields p @ [f]\<rparr>"

definition serialize :: "world_packet \<Rightarrow> (bb_error, byte_buffer) result" where
  "serialize p = write_elems write_field (wp_fields p) bb_new"

end
