(* ===== verification/Codec.thy ===== *)
theory Codec
  imports ByteBuffer
begin

text \<open>
  The laws of \<open>ByteBuffer\<close>: well-formed buffers, what each writer appends and each reader
  consumes, the locale \<open>codec\<close> with its interpretations, and the round trips of the
  container operators and of whole packets.
\<close>

section \<open>Little-endian encoding\<close>

lemma bit_from_le:
  "bit (from_le bs :: 'a::len word) n \<longleftrightarrow>
     n < LENGTH('a) \<and> n < 8 * length bs \<and> bit (bs ! (n div 8)) (n mod 8)"
proof (induction bs arbitrary: n)
  case Nil
  then show ?case by simp
next
  case (Cons x xs)
  show ?case
  proof (cases "n < 8")
    case True
    then show ?thesis by (auto simp: bit_or_iff bit_push_bit_iff bit_ucast_iff)
  next
    case False
    then obtain m where m: "n = m + 8" by (metis add.commute le_add_diff_inverse not_less)
    have "\<not> bit x n" using False bit_imp_le_length by fastforce
    with m Cons [of m] show ?thesis
      by (simp add: bit_or_iff bit_push_bit_iff bit_ucast_iff div_add_self2) auto
  qed
qed

lemma bit_le_byte: "bit (le_byte i w) n \<longleftrightarrow> n < 8 \<and> bit w (8 * i + n)"
  by (auto simp: le_byte_def bit_ucast_iff bit_drop_bit_eq)

lemma length_to_le [simp]: "length (to_le (w :: 'a::len word)) = LENGTH('a) div 8"
  by (simp add: to_le_def)

lemma from_to_le:
  fixes w :: "'a::len word"
  assumes "LENGTH('a) mod 8 = 0"
  shows "from_le (to_le w) = w"
proof (rule bit_eqI)
  fix n
  have "n < LENGTH('a) \<Longrightarrow> n div 8 < LENGTH('a) div 8"
    using assms by (simp add: less_mult_imp_div_less div_mult_mod_eq minus_mod_eq_div_mult [symmetric])
  then show "bit (from_le (to_le w) :: 'a word) n = bit w n"
    using assms bit_imp_le_length [of w n]
    by (auto simp: bit_from_le to_le_def bit_le_byte)
qed

lemma unat_byte_of_char: "unat (byte_of_char c) = of_char c"
  by (simp add: byte_of_char_def unat_of_nat)

lemma char_byte_inverse [simp]: "char_of_byte (byte_of_char c) = c"
  by (simp add: char_of_byte_def unat_byte_of_char)

lemma byte_of_char_0_iff [simp]: "byte_of_char c = 0 \<longleftrightarrow> c = CHR 0x00"
proof
  assume "byte_of_char c = 0"
  then have "c = char_of_byte 0" by (metis char_byte_inverse)
  then show "c = CHR 0x00" by (simp add: char_of_byte_def char_of_def)
qed (simp add: byte_of_char_def)

section \<open>Well-formed buffers\<close>

definition bb_ok :: "byte_buffer \<Rightarrow> bool" where
  "bb_ok b \<longleftrightarrow> bb_rpos b \<le> bb_size b \<and> bb_wpos b \<le> bb_size b \<and> bb_size b < 2 ^ 63"

definition bb_extend :: "uint8 list \<Rightarrow> byte_buffer \<Rightarrow> byte_buffer" where
  "bb_extend bs b = b\<lparr>bb_storage := bb_storage b @ bs, bb_wpos := bb_wpos b + length bs\<rparr>"

definition bb_advance :: "nat \<Rightarrow> byte_buffer \<Rightarrow> byte_buffer" where
  "bb_advance n b = b\<lparr>bb_rpos := bb_rpos b + n\<rparr>"

lemma size_add_small [simp]: "a + c < 2 ^ 64 \<Longrightarrow> size_add a c = a + c"
  by (simp add: size_add_def)

lemma size_add_0 [simp]: "size_add 0 n = n mod 2 ^ 64"
  by (simp add: size_add_def)

lemma bb_extend_simps [simp]:
  "bb_storage (bb_extend bs b) = bb_storage b @ bs"
  "bb_wpos (bb_extend bs b) = bb_wpos b + length bs"
  "bb_rpos (bb_extend bs b) = bb_rpos b"
  "bb_size (bb_extend bs b) = bb_size b + length bs"
  by (simp_all add: bb_extend_def bb_size_def)

lemma bb_advance_simps [simp]:
  "bb_storage (bb_advance n b) = bb_storage b"
  "bb_wpos (bb_advance n b) = bb_wpos b"
  "bb_rpos (bb_advance n b) = bb_rpos b + n"
  "bb_size (bb_advance n b) = bb_size b"
  by (simp_all add: bb_advance_def bb_size_def)

lemma bb_extend_extend: "bb_extend ys (bb_extend xs b) = bb_extend (xs @ ys) b"
  by (simp add: bb_extend_def)

lemma bb_extend_Nil [simp]: "bb_extend [] b = b"
  by (simp add: bb_extend_def)

lemma bb_advance_advance: "bb_advance m (bb_advance n b) = bb_advance (n + m) b"
  by (simp add: bb_advance_def)

lemma bb_advance_0 [simp]: "bb_advance 0 b = b"
  by (simp add: bb_advance_def)

text \<open>Appending at the end of the buffer, below the size the source asserts.\<close>

lemma append_raw_at_end:
  assumes "bb_wpos b = bb_size b" and "bs \<noteq> []" and "bb_size b + length bs \<le> 10000000"
  shows "append_raw (Some bs) (length bs) b = Inr (bb_extend bs b)"
proof -
  have "0 < length bs" using assms(2) by simp
  then have "bb_size b < 10000000" using assms(3) by linarith
  then show ?thesis
    using assms by (simp add: append_raw_def bb_extend_def resize_storage_def write_at_def bb_size_def)
qed

text \<open>Every failed write leaves a named error and every successful one grows the write position.\<close>

lemma append_raw_Inr:
  assumes "append_raw src cnt b = Inr b'"
  shows "bb_wpos b' = bb_wpos b + cnt \<and> bb_rpos b' = bb_rpos b \<and> cnt \<noteq> 0 \<and> bb_wpos b' \<le> bb_size b' \<and>
    bb_size b \<le> bb_size b'"
  using assms
  by (auto simp: append_raw_def Let_def bb_size_def write_at_def resize_storage_def
      split: option.splits if_splits)

text \<open>Reading a prefix of what is left.\<close>

lemma drop_eq_append_bounds:
  assumes "drop n xs = ys @ zs" and "n \<le> length xs"
  shows "n + length ys \<le> length xs"
  using assms by (metis add_le_cancel_left le_add1 le_add_diff_inverse length_append length_drop)

lemma read_word_prefix:
  fixes v :: "'a::len word"
  assumes "LENGTH('a) mod 8 = 0" and "bb_rpos b \<le> bb_size b" and "bb_size b < 2 ^ 63"
    and "drop (bb_rpos b) (bb_storage b) = to_le v @ rest"
  shows "read_word b = Inr (v, bb_advance (LENGTH('a) div 8) b)"
proof -
  have le: "bb_rpos b + LENGTH('a) div 8 \<le> bb_size b"
    using drop_eq_append_bounds [OF assms(4)] assms(2) by (simp add: bb_size_def)
  then have "size_add (bb_rpos b) (LENGTH('a) div 8) = bb_rpos b + LENGTH('a) div 8"
    using assms(3) by simp
  with le assms(4) show ?thesis
    by (simp add: read_word_def read_word_at_def Let_def from_to_le [OF assms(1)] bb_advance_def)
qed

section \<open>The codec contract\<close>

locale codec =
  fixes put :: "'a \<Rightarrow> byte_buffer \<Rightarrow> (bb_error, byte_buffer) result"
    and get :: "byte_buffer \<Rightarrow> (bb_error, 'a \<times> byte_buffer) result"
    and enc :: "'a \<Rightarrow> uint8 list"
    and valid :: "'a \<Rightarrow> bool"
  assumes put_enc: "valid x \<Longrightarrow> bb_wpos b = bb_size b \<Longrightarrow> bb_size b + length (enc x) \<le> 10000000 \<Longrightarrow>
      put x b = Inr (bb_extend (enc x) b)"
    and get_enc: "valid x \<Longrightarrow> bb_rpos b \<le> bb_size b \<Longrightarrow> bb_size b < 2 ^ 63 \<Longrightarrow>
      drop (bb_rpos b) (bb_storage b) = enc x @ rest \<Longrightarrow>
      get b = Inr (x, bb_advance (length (enc x)) b)"
begin

lemma put_get:
  assumes "valid x" and "bb_wpos b = bb_size b" and "bb_rpos b = bb_size b"
    and "bb_size b + length (enc x) \<le> 10000000"
  shows "\<exists>b'. put x b = Inr b' \<and> get b' = Inr (x, b'\<lparr>bb_rpos := bb_size b'\<rparr>)"
proof -
  have "get (bb_extend (enc x) b) = Inr (x, bb_advance (length (enc x)) (bb_extend (enc x) b))"
    using assms by (intro get_enc [where rest = "[]"]) (simp_all add: bb_size_def)
  moreover have "bb_advance (length (enc x)) (bb_extend (enc x) b) =
      (bb_extend (enc x) b)\<lparr>bb_rpos := bb_size (bb_extend (enc x) b)\<rparr>"
    using assms(3) by (simp add: bb_advance_def)
  ultimately show ?thesis using put_enc [OF assms(1,2,4)] by auto
qed

lemma write_elems_enc:
  "list_all valid xs \<Longrightarrow> bb_wpos b = bb_size b \<Longrightarrow>
   bb_size b + length (concat (map enc xs)) \<le> 10000000 \<Longrightarrow>
   write_elems put xs b = Inr (bb_extend (concat (map enc xs)) b)"
proof (induction xs arbitrary: b)
  case (Cons x xs)
  then have "put x b = Inr (bb_extend (enc x) b)" by (intro put_enc) simp_all
  with Cons.prems Cons.IH [of "bb_extend (enc x) b"] show ?case
    by (simp add: bb_extend_extend)
qed simp

lemma read_elems_enc:
  "list_all valid xs \<Longrightarrow> bb_rpos b \<le> bb_size b \<Longrightarrow> bb_size b < 2 ^ 63 \<Longrightarrow>
   drop (bb_rpos b) (bb_storage b) = concat (map enc xs) @ rest \<Longrightarrow>
   read_elems get (length xs) b = Inr (xs, bb_advance (length (concat (map enc xs))) b)"
proof (induction xs arbitrary: b)
  case (Cons x xs)
  let ?b = "bb_advance (length (enc x)) b"
  have get: "get b = Inr (x, ?b)"
    using Cons.prems by (intro get_enc [where rest = "concat (map enc xs) @ rest"]) simp_all
  have le: "bb_rpos ?b \<le> bb_size ?b"
    using drop_eq_append_bounds [of "bb_rpos b" "bb_storage b" "enc x"] Cons.prems
    by (simp add: bb_size_def)
  have "drop (bb_rpos ?b) (bb_storage ?b) = drop (length (enc x)) (drop (bb_rpos b) (bb_storage b))"
    by (simp add: add.commute)
  then have "drop (bb_rpos ?b) (bb_storage ?b) = concat (map enc xs) @ rest"
    using Cons.prems by simp
  then have "read_elems get (length xs) ?b = Inr (xs, bb_advance (length (concat (map enc xs))) ?b)"
    using Cons.prems le by (intro Cons.IH) simp_all
  with get show ?case by (simp add: bb_advance_advance)
qed simp

end

lemma append_word_at_end:
  fixes v :: "'a::len word"
  assumes "LENGTH('a) \<ge> 8" and "bb_wpos b = bb_size b"
    and "bb_size b + LENGTH('a) div 8 \<le> 10000000"
  shows "append_word v b = Inr (bb_extend (to_le v) b)"
  using append_raw_at_end [of b "to_le v"] assms by (auto simp: append_word_def to_le_def)

interpretation u8: codec append_word read_word to_le "\<lambda>_ :: uint8. True"
  by unfold_locales (simp_all add: append_word_at_end read_word_prefix)

interpretation u16: codec append_word read_word to_le "\<lambda>_ :: uint16. True"
  by unfold_locales (simp_all add: append_word_at_end read_word_prefix)

interpretation u32: codec append_word read_word to_le "\<lambda>_ :: uint32. True"
  by unfold_locales (simp_all add: append_word_at_end read_word_prefix)

interpretation u64: codec append_word read_word to_le "\<lambda>_ :: uint64. True"
  by unfold_locales (simp_all add: append_word_at_end read_word_prefix)

section \<open>Strings\<close>

text \<open>
  \<open>operator<<\<close> writes the characters and a terminating zero byte, \<open>operator>>\<close> stops at
  the first zero byte: the pair is a codec on the strings without a zero character.
\<close>

definition enc_string :: "string \<Rightarrow> uint8 list" where
  "enc_string s = map byte_of_char s @ [0]"

definition no_nul :: "string \<Rightarrow> bool" where
  "no_nul s \<longleftrightarrow> CHR 0x00 \<notin> set s"

lemma to_le_u8: "to_le (v :: uint8) = [v]"
  by (simp add: to_le_def le_byte_def)

lemma append_string_at_end:
  assumes "bb_wpos b = bb_size b" and "bb_size b + length (enc_string s) \<le> 10000000"
  shows "append_string s b = Inr (bb_extend (enc_string s) b)"
proof (cases "s = []")
  case True
  then show ?thesis
    using assms u8.put_enc [of b 0] by (simp add: append_string_def enc_string_def to_le_u8)
next
  case False
  then have "append_raw (Some (map byte_of_char s)) (length s) b = Inr (bb_extend (map byte_of_char s) b)"
    using append_raw_at_end [of b "map byte_of_char s"] assms by (simp add: enc_string_def)
  moreover have "append_word (0 :: uint8) (bb_extend (map byte_of_char s) b) =
      Inr (bb_extend [0] (bb_extend (map byte_of_char s) b))"
    using u8.put_enc [of "bb_extend (map byte_of_char s) b" 0] assms
    by (simp add: enc_string_def to_le_u8)
  ultimately show ?thesis
    using False by (simp add: append_string_def enc_string_def bb_extend_extend)
qed

lemma read_u8_Cons:
  assumes "bb_rpos b \<le> bb_size b" and "bb_size b < 2 ^ 63"
    and "drop (bb_rpos b) (bb_storage b) = x # rest"
  shows "read_word b = Inr (x, bb_advance 1 b)"
  using u8.get_enc [of b x rest] assms by (simp add: to_le_u8)

lemma read_string_loop_prefix:
  "no_nul s \<Longrightarrow> bb_rpos b \<le> bb_size b \<Longrightarrow> bb_size b < 2 ^ 63 \<Longrightarrow>
   drop (bb_rpos b) (bb_storage b) = enc_string s @ rest \<Longrightarrow>
   read_string_loop b acc = Inr (acc @ s, bb_advance (length (enc_string s)) b)"
proof (induction s arbitrary: b acc)
  case Nil
  then have lt: "bb_rpos b < bb_size b"
    by (metis append_is_Nil_conv bb_size_def drop_all enc_string_def leI not_Cons_self2)
  have "read_word b = Inr (0 :: uint8, bb_advance 1 b)"
    using Nil by (intro read_u8_Cons) (simp_all add: enc_string_def)
  with lt show ?case by (simp add: enc_string_def read_string_loop.simps [of b])
next
  case (Cons c s)
  let ?b = "bb_advance 1 b"
  have dr: "drop (bb_rpos b) (bb_storage b) = byte_of_char c # (enc_string s @ rest)"
    using Cons.prems by (simp add: enc_string_def)
  then have lt: "bb_rpos b < bb_size b"
    by (metis bb_size_def drop_all leI list.distinct(1))
  have rd: "read_word b = Inr (byte_of_char c, ?b)"
    using Cons.prems dr by (intro read_u8_Cons) simp_all
  have "drop (bb_rpos ?b) (bb_storage ?b) = drop 1 (drop (bb_rpos b) (bb_storage b))"
    by simp
  then have "drop (bb_rpos ?b) (bb_storage ?b) = enc_string s @ rest" using dr by simp
  then have "read_string_loop ?b (acc @ [c]) = Inr ((acc @ [c]) @ s, bb_advance (length (enc_string s)) ?b)"
    using Cons.prems lt by (intro Cons.IH) (simp_all add: no_nul_def)
  moreover have "c \<noteq> CHR 0x00" using Cons.prems by (auto simp: no_nul_def)
  ultimately show ?case
    using lt rd by (simp add: read_string_loop.simps [of b] bb_advance_advance enc_string_def)
qed

interpretation str: codec append_string read_string enc_string no_nul
  by unfold_locales
    (simp_all add: append_string_at_end read_string_def read_string_loop_prefix)

section \<open>Container operators\<close>

context codec
begin

lemma vector_roundtrip:
  assumes "list_all valid xs" and "bb_wpos b = bb_size b" and "bb_rpos b = bb_size b"
    and "length xs < 2 ^ 32" and "bb_size b + 4 + length (concat (map enc xs)) \<le> 10000000"
  shows "\<exists>b'. write_vector put xs b = Inr b' \<and>
    read_vector get b' = Inr (xs, b'\<lparr>bb_rpos := bb_size b'\<rparr>)"
proof -
  let ?n = "of_nat (length xs) :: uint32"
  let ?b1 = "bb_extend (to_le ?n) b"
  let ?b2 = "bb_extend (concat (map enc xs)) ?b1"
  have "append_word ?n b = Inr ?b1" using assms by (intro u32.put_enc) simp_all
  moreover have "write_elems put xs ?b1 = Inr ?b2" using assms by (intro write_elems_enc) simp_all
  ultimately have wr: "write_vector put xs b = Inr ?b2" by (simp add: write_vector_def)
  have rd: "read_word ?b2 = Inr (?n, bb_advance 4 ?b2)"
    using assms u32.get_enc [of ?b2 ?n "concat (map enc xs)"] by (simp add: bb_size_def)
  have "read_elems get (length xs) (bb_advance 4 ?b2) =
      Inr (xs, bb_advance (length (concat (map enc xs))) (bb_advance 4 ?b2))"
    using assms by (intro read_elems_enc [where rest = "[]"]) (simp_all add: bb_size_def)
  then have "read_vector get ?b2 = Inr (xs, bb_advance (4 + length (concat (map enc xs))) ?b2)"
    using rd assms(4) by (simp add: read_vector_def unat_of_nat bb_advance_advance)
  moreover have "bb_advance (4 + length (concat (map enc xs))) ?b2 = ?b2\<lparr>bb_rpos := bb_size ?b2\<rparr>"
    using assms(3) by (simp add: bb_advance_def)
  ultimately show ?thesis using wr by auto
qed

end

text \<open>Two codecs in sequence are a codec of pairs, and a map is a vector of pairs.\<close>

lemma omap_insert_last:
  "sorted_wrt (<) (map fst (m @ [p])) \<Longrightarrow> omap_insert p m = m @ [p]"
proof -
  assume srt: "sorted_wrt (<) (map fst (m @ [p]))"
  then have "\<not> omap_has m (fst p)"
    by (auto simp: omap_has_iff_key sorted_wrt_append)
  moreover have "omap_set (fst p) (snd p) m = m @ [p]"
    using srt by (induction m) (auto simp: sorted_wrt_append)
  ultimately show ?thesis by (simp add: omap_insert_def)
qed

lemma fold_omap_insert_sorted:
  "omap_ok (m @ ps) \<Longrightarrow> fold omap_insert ps m = m @ ps"
proof (induction ps arbitrary: m)
  case (Cons p ps)
  then have "omap_insert p m = m @ [p]"
    by (intro omap_insert_last) (auto simp: omap_ok_def sorted_wrt_append)
  with Cons show ?case by simp
qed simp

locale codec_pair =
  key: codec putk getk enck validk + val: codec putv getv encv validv
  for putk :: "'k::linorder \<Rightarrow> byte_buffer \<Rightarrow> (bb_error, byte_buffer) result"
    and getk enck validk
    and putv :: "'v \<Rightarrow> byte_buffer \<Rightarrow> (bb_error, byte_buffer) result"
    and getv encv validv
begin

lemma read_pair_enc:
  assumes "validk k" and "validv v" and "bb_rpos b \<le> bb_size b" and "bb_size b < 2 ^ 63"
    and dr: "drop (bb_rpos b) (bb_storage b) = (enck k @ encv v) @ rest"
  shows "read_pair getk getv b = Inr ((k, v), bb_advance (length (enck k @ encv v)) b)"
proof -
  let ?b = "bb_advance (length (enck k)) b"
  have "getk b = Inr (k, ?b)"
    using assms by (intro key.get_enc [where rest = "encv v @ rest"]) simp_all
  moreover have "getv ?b = Inr (v, bb_advance (length (encv v)) ?b)"
  proof (rule val.get_enc [where rest = rest])
    show "bb_rpos ?b \<le> bb_size ?b"
      using drop_eq_append_bounds [of "bb_rpos b" "bb_storage b" "enck k"] assms
      by (simp add: bb_size_def)
    have "drop (bb_rpos ?b) (bb_storage ?b) = drop (length (enck k)) (drop (bb_rpos b) (bb_storage b))"
      by (simp add: add.commute)
    then show "drop (bb_rpos ?b) (bb_storage ?b) = encv v @ rest" using dr by simp
  qed (use assms in simp_all)
  ultimately show ?thesis by (simp add: read_pair_def bb_advance_advance)
qed

end

sublocale codec_pair \<subseteq> pair: codec "write_pair putk putv" "read_pair getk getv"
    "\<lambda>p. enck (fst p) @ encv (snd p)" "\<lambda>p. validk (fst p) \<and> validv (snd p)"
proof (unfold_locales, goal_cases)
  case (1 p b)
  then have "putk (fst p) b = Inr (bb_extend (enck (fst p)) b)" by (intro key.put_enc) simp_all
  moreover have "putv (snd p) (bb_extend (enck (fst p)) b) =
      Inr (bb_extend (encv (snd p)) (bb_extend (enck (fst p)) b))"
    using 1 by (intro val.put_enc) simp_all
  ultimately show ?case by (simp add: write_pair_def bb_extend_extend)
next
  case (2 p b rest)
  then show ?case using read_pair_enc [of "fst p" "snd p" b rest] by simp
qed

context codec_pair
begin

lemma map_roundtrip:
  assumes "list_all (\<lambda>p. validk (fst p) \<and> validv (snd p)) m" and "omap_ok m"
    and "bb_wpos b = bb_size b" and "bb_rpos b = bb_size b" and "length m < 2 ^ 32"
    and "bb_size b + 4 + length (concat (map (\<lambda>p. enck (fst p) @ encv (snd p)) m)) \<le> 10000000"
  shows "\<exists>b'. write_map putk putv m b = Inr b' \<and>
    read_map getk getv b' = Inr (m, b'\<lparr>bb_rpos := bb_size b'\<rparr>)"
proof -
  obtain b' where "write_map putk putv m b = Inr b'"
    and "read_vector (read_pair getk getv) b' = Inr (m, b'\<lparr>bb_rpos := bb_size b'\<rparr>)"
    using pair.vector_roundtrip [of m b] assms by (auto simp: write_map_def)
  then show ?thesis
    using fold_omap_insert_sorted [of "[]" m] assms(2) by (auto simp: read_map_def)
qed

end

interpretation u32_u32: codec_pair
  "append_word :: uint32 \<Rightarrow> _" read_word to_le "\<lambda>_. True"
  "append_word :: uint32 \<Rightarrow> _" read_word to_le "\<lambda>_. True"
  by unfold_locales

section \<open>Packed guids\<close>

definition guid_joined :: "nat list \<Rightarrow> uint64 \<Rightarrow> uint64" where
  "guid_joined is g = foldr (\<lambda>j a. push_bit (j * 8) (ucast (le_byte j g)) OR a) is 0"

definition guid_mark :: "nat list \<Rightarrow> uint64 \<Rightarrow> uint8" where
  "guid_mark is g = foldr (\<lambda>j m. (if le_byte j g \<noteq> 0 then push_bit j 1 else 0) OR m) is 0"

definition guid_payload :: "nat list \<Rightarrow> uint64 \<Rightarrow> uint8 list" where
  "guid_payload is g = filter (\<lambda>x. x \<noteq> 0) (map (\<lambda>j. le_byte j g) is)"

lemma guid_Cons:
  "guid_joined (j # js) g = push_bit (j * 8) (ucast (le_byte j g)) OR guid_joined js g"
  "guid_mark (j # js) g = (if le_byte j g \<noteq> 0 then 2 ^ j else 0) OR guid_mark js g"
  "guid_payload (j # js) g = (if le_byte j g \<noteq> 0 then [le_byte j g] else []) @ guid_payload js g"
  by (simp_all add: guid_joined_def guid_mark_def guid_payload_def)

lemma guid_Nil:
  "guid_joined [] g = 0" "guid_mark [] g = 0" "guid_payload [] g = []"
  by (simp_all add: guid_joined_def guid_mark_def guid_payload_def)

lemma bit_guid_joined:
  "bit (guid_joined is g) n \<longleftrightarrow> n < 64 \<and> n div 8 \<in> set is \<and> bit g n"
proof (induction "is")
  case (Cons j js)
  have "bit (push_bit (j * 8) (ucast (le_byte j g)) :: uint64) n \<longleftrightarrow> n < 64 \<and> n div 8 = j \<and> bit g n"
  proof (cases "n div 8 = j")
    case True
    then have "j * 8 \<le> n" "n - j * 8 < 8" "8 * j + (n - j * 8) = n" by auto
    then show ?thesis using True by (auto simp: bit_push_bit_iff bit_ucast_iff bit_le_byte)
  next
    case False
    then show ?thesis by (auto simp: bit_push_bit_iff bit_ucast_iff bit_le_byte)
  qed
  with Cons show ?case by (auto simp: guid_joined_def bit_or_iff)
qed (simp add: guid_joined_def)

lemma guid_joined_all: "guid_joined [0..<8] g = g"
  by (rule bit_eqI) (auto simp: bit_guid_joined)

lemma bit_guid_mark: "bit (guid_mark is g) n \<longleftrightarrow> n < 8 \<and> n \<in> set is \<and> le_byte n g \<noteq> 0"
  by (induction "is") (auto simp: guid_mark_def bit_or_iff bit_exp_iff)

lemma le_byte_shifted: "drop_bit (8 * i) g = 0 \<Longrightarrow> i \<le> j \<Longrightarrow> le_byte j g = 0"
  by (metis drop_bit_drop_bit drop_bit_of_0 le_add_diff_inverse2 le_byte_def
      mult_le_mono2 unsigned_0)

lemma mask_0xFF: "(0xFF :: uint64) = mask 8"
  by (simp add: mask_eq_exp_minus_1)

lemma low_byte_shift: "ucast (drop_bit (8 * i) g AND 0xFF) = le_byte i (g :: uint64)"
  unfolding mask_0xFF
  by (rule bit_eqI) (auto simp: bit_le_byte bit_ucast_iff bit_and_iff bit_drop_bit_eq bit_mask_iff)

lemma low_byte_zero_iff: "drop_bit (8 * i) g AND 0xFF = 0 \<longleftrightarrow> le_byte i (g :: uint64) = 0"
proof
  assume "le_byte i g = 0"
  then have "\<And>n. n < 8 \<Longrightarrow> \<not> bit g (8 * i + n)" using bit_le_byte [of i g] by simp
  then show "drop_bit (8 * i) g AND 0xFF = 0"
    unfolding mask_0xFF by (intro bit_eqI) (auto simp: bit_and_iff bit_drop_bit_eq bit_mask_iff)
qed (metis low_byte_shift unsigned_0)

lemma guid_rest_zero:
  "drop_bit (8 * i) g = 0 \<Longrightarrow> guid_mark [i..<8] g = 0 \<and> guid_payload [i..<8] g = []"
  by (auto simp: guid_payload_def filter_empty_conv le_byte_shifted
      intro!: bit_eqI simp: bit_guid_mark)

lemma pack_guid_loop_spec:
  "i \<le> 8 \<Longrightarrow> pack_guid_loop i (drop_bit (8 * i) g) mk bs =
     (mk OR guid_mark [i..<8] g, bs @ guid_payload [i..<8] g)"
proof (induction "8 - i" arbitrary: i mk bs)
  case 0
  then have "drop_bit (8 * i) g = 0" by (auto intro: bit_eqI simp: bit_drop_bit_eq)
  with 0 show ?case by (simp add: pack_guid_loop.simps guid_mark_def guid_payload_def)
next
  case (Suc k)
  show ?case
  proof (cases "drop_bit (8 * i) g = 0")
    case True
    then show ?thesis using guid_rest_zero [OF True] by (simp add: pack_guid_loop.simps)
  next
    case False
    have up: "[i..<8] = i # [Suc i..<8]" using Suc by (simp add: upt_conv_Cons)
    have sh: "drop_bit 8 (drop_bit (8 * i) g) = drop_bit (8 + 8 * i) g"
      by (simp add: drop_bit_drop_bit add.commute)
    have IH: "pack_guid_loop (Suc i) (drop_bit (8 + 8 * i) g) mk' bs' =
        (mk' OR guid_mark [Suc i..<8] g, bs' @ guid_payload [Suc i..<8] g)" for mk' bs'
      using Suc.hyps(1) [of "Suc i"] Suc.hyps(2) by simp
    show ?thesis
      using False
      by (subst pack_guid_loop.simps)
        (simp add: low_byte_zero_iff low_byte_shift sh IH up guid_Cons or.assoc)
  qed
qed

lemma pack_guid_bytes_eq: "pack_guid_bytes g = guid_mark [0..<8] g # guid_payload [0..<8] g"
  using pack_guid_loop_spec [of 0 g 0 "[]"] by (simp add: pack_guid_bytes_def)

lemma unpack_guid_loop_spec:
  "set is \<subseteq> {..<8} \<Longrightarrow> (\<forall>j\<in>set is. bit mk j \<longleftrightarrow> le_byte j g \<noteq> 0) \<Longrightarrow>
   bb_rpos b \<le> bb_size b \<Longrightarrow> bb_size b < 2 ^ 63 \<Longrightarrow>
   drop (bb_rpos b) (bb_storage b) = guid_payload is g @ rest \<Longrightarrow>
   unpack_guid_loop is mk a b =
     Inr (a OR guid_joined is g, bb_advance (length (guid_payload is g)) b)"
proof (induction "is" arbitrary: a b)
  case Nil
  then show ?case by (simp add: guid_Nil)
next
  case (Cons i js)
  show ?case
  proof (cases "le_byte i g = 0")
    case True
    with Cons show ?thesis by (simp add: and_exp_eq_0_iff_not_bit guid_Cons)
  next
    case False
    let ?b = "bb_advance 1 b"
    have dr: "drop (bb_rpos b) (bb_storage b) = le_byte i g # (guid_payload js g @ rest)"
      using Cons.prems False by (simp add: guid_Cons)
    then have lt: "bb_rpos b < bb_size b"
      by (metis bb_size_def drop_all leI list.distinct(1))
    have rd: "read_word b = Inr (le_byte i g, ?b)"
      using Cons.prems dr by (intro read_u8_Cons) simp_all
    have "drop (bb_rpos ?b) (bb_storage ?b) = drop 1 (drop (bb_rpos b) (bb_storage b))" by simp
    then have "drop (bb_rpos ?b) (bb_storage ?b) = guid_payload js g @ rest" using dr by simp
    then have "unpack_guid_loop js mk a' ?b =
        Inr (a' OR guid_joined js g, bb_advance (length (guid_payload js g)) ?b)" for a'
      using Cons.prems lt by (intro Cons.IH) simp_all
    with False lt rd Cons.prems show ?thesis
      by (simp add: and_exp_eq_0_iff_not_bit guid_Cons bb_advance_advance or.assoc)
  qed
qed

interpretation pguid: codec append_pack_guid read_pack_guid pack_guid_bytes "\<lambda>_. True"
proof (unfold_locales, goal_cases)
  case (1 x b)
  then show ?case
    using append_raw_at_end [of b "pack_guid_bytes x"]
    by (simp add: append_pack_guid_def pack_guid_bytes_eq)
next
  case (2 x b rest)
  then have dr: "drop (bb_rpos b) (bb_storage b) = guid_mark [0..<8] x # (guid_payload [0..<8] x @ rest)"
    by (simp add: pack_guid_bytes_eq)
  then have lt: "bb_rpos b < bb_size b" by (metis bb_size_def drop_all leI list.distinct(1))
  have rd: "read_word b = Inr (guid_mark [0..<8] x, bb_advance 1 b)"
    using 2 dr by (intro read_u8_Cons) simp_all
  have "drop (bb_rpos (bb_advance 1 b)) (bb_storage (bb_advance 1 b)) =
      drop 1 (drop (bb_rpos b) (bb_storage b))" by simp
  then have "drop (bb_rpos (bb_advance 1 b)) (bb_storage (bb_advance 1 b)) =
      guid_payload [0..<8] x @ rest" using dr by simp
  then have "unpack_guid_loop [0..<8] (guid_mark [0..<8] x) 0 (bb_advance 1 b) =
      Inr (0 OR guid_joined [0..<8] x, bb_advance (length (guid_payload [0..<8] x)) (bb_advance 1 b))"
    using 2 lt by (intro unpack_guid_loop_spec) (auto simp: bit_guid_mark)
  with rd lt 2 show ?case
    by (simp add: read_pack_guid_def guid_joined_all pack_guid_bytes_eq bb_advance_advance)
qed

end
