(* ===== verification/Packets.thy ===== *)
theory Packets
  imports Codec
begin

text \<open>
  Properties of the buffer and of whole packets: the round trip of every packet a component
  builds, the packed time format, random access, and what the bound checks guarantee.
\<close>

section \<open>Whole packets\<close>

fun enc_field :: "field \<Rightarrow> uint8 list" where
  "enc_field (U8 v) = to_le v"
| "enc_field (U16 v) = to_le v"
| "enc_field (U32 v) = to_le v"
| "enc_field (U64 v) = to_le v"
| "enc_field (Str s) = enc_string s"

fun ftype :: "field \<Rightarrow> field_type" where
  "ftype (U8 v) = TU8"
| "ftype (U16 v) = TU16"
| "ftype (U32 v) = TU32"
| "ftype (U64 v) = TU64"
| "ftype (Str s) = TStr"

fun field_ok :: "field \<Rightarrow> bool" where
  "field_ok (Str s) = no_nul s"
| "field_ok _ = True"

lemma write_field_enc:
  "field_ok f \<Longrightarrow> bb_wpos b = bb_size b \<Longrightarrow> bb_size b + length (enc_field f) \<le> 10000000 \<Longrightarrow>
   write_field f b = Inr (bb_extend (enc_field f) b)"
  by (cases f) (simp_all add: u8.put_enc u16.put_enc u32.put_enc u64.put_enc str.put_enc)

lemma read_field_enc:
  "field_ok f \<Longrightarrow> bb_rpos b \<le> bb_size b \<Longrightarrow> bb_size b < 2 ^ 63 \<Longrightarrow>
   drop (bb_rpos b) (bb_storage b) = enc_field f @ rest \<Longrightarrow>
   read_field (ftype f) b = Inr (f, bb_advance (length (enc_field f)) b)"
  by (cases f)
    (auto dest!: u8.get_enc [rotated 3] u16.get_enc [rotated 3] u32.get_enc [rotated 3]
      u64.get_enc [rotated 3] str.get_enc [rotated 3])

interpretation fld: codec write_field "read_field t" enc_field "\<lambda>f. ftype f = t \<and> field_ok f" for t
  by unfold_locales (auto simp: write_field_enc read_field_enc)

definition packet_bytes :: "world_packet \<Rightarrow> uint8 list" where
  "packet_bytes p = concat (map enc_field (wp_fields p))"

lemma bb_new_simps [simp]:
  "bb_size bb_new = 0" "bb_wpos bb_new = 0" "bb_rpos bb_new = 0" "bb_storage bb_new = []"
  by (simp_all add: bb_new_def bb_size_def)

lemma write_fields_enc:
  "list_all field_ok fs \<Longrightarrow> bb_wpos b = bb_size b \<Longrightarrow>
   bb_size b + length (concat (map enc_field fs)) \<le> 10000000 \<Longrightarrow>
   write_elems write_field fs b = Inr (bb_extend (concat (map enc_field fs)) b)"
proof (induction fs arbitrary: b)
  case (Cons f fs)
  then have "write_field f b = Inr (bb_extend (enc_field f) b)" by (intro write_field_enc) simp_all
  with Cons.prems Cons.IH [of "bb_extend (enc_field f) b"] show ?case
    by (simp add: bb_extend_extend)
qed simp

lemma read_fields_enc:
  "list_all field_ok fs \<Longrightarrow> bb_rpos b \<le> bb_size b \<Longrightarrow> bb_size b < 2 ^ 63 \<Longrightarrow>
   drop (bb_rpos b) (bb_storage b) = concat (map enc_field fs) @ rest \<Longrightarrow>
   read_fields (map ftype fs) b = Inr (fs, bb_advance (length (concat (map enc_field fs))) b)"
proof (induction fs arbitrary: b)
  case (Cons f fs)
  let ?b = "bb_advance (length (enc_field f)) b"
  have rd: "read_field (ftype f) b = Inr (f, ?b)"
    using Cons.prems by (intro read_field_enc [where rest = "concat (map enc_field fs) @ rest"]) simp_all
  have le: "bb_rpos ?b \<le> bb_size ?b"
    using drop_eq_append_bounds [of "bb_rpos b" "bb_storage b" "enc_field f"] Cons.prems
    by (simp add: bb_size_def)
  have "drop (bb_rpos ?b) (bb_storage ?b) = drop (length (enc_field f)) (drop (bb_rpos b) (bb_storage b))"
    by (simp add: add.commute)
  then have "drop (bb_rpos ?b) (bb_storage ?b) = concat (map enc_field fs) @ rest"
    using Cons.prems by simp
  then have "read_fields (map ftype fs) ?b =
      Inr (fs, bb_advance (length (concat (map enc_field fs))) ?b)"
    using Cons.prems le by (intro Cons.IH) simp_all
  with rd show ?case by (simp add: bb_advance_advance)
qed simp

lemma serialize_bytes:
  assumes "list_all field_ok (wp_fields p)" and "length (packet_bytes p) \<le> 10000000"
  shows "serialize p = Inr (bb_extend (packet_bytes p) bb_new)"
  using assms write_fields_enc [of "wp_fields p" bb_new]
  by (simp add: serialize_def packet_bytes_def)

text \<open>
  C1. Every packet a component builds from integers and zero-free strings, of at most
  10,000,000 bytes, is serialised without error, and reading its fields back in order yields
  exactly the values written and consumes the whole buffer.
\<close>

theorem packet_roundtrip:
  assumes "list_all field_ok (wp_fields p)" and "length (packet_bytes p) \<le> 10000000"
  shows "\<exists>b. serialize p = Inr b \<and> bb_storage b = packet_bytes p \<and>
    read_fields (map ftype (wp_fields p)) b = Inr (wp_fields p, bb_rfinish b)"
proof -
  let ?b = "bb_extend (packet_bytes p) bb_new"
  have "read_fields (map ftype (wp_fields p)) ?b =
      Inr (wp_fields p, bb_advance (length (packet_bytes p)) ?b)"
    using assms read_fields_enc [of "wp_fields p" ?b "[]"] by (simp add: packet_bytes_def)
  moreover have "bb_advance (length (packet_bytes p)) ?b = bb_rfinish ?b"
    by (simp add: bb_advance_def bb_rfinish_def)
  ultimately show ?thesis using serialize_bytes [OF assms] by simp
qed

theorem packet_roundtrip_witness:
  "\<exists>b. serialize \<lparr>wp_opcode = 0x99, wp_fields = [U8 2, Str ''world'', U32 7]\<rparr> = Inr b \<and>
    bb_storage b = packet_bytes \<lparr>wp_opcode = 0x99, wp_fields = [U8 2, Str ''world'', U32 7]\<rparr> \<and>
    read_fields (map ftype [U8 2, Str ''world'', U32 7]) b =
      Inr ([U8 2, Str ''world'', U32 7], bb_rfinish b)"
  using packet_roundtrip [of "\<lparr>wp_opcode = 0x99, wp_fields = [U8 2, Str ''world'', U32 7]\<rparr>"]
  by (simp add: no_nul_def packet_bytes_def enc_string_def)

section \<open>Packed guids and containers\<close>

text \<open>
  C31. A guid written with \<open>appendPackGUID\<close> at the end of a buffer takes at most nine bytes and
  is read back unchanged by \<open>readPackGUID\<close>, whatever its value.
\<close>

theorem pack_guid_roundtrip:
  assumes "bb_wpos b = bb_size b" and "bb_rpos b = bb_size b" and "bb_size b \<le> 9999991"
  shows "\<exists>b'. append_pack_guid g b = Inr b' \<and> bb_size b' \<le> bb_size b + 9 \<and>
    read_pack_guid b' = Inr (g, bb_rfinish b')"
proof -
  have "length (guid_payload [0..<8] g) \<le> length [0..<8 :: nat]"
    unfolding guid_payload_def by (rule order_trans [OF length_filter_le]) simp
  then have len: "length (pack_guid_bytes g) \<le> 9" by (simp add: pack_guid_bytes_eq)
  then have fits: "bb_size b + length (pack_guid_bytes g) \<le> 10000000" using assms(3) by simp
  have wr: "append_pack_guid g b = Inr (bb_extend (pack_guid_bytes g) b)"
    using pguid.put_enc [of b g] assms fits by simp
  obtain b' where b': "append_pack_guid g b = Inr b'"
    and rd: "read_pack_guid b' = Inr (g, b'\<lparr>bb_rpos := bb_size b'\<rparr>)"
    using pguid.put_get [of b g] assms fits by blast
  with wr have eq: "b' = bb_extend (pack_guid_bytes g) b" by simp
  then have "bb_wpos b' = bb_size b'" using assms(1) by simp
  then show ?thesis using b' rd eq len by (auto simp: bb_rfinish_def)
qed

theorem pack_guid_roundtrip_witness:
  "\<exists>b'. append_pack_guid 0x0100000000000A05 bb_new = Inr b' \<and> bb_size b' \<le> bb_size bb_new + 9 \<and>
    read_pack_guid b' = Inr (0x0100000000000A05, bb_rfinish b')"
  by (rule pack_guid_roundtrip) simp_all

text \<open>
  A \<open>std::map\<close> of 32-bit keys and values written at the end of a buffer and read back
  gives the same map, in the same iteration order.
\<close>

theorem map_u32_roundtrip:
  assumes "omap_ok (m :: (uint32, uint32) omap)" and "length m \<le> 1000000"
  shows "\<exists>b. write_map append_word append_word m bb_new = Inr b \<and>
    read_map read_word read_word b = Inr (m, bb_rfinish b)"
proof -
  have len: "length (concat (map (\<lambda>p. to_le (fst p) @ to_le (snd p)) m)) = 8 * length m"
    by (induction m) simp_all
  obtain b where b: "write_map append_word append_word m bb_new = Inr b"
    and rd: "read_map read_word read_word b = Inr (m, b\<lparr>bb_rpos := bb_size b\<rparr>)"
    using u32_u32.map_roundtrip [of m bb_new] assms len by (auto simp: list_all_iff)
  moreover have "bb_wpos b = bb_size b"
  proof -
    let ?enc = "\<lambda>p :: uint32 \<times> uint32. to_le (fst p) @ to_le (snd p)"
    let ?n = "of_nat (length m) :: uint32"
    have "write_elems (write_pair append_word append_word) m (bb_extend (to_le ?n) bb_new) =
        Inr (bb_extend (concat (map ?enc m)) (bb_extend (to_le ?n) bb_new))"
      using assms len by (intro u32_u32.pair.write_elems_enc) (simp_all add: list_all_iff)
    moreover have "append_word ?n bb_new = Inr (bb_extend (to_le ?n) bb_new)"
      by (rule u32.put_enc) simp_all
    ultimately have "b = bb_extend (concat (map ?enc m)) (bb_extend (to_le ?n) bb_new)"
      using b by (simp add: write_map_def write_vector_def)
    then show ?thesis by simp
  qed
  ultimately show ?thesis by (auto simp: bb_rfinish_def)
qed

theorem map_u32_roundtrip_witness:
  "\<exists>b. write_map append_word append_word [(3 :: uint32, 70 :: uint32), (9, 1)] bb_new = Inr b \<and>
    read_map read_word read_word b = Inr ([(3 :: uint32, 70 :: uint32), (9, 1)], bb_rfinish b)"
  by (rule map_u32_roundtrip) (simp_all add: omap_ok_def)

section \<open>Bound checks\<close>

text \<open>
  C32. On a buffer whose read position is inside the storage, a typed read never touches memory
  outside it: it succeeds exactly when enough bytes are left, otherwise throws the position
  exception with the position, the width and the size, and a success leaves the buffer
  well formed.
\<close>

theorem read_word_bounds:
  assumes "bb_ok b" and "LENGTH('a::len) < 2 ^ 32"
  shows "(if bb_rpos b + LENGTH('a) div 8 \<le> bb_size b
     then \<exists>v :: 'a word. \<exists>b'. read_word b = Inr (v, b') \<and> bb_ok b' \<and> bb_storage b' = bb_storage b
     else (read_word b :: (bb_error, 'a word \<times> byte_buffer) result) =
       Inl (ByteBufferPositionException False (bb_rpos b) (LENGTH('a) div 8) (bb_size b)))"
proof -
  have "bb_rpos b + LENGTH('a) div 8 < 2 ^ 64"
  proof -
    have "LENGTH('a) div 8 < 2 ^ 32" using assms(2) by linarith
    then show ?thesis using assms(1) by (simp add: bb_ok_def)
  qed
  then show ?thesis
    using assms(1) by (auto simp: read_word_def read_word_at_def Let_def bb_ok_def bb_size_def)
qed

theorem read_word_bounds_witness:
  "(read_word (bb_extend [1, 2, 3] bb_new) :: (bb_error, uint32 \<times> byte_buffer) result) =
     Inl (ByteBufferPositionException False 0 4 3)"
  using read_word_bounds [of "bb_extend [1, 2, 3] bb_new", where 'a = 32] by (simp add: bb_ok_def)

text \<open>
  The bound check \<open>pos + sizeof(T) > size()\<close> is computed modulo 2^64: after \<open>rpos(n)\<close> has
  set the read position to the largest \<open>size_t\<close>, a one-byte read on any buffer passes the
  check and reads outside the storage.
\<close>

theorem read_after_rpos_wraps:
  assumes "bb_size b < 2 ^ 63"
  shows "(read_word (bb_set_rpos (2 ^ 64 - 1) b) :: (bb_error, uint8 \<times> byte_buffer) result) =
     Inl OutOfBounds"
  using assms
  by (simp add: read_word_def read_word_at_def Let_def bb_set_rpos_def bb_size_def size_add_def)

theorem read_after_rpos_wraps_witness:
  "bb_size (bb_extend [7] bb_new) < 2 ^ 63 \<and>
   (read_word (bb_set_rpos (2 ^ 64 - 1) (bb_extend [7] bb_new)) ::
      (bb_error, uint8 \<times> byte_buffer) result) = Inl OutOfBounds"
proof
  show size: "bb_size (bb_extend [7] bb_new) < 2 ^ 63" by simp
  show "(read_word (bb_set_rpos (2 ^ 64 - 1) (bb_extend [7] bb_new)) ::
      (bb_error, uint8 \<times> byte_buffer) result) = Inl OutOfBounds"
    by (rule read_after_rpos_wraps [OF size])
qed

section \<open>Packed times\<close>

lemma bit_below: "x < 2 ^ k \<Longrightarrow> bit (x :: uint32) n \<Longrightarrow> n < k"
  by (metis bit_take_bit_iff less_mask_eq take_bit_eq_mask)

lemma masks_u32:
  "(0x3F :: uint32) = mask 6" "(0x1F :: uint32) = mask 5" "(0xF :: uint32) = mask 4"
  by (simp_all add: mask_eq_exp_minus_1)

text \<open>The fields of a broken-down time as \<open>localtime_r\<close> fills them, for the years 2000 to 2031.\<close>

definition tm_in_range :: "tm \<Rightarrow> bool" where
  "tm_in_range lt \<longleftrightarrow> tm_min lt < 2 ^ 6 \<and> tm_hour lt < 2 ^ 5 \<and> tm_wday lt < 2 ^ 3 \<and>
     tm_mday lt - 1 < 2 ^ 6 \<and> tm_mon lt < 2 ^ 4 \<and> tm_year lt - 100 < 2 ^ 5"

lemma unpack_pack_fields:
  assumes "mi < 2 ^ 6" "ho < 2 ^ 5" "wd < 2 ^ 3" "da < 2 ^ 6" "mo < 2 ^ 4" "ye < (2 :: uint32) ^ 5"
  defines "p \<equiv> push_bit 24 ye OR push_bit 20 mo OR push_bit 14 da OR push_bit 11 wd OR push_bit 6 ho OR mi"
  shows "p AND 0x3F = mi" "drop_bit 6 p AND 0x1F = ho" "drop_bit 14 p AND 0x3F = da"
    "drop_bit 20 p AND 0xF = mo" "drop_bit 24 p AND 0x1F = ye"
proof -
  note below = bit_below [OF assms(1)] bit_below [OF assms(2)] bit_below [OF assms(3)]
    bit_below [OF assms(4)] bit_below [OF assms(5)] bit_below [OF assms(6)]
  note bits = bit_and_iff bit_or_iff bit_push_bit_iff bit_drop_bit_eq bit_mask_iff
  show "p AND 0x3F = mi"
    unfolding masks_u32 p_def by (rule bit_eqI) (auto simp: bits dest: below)
  show "drop_bit 6 p AND 0x1F = ho"
    unfolding masks_u32 p_def by (rule bit_eqI) (auto simp: bits dest: below)
  show "drop_bit 14 p AND 0x3F = da"
    unfolding masks_u32 p_def by (rule bit_eqI) (auto simp: bits dest: below)
  show "drop_bit 20 p AND 0xF = mo"
    unfolding masks_u32 p_def by (rule bit_eqI) (auto simp: bits dest: below)
  show "drop_bit 24 p AND 0x1F = ye"
    unfolding masks_u32 p_def by (rule bit_eqI) (auto simp: bits dest: below)
qed

lemma unpack_pack_time:
  assumes "tm_in_range lt"
  shows "unpack_time (pack_time lt) = lt\<lparr>tm_wday := 0\<rparr>"
proof -
  have r: "tm_min lt < 2 ^ 6" "tm_hour lt < 2 ^ 5" "tm_wday lt < 2 ^ 3" "tm_mday lt - 1 < 2 ^ 6"
    "tm_mon lt < 2 ^ 4" "tm_year lt - 100 < 2 ^ 5"
    using assms by (simp_all add: tm_in_range_def)
  show ?thesis
    unfolding unpack_time_def pack_time_def unpack_pack_fields [OF r] by simp
qed

text \<open>
  A time between 2000 and 2031 written with \<open>AppendPackedTime\<close> and read back gives the
  value \<open>mktime\<close> assigns to the same broken-down time with the week day cleared.
\<close>

theorem packed_time_roundtrip:
  assumes "tm_in_range (localtime_r t)"
  shows "\<exists>b. append_packed_time localtime_r t bb_new = Inr b \<and>
    read_packed_time mktime b = Inr (mktime ((localtime_r t)\<lparr>tm_wday := 0\<rparr>), bb_rfinish b)"
proof -
  let ?p = "pack_time (localtime_r t)"
  have "append_word ?p bb_new = Inr (bb_extend (to_le ?p) bb_new)"
    by (rule u32.put_enc) simp_all
  moreover have "read_word (bb_extend (to_le ?p) bb_new) =
      Inr (?p, bb_advance 4 (bb_extend (to_le ?p) bb_new))"
    using u32.get_enc [of "bb_extend (to_le ?p) bb_new" ?p "[]"] by simp
  ultimately show ?thesis
    using unpack_pack_time [OF assms]
    by (simp add: append_packed_time_def read_packed_time_def bb_rfinish_def bb_advance_def)
qed

definition sample_tm :: tm where
  "sample_tm = \<lparr>tm_min = 5, tm_hour = 17, tm_mday = 3, tm_mon = 11, tm_year = 119, tm_wday = 2\<rparr>"

theorem packed_time_roundtrip_witness:
  "\<exists>b. append_packed_time (\<lambda>_. sample_tm) () bb_new = Inr b \<and>
    read_packed_time tm_hour b = Inr (17, bb_rfinish b)"
  using packed_time_roundtrip [of "\<lambda>_. sample_tm" "()" tm_hour]
  by (simp add: tm_in_range_def sample_tm_def)

end
