(* ===== verification/ObjectGuids.thy ===== *)
theory ObjectGuids
  imports Packets
begin

text \<open>
  \<open>ObjectGuid\<close> (src/src/server/game/Entities/Object/ObjectGuid.h and .cpp): the layout of the
  64-bit identifier of every game object (16-bit type, 24-bit entry and counter, or a 32-bit
  counter for the types without an entry), its accessors and the guid generator.
\<close>

section \<open>Layout\<close>

datatype high_guid = HG_Item | HG_Player | HG_GameObject | HG_Transport | HG_Unit | HG_Pet
  | HG_Vehicle | HG_DynamicObject | HG_Corpse | HG_Mo_Transport | HG_Instance | HG_Group

fun high_code :: "high_guid \<Rightarrow> uint16" where
  "high_code HG_Item = 0x4000"
| "high_code HG_Player = 0x0000"
| "high_code HG_GameObject = 0xF110"
| "high_code HG_Transport = 0xF120"
| "high_code HG_Unit = 0xF130"
| "high_code HG_Pet = 0xF140"
| "high_code HG_Vehicle = 0xF150"
| "high_code HG_DynamicObject = 0xF100"
| "high_code HG_Corpse = 0xF101"
| "high_code HG_Mo_Transport = 0x1FC0"
| "high_code HG_Instance = 0x1F40"
| "high_code HG_Group = 0x1F50"

definition high_has_entry :: "uint16 \<Rightarrow> bool" where
  "high_has_entry h \<longleftrightarrow> h \<notin> set (map high_code [HG_Item, HG_Player, HG_DynamicObject, HG_Corpse,
     HG_Mo_Transport, HG_Instance, HG_Group])"

definition guid_with_entry :: "high_guid \<Rightarrow> uint32 \<Rightarrow> uint32 \<Rightarrow> guid" where
  "guid_with_entry hi entry counter =
     (if counter \<noteq> 0
      then ucast counter OR push_bit 24 (ucast entry) OR push_bit 48 (ucast (high_code hi)) else 0)"

definition guid_of_counter :: "high_guid \<Rightarrow> uint32 \<Rightarrow> guid" where
  "guid_of_counter hi counter =
     (if counter \<noteq> 0 then ucast counter OR push_bit 48 (ucast (high_code hi)) else 0)"

definition guid_high :: "guid \<Rightarrow> uint16" where
  "guid_high g = ucast (drop_bit 48 g AND 0x0000FFFF)"

definition guid_has_entry :: "guid \<Rightarrow> bool" where
  "guid_has_entry g = high_has_entry (guid_high g)"

definition guid_entry :: "guid \<Rightarrow> uint32" where
  "guid_entry g = (if guid_has_entry g then ucast (drop_bit 24 g AND 0x0000000000FFFFFF) else 0)"

definition guid_counter :: "guid \<Rightarrow> uint32" where
  "guid_counter g =
     (if guid_has_entry g then ucast (g AND 0x0000000000FFFFFF) else ucast (g AND 0x00000000FFFFFFFF))"

definition max_counter :: "high_guid \<Rightarrow> uint32" where
  "max_counter hi = (if high_has_entry (high_code hi) then 0x00FFFFFF else 0xFFFFFFFF)"

definition guid_is_player :: "guid \<Rightarrow> bool" where
  "guid_is_player g \<longleftrightarrow> g \<noteq> 0 \<and> guid_high g = high_code HG_Player"

section \<open>The generator\<close>

text \<open>
  \<open>Generate\<close> returns the next counter and increments it; at the last usable counter it also
  requests the shutdown of the server (\<open>HandleCounterOverflow\<close>), and it still returns a value.
  For creatures and game objects it first compares the counter with the two configured
  levels (\<open>CheckGuidTrigger\<close>), which raise the world's alert and warning flags; the restart
  that the world then schedules and announces is outside the model.
\<close>

record guid_generator =
  next_guid :: uint32
  stop_requested :: bool
  guid_alert :: bool
  guid_warn :: bool

record guid_levels =
  alert_level :: uint32
  warn_level :: uint32

definition CheckGuidTrigger :: "guid_levels \<Rightarrow> uint32 \<Rightarrow> guid_generator \<Rightarrow> guid_generator" where
  "CheckGuidTrigger lv guidlow s =
     (if \<not> guid_alert s \<and> guidlow > alert_level lv then s\<lparr>guid_alert := True, guid_warn := False\<rparr>
      else if \<not> guid_warn s \<and> guidlow > warn_level lv then s\<lparr>guid_warn := True\<rparr>
      else s)"

definition generate :: "guid_levels \<Rightarrow> high_guid \<Rightarrow> guid_generator \<Rightarrow> uint32 \<times> guid_generator" where
  "generate lv hi s =
     (let s' = (if next_guid s \<ge> max_counter hi - 1 then s\<lparr>stop_requested := True\<rparr> else s);
          s'' = (if hi = HG_Unit \<or> hi = HG_GameObject then CheckGuidTrigger lv (next_guid s') s' else s')
      in (next_guid s'', s''\<lparr>next_guid := next_guid s'' + 1\<rparr>))"

fun generate_many :: "guid_levels \<Rightarrow> high_guid \<Rightarrow> nat \<Rightarrow> guid_generator \<Rightarrow> uint32 list \<times> guid_generator" where
  "generate_many lv hi 0 s = ([], s)"
| "generate_many lv hi (Suc n) s =
     (let (c, s') = generate lv hi s; (cs, s'') = generate_many lv hi n s' in (c # cs, s''))"

section \<open>Lemmas\<close>

lemma bit_below64: "x < 2 ^ k \<Longrightarrow> bit (x :: 'a::len word) n \<Longrightarrow> n < k"
  by (metis bit_take_bit_iff less_mask_eq take_bit_eq_mask)

lemma masks_u64:
  "(0xFFFF :: uint64) = mask 16" "(0xFFFFFF :: uint64) = mask 24" "(0xFFFFFFFF :: uint64) = mask 32"
  by (simp_all add: mask_eq_exp_minus_1)

lemmas guid_bits = bit_and_iff bit_or_iff bit_push_bit_iff bit_drop_bit_eq bit_mask_iff bit_ucast_iff

lemma layout_high:
  assumes "counter < (2 :: uint32) ^ 24" "entry < (2 :: uint32) ^ 24"
  shows "guid_high (ucast counter OR push_bit 24 (ucast entry) OR push_bit 48 (ucast (h :: uint16))) = h"
  unfolding guid_high_def masks_u64
  by (rule bit_eqI) (auto simp: guid_bits dest: bit_below64 [OF assms(1)] bit_below64 [OF assms(2)])

lemma layout_entry:
  assumes "counter < (2 :: uint32) ^ 24" "entry < (2 :: uint32) ^ 24"
  shows "ucast (drop_bit 24 (ucast counter OR push_bit 24 (ucast entry) OR
      push_bit 48 (ucast (h :: uint16)) :: guid) AND 0xFFFFFF) = entry"
  unfolding masks_u64
  by (rule bit_eqI) (auto simp: guid_bits dest: bit_below64 [OF assms(1)] bit_below64 [OF assms(2)])

lemma layout_counter24:
  assumes "counter < (2 :: uint32) ^ 24" "entry < (2 :: uint32) ^ 24"
  shows "ucast ((ucast counter OR push_bit 24 (ucast entry) OR
      push_bit 48 (ucast (h :: uint16)) :: guid) AND 0xFFFFFF) = counter"
  unfolding masks_u64
  by (rule bit_eqI) (auto simp: guid_bits dest: bit_below64 [OF assms(1)] bit_below64 [OF assms(2)])

lemma layout_high32:
  "guid_high (ucast (counter :: uint32) OR push_bit 48 (ucast (h :: uint16))) = h"
  unfolding guid_high_def masks_u64
  by (rule bit_eqI) (auto simp: guid_bits dest: bit_imp_le_length)

lemma layout_counter32:
  "ucast ((ucast (counter :: uint32) OR push_bit 48 (ucast (h :: uint16)) :: guid) AND 0xFFFFFFFF) = counter"
  unfolding masks_u64 by (rule bit_eqI) (auto simp: guid_bits)

lemma player_counter [simp]: "guid_is_player g \<Longrightarrow> guid_counter g = ucast (g AND 0xFFFFFFFF)"
  by (simp add: guid_is_player_def guid_counter_def guid_has_entry_def high_has_entry_def)

text \<open>
  An identifier built from a type, an entry below 2^24 and a non-zero counter below 2^24
  gives its type, entry and counter back.
\<close>

theorem guid_layout_roundtrip:
  assumes "counter \<noteq> 0" and "counter < 2 ^ 24" and "entry < 2 ^ 24" and "high_has_entry (high_code hi)"
  shows "guid_high (guid_with_entry hi entry counter) = high_code hi \<and>
    guid_entry (guid_with_entry hi entry counter) = entry \<and>
    guid_counter (guid_with_entry hi entry counter) = counter"
proof -
  have g: "guid_with_entry hi entry counter =
      ucast counter OR push_bit 24 (ucast entry) OR push_bit 48 (ucast (high_code hi))"
    using assms(1) by (simp add: guid_with_entry_def)
  have h: "guid_has_entry (guid_with_entry hi entry counter)"
    unfolding g guid_has_entry_def layout_high [OF assms(2,3)] by (rule assms(4))
  show ?thesis
    unfolding guid_entry_def guid_counter_def
    using h layout_high [OF assms(2,3)] layout_entry [OF assms(2,3)] layout_counter24 [OF assms(2,3)]
    by (metis g)
qed

theorem guid_layout_roundtrip_witness:
  "guid_high (guid_with_entry HG_Unit 17 5) = high_code HG_Unit \<and>
   guid_entry (guid_with_entry HG_Unit 17 5) = 17 \<and> guid_counter (guid_with_entry HG_Unit 17 5) = 5"
  by (rule guid_layout_roundtrip) (simp_all add: high_has_entry_def)

text \<open>For a type without an entry every non-zero 32-bit counter comes back.\<close>

lemma guid_counter_roundtrip:
  assumes "counter \<noteq> 0" and "\<not> high_has_entry (high_code hi)"
  shows "guid_high (guid_of_counter hi counter) = high_code hi"
    and "guid_counter (guid_of_counter hi counter) = counter"
  using assms
  by (simp_all add: guid_of_counter_def guid_counter_def guid_has_entry_def layout_high32 layout_counter32)

lemma generate_many_next:
  "unat (next_guid s) + n < 2 ^ 32 \<Longrightarrow>
   fst (generate_many lv hi n s) = map (\<lambda>i. next_guid s + of_nat i) [0..<n] \<and>
   next_guid (snd (generate_many lv hi n s)) = next_guid s + of_nat n"
proof (induction n arbitrary: s)
  case (Suc n)
  obtain c s' where g: "generate lv hi s = (c, s')" by fastforce
  then have c: "c = next_guid s" and s': "next_guid s' = next_guid s + 1"
    by (auto simp: generate_def CheckGuidTrigger_def Let_def split: if_splits)
  have "unat (next_guid s') = unat (next_guid s) + 1"
    using Suc.prems s' by (simp add: unat_word_ariths)
  then have IH: "fst (generate_many lv hi n s') = map (\<lambda>i. next_guid s' + of_nat i) [0..<n]"
      "next_guid (snd (generate_many lv hi n s')) = next_guid s' + of_nat n"
    using Suc.IH [of s'] Suc.prems by simp_all
  have "map (\<lambda>i. next_guid s + of_nat i) [0..<Suc n] =
      next_guid s # map (\<lambda>i. next_guid s' + of_nat i) [0..<n]"
    using s' by (simp add: upt_conv_Cons map_Suc_upt [symmetric] del: upt_Suc)
  then show ?case
    using g c s' IH by (auto simp: Let_def split_def algebra_simps simp del: upt_Suc)
qed simp

text \<open>
  As long as the counter does not wrap, the generator never hands out the same counter
  twice.
\<close>

theorem generate_distinct:
  assumes "unat (next_guid s) + n < 2 ^ 32"
  shows "distinct (fst (generate_many lv hi n s)) \<and> length (fst (generate_many lv hi n s)) = n"
proof -
  have "inj_on (\<lambda>i. next_guid s + of_nat i :: uint32) {0..<n}"
  proof (rule inj_onI)
    fix i j
    assume ij: "i \<in> {0..<n}" "j \<in> {0..<n}" "next_guid s + of_nat i = (next_guid s + of_nat j :: uint32)"
    then have "unat (of_nat i :: uint32) = unat (of_nat j :: uint32)" by simp
    then show "i = j" using ij assms by (simp add: unat_of_nat)
  qed
  then show ?thesis using generate_many_next [OF assms] by (simp add: distinct_map)
qed

theorem generate_distinct_witness:
  "distinct (fst (generate_many \<lparr>alert_level = 16000000, warn_level = 12000000\<rparr> HG_Unit 3
     \<lparr>next_guid = 1, stop_requested = False, guid_alert = False, guid_warn = False\<rparr>)) \<and>
   length (fst (generate_many \<lparr>alert_level = 16000000, warn_level = 12000000\<rparr> HG_Unit 3
     \<lparr>next_guid = 1, stop_requested = False, guid_alert = False, guid_warn = False\<rparr>)) = 3"
  by (rule generate_distinct) simp

end
