(* ===== verification/Channel.thy ===== *)
theory Channel
  imports ObjectGuids
begin

text \<open>
  The chat channel (src/src/server/game/Channel.h and Channel.cpp): its members with their
  owner, moderator and mute flags, its bans, its password and modes, every client operation
  and every packet it builds. What an operation does outside the channel object is a list of
  effects in order: packets sent to players, changes of a player's list of joined channels,
  system messages. The players, the character cache, the clock, the configuration, the
  channel table of the client data and the stored bans are the environment \<open>chan_env\<close>.
\<close>

section \<open>The environment\<close>

text \<open>What the channel code asks of a \<open>Player\<close> and its session.\<close>

record player =
  pl_guid :: guid
  pl_name :: string
  pl_security :: nat
  pl_team :: uint32
  pl_guild :: uint32
  pl_in_group :: bool
  pl_lfg_empty :: bool
  pl_level :: uint32
  pl_ignored :: "uint32 \<Rightarrow> bool"
  pl_chat_tag :: uint8
  pl_gm_on :: bool
  pl_gm_chat :: bool

record chat_channels_entry =
  cce_ChannelID :: uint32
  cce_flags :: uint32

record chan_env =
  find_player :: "guid \<Rightarrow> player option"
  find_connected :: "guid \<Rightarrow> player option"
  find_connected_by_name :: "string \<Rightarrow> player option"
  account_of :: "guid \<Rightarrow> uint32"
  name_of :: "guid \<Rightarrow> string option"
  game_time :: uint64
  two_side_channel :: bool
  restricted_lfg :: bool
  silent_gm_join :: bool
  world_min_level :: uint32
  channel_entry :: "uint32 \<Rightarrow> chat_channels_entry option"
  channel_bans :: "string \<Rightarrow> (uint32 \<times> uint32) list"
  normalize_name :: "string \<Rightarrow> string option"

abbreviation "SEC_PLAYER \<equiv> (0 :: nat)"
abbreviation "SEC_GAMEMASTER1 \<equiv> (1 :: nat)"
abbreviation (input) "SEC_GAMEMASTER2 \<equiv> (2 :: nat)"

text \<open>\<open>uint32 sec = 0; if (plr) sec = plr->GetSession()->GetSecurity();\<close>\<close>

definition sec_of :: "player option \<Rightarrow> nat" where
  "sec_of plr = (case plr of None \<Rightarrow> 0 | Some p \<Rightarrow> pl_security p)"

datatype effect =
    SendPacket guid world_packet
  | JoinedChannel guid string
  | LeftChannel guid string
  | LevelTooLow guid uint32
  | RelayToChannel uint32 string world_packet
  | AssertFailed

section \<open>Members\<close>

record player_info =
  pi_player :: guid
  pi_flags :: uint8
  pi_invisible :: bool

text \<open>The value-initialised \<open>PlayerInfo\<close> that \<open>players[p]\<close> inserts for an absent key.\<close>

definition default_info :: player_info where
  "default_info = \<lparr>pi_player = 0, pi_flags = 0, pi_invisible = False\<rparr>"

abbreviation "MEMBER_FLAG_OWNER \<equiv> (0x01 :: uint8)"
abbreviation "MEMBER_FLAG_MODERATOR \<equiv> (0x02 :: uint8)"
abbreviation "MEMBER_FLAG_MUTED \<equiv> (0x08 :: uint8)"

definition pi_is_owner :: "player_info \<Rightarrow> bool" where
  "pi_is_owner i = has_flag (pi_flags i) MEMBER_FLAG_OWNER"

definition pi_set_owner :: "bool \<Rightarrow> player_info \<Rightarrow> player_info" where
  "pi_set_owner state i = i\<lparr>pi_flags := (if state then add_flag (pi_flags i) MEMBER_FLAG_OWNER
     else del_flag (pi_flags i) MEMBER_FLAG_OWNER)\<rparr>"

definition pi_is_moderator :: "player_info \<Rightarrow> bool" where
  "pi_is_moderator i = has_flag (pi_flags i) MEMBER_FLAG_MODERATOR"

definition pi_set_moderator :: "bool \<Rightarrow> player_info \<Rightarrow> player_info" where
  "pi_set_moderator state i = i\<lparr>pi_flags := (if state then add_flag (pi_flags i) MEMBER_FLAG_MODERATOR
     else del_flag (pi_flags i) MEMBER_FLAG_MODERATOR)\<rparr>"

definition pi_is_muted :: "player_info \<Rightarrow> bool" where
  "pi_is_muted i = has_flag (pi_flags i) MEMBER_FLAG_MUTED"

definition pi_set_muted :: "bool \<Rightarrow> player_info \<Rightarrow> player_info" where
  "pi_set_muted state i = i\<lparr>pi_flags := (if state then add_flag (pi_flags i) MEMBER_FLAG_MUTED
     else del_flag (pi_flags i) MEMBER_FLAG_MUTED)\<rparr>"

section \<open>Channel state\<close>

record channel =
  players :: "(guid, player_info) omap"
  banned :: "uint64 oset"
  gmbanned :: "(uint64, uint64) omap"
  m_announce :: bool
  m_moderate :: bool
  m_name :: string
  m_password :: string
  m_flags :: uint8
  m_channelId :: uint32
  m_ownerGUID :: guid

text \<open>The channel together with the effects of the operation under way.\<close>

record chan_state = channel +
  out :: "effect list"

definition emit :: "effect \<Rightarrow> chan_state \<Rightarrow> chan_state" where
  "emit x st = st\<lparr>out := out st @ [x]\<rparr>"

abbreviation "CHANNEL_FLAG_CUSTOM \<equiv> (0x01 :: uint8)"
abbreviation "CHANNEL_FLAG_TRADE \<equiv> (0x04 :: uint8)"
abbreviation "CHANNEL_FLAG_NOT_LFG \<equiv> (0x08 :: uint8)"
abbreviation "CHANNEL_FLAG_GENERAL \<equiv> (0x10 :: uint8)"
abbreviation "CHANNEL_FLAG_CITY \<equiv> (0x20 :: uint8)"
abbreviation "CHANNEL_FLAG_LFG \<equiv> (0x40 :: uint8)"
abbreviation "CHANNEL_DBC_FLAG_TRADE \<equiv> (0x00008 :: uint32)"
abbreviation "CHANNEL_DBC_FLAG_CITY_ONLY2 \<equiv> (0x00020 :: uint32)"
abbreviation "CHANNEL_DBC_FLAG_LFG \<equiv> (0x40000 :: uint32)"

definition quiet_names :: "string list" where
  "quiet_names = [''2v2'', ''3v3'', ''5v5'', ''pvp'']"

definition Channel_new :: "chan_env \<Rightarrow> string \<Rightarrow> uint32 \<Rightarrow> chan_state" where
  "Channel_new e name channel_id =
     (let base = \<lparr>players = [], banned = [], gmbanned = [], m_announce = True, m_moderate = False,
                  m_name = name, m_password = '''', m_flags = 0, m_channelId = channel_id,
                  m_ownerGUID = 0, out = []\<rparr>
      in case channel_entry e channel_id of
           Some ch \<Rightarrow>
             let f1 = add_flag (m_flags base) CHANNEL_FLAG_GENERAL;
                 f2 = (if has_flag (cce_flags ch) CHANNEL_DBC_FLAG_TRADE
                       then add_flag f1 CHANNEL_FLAG_TRADE else f1);
                 f3 = (if has_flag (cce_flags ch) CHANNEL_DBC_FLAG_CITY_ONLY2
                       then add_flag f2 CHANNEL_FLAG_CITY else f2);
                 f4 = (if has_flag (cce_flags ch) CHANNEL_DBC_FLAG_LFG
                       then add_flag f3 CHANNEL_FLAG_LFG else add_flag f3 CHANNEL_FLAG_NOT_LFG)
             in base\<lparr>m_channelId := cce_ChannelID ch, m_announce := False, m_flags := f4\<rparr>
         | None \<Rightarrow>
             base\<lparr>m_flags := add_flag (m_flags base) CHANNEL_FLAG_CUSTOM,
                  gmbanned := fold (\<lambda>(acc, expire). omap_set (ucast acc) (ucast expire))
                                (channel_bans e name) [],
                  m_announce := (if name \<in> set quiet_names then False else True)\<rparr>)"

section \<open>Queries\<close>

definition IsOn :: "guid \<Rightarrow> 'a channel_scheme \<Rightarrow> bool" where
  "IsOn who st = omap_has (players st) who"

definition IsBanned :: "guid \<Rightarrow> 'a channel_scheme \<Rightarrow> bool" where
  "IsBanned g st = oset_has (banned st) g"

definition IsConstant :: "'a channel_scheme \<Rightarrow> bool" where
  "IsConstant st \<longleftrightarrow> m_channelId st \<noteq> 0"

definition IsLFG :: "'a channel_scheme \<Rightarrow> bool" where
  "IsLFG st = has_flag (m_flags st) CHANNEL_FLAG_LFG"

definition IsEmpty :: "'a channel_scheme \<Rightarrow> bool" where
  "IsEmpty st \<longleftrightarrow> players st = []"

definition IsBannedByGM :: "chan_env \<Rightarrow> guid \<Rightarrow> 'a channel_scheme \<Rightarrow> bool" where
  "IsBannedByGM e g st =
     (let accountId = (ucast (account_of e g) :: uint64)
      in if accountId = 0 then False
         else case omap_find (gmbanned st) accountId of
                Some expire \<Rightarrow> expire > game_time e
              | None \<Rightarrow> False)"

definition GetPlayerFlags :: "guid \<Rightarrow> 'a channel_scheme \<Rightarrow> uint8" where
  "GetPlayerFlags p st = (case omap_find (players st) p of None \<Rightarrow> 0 | Some i \<Rightarrow> pi_flags i)"

definition GetNumPlayers :: "'a channel_scheme \<Rightarrow> uint32" where
  "GetNumPlayers st = of_nat (length (filter (\<lambda>(g, i). \<not> pi_invisible i) (players st)))"

section \<open>Sending\<close>

definition recipients :: "chan_env \<Rightarrow> guid \<Rightarrow> (guid, player_info) omap \<Rightarrow> guid list" where
  "recipients e p ps =
     filter (\<lambda>g. case find_player e g of None \<Rightarrow> False
                 | Some plr \<Rightarrow> p = 0 \<or> \<not> pl_ignored plr (guid_counter p)) (map fst ps)"

definition SendToAll :: "chan_env \<Rightarrow> world_packet \<Rightarrow> guid \<Rightarrow> chan_state \<Rightarrow> chan_state" where
  "SendToAll e data p st =
     st\<lparr>out := out st @ map (\<lambda>g. SendPacket g data) (recipients e p (players st))\<rparr>"

definition SendToAllButOne :: "chan_env \<Rightarrow> world_packet \<Rightarrow> guid \<Rightarrow> chan_state \<Rightarrow> chan_state" where
  "SendToAllButOne e data who st =
     st\<lparr>out := out st @ map (\<lambda>g. SendPacket g data)
       (filter (\<lambda>g. g \<noteq> who \<and> find_player e g \<noteq> None) (map fst (players st)))\<rparr>"

definition SendToOne :: "chan_env \<Rightarrow> world_packet \<Rightarrow> guid \<Rightarrow> chan_state \<Rightarrow> chan_state" where
  "SendToOne e data who st =
     (case find_player e who of None \<Rightarrow> st | Some plr \<Rightarrow> emit (SendPacket who data) st)"

section \<open>Packets\<close>

abbreviation "SMSG_CHANNEL_NOTIFY \<equiv> (0x099 :: uint16)"
abbreviation "SMSG_CHANNEL_LIST \<equiv> (0x09B :: uint16)"
abbreviation "SMSG_USERLIST_ADD \<equiv> (0x3EF :: uint16)"
abbreviation "SMSG_USERLIST_REMOVE \<equiv> (0x3F0 :: uint16)"
abbreviation "SMSG_USERLIST_UPDATE \<equiv> (0x3F1 :: uint16)"

definition MakeNotifyPacket :: "uint8 \<Rightarrow> 'a channel_scheme \<Rightarrow> world_packet" where
  "MakeNotifyPacket notify_type st =
     \<lparr>wp_opcode = SMSG_CHANNEL_NOTIFY, wp_fields = [U8 notify_type, Str (m_name st)]\<rparr>"

definition MakeJoined :: "guid \<Rightarrow> 'a channel_scheme \<Rightarrow> world_packet" where
  "MakeJoined g st = wp_add (U64 g) (MakeNotifyPacket 0x00 st)"

definition MakeLeft :: "guid \<Rightarrow> 'a channel_scheme \<Rightarrow> world_packet" where
  "MakeLeft g st = wp_add (U64 g) (MakeNotifyPacket 0x01 st)"

definition MakeYouJoined :: "'a channel_scheme \<Rightarrow> world_packet" where
  "MakeYouJoined st =
     wp_add (U32 0) (wp_add (U32 (m_channelId st)) (wp_add (U8 (m_flags st)) (MakeNotifyPacket 0x02 st)))"

definition MakeYouLeft :: "'a channel_scheme \<Rightarrow> world_packet" where
  "MakeYouLeft st = wp_add (U8 0) (wp_add (U32 (m_channelId st)) (MakeNotifyPacket 0x03 st))"

definition MakeWrongPassword :: "'a channel_scheme \<Rightarrow> world_packet" where
  "MakeWrongPassword st = MakeNotifyPacket 0x04 st"

definition MakeNotMember :: "'a channel_scheme \<Rightarrow> world_packet" where
  "MakeNotMember st = MakeNotifyPacket 0x05 st"

definition MakeNotModerator :: "'a channel_scheme \<Rightarrow> world_packet" where
  "MakeNotModerator st = MakeNotifyPacket 0x06 st"

definition MakePasswordChanged :: "guid \<Rightarrow> 'a channel_scheme \<Rightarrow> world_packet" where
  "MakePasswordChanged g st = wp_add (U64 g) (MakeNotifyPacket 0x07 st)"

definition MakeOwnerChanged :: "guid \<Rightarrow> 'a channel_scheme \<Rightarrow> world_packet" where
  "MakeOwnerChanged g st = wp_add (U64 g) (MakeNotifyPacket 0x08 st)"

definition MakePlayerNotFound :: "string \<Rightarrow> 'a channel_scheme \<Rightarrow> world_packet" where
  "MakePlayerNotFound name st = wp_add (Str name) (MakeNotifyPacket 0x09 st)"

definition MakeNotOwner :: "'a channel_scheme \<Rightarrow> world_packet" where
  "MakeNotOwner st = MakeNotifyPacket 0x0A st"

definition MakeChannelOwner :: "chan_env \<Rightarrow> 'a channel_scheme \<Rightarrow> world_packet" where
  "MakeChannelOwner e st =
     (let name = (case name_of e (m_ownerGUID st) of
                    None \<Rightarrow> ''PLAYER_NOT_FOUND''
                  | Some n \<Rightarrow> if n = [] then ''PLAYER_NOT_FOUND'' else n)
      in wp_add (Str (if IsConstant st \<or> m_ownerGUID st = 0 then ''Nobody'' else name))
           (MakeNotifyPacket 0x0B st))"

definition MakeModeChange :: "guid \<Rightarrow> uint8 \<Rightarrow> 'a channel_scheme \<Rightarrow> world_packet" where
  "MakeModeChange g oldflags st =
     wp_add (U8 (GetPlayerFlags g st)) (wp_add (U8 oldflags) (wp_add (U64 g) (MakeNotifyPacket 0x0C st)))"

definition MakeAnnouncementsOn :: "guid \<Rightarrow> 'a channel_scheme \<Rightarrow> world_packet" where
  "MakeAnnouncementsOn g st = wp_add (U64 g) (MakeNotifyPacket 0x0D st)"

definition MakeAnnouncementsOff :: "guid \<Rightarrow> 'a channel_scheme \<Rightarrow> world_packet" where
  "MakeAnnouncementsOff g st = wp_add (U64 g) (MakeNotifyPacket 0x0E st)"

definition MakeModerationOn :: "guid \<Rightarrow> 'a channel_scheme \<Rightarrow> world_packet" where
  "MakeModerationOn g st = wp_add (U64 g) (MakeNotifyPacket 0x0F st)"

definition MakeModerationOff :: "guid \<Rightarrow> 'a channel_scheme \<Rightarrow> world_packet" where
  "MakeModerationOff g st = wp_add (U64 g) (MakeNotifyPacket 0x10 st)"

definition MakeMuted :: "'a channel_scheme \<Rightarrow> world_packet" where
  "MakeMuted st = MakeNotifyPacket 0x11 st"

definition MakePlayerKicked :: "uint64 \<Rightarrow> uint64 \<Rightarrow> 'a channel_scheme \<Rightarrow> world_packet" where
  "MakePlayerKicked bad good st = wp_add (U64 good) (wp_add (U64 bad) (MakeNotifyPacket 0x12 st))"

definition MakeBanned :: "'a channel_scheme \<Rightarrow> world_packet" where
  "MakeBanned st = MakeNotifyPacket 0x13 st"

definition MakePlayerBanned :: "uint64 \<Rightarrow> uint64 \<Rightarrow> 'a channel_scheme \<Rightarrow> world_packet" where
  "MakePlayerBanned bad good st = wp_add (U64 good) (wp_add (U64 bad) (MakeNotifyPacket 0x14 st))"

definition MakePlayerUnbanned :: "uint64 \<Rightarrow> uint64 \<Rightarrow> 'a channel_scheme \<Rightarrow> world_packet" where
  "MakePlayerUnbanned bad good st = wp_add (U64 good) (wp_add (U64 bad) (MakeNotifyPacket 0x15 st))"

definition MakePlayerNotBanned :: "guid \<Rightarrow> 'a channel_scheme \<Rightarrow> world_packet" where
  "MakePlayerNotBanned g st = wp_add (U64 g) (MakeNotifyPacket 0x16 st)"

definition MakePlayerAlreadyMember :: "guid \<Rightarrow> 'a channel_scheme \<Rightarrow> world_packet" where
  "MakePlayerAlreadyMember g st = wp_add (U64 g) (MakeNotifyPacket 0x17 st)"

definition MakeInvite :: "guid \<Rightarrow> 'a channel_scheme \<Rightarrow> world_packet" where
  "MakeInvite g st = wp_add (U64 g) (MakeNotifyPacket 0x18 st)"

definition MakeInviteWrongFaction :: "'a channel_scheme \<Rightarrow> world_packet" where
  "MakeInviteWrongFaction st = MakeNotifyPacket 0x19 st"

definition MakeWrongFaction :: "'a channel_scheme \<Rightarrow> world_packet" where
  "MakeWrongFaction st = MakeNotifyPacket 0x1A st"

definition MakeInvalidName :: "'a channel_scheme \<Rightarrow> world_packet" where
  "MakeInvalidName st = MakeNotifyPacket 0x1B st"

definition MakeNotModerated :: "'a channel_scheme \<Rightarrow> world_packet" where
  "MakeNotModerated st = MakeNotifyPacket 0x1C st"

definition MakePlayerInvited :: "string \<Rightarrow> 'a channel_scheme \<Rightarrow> world_packet" where
  "MakePlayerInvited name st = wp_add (Str name) (MakeNotifyPacket 0x1D st)"

definition MakePlayerInviteBanned :: "guid \<Rightarrow> 'a channel_scheme \<Rightarrow> world_packet" where
  "MakePlayerInviteBanned g st = wp_add (U64 g) (MakeNotifyPacket 0x1E st)"

definition MakeThrottled :: "'a channel_scheme \<Rightarrow> world_packet" where
  "MakeThrottled st = MakeNotifyPacket 0x1F st"

definition MakeNotInArea :: "'a channel_scheme \<Rightarrow> world_packet" where
  "MakeNotInArea st = MakeNotifyPacket 0x20 st"

definition MakeNotInLfg :: "'a channel_scheme \<Rightarrow> world_packet" where
  "MakeNotInLfg st = MakeNotifyPacket 0x21 st"

definition MakeVoiceOn :: "guid \<Rightarrow> 'a channel_scheme \<Rightarrow> world_packet" where
  "MakeVoiceOn g st = wp_add (U64 g) (MakeNotifyPacket 0x22 st)"

definition MakeVoiceOff :: "guid \<Rightarrow> 'a channel_scheme \<Rightarrow> world_packet" where
  "MakeVoiceOff g st = wp_add (U64 g) (MakeNotifyPacket 0x23 st)"

definition JoinNotify :: "chan_env \<Rightarrow> guid \<Rightarrow> chan_state \<Rightarrow> chan_state" where
  "JoinNotify e g st =
     SendToAll e \<lparr>wp_opcode = (if IsConstant st then SMSG_USERLIST_ADD else SMSG_USERLIST_UPDATE),
       wp_fields = [U64 g, U8 (GetPlayerFlags g st), U8 (m_flags st), U32 (GetNumPlayers st),
                    Str (m_name st)]\<rparr> 0 st"

definition LeaveNotify :: "chan_env \<Rightarrow> guid \<Rightarrow> chan_state \<Rightarrow> chan_state" where
  "LeaveNotify e g st =
     SendToAll e \<lparr>wp_opcode = SMSG_USERLIST_REMOVE,
       wp_fields = [U64 g, U8 (m_flags st), U32 (GetNumPlayers st), Str (m_name st)]\<rparr> 0 st"

end
