(* ===== verification/ChannelOps.thy ===== *)
theory ChannelOps
  imports Channel
begin

text \<open>
  The operations of the chat channel (Channel.cpp and the inline members of Channel.h), with
  the chat packet of Chat.cpp, and their laws: the member map, ban set and ban map stay
  well formed, the member with the owner flag is always exactly \<open>m_ownerGUID\<close>, muted members
  and unauthorised members change nothing, bans and mutes take effect, a message reaches
  exactly the members that should see it.
\<close>

section \<open>Chat packets\<close>

abbreviation "SMSG_MESSAGECHAT \<equiv> (0x096 :: uint16)"
abbreviation "SMSG_GM_MESSAGECHAT \<equiv> (0x3B2 :: uint16)"
abbreviation "CHAT_MSG_CHANNEL \<equiv> (0x11 :: uint32)"
abbreviation "LANG_UNIVERSAL \<equiv> (0 :: uint32)"

definition monster_chat_types :: "uint32 list" where
  "monster_chat_types = [0x0C, 0x0D, 0x0E, 0x0F, 0x10, 0x2A, 0x29]"

definition bg_system_chat_types :: "uint32 list" where
  "bg_system_chat_types = [0x24, 0x25, 0x26]"

definition guid_is_pet :: "guid \<Rightarrow> bool" where
  "guid_is_pet g \<longleftrightarrow> guid_high g = high_code HG_Pet"

fun field_len :: "field \<Rightarrow> nat" where
  "field_len (U8 v) = 1"
| "field_len (U16 v) = 2"
| "field_len (U32 v) = 4"
| "field_len (U64 v) = 8"
| "field_len (Str s) = length s + 1"

text \<open>
  The packet and the position of the receiver's guid in it; \<open>None\<close> is the failed assertion
  on an empty channel name. \<open>gmMessage\<close> is reset to false in this build.
\<close>

definition BuildChatPacket_raw ::
  "uint32 \<Rightarrow> uint32 \<Rightarrow> guid \<Rightarrow> guid \<Rightarrow> string \<Rightarrow> uint8 \<Rightarrow> string \<Rightarrow> string \<Rightarrow> bool \<Rightarrow> string
   \<Rightarrow> (world_packet \<times> nat) option" where
  "BuildChatPacket_raw chatType language senderGUID receiverGUID message chatTag senderName
     receiverName gmMessage0 channelName =
     (let gmMessage = False;
          head = [U8 (ucast chatType), U32 language, U64 senderGUID, U32 0];
          named = (\<lambda>nm. [U32 (of_nat (length nm + 1)), Str nm]);
          finish = (\<lambda>before rest.
            (\<lparr>wp_opcode = (if \<not> gmMessage then SMSG_MESSAGECHAT else SMSG_GM_MESSAGECHAT),
               wp_fields = head @ before @ [U64 receiverGUID] @ rest @ named message @ [U8 chatTag]\<rparr>,
             sum_list (map field_len (head @ before))))
      in if chatType \<in> set monster_chat_types
         then Some (finish (named senderName)
                (if receiverGUID \<noteq> 0 \<and> \<not> guid_is_player receiverGUID \<and> \<not> guid_is_pet receiverGUID
                 then named receiverName else []))
         else if chatType \<in> set bg_system_chat_types
         then Some (finish []
                (if receiverGUID \<noteq> 0 \<and> \<not> guid_is_player receiverGUID then named receiverName else []))
         else if chatType = CHAT_MSG_CHANNEL \<and> channelName = [] then None
         else Some (finish ((if gmMessage then named senderName else []) @
                            (if chatType = CHAT_MSG_CHANNEL then [Str channelName] else [])) []))"

text \<open>The overload on objects, for a player or no sender and no receiver.\<close>

definition BuildChatPacket ::
  "uint32 \<Rightarrow> uint32 \<Rightarrow> player option \<Rightarrow> string \<Rightarrow> string \<Rightarrow> (world_packet \<times> nat) option" where
  "BuildChatPacket chatType language sender message channelName =
     (case sender of
        None \<Rightarrow> BuildChatPacket_raw chatType language 0 0 message 0 '''' '''' False channelName
      | Some p \<Rightarrow> BuildChatPacket_raw chatType language (pl_guid p) 0 message (pl_chat_tag p) (pl_name p)
                    '''' (pl_gm_chat p) channelName)"

section \<open>Member flags\<close>

text \<open>\<open>players[p]\<close>: the entry, inserted first when it is absent.\<close>

definition player_at :: "guid \<Rightarrow> chan_state \<Rightarrow> player_info \<times> chan_state" where
  "player_at p st = (let (i, m) = omap_index default_info p (players st) in (i, st\<lparr>players := m\<rparr>))"

definition modify_player :: "guid \<Rightarrow> (player_info \<Rightarrow> player_info) \<Rightarrow> chan_state \<Rightarrow> chan_state" where
  "modify_player p f st =
     (let (i, st1) = player_at p st in st1\<lparr>players := omap_set p (f i) (players st1)\<rparr>)"

definition SetModerator :: "chan_env \<Rightarrow> guid \<Rightarrow> bool \<Rightarrow> chan_state \<Rightarrow> chan_state" where
  "SetModerator e p s st0 =
     (let (i, st) = player_at p st0
      in if pi_is_moderator i \<noteq> s then
           let oldFlag = GetPlayerFlags p st;
               st1 = modify_player p (pi_set_moderator s) st
           in SendToAll e (MakeModeChange p oldFlag st1) 0 st1
         else st)"

definition SetMute :: "chan_env \<Rightarrow> guid \<Rightarrow> bool \<Rightarrow> chan_state \<Rightarrow> chan_state" where
  "SetMute e p s st0 =
     (if m_name st0 = ''world'' then st0
      else let (i, st) = player_at p st0
           in if pi_is_muted i \<noteq> s then
                let oldFlag = GetPlayerFlags p st;
                    st1 = modify_player p (pi_set_muted s) st
                in SendToAll e (MakeModeChange p oldFlag st1) 0 st1
              else st)"

definition SetOwner :: "chan_env \<Rightarrow> guid \<Rightarrow> bool \<Rightarrow> chan_state \<Rightarrow> chan_state" where
  "SetOwner e g exclaim st =
     (let st1 = (if m_ownerGUID st \<noteq> 0 then
                   (case omap_find (players st) (m_ownerGUID st) of
                      None \<Rightarrow> st
                    | Some i \<Rightarrow> st\<lparr>players := omap_set (m_ownerGUID st) (pi_set_owner False i) (players st)\<rparr>)
                 else st);
          st2 = st1\<lparr>m_ownerGUID := g\<rparr>
      in if m_ownerGUID st2 \<noteq> 0 then
           let oldFlag = GetPlayerFlags (m_ownerGUID st2) st2;
               st3 = modify_player (m_ownerGUID st2) (pi_set_owner True) st2;
               st4 = SendToAll e (MakeModeChange (m_ownerGUID st3) oldFlag st3) 0 st3
           in if exclaim then SendToAll e (MakeOwnerChanged (m_ownerGUID st4) st4) 0 st4 else st4
         else st2)"

section \<open>Joining and leaving\<close>

text \<open>\<open>if (announce condition) SendToAll(&data)\<close>.\<close>

definition announce_if :: "chan_env \<Rightarrow> bool \<Rightarrow> world_packet \<Rightarrow> chan_state \<Rightarrow> chan_state" where
  "announce_if e c data st = (if c then SendToAll e data 0 st else st)"

text \<open>The second half of \<open>Join\<close>, once the player is admitted.\<close>

definition enter_channel :: "chan_env \<Rightarrow> guid \<Rightarrow> chan_state \<Rightarrow> chan_state" where
  "enter_channel e p st0 =
     (let plr = find_player e p;
          st1 = announce_if e (m_announce st0 \<and>
                    (plr = None \<or> sec_of plr < SEC_GAMEMASTER1 \<or> \<not> silent_gm_join e) \<and>
                    m_name st0 \<noteq> ''world'' \<and> m_name st0 \<noteq> ''pvp'')
                  (MakeJoined p st0) st0;
          pinfo = \<lparr>pi_player = p, pi_flags = 0,
                   pi_invisible = (sec_of plr > SEC_PLAYER \<and> silent_gm_join e)\<rparr>;
          st2 = st1\<lparr>players := omap_set p pinfo (players st1)\<rparr>;
          st3 = SendToOne e (MakeYouJoined st2) p st2;
          st4 = JoinNotify e p st3
      in if \<not> IsConstant st4 \<and> m_ownerGUID st4 = 0 then
           modify_player p (pi_set_moderator True)
             (SetOwner e p (length (players st4) > 1) st4)
         else st4)"

definition Join :: "chan_env \<Rightarrow> guid \<Rightarrow> string \<Rightarrow> chan_state \<Rightarrow> chan_state" where
  "Join e p pass st =
     (if IsOn p st then
        (if \<not> IsConstant st then SendToOne e (MakePlayerAlreadyMember p st) p st else st)
      else if IsBanned p st then SendToOne e (MakeBanned st) p st
      else if IsBannedByGM e p st then SendToOne e (MakeBanned st) p st
      else if length (m_password st) > 0 \<and> pass \<noteq> m_password st then
        SendToOne e (MakeWrongPassword st) p st
      else case find_player e p of
             None \<Rightarrow> enter_channel e p st
           | Some q \<Rightarrow>
               if IsLFG st \<and> restricted_lfg e \<and> pl_security q = SEC_PLAYER \<and>
                  (pl_in_group q \<or> pl_lfg_empty q)
               then SendToOne e (MakeNotInLfg st) p st
               else if pl_guild q \<noteq> 0 \<and> m_flags st = 0x38 then st
               else enter_channel e p (emit (JoinedChannel p (m_name st)) st))"

text \<open>The messages of \<open>Leave\<close> to the leaving player, when \<open>send\<close> is set.\<close>

definition leave_send :: "chan_env \<Rightarrow> guid \<Rightarrow> bool \<Rightarrow> chan_state \<Rightarrow> chan_state" where
  "leave_send e p send st =
     (if send then
        let s = SendToOne e (MakeYouLeft st) p st
        in (if find_player e p \<noteq> None then emit (LeftChannel p (m_name s)) s else s)
      else st)"

definition Leave :: "chan_env \<Rightarrow> guid \<Rightarrow> bool \<Rightarrow> chan_state \<Rightarrow> chan_state" where
  "Leave e p send st =
     (if \<not> IsOn p st then (if send then SendToOne e (MakeNotMember st) p st else st)
      else
        let plr = find_player e p;
            st1 = leave_send e p send st;
            (i, st2) = player_at p st1;
            changeowner = pi_is_owner i;
            st3 = st2\<lparr>players := omap_erase p (players st2)\<rparr>;
            st4 = announce_if e (m_announce st3 \<and>
                      (plr = None \<or> sec_of plr = SEC_PLAYER \<or> \<not> silent_gm_join e) \<and>
                      m_name st3 \<noteq> ''world'' \<and> m_name st3 \<noteq> ''pvp'')
                    (MakeLeft p st3) st3;
            st5 = LeaveNotify e p st4
        in if changeowner then
             SetOwner e (case players st5 of [] \<Rightarrow> 0 | (g, j) # ps \<Rightarrow> pi_player j) True st5
           else st5)"

text \<open>The last branch of \<open>KickOrBan\<close>: the member is banned or kicked.\<close>

definition ban_if :: "bool \<Rightarrow> guid \<Rightarrow> chan_state \<Rightarrow> chan_state" where
  "ban_if newly g st = (if newly then st\<lparr>banned := oset_insert g (banned st)\<rparr> else st)"

definition expel :: "chan_env \<Rightarrow> guid \<Rightarrow> guid \<Rightarrow> bool \<Rightarrow> chan_state \<Rightarrow> chan_state" where
  "expel e good bad ban st1 =
     (let changeowner = (m_ownerGUID st1 = bad);
          newly = (ban \<and> \<not> IsBanned bad st1);
          st2 = ban_if newly bad st1;
          data = (if newly then MakePlayerBanned bad good st2 else MakePlayerKicked bad good st2);
          st3 = announce_if e (m_name st2 \<noteq> ''world'') data st2;
          st4 = st3\<lparr>players := omap_erase bad (players st3)\<rparr>;
          st5 = emit (LeftChannel bad (m_name st4)) st4
      in if changeowner then SetOwner e (if players st5 \<noteq> [] then good else 0) True st5
         else st5)"

definition KickOrBan :: "chan_env \<Rightarrow> guid \<Rightarrow> string \<Rightarrow> bool \<Rightarrow> chan_state \<Rightarrow> chan_state" where
  "KickOrBan e good badname ban st =
     (let sec = sec_of (find_connected e good)
      in if m_name st = ''world'' \<and> sec < SEC_GAMEMASTER1 then st
         else if \<not> IsOn good st \<and> sec < SEC_GAMEMASTER1 then SendToOne e (MakeNotMember st) good st
         else
           let (gi, st1) = player_at good st
           in if \<not> pi_is_moderator gi \<and> sec < SEC_GAMEMASTER1 then
                SendToOne e (MakeNotModerator st1) good st1
              else case find_connected_by_name e badname of
                None \<Rightarrow> SendToOne e (MakePlayerNotFound badname st1) good st1
              | Some bad \<Rightarrow>
                  if \<not> IsOn (pl_guid bad) st1 then SendToOne e (MakePlayerNotFound badname st1) good st1
                  else if sec < SEC_GAMEMASTER1 \<and> pl_guid bad = m_ownerGUID st1 \<and> good \<noteq> m_ownerGUID st1
                  then SendToOne e (MakeNotOwner st1) good st1
                  else expel e good (pl_guid bad) ban st1)"

section \<open>Moderator commands\<close>

text \<open>
  The guard that \<open>UnBan\<close>, \<open>Password\<close>, \<open>SetMode\<close>, \<open>Announce\<close> and \<open>Moderate\<close> begin with: the
  caller must be on the channel and be a moderator or a game master of level 2.
\<close>

definition as_moderator ::
  "chan_env \<Rightarrow> guid \<Rightarrow> (chan_state \<Rightarrow> chan_state) \<Rightarrow> chan_state \<Rightarrow> chan_state" where
  "as_moderator e p act st =
     (let sec = sec_of (find_player e p)
      in if \<not> IsOn p st then SendToOne e (MakeNotMember st) p st
         else let (i, st1) = player_at p st
              in if \<not> pi_is_moderator i \<and> sec < SEC_GAMEMASTER2
                 then SendToOne e (MakeNotModerator st1) p st1
                 else act st1)"

definition UnBan :: "chan_env \<Rightarrow> guid \<Rightarrow> string \<Rightarrow> chan_state \<Rightarrow> chan_state" where
  "UnBan e good badname =
     as_moderator e good (\<lambda>st.
       case find_connected_by_name e badname of
         None \<Rightarrow> SendToOne e (MakePlayerNotFound badname st) good st
       | Some bad \<Rightarrow>
           if \<not> IsBanned (pl_guid bad) st then SendToOne e (MakePlayerNotFound badname st) good st
           else let st1 = st\<lparr>banned := oset_erase (pl_guid bad) (banned st)\<rparr>
                in SendToAll e (MakePlayerUnbanned (pl_guid bad) good st1) 0 st1)"

definition Password :: "chan_env \<Rightarrow> guid \<Rightarrow> string \<Rightarrow> chan_state \<Rightarrow> chan_state" where
  "Password e p pass st0 =
     (if m_name st0 = ''world'' \<and> sec_of (find_player e p) < SEC_GAMEMASTER2 then st0
      else as_moderator e p (\<lambda>st.
             let st1 = st\<lparr>m_password := pass\<rparr>
             in SendToAll e (MakePasswordChanged p st1) 0 st1) st0)"

definition SetMode :: "chan_env \<Rightarrow> guid \<Rightarrow> string \<Rightarrow> bool \<Rightarrow> bool \<Rightarrow> chan_state \<Rightarrow> chan_state" where
  "SetMode e p p2n moder s =
     as_moderator e p (\<lambda>st.
       case find_connected_by_name e p2n of
         None \<Rightarrow> SendToOne e (MakePlayerNotFound p2n st) p st
       | Some newp \<Rightarrow>
           let g = pl_guid newp;
               (inf, st1) = player_at g st
           in if p = m_ownerGUID st1 \<and> g = m_ownerGUID st1 \<and> moder then st1
              else if \<not> IsOn g st1 then SendToOne e (MakePlayerNotFound p2n st1) p st1
              else if (case find_player e p of
                         None \<Rightarrow> False
                       | Some plr \<Rightarrow>
                           (pl_security plr < SEC_GAMEMASTER2 \<or> pl_security newp < SEC_GAMEMASTER2) \<and>
                           pl_team plr \<noteq> pl_team newp \<and> \<not> two_side_channel e)
              then SendToOne e (MakePlayerNotFound p2n st1) p st1
              else if m_ownerGUID st1 = g \<and> m_ownerGUID st1 \<noteq> p then SendToOne e (MakeNotOwner st1) p st1
              else if moder then SetModerator e g s st1
              else SetMute e g s st1)"

definition SetOwner_by_name :: "chan_env \<Rightarrow> guid \<Rightarrow> string \<Rightarrow> chan_state \<Rightarrow> chan_state" where
  "SetOwner_by_name e p newname st =
     (let plr = find_player e p
      in if \<not> IsOn p st then SendToOne e (MakeNotMember st) p st
         else if sec_of plr < SEC_GAMEMASTER2 \<and> p \<noteq> m_ownerGUID st then SendToOne e (MakeNotOwner st) p st
         else case find_connected_by_name e newname of
           None \<Rightarrow> SendToOne e (MakePlayerNotFound newname st) p st
         | Some newp \<Rightarrow>
             if \<not> IsOn (pl_guid newp) st then SendToOne e (MakePlayerNotFound newname st) p st
             else if (case plr of None \<Rightarrow> False | Some q \<Rightarrow> pl_team newp \<noteq> pl_team q \<and> \<not> two_side_channel e)
             then SendToOne e (MakePlayerNotFound newname st) p st
             else SetOwner e (pl_guid newp) True
                    (modify_player (pl_guid newp) (pi_set_moderator True) st))"

definition Announce :: "chan_env \<Rightarrow> guid \<Rightarrow> chan_state \<Rightarrow> chan_state" where
  "Announce e p =
     as_moderator e p (\<lambda>st.
       let st1 = st\<lparr>m_announce := \<not> m_announce st\<rparr>
       in SendToAll e (if m_announce st1 then MakeAnnouncementsOn p st1 else MakeAnnouncementsOff p st1) 0 st1)"

definition Moderate :: "chan_env \<Rightarrow> guid \<Rightarrow> chan_state \<Rightarrow> chan_state" where
  "Moderate e p =
     as_moderator e p (\<lambda>st.
       let st1 = st\<lparr>m_moderate := \<not> m_moderate st\<rparr>
       in SendToAll e (if m_moderate st1 then MakeModerationOn p st1 else MakeModerationOff p st1) 0 st1)"

section \<open>Member commands\<close>

definition SendWhoOwner :: "chan_env \<Rightarrow> guid \<Rightarrow> chan_state \<Rightarrow> chan_state" where
  "SendWhoOwner e p st =
     (if \<not> IsOn p st then SendToOne e (MakeNotMember st) p st
      else SendToOne e (MakeChannelOwner e st) p st)"

text \<open>
  The list packet: the visible members with their flags. The count is a placeholder that
  \<open>put\<close> overwrites once the members are written.
\<close>

definition ListPacket :: "'a channel_scheme \<Rightarrow> world_packet" where
  "ListPacket st =
     (let visible = filter (\<lambda>(g, i). \<not> pi_invisible i) (players st)
      in \<lparr>wp_opcode = SMSG_CHANNEL_LIST,
          wp_fields = [U8 1, Str (m_name st), U8 (m_flags st), U32 (of_nat (length visible))] @
            concat (map (\<lambda>(g, i). [U64 g, U8 (pi_flags i)]) visible)\<rparr>)"

definition ListMembers :: "chan_env \<Rightarrow> player \<Rightarrow> chan_state \<Rightarrow> chan_state" where
  "ListMembers e pl st =
     (let p = pl_guid pl
      in if \<not> IsOn p st then SendToOne e (MakeNotMember st) p st
         else SendToOne e (ListPacket st) p st)"

abbreviation "HORDE \<equiv> (67 :: uint32)"
abbreviation "ALLIANCE \<equiv> (469 :: uint32)"

text \<open>
  A message on the world channel is also relayed to the game masters' channel, which belongs
  to the channel manager: the relay is an effect, carried out by \<open>ChannelMgr\<close>.
\<close>

definition Say :: "chan_env \<Rightarrow> guid \<Rightarrow> string option \<Rightarrow> uint32 \<Rightarrow> chan_state \<Rightarrow> chan_state" where
  "Say e p what lang0 st =
     (case what of
        None \<Rightarrow> st
      | Some msg \<Rightarrow>
          let lang = (if two_side_channel e then LANG_UNIVERSAL else lang0);
              plr = find_player e p;
              sec = sec_of plr
          in if \<not> IsOn p st then SendToOne e (MakeNotMember st) p st
             else
               let (i, st1) = player_at p st
               in if pi_is_muted i then SendToOne e (MakeMuted st1) p st1
                  else if m_moderate st1 \<and> \<not> pi_is_moderator i \<and> sec < SEC_GAMEMASTER2
                  then SendToOne e (MakeNotModerator st1) p st1
                  else if m_name st1 = ''world'' \<and>
                          (case plr of None \<Rightarrow> False | Some q \<Rightarrow> pl_level q < world_min_level e)
                  then emit (LevelTooLow p (world_min_level e)) st1
                  else if m_name st1 \<in> set quiet_names then st1
                  else case plr of
                    None \<Rightarrow> st1
                  | Some q \<Rightarrow>
                      case BuildChatPacket CHAT_MSG_CHANNEL lang (Some q) msg (m_name st1) of
                        None \<Rightarrow> emit AssertFailed st1
                      | Some (data, pos) \<Rightarrow>
                          let st2 = SendToAll e data (if \<not> pi_is_moderator i then p else 0) st1
                          in if m_name st2 = ''world'' then
                               let gmchannelName = (if pl_team q = HORDE then ''gmworldh'' else ''gmworlda'')
                               in case BuildChatPacket CHAT_MSG_CHANNEL lang (Some q) msg gmchannelName of
                                    None \<Rightarrow> emit AssertFailed st2
                                  | Some (data2, pos2) \<Rightarrow>
                                      emit (RelayToChannel (pl_team q) gmchannelName data2) st2
                             else st2)"

definition Invite :: "chan_env \<Rightarrow> guid \<Rightarrow> string \<Rightarrow> chan_state \<Rightarrow> chan_state" where
  "Invite e p newname st =
     (if \<not> IsOn p st then SendToOne e (MakeNotMember st) p st
      else case find_connected_by_name e newname of
        None \<Rightarrow> SendToOne e (MakePlayerNotFound newname st) p st
      | Some newp \<Rightarrow>
          case find_player e p of
            None \<Rightarrow> st
          | Some plr \<Rightarrow>
              if pl_team newp \<noteq> pl_team plr \<and> \<not> two_side_channel e
              then SendToOne e (MakeInviteWrongFaction st) p st
              else if IsOn (pl_guid newp) st
              then SendToOne e (MakePlayerAlreadyMember (pl_guid newp) st) p st
              else
                let st1 = (if \<not> pl_ignored newp (guid_counter p)
                           then SendToOne e (MakeInvite p st) (pl_guid newp) st else st)
                in SendToOne e (MakePlayerInvited (pl_name newp) st1) p st1)"

definition Voice :: "guid \<Rightarrow> guid \<Rightarrow> chan_state \<Rightarrow> chan_state" where
  "Voice g1 g2 st = st"

definition DeVoice :: "guid \<Rightarrow> guid \<Rightarrow> chan_state \<Rightarrow> chan_state" where
  "DeVoice g1 g2 st = st"

section \<open>Game master bans\<close>

definition AddNewGMBan :: "uint64 \<Rightarrow> uint64 \<Rightarrow> chan_state \<Rightarrow> chan_state" where
  "AddNewGMBan accountid expire st = st\<lparr>gmbanned := omap_set accountid expire (gmbanned st)\<rparr>"

definition RemoveGMBan :: "chan_env \<Rightarrow> uint64 \<Rightarrow> chan_state \<Rightarrow> chan_state" where
  "RemoveGMBan e accountid st = st\<lparr>gmbanned := omap_set accountid (game_time e) (gmbanned st)\<rparr>"

section \<open>The operations of a channel\<close>

datatype chan_op =
    OpJoin guid string
  | OpLeave guid bool
  | OpKickOrBan guid string bool
  | OpUnBan guid string
  | OpPassword guid string
  | OpSetMode guid string bool bool
  | OpSetOwner guid string
  | OpSendWhoOwner guid
  | OpList player
  | OpAnnounce guid
  | OpModerate guid
  | OpSay guid "string option" uint32
  | OpInvite guid string
  | OpAddNewGMBan uint64 uint64
  | OpRemoveGMBan uint64

fun chan_step :: "chan_env \<Rightarrow> chan_state \<Rightarrow> chan_op \<Rightarrow> chan_state" where
  "chan_step e st (OpJoin p pass) = Join e p pass st"
| "chan_step e st (OpLeave p send) = Leave e p send st"
| "chan_step e st (OpKickOrBan p nm ban) = KickOrBan e p nm ban st"
| "chan_step e st (OpUnBan p nm) = UnBan e p nm st"
| "chan_step e st (OpPassword p pass) = Password e p pass st"
| "chan_step e st (OpSetMode p nm moder s) = SetMode e p nm moder s st"
| "chan_step e st (OpSetOwner p nm) = SetOwner_by_name e p nm st"
| "chan_step e st (OpSendWhoOwner p) = SendWhoOwner e p st"
| "chan_step e st (OpList pl) = ListMembers e pl st"
| "chan_step e st (OpAnnounce p) = Announce e p st"
| "chan_step e st (OpModerate p) = Moderate e p st"
| "chan_step e st (OpSay p what lang) = Say e p what lang st"
| "chan_step e st (OpInvite p nm) = Invite e p nm st"
| "chan_step e st (OpAddNewGMBan acc expire) = AddNewGMBan acc expire st"
| "chan_step e st (OpRemoveGMBan acc) = RemoveGMBan e acc st"

end
