(* ===== verification/ChannelLaws.thy ===== *)
theory ChannelLaws
  imports ChannelOps
begin

text \<open>
  Laws of the channel operations: the invariant of the member map and of the owner, the
  effect of every command on its branches, and who may change what.
\<close>

section \<open>What sending leaves alone\<close>

lemma emit_frame [simp]:
  "players (emit x st) = players st" "banned (emit x st) = banned st"
  "gmbanned (emit x st) = gmbanned st" "m_announce (emit x st) = m_announce st"
  "m_moderate (emit x st) = m_moderate st" "m_name (emit x st) = m_name st"
  "m_password (emit x st) = m_password st" "m_flags (emit x st) = m_flags st"
  "m_channelId (emit x st) = m_channelId st" "m_ownerGUID (emit x st) = m_ownerGUID st"
  "out (emit x st) = out st @ [x]"
  by (simp_all add: emit_def)

lemma SendToAll_frame [simp]:
  "players (SendToAll e d p st) = players st" "banned (SendToAll e d p st) = banned st"
  "gmbanned (SendToAll e d p st) = gmbanned st" "m_announce (SendToAll e d p st) = m_announce st"
  "m_moderate (SendToAll e d p st) = m_moderate st" "m_name (SendToAll e d p st) = m_name st"
  "m_password (SendToAll e d p st) = m_password st" "m_flags (SendToAll e d p st) = m_flags st"
  "m_channelId (SendToAll e d p st) = m_channelId st" "m_ownerGUID (SendToAll e d p st) = m_ownerGUID st"
  by (simp_all add: SendToAll_def)

lemma SendToOne_frame [simp]:
  "players (SendToOne e d p st) = players st" "banned (SendToOne e d p st) = banned st"
  "gmbanned (SendToOne e d p st) = gmbanned st" "m_announce (SendToOne e d p st) = m_announce st"
  "m_moderate (SendToOne e d p st) = m_moderate st" "m_name (SendToOne e d p st) = m_name st"
  "m_password (SendToOne e d p st) = m_password st" "m_flags (SendToOne e d p st) = m_flags st"
  "m_channelId (SendToOne e d p st) = m_channelId st" "m_ownerGUID (SendToOne e d p st) = m_ownerGUID st"
  by (simp_all add: SendToOne_def split: option.split)

lemma JoinNotify_frame [simp]:
  "players (JoinNotify e p st) = players st" "banned (JoinNotify e p st) = banned st"
  "gmbanned (JoinNotify e p st) = gmbanned st" "m_announce (JoinNotify e p st) = m_announce st"
  "m_moderate (JoinNotify e p st) = m_moderate st" "m_name (JoinNotify e p st) = m_name st"
  "m_password (JoinNotify e p st) = m_password st" "m_channelId (JoinNotify e p st) = m_channelId st"
  "m_ownerGUID (JoinNotify e p st) = m_ownerGUID st"
  by (simp_all add: JoinNotify_def)

lemma LeaveNotify_frame [simp]:
  "players (LeaveNotify e p st) = players st" "banned (LeaveNotify e p st) = banned st"
  "gmbanned (LeaveNotify e p st) = gmbanned st" "m_announce (LeaveNotify e p st) = m_announce st"
  "m_moderate (LeaveNotify e p st) = m_moderate st" "m_name (LeaveNotify e p st) = m_name st"
  "m_password (LeaveNotify e p st) = m_password st" "m_channelId (LeaveNotify e p st) = m_channelId st"
  "m_ownerGUID (LeaveNotify e p st) = m_ownerGUID st"
  by (simp_all add: LeaveNotify_def)

lemma announce_if_frame [simp]:
  "players (announce_if e c d st) = players st"
  "banned (announce_if e c d st) = banned st"
  "gmbanned (announce_if e c d st) = gmbanned st"
  "m_announce (announce_if e c d st) = m_announce st"
  "m_moderate (announce_if e c d st) = m_moderate st"
  "m_name (announce_if e c d st) = m_name st"
  "m_password (announce_if e c d st) = m_password st"
  "m_channelId (announce_if e c d st) = m_channelId st"
  "m_ownerGUID (announce_if e c d st) = m_ownerGUID st"
  "m_flags (announce_if e c d st) = m_flags st"
  by (simp_all add: announce_if_def)

lemma leave_send_frame [simp]:
  "players (leave_send e p send st) = players st"
  "banned (leave_send e p send st) = banned st"
  "gmbanned (leave_send e p send st) = gmbanned st"
  "m_announce (leave_send e p send st) = m_announce st"
  "m_moderate (leave_send e p send st) = m_moderate st"
  "m_name (leave_send e p send st) = m_name st"
  "m_password (leave_send e p send st) = m_password st"
  "m_channelId (leave_send e p send st) = m_channelId st"
  "m_ownerGUID (leave_send e p send st) = m_ownerGUID st"
  "m_flags (leave_send e p send st) = m_flags st"
  by (simp_all add: leave_send_def Let_def)

lemma IsConstant_frame [simp]:
  "IsConstant (announce_if e c d st) = IsConstant st" "IsConstant (SendToOne e d p st) = IsConstant st"
  "IsConstant (JoinNotify e p st) = IsConstant st" "IsConstant (st\<lparr>players := m\<rparr>) = IsConstant st"
  by (simp_all add: IsConstant_def)

lemma player_at_frame:
  assumes "player_at p st = (i, st')"
  shows "banned st' = banned st" "gmbanned st' = gmbanned st" "m_announce st' = m_announce st"
    "m_moderate st' = m_moderate st" "m_name st' = m_name st" "m_password st' = m_password st"
    "m_ownerGUID st' = m_ownerGUID st" "m_channelId st' = m_channelId st" "out st' = out st"
  using assms by (auto simp: player_at_def split: prod.splits)

lemma player_at_member:
  "omap_find (players st) p = Some i \<Longrightarrow> player_at p st = (i, st)"
  by (simp add: player_at_def omap_index_present)

lemma modify_player_frame [simp]:
  "banned (modify_player p f st) = banned st" "gmbanned (modify_player p f st) = gmbanned st"
  "m_announce (modify_player p f st) = m_announce st" "m_moderate (modify_player p f st) = m_moderate st"
  "m_name (modify_player p f st) = m_name st" "m_password (modify_player p f st) = m_password st"
  "m_ownerGUID (modify_player p f st) = m_ownerGUID st" "m_channelId (modify_player p f st) = m_channelId st"
  "out (modify_player p f st) = out st"
  by (simp_all add: modify_player_def player_at_def split: prod.split)

section \<open>The invariant\<close>

text \<open>
  The containers are well formed; a member carries the owner flag exactly when it is the
  channel's owner, and the owner, when there is one, is a member.
\<close>

definition containers_ok :: "'a channel_scheme \<Rightarrow> bool" where
  "containers_ok st \<longleftrightarrow> omap_ok (players st) \<and> oset_ok (banned st) \<and> omap_ok (gmbanned st)"

definition owner_flag :: "guid \<Rightarrow> 'a channel_scheme \<Rightarrow> bool" where
  "owner_flag g st = (case omap_find (players st) g of None \<Rightarrow> False | Some i \<Rightarrow> pi_is_owner i)"

definition chan_inv :: "'a channel_scheme \<Rightarrow> bool" where
  "chan_inv st \<longleftrightarrow> containers_ok st \<and>
     (\<forall>(g, i) \<in> set (players st). pi_is_owner i \<longrightarrow> g = m_ownerGUID st \<and> g \<noteq> 0) \<and>
     (m_ownerGUID st \<noteq> 0 \<longrightarrow> owner_flag (m_ownerGUID st) st)"

lemma owner_flags_iff:
  "omap_ok (players st) \<Longrightarrow>
     (\<forall>(g, i) \<in> set (players st). pi_is_owner i \<longrightarrow> P g) \<longleftrightarrow> (\<forall>g. owner_flag g st \<longrightarrow> P g)"
  by (force simp: owner_flag_def dest: omap_in_set_find omap_find_in_set split: option.splits)

lemma chan_inv_iff:
  "chan_inv st \<longleftrightarrow> containers_ok st \<and> (\<forall>g. owner_flag g st \<longleftrightarrow> g = m_ownerGUID st \<and> g \<noteq> 0)"
  using owner_flags_iff [of st "\<lambda>g. g = m_ownerGUID st \<and> g \<noteq> 0"]
  by (auto simp: chan_inv_def containers_ok_def)

text \<open>What remains of the invariant once the owner has been erased and not yet replaced.\<close>

definition stray_free :: "'a channel_scheme \<Rightarrow> bool" where
  "stray_free st \<longleftrightarrow> containers_ok st \<and> (\<forall>g. owner_flag g st \<longrightarrow> g = m_ownerGUID st \<and> g \<noteq> 0)"

lemma chan_inv_stray_free: "chan_inv st \<Longrightarrow> stray_free st"
  by (auto simp: chan_inv_iff stray_free_def)

lemma pi_owner_simps [simp]:
  "pi_is_owner (pi_set_owner True i)" "\<not> pi_is_owner (pi_set_owner False i)"
  "pi_is_owner (pi_set_moderator s i) = pi_is_owner i" "pi_is_owner (pi_set_muted s i) = pi_is_owner i"
  "\<not> pi_is_owner default_info"
  by (simp_all add: pi_is_owner_def pi_set_owner_def pi_set_moderator_def pi_set_muted_def
      default_info_def flag_simps) (simp_all add: has_flag_def)

lemma pi_moderator_simps [simp]:
  "pi_is_moderator (pi_set_moderator s i) = s" "pi_is_moderator (pi_set_muted s i) = pi_is_moderator i"
  "pi_is_moderator (pi_set_owner s i) = pi_is_moderator i" "\<not> pi_is_moderator default_info"
  by (simp_all add: pi_is_moderator_def pi_set_owner_def pi_set_moderator_def pi_set_muted_def
      default_info_def flag_simps) (simp_all add: has_flag_def)

lemma pi_muted_simps [simp]:
  "pi_is_muted (pi_set_muted s i) = s" "pi_is_muted (pi_set_moderator s i) = pi_is_muted i"
  "pi_is_muted (pi_set_owner s i) = pi_is_muted i" "\<not> pi_is_muted default_info"
  by (simp_all add: pi_is_muted_def pi_set_owner_def pi_set_moderator_def pi_set_muted_def
      default_info_def flag_simps) (simp_all add: has_flag_def)

lemma find_player_at:
  assumes "omap_ok (players st)" "player_at p st = (i, st')"
  shows "omap_ok (players st')" "omap_find (players st') p = Some i"
    "g \<noteq> p \<Longrightarrow> omap_find (players st') g = omap_find (players st) g"
    "i = (case omap_find (players st) p of Some j \<Rightarrow> j | None \<Rightarrow> default_info)"
  using assms
  by (auto simp: player_at_def omap_index_def om.find_put om.invar_put split: option.splits)

lemma find_modify_player:
  assumes "omap_ok (players st)"
  shows "omap_ok (players (modify_player p f st))"
    "omap_find (players (modify_player p f st)) g =
       (if g = p then Some (f (case omap_find (players st) p of Some j \<Rightarrow> j | None \<Rightarrow> default_info))
        else omap_find (players st) g)"
  using assms
  by (auto simp: modify_player_def player_at_def omap_index_def om.find_put om.invar_put
      split: option.splits prod.splits)

lemma owner_flag_player_at:
  "omap_ok (players st) \<Longrightarrow> player_at p st = (i, st') \<Longrightarrow> owner_flag g st' = owner_flag g st"
  using find_player_at [of st p i st']
  by (cases "g = p") (auto simp: owner_flag_def split: option.splits)

lemma chan_inv_player_at: "chan_inv st \<Longrightarrow> player_at p st = (i, st') \<Longrightarrow> chan_inv st'"
  using owner_flag_player_at [of st p i st'] find_player_at(1) [of st p i st']
    player_at_frame [of p st i st']
  by (auto simp: chan_inv_iff containers_ok_def)

lemma chan_inv_modify:
  assumes "chan_inv st" "\<And>i. pi_is_owner (f i) = pi_is_owner i"
  shows "chan_inv (modify_player p f st)"
proof -
  note ok = assms(1) [unfolded chan_inv_iff containers_ok_def]
  have "owner_flag g (modify_player p f st) = owner_flag g st" for g
    using find_modify_player [of st p f] ok assms(2) by (auto simp: owner_flag_def split: option.splits)
  then show ?thesis
    using ok find_modify_player(1) by (auto simp: chan_inv_iff containers_ok_def)
qed

lemma chan_inv_SendToAll [simp]: "chan_inv (SendToAll e d p st) = chan_inv st"
  by (simp add: chan_inv_def containers_ok_def owner_flag_def)

lemma chan_inv_SendToOne [simp]: "chan_inv (SendToOne e d p st) = chan_inv st"
  by (simp add: chan_inv_def containers_ok_def owner_flag_def)

lemma chan_inv_emit [simp]: "chan_inv (emit x st) = chan_inv st"
  by (simp add: chan_inv_def containers_ok_def owner_flag_def)

lemma chan_inv_notify [simp]:
  "chan_inv (JoinNotify e p st) = chan_inv st" "chan_inv (LeaveNotify e p st) = chan_inv st"
  by (simp_all add: JoinNotify_def LeaveNotify_def)

text \<open>\<open>SetOwner\<close> takes the flag from the previous owner, when it is still a member, and gives it to the new one.\<close>

lemma SetOwner_players:
  assumes "stray_free st"
  shows "omap_ok (players (SetOwner e g ex st))"
    "owner_flag h (SetOwner e g ex st) \<longleftrightarrow> h = g \<and> g \<noteq> 0"
  using assms
  by (auto simp: SetOwner_def Let_def stray_free_def containers_ok_def owner_flag_def
      find_modify_player om.find_put om.invar_put split: option.splits)

lemma SetOwner_frame [simp]:
  "banned (SetOwner e g ex st) = banned st" "gmbanned (SetOwner e g ex st) = gmbanned st"
  "m_ownerGUID (SetOwner e g ex st) = g" "m_name (SetOwner e g ex st) = m_name st"
  "m_password (SetOwner e g ex st) = m_password st" "m_announce (SetOwner e g ex st) = m_announce st"
  "m_moderate (SetOwner e g ex st) = m_moderate st" "m_channelId (SetOwner e g ex st) = m_channelId st"
  by (auto simp: SetOwner_def Let_def split: option.splits)

lemma SetOwner_inv: "stray_free st \<Longrightarrow> chan_inv (SetOwner e g ex st)"
  using SetOwner_players(1) [of st e g ex] SetOwner_players(2) [of st _ e g ex]
  by (auto simp: chan_inv_iff containers_ok_def stray_free_def)

text \<open>
  The invariant depends on four fields: the lemmas below speak of any state that agrees with
  the given one on them, so that the packets sent in between do not matter.
\<close>

definition same_keys :: "'a channel_scheme \<Rightarrow> 'b channel_scheme \<Rightarrow> bool" where
  "same_keys s st \<longleftrightarrow> banned s = banned st \<and> gmbanned s = gmbanned st \<and> m_ownerGUID s = m_ownerGUID st"

lemma chan_inv_cong:
  "same_keys s st \<Longrightarrow> players s = players st \<Longrightarrow> chan_inv st \<Longrightarrow> chan_inv s"
  by (simp add: chan_inv_def containers_ok_def owner_flag_def same_keys_def)

lemma stray_free_erase:
  "stray_free st \<Longrightarrow> same_keys s st \<Longrightarrow> players s = omap_erase p (players st) \<Longrightarrow> stray_free s"
  by (auto simp: stray_free_def containers_ok_def owner_flag_def om.find_erase om.invar_erase
      same_keys_def split: option.splits if_splits)

lemma chan_inv_erase_member:
  "chan_inv st \<Longrightarrow> p \<noteq> m_ownerGUID st \<or> m_ownerGUID st = 0 \<Longrightarrow> same_keys s st \<Longrightarrow>
     players s = omap_erase p (players st) \<Longrightarrow> chan_inv s"
  by (auto simp: chan_inv_iff containers_ok_def owner_flag_def om.find_erase om.invar_erase
      same_keys_def split: option.splits if_splits)

lemma chan_inv_new_member:
  "chan_inv st \<Longrightarrow> omap_find (players st) p = None \<Longrightarrow> \<not> pi_is_owner i \<Longrightarrow> same_keys s st \<Longrightarrow>
     players s = omap_set p i (players st) \<Longrightarrow> chan_inv s"
  by (auto simp: chan_inv_iff containers_ok_def owner_flag_def om.find_put om.invar_put
      same_keys_def split: option.splits if_splits)

section \<open>Every operation keeps the invariant\<close>

lemma SetModerator_inv: "chan_inv st \<Longrightarrow> chan_inv (SetModerator e p s st)"
  by (auto simp: SetModerator_def Let_def split: prod.split
      intro!: chan_inv_modify dest: chan_inv_player_at)

lemma SetMute_inv: "chan_inv st \<Longrightarrow> chan_inv (SetMute e p s st)"
  by (auto simp: SetMute_def Let_def split: prod.split
      intro!: chan_inv_modify dest: chan_inv_player_at)

lemma as_moderator_inv:
  "chan_inv st \<Longrightarrow> (\<And>s. chan_inv s \<Longrightarrow> chan_inv (act s)) \<Longrightarrow> chan_inv (as_moderator e p act st)"
  by (auto simp: as_moderator_def Let_def split: prod.split dest: chan_inv_player_at)

lemma enter_channel_inv:
  assumes "chan_inv st" "omap_find (players st) p = None"
  shows "chan_inv (enter_channel e p st)"
proof -
  let ?i = "\<lparr>pi_player = p, pi_flags = 0,
    pi_invisible = (SEC_PLAYER < sec_of (find_player e p) \<and> silent_gm_join e)\<rparr>"
  have "\<not> pi_is_owner ?i" by (simp add: pi_is_owner_def)
  with assms have new: "same_keys s st \<Longrightarrow> players s = omap_set p ?i (players st) \<Longrightarrow> chan_inv s"
    for s :: chan_state
    by (blast intro: chan_inv_new_member)
  show ?thesis
    by (simp add: enter_channel_def Let_def)
      (intro conjI impI chan_inv_modify SetOwner_inv chan_inv_stray_free;
       (rule new)?; simp add: same_keys_def)
qed

lemma Join_inv: "chan_inv st \<Longrightarrow> chan_inv (Join e p pass st)"
  by (simp add: Join_def IsOn_def omap_has_def enter_channel_inv split: option.split)

lemma Leave_inv:
  assumes "chan_inv st"
  shows "chan_inv (Leave e p send st)"
proof (cases "omap_find (players st) p")
  case None
  with assms show ?thesis by (simp add: Leave_def IsOn_def omap_has_def)
next
  case (Some i)
  have owner: "pi_is_owner i \<longleftrightarrow> p = m_ownerGUID st \<and> p \<noteq> 0"
    using assms Some by (auto simp: chan_inv_iff owner_flag_def split: option.splits)
  have at: "player_at p (leave_send e p send st) = (i, leave_send e p send st)"
    using Some by (simp add: player_at_member)
  have keep: "same_keys s st \<Longrightarrow> players s = omap_erase p (players st) \<Longrightarrow> \<not> pi_is_owner i \<Longrightarrow> chan_inv s"
    for s :: chan_state
    by (rule chan_inv_erase_member [OF assms, of p]) (use owner in auto)
  have gone: "same_keys s st \<Longrightarrow> players s = omap_erase p (players st) \<Longrightarrow> stray_free s"
    for s :: chan_state
    by (rule stray_free_erase [OF chan_inv_stray_free [OF assms]])
  show ?thesis
    using Some
    by (simp add: Leave_def IsOn_def omap_has_def at Let_def)
      (intro conjI impI SetOwner_inv,
       (rule gone; simp add: same_keys_def), (rule keep; simp add: same_keys_def))
qed

lemma stray_free_emit [simp]: "stray_free (emit x st) = stray_free st"
  by (simp add: stray_free_def containers_ok_def owner_flag_def)

lemma ban_if_frame [simp]:
  "players (ban_if c g st) = players st" "gmbanned (ban_if c g st) = gmbanned st"
  "m_ownerGUID (ban_if c g st) = m_ownerGUID st" "m_name (ban_if c g st) = m_name st"
  "m_password (ban_if c g st) = m_password st" "m_announce (ban_if c g st) = m_announce st"
  "m_moderate (ban_if c g st) = m_moderate st" "m_channelId (ban_if c g st) = m_channelId st"
  by (simp_all add: ban_if_def)

lemma chan_inv_ban_if: "chan_inv st \<Longrightarrow> chan_inv (ban_if c g st)"
  by (auto simp: ban_if_def chan_inv_iff containers_ok_def owner_flag_def os.invar_ins)

lemma expel_inv:
  assumes "chan_inv st"
  shows "chan_inv (expel e good bad ban st)"
proof -
  let ?t = "ban_if (ban \<and> \<not> IsBanned bad st) bad st"
  have inv: "chan_inv ?t" using assms by (rule chan_inv_ban_if)
  have keep: "same_keys s ?t \<Longrightarrow> players s = omap_erase bad (players ?t) \<Longrightarrow> bad \<noteq> m_ownerGUID st \<Longrightarrow> chan_inv s"
    for s :: chan_state
    by (rule chan_inv_erase_member [OF inv, of bad]) simp_all
  have gone: "same_keys s ?t \<Longrightarrow> players s = omap_erase bad (players ?t) \<Longrightarrow> stray_free s"
    for s :: chan_state
    by (rule stray_free_erase [OF chan_inv_stray_free [OF inv]])
  show ?thesis
  proof (cases "m_ownerGUID st = bad")
    case True
    show ?thesis
      unfolding expel_def Let_def
      by (simp only: True simp_thms if_True)
        (rule SetOwner_inv, rule gone; simp add: same_keys_def split del: if_split)
  next
    case False
    then show ?thesis
      unfolding expel_def Let_def
      by (simp only: simp_thms if_False)
        (rule keep; simp add: same_keys_def split del: if_split)
  qed
qed

lemma KickOrBan_inv: "chan_inv st \<Longrightarrow> chan_inv (KickOrBan e good badname ban st)"
  by (auto simp: KickOrBan_def Let_def expel_inv split: prod.split option.split dest: chan_inv_player_at)

lemma UnBan_inv: "chan_inv st \<Longrightarrow> chan_inv (UnBan e good badname st)"
  unfolding UnBan_def
  by (rule as_moderator_inv)
    (auto simp: Let_def chan_inv_iff containers_ok_def owner_flag_def os.invar_del split: option.splits)

lemma chan_inv_fields [simp]:
  "chan_inv (st\<lparr>m_password := x\<rparr>) = chan_inv st"
  "chan_inv (st\<lparr>m_announce := y\<rparr>) = chan_inv st"
  "chan_inv (st\<lparr>m_moderate := z\<rparr>) = chan_inv st" for st :: chan_state
  by (simp_all add: chan_inv_def containers_ok_def owner_flag_def)

lemma mode_command_inv:
  "chan_inv st \<Longrightarrow> chan_inv (Password e p pass st)"
  "chan_inv st \<Longrightarrow> chan_inv (Announce e p st)"
  "chan_inv st \<Longrightarrow> chan_inv (Moderate e p st)"
  by (simp_all add: Password_def Announce_def Moderate_def Let_def as_moderator_inv)

lemma SetMode_inv: "chan_inv st \<Longrightarrow> chan_inv (SetMode e p nm moder s st)"
  unfolding SetMode_def Let_def
  by (rule as_moderator_inv)
    (auto simp: SetModerator_inv SetMute_inv split: option.splits prod.splits dest: chan_inv_player_at)

lemma SetOwner_by_name_inv: "chan_inv st \<Longrightarrow> chan_inv (SetOwner_by_name e p nm st)"
  by (auto simp: SetOwner_by_name_def Let_def split: option.splits
      intro!: SetOwner_inv chan_inv_stray_free chan_inv_modify)

lemma Say_inv:
  assumes "chan_inv st"
  shows "chan_inv (Say e p what lang st)"
proof (cases "player_at p st")
  case (Pair i st1)
  with assms have "chan_inv st1" by (rule chan_inv_player_at)
  with assms Pair show ?thesis
    by (simp add: Say_def Let_def split: option.split)
qed

lemma member_query_inv:
  "chan_inv st \<Longrightarrow> chan_inv (SendWhoOwner e p st)"
  "chan_inv st \<Longrightarrow> chan_inv (ListMembers e pl st)"
  "chan_inv st \<Longrightarrow> chan_inv (Invite e p nm st)"
  by (simp_all add: SendWhoOwner_def ListMembers_def Invite_def Let_def split: option.splits)

lemma gm_ban_inv:
  "chan_inv st \<Longrightarrow> chan_inv (AddNewGMBan acc expire st)"
  "chan_inv st \<Longrightarrow> chan_inv (RemoveGMBan e acc st)"
  by (simp_all add: AddNewGMBan_def RemoveGMBan_def chan_inv_def containers_ok_def owner_flag_def om.invar_put)

lemmas chan_op_inv =
  Join_inv Leave_inv KickOrBan_inv UnBan_inv mode_command_inv SetMode_inv SetOwner_by_name_inv
  Say_inv member_query_inv gm_ban_inv

interpretation chan: invariant_ops "chan_step e" chan_inv "\<lambda>st x. True" for e
proof
  fix st :: chan_state and x
  assume "chan_inv st"
  then show "chan_inv (chan_step e st x)"
    by (cases x) (simp_all add: chan_op_inv)
qed

lemma Channel_new_inv: "chan_inv (Channel_new e name cid)"
proof -
  have "omap_ok m \<Longrightarrow> omap_ok (fold (\<lambda>(acc, expire). omap_set (ucast acc) (ucast expire)) bs m)"
    for bs :: "(uint32 \<times> uint32) list" and m :: "(uint64, uint64) omap"
    by (induction bs arbitrary: m) (auto simp: om.invar_put)
  then show ?thesis
    by (auto simp: Channel_new_def Let_def chan_inv_def containers_ok_def owner_flag_def om.invar_empty
        oset_ok_def split: option.splits)
qed

section \<open>Ownership\<close>

text \<open>
  C2. Whatever sequence of operations runs on a fresh channel, the member map, the ban set and
  the game master ban map stay well formed, and a member carries the owner flag exactly when
  it is \<open>m_ownerGUID\<close>: there is never a second owner and the owner is always a member.
\<close>

theorem channel_owner_unique:
  "let st = run_ops (chan_step e) (Channel_new e name cid) ops
   in containers_ok st \<and> (\<forall>g. owner_flag g st \<longleftrightarrow> g = m_ownerGUID st \<and> g \<noteq> 0)"
proof -
  have "chan_inv (run_ops (chan_step e) (Channel_new e name cid) ops)"
    by (rule chan.run_inv_total) (simp_all add: Channel_new_inv)
  then show ?thesis by (simp add: Let_def chan_inv_iff)
qed

section \<open>Speaking\<close>

lemma Say_muted:
  "omap_find (players st) p = Some i \<Longrightarrow> pi_is_muted i \<Longrightarrow>
     Say e p (Some what) lang st = SendToOne e (MakeMuted st) p st"
  by (simp add: Say_def Let_def IsOn_def omap_has_def player_at_member)

lemma as_moderator_allowed:
  "omap_find (players st) p = Some i \<Longrightarrow> pi_is_moderator i \<Longrightarrow> as_moderator e p act st = act st"
  by (simp add: as_moderator_def Let_def IsOn_def omap_has_def player_at_member)

lemma SetMute_find:
  assumes "omap_ok (players st)" "m_name st \<noteq> ''world''"
  shows "\<exists>i. omap_find (players (SetMute e p s st)) p = Some i \<and> pi_is_muted i = s"
proof (cases "player_at p st")
  case (Pair i st1)
  note at = find_player_at [OF assms(1) Pair]
  show ?thesis
    using at assms(2) by (auto simp: SetMute_def Pair Let_def find_modify_player)
qed

definition may_moderate :: "chan_env \<Rightarrow> guid \<Rightarrow> player \<Rightarrow> bool" where
  "may_moderate e p t =
     (case find_player e p of None \<Rightarrow> True
      | Some q \<Rightarrow> pl_team q = pl_team t \<or> two_side_channel e)"

lemma SetMode_mute:
  assumes "omap_find (players st) p = Some i" "pi_is_moderator i"
    and "find_connected_by_name e nm = Some t" "may_moderate e p t"
    and "pl_guid t \<noteq> m_ownerGUID st" "player_at (pl_guid t) st = (j, st1)" "omap_ok (players st)"
  shows "SetMode e p nm False s st = SetMute e (pl_guid t) s st1"
proof -
  have "IsOn (pl_guid t) st1"
    using find_player_at(2) [OF assms(7,6)] by (simp add: IsOn_def omap_has_def)
  moreover have "pl_guid t \<noteq> m_ownerGUID st1" using assms(5) player_at_frame(7) [OF assms(6)] by simp
  ultimately show ?thesis
    using assms
    by (auto simp: SetMode_def as_moderator_allowed Let_def may_moderate_def split: option.splits)
qed

text \<open>
  When a moderator mutes a player of the same side who is not the owner, nothing that
  player says afterwards is delivered: each attempt only sends the speaker the muted notice
  and leaves the channel as it is. (The world channel ignores mutes.)
\<close>

theorem mute_silences:
  assumes "chan_inv st" "omap_find (players st) p = Some i" "pi_is_moderator i"
    and "find_connected_by_name e nm = Some t" "may_moderate e p t"
    and "pl_guid t \<noteq> m_ownerGUID st" "m_name st \<noteq> ''world''"
  shows "let st' = SetMode e p nm False True st
         in Say e (pl_guid t) (Some what) lang st' = SendToOne e (MakeMuted st') (pl_guid t) st'"
proof (cases "player_at (pl_guid t) st")
  case (Pair j st1)
  have ok: "omap_ok (players st)" using assms(1) by (simp add: chan_inv_def containers_ok_def)
  have eq: "SetMode e p nm False True st = SetMute e (pl_guid t) True st1"
    using assms(2-6) Pair ok by (rule SetMode_mute)
  have "omap_ok (players st1)" by (rule find_player_at(1) [OF ok Pair])
  moreover have "m_name st1 \<noteq> ''world''" using assms(7) player_at_frame(5) [OF Pair] by simp
  ultimately obtain k where "omap_find (players (SetMute e (pl_guid t) True st1)) (pl_guid t) = Some k"
      "pi_is_muted k"
    using SetMute_find [of st1 e "pl_guid t" True] by auto
  then show ?thesis unfolding eq Let_def by (rule Say_muted)
qed

text \<open>A small world for the examples: Alice and Bob on a channel, Carol connected outside it.\<close>

definition demo_player :: "guid \<Rightarrow> string \<Rightarrow> player" where
  "demo_player g nm = \<lparr>pl_guid = g, pl_name = nm, pl_security = 0, pl_team = ALLIANCE, pl_guild = 0,
     pl_in_group = False, pl_lfg_empty = False, pl_level = 10, pl_ignored = (\<lambda>c. False),
     pl_chat_tag = 0, pl_gm_on = False, pl_gm_chat = False\<rparr>"

definition demo_find :: "guid \<Rightarrow> player option" where
  "demo_find g = (if g = 1 then Some (demo_player 1 ''Alice'') else if g = 2 then Some (demo_player 2 ''Bob'')
     else if g = 3 then Some (demo_player 3 ''Carol'') else None)"

definition demo_by_name :: "string \<Rightarrow> player option" where
  "demo_by_name nm = (if nm = ''Alice'' then demo_find 1 else if nm = ''Bob'' then demo_find 2
     else if nm = ''Carol'' then demo_find 3 else None)"

definition demo_env :: chan_env where
  "demo_env = \<lparr>find_player = demo_find, find_connected = demo_find,
     find_connected_by_name = demo_by_name, account_of = (\<lambda>g. ucast g), name_of = (\<lambda>g. map_option pl_name (demo_find g)),
     game_time = 1000, two_side_channel = False, restricted_lfg = False, silent_gm_join = False,
     world_min_level = 20, channel_entry = (\<lambda>c. None), channel_bans = (\<lambda>nm. []),
     normalize_name = (\<lambda>nm. Some nm)\<rparr>"

definition demo_channel :: chan_state where
  "demo_channel = \<lparr>players = [(1, \<lparr>pi_player = 1, pi_flags = 3, pi_invisible = False\<rparr>),
                              (2, \<lparr>pi_player = 2, pi_flags = 0, pi_invisible = False\<rparr>)],
     banned = [], gmbanned = [], m_announce = True, m_moderate = False, m_name = ''pub'',
     m_password = '''', m_flags = 1, m_channelId = 0, m_ownerGUID = 1, out = []\<rparr>"

lemmas demo_defs = demo_channel_def demo_env_def demo_by_name_def demo_find_def demo_player_def

lemma demo_inv: "chan_inv demo_channel"
  by (simp add: chan_inv_def containers_ok_def demo_channel_def omap_ok_def oset_ok_def owner_flag_def
      omap_find_def pi_is_owner_def has_flag_def)

lemma demo_moderator:
  "omap_find (players demo_channel) 1 = Some \<lparr>pi_player = 1, pi_flags = 3, pi_invisible = False\<rparr>"
  "pi_is_moderator \<lparr>pi_player = 1, pi_flags = 3, pi_invisible = False\<rparr>"
  by (simp_all add: demo_channel_def omap_find_def pi_is_moderator_def has_flag_def)

text \<open>The channel is the one two joins produce.\<close>

lemma demo_reached:
  "channel.truncate (run_ops (chan_step demo_env) (Channel_new demo_env ''pub'' 0) [OpJoin 1 '''', OpJoin 2 '''']) =
   channel.truncate demo_channel"
  by code_simp

theorem mute_silences_witness:
  "let st' = SetMode demo_env 1 ''Bob'' False True demo_channel
   in Say demo_env 2 (Some ''hi'') 0 st' = SendToOne demo_env (MakeMuted st') 2 st'"
  using mute_silences [OF demo_inv demo_moderator,
      of demo_env "''Bob''" "demo_player 2 ''Bob''" "''hi''" 0]
  by (simp add: may_moderate_def demo_defs)

text \<open>Who receives a message: the members online that do not ignore the speaker.\<close>

lemma set_recipients:
  "g \<in> set (recipients e p ps) \<longleftrightarrow>
     omap_has ps g \<and> (\<exists>q. find_player e g = Some q \<and> (p = 0 \<or> \<not> pl_ignored q (guid_counter p)))"
  by (auto simp: recipients_def omap_has_iff_key split: option.splits)

lemma distinct_recipients: "omap_ok ps \<Longrightarrow> distinct (recipients e p ps)"
  unfolding recipients_def by (rule distinct_filter) (rule om.distinct_keys)

text \<open>
  C10. Take a member who is online and not muted, on a channel with a non-empty name that is
  not the world channel and not one of the four silent ones, and who is a moderator if the
  channel is moderated. What the member says is delivered as one chat packet, once to exactly
  the members that are online and (unless the speaker is a moderator or the speaker's guid is
  zero) do not ignore the speaker, and the channel itself does not change. The packet is in the
  universal language when the server lets the two sides share channels and in the given
  language otherwise.
\<close>

theorem say_reaches_exactly_members:
  assumes "omap_ok (players st)" "omap_find (players st) p = Some i" "\<not> pi_is_muted i"
    and "m_moderate st \<longrightarrow> pi_is_moderator i"
    and "m_name st \<noteq> ''world''" "m_name st \<notin> set quiet_names" "m_name st \<noteq> []"
    and "find_player e p = Some q"
  shows "\<exists>data pos rs.
    BuildChatPacket CHAT_MSG_CHANNEL (if two_side_channel e then LANG_UNIVERSAL else lang)
      (Some q) what (m_name st) = Some (data, pos) \<and>
    Say e p (Some what) lang st = st\<lparr>out := out st @ map (\<lambda>g. SendPacket g data) rs\<rparr> \<and> distinct rs \<and>
    (\<forall>g. g \<in> set rs \<longleftrightarrow> omap_has (players st) g \<and>
       (\<exists>r. find_player e g = Some r \<and> (pi_is_moderator i \<or> \<not> pl_ignored r (guid_counter p) \<or> p = 0)))"
proof -
  let ?lang = "if two_side_channel e then LANG_UNIVERSAL else lang"
  obtain data pos where build: "BuildChatPacket CHAT_MSG_CHANNEL ?lang (Some q) what (m_name st) = Some (data, pos)"
    using assms(7) by (simp add: BuildChatPacket_def BuildChatPacket_raw_def Let_def
        monster_chat_types_def bg_system_chat_types_def split del: if_split)
  let ?rs = "recipients e (if \<not> pi_is_moderator i then p else 0) (players st)"
  have say: "Say e p (Some what) lang st = st\<lparr>out := out st @ map (\<lambda>g. SendPacket g data) ?rs\<rparr>"
    using assms build [unfolded if_distrib]
    by (auto simp: Say_def Let_def IsOn_def omap_has_def player_at_member build SendToAll_def
        split del: if_split)
  moreover have "distinct ?rs" using assms(1) by (rule distinct_recipients)
  ultimately show ?thesis
    using build by (intro exI [of _ data] exI [of _ pos] exI [of _ ?rs]) (auto simp: set_recipients)
qed

theorem say_reaches_exactly_members_witness:
  "\<exists>data pos rs.
    BuildChatPacket CHAT_MSG_CHANNEL 7 (Some (demo_player 2 ''Bob'')) ''hi'' ''pub'' = Some (data, pos) \<and>
    Say demo_env 2 (Some ''hi'') 7 demo_channel =
      demo_channel\<lparr>out := out demo_channel @ map (\<lambda>g. SendPacket g data) rs\<rparr> \<and> distinct rs \<and> set rs = {1, 2}"
proof -
  have *: "omap_find (players demo_channel) 2 = Some \<lparr>pi_player = 2, pi_flags = 0, pi_invisible = False\<rparr>"
    by (simp add: demo_channel_def omap_find_def)
  have h: "omap_ok (players demo_channel)"
    "\<not> pi_is_muted \<lparr>pi_player = 2, pi_flags = 0, pi_invisible = False\<rparr>"
    "m_moderate demo_channel \<longrightarrow> pi_is_moderator \<lparr>pi_player = 2, pi_flags = 0, pi_invisible = False\<rparr>"
    "m_name demo_channel \<noteq> ''world''" "m_name demo_channel \<notin> set quiet_names" "m_name demo_channel \<noteq> []"
    "find_player demo_env 2 = Some (demo_player 2 ''Bob'')"
    by (simp_all add: demo_defs omap_ok_def pi_is_muted_def quiet_names_def)
  have one_side: "\<not> two_side_channel demo_env" by (simp add: demo_env_def)
  obtain data pos rs where r:
    "BuildChatPacket CHAT_MSG_CHANNEL 7 (Some (demo_player 2 ''Bob'')) ''hi'' (m_name demo_channel) = Some (data, pos)"
    "Say demo_env 2 (Some ''hi'') 7 demo_channel =
      demo_channel\<lparr>out := out demo_channel @ map (\<lambda>g. SendPacket g data) rs\<rparr>" "distinct rs"
    "\<forall>g. g \<in> set rs \<longleftrightarrow> omap_has (players demo_channel) g \<and>
       (\<exists>r. find_player demo_env g = Some r \<and> (pi_is_moderator \<lparr>pi_player = 2, pi_flags = 0, pi_invisible = False\<rparr>
          \<or> \<not> pl_ignored r (guid_counter 2) \<or> (2::guid) = 0))"
    using say_reaches_exactly_members [OF h(1) * h(2-7), of 7 "''hi''"] one_side
    by (simp only: if_False) (elim exE conjE, rule that)
  have "set rs = {1, 2}"
    by (rule set_eqI) (simp only: r(4), simp add: demo_defs omap_has_def omap_find_def)
  with r show ?thesis by (auto simp: demo_channel_def)
qed

section \<open>Bans\<close>

lemma expel_bans:
  assumes "containers_ok st" "bad \<noteq> m_ownerGUID st"
  shows "\<not> IsOn bad (expel e good bad True st)" "IsBanned bad (expel e good bad True st)"
proof -
  have ok: "omap_ok (players st)" "oset_ok (banned st)"
    using assms(1) by (simp_all add: containers_ok_def)
  have "oset_has (banned (ban_if (\<not> oset_has (banned st) bad) bad st)) bad"
    using ok(2) by (simp add: ban_if_def os.has_ins)
  then show "IsBanned bad (expel e good bad True st)"
    using assms(2) by (auto simp: expel_def Let_def IsBanned_def)
  show "\<not> IsOn bad (expel e good bad True st)"
    using assms(2) ok by (auto simp: expel_def Let_def IsOn_def omap_has_def om.find_erase)
qed

lemma Join_banned:
  "\<not> IsOn p st \<Longrightarrow> IsBanned p st \<Longrightarrow> Join e p pass st = SendToOne e (MakeBanned st) p st"
  by (simp add: Join_def)

text \<open>
  Who can come back. \<open>seats B m\<close>: no guid of \<open>B\<close> has an entry of the member map, and every
  entry holds its own guid (or zero, when \<open>players[g]\<close> has inserted it), so that the owner
  \<open>Leave\<close> picks from the first entry is a member too.
\<close>

definition seats :: "guid set \<Rightarrow> (guid, player_info) omap \<Rightarrow> bool" where
  "seats B m \<longleftrightarrow> omap_ok m \<and>
     (\<forall>g i. omap_find m g = Some i \<longrightarrow> g \<notin> B \<and> (pi_player i = g \<or> pi_player i = 0))"

definition kept_out :: "guid set \<Rightarrow> 'a channel_scheme \<Rightarrow> bool" where
  "kept_out B st \<longleftrightarrow> seats B (players st) \<and> oset_ok (banned st) \<and> (\<forall>b \<in> B. IsBanned b st)"

lemma seats_put: "seats B m \<Longrightarrow> g \<notin> B \<Longrightarrow> pi_player i = g \<or> pi_player i = 0 \<Longrightarrow> seats B (omap_set g i m)"
  by (auto simp: seats_def om.find_put om.invar_put)

lemma seats_erase: "seats B m \<Longrightarrow> seats B (omap_erase g m)"
  by (auto simp: seats_def om.find_erase om.invar_erase)

lemma seats_member: "seats B m \<Longrightarrow> omap_find m g = Some i \<Longrightarrow> g \<notin> B \<and> (pi_player i = g \<or> pi_player i = 0)"
  by (simp add: seats_def)

lemma seats_on: "seats B (players st) \<Longrightarrow> IsOn g st \<Longrightarrow> g \<notin> B"
  by (auto simp: IsOn_def omap_has_def seats_def split: option.splits)

lemma pi_player_simps [simp]:
  "pi_player (pi_set_owner s i) = pi_player i" "pi_player (pi_set_moderator s i) = pi_player i"
  "pi_player (pi_set_muted s i) = pi_player i" "pi_player default_info = 0"
  by (simp_all add: pi_set_owner_def pi_set_moderator_def pi_set_muted_def default_info_def)

lemma seats_player_at: "seats B (players st) \<Longrightarrow> player_at g st = (i, st1) \<Longrightarrow> g \<notin> B \<Longrightarrow>
    seats B (players st1) \<and> (pi_player i = g \<or> pi_player i = 0)"
  by (auto simp: player_at_def omap_index_def seats_put dest: seats_member split: option.splits)

lemma seats_modify: "seats B (players st) \<Longrightarrow> g \<notin> B \<Longrightarrow> (\<And>i. pi_player (f i) = pi_player i) \<Longrightarrow>
    seats B (players (modify_player g f st))"
  using seats_player_at [of B st g]
  by (auto simp: modify_player_def split: prod.split intro!: seats_put)

lemma seats_touch:
  "seats B m \<Longrightarrow> omap_find m g = Some i \<Longrightarrow> pi_player j = pi_player i \<Longrightarrow> seats B (omap_set g j m)"
  by (rule seats_put) (auto dest: seats_member)

lemma seats_SetOwner:
  assumes "seats B (players st)" "g \<notin> B \<or> g = 0"
  shows "seats B (players (SetOwner e g ex st))"
proof -
  define st1 where "st1 = (if m_ownerGUID st \<noteq> 0 then
       (case omap_find (players st) (m_ownerGUID st) of None \<Rightarrow> st
        | Some i \<Rightarrow> st\<lparr>players := omap_set (m_ownerGUID st) (pi_set_owner False i) (players st)\<rparr>) else st)"
  have "seats B (players (st1\<lparr>m_ownerGUID := g\<rparr>))"
    using assms(1) by (auto simp: st1_def intro: seats_touch split: option.split)
  then have "g \<notin> B \<Longrightarrow> seats B (players (modify_player g (pi_set_owner True) (st1\<lparr>m_ownerGUID := g\<rparr>)))"
    by (rule seats_modify) simp_all
  then show ?thesis
    using \<open>seats B (players (st1\<lparr>m_ownerGUID := g\<rparr>))\<close> assms(2)
    by (auto simp: SetOwner_def Let_def st1_def [symmetric])
qed

lemma seats_first: "seats B ((g, i) # m) \<Longrightarrow> pi_player i \<notin> B \<or> pi_player i = 0"
  using seats_member [of B "(g, i) # m" g i] by (auto simp: omap_find_def)

lemma seats_as_moderator:
  assumes "seats B (players st)" "IsOn p st \<Longrightarrow> seats B (players (act st))"
  shows "seats B (players (as_moderator e p act st))"
proof (cases "omap_find (players st) p")
  case None
  then show ?thesis using assms(1) by (simp add: as_moderator_def IsOn_def omap_has_def)
next
  case (Some i)
  then show ?thesis using assms by (simp add: as_moderator_def IsOn_def omap_has_def player_at_member)
qed

lemma seats_Join:
  assumes "kept_out B st"
  shows "seats B (players (Join e p pass st))"
proof (cases "p \<in> B")
  case True
  then show ?thesis using assms by (simp add: Join_def kept_out_def)
next
  case False
  have "seats B (players (enter_channel e p s))" if "players s = players st" for s
    using that assms False
    by (auto simp: enter_channel_def Let_def kept_out_def
        intro!: seats_modify seats_SetOwner seats_put)
  then show ?thesis using assms by (simp add: Join_def kept_out_def split: option.split)
qed

lemma seats_Leave:
  assumes "seats B (players st)"
  shows "seats B (players (Leave e p send st))"
proof (cases "omap_find (players st) p")
  case None
  then show ?thesis using assms by (simp add: Leave_def IsOn_def omap_has_def)
next
  case (Some i)
  have at: "player_at p (leave_send e p send st) = (i, leave_send e p send st)"
    using Some by (simp add: player_at_member)
  have "seats B (omap_erase p (players st))" using assms by (rule seats_erase)
  moreover have "(case omap_erase p (players st) of [] \<Rightarrow> 0 | (g, j) # ps \<Rightarrow> pi_player j) \<notin> B \<or>
      (case omap_erase p (players st) of [] \<Rightarrow> 0 | (g, j) # ps \<Rightarrow> pi_player j) = 0"
    using \<open>seats B (omap_erase p (players st))\<close> by (auto split: list.split dest: seats_first)
  ultimately show ?thesis
    using Some
    by (simp add: Leave_def IsOn_def omap_has_def at Let_def)
      (auto intro!: seats_SetOwner)
qed

lemma seats_expel:
  assumes "seats B (players st)" "good \<notin> B"
  shows "seats B (players (expel e good bad ban st))"
proof (cases "m_ownerGUID st = bad")
  case True
  then show ?thesis
    unfolding expel_def Let_def
    by (simp only: True simp_thms if_True)
      (rule seats_SetOwner; use assms in \<open>simp add: seats_erase split del: if_split\<close>; simp)
next
  case False
  then show ?thesis
    unfolding expel_def Let_def
    using assms by (simp add: seats_erase split del: if_split)
qed

lemma seats_KickOrBan:
  assumes "seats B (players st)" "good \<notin> B \<or> sec_of (find_connected e good) < SEC_GAMEMASTER1"
  shows "seats B (players (KickOrBan e good nm ban st))"
proof -
  show ?thesis
  proof (cases "good \<in> B")
    case True
    then have "\<not> IsOn good st" using assms(1) by (auto dest: seats_on)
    then show ?thesis using assms True by (simp add: KickOrBan_def)
  next
    case False
    obtain i st1 where at: "player_at good st = (i, st1)" by (cases "player_at good st")
    then have "seats B (players st1)" using seats_player_at [OF assms(1) at False] by simp
    then show ?thesis
      using assms(1) False by (simp add: KickOrBan_def Let_def at seats_expel split: option.split)
  qed
qed

lemma seats_SetMode:
  assumes "seats B (players st)"
    and "\<And>t. find_connected_by_name e nm = Some t \<Longrightarrow> pl_guid t \<notin> B"
  shows "seats B (players (SetMode e p nm moder s st))"
  unfolding SetMode_def
proof (rule seats_as_moderator [OF assms(1)])
  show "seats B (players (case find_connected_by_name e nm of
      None \<Rightarrow> SendToOne e (MakePlayerNotFound nm st) p st
    | Some newp \<Rightarrow>
        let g = pl_guid newp; (inf, st1) = player_at g st
        in if p = m_ownerGUID st1 \<and> g = m_ownerGUID st1 \<and> moder then st1
           else if \<not> IsOn g st1 then SendToOne e (MakePlayerNotFound nm st1) p st1
           else if (case find_player e p of None \<Rightarrow> False
                    | Some plr \<Rightarrow> (pl_security plr < SEC_GAMEMASTER2 \<or> pl_security newp < SEC_GAMEMASTER2) \<and>
                        pl_team plr \<noteq> pl_team newp \<and> \<not> two_side_channel e)
           then SendToOne e (MakePlayerNotFound nm st1) p st1
           else if m_ownerGUID st1 = g \<and> m_ownerGUID st1 \<noteq> p then SendToOne e (MakeNotOwner st1) p st1
           else if moder then SetModerator e g s st1
           else SetMute e g s st1))"
  proof (cases "find_connected_by_name e nm")
    case None
    then show ?thesis using assms(1) by simp
  next
    case (Some t)
    then have out: "pl_guid t \<notin> B" by (rule assms(2))
    have at: "seats B (players s1)" if "seats B (players s0)" "player_at (pl_guid t) s0 = (j, s1)" for s0 s1 j
      using seats_player_at [OF that out] by simp
    have "seats B (players (SetModerator e (pl_guid t) s s0))" "seats B (players (SetMute e (pl_guid t) s s0))"
      if "seats B (players s0)" for s0
      using that out
      by (auto simp: SetModerator_def SetMute_def Let_def split: prod.split intro!: seats_modify dest: at)
    then show ?thesis
      using at [OF assms(1)] by (simp add: Some Let_def split: prod.split)
  qed
qed

text \<open>
  The commands that can bring a barred player back: an unban or a moderator or mute command
  that names the player (\<open>SetMode\<close> reads \<open>players[newp]\<close>, which inserts the key), and a kick or
  ban command issued by the player as a game master (\<open>KickOrBan\<close> reads \<open>players[good]\<close>).
\<close>

definition addressed_to :: "guid \<Rightarrow> chan_env \<Rightarrow> string \<Rightarrow> bool" where
  "addressed_to b e nm = (case find_connected_by_name e nm of None \<Rightarrow> False | Some t \<Rightarrow> pl_guid t = b)"

fun readmits :: "guid \<Rightarrow> chan_env \<Rightarrow> chan_op \<Rightarrow> bool" where
  "readmits b e (OpUnBan q nm) = addressed_to b e nm"
| "readmits b e (OpSetMode q nm moder s) = addressed_to b e nm"
| "readmits b e (OpKickOrBan q nm ban) = (q = b \<and> SEC_GAMEMASTER1 \<le> sec_of (find_connected e b))"
| "readmits b e x = False"

lemma seats_step:
  assumes "kept_out B st" "\<forall>b \<in> B. \<not> readmits b e x"
  shows "seats B (players (chan_step e st x))"
proof -
  have ok: "seats B (players st)" using assms(1) by (simp add: kept_out_def)
  show ?thesis
  proof (cases x)
    case (OpJoin p pass)
    then show ?thesis using assms(1) by (simp add: seats_Join)
  next
    case (OpLeave p send)
    then show ?thesis using ok by (simp add: seats_Leave)
  next
    case (OpKickOrBan p nm ban)
    have "p \<notin> B \<or> sec_of (find_connected e p) < SEC_GAMEMASTER1"
      using assms(2) OpKickOrBan by (auto simp: not_le)
    then show ?thesis using ok OpKickOrBan by (simp add: seats_KickOrBan)
  next
    case (OpUnBan p nm)
    have "seats B (players (UnBan e p nm st))"
      unfolding UnBan_def by (rule seats_as_moderator) (use ok in \<open>simp_all add: Let_def split: option.split\<close>)
    then show ?thesis using OpUnBan by simp
  next
    case (OpSetMode p nm moder s)
    then show ?thesis using ok assms(2) by (auto simp: addressed_to_def intro!: seats_SetMode)
  next
    case (OpSetOwner p nm)
    then show ?thesis
      using ok
      by (auto simp: SetOwner_by_name_def Let_def intro!: seats_SetOwner seats_modify dest: seats_on split: option.split)
  next
    case (OpSay p what lang)
    have at: "IsOn p st \<Longrightarrow> \<exists>i. player_at p st = (i, st)"
      by (auto simp: IsOn_def omap_has_def player_at_member split: option.splits)
    show ?thesis
      using ok at OpSay
      by (cases "IsOn p st") (auto simp: Say_def Let_def split: option.split)
  qed (use ok in \<open>simp_all add: Password_def Announce_def Moderate_def Let_def seats_as_moderator
      SendWhoOwner_def ListMembers_def Invite_def AddNewGMBan_def RemoveGMBan_def split: option.split\<close>)
qed

text \<open>The ban list: only a ban adds to it and only an unban takes from it.\<close>

lemma banned_player_at: "player_at g st = (i, st1) \<Longrightarrow> banned st1 = banned st"
  by (rule player_at_frame(1))

lemma banned_as_moderator:
  "(IsOn p st \<Longrightarrow> banned (act st) = banned st) \<Longrightarrow> banned (as_moderator e p act st) = banned st"
  by (cases "omap_find (players st) p")
    (auto simp: as_moderator_def IsOn_def omap_has_def player_at_member)

lemma banned_members [simp]:
  "banned (Join e p pass st) = banned st" "banned (SetModerator e p b st) = banned st"
  "banned (SetMute e p b st) = banned st" "banned (SetOwner_by_name e p nm st) = banned st"
  by (auto simp: Join_def enter_channel_def SetModerator_def SetMute_def SetOwner_by_name_def Let_def
      split: option.split prod.split dest: banned_player_at)

lemma banned_Leave [simp]: "banned (Leave e p send st) = banned st"
  by (auto simp: Leave_def Let_def split: prod.split dest!: banned_player_at)

lemma banned_Say [simp]: "banned (Say e p what lang st) = banned st"
proof (cases "omap_find (players st) p")
  case (Some i)
  then show ?thesis by (simp add: Say_def Let_def player_at_member split: option.split)
qed (simp add: Say_def IsOn_def omap_has_def split: option.split)

lemma banned_commands [simp]:
  "banned (Password e p pass st) = banned st" "banned (Announce e p st) = banned st"
  "banned (Moderate e p st) = banned st" "banned (SetMode e p nm moder b st) = banned st"
  by (auto simp: Password_def Announce_def Moderate_def SetMode_def Let_def
      intro!: banned_as_moderator split: option.split prod.split dest!: banned_player_at)

lemma banned_KickOrBan:
  "oset_ok (banned st) \<Longrightarrow>
     oset_ok (banned (KickOrBan e good nm ban st)) \<and> (IsBanned b st \<longrightarrow> IsBanned b (KickOrBan e good nm ban st))"
proof -
  have expel: "oset_ok (banned (expel e good bad ban s)) \<and> (IsBanned b s \<longrightarrow> IsBanned b (expel e good bad ban s))"
    if "oset_ok (banned s)" for bad s
  proof -
    have "banned (expel e good bad ban s) = banned (ban_if (ban \<and> \<not> IsBanned bad s) bad s)"
      unfolding expel_def Let_def
      by (cases "m_ownerGUID s = bad") (simp_all split del: if_split)
    then show ?thesis using that by (simp add: ban_if_def IsBanned_def os.invar_ins os.has_ins)
  qed
  assume ok: "oset_ok (banned st)"
  obtain i st1 where at: "player_at good st = (i, st1)" by (cases "player_at good st")
  then have "banned st1 = banned st" by (rule banned_player_at)
  then show ?thesis
    using ok expel [of st1] by (simp add: KickOrBan_def Let_def at IsBanned_def split: option.split)
qed

lemma banned_UnBan:
  assumes "oset_ok (banned st)"
  shows "oset_ok (banned (UnBan e good nm st)) \<and>
    (IsBanned b st \<and> \<not> addressed_to b e nm \<longrightarrow> IsBanned b (UnBan e good nm st))"
proof (cases "omap_find (players st) good")
  case None
  then show ?thesis using assms by (simp add: UnBan_def as_moderator_def IsOn_def omap_has_def IsBanned_def)
next
  case (Some i)
  then show ?thesis
    using assms
    by (auto simp: UnBan_def as_moderator_def IsOn_def omap_has_def player_at_member IsBanned_def Let_def
        addressed_to_def os.invar_del os.has_del split: option.split)
qed

lemma kept_out_step:
  assumes "kept_out B st" "\<forall>b \<in> B. \<not> readmits b e x"
  shows "kept_out B (chan_step e st x)"
proof -
  have ok: "oset_ok (banned st)" "\<forall>b \<in> B. IsBanned b st" using assms(1) by (simp_all add: kept_out_def)
  have "oset_ok (banned (chan_step e st x)) \<and> (\<forall>b \<in> B. IsBanned b (chan_step e st x))"
  proof (cases x)
    case (OpKickOrBan p nm ban)
    then show ?thesis using ok banned_KickOrBan [of st e p nm ban] by auto
  next
    case (OpUnBan p nm)
    then show ?thesis using ok assms(2) banned_UnBan [of st e p nm] by auto
  qed (use ok in \<open>simp_all add: IsBanned_def SendWhoOwner_def ListMembers_def Invite_def Let_def
      AddNewGMBan_def RemoveGMBan_def split: option.split\<close>)
  then show ?thesis using seats_step [OF assms] by (simp add: kept_out_def)
qed

text \<open>Operations under a changing environment: players log in and out between two of them.\<close>

definition chan_event :: "chan_state \<Rightarrow> chan_env \<times> chan_op \<Rightarrow> chan_state" where
  "chan_event st ex = chan_step (fst ex) st (snd ex)"

interpretation barred: invariant_ops chan_event "kept_out B" "\<lambda>st (e, x). \<forall>b \<in> B. \<not> readmits b e x" for B
  by unfold_locales (auto simp: chan_event_def kept_out_step)

interpretation event: invariant_ops chan_event chan_inv "\<lambda>st x. True"
  by unfold_locales (auto simp: chan_event_def intro: chan.step_inv)

lemma Channel_new_kept_out: "kept_out {} (Channel_new e name cid)"
  by (simp add: kept_out_def Channel_new_def Let_def seats_def om.invar_empty omap_find_def oset_ok_def
      split: option.split)

lemma all_barred: "\<forall>(e, x) \<in> set xs. \<forall>b \<in> B. \<not> readmits b e x \<Longrightarrow> barred.all_admissible B st xs"
  by (induction xs arbitrary: st) auto

text \<open>
  C8. On a channel reached from a fresh one by any operations, let a member who is a moderator
  ban a member who is not the owner; on the world channel the moderator must also be a game
  master. Then the banned member is off the channel and on the ban list, and stays so through
  any later operations, in any environment, other than the three that can bring the player
  back: an unban or a moderator or mute command that names the player, or a kick or ban command
  that the player issues as a game master. Every attempt to join after them, with any password,
  only sends the banned notice back and leaves the channel as it is.
\<close>

theorem ban_expels_and_bars:
  assumes "st = run_ops chan_event (Channel_new e0 name cid) before"
    and "omap_find (players st) good = Some i" "pi_is_moderator i"
    and "find_connected_by_name e nm = Some bad" "IsOn (pl_guid bad) st"
    and "pl_guid bad \<noteq> m_ownerGUID st"
    and "m_name st = ''world'' \<longrightarrow> SEC_GAMEMASTER1 \<le> sec_of (find_connected e good)"
    and "\<forall>(e', x) \<in> set later. \<not> readmits (pl_guid bad) e' x"
  shows "let st' = run_ops chan_event (KickOrBan e good nm True st) later
         in \<not> IsOn (pl_guid bad) st' \<and> IsBanned (pl_guid bad) st' \<and>
            (\<forall>e' pass. Join e' (pl_guid bad) pass st' = SendToOne e' (MakeBanned st') (pl_guid bad) st')"
proof -
  let ?b = "pl_guid bad" and ?s = "KickOrBan e good nm True st"
  have inv: "chan_inv st" "kept_out {} st"
    unfolding assms(1)
    by (rule event.run_inv_total, simp_all add: Channel_new_inv)
      (rule barred.run_inv_total, simp_all add: Channel_new_kept_out)
  have s: "?s = expel e good ?b True st"
    using assms(2-7) by (auto simp: KickOrBan_def Let_def player_at_member IsOn_def omap_has_def)
  have "containers_ok st" using inv(1) by (simp add: chan_inv_def)
  note out = expel_bans [OF this assms(6), of e good, folded s]
  have "kept_out {} ?s" using kept_out_step [OF inv(2), of e "OpKickOrBan good nm True"] by simp
  with out have "kept_out {?b} ?s"
    by (auto simp: kept_out_def seats_def IsOn_def omap_has_def split: option.splits)
  then have "kept_out {?b} (run_ops chan_event ?s later)"
    by (rule barred.run_inv) (rule all_barred, use assms(8) in simp)
  then have "\<not> IsOn ?b (run_ops chan_event ?s later)" "IsBanned ?b (run_ops chan_event ?s later)"
    by (auto simp: kept_out_def dest: seats_on)
  then show ?thesis by (simp add: Let_def Join_banned)
qed

text \<open>Bob is banned, the channel is made moderated, Carol joins and Bob tries to come back.\<close>

definition demo_before :: "(chan_env \<times> chan_op) list" where
  "demo_before = [(demo_env, OpJoin 1 ''''), (demo_env, OpJoin 2 '''')]"

definition demo_later :: "(chan_env \<times> chan_op) list" where
  "demo_later = [(demo_env, OpModerate 1), (demo_env, OpJoin 3 ''''), (demo_env, OpJoin 2 ''''),
     (demo_env, OpSetMode 1 ''Carol'' True True)]"

theorem ban_expels_and_bars_witness:
  "let st = run_ops chan_event (Channel_new demo_env ''pub'' 0) demo_before;
       st' = run_ops chan_event (KickOrBan demo_env 1 ''Bob'' True st) demo_later
   in \<not> IsOn 2 st' \<and> IsBanned 2 st' \<and>
      (\<forall>e' pass. Join e' 2 pass st' = SendToOne e' (MakeBanned st') 2 st')"
proof -
  let ?st = "run_ops chan_event (Channel_new demo_env ''pub'' 0) demo_before"
  have "(omap_find (players ?st) 1, IsOn 2 ?st, m_ownerGUID ?st, m_name ?st) =
      (Some \<lparr>pi_player = 1, pi_flags = 3, pi_invisible = False\<rparr>, True, 1, ''pub'')"
    by code_simp
  then show ?thesis
    using ban_expels_and_bars [of ?st demo_env "''pub''" 0 demo_before 1, OF refl _ demo_moderator(2),
        of demo_env "''Bob''" "demo_player 2 ''Bob''" demo_later]
    by (simp add: demo_later_def demo_defs addressed_to_def)
qed

text \<open>
  \<open>SetMode\<close> reads \<open>players[newp]\<close> before it tests whether the target is on the channel, and
  the read inserts the key: the test always succeeds, and a moderator's mute or moderator
  command makes a member of any connected player of the same side who is not on the channel,
  also of a banned one.
\<close>

theorem set_mode_admits_outsider:
  assumes "chan_inv st" "omap_find (players st) p = Some i" "pi_is_moderator i"
    and "find_connected_by_name e nm = Some t" "may_moderate e p t"
    and "\<not> IsOn (pl_guid t) st" "IsBanned (pl_guid t) st" "pl_guid t \<noteq> m_ownerGUID st"
    and "m_name st \<noteq> ''world''"
  shows "let st' = SetMode e p nm False s st in IsOn (pl_guid t) st' \<and> IsBanned (pl_guid t) st'"
proof (cases "player_at (pl_guid t) st")
  case (Pair j st1)
  have ok: "omap_ok (players st)" using assms(1) by (simp add: chan_inv_def containers_ok_def)
  have eq: "SetMode e p nm False s st = SetMute e (pl_guid t) s st1"
    using assms(2-5,8) Pair ok by (rule SetMode_mute)
  have ok1: "omap_ok (players st1)" by (rule find_player_at(1) [OF ok Pair])
  have name: "m_name st1 \<noteq> ''world''" and ban: "banned st1 = banned st"
    using assms(9) player_at_frame [OF Pair] by simp_all
  have "banned (SetMute e (pl_guid t) s st1) = banned st1"
    using player_at_frame(1) by (auto simp: SetMute_def Let_def split: prod.split)
  with SetMute_find [OF ok1 name, of e "pl_guid t" s] assms(7) ban show ?thesis
    by (auto simp: eq Let_def IsOn_def omap_has_def IsBanned_def)
qed

theorem set_mode_admits_outsider_witness:
  "let st' = SetMode demo_env 1 ''Carol'' False False (demo_channel\<lparr>banned := [3]\<rparr>)
   in IsOn 3 st' \<and> IsBanned 3 st'"
proof -
  have inv: "chan_inv (demo_channel\<lparr>banned := [3]\<rparr>)"
    using demo_inv by (simp add: chan_inv_def containers_ok_def oset_ok_def owner_flag_def)
  have md: "omap_find (players (demo_channel\<lparr>banned := [3]\<rparr>)) 1 =
      Some \<lparr>pi_player = 1, pi_flags = 3, pi_invisible = False\<rparr>"
    using demo_moderator(1) by simp
  show ?thesis
    using set_mode_admits_outsider [OF inv md demo_moderator(2),
        of demo_env "''Carol''" "demo_player 3 ''Carol''" False]
    by (simp add: demo_defs may_moderate_def IsOn_def IsBanned_def omap_has_def omap_find_def oset_has_def)
qed

section \<open>Authority\<close>

text \<open>The commands that change a channel's rules or another member, with the caller.\<close>

fun privileged_by :: "guid \<Rightarrow> chan_op \<Rightarrow> bool" where
  "privileged_by p (OpKickOrBan q nm ban) = (q = p)"
| "privileged_by p (OpUnBan q nm) = (q = p)"
| "privileged_by p (OpPassword q pass) = (q = p)"
| "privileged_by p (OpSetMode q nm moder s) = (q = p)"
| "privileged_by p (OpSetOwner q nm) = (q = p)"
| "privileged_by p (OpAnnounce q) = (q = p)"
| "privileged_by p (OpModerate q) = (q = p)"
| "privileged_by p x = False"

definition is_moderator :: "guid \<Rightarrow> 'a channel_scheme \<Rightarrow> bool" where
  "is_moderator p st = (case omap_find (players st) p of None \<Rightarrow> False | Some i \<Rightarrow> pi_is_moderator i)"

definition refusals :: "'a channel_scheme \<Rightarrow> world_packet list" where
  "refusals st = [MakeNotMember st, MakeNotModerator st, MakeNotOwner st]"

text \<open>A step only refuses: it does nothing, or it sends one refusal to the caller.\<close>

definition only_refuses :: "chan_env \<Rightarrow> guid \<Rightarrow> chan_state \<Rightarrow> chan_state \<Rightarrow> bool" where
  "only_refuses e p st st' \<longleftrightarrow> st' = st \<or> (\<exists>n \<in> set (refusals st). st' = SendToOne e n p st)"

lemma as_moderator_denied:
  "\<not> is_moderator p st \<Longrightarrow> sec_of (find_player e p) < SEC_GAMEMASTER1 \<Longrightarrow>
     only_refuses e p st (as_moderator e p act st)"
  by (cases "omap_find (players st) p")
    (simp_all add: as_moderator_def Let_def IsOn_def omap_has_def is_moderator_def player_at_member
      only_refuses_def refusals_def)

lemma KickOrBan_denied:
  assumes "\<not> is_moderator p st" "sec_of (find_connected e p) = SEC_PLAYER"
  shows "KickOrBan e p nm ban st =
    (if m_name st = ''world'' then st
     else SendToOne e (if IsOn p st then MakeNotModerator st else MakeNotMember st) p st)"
proof (cases "omap_find (players st) p")
  case None
  then show ?thesis using assms(2) by (simp add: KickOrBan_def IsOn_def omap_has_def)
next
  case (Some i)
  with assms(1) have "\<not> pi_is_moderator i" "IsOn p st" "player_at p st = (i, st)"
    by (simp_all add: is_moderator_def IsOn_def omap_has_def player_at_member)
  then show ?thesis using assms(2) by (simp add: KickOrBan_def)
qed

text \<open>
  C9. Let a player without game master rights, who is neither a moderator nor the owner of the
  channel, try any privileged command: kick, ban, unban, password, moderator and mute flags,
  owner, announcements, moderation. The state of the channel and what has been sent stay
  exactly as they were, except that the player alone may be sent one notice: not a member, not
  a moderator or not the owner.
\<close>

theorem unprivileged_changes_nothing:
  assumes "\<not> is_moderator p st" "p \<noteq> m_ownerGUID st"
    and "sec_of (find_player e p) = SEC_PLAYER" "sec_of (find_connected e p) = SEC_PLAYER"
    and "privileged_by p x"
  shows "chan_step e st x = st \<or>
    (\<exists>n \<in> {MakeNotMember st, MakeNotModerator st, MakeNotOwner st}. chan_step e st x = SendToOne e n p st)"
proof -
  have "only_refuses e p st (chan_step e st x)"
  proof (cases x)
    case (OpKickOrBan q nm ban)
    then show ?thesis
      using assms by (auto simp: KickOrBan_denied only_refuses_def refusals_def)
  next
    case (OpPassword q pass)
    have "only_refuses e p st st" by (simp add: only_refuses_def)
    with OpPassword show ?thesis
      using assms by (simp add: Password_def as_moderator_denied)
  next
    case (OpSetOwner q nm)
    then show ?thesis using assms by (simp add: SetOwner_by_name_def Let_def only_refuses_def refusals_def)
  next
    case (OpUnBan q nm)
    then show ?thesis using assms by (simp add: UnBan_def as_moderator_denied)
  next
    case (OpSetMode q nm moder s)
    then show ?thesis using assms by (simp add: SetMode_def as_moderator_denied)
  qed (use assms in \<open>simp_all add: Announce_def Moderate_def as_moderator_denied\<close>)
  then show ?thesis by (auto simp: only_refuses_def refusals_def)
qed

theorem unprivileged_changes_nothing_witness:
  "chan_step demo_env demo_channel (OpKickOrBan 2 ''Alice'' True) = demo_channel \<or>
   (\<exists>n \<in> {MakeNotMember demo_channel, MakeNotModerator demo_channel, MakeNotOwner demo_channel}.
      chan_step demo_env demo_channel (OpKickOrBan 2 ''Alice'' True) = SendToOne demo_env n 2 demo_channel)"
  by (rule unprivileged_changes_nothing [of 2])
    (simp_all add: is_moderator_def demo_defs omap_find_def pi_is_moderator_def sec_of_def)

section \<open>Joining and leaving\<close>

lemma omap_erase_set_absent:
  assumes "omap_ok m" "omap_find m k = None"
  shows "omap_erase k (omap_set k v m) = m"
  using assms
  by (induction k v m rule: omap_set.induct) (auto simp: omap_find_def omap_ok_def split: if_splits)

lemma enter_channel_players:
  "IsConstant st \<or> m_ownerGUID st \<noteq> 0 \<Longrightarrow>
     players (enter_channel e p st) = omap_set p \<lparr>pi_player = p, pi_flags = 0,
       pi_invisible = (sec_of (find_player e p) > SEC_PLAYER \<and> silent_gm_join e)\<rparr> (players st) \<and>
     m_ownerGUID (enter_channel e p st) = m_ownerGUID st"
  by (auto simp: enter_channel_def Let_def)

lemma Leave_ordinary:
  "omap_find (players st) p = Some i \<Longrightarrow> \<not> pi_is_owner i \<Longrightarrow>
     players (Leave e p send st) = omap_erase p (players st)"
  by (simp add: Leave_def Let_def IsOn_def omap_has_def player_at_member)

text \<open>
  A player who is admitted to a channel that needs no new owner and then leaves restores
  the member list exactly, in order and with every flag.
\<close>

theorem join_leave_restores_members:
  assumes "chan_inv st" "\<not> IsOn p st" "IsOn p (Join e p pass st)"
    and "IsConstant st \<or> m_ownerGUID st \<noteq> 0"
  shows "players (Leave e p send (Join e p pass st)) = players st"
proof -
  have ok: "omap_ok (players st)" and none: "omap_find (players st) p = None"
    using assms(1,2) by (simp_all add: chan_inv_def containers_ok_def IsOn_def omap_has_def)
  let ?i = "\<lparr>pi_player = p, pi_flags = 0,
    pi_invisible = (sec_of (find_player e p) > SEC_PLAYER \<and> silent_gm_join e)\<rparr>"
  have c: "IsConstant (emit x st) = IsConstant st" for x by (simp add: IsConstant_def)
  have joined: "players (Join e p pass st) = omap_set p ?i (players st)"
    using assms(2,3,4) none enter_channel_players [of st e p]
      enter_channel_players [of "emit (JoinedChannel p (m_name st)) st" e p]
    by (auto simp: Join_def IsOn_def omap_has_def c split: if_splits option.splits)
  have "players (Leave e p send (Join e p pass st)) = omap_erase p (players (Join e p pass st))"
    using joined ok by (intro Leave_ordinary [of _ p ?i]) (simp_all add: om.find_put pi_is_owner_def)
  then show ?thesis using joined ok none by (simp add: omap_erase_set_absent)
qed

theorem join_leave_restores_members_witness:
  "players (Leave demo_env 3 True (Join demo_env 3 '''' demo_channel)) = players demo_channel"
proof (rule join_leave_restores_members [OF demo_inv])
  show "IsOn 3 (Join demo_env 3 '''' demo_channel)" by code_simp
qed (simp_all add: demo_channel_def IsOn_def omap_has_def omap_find_def)

end
