(* ===== verification/ChannelMgr.thy ===== *)
theory ChannelMgr
  imports ChannelLaws "HOL-Library.List_Lexorder" "HOL-Library.Char_ord"
begin

text \<open>
  The two channel managers (ChannelMgr.h), a player's list of joined channels (Player.cpp) and
  the packet handlers of a session that parse the client's channel packets and call the
  channel (ChannelHandler.cpp, and the channel branch of ChatHandler.cpp). A handler returns
  \<open>Inl\<close> when reading the packet throws. Channels are owned by a manager and named: the
  pointer \<open>Channel*\<close> in a player's list is the channel's name. Effects of a channel operation
  are carried out by \<open>apply_effect\<close>, which also performs the relay of the world channel.
\<close>

section \<open>Managers\<close>

type_synonym channel_map = "(string, chan_state) omap"

datatype mgr_id = AllianceMgr | HordeMgr

record chan_world =
  alliance_channels :: channel_map
  horde_channels :: channel_map
  m_channels :: "guid \<Rightarrow> string list"
  w_out :: "effect list"

definition channels_of :: "mgr_id \<Rightarrow> chan_world \<Rightarrow> channel_map" where
  "channels_of m w = (case m of AllianceMgr \<Rightarrow> alliance_channels w | HordeMgr \<Rightarrow> horde_channels w)"

definition set_channels :: "mgr_id \<Rightarrow> channel_map \<Rightarrow> chan_world \<Rightarrow> chan_world" where
  "set_channels m cs w = (case m of AllianceMgr \<Rightarrow> w\<lparr>alliance_channels := cs\<rparr>
                                  | HordeMgr \<Rightarrow> w\<lparr>horde_channels := cs\<rparr>)"

definition channelMgr :: "chan_env \<Rightarrow> uint32 \<Rightarrow> mgr_id option" where
  "channelMgr e team =
     (if two_side_channel e then Some AllianceMgr
      else if team = ALLIANCE then Some AllianceMgr
      else if team = HORDE then Some HordeMgr
      else None)"

definition GetJoinChannel :: "chan_env \<Rightarrow> string \<Rightarrow> uint32 \<Rightarrow> channel_map \<Rightarrow> chan_state \<times> channel_map" where
  "GetJoinChannel e name channel_id cs =
     (case omap_find cs name of
        Some st \<Rightarrow> (st, cs)
      | None \<Rightarrow> let nchan = Channel_new e name channel_id in (nchan, omap_set name nchan cs))"

definition MakeNotOnPacket :: "string \<Rightarrow> world_packet" where
  "MakeNotOnPacket name = \<lparr>wp_opcode = SMSG_CHANNEL_NOTIFY, wp_fields = [U8 0x05, Str name]\<rparr>"

definition send :: "effect \<Rightarrow> chan_world \<Rightarrow> chan_world" where
  "send x w = w\<lparr>w_out := w_out w @ [x]\<rparr>"

text \<open>\<open>GetChannel(name, p)\<close>: the channel, or the not-on notice to the player.\<close>

definition GetChannel :: "mgr_id \<Rightarrow> string \<Rightarrow> player \<Rightarrow> chan_world \<Rightarrow> chan_state option \<times> chan_world" where
  "GetChannel m name p w =
     (case omap_find (channels_of m w) name of
        None \<Rightarrow> (None, send (SendPacket (pl_guid p) (MakeNotOnPacket name)) w)
      | Some st \<Rightarrow> (Some st, w))"

definition LeftChannel_mgr :: "mgr_id \<Rightarrow> string \<Rightarrow> chan_world \<Rightarrow> chan_world" where
  "LeftChannel_mgr m name w =
     (case omap_find (channels_of m w) name of
        None \<Rightarrow> w
      | Some st \<Rightarrow> if IsEmpty st \<and> \<not> IsConstant st
                   then set_channels m (omap_erase name (channels_of m w)) w else w)"

section \<open>Effects\<close>

definition Player_JoinedChannel :: "guid \<Rightarrow> string \<Rightarrow> chan_world \<Rightarrow> chan_world" where
  "Player_JoinedChannel g c w = w\<lparr>m_channels := (m_channels w)(g := m_channels w g @ [c])\<rparr>"

definition Player_LeftChannel :: "guid \<Rightarrow> string \<Rightarrow> chan_world \<Rightarrow> chan_world" where
  "Player_LeftChannel g c w = w\<lparr>m_channels := (m_channels w)(g := removeAll c (m_channels w g))\<rparr>"

text \<open>
  The relay of \<open>Channel::Say\<close>: the game masters' channel of the speaker's side is created when
  it is missing, and the packet goes to all its members.
\<close>

definition relay :: "chan_env \<Rightarrow> uint32 \<Rightarrow> string \<Rightarrow> world_packet \<Rightarrow> chan_world \<Rightarrow> chan_world" where
  "relay e team name data w =
     (case channelMgr e team of
        None \<Rightarrow> w
      | Some m \<Rightarrow>
          let (st, cs) = GetJoinChannel e name 0 (channels_of m w);
              st' = SendToAll e data 0 (st\<lparr>out := []\<rparr>)
          in (set_channels m cs w)\<lparr>w_out := w_out w @ out st'\<rparr>)"

fun apply_effect :: "chan_env \<Rightarrow> effect \<Rightarrow> chan_world \<Rightarrow> chan_world" where
  "apply_effect e (JoinedChannel g c) w = Player_JoinedChannel g c w"
| "apply_effect e (LeftChannel g c) w = Player_LeftChannel g c w"
| "apply_effect e (RelayToChannel team name data) w = relay e team name data w"
| "apply_effect e x w = send x w"

definition run_channel ::
  "chan_env \<Rightarrow> mgr_id \<Rightarrow> string \<Rightarrow> (chan_state \<Rightarrow> chan_state) \<Rightarrow> chan_state \<Rightarrow> chan_world \<Rightarrow> chan_world" where
  "run_channel e m name act st w =
     (let st' = act (st\<lparr>out := []\<rparr>)
      in fold (apply_effect e) (out st')
           (set_channels m (omap_set name (st'\<lparr>out := []\<rparr>) (channels_of m w)) w))"

text \<open>\<open>if (cMgr = channelMgr(team)) if (chn = cMgr->GetChannel(name, _player)) chn->act()\<close>.\<close>

definition with_channel ::
  "chan_env \<Rightarrow> player \<Rightarrow> string \<Rightarrow> (chan_state \<Rightarrow> chan_state) \<Rightarrow> chan_world \<Rightarrow> chan_world" where
  "with_channel e pl name act w =
     (case channelMgr e (pl_team pl) of
        None \<Rightarrow> w
      | Some m \<Rightarrow> (case GetChannel m name pl w of
                    (None, w') \<Rightarrow> w'
                  | (Some st, w') \<Rightarrow> run_channel e m name act st w'))"

text \<open>
  \<open>Player::CleanupChannels\<close> at logout: every joined channel is left silently and dropped when
  it becomes empty. The code keeps \<open>Channel*\<close> pointers in \<open>m_channels\<close>; the model keeps the names
  and looks the channel up in the manager. A pointer left over from a deleted channel would be
  a use after free in the code; here its name finds no channel and nothing is done, or finds a
  new channel of the same name. The results about \<open>CleanupChannels\<close>
  are about lists without such pointers.
\<close>

fun cleanup_loop :: "chan_env \<Rightarrow> player \<Rightarrow> string list \<Rightarrow> chan_world \<Rightarrow> chan_world" where
  "cleanup_loop e pl [] w = w"
| "cleanup_loop e pl (c # cs) w =
     (let w1 = w\<lparr>m_channels := (m_channels w)(pl_guid pl := cs)\<rparr>
      in cleanup_loop e pl cs
          (case channelMgr e (pl_team pl) of
             None \<Rightarrow> w1
           | Some m \<Rightarrow>
               (case omap_find (channels_of m w1) c of
                  None \<Rightarrow> w1
                | Some st \<Rightarrow>
                    LeftChannel_mgr m c (run_channel e m c (Leave e (pl_guid pl) False) st w1))))"

definition CleanupChannels :: "chan_env \<Rightarrow> player \<Rightarrow> chan_world \<Rightarrow> chan_world" where
  "CleanupChannels e pl w = cleanup_loop e pl (m_channels w (pl_guid pl)) w"

section \<open>Handlers\<close>

definition is_digit_char :: "char \<Rightarrow> bool" where
  "is_digit_char c \<longleftrightarrow> CHR ''0'' \<le> c \<and> c \<le> CHR ''9''"

definition HandleJoinChannel ::
  "chan_env \<Rightarrow> player \<Rightarrow> byte_buffer \<Rightarrow> chan_world \<Rightarrow> (bb_error, chan_world) result" where
  "HandleJoinChannel e pl b w =
     bind_result (read_word b) (\<lambda>(channel_id :: uint32, b1).
     bind_result (read_word b1) (\<lambda>(unknown1 :: uint8, b2).
     bind_result (read_word b2) (\<lambda>(hasVoice :: uint8, b3).
     bind_result (read_string b3) (\<lambda>(channelname, b4).
       if channelname = [] \<or> is_digit_char (hd channelname) then
         Inr (send (SendPacket (pl_guid pl)
           \<lparr>wp_opcode = SMSG_CHANNEL_NOTIFY, wp_fields = [U8 0x1B, Str channelname]\<rparr>) w)
       else if channelname = ''gmworlda'' \<and> \<not> pl_gm_on pl then Inr w
       else if channelname = ''gmworldh'' \<and> \<not> pl_gm_on pl then Inr w
       else bind_result (read_string b4) (\<lambda>(pass, b5).
         Inr (case channelMgr e (pl_team pl) of
                None \<Rightarrow> w
              | Some m \<Rightarrow>
                  let (st, cs) = GetJoinChannel e channelname channel_id (channels_of m w)
                  in run_channel e m channelname (Join e (pl_guid pl) pass) st (set_channels m cs w)))))))"

definition HandleLeaveChannel ::
  "chan_env \<Rightarrow> player \<Rightarrow> byte_buffer \<Rightarrow> chan_world \<Rightarrow> (bb_error, chan_world) result" where
  "HandleLeaveChannel e pl b w =
     bind_result (read_word b) (\<lambda>(zoneChannelID :: uint32, b1).
     bind_result (read_string b1) (\<lambda>(channelname, b2).
       if channelname = [] then Inr w
       else Inr (case channelMgr e (pl_team pl) of
                   None \<Rightarrow> w
                 | Some m \<Rightarrow> LeftChannel_mgr m channelname
                     (with_channel e pl channelname (Leave e (pl_guid pl) True) w))))"

text \<open>The handlers that read one channel name, and those that read a name and a player name.\<close>

definition handle_named ::
  "chan_env \<Rightarrow> player \<Rightarrow> (chan_state \<Rightarrow> chan_state) \<Rightarrow> byte_buffer \<Rightarrow> chan_world
   \<Rightarrow> (bb_error, chan_world) result" where
  "handle_named e pl act b w =
     bind_result (read_string b) (\<lambda>(channelname, b1). Inr (with_channel e pl channelname act w))"

definition handle_target ::
  "chan_env \<Rightarrow> player \<Rightarrow> (string \<Rightarrow> chan_state \<Rightarrow> chan_state) \<Rightarrow> byte_buffer \<Rightarrow> chan_world
   \<Rightarrow> (bb_error, chan_world) result" where
  "handle_target e pl act b w =
     bind_result (read_string b) (\<lambda>(channelname, b1).
     bind_result (read_string b1) (\<lambda>(otp0, b2).
       case normalize_name e otp0 of
         None \<Rightarrow> Inr w
       | Some otp \<Rightarrow> Inr (with_channel e pl channelname (act otp) w)))"

definition HandleChannelList where
  "HandleChannelList e pl = handle_named e pl (ListMembers e pl)"

definition HandleChannelPassword ::
  "chan_env \<Rightarrow> player \<Rightarrow> byte_buffer \<Rightarrow> chan_world \<Rightarrow> (bb_error, chan_world) result" where
  "HandleChannelPassword e pl b w =
     bind_result (read_string b) (\<lambda>(channelname, b1).
     bind_result (read_string b1) (\<lambda>(pass, b2).
       Inr (with_channel e pl channelname (Password e (pl_guid pl) pass) w)))"

definition HandleChannelSetOwner where
  "HandleChannelSetOwner e pl = handle_target e pl (\<lambda>newp. SetOwner_by_name e (pl_guid pl) newp)"

definition HandleChannelOwner where
  "HandleChannelOwner e pl = handle_named e pl (SendWhoOwner e (pl_guid pl))"

definition HandleChannelModerator where
  "HandleChannelModerator e pl = handle_target e pl (\<lambda>otp. SetMode e (pl_guid pl) otp True True)"

definition HandleChannelUnmoderator where
  "HandleChannelUnmoderator e pl = handle_target e pl (\<lambda>otp. SetMode e (pl_guid pl) otp True False)"

definition HandleChannelMute where
  "HandleChannelMute e pl = handle_target e pl (\<lambda>otp. SetMode e (pl_guid pl) otp False True)"

definition HandleChannelUnmute where
  "HandleChannelUnmute e pl = handle_target e pl (\<lambda>otp. SetMode e (pl_guid pl) otp False False)"

definition HandleChannelInvite where
  "HandleChannelInvite e pl = handle_target e pl (\<lambda>otp. Invite e (pl_guid pl) otp)"

definition HandleChannelKick where
  "HandleChannelKick e pl = handle_target e pl (\<lambda>otp. KickOrBan e (pl_guid pl) otp False)"

definition HandleChannelBan where
  "HandleChannelBan e pl = handle_target e pl (\<lambda>otp. KickOrBan e (pl_guid pl) otp True)"

definition HandleChannelUnban where
  "HandleChannelUnban e pl = handle_target e pl (\<lambda>otp. UnBan e (pl_guid pl) otp)"

definition HandleChannelAnnouncements where
  "HandleChannelAnnouncements e pl = handle_named e pl (Announce e (pl_guid pl))"

definition HandleChannelModerate where
  "HandleChannelModerate e pl = handle_named e pl (Moderate e (pl_guid pl))"

definition HandleChannelDisplayListQuery where
  "HandleChannelDisplayListQuery e pl = handle_named e pl (ListMembers e pl)"

definition HandleGetChannelMemberCount ::
  "chan_env \<Rightarrow> player \<Rightarrow> byte_buffer \<Rightarrow> chan_world \<Rightarrow> (bb_error, chan_world) result" where
  "HandleGetChannelMemberCount e pl =
     handle_named e pl (\<lambda>st. emit (SendPacket (pl_guid pl)
       \<lparr>wp_opcode = 0x3D4, wp_fields = [Str (m_name st), U8 (m_flags st), U32 (GetNumPlayers st)]\<rparr>) st)"

definition HandleSetChannelWatch ::
  "byte_buffer \<Rightarrow> chan_world \<Rightarrow> (bb_error, chan_world) result" where
  "HandleSetChannelWatch b w = bind_result (read_string b) (\<lambda>(channelname, b1). Inr w)"

text \<open>The \<open>CHAT_MSG_CHANNEL\<close> branch of the chat handler, after the message has been read.\<close>

definition handle_channel_chat ::
  "chan_env \<Rightarrow> player \<Rightarrow> string \<Rightarrow> string \<Rightarrow> uint32 \<Rightarrow> chan_world \<Rightarrow> chan_world" where
  "handle_channel_chat e pl channel msg lang w =
     with_channel e pl channel (Say e (pl_guid pl) (Some msg) lang) w"

section \<open>Channels keep their name and never fail an assertion\<close>

definition effect_ok :: "effect \<Rightarrow> bool" where
  "effect_ok x = (case x of AssertFailed \<Rightarrow> False | RelayToChannel team nm data \<Rightarrow> nm \<noteq> [] | _ \<Rightarrow> True)"

lemma effect_ok_simps [simp]:
  "effect_ok (SendPacket g d)" "effect_ok (JoinedChannel g c)" "effect_ok (LeftChannel g c)"
  "effect_ok (LevelTooLow g n)" "effect_ok (RelayToChannel team nm d) \<longleftrightarrow> nm \<noteq> []" "\<not> effect_ok AssertFailed"
  by (simp_all add: effect_ok_def)

definition quiet :: "string \<Rightarrow> chan_state \<Rightarrow> bool" where
  "quiet nm st \<longleftrightarrow> m_name st = nm \<and> (\<forall>x \<in> set (out st). effect_ok x)"

lemma quiet_send [simp]:
  "quiet nm (SendToAll e d p st) = quiet nm st" "quiet nm (SendToOne e d p st) = quiet nm st"
  "quiet nm (JoinNotify e p st) = quiet nm st" "quiet nm (LeaveNotify e p st) = quiet nm st"
  "quiet nm (announce_if e c d st) = quiet nm st" "quiet nm (leave_send e p b st) = quiet nm st"
  "effect_ok x \<Longrightarrow> quiet nm (emit x st) = quiet nm st"
  by (auto simp: quiet_def SendToAll_def SendToOne_def JoinNotify_def LeaveNotify_def announce_if_def
      leave_send_def emit_def split: option.split)

lemma quiet_update [simp]:
  "quiet nm (st\<lparr>players := a\<rparr>) = quiet nm st" "quiet nm (st\<lparr>banned := b\<rparr>) = quiet nm st"
  "quiet nm (st\<lparr>gmbanned := g\<rparr>) = quiet nm st" "quiet nm (st\<lparr>m_password := c\<rparr>) = quiet nm st"
  "quiet nm (st\<lparr>m_announce := x\<rparr>) = quiet nm st" "quiet nm (st\<lparr>m_moderate := y\<rparr>) = quiet nm st"
  "quiet nm (st\<lparr>m_ownerGUID := o'\<rparr>) = quiet nm st" "quiet nm (modify_player p f st) = quiet nm st"
  "quiet nm (ban_if z p st) = quiet nm st" for st :: chan_state
  by (simp_all add: quiet_def ban_if_def)

lemma quiet_player_at: "player_at p st = (i, st') \<Longrightarrow> quiet nm st' = quiet nm st"
  using player_at_frame(5,9) [of p st i st'] by (simp add: quiet_def)

lemma quiet_flags [simp]:
  "quiet nm (SetOwner e g ex st) = quiet nm st"
  "quiet nm (SetModerator e p s st) = quiet nm st" "quiet nm (SetMute e p s st) = quiet nm st"
  by (auto simp: SetOwner_def SetModerator_def SetMute_def Let_def quiet_player_at
      split: option.split prod.split)

lemma quiet_as_moderator:
  "(\<And>s. quiet nm (act s) = quiet nm s) \<Longrightarrow> quiet nm (as_moderator e p act st) = quiet nm st"
  by (auto simp: as_moderator_def Let_def quiet_player_at split: prod.split)

lemma quiet_UnBan [simp]: "quiet nm (UnBan e p t st) = quiet nm st"
  unfolding UnBan_def by (rule quiet_as_moderator) (simp add: Let_def split: option.split)

lemma quiet_SetMode [simp]: "quiet nm (SetMode e p t moder s st) = quiet nm st"
  unfolding SetMode_def
  by (rule quiet_as_moderator) (auto simp: Let_def quiet_player_at split: option.split prod.split)

lemma quiet_mode_commands [simp]:
  "quiet nm (Password e p pw st) = quiet nm st" "quiet nm (Announce e p st) = quiet nm st"
  "quiet nm (Moderate e p st) = quiet nm st"
  by (simp_all add: Password_def Announce_def Moderate_def Let_def quiet_as_moderator)

lemma quiet_SetOwner_by_name [simp]: "quiet nm (SetOwner_by_name e p t st) = quiet nm st"
  by (simp add: SetOwner_by_name_def Let_def split: option.split)

lemma quiet_gm_bans [simp]:
  "quiet nm (AddNewGMBan acc x st) = quiet nm st" "quiet nm (RemoveGMBan e acc st) = quiet nm st"
  by (simp_all add: AddNewGMBan_def RemoveGMBan_def)

lemma quiet_member_ops [simp]:
  "quiet nm (Join e p pass st) = quiet nm st" "quiet nm (SendWhoOwner e p st) = quiet nm st"
  "quiet nm (ListMembers e pl st) = quiet nm st" "quiet nm (Invite e p t st) = quiet nm st"
  by (simp_all add: Join_def enter_channel_def SendWhoOwner_def ListMembers_def Invite_def Let_def
      split: option.split)

lemma quiet_Leave [simp]: "quiet nm (Leave e p sd st) = quiet nm st"
  by (auto simp: Leave_def Let_def quiet_player_at split: prod.split)

lemma quiet_KickOrBan [simp]: "quiet nm (KickOrBan e p t b st) = quiet nm st"
  by (auto simp: KickOrBan_def expel_def Let_def quiet_player_at split: prod.split option.split)

lemma quiet_Say: "nm \<noteq> [] \<Longrightarrow> quiet nm st \<Longrightarrow> quiet nm (Say e p what lang st)"
proof (cases "player_at p st")
  case (Pair i st1)
  assume "nm \<noteq> []" "quiet nm st"
  moreover from this have "quiet nm st1" "m_name st1 \<noteq> []"
    using Pair quiet_player_at [OF Pair] by (auto simp: quiet_def)
  ultimately show ?thesis
    by (simp add: Say_def Let_def Pair BuildChatPacket_def BuildChatPacket_raw_def
        monster_chat_types_def bg_system_chat_types_def split: option.split)
qed

definition channel_ok :: "string \<Rightarrow> chan_state \<Rightarrow> bool" where
  "channel_ok nm st \<longleftrightarrow> nm \<noteq> [] \<and> chan_inv st \<and> quiet nm st"

interpretation chan_ok: invariant_ops "chan_step e" "channel_ok nm" "\<lambda>st x. True" for e nm
proof
  fix st :: chan_state and x
  assume "channel_ok nm st"
  then show "channel_ok nm (chan_step e st x)"
    by (cases x) (simp_all add: channel_ok_def chan_op_inv quiet_Say)
qed

section \<open>The managers' invariant\<close>

definition channels_ok :: "channel_map \<Rightarrow> bool" where
  "channels_ok cs \<longleftrightarrow> omap_ok cs \<and> (\<forall>(nm, st) \<in> set cs. channel_ok nm st)"

definition world_ok :: "chan_world \<Rightarrow> bool" where
  "world_ok w \<longleftrightarrow> channels_ok (alliance_channels w) \<and> channels_ok (horde_channels w) \<and>
     AssertFailed \<notin> set (w_out w)"

lemma channels_ok_find: "channels_ok cs \<Longrightarrow> omap_find cs nm = Some st \<Longrightarrow> channel_ok nm st"
  by (auto simp: channels_ok_def dest: omap_find_in_set)

lemma channels_ok_set: "channels_ok cs \<Longrightarrow> channel_ok nm st \<Longrightarrow> channels_ok (omap_set nm st cs)"
  using om.invar_put [of cs nm st] om.find_put [of cs nm st]
  by (auto simp: channels_ok_def dest!: omap_in_set_find split: if_splits dest: omap_find_in_set)

lemma channels_ok_erase: "channels_ok cs \<Longrightarrow> channels_ok (omap_erase nm cs)"
  using om.invar_erase [of cs nm] om.find_erase [of cs nm]
  by (auto simp: channels_ok_def dest!: omap_in_set_find split: if_splits dest: omap_find_in_set)

lemma channel_ok_out [simp]: "channel_ok nm st \<Longrightarrow> channel_ok nm (st\<lparr>out := []\<rparr>)"
  by (simp add: channel_ok_def quiet_def chan_inv_def containers_ok_def owner_flag_def)

lemma channel_ok_new: "nm \<noteq> [] \<Longrightarrow> channel_ok nm (Channel_new e nm cid)"
  using Channel_new_inv [of e nm cid]
  by (simp add: channel_ok_def quiet_def) (simp add: Channel_new_def Let_def split: option.split)

lemma world_ok_channels: "world_ok w \<Longrightarrow> channels_ok (channels_of m w)"
  by (cases m) (simp_all add: world_ok_def channels_of_def)

lemma world_ok_set_channels: "world_ok w \<Longrightarrow> channels_ok cs \<Longrightarrow> world_ok (set_channels m cs w)"
  by (cases m) (simp_all add: world_ok_def set_channels_def)

lemma world_ok_send: "world_ok w \<Longrightarrow> x \<noteq> AssertFailed \<Longrightarrow> world_ok (send x w)"
  by (simp add: world_ok_def send_def)

lemma GetJoinChannel_ok:
  assumes "channels_ok cs" "nm \<noteq> []" "GetJoinChannel e nm cid cs = (st, cs')"
  shows "channel_ok nm st" "channels_ok cs'"
  using assms channels_ok_find channels_ok_set channel_ok_new
  by (auto simp: GetJoinChannel_def Let_def split: option.splits)

lemma relay_ok:
  assumes "world_ok w" "nm \<noteq> []"
  shows "world_ok (relay e team nm data w)"
proof (cases "channelMgr e team")
  case (Some m)
  obtain st cs where join: "GetJoinChannel e nm 0 (channels_of m w) = (st, cs)" by fastforce
  have "world_ok (set_channels m cs w)"
    by (rule world_ok_set_channels [OF assms(1) GetJoinChannel_ok(2) [OF world_ok_channels [OF assms(1)] assms(2) join]])
  then show ?thesis
    using assms(1) by (auto simp: relay_def Some join Let_def world_ok_def SendToAll_def)
qed (simp add: relay_def assms)

lemma apply_effect_ok: "world_ok w \<Longrightarrow> effect_ok x \<Longrightarrow> world_ok (apply_effect e x w)"
  by (cases x) (simp_all add: relay_ok world_ok_send,
    simp_all add: world_ok_def Player_JoinedChannel_def Player_LeftChannel_def)

lemma apply_effects_ok: "world_ok w \<Longrightarrow> \<forall>x \<in> set xs. effect_ok x \<Longrightarrow> world_ok (fold (apply_effect e) xs w)"
  by (induction xs arbitrary: w) (simp_all add: apply_effect_ok)

lemma run_channel_ok:
  assumes "world_ok w" "channel_ok nm st" "\<And>s. channel_ok nm s \<Longrightarrow> channel_ok nm (act s)"
  shows "world_ok (run_channel e m nm act st w)"
proof -
  let ?s = "act (st\<lparr>out := []\<rparr>)"
  have ok: "channel_ok nm ?s" by (simp add: assms)
  then have "\<forall>x \<in> set (out ?s). effect_ok x" by (simp add: channel_ok_def quiet_def)
  moreover have "world_ok (set_channels m (omap_set nm (?s\<lparr>out := []\<rparr>) (channels_of m w)) w)"
    by (intro world_ok_set_channels channels_ok_set world_ok_channels channel_ok_out assms ok)
  ultimately show ?thesis by (simp add: run_channel_def Let_def apply_effects_ok)
qed

lemma with_channel_ok:
  assumes "world_ok w" "\<And>nm s. channel_ok nm s \<Longrightarrow> channel_ok nm (act s)"
  shows "world_ok (with_channel e pl nm act w)"
  using assms
  by (auto simp: with_channel_def GetChannel_def world_ok_send split: option.split
      intro!: run_channel_ok intro: channels_ok_find world_ok_channels)

lemma LeftChannel_mgr_ok: "world_ok w \<Longrightarrow> world_ok (LeftChannel_mgr m nm w)"
  by (simp add: LeftChannel_mgr_def world_ok_set_channels channels_ok_erase world_ok_channels split: option.split)

lemma channel_op_ok:
  "channel_ok nm st \<Longrightarrow> channel_ok nm (chan_step e st x)"
  by (rule chan_ok.step_inv) simp_all

lemma HandleJoinChannel_ok:
  assumes "world_ok w" "HandleJoinChannel e pl b w = Inr w'"
  shows "world_ok w'"
proof -
  have join: "world_ok (let (st, cs) = GetJoinChannel e nm cid (channels_of m w)
      in run_channel e m nm (Join e (pl_guid pl) pass) st (set_channels m cs w))" if "nm \<noteq> []" for nm cid m pass
  proof (cases "GetJoinChannel e nm cid (channels_of m w)")
    case (Pair st cs)
    note j = GetJoinChannel_ok [OF world_ok_channels [OF assms(1)] that Pair]
    have "world_ok (set_channels m cs w)" using assms(1) j(2) by (rule world_ok_set_channels)
    then show ?thesis
      using j(1) channel_op_ok [of nm _ e "OpJoin (pl_guid pl) pass"] by (simp add: Pair run_channel_ok)
  qed
  show ?thesis
    using assms join
    by (auto simp: HandleJoinChannel_def bind_result_Inr_iff world_ok_send split: if_splits option.splits)
qed

lemma handle_named_ok:
  "world_ok w \<Longrightarrow> (\<And>nm s. channel_ok nm s \<Longrightarrow> channel_ok nm (act s)) \<Longrightarrow>
     handle_named e pl act b w = Inr w' \<Longrightarrow> world_ok w'"
  by (auto simp: handle_named_def bind_result_Inr_iff with_channel_ok)

lemma handle_target_ok:
  "world_ok w \<Longrightarrow> (\<And>nm t s. channel_ok nm s \<Longrightarrow> channel_ok nm (act t s)) \<Longrightarrow>
     handle_target e pl act b w = Inr w' \<Longrightarrow> world_ok w'"
  by (auto simp: handle_target_def bind_result_Inr_iff with_channel_ok split: option.splits)

section \<open>Sessions\<close>

text \<open>
  The client packets about channels, with the handler the opcode table gives each (Opcodes.cpp).
  The table registers \<open>Handle_NULL\<close> for \<open>CMSG_CHANNEL_MODERATE\<close>, so \<open>HandleChannelModerate\<close> is
  never reached from a packet.
\<close>

datatype chan_request =
    CMSG_JOIN_CHANNEL | CMSG_LEAVE_CHANNEL | CMSG_CHANNEL_LIST | CMSG_CHANNEL_PASSWORD
  | CMSG_CHANNEL_SET_OWNER | CMSG_CHANNEL_OWNER | CMSG_CHANNEL_MODERATOR | CMSG_CHANNEL_UNMODERATOR
  | CMSG_CHANNEL_MUTE | CMSG_CHANNEL_UNMUTE | CMSG_CHANNEL_INVITE | CMSG_CHANNEL_KICK
  | CMSG_CHANNEL_BAN | CMSG_CHANNEL_UNBAN | CMSG_CHANNEL_ANNOUNCEMENTS | CMSG_CHANNEL_MODERATE
  | CMSG_CHANNEL_DISPLAY_LIST | CMSG_GET_CHANNEL_MEMBER_COUNT | CMSG_SET_CHANNEL_WATCH

fun dispatch ::
  "chan_env \<Rightarrow> chan_request \<Rightarrow> player \<Rightarrow> byte_buffer \<Rightarrow> chan_world \<Rightarrow> (bb_error, chan_world) result" where
  "dispatch e CMSG_JOIN_CHANNEL = HandleJoinChannel e"
| "dispatch e CMSG_LEAVE_CHANNEL = HandleLeaveChannel e"
| "dispatch e CMSG_CHANNEL_LIST = HandleChannelList e"
| "dispatch e CMSG_CHANNEL_PASSWORD = HandleChannelPassword e"
| "dispatch e CMSG_CHANNEL_SET_OWNER = HandleChannelSetOwner e"
| "dispatch e CMSG_CHANNEL_OWNER = HandleChannelOwner e"
| "dispatch e CMSG_CHANNEL_MODERATOR = HandleChannelModerator e"
| "dispatch e CMSG_CHANNEL_UNMODERATOR = HandleChannelUnmoderator e"
| "dispatch e CMSG_CHANNEL_MUTE = HandleChannelMute e"
| "dispatch e CMSG_CHANNEL_UNMUTE = HandleChannelUnmute e"
| "dispatch e CMSG_CHANNEL_INVITE = HandleChannelInvite e"
| "dispatch e CMSG_CHANNEL_KICK = HandleChannelKick e"
| "dispatch e CMSG_CHANNEL_BAN = HandleChannelBan e"
| "dispatch e CMSG_CHANNEL_UNBAN = HandleChannelUnban e"
| "dispatch e CMSG_CHANNEL_ANNOUNCEMENTS = HandleChannelAnnouncements e"
| "dispatch e CMSG_CHANNEL_MODERATE = (\<lambda>pl b w. Inr w)"
| "dispatch e CMSG_CHANNEL_DISPLAY_LIST = HandleChannelDisplayListQuery e"
| "dispatch e CMSG_GET_CHANNEL_MEMBER_COUNT = HandleGetChannelMemberCount e"
| "dispatch e CMSG_SET_CHANNEL_WATCH = (\<lambda>pl. HandleSetChannelWatch)"

text \<open>
  What happens to the managers over time: a client packet (a packet that throws is dropped by
  the session and changes nothing), a channel chat message, a logout.
\<close>

datatype session_event =
    Packet chan_request player "byte_buffer"
  | ChannelChat player string string uint32
  | Logout player

fun session_step :: "chan_env \<Rightarrow> chan_world \<Rightarrow> session_event \<Rightarrow> chan_world" where
  "session_step e w (Packet r pl b) = (case dispatch e r pl b w of Inl err \<Rightarrow> w | Inr w' \<Rightarrow> w')"
| "session_step e w (ChannelChat pl c msg lang) = handle_channel_chat e pl c msg lang w"
| "session_step e w (Logout pl) = CleanupChannels e pl w"

lemma dispatch_ok:
  assumes "world_ok w" "dispatch e r pl b w = Inr w'"
  shows "world_ok w'"
proof -
  have step: "channel_ok nm s \<Longrightarrow> channel_ok nm (chan_step e s x)" for nm s x by (rule channel_op_ok)
  note act = step [of _ _ "OpLeave (pl_guid pl) True", simplified]
    step [of _ _ "OpList pl", simplified] step [of _ _ "OpSendWhoOwner (pl_guid pl)", simplified]
    step [of _ _ "OpAnnounce (pl_guid pl)", simplified]
    step [of _ _ "OpPassword (pl_guid pl) pw" for pw, simplified]
    step [of _ _ "OpSetOwner (pl_guid pl) t" for t, simplified]
    step [of _ _ "OpSetMode (pl_guid pl) t moder s" for t moder s, simplified]
    step [of _ _ "OpInvite (pl_guid pl) t" for t, simplified]
    step [of _ _ "OpKickOrBan (pl_guid pl) t ban" for t ban, simplified]
    step [of _ _ "OpUnBan (pl_guid pl) t" for t, simplified]
  have count: "channel_ok nm s \<Longrightarrow> channel_ok nm (emit (SendPacket g d) s)" for nm s g d
    by (simp add: channel_ok_def)
  note one = handle_named_ok [OF assms(1)] and two = handle_target_ok [OF assms(1)]
  from assms(2) show ?thesis
  proof (cases r)
    case CMSG_JOIN_CHANNEL
    then show ?thesis using assms HandleJoinChannel_ok by simp
  next
    case CMSG_LEAVE_CHANNEL
    then show ?thesis
      using assms act by (auto simp: HandleLeaveChannel_def bind_result_Inr_iff LeftChannel_mgr_ok
          with_channel_ok split: if_splits option.splits)
  next
    case CMSG_CHANNEL_PASSWORD
    then show ?thesis
      using assms act by (auto simp: HandleChannelPassword_def bind_result_Inr_iff with_channel_ok)
  next
    case CMSG_SET_CHANNEL_WATCH
    then show ?thesis using assms by (auto simp: HandleSetChannelWatch_def bind_result_Inr_iff)
  next
    case CMSG_GET_CHANNEL_MEMBER_COUNT
    with assms(2) show ?thesis
      by (simp add: HandleGetChannelMemberCount_def) (erule one [rotated], rule count)
  next
    case CMSG_CHANNEL_MODERATE
    with assms show ?thesis by simp
  qed (auto simp: HandleChannelList_def HandleChannelSetOwner_def HandleChannelOwner_def
      HandleChannelModerator_def HandleChannelUnmoderator_def HandleChannelMute_def HandleChannelUnmute_def
      HandleChannelInvite_def HandleChannelKick_def HandleChannelBan_def HandleChannelUnban_def
      HandleChannelAnnouncements_def HandleChannelDisplayListQuery_def
      intro: one two act)
qed

lemma HandleChannelModerate_ok:
  "world_ok w \<Longrightarrow> HandleChannelModerate e pl b w = Inr w' \<Longrightarrow> world_ok w'"
  using channel_op_ok [of _ _ e "OpModerate (pl_guid pl)"]
  by (auto simp: HandleChannelModerate_def intro: handle_named_ok)

lemma cleanup_loop_ok: "world_ok w \<Longrightarrow> world_ok (cleanup_loop e pl cs w)"
proof (induction cs arbitrary: w)
  case (Cons c cs)
  have leave: "channel_ok nm s \<Longrightarrow> channel_ok nm (Leave e (pl_guid pl) False s)" for nm s
    using channel_op_ok [of nm s e "OpLeave (pl_guid pl) False"] by simp
  let ?w = "w\<lparr>m_channels := (m_channels w)(pl_guid pl := cs)\<rparr>"
  have "world_ok ?w" using Cons.prems by (simp add: world_ok_def)
  then have "world_ok (case channelMgr e (pl_team pl) of None \<Rightarrow> ?w | Some m \<Rightarrow>
      (case omap_find (channels_of m ?w) c of None \<Rightarrow> ?w
       | Some st \<Rightarrow> LeftChannel_mgr m c (run_channel e m c (Leave e (pl_guid pl) False) st ?w)))"
    using leave by (auto split: option.split intro!: LeftChannel_mgr_ok run_channel_ok
        intro: channels_ok_find world_ok_channels)
  then show ?case by (simp add: Let_def Cons.IH)
qed simp

interpretation session: invariant_ops "session_step e" world_ok "\<lambda>w x. True" for e
proof
  fix w x
  assume ok: "world_ok w"
  show "world_ok (session_step e w x)"
  proof (cases x)
    case (Packet r pl b)
    then show ?thesis using ok dispatch_ok by (auto split: sum.split)
  next
    case (ChannelChat pl c msg lang)
    then show ?thesis
      using ok channel_op_ok [of _ _ e "OpSay (pl_guid pl) (Some msg) lang"]
      by (simp add: handle_channel_chat_def with_channel_ok)
  next
    case (Logout pl)
    then show ?thesis using ok by (simp add: CleanupChannels_def cleanup_loop_ok)
  qed
qed

definition empty_world :: chan_world where
  "empty_world = \<lparr>alliance_channels = [], horde_channels = [], m_channels = (\<lambda>g. []), w_out = []\<rparr>"

lemma empty_world_ok: "world_ok empty_world"
  by (simp add: empty_world_def world_ok_def channels_ok_def om.invar_empty)

text \<open>
  C3. Whatever packets clients send, with whatever bytes, and whatever they say and however
  they log out, both managers stay well formed: every channel is filed under its own name,
  which is not empty, its containers are sorted and unique and its owner flag is exactly on
  \<open>m_ownerGUID\<close>; and the assertion on the channel name in \<open>BuildChatPacket\<close> never fails.
\<close>

theorem sessions_keep_channels:
  "let w = run_ops (session_step e) empty_world evs
   in AssertFailed \<notin> set (w_out w) \<and>
      (\<forall>m. omap_ok (channels_of m w) \<and>
         (\<forall>(nm, st) \<in> set (channels_of m w). m_name st = nm \<and> nm \<noteq> [] \<and> chan_inv st))"
proof -
  have ok: "world_ok (run_ops (session_step e) empty_world evs)"
    by (rule session.run_inv_total) (simp_all add: empty_world_ok)
  show ?thesis
    using ok world_ok_channels [OF ok]
    by (auto simp: Let_def channels_ok_def channel_ok_def quiet_def) (simp add: world_ok_def)
qed

definition demo_join_packet :: byte_buffer where
  "demo_join_packet = \<lparr>bb_rpos = 0, bb_wpos = 11,
     bb_storage = [0, 0, 0, 0, 0, 0, 112, 117, 98, 0, 0]\<rparr>"

lemma demo_join_makes_channel:
  "map fst (channels_of AllianceMgr (run_ops (session_step demo_env) empty_world
     [Packet CMSG_JOIN_CHANNEL (demo_player 1 ''Alice'') demo_join_packet])) = [''pub'']"
proof -
  have chars: "char_of (112 :: nat) = CHR ''p''" "char_of (117 :: nat) = CHR ''u''" "char_of (98 :: nat) = CHR ''b''"
    by code_simp+
  have parsed: "HandleJoinChannel demo_env (demo_player 1 ''Alice'') demo_join_packet w =
      Inr (let (st, cs) = GetJoinChannel demo_env ''pub'' 0 (channels_of AllianceMgr w)
           in run_channel demo_env AllianceMgr ''pub'' (Join demo_env 1 '''') st
                (set_channels AllianceMgr cs w))" for w
    by (simp add: HandleJoinChannel_def demo_join_packet_def read_word_def read_word_at_def size_add_def
        bb_size_def read_string_def read_string_loop.simps char_of_byte_def is_digit_char_def
        channelMgr_def demo_env_def demo_player_def less_eq_char_def chars)
  have "map fst (channels_of AllianceMgr
      (let (st, cs) = GetJoinChannel demo_env ''pub'' 0 (channels_of AllianceMgr empty_world)
       in run_channel demo_env AllianceMgr ''pub'' (Join demo_env 1 '''') st
            (set_channels AllianceMgr cs empty_world))) = [''pub'']"
    by code_simp
  then show ?thesis by (simp add: parsed del: Let_def split_paired_All)
qed

theorem sessions_keep_channels_witness:
  "let w = run_ops (session_step demo_env) empty_world
             [Packet CMSG_JOIN_CHANNEL (demo_player 1 ''Alice'') demo_join_packet]
   in map fst (channels_of AllianceMgr w) = [''pub''] \<and> AssertFailed \<notin> set (w_out w) \<and>
      (\<forall>m. omap_ok (channels_of m w) \<and>
         (\<forall>(nm, st) \<in> set (channels_of m w). m_name st = nm \<and> nm \<noteq> [] \<and> chan_inv st))"
  unfolding Let_def
  by (rule conjI [OF demo_join_makes_channel sessions_keep_channels [unfolded Let_def]])

end
