(* ===== verification/EventMap.thy ===== *)
theory EventMap
  imports Containers
begin

text \<open>
  The event timer of creature scripts (src/src/common/Utilities/EventMap.h and EventMap.cpp):
  a multimap from the time an event is due to its data word 0xPPGGEEEE (phase bits, group
  bits, event id), the map's clock and the active phases. All arithmetic is on 32-bit
  unsigned integers and wraps. The release build is modelled: \<open>DEBUG_ASSERT\<close> checks nothing.
  \<open>urand\<close> draws appear as the drawn value.
\<close>

section \<open>State and operations\<close>

type_synonym event_store = "(uint32, uint32) mmap"

record event_map =
  em_time :: uint32
  em_phase :: uint8
  em_last :: uint32
  em_store :: event_store

definition em_new :: event_map where
  "em_new = \<lparr>em_time = 0, em_phase = 0, em_last = 0, em_store = []\<rparr>"

definition em_Reset :: "event_map \<Rightarrow> event_map" where
  "em_Reset m = m\<lparr>em_store := [], em_time := 0, em_phase := 0\<rparr>"

definition em_Update :: "uint32 \<Rightarrow> event_map \<Rightarrow> event_map" where
  "em_Update t m = m\<lparr>em_time := em_time m + t\<rparr>"

definition em_Empty :: "event_map \<Rightarrow> bool" where
  "em_Empty m \<longleftrightarrow> em_store m = []"

definition em_SetPhase :: "uint8 \<Rightarrow> event_map \<Rightarrow> event_map" where
  "em_SetPhase phase m =
     (if phase = 0 then m\<lparr>em_phase := 0\<rparr>
      else if phase \<le> 8 then m\<lparr>em_phase := push_bit (unat phase - 1) 1\<rparr>
      else m)"

definition em_AddPhase :: "uint8 \<Rightarrow> event_map \<Rightarrow> event_map" where
  "em_AddPhase phase m =
     (if phase \<noteq> 0 \<and> phase \<le> 8 then m\<lparr>em_phase := add_flag (em_phase m) (push_bit (unat phase - 1) 1)\<rparr> else m)"

definition em_RemovePhase :: "uint8 \<Rightarrow> event_map \<Rightarrow> event_map" where
  "em_RemovePhase phase m =
     (if phase \<noteq> 0 \<and> phase \<le> 8 then m\<lparr>em_phase := del_flag (em_phase m) (push_bit (unat phase - 1) 1)\<rparr> else m)"

definition em_IsInPhase :: "uint8 \<Rightarrow> event_map \<Rightarrow> bool" where
  "em_IsInPhase phase m \<longleftrightarrow>
     phase \<le> 8 \<and> (phase = 0 \<or> has_flag (em_phase m) (push_bit (unat phase - 1) 1))"

definition group_bit :: "uint32 \<Rightarrow> uint32" where
  "group_bit grp = push_bit (unat grp + 15) 1"

definition phase_bit :: "uint8 \<Rightarrow> uint32" where
  "phase_bit phase = push_bit (unat phase + 23) 1"

definition event_data :: "uint32 \<Rightarrow> uint32 \<Rightarrow> uint8 \<Rightarrow> uint32" where
  "event_data eventId grp phase =
     (let d = (if grp \<noteq> 0 \<and> grp \<le> 8 then add_flag eventId (group_bit grp) else eventId)
      in if phase \<noteq> 0 \<and> phase \<le> 8 then add_flag d (phase_bit phase) else d)"

definition ScheduleEvent :: "uint32 \<Rightarrow> uint32 \<Rightarrow> uint32 \<Rightarrow> uint8 \<Rightarrow> event_map \<Rightarrow> event_map" where
  "ScheduleEvent eventId t grp phase m =
     m\<lparr>em_store := mmap_insert (em_time m + t) (event_data eventId grp phase) (em_store m)\<rparr>"

text \<open>The overload with a time range: \<open>drawn\<close> is the value of \<open>urand\<close>; the phase is narrowed to 8 bits.\<close>

definition ScheduleEvent_range :: "uint32 \<Rightarrow> uint32 \<Rightarrow> uint32 \<Rightarrow> uint32 \<Rightarrow> event_map \<Rightarrow> event_map" where
  "ScheduleEvent_range eventId drawn grp phase m = ScheduleEvent eventId drawn grp (ucast phase) m"

definition event_id :: "uint32 \<Rightarrow> uint32" where
  "event_id d = d AND 0x0000FFFF"

definition CancelEvent :: "uint32 \<Rightarrow> event_map \<Rightarrow> event_map" where
  "CancelEvent eventId m = m\<lparr>em_store := filter (\<lambda>(k, d). eventId \<noteq> event_id d) (em_store m)\<rparr>"

definition CancelEventGroup :: "uint32 \<Rightarrow> event_map \<Rightarrow> event_map" where
  "CancelEventGroup grp m =
     (if grp = 0 \<or> grp > 8 \<or> em_Empty m then m
      else m\<lparr>em_store := filter (\<lambda>(k, d). \<not> has_flag d (group_bit grp)) (em_store m)\<rparr>)"

definition RescheduleEvent :: "uint32 \<Rightarrow> uint32 \<Rightarrow> uint32 \<Rightarrow> uint8 \<Rightarrow> event_map \<Rightarrow> event_map" where
  "RescheduleEvent eventId t grp phase m = ScheduleEvent eventId t grp phase (CancelEvent eventId m)"

definition RescheduleEvent_range :: "uint32 \<Rightarrow> uint32 \<Rightarrow> uint32 \<Rightarrow> uint32 \<Rightarrow> event_map \<Rightarrow> event_map" where
  "RescheduleEvent_range eventId drawn grp phase m = RescheduleEvent eventId drawn grp (ucast phase) m"

definition Repeat :: "uint32 \<Rightarrow> event_map \<Rightarrow> event_map" where
  "Repeat t m = m\<lparr>em_store := mmap_insert (em_time m + t) (em_last m) (em_store m)\<rparr>"

definition out_of_phase :: "uint8 \<Rightarrow> uint32 \<Rightarrow> bool" where
  "out_of_phase phase d \<longleftrightarrow>
     phase \<noteq> 0 \<and> has_flag d 0xFF000000 \<and> \<not> has_flag (drop_bit 24 d) (ucast phase)"

fun execute_loop :: "event_store \<Rightarrow> event_map \<Rightarrow> uint32 \<times> event_map" where
  "execute_loop [] m = (0, m\<lparr>em_store := []\<rparr>)"
| "execute_loop ((k, d) # es) m =
     (if k > em_time m then (0, m\<lparr>em_store := (k, d) # es\<rparr>)
      else if out_of_phase (em_phase m) d then execute_loop es m
      else (event_id d, m\<lparr>em_last := d, em_store := es\<rparr>))"

definition ExecuteEvent :: "event_map \<Rightarrow> uint32 \<times> event_map" where
  "ExecuteEvent m = execute_loop (em_store m) m"

text \<open>\<open>DelayEvents(delay)\<close> moves the clock back, not below 0.\<close>

definition DelayEvents_all :: "uint32 \<Rightarrow> event_map \<Rightarrow> event_map" where
  "DelayEvents_all delay m = m\<lparr>em_time := (if delay < em_time m then em_time m - delay else 0)\<rparr>"

definition DelayEvents :: "uint32 \<Rightarrow> uint32 \<Rightarrow> event_map \<Rightarrow> event_map" where
  "DelayEvents delay grp m =
     (if grp = 0 \<or> grp > 8 \<or> em_Empty m then m
      else
        let hit = (\<lambda>(k, d). has_flag d (group_bit grp));
            delayed = mmap_insert_all (map (\<lambda>(k, d). (k + delay, d)) (filter hit (em_store m))) [];
            kept = filter (\<lambda>e. \<not> hit e) (em_store m)
        in m\<lparr>em_store := mmap_insert_all delayed kept\<rparr>)"

text \<open>
  The loop of \<open>SetMinimalDelay\<close> inserts while it iterates: \<open>seen\<close> is what the iterator has
  passed, in order. The new entry is later than the current one, so it goes into the part
  still ahead.
\<close>

function minimal_loop :: "uint32 \<Rightarrow> uint32 \<Rightarrow> event_store \<Rightarrow> event_store \<Rightarrow> event_store" where
  "minimal_loop eventId delay seen [] = seen"
| "minimal_loop eventId delay seen ((k, d) # es) =
     (if eventId = event_id d \<and> k < delay then minimal_loop eventId delay seen (mmap_insert delay d es)
      else minimal_loop eventId delay (seen @ [(k, d)]) es)"
  by pat_completeness auto

lemma mmap_insert_length: "length (mmap_insert k v m) = Suc (length m)"
  by (induction k v m rule: mmap_insert.induct) auto

lemma mmap_insert_filter_out: "\<not> P (k, v) \<Longrightarrow> filter P (mmap_insert k v m) = filter P m"
  by (induction k v m rule: mmap_insert.induct) auto

termination minimal_loop
proof (relation "measures [\<lambda>(i, delay, seen, es). length (filter (\<lambda>(k, d). i = event_id d \<and> k < delay) es),
      \<lambda>(i, delay, seen, es). length es]")
  fix i delay :: uint32 and seen es :: event_store and k d :: uint32
  assume "i = event_id d \<and> k < delay"
  then show "((i, delay, seen, mmap_insert delay d es), i, delay, seen, (k, d) # es) \<in>
      measures [\<lambda>(i, delay, seen, es). length (filter (\<lambda>(k, d). i = event_id d \<and> k < delay) es),
        \<lambda>(i, delay, seen, es). length es]"
    by (simp add: mmap_insert_filter_out)
qed auto

definition SetMinimalDelay :: "uint32 \<Rightarrow> uint32 \<Rightarrow> event_map \<Rightarrow> event_map" where
  "SetMinimalDelay eventId delay m =
     (if em_Empty m then m else m\<lparr>em_store := minimal_loop eventId delay [] (em_store m)\<rparr>)"

fun first_time :: "uint32 \<Rightarrow> event_store \<Rightarrow> uint32 option" where
  "first_time eventId [] = None"
| "first_time eventId ((k, d) # es) = (if eventId = event_id d then Some k else first_time eventId es)"

definition GetNextEventTime_of :: "uint32 \<Rightarrow> event_map \<Rightarrow> uint32" where
  "GetNextEventTime_of eventId m = (case first_time eventId (em_store m) of None \<Rightarrow> 0 | Some k \<Rightarrow> k)"

definition GetNextEventTime :: "event_map \<Rightarrow> uint32" where
  "GetNextEventTime m = (case em_store m of [] \<Rightarrow> 0 | (k, d) # es \<Rightarrow> k)"

definition GetTimeUntilEvent :: "uint32 \<Rightarrow> event_map \<Rightarrow> uint32" where
  "GetTimeUntilEvent eventId m =
     (case first_time eventId (em_store m) of None \<Rightarrow> 0xFFFFFFFF | Some k \<Rightarrow> k - em_time m)"

text \<open>The loop every script runs: \<open>while (uint32 eventId = events.ExecuteEvent())\<close>, with the ids handled.\<close>

function drain :: "event_map \<Rightarrow> uint32 list \<times> event_map" where
  "drain m = (case ExecuteEvent m of (i, m') \<Rightarrow>
     if i = 0 then ([], m') else (case drain m' of (is, m'') \<Rightarrow> (i # is, m'')))"
  by pat_completeness auto

lemma execute_loop_shrinks:
  "execute_loop es m = (i, m') \<Longrightarrow> i \<noteq> 0 \<Longrightarrow> length (em_store m') < length es"
  by (induction es m rule: execute_loop.induct) (auto split: if_splits)

termination drain
  by (relation "measure (\<lambda>m. length (em_store m))")
    (auto simp: ExecuteEvent_def dest!: execute_loop_shrinks [OF sym])

declare drain.simps [simp del]

section \<open>The invariant\<close>

definition em_ok :: "event_map \<Rightarrow> bool" where
  "em_ok m \<longleftrightarrow> mmap_ok (em_store m)"

datatype em_op =
    EmReset | EmUpdate uint32 | EmSetPhase uint8 | EmAddPhase uint8 | EmRemovePhase uint8
  | EmSchedule uint32 uint32 uint32 uint8 | EmReschedule uint32 uint32 uint32 uint8 | EmRepeat uint32
  | EmExecute | EmDelayAll uint32 | EmDelay uint32 uint32 | EmMinimal uint32 uint32
  | EmCancel uint32 | EmCancelGroup uint32

fun em_step :: "event_map \<Rightarrow> em_op \<Rightarrow> event_map" where
  "em_step m EmReset = em_Reset m"
| "em_step m (EmUpdate t) = em_Update t m"
| "em_step m (EmSetPhase p) = em_SetPhase p m"
| "em_step m (EmAddPhase p) = em_AddPhase p m"
| "em_step m (EmRemovePhase p) = em_RemovePhase p m"
| "em_step m (EmSchedule i t g p) = ScheduleEvent i t g p m"
| "em_step m (EmReschedule i t g p) = RescheduleEvent i t g p m"
| "em_step m (EmRepeat t) = Repeat t m"
| "em_step m EmExecute = snd (ExecuteEvent m)"
| "em_step m (EmDelayAll t) = DelayEvents_all t m"
| "em_step m (EmDelay t g) = DelayEvents t g m"
| "em_step m (EmMinimal i t) = SetMinimalDelay i t m"
| "em_step m (EmCancel i) = CancelEvent i m"
| "em_step m (EmCancelGroup g) = CancelEventGroup g m"

lemma execute_loop_ok: "mmap_ok es \<Longrightarrow> em_ok (snd (execute_loop es m))"
  by (induction es m rule: execute_loop.induct) (auto simp: em_ok_def dest: mmap_tl_ok)

lemma mmap_ok_append:
  "mmap_ok (xs @ ys) \<longleftrightarrow> mmap_ok xs \<and> mmap_ok ys \<and> (\<forall>x \<in> set xs. \<forall>y \<in> set ys. fst x \<le> fst y)"
  by (auto simp: mmap_ok_def sorted_append)

lemma minimal_loop_ok: "mmap_ok (seen @ es) \<Longrightarrow> mmap_ok (minimal_loop i delay seen es)"
proof (induction i delay seen es rule: minimal_loop.induct)
  case (2 i delay seen k d es)
  show ?case
  proof (cases "i = event_id d \<and> k < delay")
    case True
    have "mmap_ok es" using 2(3) by (auto simp: mmap_ok_append dest: mmap_tl_ok)
    moreover have "\<forall>x \<in> set seen. fst x \<le> delay"
      using 2(3) True by (auto simp: mmap_ok_append intro: order_trans less_imp_le)
    ultimately have "mmap_ok (seen @ mmap_insert delay d es)"
      using 2(3) by (auto simp: mmap_ok_append mmap_insert_set intro!: mmap_insert_ok)
    with True 2(1) show ?thesis by simp
  next
    case False
    then have "minimal_loop i delay seen ((k, d) # es) = minimal_loop i delay (seen @ [(k, d)]) es" by auto
    with False 2(2,3) show ?thesis by simp
  qed
qed simp

lemma minimal_loop_mset:
  "mset (minimal_loop i delay seen es) =
   mset seen + image_mset (\<lambda>(k, d). if i = event_id d \<and> k < delay then (delay, d) else (k, d)) (mset es)"
  by (induction i delay seen es rule: minimal_loop.induct) (auto simp: mmap_insert_mset)

lemma em_ops_ok:
  "em_ok m \<Longrightarrow> em_ok (ScheduleEvent i t g p m)" "em_ok m \<Longrightarrow> em_ok (CancelEvent i m)"
  "em_ok m \<Longrightarrow> em_ok (CancelEventGroup g m)" "em_ok m \<Longrightarrow> em_ok (Repeat t m)"
  "em_ok m \<Longrightarrow> em_ok (DelayEvents t g m)" "em_ok m \<Longrightarrow> em_ok (SetMinimalDelay i t m)"
  "em_ok m \<Longrightarrow> em_ok (snd (ExecuteEvent m))"
  by (simp_all add: em_ok_def ScheduleEvent_def CancelEvent_def CancelEventGroup_def Repeat_def
      DelayEvents_def SetMinimalDelay_def Let_def mmap_insert_ok mmap_filter_ok mmap_insert_all_ok
      minimal_loop_ok ExecuteEvent_def execute_loop_ok [unfolded em_ok_def])

interpretation em: invariant_ops em_step em_ok "\<lambda>m x. True"
proof
  fix m x
  assume "em_ok m"
  then show "em_ok (em_step m x)"
    by (cases x) (simp_all add: em_ops_ok RescheduleEvent_def,
      simp_all add: em_ok_def em_Reset_def em_Update_def em_SetPhase_def em_AddPhase_def
        em_RemovePhase_def DelayEvents_all_def mmap_ok_def)
qed

section \<open>Executing events\<close>

definition due_now :: "event_map \<Rightarrow> uint32 \<times> uint32 \<Rightarrow> bool" where
  "due_now m e \<longleftrightarrow> fst e \<le> em_time m \<and> \<not> out_of_phase (em_phase m) (snd e)"

lemma execute_loop_keeps:
  "em_time (snd (execute_loop es m)) = em_time m" "em_phase (snd (execute_loop es m)) = em_phase m"
  by (induction es m rule: execute_loop.induct) auto

lemma execute_loop_nothing_due:
  "mmap_ok es \<Longrightarrow> filter (due_now m) es = [] \<Longrightarrow>
     execute_loop es m = (0, m\<lparr>em_store := filter (\<lambda>e. em_time m < fst e) es\<rparr>)"
proof (induction es m rule: execute_loop.induct)
  case (2 k d es m)
  show ?case
  proof (cases "k > em_time m")
    case True
    then have "\<forall>e \<in> set ((k, d) # es). em_time m < fst e" using 2(2) by (auto simp: mmap_ok_def)
    then have "filter (\<lambda>e. em_time m < fst e) ((k, d) # es) = (k, d) # es" by (simp only: filter_True)
    with True show ?thesis by simp
  next
    case False
    with 2 show ?thesis by (auto simp: due_now_def dest: mmap_tl_ok split: if_splits)
  qed
qed simp

lemma execute_loop_due:
  "mmap_ok es \<Longrightarrow> filter (due_now m) es = e # due \<Longrightarrow>
     \<exists>es'. execute_loop es m = (event_id (snd e), m\<lparr>em_last := snd e, em_store := es'\<rparr>) \<and>
       mmap_ok es' \<and> filter (due_now m) es' = due \<and>
       filter (\<lambda>e. em_time m < fst e) es' = filter (\<lambda>e. em_time m < fst e) es"
proof (induction es m rule: execute_loop.induct)
  case (2 k d es m)
  show ?case
  proof (cases "k > em_time m")
    case True
    then have "filter (due_now m) ((k, d) # es) = []"
      using 2(2) by (force simp: mmap_ok_def due_now_def filter_empty_conv)
    with 2(3) show ?thesis by simp
  next
    case False
    then have le: "k \<le> em_time m" by simp
    show ?thesis
    proof (cases "out_of_phase (em_phase m) d")
      case True
      with 2 False le show ?thesis by (auto simp: due_now_def dest: mmap_tl_ok)
    next
      case in_phase: False
      then have "due_now m (k, d)" using le by (simp add: due_now_def)
      with 2 False in_phase show ?thesis by (auto dest: mmap_tl_ok)
    qed
  qed
qed simp

lemma due_now_last [simp]: "due_now (m\<lparr>em_last := d, em_store := es\<rparr>) = due_now m"
  by (simp add: fun_eq_iff due_now_def)

lemma drain_due:
  assumes "mmap_ok (em_store m)" "\<forall>e \<in> set (filter (due_now m) (em_store m)). event_id (snd e) \<noteq> 0"
  shows "fst (drain m) = map (event_id \<circ> snd) (filter (due_now m) (em_store m))"
    "em_store (snd (drain m)) = filter (\<lambda>e. em_time m < fst e) (em_store m)"
    "em_time (snd (drain m)) = em_time m" "em_phase (snd (drain m)) = em_phase m"
proof -
  have "fst (drain m) = map (event_id \<circ> snd) due \<and>
      em_store (snd (drain m)) = filter (\<lambda>e. em_time m < fst e) (em_store m) \<and>
      em_time (snd (drain m)) = em_time m \<and> em_phase (snd (drain m)) = em_phase m"
    if "mmap_ok (em_store m)" "filter (due_now m) (em_store m) = due" "\<forall>e \<in> set due. event_id (snd e) \<noteq> 0" for due
    using that
  proof (induction due arbitrary: m)
    case Nil
    then show ?case
      by (subst (1 2 3 4) drain.simps) (simp add: ExecuteEvent_def execute_loop_nothing_due)
  next
    case (Cons e due)
    obtain es' where step: "ExecuteEvent m = (event_id (snd e), m\<lparr>em_last := snd e, em_store := es'\<rparr>)"
      and es': "mmap_ok es'" "filter (due_now m) es' = due"
        "filter (\<lambda>e. em_time m < fst e) es' = filter (\<lambda>e. em_time m < fst e) (em_store m)"
      using execute_loop_due [OF Cons.prems(1,2)] by (auto simp: ExecuteEvent_def)
    let ?m = "m\<lparr>em_last := snd e, em_store := es'\<rparr>"
    have "drain m = (event_id (snd e) # fst (drain ?m), snd (drain ?m))"
      using Cons.prems(3) by (subst drain.simps) (simp add: step split: prod.split)
    with Cons.IH [of ?m] Cons.prems(3) es' show ?case by simp
  qed
  from this [OF assms(1) refl assms(2)] show
    "fst (drain m) = map (event_id \<circ> snd) (filter (due_now m) (em_store m))"
    "em_store (snd (drain m)) = filter (\<lambda>e. em_time m < fst e) (em_store m)"
    "em_time (snd (drain m)) = em_time m" "em_phase (snd (drain m)) = em_phase m"
    by simp_all
qed

text \<open>
  C12. On a map whose events have nonzero ids, the loop \<open>while (id = ExecuteEvent())\<close> ends and
  hands out exactly the ids of the events that are due and in an active phase, in order of
  time and, for equal times, in the order they were scheduled; due events of another phase
  are dropped, later events stay, and the clock and the phases are unchanged.
\<close>

theorem drain_executes_due_events:
  assumes "em_ok m" "\<forall>e \<in> set (em_store m). event_id (snd e) \<noteq> 0"
  shows "fst (drain m) = map (event_id \<circ> snd) (filter (due_now m) (em_store m)) \<and>
    em_store (snd (drain m)) = filter (\<lambda>e. em_time m < fst e) (em_store m) \<and>
    em_time (snd (drain m)) = em_time m \<and> em_phase (snd (drain m)) = em_phase m"
  using drain_due [of m] assms by (simp add: em_ok_def)

definition demo_map :: event_map where
  "demo_map = \<lparr>em_time = 50, em_phase = 1, em_last = 0,
     em_store = [(10, 0x02000007), (20, 3), (20, 0x01000004), (60, 5)]\<rparr>"

theorem drain_executes_due_events_witness:
  "fst (drain demo_map) = [3, 4] \<and> em_store (snd (drain demo_map)) = [(60, 5)]"
proof -
  have ok: "em_ok demo_map" by (simp add: em_ok_def mmap_ok_def demo_map_def)
  have ids: "\<forall>e \<in> set (em_store demo_map). event_id (snd e) \<noteq> 0"
    by (simp add: demo_map_def event_id_def)
  have due: "filter (due_now demo_map) (em_store demo_map) = [(20, 3), (20, 0x01000004)]"
    by (simp add: demo_map_def due_now_def out_of_phase_def has_flag_def)
  show ?thesis
    using drain_executes_due_events [OF ok ids]
    by (simp add: due) (simp add: demo_map_def event_id_def)
qed

section \<open>The event word\<close>

lemma small_word_bits:
  fixes w :: uint32
  assumes "w < 2 ^ 16" "n \<ge> 16"
  shows "\<not> bit w n"
proof
  assume "bit w n"
  moreover have "w AND mask 16 = w" using assms(1) by (rule less_mask_eq)
  ultimately have "bit (w AND mask 16) n" by simp
  with assms(2) show False by (simp add: bit_and_iff bit_mask_iff)
qed

lemma group_bit_iff: "bit (group_bit g) n \<longleftrightarrow> n = unat g + 15 \<and> n < 32"
  by (auto simp: group_bit_def bit_exp_iff)

lemma phase_bit_iff: "bit (phase_bit p) n \<longleftrightarrow> n = unat p + 23 \<and> n < 32"
  by (auto simp: phase_bit_def bit_exp_iff)

lemma event_data_bits:
  "bit (event_data i g p) n \<longleftrightarrow>
     bit i n \<or> (g \<noteq> 0 \<and> g \<le> 8 \<and> n = unat g + 15) \<or> (p \<noteq> 0 \<and> p \<le> 8 \<and> n = unat p + 23)"
proof -
  have "g \<le> 8 \<Longrightarrow> unat g + 15 < 32" "p \<le> 8 \<Longrightarrow> unat p + 23 < 32"
    by (simp_all add: word_le_nat_alt)
  then show ?thesis
    by (auto simp: event_data_def Let_def add_flag_def bit_or_iff group_bit_iff phase_bit_iff)
qed

lemma bit_low16: "bit (0x0000FFFF :: uint32) n \<longleftrightarrow> n < 16"
proof -
  have "(0x0000FFFF :: uint32) = mask 16" by (simp add: mask_eq_exp_minus_1)
  then show ?thesis by (simp only: bit_mask_iff) auto
qed

lemma bit_event_id: "bit (event_id d) n \<longleftrightarrow> bit d n \<and> n < 16"
  by (simp only: event_id_def bit_and_iff bit_low16)

lemma event_id_data:
  assumes "i < 2 ^ 16"
  shows "event_id (event_data i g p) = i"
proof (rule bit_word_eqI)
  fix n :: nat
  assume "n < LENGTH(32)"
  have "g \<noteq> 0 \<Longrightarrow> unat g \<noteq> 0" "p \<noteq> 0 \<Longrightarrow> unat p \<noteq> 0" by (simp_all add: unat_eq_zero)
  then show "bit (event_id (event_data i g p)) n = bit i n"
    using small_word_bits [OF assms, of n]
    by (cases "n < 16") (auto simp: bit_event_id event_data_bits)
qed

text \<open>
  For an event id below 2^16, the data word of \<open>ScheduleEvent\<close> gives back the id, belongs to
  group \<open>g\<close> (as \<open>DelayEvents\<close> and \<open>CancelEventGroup\<close> test it) exactly when it was scheduled with
  group \<open>g\<close>, and carries exactly the phase bit it was scheduled with.
\<close>

theorem event_word_layout:
  assumes "i < 2 ^ 16" "g' \<noteq> 0" "g' \<le> 8" "p' \<noteq> 0" "p' \<le> 8"
  shows "event_id (event_data i g p) = i \<and>
    (has_flag (event_data i g p) (group_bit g') \<longleftrightarrow> g = g') \<and>
    (has_flag (event_data i g p) (phase_bit p') \<longleftrightarrow> p = p')"
proof -
  have nz: "unat g' \<noteq> 0" "unat p' \<noteq> 0" "unat g' \<le> 8" "unat p' \<le> 8"
    using assms by (simp_all add: unat_eq_zero word_le_nat_alt)
  have small: "\<not> bit i (unat g' + 15)" "\<not> bit i (unat p' + 23)"
    using small_word_bits [OF assms(1)] nz by simp_all
  have "p \<le> 8 \<Longrightarrow> unat p \<le> 8" "g \<le> 8 \<Longrightarrow> unat g \<le> 8" "p \<noteq> 0 \<Longrightarrow> 0 < unat p"
    by (simp_all add: word_le_nat_alt unat_gt_0)
  then show ?thesis
    using assms nz small
    by (auto simp: event_id_data has_flag_iff_bit group_bit_iff phase_bit_iff event_data_bits
        intro: word_unat_eq_iff [THEN iffD2])
qed

theorem event_word_layout_witness:
  "event_id (event_data 300 2 5) = 300 \<and> has_flag (event_data 300 2 5) (group_bit 2) \<and>
   \<not> has_flag (event_data 300 2 5) (phase_bit 4)"
  using event_word_layout [of 300 2 4 2 5] by simp

section \<open>Scheduling\<close>

lemma set_schedule:
  "set (em_store (ScheduleEvent i t g p m)) = insert (em_time m + t, event_data i g p) (set (em_store m))"
  by (simp add: ScheduleEvent_def mmap_insert_set)

lemma no_wrap_le:
  fixes a b c :: uint32
  assumes "unat a + unat b < 2 ^ 32" "unat a + unat c < 2 ^ 32"
  shows "a + b \<le> a + c \<longleftrightarrow> b \<le> c"
  using assms by (simp add: word_le_nat_alt unat_word_ariths)

text \<open>
  C35. An event scheduled \<open>t\<close> milliseconds ahead is handed out by the loop of a script that runs
  \<open>dt\<close> milliseconds later exactly when \<open>t \<le> dt\<close>, and is still pending otherwise, as long as
  the map's 32-bit clock does not wrap in between, ids are below 2^16 and not 0, and the event
  is not restricted to an inactive phase.
\<close>

theorem schedule_fires_on_time:
  assumes "em_ok m" "\<forall>e \<in> set (em_store m). event_id (snd e) \<noteq> 0" "i < 2 ^ 16" "i \<noteq> 0"
    and "unat (em_time m) + unat t < 2 ^ 32" "unat (em_time m) + unat dt < 2 ^ 32"
    and "\<not> out_of_phase (em_phase m) (event_data i g p)"
  shows "let r = drain (em_Update dt (ScheduleEvent i t g p m))
         in (t \<le> dt \<longrightarrow> i \<in> set (fst r)) \<and>
            ((em_time m + t, event_data i g p) \<in> set (em_store (snd r)) \<longleftrightarrow> dt < t)"
proof -
  let ?m = "em_Update dt (ScheduleEvent i t g p m)"
  have fields: "em_time ?m = em_time m + dt" "em_phase ?m = em_phase m"
      "em_store ?m = em_store (ScheduleEvent i t g p m)"
    by (simp_all add: em_Update_def ScheduleEvent_def)
  have ok: "mmap_ok (em_store ?m)" using em_ops_ok(1) [OF assms(1)] fields(3) by (simp add: em_ok_def)
  have ids: "\<forall>e \<in> set (filter (due_now ?m) (em_store ?m)). event_id (snd e) \<noteq> 0"
    using assms(2-4) by (auto simp: fields set_schedule event_id_data)
  have due: "due_now ?m (em_time m + t, event_data i g p) \<longleftrightarrow> t \<le> dt"
    using assms(7) no_wrap_le [OF assms(5,6)] by (simp add: due_now_def fields)
  have "t \<le> dt \<Longrightarrow> i \<in> set (fst (drain ?m))"
    using due assms(3) event_id_data [OF assms(3), of g p]
    by (force simp: drain_due(1) [OF ok ids] fields set_schedule)
  moreover have "(em_time m + t, event_data i g p) \<in> set (em_store (snd (drain ?m))) \<longleftrightarrow> dt < t"
    using no_wrap_le [OF assms(5,6)]
    by (simp add: drain_due(2) [OF ok ids]) (auto simp: fields set_schedule not_le [symmetric])
  ultimately show ?thesis by (simp add: Let_def)
qed

theorem schedule_fires_on_time_witness:
  "let r = drain (em_Update 30 (ScheduleEvent 9 25 0 0 demo_map))
   in (25 \<le> (30 :: uint32) \<longrightarrow> 9 \<in> set (fst r)) \<and>
      ((em_time demo_map + 25, event_data 9 0 0) \<in> set (em_store (snd r)) \<longleftrightarrow> (30 :: uint32) < 25)"
  by (rule schedule_fires_on_time)
    (simp_all add: em_ok_def mmap_ok_def demo_map_def event_id_def out_of_phase_def event_data_def has_flag_def)

text \<open>
  Rescheduling an event leaves exactly one pending occurrence of its id, at the new time,
  and does not touch the other events or their order.
\<close>

theorem reschedule_single_occurrence:
  assumes "i < 2 ^ 16"
  shows "filter (\<lambda>e. event_id (snd e) = i) (em_store (RescheduleEvent i t g p m)) =
           [(em_time m + t, event_data i g p)] \<and>
         filter (\<lambda>e. event_id (snd e) \<noteq> i) (em_store (RescheduleEvent i t g p m)) =
           filter (\<lambda>e. event_id (snd e) \<noteq> i) (em_store m)"
proof -
  let ?c = "filter (\<lambda>(k, d). i \<noteq> event_id d) (em_store m)"
  have store: "em_store (RescheduleEvent i t g p m) = mmap_insert (em_time m + t) (event_data i g p) ?c"
    by (simp add: RescheduleEvent_def ScheduleEvent_def CancelEvent_def)
  have one: "filter P (mmap_insert k v xs) = [(k, v)]"
    if "P (k, v)" "filter P xs = []" for P k v and xs :: event_store
    using that by (induction k v xs rule: mmap_insert.induct) (auto split: if_splits)
  have "filter (\<lambda>e. event_id (snd e) = i) ?c = []" by (auto simp: filter_empty_conv)
  then have "filter (\<lambda>e. event_id (snd e) = i) (em_store (RescheduleEvent i t g p m)) =
      [(em_time m + t, event_data i g p)]"
    unfolding store using event_id_data [OF assms] by (intro one) simp_all
  moreover have "filter (\<lambda>e. event_id (snd e) \<noteq> i) (em_store (RescheduleEvent i t g p m)) =
      filter (\<lambda>e. event_id (snd e) \<noteq> i) ?c"
    unfolding store using event_id_data [OF assms] by (intro mmap_insert_filter_out) simp
  moreover have "filter (\<lambda>e. event_id (snd e) \<noteq> i) ?c = filter (\<lambda>e. event_id (snd e) \<noteq> i) (em_store m)"
    by (induction "em_store m") (auto intro!: filter_cong)
  ultimately show ?thesis by simp
qed

theorem reschedule_single_occurrence_witness:
  "filter (\<lambda>e. event_id (snd e) = 3) (em_store (RescheduleEvent 3 7 0 0 demo_map)) =
     [(em_time demo_map + 7, event_data 3 0 0)] \<and>
   filter (\<lambda>e. event_id (snd e) \<noteq> 3) (em_store (RescheduleEvent 3 7 0 0 demo_map)) =
     filter (\<lambda>e. event_id (snd e) \<noteq> 3) (em_store demo_map)"
  by (rule reschedule_single_occurrence) simp

section \<open>Delays\<close>

text \<open>
  \<open>DelayEvents\<close> on a group shifts exactly the events of that group by the delay (modulo
  2^32) and leaves every other event, and the result is again ordered by time.
\<close>

theorem delay_events_shifts_group:
  assumes "em_ok m" "g \<noteq> 0" "g \<le> 8"
  shows "mset (em_store (DelayEvents delay g m)) =
           image_mset (\<lambda>(k, d). if has_flag d (group_bit g) then (k + delay, d) else (k, d))
             (mset (em_store m)) \<and> em_ok (DelayEvents delay g m)"
proof -
  have split: "mset (map f (filter P xs)) + mset (filter (\<lambda>e. \<not> P e) xs) =
      image_mset (\<lambda>e. if P e then f e else e) (mset xs)" for f P and xs :: event_store
    by (induction xs) auto
  have "mset (em_store (DelayEvents delay g m)) =
      image_mset (\<lambda>e. if (case e of (k, d) \<Rightarrow> has_flag d (group_bit g)) then (case e of (k, d) \<Rightarrow> (k + delay, d)) else e)
        (mset (em_store m))"
    using assms(2,3)
    by (auto simp: DelayEvents_def Let_def em_Empty_def mmap_insert_all_mset split [symmetric] not_less)
  also have "\<dots> = image_mset (\<lambda>(k, d). if has_flag d (group_bit g) then (k + delay, d) else (k, d))
             (mset (em_store m))"
    by (intro image_mset_cong) auto
  finally show ?thesis using em_ops_ok(5) [OF assms(1)] by simp
qed

theorem delay_events_shifts_group_witness:
  "mset (em_store (DelayEvents 5 2 demo_map)) =
     image_mset (\<lambda>(k, d). if has_flag d (group_bit 2) then (k + 5, d) else (k, d))
       (mset (em_store demo_map)) \<and> em_ok (DelayEvents 5 2 demo_map)"
  by (rule delay_events_shifts_group) (simp_all add: em_ok_def mmap_ok_def demo_map_def)

text \<open>
  \<open>SetMinimalDelay\<close> compares the absolute time of an event with the delay: once the map's
  clock has reached the delay, it changes nothing, however soon the event is due.
\<close>

theorem minimal_delay_ignores_clock:
  assumes "delay \<le> em_time m" "\<forall>e \<in> set (em_store m). em_time m \<le> fst e"
  shows "SetMinimalDelay i delay m = m"
proof -
  have "\<forall>e \<in> set es. delay \<le> fst e \<Longrightarrow> minimal_loop i delay seen es = seen @ es" for seen es
    by (induction i delay seen es rule: minimal_loop.induct) (auto simp: not_less)
  moreover have "\<forall>e \<in> set (em_store m). delay \<le> fst e" using assms by (auto intro: order_trans)
  ultimately have "minimal_loop i delay [] (em_store m) = [] @ em_store m" by blast
  then show ?thesis by (simp add: SetMinimalDelay_def)
qed

theorem minimal_delay_ignores_clock_witness:
  "let m = demo_map\<lparr>em_store := [(51, 3)]\<rparr>
   in SetMinimalDelay 3 40 m = m \<and> GetTimeUntilEvent 3 m = 1"
proof -
  have "SetMinimalDelay 3 40 (demo_map\<lparr>em_store := [(51, 3)]\<rparr>) = demo_map\<lparr>em_store := [(51, 3)]\<rparr>"
    by (rule minimal_delay_ignores_clock) (simp_all add: demo_map_def)
  then show ?thesis by (simp add: GetTimeUntilEvent_def demo_map_def event_id_def)
qed

end
