(* ===== verification/EventProcessor.thy ===== *)
theory EventProcessor
  imports Containers
begin

text \<open>
  The event queue of world objects (src/src/common/Utilities/EventProcessor.h and
  EventProcessor.cpp): events are heap objects named by an address, \<open>ep_objs\<close> is the heap of
  live events, and the queue is a multimap from the 64-bit execution time to an address.
  Touching a deleted event is the error \<open>UseAfterFree\<close>, a failed \<open>ASSERT\<close> is \<open>AssertionFailed\<close>.
  The virtual members \<open>Execute\<close>, \<open>Abort\<close> and \<open>IsDeletable\<close> of the event classes are the
  callbacks, parameters of the model: \<open>Execute\<close> may do anything to the processor (the queue,
  the heap of events, the world), while \<open>Abort\<close> and \<open>IsDeletable\<close> are given the game world only.
  This is narrower than the C++ interface, where both are virtual members that could reach the
  queue, and it is what the overrides of the repository do: \<open>SpellEvent\<close> cancels and inspects
  its spell, the battleground queue events override \<open>Abort\<close> with an empty body, and every
  other event inherits the empty \<open>Abort\<close> and the constant \<open>IsDeletable\<close> of the base class. The
  results hold for overrides of that kind.
  The update loop runs for as long as events are due; the model carries fuel, and a theorem
  gives the fuel that is always enough.
\<close>

section \<open>Events\<close>

datatype abort_state = STATE_RUNNING | STATE_ABORT_SCHEDULED | STATE_ABORTED

record basic_event =
  m_abortState :: abort_state
  m_addTime :: uint64
  m_execTime :: uint64

definition BasicEvent_new :: basic_event where
  "BasicEvent_new = \<lparr>m_abortState = STATE_RUNNING, m_addTime = 0, m_execTime = 0\<rparr>"

datatype ep_error = AssertionFailed | UseAfterFree | DivisionByZero

type_synonym event_ptr = nat

record 'w ep =
  ep_time :: uint64
  ep_events :: "(uint64, event_ptr) mmap"
  ep_aborting :: bool
  ep_objs :: "event_ptr \<Rightarrow> basic_event option"
  ep_world :: 'w

record 'w callbacks =
  cb_execute :: "uint64 \<Rightarrow> uint32 \<Rightarrow> event_ptr \<Rightarrow> 'w ep \<Rightarrow> bool \<times> 'w ep"
  cb_abort :: "uint64 \<Rightarrow> event_ptr \<Rightarrow> 'w \<Rightarrow> 'w"
  cb_deletable :: "event_ptr \<Rightarrow> 'w \<Rightarrow> bool"

definition EventProcessor_new :: "(event_ptr \<Rightarrow> basic_event option) \<Rightarrow> 'w \<Rightarrow> 'w ep" where
  "EventProcessor_new objs w = \<lparr>ep_time = 0, ep_events = [], ep_aborting = False, ep_objs = objs, ep_world = w\<rparr>"

definition update_event :: "event_ptr \<Rightarrow> (basic_event \<Rightarrow> basic_event) \<Rightarrow> 'w ep \<Rightarrow> 'w ep" where
  "update_event ev f s = s\<lparr>ep_objs := (ep_objs s)(ev := map_option f (ep_objs s ev))\<rparr>"

definition ScheduleAbort :: "event_ptr \<Rightarrow> 'w ep \<Rightarrow> (ep_error, 'w ep) result" where
  "ScheduleAbort ev s =
     (case ep_objs s ev of
        None \<Rightarrow> Inl UseAfterFree
      | Some x \<Rightarrow> if m_abortState x = STATE_RUNNING
                  then Inr (update_event ev (\<lambda>x. x\<lparr>m_abortState := STATE_ABORT_SCHEDULED\<rparr>) s)
                  else Inl AssertionFailed)"

definition SetAborted :: "event_ptr \<Rightarrow> 'w ep \<Rightarrow> (ep_error, 'w ep) result" where
  "SetAborted ev s =
     (case ep_objs s ev of
        None \<Rightarrow> Inl UseAfterFree
      | Some x \<Rightarrow> if m_abortState x \<noteq> STATE_ABORTED
                  then Inr (update_event ev (\<lambda>x. x\<lparr>m_abortState := STATE_ABORTED\<rparr>) s)
                  else Inl AssertionFailed)"

definition delete_event :: "event_ptr \<Rightarrow> 'w ep \<Rightarrow> (ep_error, 'w ep) result" where
  "delete_event ev s =
     (if ep_objs s ev = None then Inl UseAfterFree else Inr (s\<lparr>ep_objs := (ep_objs s)(ev := None)\<rparr>))"

section \<open>The queue\<close>

definition CalculateTime :: "uint64 \<Rightarrow> 'w ep \<Rightarrow> uint64" where
  "CalculateTime t_offset s = ep_time s + t_offset"

definition CalculateQueueTime :: "uint64 \<Rightarrow> 'w ep \<Rightarrow> (ep_error, uint64) result" where
  "CalculateQueueTime delay s =
     (if delay = 0 then Inl DivisionByZero else Inr (CalculateTime (delay - ep_time s mod delay) s))"

definition AddEvent :: "event_ptr \<Rightarrow> uint64 \<Rightarrow> bool \<Rightarrow> 'w ep \<Rightarrow> 'w ep" where
  "AddEvent ev e_time set_addtime s =
     (let s1 = (if set_addtime then update_event ev (\<lambda>x. x\<lparr>m_addTime := ep_time s\<rparr>) s else s);
          s2 = update_event ev (\<lambda>x. x\<lparr>m_execTime := e_time\<rparr>) s1
      in s2\<lparr>ep_events := mmap_insert e_time ev (ep_events s2)\<rparr>)"

definition AddEventAtOffset :: "event_ptr \<Rightarrow> uint64 \<Rightarrow> 'w ep \<Rightarrow> 'w ep" where
  "AddEventAtOffset ev offset s = AddEvent ev (CalculateTime offset s) True s"

text \<open>The overload with two offsets: \<open>urand\<close> is called with the first offset twice.\<close>

definition AddEventAtOffset_range ::
  "(uint32 \<Rightarrow> uint32 \<Rightarrow> uint32) \<Rightarrow> event_ptr \<Rightarrow> uint64 \<Rightarrow> uint64 \<Rightarrow> 'w ep \<Rightarrow> 'w ep" where
  "AddEventAtOffset_range urand ev offset offset2 s =
     AddEvent ev (CalculateTime (ucast (urand (ucast offset) (ucast offset))) s) True s"

fun erase_first :: "event_ptr \<Rightarrow> (uint64, event_ptr) mmap \<Rightarrow> (uint64, event_ptr) mmap option" where
  "erase_first ev [] = None"
| "erase_first ev ((k, x) # es) = (if x = ev then Some es else map_option (\<lambda>r. (k, x) # r) (erase_first ev es))"

definition ModifyEventTime :: "event_ptr \<Rightarrow> uint64 \<Rightarrow> 'w ep \<Rightarrow> 'w ep" where
  "ModifyEventTime ev newTime s =
     (case erase_first ev (ep_events s) of
        None \<Rightarrow> s
      | Some es \<Rightarrow> (update_event ev (\<lambda>x. x\<lparr>m_execTime := newTime\<rparr>) s)\<lparr>ep_events := mmap_insert newTime ev es\<rparr>)"

definition process_event :: "'w callbacks \<Rightarrow> uint32 \<Rightarrow> event_ptr \<Rightarrow> 'w ep \<Rightarrow> (ep_error, 'w ep) result" where
  "process_event cb p_time ev s =
     (case ep_objs s ev of
        None \<Rightarrow> Inl UseAfterFree
      | Some x \<Rightarrow>
          if m_abortState x = STATE_RUNNING then
            (case cb_execute cb (ep_time s) p_time ev s of
               (fin, s1) \<Rightarrow> if fin then delete_event ev s1 else Inr s1)
          else
            bind_result
              (if m_abortState x = STATE_ABORT_SCHEDULED
               then SetAborted ev (s\<lparr>ep_world := cb_abort cb (ep_time s) ev (ep_world s)\<rparr>)
               else Inr s)
              (\<lambda>s1. if cb_deletable cb ev (ep_world s1) then delete_event ev s1
                    else Inr (AddEvent ev (CalculateTime 1 s1) False s1)))"

fun update_loop :: "nat \<Rightarrow> 'w callbacks \<Rightarrow> uint32 \<Rightarrow> 'w ep \<Rightarrow> (ep_error, 'w ep) result option" where
  "update_loop 0 cb p_time s = None"
| "update_loop (Suc n) cb p_time s =
     (case ep_events s of
        [] \<Rightarrow> Some (Inr s)
      | (k, ev) # es \<Rightarrow>
          if k \<le> ep_time s then
            (case process_event cb p_time ev (s\<lparr>ep_events := es\<rparr>) of
               Inl err \<Rightarrow> Some (Inl err)
             | Inr s1 \<Rightarrow> update_loop n cb p_time s1)
          else Some (Inr s))"

definition ep_Update :: "nat \<Rightarrow> 'w callbacks \<Rightarrow> uint32 \<Rightarrow> 'w ep \<Rightarrow> (ep_error, 'w ep) result option" where
  "ep_Update fuel cb p_time s = update_loop fuel cb p_time (s\<lparr>ep_time := ep_time s + ucast p_time\<rparr>)"

fun kill_loop ::
  "'w callbacks \<Rightarrow> bool \<Rightarrow> (uint64, event_ptr) mmap \<Rightarrow> 'w ep
   \<Rightarrow> (ep_error, (uint64, event_ptr) mmap \<times> 'w ep) result" where
  "kill_loop cb force [] s = Inr ([], s)"
| "kill_loop cb force ((k, ev) # es) s =
     (case ep_objs s ev of
        None \<Rightarrow> Inl UseAfterFree
      | Some x \<Rightarrow>
          bind_result
            (if m_abortState x \<noteq> STATE_ABORTED
             then bind_result (SetAborted ev s)
                    (\<lambda>s1. Inr (s1\<lparr>ep_world := cb_abort cb (ep_time s1) ev (ep_world s1)\<rparr>))
             else Inr s)
            (\<lambda>s1. if \<not> force \<and> \<not> cb_deletable cb ev (ep_world s1)
                  then bind_result (kill_loop cb force es s1) (\<lambda>(r, s2). Inr ((k, ev) # r, s2))
                  else bind_result (delete_event ev s1) (\<lambda>s2.
                         bind_result (kill_loop cb force es s2)
                           (\<lambda>(r, s3). Inr (if force then (k, ev) # r else r, s3)))))"

definition KillAllEvents :: "'w callbacks \<Rightarrow> bool \<Rightarrow> 'w ep \<Rightarrow> (ep_error, 'w ep) result" where
  "KillAllEvents cb force s =
     bind_result (kill_loop cb force (ep_events s) (s\<lparr>ep_aborting := True\<rparr>))
       (\<lambda>(r, s1). Inr (s1\<lparr>ep_events := (if force then [] else r)\<rparr>))"

section \<open>The invariant\<close>

text \<open>The queue is ordered, and holds each live event at most once and no deleted event.\<close>

definition ep_ok :: "'w ep \<Rightarrow> bool" where
  "ep_ok s \<longleftrightarrow> mmap_ok (ep_events s) \<and> distinct (map snd (ep_events s)) \<and>
     (\<forall>(k, ev) \<in> set (ep_events s). ep_objs s ev \<noteq> None)"

definition queued :: "event_ptr \<Rightarrow> 'w ep \<Rightarrow> bool" where
  "queued ev s \<longleftrightarrow> ev \<in> snd ` set (ep_events s)"

definition due_entries :: "'w ep \<Rightarrow> (uint64, event_ptr) mmap" where
  "due_entries s = filter (\<lambda>e. fst e \<le> ep_time s) (ep_events s)"

lemma mmap_insert_snd_distinct:
  "distinct (map snd (mmap_insert k v m)) \<longleftrightarrow> v \<notin> snd ` set m \<and> distinct (map snd m)"
proof -
  have "mset (map snd (mmap_insert k v m)) = mset (map snd ((k, v) # m))"
    by (simp add: mmap_insert_mset)
  then have "distinct (map snd (mmap_insert k v m)) = distinct (map snd ((k, v) # m))"
    by (rule mset_eq_imp_distinct_iff)
  then show ?thesis by simp
qed

lemma AddEvent_ok:
  assumes "ep_ok s" "ep_objs s ev \<noteq> None" "\<not> queued ev s"
  shows "ep_ok (AddEvent ev t b s)" "ep_time (AddEvent ev t b s) = ep_time s"
  using assms
  by (auto simp: AddEvent_def Let_def update_event_def ep_ok_def queued_def mmap_insert_ok
      mmap_insert_set mmap_insert_snd_distinct)

lemma AddEvent_due:
  "ep_time s < t \<Longrightarrow> due_entries (AddEvent ev t b s) = due_entries s"
proof -
  assume late: "ep_time s < t"
  have "filter P (mmap_insert k v m) = filter P m" if "\<not> P (k, v)" for P k v and m :: "(uint64, event_ptr) mmap"
    using that by (induction k v m rule: mmap_insert.induct) auto
  with late show ?thesis
    by (simp add: due_entries_def AddEvent_def Let_def update_event_def)
qed

section \<open>Well-behaved events\<close>

text \<open>
  What the processor relies on when it calls \<open>Execute\<close> on an event it has just taken off the
  queue: the clock is left alone, the queue stays well formed, no other event that is already
  due is added or removed, and an event that asks to be deleted is alive and not queued.
\<close>

definition well_behaved :: "'w callbacks \<Rightarrow> bool" where
  "well_behaved cb \<longleftrightarrow>
     (\<forall>p ev s. ep_ok s \<longrightarrow> ep_objs s ev \<noteq> None \<longrightarrow> \<not> queued ev s \<longrightarrow>
        (case cb_execute cb (ep_time s) p ev s of (fin, s1) \<Rightarrow>
           ep_ok s1 \<and> ep_time s1 = ep_time s \<and> due_entries s1 = due_entries s \<and>
           (fin \<longrightarrow> ep_objs s1 ev \<noteq> None \<and> \<not> queued ev s1)))"

lemma delete_event_ok:
  assumes "ep_ok s" "ep_objs s ev \<noteq> None" "\<not> queued ev s"
  shows "\<exists>s'. delete_event ev s = Inr s' \<and> ep_ok s' \<and> ep_time s' = ep_time s \<and> due_entries s' = due_entries s"
  using assms by (force simp: delete_event_def ep_ok_def queued_def due_entries_def)

lemma process_event_ok:
  assumes wb: "well_behaved cb" and ok: "ep_ok s" and live: "ep_objs s ev \<noteq> None" and nq: "\<not> queued ev s"
    and clock: "ep_time s < ep_time s + 1"
  shows "\<exists>s'. process_event cb p ev s = Inr s' \<and> ep_ok s' \<and> ep_time s' = ep_time s \<and>
    due_entries s' = due_entries s"
proof -
  obtain x where x: "ep_objs s ev = Some x" using live by auto
  show ?thesis
  proof (cases "m_abortState x = STATE_RUNNING")
    case True
    obtain fin s1 where ex: "cb_execute cb (ep_time s) p ev s = (fin, s1)" by fastforce
    have s1: "ep_ok s1" "ep_time s1 = ep_time s" "due_entries s1 = due_entries s"
        "fin \<Longrightarrow> ep_objs s1 ev \<noteq> None \<and> \<not> queued ev s1"
      using wb [unfolded well_behaved_def, rule_format, OF ok live nq, of p] ex by simp_all
    then show ?thesis
      using delete_event_ok [of s1 ev] by (cases fin) (auto simp: process_event_def x True ex)
  next
    case False
    define s1 where "s1 = (if m_abortState x = STATE_ABORT_SCHEDULED
      then update_event ev (\<lambda>x. x\<lparr>m_abortState := STATE_ABORTED\<rparr>)
             (s\<lparr>ep_world := cb_abort cb (ep_time s) ev (ep_world s)\<rparr>) else s)"
    have s1: "ep_ok s1" "ep_objs s1 ev \<noteq> None" "\<not> queued ev s1" "ep_time s1 = ep_time s"
        "due_entries s1 = due_entries s"
      using ok live nq by (auto simp: s1_def update_event_def ep_ok_def queued_def due_entries_def)
    have "process_event cb p ev s =
        (if cb_deletable cb ev (ep_world s1) then delete_event ev s1
         else Inr (AddEvent ev (CalculateTime 1 s1) False s1))"
      using False x by (simp add: process_event_def SetAborted_def s1_def)
    then show ?thesis
      using delete_event_ok [OF s1(1-3)] AddEvent_ok [OF s1(1-3)] AddEvent_due [of s1] clock s1(4,5)
      by (simp add: CalculateTime_def)
  qed
qed

lemma update_loop_ok:
  assumes "well_behaved cb" "ep_ok s" "ep_time s < ep_time s + 1" "n > length (due_entries s)"
  shows "\<exists>s'. update_loop n cb p s = Some (Inr s') \<and> ep_ok s' \<and> ep_time s' = ep_time s \<and> due_entries s' = []"
  using assms(2-4)
proof (induction n arbitrary: s)
  case (Suc n)
  show ?case
  proof (cases "ep_events s")
    case Nil
    with Suc.prems show ?thesis by (simp add: due_entries_def)
  next
    case (Cons e es)
    obtain k ev where e: "e = (k, ev)" by fastforce
    show ?thesis
    proof (cases "k \<le> ep_time s")
      case False
      have "due_entries s = []"
        using mq.no_entry_due [of "ep_events s" e es "ep_time s"] Suc.prems(1) Cons False
        by (force simp: due_entries_def filter_empty_conv ep_ok_def e)
      with False Suc.prems Cons e show ?thesis by simp
    next
      case True
      let ?s = "s\<lparr>ep_events := es\<rparr>"
      have s: "ep_ok ?s" "ep_objs ?s ev \<noteq> None" "\<not> queued ev ?s"
        using Suc.prems(1) Cons e by (auto simp: ep_ok_def queued_def dest: mmap_tl_ok)
      have due: "due_entries s = (k, ev) # due_entries ?s" using True Cons e by (simp add: due_entries_def)
      obtain s1 where s1: "process_event cb p ev ?s = Inr s1" "ep_ok s1" "ep_time s1 = ep_time s"
          "due_entries s1 = due_entries ?s"
        using process_event_ok [OF assms(1) s, of p] Suc.prems(2) by auto
      have "n > length (due_entries s1)" using Suc.prems(3) due s1(4) by simp
      then show ?thesis
        using Suc.IH [OF s1(2), unfolded s1(3), OF Suc.prems(2)] True Cons e s1 by auto
    qed
  qed
qed simp

text \<open>
  C13. As long as events behave (\<open>well_behaved\<close>) and the 64-bit clock has not reached its end, an
  update ends within as many rounds as there are queued events due at the new time plus one
  (the fuel of the statement), never touches a deleted event and never fails an assertion,
  keeps the queue well formed, and leaves only events that are due later.
\<close>

theorem update_processes_all_due:
  fixes s :: "'w ep" and p :: uint32
  defines "now \<equiv> ep_time s + ucast p"
  assumes "well_behaved cb" "ep_ok s" "now < now + 1"
  shows "\<exists>s'. ep_Update (length (filter (\<lambda>(k, ev). k \<le> now) (ep_events s)) + 1) cb p s = Some (Inr s') \<and>
           ep_ok s' \<and> ep_time s' = now \<and> (\<forall>(k, ev) \<in> set (ep_events s'). now < k)"
proof -
  let ?s = "s\<lparr>ep_time := now\<rparr>" and ?n = "length (filter (\<lambda>(k, ev). k \<le> now) (ep_events s)) + 1"
  have "ep_ok ?s" using assms(3) by (simp add: ep_ok_def)
  moreover have "?n > length (due_entries ?s)"
    by (simp add: due_entries_def case_prod_unfold)
  ultimately obtain s' where s': "update_loop ?n cb p ?s = Some (Inr s')"
      "ep_ok s'" "ep_time s' = now" "due_entries s' = []"
    using update_loop_ok [OF assms(2), of ?s] assms(4) by (auto simp del: update_loop.simps)
  have "\<forall>(k, ev) \<in> set (ep_events s'). now < k"
    using s'(3,4) by (force simp: due_entries_def filter_empty_conv)
  with s' show ?thesis by (simp add: ep_Update_def now_def)
qed

text \<open>
  The base class: \<open>Execute\<close> returns true, \<open>Abort\<close> does nothing, the event is deletable; and a
  recurring event that adds itself again ten milliseconds later and asks not to be deleted.
\<close>

definition base_event :: "'w callbacks" where
  "base_event = \<lparr>cb_execute = (\<lambda>t p ev s. (True, s)), cb_abort = (\<lambda>t ev w. w), cb_deletable = (\<lambda>ev w. True)\<rparr>"

lemma base_event_well_behaved: "well_behaved base_event"
  by (simp add: well_behaved_def base_event_def)

definition demo_ep :: "unit ep" where
  "demo_ep = \<lparr>ep_time = 100, ep_events = [(90, 1), (105, 2), (300, 3)], ep_aborting = False,
     ep_objs = (\<lambda>ev. if ev = 2 then Some (BasicEvent_new\<lparr>m_abortState := STATE_ABORT_SCHEDULED\<rparr>)
                     else Some BasicEvent_new), ep_world = ()\<rparr>"

lemma demo_ep_ok: "ep_ok demo_ep"
  by (simp add: ep_ok_def demo_ep_def mmap_ok_def)

theorem update_processes_all_due_witness:
  "\<exists>s'. ep_Update 3 base_event 50 demo_ep = Some (Inr s') \<and> ep_ok s' \<and> ep_time s' = 150 \<and>
     (\<forall>(k, ev) \<in> set (ep_events s'). 150 < k)"
proof -
  have "length (filter (\<lambda>(k, ev). k \<le> 150) (ep_events demo_ep)) + 1 = 3" "ep_time demo_ep = 100"
    by (simp_all add: demo_ep_def)
  then show ?thesis
    using update_processes_all_due [OF base_event_well_behaved demo_ep_ok, of 50] by simp
qed

section \<open>Killing events\<close>

lemma kill_loop_force:
  assumes "distinct (map snd es)" "\<forall>(k, ev) \<in> set es. ep_objs s ev \<noteq> None"
  shows "\<exists>r s'. kill_loop cb True es s = Inr (r, s') \<and> ep_time s' = ep_time s \<and>
    ep_aborting s' = ep_aborting s \<and>
    (\<forall>ev. ep_objs s' ev = (if ev \<in> snd ` set es then None else ep_objs s ev))"
  using assms
proof (induction es arbitrary: s)
  case (Cons e es)
  obtain k ev where e: "e = (k, ev)" by fastforce
  obtain x where x: "ep_objs s ev = Some x" using Cons.prems(2) e by auto
  define w where "w = (if m_abortState x \<noteq> STATE_ABORTED then cb_abort cb (ep_time s) ev (ep_world s) else ep_world s)"
  let ?s = "s\<lparr>ep_world := w, ep_objs := (ep_objs s)(ev := None)\<rparr>"
  have step: "kill_loop cb True (e # es) s =
      bind_result (kill_loop cb True es ?s) (\<lambda>(r, s3). Inr ((k, ev) # r, s3))"
    by (simp add: e x SetAborted_def delete_event_def update_event_def w_def)
  have live: "\<forall>(k, v) \<in> set es. ep_objs ?s v \<noteq> None"
    using Cons.prems e by (auto intro: rev_image_eqI)
  obtain r s' where "kill_loop cb True es ?s = Inr (r, s')" "ep_time s' = ep_time s"
      "ep_aborting s' = ep_aborting s" "\<forall>v. ep_objs s' v = (if v \<in> snd ` set es then None else ep_objs ?s v)"
    using Cons.IH [of ?s] Cons.prems(1) live by auto
  then show ?case unfolding step by (auto simp: e)
qed simp

text \<open>
  \<open>KillAllEvents(true)\<close> on a well-formed processor empties the queue, deletes each queued
  event exactly once and no other event, and touches no deleted event.
\<close>

theorem kill_all_frees_every_event:
  assumes "ep_ok s"
  shows "\<exists>s'. KillAllEvents cb True s = Inr s' \<and> ep_events s' = [] \<and> ep_aborting s' \<and>
    (\<forall>ev. ep_objs s' ev = (if queued ev s then None else ep_objs s ev))"
proof -
  obtain r s' where "kill_loop cb True (ep_events s) (s\<lparr>ep_aborting := True\<rparr>) = Inr (r, s')"
      "ep_aborting s'" "\<forall>ev. ep_objs s' ev = (if ev \<in> snd ` set (ep_events s) then None else ep_objs s ev)"
    using kill_loop_force [of "ep_events s" "s\<lparr>ep_aborting := True\<rparr>" cb] assms by (auto simp: ep_ok_def)
  then show ?thesis by (simp add: KillAllEvents_def queued_def)
qed

theorem kill_all_frees_every_event_witness:
  "\<exists>s'. KillAllEvents base_event True demo_ep = Inr s' \<and> ep_events s' = [] \<and> ep_aborting s' \<and>
    (\<forall>ev. ep_objs s' ev = (if queued ev demo_ep then None else ep_objs demo_ep ev))"
  by (rule kill_all_frees_every_event [OF demo_ep_ok])

text \<open>
  The flag \<open>m_aborting\<close> set by \<open>KillAllEvents\<close> ("prevent event insertions") does not prevent
  insertions: an event added afterwards is queued.
\<close>

theorem add_event_ignores_aborting:
  assumes "KillAllEvents cb True s = Inr s'"
  shows "ep_aborting s' \<longrightarrow> ep_events (AddEvent ev t b s') = [(t, ev)]"
proof -
  have "ep_events s' = []" using assms by (auto simp: KillAllEvents_def bind_result_Inr_iff)
  then show ?thesis by (simp add: AddEvent_def Let_def update_event_def)
qed

theorem add_event_ignores_aborting_witness:
  "\<exists>s'. KillAllEvents base_event True demo_ep = Inr s' \<and> ep_aborting s' \<and>
     ep_events (AddEvent 7 500 True s') = [(500, 7)]"
  using kill_loop_force [of "ep_events demo_ep" "demo_ep\<lparr>ep_aborting := True\<rparr>" base_event] demo_ep_ok
    add_event_ignores_aborting [of base_event demo_ep _ 7 500 True]
  by (auto simp: ep_ok_def KillAllEvents_def bind_result_Inr_iff)

section \<open>Offsets\<close>

text \<open>
  The overload of \<open>AddEventAtOffset\<close> with a range of offsets never uses its upper bound:
  with a \<open>urand\<close> that stays within its bounds the event is always scheduled at the lower
  offset, whatever the upper one.
\<close>

theorem offset_range_ignores_upper_bound:
  assumes "\<And>lo hi. lo \<le> hi \<Longrightarrow> lo \<le> urand lo hi \<and> urand lo hi \<le> hi" "offset < 2 ^ 32"
  shows "AddEventAtOffset_range urand ev offset offset2 s = AddEventAtOffset ev offset s"
proof -
  have "urand (ucast offset) (ucast offset) = ucast offset" using assms(1) [of "ucast offset" "ucast offset"] by (simp add: order_antisym)
  moreover have "ucast (ucast offset :: uint32) = offset"
    using assms(2)
    by (simp add: word_unat_eq_iff unsigned_ucast_eq unsigned_take_bit_eq take_bit_nat_eq_self word_less_nat_alt)
  ultimately show ?thesis by (simp add: AddEventAtOffset_range_def AddEventAtOffset_def)
qed

theorem offset_range_ignores_upper_bound_witness:
  "AddEventAtOffset_range (\<lambda>lo hi. hi) 7 1000 5000 demo_ep = AddEventAtOffset 7 1000 demo_ep"
  by (rule offset_range_ignores_upper_bound) simp_all

end
