(* ===== verification/Timers.thy ===== *)
theory Timers
  imports Prelude "HOL-Library.Signed_Division"
begin

text \<open>
  The timers of src/src/common/Utilities/Timer.h. \<open>uint32\<close> arithmetic wraps; \<open>int32\<close> fields of
  the small timers are kept as 32-bit words read as signed numbers, because the source mixes
  them with \<open>uint32\<close>; \<open>time_t\<close> is a mathematical integer (overflow of 64 bits of seconds or
  milliseconds is out of reach). A remainder by 0 is the value \<open>None\<close>.
\<close>

section \<open>Definitions\<close>

definition GetMSTimeDiff :: "uint32 \<Rightarrow> uint32 \<Rightarrow> uint32" where
  "GetMSTimeDiff oldMSTime newMSTime =
     (if oldMSTime > newMSTime then (0xFFFFFFFF - oldMSTime) + newMSTime else newMSTime - oldMSTime)"

record interval_timer =
  it_interval :: int
  it_current :: int

definition it_new :: interval_timer where
  "it_new = \<lparr>it_interval = 0, it_current = 0\<rparr>"

definition it_Update :: "int \<Rightarrow> interval_timer \<Rightarrow> interval_timer" where
  "it_Update diff t =
     (let c = it_current t + diff in t\<lparr>it_current := (if c < 0 then 0 else c)\<rparr>)"

definition it_Passed :: "interval_timer \<Rightarrow> bool" where
  "it_Passed t \<longleftrightarrow> it_current t \<ge> it_interval t"

definition it_Reset :: "interval_timer \<Rightarrow> interval_timer option" where
  "it_Reset t =
     (if it_current t \<ge> it_interval t then
        (if it_interval t = 0 then None
         else Some (t\<lparr>it_current := it_current t smod it_interval t\<rparr>))
      else Some t)"

definition it_SetCurrent :: "int \<Rightarrow> interval_timer \<Rightarrow> interval_timer" where
  "it_SetCurrent c t = t\<lparr>it_current := c\<rparr>"

definition it_SetInterval :: "int \<Rightarrow> interval_timer \<Rightarrow> interval_timer" where
  "it_SetInterval i t = t\<lparr>it_interval := i\<rparr>"

record time_tracker =
  tt_expiryTime :: int

definition tt_Update :: "int \<Rightarrow> time_tracker \<Rightarrow> time_tracker" where
  "tt_Update diff t = t\<lparr>tt_expiryTime := tt_expiryTime t - diff\<rparr>"

definition tt_Passed :: "time_tracker \<Rightarrow> bool" where
  "tt_Passed t \<longleftrightarrow> tt_expiryTime t \<le> 0"

definition tt_Reset :: "int \<Rightarrow> time_tracker \<Rightarrow> time_tracker" where
  "tt_Reset interval t = t\<lparr>tt_expiryTime := interval\<rparr>"

record time_tracker_small =
  tts_expiryTime :: uint32

definition tts_Update :: "uint32 \<Rightarrow> time_tracker_small \<Rightarrow> time_tracker_small" where
  "tts_Update diff t = t\<lparr>tts_expiryTime := tts_expiryTime t - diff\<rparr>"

definition tts_Passed :: "time_tracker_small \<Rightarrow> bool" where
  "tts_Passed t \<longleftrightarrow> sint (tts_expiryTime t) \<le> 0"

definition tts_Reset :: "uint32 \<Rightarrow> time_tracker_small \<Rightarrow> time_tracker_small" where
  "tts_Reset interval t = t\<lparr>tts_expiryTime := interval\<rparr>"

record periodic_timer =
  pt_period :: uint32
  pt_expireTime :: uint32

text \<open>\<open>i_expireTime -= diff\<close> and \<open>+=\<close> are computed in \<open>uint32\<close> and stored back as \<open>int32\<close>.\<close>

definition pt_Update :: "uint32 \<Rightarrow> periodic_timer \<Rightarrow> bool \<times> periodic_timer" where
  "pt_Update diff t =
     (let x = pt_expireTime t - diff
      in if sint x > 0 then (False, t\<lparr>pt_expireTime := x\<rparr>)
         else (True, t\<lparr>pt_expireTime :=
                 x + (if sint (pt_period t) > sint diff then pt_period t else diff)\<rparr>))"

definition pt_SetPeriodic :: "uint32 \<Rightarrow> uint32 \<Rightarrow> periodic_timer \<Rightarrow> periodic_timer" where
  "pt_SetPeriodic period start_time t = t\<lparr>pt_expireTime := start_time, pt_period := period\<rparr>"

definition pt_TUpdate :: "uint32 \<Rightarrow> periodic_timer \<Rightarrow> periodic_timer" where
  "pt_TUpdate diff t = t\<lparr>pt_expireTime := pt_expireTime t - diff\<rparr>"

definition pt_TPassed :: "periodic_timer \<Rightarrow> bool" where
  "pt_TPassed t \<longleftrightarrow> sint (pt_expireTime t) \<le> 0"

definition pt_TReset :: "uint32 \<Rightarrow> uint32 \<Rightarrow> periodic_timer \<Rightarrow> periodic_timer" where
  "pt_TReset diff period t =
     t\<lparr>pt_expireTime := pt_expireTime t + (if sint period > sint diff then period else diff)\<rparr>"

section \<open>Properties\<close>

text \<open>
  The time between two readings of the 32-bit millisecond clock is exact modulo 2^32 when
  the clock did not wrap, and one millisecond short when it did.
\<close>

theorem ms_time_diff_across_wrap:
  "GetMSTimeDiff old new = (if old \<le> new then new - old else new - old - 1)"
proof -
  have "(0xFFFFFFFF :: uint32) = - 1" by simp
  then show ?thesis by (simp add: GetMSTimeDiff_def not_le del: word_neg_numeral_alt)
qed

lemma sint_diff_in_range:
  fixes a b :: uint32
  assumes "- (2 ^ 31) \<le> sint a - sint b" "sint a - sint b < 2 ^ 31"
  shows "sint (a - b) = sint a - sint b"
  using assms by (simp add: sint_word_diff signed_take_bit_int_eq_self)

lemma sint_add_in_range:
  fixes a b :: uint32
  assumes "- (2 ^ 31) \<le> sint a + sint b" "sint a + sint b < 2 ^ 31"
  shows "sint (a + b) = sint a + sint b"
  using assms by (simp add: sint_word_add signed_take_bit_int_eq_self)

lemma it_run_current:
  assumes "it_interval t > 0" "it_current t \<ge> 0" "d \<ge> 0" "it_Reset (it_Update d t) = Some t'"
  shows "it_current t' = (it_current t + d) mod it_interval t" "it_interval t' = it_interval t"
  using assms
  by (auto simp: it_Update_def it_Reset_def Let_def smod_mod_positive split: if_splits)

text \<open>
  A timer with a positive interval that is updated with the elapsed times one after the
  other and reset after each update keeps exactly the elapsed time modulo the interval, with
  no drift, and its reset never divides by 0.
\<close>

theorem interval_timer_no_drift:
  assumes "it_interval t > 0" "0 \<le> it_current t" "it_current t < it_interval t" "\<forall>d \<in> set ds. d \<ge> 0"
  shows "\<exists>t'. foldl (\<lambda>r d. Option.bind r (\<lambda>x. it_Reset (it_Update d x))) (Some t) ds = Some t' \<and>
    it_interval t' = it_interval t \<and> it_current t' = (it_current t + sum_list ds) mod it_interval t"
  using assms
proof (induction ds arbitrary: t)
  case (Cons d ds)
  obtain t1 where t1: "it_Reset (it_Update d t) = Some t1"
    using Cons.prems
    by (cases "it_Reset (it_Update d t)") (auto simp: it_Reset_def it_Update_def Let_def split: if_splits)
  note r = it_run_current [OF Cons.prems(1,2) _ t1]
  have "\<exists>t'. foldl (\<lambda>r d. Option.bind r (\<lambda>x. it_Reset (it_Update d x))) (Some t1) ds = Some t' \<and>
      it_interval t' = it_interval t1 \<and> it_current t' = (it_current t1 + sum_list ds) mod it_interval t1"
    using Cons.prems r by (intro Cons.IH) simp_all
  then show ?case using t1 r Cons.prems by (auto simp: mod_simps add.assoc)
qed simp

theorem interval_timer_no_drift_witness:
  "\<exists>t'. foldl (\<lambda>r d. Option.bind r (\<lambda>x. it_Reset (it_Update d x)))
      (Some \<lparr>it_interval = 10, it_current = 4\<rparr>) [7, 13] = Some t' \<and>
    it_interval t' = 10 \<and> it_current t' = (4 + 20) mod 10"
  using interval_timer_no_drift [of "\<lparr>it_interval = 10, it_current = 4\<rparr>" "[7, 13]"] by simp

text \<open>
  A periodic timer whose period is longer than the update step fires exactly when the
  remaining time has run out, carries the overshoot over to the next period, and is then
  between 1 and a full period away from expiring again.
\<close>

theorem periodic_timer_keeps_phase:
  assumes "0 \<le> sint diff" "sint diff < sint (pt_period t)" "sint (pt_expireTime t) \<le> sint (pt_period t)"
    and "0 \<le> sint (pt_expireTime t)" "pt_Update diff t = (fired, t')"
  shows "fired = (sint (pt_expireTime t) \<le> sint diff) \<and>
    sint (pt_expireTime t') =
      sint (pt_expireTime t) - sint diff + (if fired then sint (pt_period t) else 0) \<and>
    0 < sint (pt_expireTime t') \<and> sint (pt_expireTime t') \<le> sint (pt_period t)"
proof -
  let ?e = "pt_expireTime t" and ?p = "pt_period t"
  have p: "sint ?p < 2 ^ 31" using sint_lt [of ?p] by simp
  have sub: "sint (?e - diff) = sint ?e - sint diff"
    by (rule sint_diff_in_range) (use assms p in simp_all)
  have add: "sint (?e - diff + ?p) = sint ?e - sint diff + sint ?p" if "sint ?e \<le> sint diff"
    unfolding sub [symmetric] by (rule sint_add_in_range) (use assms p that in \<open>simp_all add: sub\<close>)
  show ?thesis
    using assms sub add by (auto simp: pt_Update_def Let_def split: if_splits)
qed

theorem periodic_timer_keeps_phase_witness:
  "fst (pt_Update 7 \<lparr>pt_period = 20, pt_expireTime = 5\<rparr>) \<and>
   sint (pt_expireTime (snd (pt_Update 7 \<lparr>pt_period = 20, pt_expireTime = 5\<rparr>))) = 18"
  using periodic_timer_keeps_phase [of 7 "\<lparr>pt_period = 20, pt_expireTime = 5\<rparr>"
      "fst (pt_Update 7 \<lparr>pt_period = 20, pt_expireTime = 5\<rparr>)"
      "snd (pt_Update 7 \<lparr>pt_period = 20, pt_expireTime = 5\<rparr>)"]
  by simp

end
