(* ===== verification/Rbac.thy ===== *)
theory Rbac
  imports Containers
begin

text \<open>
  Role-based access control: the permission tables of the account manager
  (src/src/server/game/Accounts/AccountMgr.cpp, the RBAC part) and the permissions of one
  account (src/src/server/game/Accounts/RBAC.h and RBAC.cpp). Permission sets are ordered
  sets; the rows of the login database are arguments, and the statements sent to it are a
  log. Dereferencing a null permission while loading is the error \<open>NullPermission\<close>.
\<close>

section \<open>The account manager's tables\<close>

type_synonym perm_set = "uint32 oset"

record rbac_permission =
  rp_id :: uint32
  rp_name :: string
  rp_perms :: perm_set

definition AddLinkedPermission :: "uint32 \<Rightarrow> rbac_permission \<Rightarrow> rbac_permission" where
  "AddLinkedPermission i p = p\<lparr>rp_perms := oset_insert i (rp_perms p)\<rparr>"

definition RemoveLinkedPermission :: "uint32 \<Rightarrow> rbac_permission \<Rightarrow> rbac_permission" where
  "RemoveLinkedPermission i p = p\<lparr>rp_perms := oset_erase i (rp_perms p)\<rparr>"

text \<open>\<open>_permissions\<close> maps an id to a pointer, null after \<open>_permissions[id]\<close> on an absent id.\<close>

record account_mgr =
  am_permissions :: "(uint32, rbac_permission option) omap"
  am_defaults :: "(uint8, perm_set) omap"

datatype rbac_error = NullPermission

definition ClearRBAC :: "account_mgr \<Rightarrow> account_mgr" where
  "ClearRBAC am = am\<lparr>am_permissions := [], am_defaults := []\<rparr>"

definition GetRBACPermission :: "account_mgr \<Rightarrow> uint32 \<Rightarrow> rbac_permission option" where
  "GetRBACPermission am i = (case omap_find (am_permissions am) i of None \<Rightarrow> None | Some p \<Rightarrow> p)"

text \<open>\<open>_defaultPermissions[secLevel]\<close>, with the table after the lookup.\<close>

definition GetRBACDefaultPermissions :: "uint8 \<Rightarrow> account_mgr \<Rightarrow> perm_set \<times> account_mgr" where
  "GetRBACDefaultPermissions secLevel am =
     (case omap_index [] secLevel (am_defaults am) of (ps, m) \<Rightarrow> (ps, am\<lparr>am_defaults := m\<rparr>))"

fun load_permissions :: "(uint32 \<times> string) list \<Rightarrow> account_mgr \<Rightarrow> account_mgr" where
  "load_permissions [] am = am"
| "load_permissions ((i, nm) # rows) am =
     load_permissions rows
       (am\<lparr>am_permissions := omap_set i (Some \<lparr>rp_id = i, rp_name = nm, rp_perms = []\<rparr>) (am_permissions am)\<rparr>)"

text \<open>
  The loop over the linked permissions: \<open>cur\<close> is \<open>permissionId\<close> and \<open>valid\<close> says whether the
  pointer \<open>permission\<close> has been set (to the entry of \<open>cur\<close>) or is still null.
\<close>

fun load_links ::
  "(uint32 \<times> uint32) list \<Rightarrow> uint32 \<Rightarrow> bool \<Rightarrow> account_mgr \<Rightarrow> (rbac_error, account_mgr) result" where
  "load_links [] cur valid am = Inr am"
| "load_links ((newId, linked) # rows) cur valid am =
     (let fresh = (cur \<noteq> newId);
          valid1 = (valid \<or> fresh);
          (ptr, m) = (if fresh then omap_index None newId (am_permissions am)
                      else (if valid then GetRBACPermission am cur else None, am_permissions am));
          am1 = am\<lparr>am_permissions := m\<rparr>
      in if linked = newId then load_links rows newId valid1 am1
         else case ptr of
                None \<Rightarrow> Inl NullPermission
              | Some p \<Rightarrow> load_links rows newId valid1
                  (am1\<lparr>am_permissions := omap_set newId (Some (AddLinkedPermission linked p)) m\<rparr>))"

fun load_defaults :: "(uint32 \<times> uint32) list \<Rightarrow> account_mgr \<Rightarrow> account_mgr" where
  "load_defaults [] am = am"
| "load_defaults ((newId, i) # rows) am =
     (let sec = (ucast newId :: uint8);
          (ps, m) = omap_index [] sec (am_defaults am)
      in load_defaults rows (am\<lparr>am_defaults := omap_set sec (oset_insert i ps) m\<rparr>))"

text \<open>An empty query result ends the load early.\<close>

definition LoadRBAC ::
  "(uint32 \<times> string) list \<Rightarrow> (uint32 \<times> uint32) list \<Rightarrow> (uint32 \<times> uint32) list \<Rightarrow> account_mgr
   \<Rightarrow> (rbac_error, account_mgr) result" where
  "LoadRBAC perm_rows link_rows default_rows am0 =
     (let am = ClearRBAC am0
      in if perm_rows = [] then Inr am
         else let am1 = load_permissions perm_rows am
              in if link_rows = [] then Inr am1
                 else bind_result (load_links link_rows 0 False am1) (\<lambda>am2.
                        if default_rows = [] then Inr am2 else Inr (load_defaults default_rows am2)))"

section \<open>The permissions of an account\<close>

datatype rbac_stmt =
    InsAccountPermission uint32 uint32 bool int
  | DelAccountPermission uint32 uint32 int
  | DelAccountAccess uint32
  | DelAccountAccessByRealm uint32 int
  | InsAccountAccess uint32 uint8 int

record rbac_data =
  rb_id :: uint32
  rb_name :: string
  rb_realmId :: int
  rb_secLevel :: uint8
  rb_granted :: perm_set
  rb_denied :: perm_set
  rb_global :: perm_set
  rb_db :: "rbac_stmt list"

datatype rbac_result =
    RBAC_OK | RBAC_CANT_ADD_ALREADY_ADDED | RBAC_CANT_REVOKE_NOT_IN_LIST
  | RBAC_IN_GRANTED_LIST | RBAC_IN_DENIED_LIST | RBAC_ID_DOES_NOT_EXISTS

definition RBACData_new :: "uint32 \<Rightarrow> string \<Rightarrow> int \<Rightarrow> uint8 \<Rightarrow> rbac_data" where
  "RBACData_new i nm realm sec =
     \<lparr>rb_id = i, rb_name = nm, rb_realmId = realm, rb_secLevel = sec, rb_granted = [], rb_denied = [],
      rb_global = [], rb_db = []\<rparr>"

definition HasPermission :: "uint32 \<Rightarrow> rbac_data \<Rightarrow> bool" where
  "HasPermission p d = oset_has (rb_global d) p"

definition HasGrantedPermission :: "uint32 \<Rightarrow> rbac_data \<Rightarrow> bool" where
  "HasGrantedPermission p d = oset_has (rb_granted d) p"

definition HasDeniedPermission :: "uint32 \<Rightarrow> rbac_data \<Rightarrow> bool" where
  "HasDeniedPermission p d = oset_has (rb_denied d) p"

definition SavePermission :: "uint32 \<Rightarrow> bool \<Rightarrow> int \<Rightarrow> rbac_data \<Rightarrow> rbac_data" where
  "SavePermission p granted realm d = d\<lparr>rb_db := rb_db d @ [InsAccountPermission (rb_id d) p granted realm]\<rparr>"

definition AddPermissions :: "perm_set \<Rightarrow> perm_set \<Rightarrow> perm_set" where
  "AddPermissions permsFrom permsTo = fold oset_insert permsFrom permsTo"

definition RemovePermissions :: "perm_set \<Rightarrow> perm_set \<Rightarrow> perm_set" where
  "RemovePermissions permsFrom permsTo = fold oset_erase permsFrom permsTo"

text \<open>One round of \<open>ExpandPermissions\<close>: the linked permissions that are not expanded yet are queued.\<close>

definition queue_links :: "perm_set \<Rightarrow> perm_set \<Rightarrow> perm_set \<Rightarrow> perm_set" where
  "queue_links links permissions toCheck =
     fold (\<lambda>i tc. if \<not> oset_has permissions i then oset_insert i tc else tc) links toCheck"

function expand_loop :: "account_mgr \<Rightarrow> perm_set \<Rightarrow> perm_set \<Rightarrow> perm_set" where
  "expand_loop am [] permissions = permissions"
| "expand_loop am (i # toCheck) permissions =
     (case GetRBACPermission am i of
        None \<Rightarrow> expand_loop am toCheck permissions
      | Some p \<Rightarrow>
          let ps = oset_insert i permissions
          in expand_loop am (queue_links (rp_perms p) ps toCheck) ps)"
  by pat_completeness auto

lemma oset_has_iff [simp]: "oset_has xs x \<longleftrightarrow> x \<in> set xs"
  by (simp add: oset_has_def)

lemma queue_links_filter:
  "filter (\<lambda>x. x \<in> set ps) (queue_links links ps tc) = filter (\<lambda>x. x \<in> set ps) tc"
proof -
  have ins: "x \<notin> set ps \<Longrightarrow> filter (\<lambda>x. x \<in> set ps) (oset_insert x tc) = filter (\<lambda>x. x \<in> set ps) tc" for x tc
    by (induction x tc rule: oset_insert.induct) auto
  show ?thesis
    unfolding queue_links_def by (induction links arbitrary: tc) (simp_all add: ins)
qed

text \<open>Termination: every round expands a new permission, or drops one already expanded or unknown.\<close>

termination expand_loop
proof (relation "measures [\<lambda>(am, tc, ps). card {k. GetRBACPermission am k \<noteq> None \<and> k \<notin> set ps},
      \<lambda>(am, tc, ps). length (filter (\<lambda>x. x \<in> set ps) tc), \<lambda>(am, tc, ps). length tc]")
  fix am i tc ps p ps'
  assume known: "GetRBACPermission am i = Some p" and ps': "ps' = oset_insert i ps"
  let ?U = "\<lambda>ps. {k. GetRBACPermission am k \<noteq> None \<and> k \<notin> set ps}"
  have set': "set ps' = insert i (set ps)" by (simp add: ps' oset_insert_set)
  have "card (?U ps') < card (?U ps) \<or>
      card (?U ps') = card (?U ps) \<and>
      length (filter (\<lambda>x. x \<in> set ps') (queue_links (rp_perms p) ps' tc)) <
        length (filter (\<lambda>x. x \<in> set ps) (i # tc))"
  proof (cases "i \<in> set ps")
    case True
    then have "set ps' = set ps" using set' by auto
    then show ?thesis using True queue_links_filter [of ps' "rp_perms p" tc] by simp
  next
    case False
    have "?U ps' \<subset> ?U ps" using False known set' by auto
    then show ?thesis by (simp add: psubset_card_mono)
  qed
  then show "((am, queue_links (rp_perms p) ps' tc, ps'), am, i # tc, ps) \<in>
      measures [\<lambda>(am, tc, ps). card {k. GetRBACPermission am k \<noteq> None \<and> k \<notin> set ps},
        \<lambda>(am, tc, ps). length (filter (\<lambda>x. x \<in> set ps) tc), \<lambda>(am, tc, ps). length tc]"
    by auto
qed (auto simp: less_Suc_eq_le)

definition ExpandPermissions :: "account_mgr \<Rightarrow> perm_set \<Rightarrow> perm_set" where
  "ExpandPermissions am permissions = expand_loop am permissions []"

text \<open>
  \<open>RemovePermissions(_globalPerms, revoked)\<close> erases the global permissions from the local
  set \<open>revoked\<close>, which is then discarded.
\<close>

definition CalculateNewPermissions :: "account_mgr \<Rightarrow> rbac_data \<Rightarrow> rbac_data" where
  "CalculateNewPermissions am d =
     (let g = ExpandPermissions am (rb_granted d);
          revoked0 = ExpandPermissions am (rb_denied d);
          revoked = RemovePermissions g revoked0
      in d\<lparr>rb_global := g\<rparr>)"

definition GrantPermission :: "account_mgr \<Rightarrow> uint32 \<Rightarrow> int \<Rightarrow> rbac_data \<Rightarrow> rbac_result \<times> rbac_data" where
  "GrantPermission am p realm d =
     (if GetRBACPermission am p = None then (RBAC_ID_DOES_NOT_EXISTS, d)
      else if HasDeniedPermission p d then (RBAC_IN_DENIED_LIST, d)
      else if HasGrantedPermission p d then (RBAC_CANT_ADD_ALREADY_ADDED, d)
      else let d1 = d\<lparr>rb_granted := oset_insert p (rb_granted d)\<rparr>
           in (RBAC_OK, if realm \<noteq> 0 then CalculateNewPermissions am (SavePermission p True realm d1) else d1))"

definition DenyPermission :: "account_mgr \<Rightarrow> uint32 \<Rightarrow> int \<Rightarrow> rbac_data \<Rightarrow> rbac_result \<times> rbac_data" where
  "DenyPermission am p realm d =
     (if GetRBACPermission am p = None then (RBAC_ID_DOES_NOT_EXISTS, d)
      else if HasGrantedPermission p d then (RBAC_IN_GRANTED_LIST, d)
      else if HasDeniedPermission p d then (RBAC_CANT_ADD_ALREADY_ADDED, d)
      else let d1 = d\<lparr>rb_denied := oset_insert p (rb_denied d)\<rparr>
           in (RBAC_OK, if realm \<noteq> 0 then CalculateNewPermissions am (SavePermission p False realm d1) else d1))"

definition RevokePermission :: "account_mgr \<Rightarrow> uint32 \<Rightarrow> int \<Rightarrow> rbac_data \<Rightarrow> rbac_result \<times> rbac_data" where
  "RevokePermission am p realm d =
     (if \<not> HasGrantedPermission p d \<and> \<not> HasDeniedPermission p d then (RBAC_CANT_REVOKE_NOT_IN_LIST, d)
      else let d1 = d\<lparr>rb_granted := oset_erase p (rb_granted d), rb_denied := oset_erase p (rb_denied d)\<rparr>
           in (RBAC_OK,
               if realm \<noteq> 0
               then CalculateNewPermissions am
                      (d1\<lparr>rb_db := rb_db d1 @ [DelAccountPermission (rb_id d1) p realm]\<rparr>)
               else d1))"

definition ClearData :: "rbac_data \<Rightarrow> rbac_data" where
  "ClearData d = d\<lparr>rb_granted := [], rb_denied := [], rb_global := []\<rparr>"

text \<open>The rows of \<open>LOGIN_SEL_RBAC_ACCOUNT_PERMISSIONS\<close> for an account and a realm are \<open>rows\<close>.\<close>

type_synonym account_rows = "uint32 \<Rightarrow> int \<Rightarrow> (uint32 \<times> bool) list"

fun load_rows :: "account_mgr \<Rightarrow> (uint32 \<times> bool) list \<Rightarrow> rbac_data \<Rightarrow> rbac_data" where
  "load_rows am [] d = d"
| "load_rows am ((p, granted) # rows) d =
     load_rows am rows (if granted then snd (GrantPermission am p 0 d) else snd (DenyPermission am p 0 d))"

definition rbac_LoadFromDB :: "account_mgr \<Rightarrow> account_rows \<Rightarrow> rbac_data \<Rightarrow> rbac_data" where
  "rbac_LoadFromDB am rows d0 =
     (let d1 = ClearData d0;
          d2 = load_rows am (rows (rb_id d1) (rb_realmId d1)) d1;
          d3 = fold (\<lambda>p d. snd (GrantPermission am p 0 d)) (fst (GetRBACDefaultPermissions (rb_secLevel d2) am)) d2
      in CalculateNewPermissions am d3)"

definition SetSecurityLevel :: "account_mgr \<Rightarrow> account_rows \<Rightarrow> uint8 \<Rightarrow> rbac_data \<Rightarrow> rbac_data" where
  "SetSecurityLevel am rows sec d = rbac_LoadFromDB am rows (d\<lparr>rb_secLevel := sec\<rparr>)"

section \<open>Account manager operations on accounts\<close>

definition AccountMgr_HasPermission ::
  "account_mgr \<Rightarrow> account_rows \<Rightarrow> (uint32 \<Rightarrow> uint8) \<Rightarrow> uint32 \<Rightarrow> uint32 \<Rightarrow> int \<Rightarrow> bool" where
  "AccountMgr_HasPermission am rows security accountId p realm =
     (if accountId = 0 then False
      else HasPermission p
             (rbac_LoadFromDB am rows (RBACData_new accountId '''' realm (security accountId))))"

text \<open>\<open>UpdateAccountAccess\<close>: the live data of the account, when there is one, and the statements.\<close>

definition UpdateAccountAccess ::
  "account_mgr \<Rightarrow> account_rows \<Rightarrow> rbac_data option \<Rightarrow> uint32 \<Rightarrow> uint8 \<Rightarrow> int
   \<Rightarrow> rbac_data option \<times> rbac_stmt list" where
  "UpdateAccountAccess am rows r accountId sec realm =
     (let r1 = (case r of None \<Rightarrow> None
                | Some d \<Rightarrow> Some (if sec = rb_secLevel d then SetSecurityLevel am rows sec d else d));
          del = (if realm = - 1 then [DelAccountAccess accountId] else [DelAccountAccessByRealm accountId realm]);
          ins = (if sec \<noteq> 0 then [InsAccountAccess accountId sec realm] else [])
      in (r1, del @ ins))"

section \<open>Expansion is the closure under links\<close>

text \<open>The permissions reached from a set through links between permissions that exist.\<close>

inductive reaches :: "account_mgr \<Rightarrow> uint32 set \<Rightarrow> uint32 \<Rightarrow> bool" for am S where
  reaches_base: "i \<in> S \<Longrightarrow> GetRBACPermission am i \<noteq> None \<Longrightarrow> reaches am S i"
| reaches_link: "reaches am S j \<Longrightarrow> GetRBACPermission am j = Some p \<Longrightarrow> i \<in> set (rp_perms p) \<Longrightarrow>
    GetRBACPermission am i \<noteq> None \<Longrightarrow> reaches am S i"

lemma set_queue_links: "set (queue_links links ps tc) = (set links - set ps) \<union> set tc"
  unfolding queue_links_def by (induction links arbitrary: tc) (auto simp: oset_insert_set)

lemma queue_links_ok: "oset_ok tc \<Longrightarrow> oset_ok (queue_links links ps tc)"
  unfolding queue_links_def by (induction links arbitrary: tc) (auto simp: oset_insert_ok)

lemma expand_loop_sound:
  assumes "\<forall>i \<in> set tc. GetRBACPermission am i \<noteq> None \<longrightarrow> reaches am S i" "\<forall>i \<in> set ps. reaches am S i"
  shows "\<forall>i \<in> set (expand_loop am tc ps). reaches am S i"
  using assms
proof (induction am tc ps rule: expand_loop.induct)
  case (2 am i tc ps)
  show ?case
  proof (cases "GetRBACPermission am i")
    case (Some p)
    have i: "reaches am S i" using 2(3) Some by simp
    have "\<forall>k \<in> set (queue_links (rp_perms p) (oset_insert i ps) tc).
        GetRBACPermission am k \<noteq> None \<longrightarrow> reaches am S k"
      using 2(3) reaches_link [OF i Some] by (auto simp: set_queue_links)
    moreover have "\<forall>k \<in> set (oset_insert i ps). reaches am S k"
      using 2(4) i by (simp add: oset_insert_set)
    ultimately show ?thesis using 2(2) [OF Some refl] Some by (simp add: Let_def)
  qed (use 2 in simp)
qed simp

lemma expand_loop_closed:
  assumes "\<forall>j \<in> set ps. \<forall>p. GetRBACPermission am j = Some p \<longrightarrow> set (rp_perms p) \<subseteq> set ps \<union> set tc \<union> {k. GetRBACPermission am k = None}"
  shows "set ps \<subseteq> set (expand_loop am tc ps) \<and>
    (\<forall>i \<in> set tc. GetRBACPermission am i \<noteq> None \<longrightarrow> i \<in> set (expand_loop am tc ps)) \<and>
    (\<forall>j \<in> set (expand_loop am tc ps). \<forall>p. GetRBACPermission am j = Some p \<longrightarrow>
       set (rp_perms p) \<subseteq> set (expand_loop am tc ps) \<union> {k. GetRBACPermission am k = None})"
  using assms
proof (induction am tc ps rule: expand_loop.induct)
  case (2 am i tc ps)
  show ?case
  proof (cases "GetRBACPermission am i")
    case None
    have "\<forall>j \<in> set ps. \<forall>p. GetRBACPermission am j = Some p \<longrightarrow>
        set (rp_perms p) \<subseteq> set ps \<union> set tc \<union> {k. GetRBACPermission am k = None}"
      using 2(3) None by fastforce
    from 2(1) [OF None this] None show ?thesis by simp
  next
    case (Some p)
    let ?ps = "oset_insert i ps" and ?tc = "queue_links (rp_perms p) (oset_insert i ps) tc"
    have "\<forall>j \<in> set ?ps. \<forall>q. GetRBACPermission am j = Some q \<longrightarrow>
        set (rp_perms q) \<subseteq> set ?ps \<union> set ?tc \<union> {k. GetRBACPermission am k = None}"
      using 2(3) Some by (fastforce simp: set_queue_links oset_insert_set)
    from 2(2) [OF Some refl this] Some show ?thesis
      by (auto simp: Let_def oset_insert_set set_queue_links)
  qed
qed auto

lemma oset_tl_ok: "oset_ok (x # xs) \<Longrightarrow> oset_ok xs"
  by (simp add: oset_ok_def)

lemma expand_loop_ok: "oset_ok tc \<Longrightarrow> oset_ok ps \<Longrightarrow> oset_ok (expand_loop am tc ps)"
  by (induction am tc ps rule: expand_loop.induct)
    (auto simp: Let_def oset_insert_ok queue_links_ok dest: oset_tl_ok split: option.splits)

lemma expand_ok: "oset_ok perms \<Longrightarrow> oset_ok (ExpandPermissions am perms)"
  unfolding ExpandPermissions_def by (rule expand_loop_ok) (simp_all add: oset_ok_def)

lemma expand_closure: "set (ExpandPermissions am perms) = {i. reaches am (set perms) i}"
proof
  show "set (ExpandPermissions am perms) \<subseteq> {i. reaches am (set perms) i}"
    using expand_loop_sound [of perms am "set perms" "[]"]
    by (auto simp: ExpandPermissions_def intro: reaches_base)
next
  note closed = expand_loop_closed [of "[]" am perms, simplified]
  show "{i. reaches am (set perms) i} \<subseteq> set (ExpandPermissions am perms)"
  proof
    fix i assume "i \<in> {i. reaches am (set perms) i}"
    then have "reaches am (set perms) i" by simp
    then show "i \<in> set (ExpandPermissions am perms)"
    proof induction
      case (reaches_base i)
      with closed show ?case by (auto simp: ExpandPermissions_def)
    next
      case (reaches_link j p i)
      with closed show ?case by (force simp: ExpandPermissions_def)
    qed
  qed
qed

text \<open>
  C11. \<open>ExpandPermissions\<close> ends on every table, cyclic links included, and yields exactly the
  permissions that exist and are reached from the given ones through links, as an ordered set.
\<close>

theorem expand_permissions_is_closure:
  "set (ExpandPermissions am perms) = {i. reaches am (set perms) i} \<and>
   (oset_ok perms \<longrightarrow> oset_ok (ExpandPermissions am perms))"
  by (simp add: expand_closure expand_ok)

text \<open>A table with a cycle: 1 links to 2, 2 to 3, 3 back to 1; 4 stands alone.\<close>

definition demo_am :: account_mgr where
  "demo_am = \<lparr>am_permissions =
     [(1, Some \<lparr>rp_id = 1, rp_name = ''gm'', rp_perms = [2]\<rparr>), (2, Some \<lparr>rp_id = 2, rp_name = ''kick'', rp_perms = [3]\<rparr>),
      (3, Some \<lparr>rp_id = 3, rp_name = ''mute'', rp_perms = [1]\<rparr>), (4, Some \<lparr>rp_id = 4, rp_name = ''chat'', rp_perms = []\<rparr>)],
     am_defaults = [(0, [4])]\<rparr>"

theorem expand_permissions_is_closure_witness:
  "set (ExpandPermissions demo_am [1]) = {i. reaches demo_am {1} i} \<and> oset_ok (ExpandPermissions demo_am [1])"
  using expand_permissions_is_closure [of demo_am "[1]"] by (simp add: oset_ok_def)

section \<open>The lists of an account\<close>

definition rbac_ok :: "account_mgr \<Rightarrow> rbac_data \<Rightarrow> bool" where
  "rbac_ok am d \<longleftrightarrow> oset_ok (rb_granted d) \<and> oset_ok (rb_denied d) \<and> oset_ok (rb_global d) \<and>
     set (rb_granted d) \<inter> set (rb_denied d) = {} \<and>
     (\<forall>p \<in> set (rb_granted d) \<union> set (rb_denied d). GetRBACPermission am p \<noteq> None)"

datatype rbac_op =
    OpGrant uint32 int | OpDeny uint32 int | OpRevoke uint32 int | OpLoad account_rows
  | OpSetSecurity account_rows uint8

fun rbac_step :: "account_mgr \<Rightarrow> rbac_data \<Rightarrow> rbac_op \<Rightarrow> rbac_data" where
  "rbac_step am d (OpGrant p realm) = snd (GrantPermission am p realm d)"
| "rbac_step am d (OpDeny p realm) = snd (DenyPermission am p realm d)"
| "rbac_step am d (OpRevoke p realm) = snd (RevokePermission am p realm d)"
| "rbac_step am d (OpLoad rows) = rbac_LoadFromDB am rows d"
| "rbac_step am d (OpSetSecurity rows sec) = SetSecurityLevel am rows sec d"

lemma Calculate_frame [simp]:
  "rb_granted (CalculateNewPermissions am d) = rb_granted d" "rb_denied (CalculateNewPermissions am d) = rb_denied d"
  "rb_id (CalculateNewPermissions am d) = rb_id d" "rb_secLevel (CalculateNewPermissions am d) = rb_secLevel d"
  "rb_global (CalculateNewPermissions am d) = ExpandPermissions am (rb_granted d)"
  by (simp_all add: CalculateNewPermissions_def Let_def)

lemma Calculate_ok: "rbac_ok am d \<Longrightarrow> rbac_ok am (CalculateNewPermissions am d)"
  by (simp add: rbac_ok_def expand_ok)

lemma Grant_ok: "rbac_ok am d \<Longrightarrow> rbac_ok am (snd (GrantPermission am p realm d))"
  by (auto simp: GrantPermission_def Let_def HasDeniedPermission_def SavePermission_def intro!: Calculate_ok)
    (auto simp: rbac_ok_def oset_insert_ok oset_insert_set)

lemma Deny_ok: "rbac_ok am d \<Longrightarrow> rbac_ok am (snd (DenyPermission am p realm d))"
  by (auto simp: DenyPermission_def Let_def HasGrantedPermission_def SavePermission_def intro!: Calculate_ok)
    (auto simp: rbac_ok_def oset_insert_ok oset_insert_set)

lemma Revoke_ok: "rbac_ok am d \<Longrightarrow> rbac_ok am (snd (RevokePermission am p realm d))"
  by (auto simp: RevokePermission_def Let_def intro!: Calculate_ok)
    (auto simp: rbac_ok_def oset_erase_ok oset_erase_set)

lemma load_rows_ok: "rbac_ok am d \<Longrightarrow> rbac_ok am (load_rows am rows d)"
  by (induction am rows d rule: load_rows.induct) (simp_all add: Grant_ok Deny_ok)

lemma grant_all_ok: "rbac_ok am d \<Longrightarrow> rbac_ok am (fold (\<lambda>p d. snd (GrantPermission am p 0 d)) ps d)"
  by (induction ps arbitrary: d) (simp_all add: Grant_ok)

lemma ClearData_ok: "rbac_ok am (ClearData d)"
  by (simp add: ClearData_def rbac_ok_def oset_ok_def)

lemma Load_ok: "rbac_ok am (rbac_LoadFromDB am rows d)"
  unfolding rbac_LoadFromDB_def Let_def
  by (intro Calculate_ok grant_all_ok load_rows_ok ClearData_ok)

interpretation rbac: invariant_ops "rbac_step am" "rbac_ok am" "\<lambda>d x. True" for am
proof
  fix d x
  assume "rbac_ok am d"
  then show "rbac_ok am (rbac_step am d x)"
    by (cases x) (simp_all add: Grant_ok Deny_ok Revoke_ok Load_ok SetSecurityLevel_def)
qed

text \<open>
  Whatever sequence of grants, denials, revocations and reloads an account sees, no
  permission is ever both granted and denied, and every listed permission exists.
\<close>

theorem granted_denied_disjoint:
  "let d = run_ops (rbac_step am) (RBACData_new acc nm realm sec) ops
   in set (rb_granted d) \<inter> set (rb_denied d) = {} \<and>
      set (rb_granted d) \<union> set (rb_denied d) \<subseteq> {p. GetRBACPermission am p \<noteq> None}"
proof -
  have "rbac_ok am (run_ops (rbac_step am) (RBACData_new acc nm realm sec) ops)"
    by (rule rbac.run_inv_total) (simp_all add: rbac_ok_def RBACData_new_def oset_ok_def)
  then show ?thesis by (auto simp: rbac_ok_def Let_def)
qed

text \<open>
  Granting a permission that is in neither list succeeds, takes effect at once together
  with everything linked to it (for a nonzero realm), and writes one row; revoking it
  afterwards succeeds and restores both lists.
\<close>

theorem grant_then_revoke:
  assumes "rbac_ok am d" "GetRBACPermission am p \<noteq> None" "p \<notin> set (rb_granted d) \<union> set (rb_denied d)" "realm \<noteq> 0"
  shows "\<exists>d1 d2. GrantPermission am p realm d = (RBAC_OK, d1) \<and>
    (\<forall>i. reaches am {p} i \<longrightarrow> HasPermission i d1) \<and>
    rb_db d1 = rb_db d @ [InsAccountPermission (rb_id d) p True realm] \<and>
    RevokePermission am p realm d1 = (RBAC_OK, d2) \<and>
    rb_granted d2 = rb_granted d \<and> rb_denied d2 = rb_denied d"
proof -
  have ok: "oset_ok (rb_granted d)" "oset_ok (rb_denied d)" using assms(1) by (simp_all add: rbac_ok_def)
  define d0 where "d0 = SavePermission p True realm (d\<lparr>rb_granted := oset_insert p (rb_granted d)\<rparr>)"
  define d1 where "d1 = CalculateNewPermissions am d0"
  have grant: "GrantPermission am p realm d = (RBAC_OK, d1)"
    using assms by (simp add: GrantPermission_def HasDeniedPermission_def HasGrantedPermission_def d1_def d0_def)
  have lists: "rb_granted d1 = oset_insert p (rb_granted d)" "rb_denied d1 = rb_denied d"
    by (simp_all add: d1_def d0_def SavePermission_def)
  have mono: "reaches am {p} i \<Longrightarrow> reaches am (set (rb_granted d1)) i" for i
    by (induction rule: reaches.induct)
      (auto simp: lists oset_insert_set intro: reaches_base reaches_link)
  have "HasPermission i d1 = reaches am (set (rb_granted d1)) i" for i
    by (simp add: HasPermission_def d1_def expand_closure)
  then have eff: "reaches am {p} i \<longrightarrow> HasPermission i d1" for i using mono by simp
  have db: "rb_db d1 = rb_db d @ [InsAccountPermission (rb_id d) p True realm]"
    by (simp add: d1_def d0_def SavePermission_def CalculateNewPermissions_def Let_def)
  have erase: "oset_erase p (oset_insert p (rb_granted d)) = rb_granted d"
    using assms(3) ok os.del_ins_absent [of "rb_granted d" p] by simp
  have absent: "oset_erase p (rb_denied d) = rb_denied d"
    using assms(3) ok by (intro os.elems_unique) (auto simp: oset_erase_ok oset_erase_set)
  obtain d2 where "RevokePermission am p realm d1 = (RBAC_OK, d2)" "rb_granted d2 = rb_granted d"
      "rb_denied d2 = rb_denied d"
    by (simp add: RevokePermission_def HasGrantedPermission_def lists oset_insert_set erase absent Let_def)
  with grant eff db show ?thesis by blast
qed

definition demo_account :: rbac_data where
  "demo_account = (RBACData_new 5 ''bob'' 1 0)\<lparr>rb_granted := [4]\<rparr>"

lemma demo_account_ok: "rbac_ok demo_am demo_account"
  by (simp add: rbac_ok_def demo_account_def RBACData_new_def oset_ok_def GetRBACPermission_def demo_am_def omap_find_def)

theorem grant_then_revoke_witness:
  "\<exists>d1 d2. GrantPermission demo_am 1 1 demo_account = (RBAC_OK, d1) \<and>
    (\<forall>i. reaches demo_am {1} i \<longrightarrow> HasPermission i d1) \<and>
    rb_db d1 = rb_db demo_account @ [InsAccountPermission (rb_id demo_account) 1 True 1] \<and>
    RevokePermission demo_am 1 1 d1 = (RBAC_OK, d2) \<and>
    rb_granted d2 = rb_granted demo_account \<and> rb_denied d2 = rb_denied demo_account"
  by (rule grant_then_revoke [OF demo_account_ok])
    (simp_all add: demo_account_def RBACData_new_def GetRBACPermission_def demo_am_def omap_find_def)

section \<open>What denying does\<close>

text \<open>
  Denying a permission never takes a permission away: after a successful denial the account
  still holds exactly what its granted permissions reach, also the denied permission when it
  is reached through a link, although the documentation computes granted minus denied.
\<close>

theorem deny_removes_nothing:
  assumes "DenyPermission am p realm d = (RBAC_OK, d')" "realm \<noteq> 0"
  shows "p \<in> set (rb_denied d') \<and> (\<forall>i. HasPermission i d' \<longleftrightarrow> reaches am (set (rb_granted d)) i)"
proof -
  have "d' = CalculateNewPermissions am (SavePermission p False realm (d\<lparr>rb_denied := oset_insert p (rb_denied d)\<rparr>))"
    using assms by (auto simp: DenyPermission_def Let_def split: if_splits)
  then show ?thesis
    by (simp add: HasPermission_def expand_closure SavePermission_def oset_insert_set)
qed

theorem deny_removes_nothing_witness:
  "\<exists>d'. DenyPermission demo_am 2 1 (demo_account\<lparr>rb_granted := [1]\<rparr>) = (RBAC_OK, d') \<and>
     2 \<in> set (rb_denied d') \<and> HasPermission 2 d'"
proof -
  let ?d = "demo_account\<lparr>rb_granted := [1]\<rparr>"
  obtain d' where deny: "DenyPermission demo_am 2 1 ?d = (RBAC_OK, d')"
    by (simp add: DenyPermission_def GetRBACPermission_def demo_am_def omap_find_def demo_account_def
        RBACData_new_def HasGrantedPermission_def HasDeniedPermission_def)
  have one: "reaches demo_am {1} 1"
    by (rule reaches_base) (simp_all add: GetRBACPermission_def demo_am_def omap_find_def)
  have "reaches demo_am {1} 2"
    by (rule reaches_link [OF one, of "\<lparr>rp_id = 1, rp_name = ''gm'', rp_perms = [2]\<rparr>"])
      (simp_all add: GetRBACPermission_def demo_am_def omap_find_def)
  with deny_removes_nothing [OF deny] deny show ?thesis by (auto simp: demo_account_def)
qed

section \<open>Changing the security level\<close>

text \<open>
  \<open>UpdateAccountAccess\<close> with a new security level writes it to the database but leaves the
  permissions of the account that is online as they were: it reloads them only when the level
  is the one the account already has.
\<close>

theorem update_access_keeps_live_permissions:
  assumes "sec \<noteq> rb_secLevel d" "sec \<noteq> 0"
  shows "fst (UpdateAccountAccess am rows (Some d) acc sec realm) = Some d \<and>
    InsAccountAccess acc sec realm \<in> set (snd (UpdateAccountAccess am rows (Some d) acc sec realm))"
  using assms by (simp add: UpdateAccountAccess_def Let_def)

theorem update_access_keeps_live_permissions_witness:
  "fst (UpdateAccountAccess demo_am (\<lambda>a r. []) (Some demo_account) 5 3 1) = Some demo_account \<and>
   InsAccountAccess 5 3 1 \<in> set (snd (UpdateAccountAccess demo_am (\<lambda>a r. []) (Some demo_account) 5 3 1))"
  by (rule update_access_keeps_live_permissions) (simp_all add: demo_account_def RBACData_new_def)

section \<open>Loading the tables\<close>

lemma load_permissions_known:
  "omap_ok (am_permissions am) \<Longrightarrow> omap_ok (am_permissions (load_permissions rows am)) \<and>
   (omap_has (am_permissions (load_permissions rows am)) i \<longleftrightarrow>
      i \<in> fst ` set rows \<or> omap_has (am_permissions am) i)"
  by (induction rows am rule: load_permissions.induct)
    (auto simp: om.invar_put omap_has_set)

text \<open>
  Loading the tables dereferences a null permission when the first row of the link table
  belongs to a permission that is not defined (and is not a link to itself).
\<close>

theorem load_rbac_dangling_link_crashes:
  assumes "perm_rows \<noteq> []" "i \<notin> fst ` set perm_rows" "linked \<noteq> i"
  shows "LoadRBAC perm_rows ((i, linked) # links) defaults am = Inl NullPermission"
proof -
  let ?am = "load_permissions perm_rows (ClearRBAC am)"
  have "\<not> omap_has (am_permissions ?am) i"
    using load_permissions_known [of "ClearRBAC am" perm_rows i] assms(2)
    by (simp add: ClearRBAC_def om.invar_empty omap_has_def omap_find_def)
  then have "omap_find (am_permissions ?am) i = None" by (simp add: omap_has_def)
  then have "load_links ((i, linked) # links) 0 False ?am = Inl NullPermission"
    using assms(3) by (simp add: Let_def omap_index_def GetRBACPermission_def split: prod.split)
  then show ?thesis using assms(1) by (simp add: LoadRBAC_def Let_def del: load_links.simps)
qed

theorem load_rbac_dangling_link_crashes_witness:
  "LoadRBAC [(1, ''gm'')] [(9, 1)] [] demo_am = Inl NullPermission"
  by (rule load_rbac_dangling_link_crashes) simp_all

end
