(* ===== verification/Reputation.thy ===== *)
theory Reputation
  imports ByteBuffer
begin

text \<open>
  A player's reputation with the factions (src/src/server/game/Reputation/ReputationMgr.h and
  ReputationMgr.cpp). An \<open>int32\<close> is an integer read through \<open>int32_of\<close>: each sum and difference
  of standings wraps at 32 bits, as the compiled code does. The faction table of the client data, the player's race and class, the script hook
  on a reputation change and the float expression of the reputation rate are the environment
  \<open>rep_env\<close>; packets and notifications are a log. The branches of the LICH_KING build are not
  compiled.
\<close>

section \<open>Data\<close>

text \<open>Two's complement at 32 bits: the value an \<open>int32\<close> holds after it is assigned \<open>i\<close>.\<close>

definition int32_of :: "int \<Rightarrow> int" where
  "int32_of i = signed_take_bit 31 i"

lemma int32_of_id: "- (2 ^ 31) \<le> i \<Longrightarrow> i < 2 ^ 31 \<Longrightarrow> int32_of i = i"
  by (simp add: int32_of_def signed_take_bit_int_eq_self)

lemma int32_of_sums [simp]:
  "int32_of (int32_of a + b) = int32_of (a + b)" "int32_of (a + int32_of b) = int32_of (a + b)"
  "int32_of (int32_of a - b) = int32_of (a - b)" "int32_of (a - int32_of b) = int32_of (a - b)"
  "int32_of (int32_of a) = int32_of a"
  by (simp_all add: int32_of_def)
    (metis signed_take_bit_add signed_take_bit_signed_take_bit min.idem,
     metis signed_take_bit_add signed_take_bit_signed_take_bit min.idem,
     metis signed_take_bit_diff signed_take_bit_signed_take_bit min.idem,
     metis signed_take_bit_diff signed_take_bit_signed_take_bit min.idem)

text \<open>One of the four base slots of a faction: race mask, class mask, base value, default flags.\<close>

record base_slot =
  bs_race :: uint32
  bs_class :: uint32
  bs_value :: int
  bs_flags :: uint32

record faction_entry =
  fe_ID :: uint32
  fe_listID :: int
  fe_slots :: "base_slot list"

record faction_state =
  fs_ID :: uint32
  fs_listID :: uint32
  fs_Standing :: int
  fs_Flags :: uint8
  fs_needSend :: bool
  fs_needSave :: bool
  fs_needDelete :: bool

definition default_state :: faction_state where
  "default_state = \<lparr>fs_ID = 0, fs_listID = 0, fs_Standing = 0, fs_Flags = 0, fs_needSend = False,
     fs_needSave = False, fs_needDelete = False\<rparr>"

type_synonym rep_rank = nat

abbreviation "REP_HATED \<equiv> (0 :: rep_rank)"
abbreviation "REP_HOSTILE \<equiv> (1 :: rep_rank)"
abbreviation "REP_HONORED \<equiv> (5 :: rep_rank)"
abbreviation "REP_REVERED \<equiv> (6 :: rep_rank)"
abbreviation "REP_EXALTED \<equiv> (7 :: rep_rank)"

abbreviation "FACTION_FLAG_VISIBLE \<equiv> (0x01 :: uint8)"
abbreviation "FACTION_FLAG_AT_WAR \<equiv> (0x02 :: uint8)"
abbreviation "FACTION_FLAG_HIDDEN \<equiv> (0x04 :: uint8)"
abbreviation "FACTION_FLAG_INVISIBLE_FORCED \<equiv> (0x08 :: uint8)"
abbreviation "FACTION_FLAG_PEACE_FORCED \<equiv> (0x10 :: uint8)"
abbreviation "FACTION_FLAG_INACTIVE \<equiv> (0x20 :: uint8)"
abbreviation "FACTION_FLAG_RIVAL \<equiv> (0x40 :: uint8)"

record rep_env =
  faction_store :: "uint32 \<Rightarrow> faction_entry option"
  faction_rows :: nat
  race_mask :: uint32
  class_mask :: uint32
  player_loading :: bool
  player_counter :: uint32
  rep_gain :: "int \<Rightarrow> int"
  on_reputation_change :: "uint32 \<Rightarrow> int \<Rightarrow> bool \<Rightarrow> int"

datatype rep_effect =
    RepSend world_packet
  | RepChanged uint32
  | DelReputation uint32 uint16
  | InsReputation uint32 uint16 int uint16

record rep_mgr =
  rm_factions :: "(uint32, faction_state) omap"
  rm_forced :: "(uint32, rep_rank) omap"
  rm_visible :: uint8
  rm_honored :: uint8
  rm_revered :: uint8
  rm_exalted :: uint8
  rm_sendIncreased :: bool
  rm_out :: "rep_effect list"

definition ReputationMgr_new :: rep_mgr where
  "ReputationMgr_new = \<lparr>rm_factions = [], rm_forced = [], rm_visible = 0, rm_honored = 0, rm_revered = 0,
     rm_exalted = 0, rm_sendIncreased = False, rm_out = []\<rparr>"

definition rep_emit :: "rep_effect \<Rightarrow> rep_mgr \<Rightarrow> rep_mgr" where
  "rep_emit x m = m\<lparr>rm_out := rm_out m @ [x]\<rparr>"

section \<open>Ranks\<close>

definition PointsInRank :: "int list" where
  "PointsInRank = [36000, 3000, 3000, 3000, 6000, 12000, 21000, 1000]"

abbreviation "Reputation_Cap \<equiv> (42999 :: int)"
abbreviation "Reputation_Bottom \<equiv> (- 42000 :: int)"

text \<open>The loop from the highest rank down: the argument is one more than the rank to try next.\<close>

fun rank_loop :: "nat \<Rightarrow> int \<Rightarrow> int \<Rightarrow> rep_rank" where
  "rank_loop 0 limit standing = REP_HATED"
| "rank_loop (Suc i) limit standing =
     (let l = limit - PointsInRank ! i in if standing \<ge> l then i else rank_loop i l standing)"

definition ReputationToRank :: "int \<Rightarrow> rep_rank" where
  "ReputationToRank standing = rank_loop 8 (Reputation_Cap + 1) standing"

section \<open>Queries\<close>

definition slot_matches :: "rep_env \<Rightarrow> base_slot \<Rightarrow> bool" where
  "slot_matches e s \<longleftrightarrow>
     (has_flag (bs_race s) (race_mask e) \<or> (bs_race s = 0 \<and> bs_class s \<noteq> 0)) \<and>
     (has_flag (bs_class s) (class_mask e) \<or> bs_class s = 0)"

definition GetBaseReputation :: "rep_env \<Rightarrow> faction_entry option \<Rightarrow> int" where
  "GetBaseReputation e fe =
     (case fe of None \<Rightarrow> 0
      | Some f \<Rightarrow> case find (slot_matches e) (take 4 (fe_slots f)) of None \<Rightarrow> 0 | Some s \<Rightarrow> int32_of (bs_value s))"

definition GetDefaultStateFlags :: "rep_env \<Rightarrow> faction_entry option \<Rightarrow> uint32" where
  "GetDefaultStateFlags e fe =
     (case fe of None \<Rightarrow> 0
      | Some f \<Rightarrow> case find (slot_matches e) (take 4 (fe_slots f)) of None \<Rightarrow> 0 | Some s \<Rightarrow> bs_flags s)"

definition CanHaveReputation :: "faction_entry \<Rightarrow> bool" where
  "CanHaveReputation f \<longleftrightarrow> fe_listID f \<ge> 0"

definition list_key :: "faction_entry \<Rightarrow> uint32" where
  "list_key f = word_of_int (fe_listID f)"

definition GetState :: "rep_mgr \<Rightarrow> faction_entry \<Rightarrow> faction_state option" where
  "GetState m f = (if CanHaveReputation f then omap_find (rm_factions m) (list_key f) else None)"

definition IsAtWar :: "rep_mgr \<Rightarrow> faction_entry option \<Rightarrow> bool" where
  "IsAtWar m fe =
     (case fe of None \<Rightarrow> False
      | Some f \<Rightarrow> case GetState m f of None \<Rightarrow> False | Some s \<Rightarrow> has_flag (fs_Flags s) FACTION_FLAG_AT_WAR)"

definition IsAtWar_id :: "rep_env \<Rightarrow> rep_mgr \<Rightarrow> uint32 \<Rightarrow> bool" where
  "IsAtWar_id e m faction_id = IsAtWar m (faction_store e faction_id)"

definition GetReputation :: "rep_env \<Rightarrow> rep_mgr \<Rightarrow> faction_entry option \<Rightarrow> int" where
  "GetReputation e m fe =
     (case fe of None \<Rightarrow> 0
      | Some f \<Rightarrow> case GetState m f of None \<Rightarrow> 0 | Some s \<Rightarrow> int32_of (GetBaseReputation e fe + fs_Standing s))"

definition GetReputation_id :: "rep_env \<Rightarrow> rep_mgr \<Rightarrow> uint32 \<Rightarrow> int" where
  "GetReputation_id e m faction_id = GetReputation e m (faction_store e faction_id)"

definition GetRank :: "rep_env \<Rightarrow> rep_mgr \<Rightarrow> faction_entry option \<Rightarrow> rep_rank" where
  "GetRank e m fe = ReputationToRank (GetReputation e m fe)"

definition GetBaseRank :: "rep_env \<Rightarrow> faction_entry option \<Rightarrow> rep_rank" where
  "GetBaseRank e fe = ReputationToRank (GetBaseReputation e fe)"

definition GetForcedRankIfAny :: "rep_mgr \<Rightarrow> uint32 \<Rightarrow> rep_rank option" where
  "GetForcedRankIfAny m faction = omap_find (rm_forced m) faction"

definition ApplyForceReaction :: "uint32 \<Rightarrow> rep_rank \<Rightarrow> bool \<Rightarrow> rep_mgr \<Rightarrow> rep_mgr" where
  "ApplyForceReaction faction_id rank apply m =
     m\<lparr>rm_forced := (if apply then omap_set faction_id rank (rm_forced m) else omap_erase faction_id (rm_forced m))\<rparr>"

section \<open>Packets\<close>

definition SendForceReactions :: "rep_mgr \<Rightarrow> rep_mgr" where
  "SendForceReactions m =
     rep_emit (RepSend \<lparr>wp_opcode = 0x2A5,
       wp_fields = U32 (of_nat (length (rm_forced m))) #
         concat (map (\<lambda>(f, r). [U32 f, U32 (of_nat r)]) (rm_forced m))\<rparr>) m"

definition standing_fields :: "faction_state \<Rightarrow> field list" where
  "standing_fields s = [U32 (fs_listID s), U32 (word_of_int (fs_Standing s))]"

text \<open>\<open>SendState\<close>: the given faction first, then every other faction that waits to be sent.\<close>

definition SendState :: "faction_state option \<Rightarrow> rep_mgr \<Rightarrow> rep_mgr" where
  "SendState faction m =
     (let others = filter (\<lambda>(k, s). fs_needSend s \<and>
            (case faction of None \<Rightarrow> True | Some f \<Rightarrow> fs_listID s \<noteq> fs_listID f)) (rm_factions m);
          own = (case faction of None \<Rightarrow> [] | Some f \<Rightarrow> standing_fields f);
          count = (case faction of None \<Rightarrow> 0 | Some f \<Rightarrow> 1) + length others;
          m1 = m\<lparr>rm_sendIncreased := False,
                 rm_factions := map (\<lambda>(k, s). (k, s\<lparr>fs_needSend := False\<rparr>)) (rm_factions m)\<rparr>
      in rep_emit (RepSend \<lparr>wp_opcode = 0x124,
           wp_fields = [U32 0, U32 (of_nat count)] @ own @ concat (map (\<lambda>(k, s). standing_fields s) others)\<rparr>) m1)"

text \<open>Absent list ids are filled with zero entries; the counters run modulo 2^32.\<close>

definition absent_fields :: "uint32 \<Rightarrow> uint32 \<Rightarrow> field list" where
  "absent_fields a target = concat (replicate (unat (target - a)) [U8 0, U32 0])"

fun initial_fields :: "uint32 \<Rightarrow> (uint32, faction_state) omap \<Rightarrow> field list" where
  "initial_fields a [] = absent_fields a 128"
| "initial_fields a ((k, s) # fs) =
     absent_fields a k @ [U8 (fs_Flags s), U32 (word_of_int (fs_Standing s))] @ initial_fields (k + 1) fs"

definition SendInitialReputations :: "rep_mgr \<Rightarrow> rep_mgr" where
  "SendInitialReputations m =
     rep_emit (RepSend \<lparr>wp_opcode = 0x122, wp_fields = U32 128 # initial_fields 0 (rm_factions m)\<rparr>)
       (m\<lparr>rm_factions := map (\<lambda>(k, s). (k, s\<lparr>fs_needSend := False\<rparr>)) (rm_factions m)\<rparr>)"

definition SendVisible :: "rep_env \<Rightarrow> faction_state \<Rightarrow> rep_mgr \<Rightarrow> rep_mgr" where
  "SendVisible e s m =
     (if player_loading e then m
      else rep_emit (RepSend \<lparr>wp_opcode = 0x123, wp_fields = [U32 (fs_listID s)]\<rparr>) m)"

section \<open>Changing a faction's state\<close>

text \<open>\<open>uint8\<close> counters, 8-bit fields: they wrap.\<close>

definition UpdateRankCounters :: "rep_rank \<Rightarrow> rep_rank \<Rightarrow> rep_mgr \<Rightarrow> rep_mgr" where
  "UpdateRankCounters old_rank new_rank m =
     m\<lparr>rm_exalted := rm_exalted m - of_bool (old_rank \<ge> REP_EXALTED) + of_bool (new_rank \<ge> REP_EXALTED),
       rm_revered := rm_revered m - of_bool (old_rank \<ge> REP_REVERED) + of_bool (new_rank \<ge> REP_REVERED),
       rm_honored := rm_honored m - of_bool (old_rank \<ge> REP_HONORED) + of_bool (new_rank \<ge> REP_HONORED)\<rparr>"

definition put_state :: "uint32 \<Rightarrow> faction_state \<Rightarrow> rep_mgr \<Rightarrow> rep_mgr" where
  "put_state k s m = m\<lparr>rm_factions := omap_set k s (rm_factions m)\<rparr>"

text \<open>The overloads on a \<open>FactionState*\<close>: the pointer is the key of the entry and its value.\<close>

definition SetVisible_state :: "rep_env \<Rightarrow> uint32 \<Rightarrow> faction_state \<Rightarrow> rep_mgr \<Rightarrow> rep_mgr" where
  "SetVisible_state e k s m =
     (if has_flag (fs_Flags s) (FACTION_FLAG_INVISIBLE_FORCED OR FACTION_FLAG_HIDDEN) then m
      else if has_flag (fs_Flags s) FACTION_FLAG_VISIBLE then m
      else
        let s1 = s\<lparr>fs_Flags := add_flag (fs_Flags s) FACTION_FLAG_VISIBLE, fs_needSend := True, fs_needSave := True\<rparr>;
            m1 = put_state k s1 m
        in SendVisible e s1 (m1\<lparr>rm_visible := rm_visible m1 + 1\<rparr>))"

definition SetAtWar_state :: "faction_state \<Rightarrow> bool \<Rightarrow> faction_state" where
  "SetAtWar_state s atWar =
     (if atWar \<and> has_flag (fs_Flags s) FACTION_FLAG_PEACE_FORCED \<and> \<not> has_flag (fs_Flags s) FACTION_FLAG_RIVAL then s
      else if has_flag (fs_Flags s) FACTION_FLAG_AT_WAR = atWar then s
      else s\<lparr>fs_Flags := (if atWar then add_flag (fs_Flags s) FACTION_FLAG_AT_WAR
                          else del_flag (fs_Flags s) FACTION_FLAG_AT_WAR),
             fs_needSend := True, fs_needSave := True\<rparr>)"

definition SetInactive_state :: "faction_state \<Rightarrow> bool \<Rightarrow> faction_state" where
  "SetInactive_state s inactive =
     (if inactive \<and> (has_flag (fs_Flags s) (FACTION_FLAG_INVISIBLE_FORCED OR FACTION_FLAG_HIDDEN) \<or>
                     \<not> has_flag (fs_Flags s) FACTION_FLAG_VISIBLE) then s
      else if has_flag (fs_Flags s) FACTION_FLAG_INACTIVE = inactive then s
      else s\<lparr>fs_Flags := (if inactive then add_flag (fs_Flags s) FACTION_FLAG_INACTIVE
                          else del_flag (fs_Flags s) FACTION_FLAG_INACTIVE),
             fs_needSend := True, fs_needSave := True\<rparr>)"

definition SetVisible :: "rep_env \<Rightarrow> faction_entry \<Rightarrow> rep_mgr \<Rightarrow> rep_mgr" where
  "SetVisible e f m =
     (if fe_listID f < 0 then m
      else case omap_find (rm_factions m) (list_key f) of
             None \<Rightarrow> m | Some s \<Rightarrow> SetVisible_state e (list_key f) s m)"

text \<open>The overload on a faction template: never a faction of the opposing team.\<close>

definition SetVisible_template :: "rep_env \<Rightarrow> uint32 \<Rightarrow> rep_mgr \<Rightarrow> rep_mgr" where
  "SetVisible_template e faction m =
     (if faction = 0 then m
      else case faction_store e faction of
             None \<Rightarrow> m
           | Some f \<Rightarrow>
               if has_flag (bs_race (fe_slots f ! 1)) (race_mask e) \<and> bs_value (fe_slots f ! 1) = Reputation_Bottom
               then m else SetVisible e f m)"

definition SetAtWar :: "uint32 \<Rightarrow> bool \<Rightarrow> rep_mgr \<Rightarrow> rep_mgr" where
  "SetAtWar k on m =
     (case omap_find (rm_factions m) k of
        None \<Rightarrow> m
      | Some s \<Rightarrow> if has_flag (fs_Flags s) (FACTION_FLAG_INVISIBLE_FORCED OR FACTION_FLAG_HIDDEN) then m
                  else put_state k (SetAtWar_state s on) m)"

definition SetInactive :: "uint32 \<Rightarrow> bool \<Rightarrow> rep_mgr \<Rightarrow> rep_mgr" where
  "SetInactive k on m =
     (case omap_find (rm_factions m) k of None \<Rightarrow> m | Some s \<Rightarrow> put_state k (SetInactive_state s on) m)"

section \<open>Changing standings\<close>

definition clamp_standing :: "int \<Rightarrow> int" where
  "clamp_standing standing =
     (if standing > Reputation_Cap then Reputation_Cap
      else if standing < Reputation_Bottom then Reputation_Bottom else standing)"

text \<open>The entry of a key, read again after earlier updates through the same pointer.\<close>

definition with_state :: "uint32 \<Rightarrow> (faction_state \<Rightarrow> rep_mgr \<Rightarrow> rep_mgr) \<Rightarrow> rep_mgr \<Rightarrow> rep_mgr" where
  "with_state k f m = (case omap_find (rm_factions m) k of None \<Rightarrow> m | Some s \<Rightarrow> f s m)"

definition SetOneFactionReputation ::
  "rep_env \<Rightarrow> faction_entry \<Rightarrow> int \<Rightarrow> bool \<Rightarrow> rep_mgr \<Rightarrow> bool \<times> rep_mgr" where
  "SetOneFactionReputation e f standing0 incremental m =
     (let k = list_key f
      in case omap_find (rm_factions m) k of
           None \<Rightarrow> (False, m)
         | Some s \<Rightarrow>
             let BaseRep = GetBaseReputation e (Some f);
                 standing = clamp_standing
                   (if incremental then int32_of (rep_gain e standing0 + int32_of (fs_Standing s + BaseRep))
                    else int32_of standing0);
                 old_rank = ReputationToRank (int32_of (fs_Standing s + BaseRep));
                 new_rank = ReputationToRank standing;
                 s1 = s\<lparr>fs_Standing := int32_of (standing - BaseRep), fs_needSend := True, fs_needSave := True\<rparr>;
                 m1 = put_state k s1 m;
                 m2 = SetVisible_state e k s1 m1;
                 m3 = (if new_rank \<le> REP_HOSTILE
                       then with_state k (\<lambda>t. put_state k (SetAtWar_state t True)) m2 else m2);
                 m4 = (if new_rank > old_rank then m3\<lparr>rm_sendIncreased := True\<rparr> else m3);
                 m5 = UpdateRankCounters old_rank new_rank m4
             in (True, rep_emit (RepChanged (fe_ID f)) m5))"

definition SetReputation_full ::
  "rep_env \<Rightarrow> faction_entry \<Rightarrow> int \<Rightarrow> bool \<Rightarrow> bool \<Rightarrow> rep_mgr \<Rightarrow> bool \<times> rep_mgr" where
  "SetReputation_full e f standing0 incremental spillOverOnly m =
     (let standing = on_reputation_change e (fe_ID f) standing0 incremental;
          k = list_key f
      in if omap_has (rm_factions m) k then
           let (res, m1) = (if \<not> spillOverOnly then SetOneFactionReputation e f standing incremental m
                            else (False, m))
           in (res, with_state k (\<lambda>s. SendState (Some s)) m1)
         else (False, m))"

definition SetReputation :: "rep_env \<Rightarrow> faction_entry \<Rightarrow> int \<Rightarrow> rep_mgr \<Rightarrow> bool \<times> rep_mgr" where
  "SetReputation e f standing m = SetReputation_full e f standing False False m"

definition ModifyReputation :: "rep_env \<Rightarrow> faction_entry \<Rightarrow> int \<Rightarrow> bool \<Rightarrow> rep_mgr \<Rightarrow> bool \<times> rep_mgr" where
  "ModifyReputation e f standing spillOverOnly m = SetReputation_full e f standing True spillOverOnly m"

text \<open>\<open>DropFactionReputation\<close> takes a faction id and looks it up as a list id.\<close>

definition DropFactionReputation :: "uint32 \<Rightarrow> rep_mgr \<Rightarrow> rep_mgr" where
  "DropFactionReputation faction_id m =
     with_state faction_id (\<lambda>s. put_state faction_id (s\<lparr>fs_needDelete := True, fs_Standing := 0\<rparr>)) m"

text \<open>The two reputations pass through \<open>uint32\<close> and come back as \<open>int32\<close>: the value is unchanged.\<close>

definition SwapFactionReputation :: "rep_env \<Rightarrow> uint32 \<Rightarrow> uint32 \<Rightarrow> rep_mgr \<Rightarrow> rep_mgr" where
  "SwapFactionReputation e from_id to_id m =
     (case (faction_store e from_id, faction_store e to_id) of
        (Some f, Some t) \<Rightarrow>
          let fromRep = GetReputation e m (Some f);
              toRep = GetReputation e m (Some t);
              m1 = snd (SetReputation e f toRep m)
          in snd (SetReputation e t fromRep m1)
      | _ \<Rightarrow> m)"

section \<open>Loading and saving\<close>

definition init_faction :: "rep_env \<Rightarrow> uint32 \<Rightarrow> rep_mgr \<Rightarrow> rep_mgr" where
  "init_faction e i m =
     (case faction_store e i of
        None \<Rightarrow> m
      | Some f \<Rightarrow>
          if fe_listID f \<ge> 0 then
            let s = \<lparr>fs_ID = fe_ID f, fs_listID = list_key f, fs_Standing = 0,
                     fs_Flags = ucast (GetDefaultStateFlags e (Some f)), fs_needSend = True,
                     fs_needSave = True, fs_needDelete = False\<rparr>;
                m1 = (if has_flag (fs_Flags s) FACTION_FLAG_VISIBLE then m\<lparr>rm_visible := rm_visible m + 1\<rparr> else m);
                m2 = UpdateRankCounters REP_HOSTILE (GetBaseRank e (Some f)) m1
            in put_state (fs_listID s) s m2
          else m)"

definition rep_Initialize :: "rep_env \<Rightarrow> rep_mgr \<Rightarrow> rep_mgr" where
  "rep_Initialize e m =
     fold (init_faction e) (map of_nat [1..<faction_rows e])
       (m\<lparr>rm_factions := [], rm_visible := 0, rm_honored := 0, rm_revered := 0, rm_exalted := 0,
          rm_sendIncreased := False\<rparr>)"

definition load_row :: "rep_env \<Rightarrow> uint16 \<times> int \<times> uint16 \<Rightarrow> rep_mgr \<Rightarrow> rep_mgr" where
  "load_row e row m =
     (case row of (fid, standing, flags) \<Rightarrow>
      case faction_store e (ucast fid) of
        None \<Rightarrow> m
      | Some f \<Rightarrow>
          if fe_listID f \<ge> 0 then
            let k = list_key f;
                (s0, fm) = omap_index default_state k (rm_factions m);
                m1 = put_state k (s0\<lparr>fs_Standing := int32_of standing\<rparr>) (m\<lparr>rm_factions := fm\<rparr>);
                BaseRep = GetBaseReputation e (Some f);
                m2 = UpdateRankCounters (ReputationToRank BaseRep) (ReputationToRank (int32_of (BaseRep + int32_of standing))) m1;
                m3 = (if has_flag flags 0x01 then with_state k (SetVisible_state e k) m2 else m2);
                m4 = (if has_flag flags 0x20 then with_state k (\<lambda>t. put_state k (SetInactive_state t True)) m3 else m3);
                m5 = (if has_flag flags 0x02 then with_state k (\<lambda>t. put_state k (SetAtWar_state t True)) m4
                      else with_state k (\<lambda>t. if has_flag (fs_Flags t) FACTION_FLAG_VISIBLE
                                             then put_state k (SetAtWar_state t False) else (\<lambda>x. x)) m4);
                m6 = (if GetRank e m5 (Some f) \<le> REP_HOSTILE
                      then with_state k (\<lambda>t. put_state k (SetAtWar_state t True)) m5 else m5)
            in with_state k (\<lambda>t. if ucast (fs_Flags t) = flags
                                 then put_state k (t\<lparr>fs_needSend := False, fs_needSave := False\<rparr>)
                                 else (\<lambda>x. x)) m6
          else m)"

definition rep_LoadFromDB :: "rep_env \<Rightarrow> (uint16 \<times> int \<times> uint16) list \<Rightarrow> rep_mgr \<Rightarrow> rep_mgr" where
  "rep_LoadFromDB e rows m = fold (load_row e) rows (rep_Initialize e m)"

definition save_state :: "rep_env \<Rightarrow> faction_state \<Rightarrow> rep_effect list \<times> faction_state" where
  "save_state e s =
     (let g = player_counter e; fid = (ucast (fs_ID s) :: uint16)
      in if fs_needDelete s then ([DelReputation g fid], s\<lparr>fs_needDelete := False\<rparr>)
         else if fs_needSave s then
           ([DelReputation g fid, InsReputation g fid (fs_Standing s) (ucast (fs_Flags s))],
            s\<lparr>fs_needSave := False\<rparr>)
         else ([], s))"

definition rep_SaveToDB :: "rep_env \<Rightarrow> rep_mgr \<Rightarrow> rep_mgr" where
  "rep_SaveToDB e m =
     m\<lparr>rm_out := rm_out m @ concat (map (\<lambda>(k, s). fst (save_state e s)) (rm_factions m)),
       rm_factions := map (\<lambda>(k, s). (k, snd (save_state e s))) (rm_factions m)\<rparr>"

section \<open>Ranks and standings\<close>

text \<open>
  The rank of a standing is given by the thresholds -6000, -3000, 0, 3000, 9000, 21000 and
  42000, whatever the standing.
\<close>

theorem reputation_to_rank_thresholds:
  "ReputationToRank s =
     (if s \<ge> 42000 then 7 else if s \<ge> 21000 then 6 else if s \<ge> 9000 then 5 else if s \<ge> 3000 then 4
      else if s \<ge> 0 then 3 else if s \<ge> - 3000 then 2 else if s \<ge> - 6000 then 1 else 0)"
  by (simp add: ReputationToRank_def PointsInRank_def Let_def eval_nat_numeral)

lemma clamp_range: "Reputation_Bottom \<le> clamp_standing s" "clamp_standing s \<le> Reputation_Cap"
  by (simp_all add: clamp_standing_def)

lemma clamp_int32: "int32_of (clamp_standing s) = clamp_standing s"
  by (rule int32_of_id) (simp_all add: clamp_standing_def)

lemma find_put_state [simp]:
  "omap_ok (rm_factions m) \<Longrightarrow> omap_find (rm_factions (put_state k s m)) k' =
     (if k' = k then Some s else omap_find (rm_factions m) k')"
  by (simp add: put_state_def om.find_put)

lemma put_state_ok [simp]: "omap_ok (rm_factions m) \<Longrightarrow> omap_ok (rm_factions (put_state k s m))"
  by (simp add: put_state_def om.invar_put)

lemma rep_frame [simp]:
  "rm_factions (rep_emit x m) = rm_factions m" "rm_factions (UpdateRankCounters a b m) = rm_factions m"
  "rm_factions (SendVisible e s m) = rm_factions m"
  "rm_visible (rep_emit x m) = rm_visible m" "rm_honored (rep_emit x m) = rm_honored m"
  "rm_revered (rep_emit x m) = rm_revered m" "rm_exalted (rep_emit x m) = rm_exalted m"
  "rm_visible (UpdateRankCounters a b m) = rm_visible m"
  "rm_visible (SendVisible e s m) = rm_visible m" "rm_honored (SendVisible e s m) = rm_honored m"
  "rm_revered (SendVisible e s m) = rm_revered m" "rm_exalted (SendVisible e s m) = rm_exalted m"
  "rm_visible (put_state k s m) = rm_visible m" "rm_honored (put_state k s m) = rm_honored m"
  "rm_revered (put_state k s m) = rm_revered m" "rm_exalted (put_state k s m) = rm_exalted m"
  by (simp_all add: rep_emit_def UpdateRankCounters_def SendVisible_def put_state_def)

text \<open>Making a faction visible or setting its war state never touches its standing or identity.\<close>

lemma SetVisible_state_find:
  assumes "omap_ok (rm_factions m)" "omap_find (rm_factions m) k = Some s"
  shows "\<exists>t. omap_find (rm_factions (SetVisible_state e k s m)) k = Some t \<and> fs_Standing t = fs_Standing s \<and>
      fs_ID t = fs_ID s \<and> fs_listID t = fs_listID s"
    "k' \<noteq> k \<Longrightarrow> omap_find (rm_factions (SetVisible_state e k s m)) k' = omap_find (rm_factions m) k'"
    "omap_ok (rm_factions (SetVisible_state e k s m))"
  using assms by (auto simp: SetVisible_state_def Let_def put_state_def om.find_put om.invar_put)

lemma SetAtWar_state_frame [simp]:
  "fs_Standing (SetAtWar_state s b) = fs_Standing s" "fs_ID (SetAtWar_state s b) = fs_ID s"
  "fs_listID (SetAtWar_state s b) = fs_listID s"
  by (simp_all add: SetAtWar_state_def)

lemma SetInactive_state_frame [simp]:
  "fs_Standing (SetInactive_state s b) = fs_Standing s" "fs_ID (SetInactive_state s b) = fs_ID s"
  "fs_listID (SetInactive_state s b) = fs_listID s"
  by (simp_all add: SetInactive_state_def)

lemma SetOne_find:
  fixes e :: rep_env and v :: int and inc :: bool
  assumes ok: "omap_ok (rm_factions m)" and s: "omap_find (rm_factions m) (list_key f) = Some s"
  defines "tot \<equiv> clamp_standing (if inc then int32_of (rep_gain e v + (fs_Standing s + GetBaseReputation e (Some f)))
    else int32_of v)"
  shows "fst (SetOneFactionReputation e f v inc m)"
    "\<exists>t. omap_find (rm_factions (snd (SetOneFactionReputation e f v inc m))) (list_key f) = Some t \<and>
       fs_Standing t = int32_of (tot - GetBaseReputation e (Some f)) \<and> fs_ID t = fs_ID s \<and> fs_listID t = fs_listID s"
    "k' \<noteq> list_key f \<Longrightarrow>
       omap_find (rm_factions (snd (SetOneFactionReputation e f v inc m))) k' = omap_find (rm_factions m) k'"
    "omap_ok (rm_factions (snd (SetOneFactionReputation e f v inc m)))"
proof -
  let ?k = "list_key f" and ?base = "GetBaseReputation e (Some f)"
  let ?s = "s\<lparr>fs_Standing := int32_of (tot - ?base), fs_needSend := True, fs_needSave := True\<rparr>"
  let ?m2 = "SetVisible_state e ?k ?s (put_state ?k ?s m)"
  note v = SetVisible_state_find [where m = "put_state ?k ?s m" and k = ?k and s = ?s and e = e, OF put_state_ok [OF ok]]
  have v1: "\<exists>t. omap_find (rm_factions ?m2) ?k = Some t \<and> fs_Standing t = int32_of (tot - ?base) \<and>
      fs_ID t = fs_ID s \<and> fs_listID t = fs_listID s" using v(1) ok by simp
  have v2: "k' \<noteq> ?k \<Longrightarrow> omap_find (rm_factions ?m2) k' = omap_find (rm_factions m) k'" using v(2) ok by simp
  have v3: "omap_ok (rm_factions ?m2)" using v(3) ok by simp
  show "fst (SetOneFactionReputation e f v inc m)" by (simp add: SetOneFactionReputation_def s Let_def)
  have up: "snd (SetOneFactionReputation e f v inc m) =
      rep_emit (RepChanged (fe_ID f)) (UpdateRankCounters (ReputationToRank (int32_of (fs_Standing s + ?base))) (ReputationToRank tot)
        (let m3 = (if ReputationToRank tot \<le> REP_HOSTILE
                   then with_state ?k (\<lambda>t. put_state ?k (SetAtWar_state t True)) ?m2 else ?m2)
         in if ReputationToRank tot > ReputationToRank (int32_of (fs_Standing s + ?base)) then m3\<lparr>rm_sendIncreased := True\<rparr> else m3))"
    by (simp add: SetOneFactionReputation_def s Let_def tot_def)
  show "\<exists>t. omap_find (rm_factions (snd (SetOneFactionReputation e f v inc m))) ?k = Some t \<and>
       fs_Standing t = int32_of (tot - ?base) \<and> fs_ID t = fs_ID s \<and> fs_listID t = fs_listID s"
    using v1 v3 by (auto simp: up Let_def with_state_def)
  show "k' \<noteq> ?k \<Longrightarrow>
       omap_find (rm_factions (snd (SetOneFactionReputation e f v inc m))) k' = omap_find (rm_factions m) k'"
    using v1 v2 v3 by (auto simp: up Let_def with_state_def)
  show "omap_ok (rm_factions (snd (SetOneFactionReputation e f v inc m)))"
    using v1 v3 by (auto simp: up Let_def with_state_def)
qed

text \<open>
  Setting or adding reputation with a listed faction puts the total reputation at the
  requested value clamped to [-42000, 42999] (for a gain: the current total plus the scaled
  gain, as a 32-bit sum), and changes no other faction.
\<close>

theorem set_reputation_clamps:
  assumes "omap_ok (rm_factions m)" "CanHaveReputation f" "omap_find (rm_factions m) (list_key f) = Some s"
  shows "let m' = snd (SetOneFactionReputation e f v inc m)
         in GetReputation e m' (Some f) =
              clamp_standing (int32_of (if inc then rep_gain e v + GetReputation e m (Some f) else v)) \<and>
            Reputation_Bottom \<le> GetReputation e m' (Some f) \<and> GetReputation e m' (Some f) \<le> Reputation_Cap \<and>
            (\<forall>k. k \<noteq> list_key f \<longrightarrow> omap_find (rm_factions m') k = omap_find (rm_factions m) k)"
proof -
  let ?base = "GetBaseReputation e (Some f)"
  let ?v = "if inc then rep_gain e v + (fs_Standing s + ?base) else v"
  have now: "GetReputation e m (Some f) = int32_of (?base + fs_Standing s)"
    using assms by (simp add: GetReputation_def GetState_def)
  obtain t where t: "omap_find (rm_factions (snd (SetOneFactionReputation e f v inc m))) (list_key f) = Some t"
      "fs_Standing t = int32_of (clamp_standing (int32_of ?v) - ?base)"
    using SetOne_find(2) [OF assms(1,3), where e = e and v = v and inc = inc] by auto
  have "GetReputation e (snd (SetOneFactionReputation e f v inc m)) (Some f) = clamp_standing (int32_of ?v)"
    using t assms(2) by (simp add: GetReputation_def GetState_def clamp_int32)
  moreover have "int32_of ?v = int32_of (if inc then rep_gain e v + GetReputation e m (Some f) else v)"
    by (simp add: now add.commute add.left_commute)
  ultimately show ?thesis
    using SetOne_find(3) [OF assms(1,3)] clamp_range by (simp add: Let_def)
qed

text \<open>A small faction table for the examples: Stormwind is faction 72 with list id 19.\<close>

definition demo_faction :: faction_entry where
  "demo_faction = \<lparr>fe_ID = 72, fe_listID = 19, fe_slots =
     [\<lparr>bs_race = 1, bs_class = 0, bs_value = 4000, bs_flags = 0x11\<rparr>, \<lparr>bs_race = 2, bs_class = 0, bs_value = - 42000, bs_flags = 6\<rparr>,
      \<lparr>bs_race = 0, bs_class = 0, bs_value = 0, bs_flags = 0\<rparr>, \<lparr>bs_race = 0, bs_class = 0, bs_value = 0, bs_flags = 0\<rparr>]\<rparr>"

definition demo_rep_env :: rep_env where
  "demo_rep_env = \<lparr>faction_store = (\<lambda>i. if i = 72 then Some demo_faction else None), faction_rows = 73,
     race_mask = 1, class_mask = 1, player_loading = False, player_counter = 5, rep_gain = (\<lambda>v. v),
     on_reputation_change = (\<lambda>f v b. v)\<rparr>"

definition demo_state :: faction_state where
  "demo_state = \<lparr>fs_ID = 72, fs_listID = 19, fs_Standing = 100, fs_Flags = 0x11, fs_needSend = False,
     fs_needSave = False, fs_needDelete = False\<rparr>"

definition demo_rep :: rep_mgr where
  "demo_rep = ReputationMgr_new\<lparr>rm_factions := [(19, demo_state)], rm_visible := 1\<rparr>"

lemma demo_rep_find: "omap_find (rm_factions demo_rep) (list_key demo_faction) = Some demo_state"
  by (simp add: demo_rep_def omap_find_def list_key_def demo_faction_def)

lemma demo_rep_ordered: "omap_ok (rm_factions demo_rep)"
  by (simp add: demo_rep_def omap_ok_def)

lemma demo_can: "CanHaveReputation demo_faction"
  by (simp add: CanHaveReputation_def demo_faction_def)

theorem set_reputation_clamps_witness:
  "GetReputation demo_rep_env (snd (SetOneFactionReputation demo_rep_env demo_faction 50000 True demo_rep))
     (Some demo_faction) = 42999"
proof -
  have "GetReputation demo_rep_env demo_rep (Some demo_faction) = 4100"
    using demo_rep_find demo_can
    by (simp add: GetReputation_def GetState_def GetBaseReputation_def slot_matches_def demo_faction_def
        demo_rep_env_def has_flag_def demo_state_def int32_of_id)
  then show ?thesis
    using set_reputation_clamps [OF demo_rep_ordered demo_can demo_rep_find, of demo_rep_env 50000 True]
    by (simp add: Let_def demo_rep_env_def clamp_standing_def int32_of_id)
qed

section \<open>The rank counters\<close>

lemma GetBase_int32 [simp]: "int32_of (GetBaseReputation e fe) = GetBaseReputation e fe"
  by (simp add: GetBaseReputation_def int32_of_id split: option.split)

definition rank_of :: "rep_env \<Rightarrow> faction_state \<Rightarrow> rep_rank" where
  "rank_of e s = ReputationToRank (int32_of (fs_Standing s + GetBaseReputation e (faction_store e (fs_ID s))))"

definition wcount :: "('v \<Rightarrow> bool) \<Rightarrow> ('k, 'v) omap \<Rightarrow> uint8" where
  "wcount P m = sum_list (map (\<lambda>(k, v). of_bool (P v)) m)"

lemma wcount_set:
  "omap_ok m \<Longrightarrow> omap_find m k = Some v \<Longrightarrow>
     wcount P (omap_set k v' m) = wcount P m - of_bool (P v) + of_bool (P v')"
proof (induction k v' m rule: omap_set.induct)
  case (2 k v' k0 v0 m)
  consider "k < k0" | "k = k0" | "k0 < k" by fastforce
  then show ?case
  proof cases
    case 1
    then have "omap_find ((k0, v0) # m) k = None"
      using 2(2) by (force simp: omap_find_def omap_ok_def map_of_eq_None_iff)
    with 2(3) show ?thesis by simp
  qed (use 2 in \<open>auto simp: wcount_def omap_find_def omap_ok_def\<close>)
qed (simp add: omap_find_def)

lemma wcount_new:
  "omap_ok m \<Longrightarrow> omap_find m k = None \<Longrightarrow> wcount P (omap_set k v m) = wcount P m + of_bool (P v)"
  by (induction k v m rule: omap_set.induct)
    (auto simp: wcount_def omap_find_def omap_ok_def split: if_splits)

text \<open>
  What the counters promise: each entry belongs to the faction whose list id is its key, and
  the counters are the number of honoured, revered and exalted factions (modulo 256).
\<close>

definition entry_ok :: "rep_env \<Rightarrow> uint32 \<Rightarrow> faction_state \<Rightarrow> bool" where
  "entry_ok e k s =
     (case faction_store e (fs_ID s) of None \<Rightarrow> False
      | Some f \<Rightarrow> list_key f = k \<and> fs_listID s = k \<and> fe_listID f \<ge> 0)"

definition rep_ok :: "rep_env \<Rightarrow> rep_mgr \<Rightarrow> bool" where
  "rep_ok e m \<longleftrightarrow> omap_ok (rm_factions m) \<and>
     (\<forall>(k, s) \<in> set (rm_factions m). entry_ok e k s) \<and>
     rm_honored m = wcount (\<lambda>s. rank_of e s \<ge> REP_HONORED) (rm_factions m) \<and>
     rm_revered m = wcount (\<lambda>s. rank_of e s \<ge> REP_REVERED) (rm_factions m) \<and>
     rm_exalted m = wcount (\<lambda>s. rank_of e s \<ge> REP_EXALTED) (rm_factions m)"

text \<open>
  The faction table: an entry is stored under its id, which is positive and within the rows of
  the table, and list ids are not shared.
\<close>

definition store_ok :: "rep_env \<Rightarrow> bool" where
  "store_ok e \<longleftrightarrow>
     (\<forall>i f. faction_store e i = Some f \<longrightarrow> fe_ID f = i \<and> i \<noteq> 0 \<and> unat i < faction_rows e) \<and>
     (\<forall>i j f g. faction_store e i = Some f \<longrightarrow> faction_store e j = Some g \<longrightarrow>
        list_key f = list_key g \<longrightarrow> fe_listID g \<ge> 0 \<longrightarrow> i = j)"

lemma store_ok_unique:
  "store_ok e \<Longrightarrow> faction_store e i = Some f \<Longrightarrow> faction_store e j = Some g \<Longrightarrow> list_key f = list_key g \<Longrightarrow>
     fe_listID g \<ge> 0 \<Longrightarrow> i = j"
  by (simp add: store_ok_def)

lemma entry_ok_same: "fs_ID t = fs_ID s \<Longrightarrow> fs_listID t = fs_listID s \<Longrightarrow> entry_ok e k t = entry_ok e k s"
  by (simp add: entry_ok_def split: option.split)

lemma omap_set_mem: "omap_ok m \<Longrightarrow> (k', x) \<in> set (omap_set k v m) \<Longrightarrow> k' = k \<and> x = v \<or> (k', x) \<in> set m"
  by (induction k v m rule: omap_set.induct) (auto simp: omap_ok_def split: if_splits)

lemma rep_ok_entries: "rep_ok e m \<Longrightarrow> omap_find (rm_factions m) k = Some s \<Longrightarrow> entry_ok e k s"
  by (auto simp: rep_ok_def dest: omap_find_in_set)

lemma entries_put:
  assumes "rep_ok e m" "entry_ok e k t"
  shows "\<forall>(k', x) \<in> set (omap_set k t (rm_factions m)). entry_ok e k' x"
  using assms omap_set_mem [of "rm_factions m"] by (fastforce simp: rep_ok_def)

lemma rep_ok_put:
  assumes "rep_ok e m" "omap_find (rm_factions m) k = Some s"
    and "fs_ID t = fs_ID s" "fs_listID t = fs_listID s" "fs_Standing t = fs_Standing s"
  shows "rep_ok e (put_state k t m)"
proof -
  have ok: "omap_ok (rm_factions m)" using assms(1) by (simp add: rep_ok_def)
  have rank: "rank_of e t = rank_of e s" using assms(3,5) by (simp add: rank_of_def)
  have "entry_ok e k t" using rep_ok_entries [OF assms(1,2)] by (simp only: entry_ok_same [OF assms(3,4)])
  note ent = entries_put [OF assms(1) this]
  show ?thesis
    using assms(1) ent by (simp add: rep_ok_def put_state_def om.invar_put wcount_set [OF ok assms(2)] rank)
qed

lemma rep_ok_fields [simp]:
  "rep_ok e (rep_emit x m) = rep_ok e m" "rep_ok e (m\<lparr>rm_visible := v\<rparr>) = rep_ok e m"
  "rep_ok e (m\<lparr>rm_sendIncreased := b\<rparr>) = rep_ok e m" "rep_ok e (SendVisible e' s m) = rep_ok e m"
  by (simp_all add: rep_ok_def)

lemma rep_ok_SetVisible_state:
  "rep_ok e m \<Longrightarrow> omap_find (rm_factions m) k = Some s \<Longrightarrow> rep_ok e (SetVisible_state e' k s m)"
  by (simp add: SetVisible_state_def Let_def rep_ok_put)

text \<open>The counter update commutes with everything that leaves the counters alone.\<close>

lemma counters_commute:
  "UpdateRankCounters a b (put_state k s m) = put_state k s (UpdateRankCounters a b m)"
  "UpdateRankCounters a b (SetVisible_state e k s m) = SetVisible_state e k s (UpdateRankCounters a b m)"
  "UpdateRankCounters a b (m\<lparr>rm_sendIncreased := c\<rparr>) = (UpdateRankCounters a b m)\<lparr>rm_sendIncreased := c\<rparr>"
  by (simp_all add: UpdateRankCounters_def put_state_def SetVisible_state_def SendVisible_def rep_emit_def Let_def)

lemma rep_ok_new_standing:
  assumes ok: "rep_ok e m" and s: "omap_find (rm_factions m) k = Some s"
    and t: "fs_ID t = fs_ID s" "fs_listID t = fs_listID s"
  shows "rep_ok e (UpdateRankCounters (rank_of e s) (rank_of e t) (put_state k t m))"
proof -
  have om: "omap_ok (rm_factions m)" using ok by (simp add: rep_ok_def)
  have "entry_ok e k t" using rep_ok_entries [OF ok s] by (simp only: entry_ok_same [OF t])
  note ent = entries_put [OF ok this]
  show ?thesis
    using ok ent
    by (simp add: rep_ok_def put_state_def UpdateRankCounters_def om.invar_put wcount_set [OF om s])
qed

lemma SetOne_rep_ok:
  assumes st: "store_ok e" and ok: "rep_ok e m" and f: "faction_store e i = Some f"
  shows "rep_ok e (snd (SetOneFactionReputation e f v inc m))"
proof (cases "omap_find (rm_factions m) (list_key f)")
  case None
  with ok show ?thesis by (simp add: SetOneFactionReputation_def Let_def)
next
  case (Some s)
  let ?k = "list_key f" and ?base = "GetBaseReputation e (Some f)"
  define tot where
    "tot = clamp_standing (if inc then int32_of (rep_gain e v + int32_of (fs_Standing s + ?base)) else int32_of v)"
  have tot32: "int32_of tot = tot" by (simp only: tot_def clamp_int32)
  define t where "t = s\<lparr>fs_Standing := int32_of (tot - ?base), fs_needSend := True, fs_needSave := True\<rparr>"
  have om: "omap_ok (rm_factions m)" using ok by (simp add: rep_ok_def)
  obtain g where g: "faction_store e (fs_ID s) = Some g" "list_key g = ?k" "fe_listID g \<ge> 0"
    using rep_ok_entries [OF ok Some] by (auto simp: entry_ok_def split: option.splits)
  have same: "fs_ID s = i" using store_ok_unique [OF st f g(1)] g by simp
  then have ranks: "rank_of e s = ReputationToRank (int32_of (fs_Standing s + ?base))" "rank_of e t = ReputationToRank tot"
    using f by (simp_all add: rank_of_def t_def tot32)
  let ?m0 = "UpdateRankCounters (rank_of e s) (rank_of e t) (put_state ?k t m)"
  let ?m2 = "SetVisible_state e ?k t ?m0"
  have m0: "rep_ok e ?m0" by (rule rep_ok_new_standing [OF ok Some]) (simp_all add: t_def)
  have find0: "omap_find (rm_factions ?m0) ?k = Some t" by (simp add: om)
  have m2: "rep_ok e ?m2" by (rule rep_ok_SetVisible_state [OF m0 find0])
  obtain u where u: "omap_find (rm_factions ?m2) ?k = Some u"
    using SetVisible_state_find(1) [OF _ find0] om by auto
  have m3: "rep_ok e (put_state ?k (SetAtWar_state u True) ?m2)"
    by (rule rep_ok_put [OF m2 u]) simp_all
  have fac: "rm_factions (SetVisible_state e ?k t (put_state ?k t m)) = rm_factions ?m2"
    by (simp add: SetVisible_state_def Let_def put_state_def)
  show ?thesis
    using m2 m3 u
    by (simp add: SetOneFactionReputation_def Some Let_def with_state_def fac counters_commute
        ranks flip: tot_def t_def)
qed

text \<open>Updates of every entry that keep identities and standings: the send and save flags.\<close>

lemma rep_ok_map:
  assumes ok: "rep_ok e m"
    and f: "\<And>s. fs_ID (f s) = fs_ID s" "\<And>s. fs_listID (f s) = fs_listID s" "\<And>s. fs_Standing (f s) = fs_Standing s"
  shows "rep_ok e (m\<lparr>rm_factions := map (\<lambda>(k, s). (k, f s)) (rm_factions m)\<rparr>)"
proof -
  let ?g = "\<lambda>(k :: uint32, s). (k, f s)"
  have keys: "map fst (map ?g xs) = map fst xs" for xs :: "(uint32, faction_state) omap"
    by (induction xs) auto
  have cnt: "wcount (\<lambda>s. r \<le> rank_of e s) (map ?g xs) = wcount (\<lambda>s. r \<le> rank_of e s) xs"
    for r and xs :: "(uint32, faction_state) omap"
    by (induction xs) (auto simp: wcount_def rank_of_def f)
  have "omap_ok (map ?g (rm_factions m))" using ok by (simp only: omap_ok_def keys) (simp add: rep_ok_def omap_ok_def)
  with ok show ?thesis by (auto simp: rep_ok_def cnt entry_ok_same [OF f(1,2)])
qed

lemma SendState_rep_ok: "rep_ok e m \<Longrightarrow> rep_ok e (SendState fs m)"
  using rep_ok_map [of e "m\<lparr>rm_sendIncreased := False\<rparr>" "\<lambda>s. s\<lparr>fs_needSend := False\<rparr>"]
  by (simp add: SendState_def Let_def)

lemma SendInitial_rep_ok: "rep_ok e m \<Longrightarrow> rep_ok e (SendInitialReputations m)"
  using rep_ok_map [of e m "\<lambda>s. s\<lparr>fs_needSend := False\<rparr>"] by (simp add: SendInitialReputations_def)

lemma save_state_frame:
  "fs_ID (snd (save_state e s)) = fs_ID s" "fs_listID (snd (save_state e s)) = fs_listID s"
  "fs_Standing (snd (save_state e s)) = fs_Standing s"
  by (simp_all add: save_state_def Let_def)

lemma SaveToDB_rep_ok: "rep_ok e m \<Longrightarrow> rep_ok e (rep_SaveToDB e' m)"
  using rep_ok_map [of e "m\<lparr>rm_out := x\<rparr>" "\<lambda>s. snd (save_state e' s)" for x]
  by (simp add: rep_SaveToDB_def save_state_frame rep_ok_def)

lemma ApplyForceReaction_rep_ok: "rep_ok e m \<Longrightarrow> rep_ok e (ApplyForceReaction i r b m)"
  by (simp add: ApplyForceReaction_def rep_ok_def)

lemma SetReputation_full_rep_ok:
  assumes "store_ok e" "rep_ok e m" "faction_store e i = Some f"
  shows "rep_ok e (snd (SetReputation_full e f v inc spill m))"
  using SetOne_rep_ok [OF assms] assms(2) SendState_rep_ok
  by (auto simp: SetReputation_full_def Let_def with_state_def split: prod.splits option.splits)
    (metis snd_conv)+

lemma init_faction_rep_ok:
  assumes st: "store_ok e" and ok: "rep_ok e m" and fresh: "\<forall>(k, s) \<in> set (rm_factions m). fs_ID s \<noteq> i"
  shows "rep_ok e (init_faction e i m) \<and>
    (\<forall>(k, s) \<in> set (rm_factions (init_faction e i m)). fs_ID s = i \<or> (k, s) \<in> set (rm_factions m))"
proof (cases "faction_store e i")
  case (Some f)
  show ?thesis
  proof (cases "fe_listID f \<ge> 0")
    case True
    let ?k = "list_key f"
    define s where "s = \<lparr>fs_ID = fe_ID f, fs_listID = ?k, fs_Standing = 0,
      fs_Flags = ucast (GetDefaultStateFlags e (Some f)), fs_needSend = True, fs_needSave = True, fs_needDelete = False\<rparr>"
    have id: "fe_ID f = i" using st Some by (auto simp: store_ok_def)
    have om: "omap_ok (rm_factions m)" using ok by (simp add: rep_ok_def)
    have none: "omap_find (rm_factions m) ?k = None"
    proof (rule ccontr)
      assume "omap_find (rm_factions m) ?k \<noteq> None"
      then obtain x where x: "omap_find (rm_factions m) ?k = Some x" by auto
      obtain g where g: "faction_store e (fs_ID x) = Some g" "list_key g = ?k" "fe_listID g \<ge> 0"
        using rep_ok_entries [OF ok x] by (auto simp: entry_ok_def split: option.splits)
      have "i = fs_ID x" using store_ok_unique [OF st Some g(1)] g by simp
      with fresh omap_find_in_set [OF x] show False by fastforce
    qed
    have rank: "rank_of e s = GetBaseRank e (Some f)"
      using Some by (simp add: rank_of_def s_def GetBaseRank_def id GetBase_int32)
    define m1 where "m1 = (if has_flag (fs_Flags s) FACTION_FLAG_VISIBLE then m\<lparr>rm_visible := rm_visible m + 1\<rparr> else m)"
    have m1: "rm_factions m1 = rm_factions m" "rep_ok e m1" using ok by (simp_all add: m1_def)
    have res: "init_faction e i m = put_state ?k s (UpdateRankCounters REP_HOSTILE (rank_of e s) m1)"
      using Some True by (simp add: init_faction_def Let_def rank m1_def) (simp add: s_def)
    have "entry_ok e ?k s" using Some True id by (simp add: entry_ok_def s_def)
    then have "rep_ok e (put_state ?k s (UpdateRankCounters REP_HOSTILE (rank_of e s) m1))"
      using m1 om entries_put [OF ok]
      by (simp add: rep_ok_def put_state_def UpdateRankCounters_def om.invar_put wcount_new [OF om none])
    moreover have "fs_ID s = i" using id by (simp add: s_def)
    then have "\<forall>(k, x) \<in> set (rm_factions (put_state ?k s (UpdateRankCounters REP_HOSTILE (rank_of e s) m1))).
        fs_ID x = i \<or> (k, x) \<in> set (rm_factions m)"
      using omap_set_mem [OF om] m1(1) by (fastforce simp: put_state_def)
    ultimately show ?thesis by (simp add: res)
  next
    case False
    with Some ok show ?thesis by (auto simp: init_faction_def)
  qed
qed (use ok in \<open>auto simp: init_faction_def\<close>)

lemma init_fold_rep_ok:
  "store_ok e \<Longrightarrow> rep_ok e m \<Longrightarrow> distinct is \<Longrightarrow> \<forall>(k, s) \<in> set (rm_factions m). fs_ID s \<notin> set is \<Longrightarrow>
     rep_ok e (fold (init_faction e) is m)"
proof (induction "is" arbitrary: m)
  case (Cons i "is")
  have step: "rep_ok e (init_faction e i m)"
    "\<forall>(k, s) \<in> set (rm_factions (init_faction e i m)). fs_ID s = i \<or> (k, s) \<in> set (rm_factions m)"
    using init_faction_rep_ok [OF Cons.prems(1,2), of i] Cons.prems(4) by auto
  have "\<forall>(k, s) \<in> set (rm_factions (init_faction e i m)). fs_ID s \<notin> set is"
    using step(2) Cons.prems(3,4) by fastforce
  then show ?case using Cons.IH [OF Cons.prems(1) step(1)] Cons.prems(3) by simp
qed simp

lemma Initialize_rep_ok:
  assumes "store_ok e" "faction_rows e \<le> 2 ^ 32"
  shows "rep_ok e (rep_Initialize e m)"
proof -
  have "inj_on (of_nat :: nat \<Rightarrow> uint32) {1..<faction_rows e}"
    by (rule inj_onI) (use assms(2) in \<open>simp add: of_nat_eq_iff take_bit_nat_eq_self word_of_nat_eq_iff\<close>)
  then have "distinct (map (of_nat :: nat \<Rightarrow> uint32) [1..<faction_rows e])"
    by (simp add: distinct_map)
  then show ?thesis
    unfolding rep_Initialize_def using assms(1)
    by (intro init_fold_rep_ok) (simp_all add: rep_ok_def om.invar_empty wcount_def)
qed

lemma Swap_rep_ok: "store_ok e \<Longrightarrow> rep_ok e m \<Longrightarrow> rep_ok e (SwapFactionReputation e i j m)"
  by (simp add: SwapFactionReputation_def SetReputation_def Let_def SetReputation_full_rep_ok split: option.split)

text \<open>
  Loading. \<open>standings m\<close> is what the counters depend on; a row is counted from the base rank, so
  the counters stay exact when the row's faction still has the standing 0 of \<open>Initialize\<close>.
\<close>

definition standings :: "rep_mgr \<Rightarrow> uint32 \<Rightarrow> (uint32 \<times> int) option" where
  "standings m k = map_option (\<lambda>s. (fs_ID s, fs_Standing s)) (omap_find (rm_factions m) k)"

definition counted_as :: "rep_env \<Rightarrow> (uint32 \<Rightarrow> (uint32 \<times> int) option) \<Rightarrow> rep_mgr \<Rightarrow> bool" where
  "counted_as e st m \<longleftrightarrow> rep_ok e m \<and> standings m = st"

lemma counted_as_put:
  assumes "counted_as e st m" "omap_find (rm_factions m) k = Some s"
    and "fs_ID t = fs_ID s" "fs_listID t = fs_listID s" "fs_Standing t = fs_Standing s"
  shows "counted_as e st (put_state k t m)"
proof -
  have "omap_ok (rm_factions m)" using assms(1) by (simp add: counted_as_def rep_ok_def)
  then have "standings (put_state k t m) = standings m"
    using assms(2,3,5) by (auto simp: standings_def)
  then show ?thesis using assms rep_ok_put by (simp add: counted_as_def)
qed

lemma counted_as_fields [simp]:
  "counted_as e st (rep_emit x m) = counted_as e st m" "counted_as e st (m\<lparr>rm_visible := v\<rparr>) = counted_as e st m"
  "counted_as e st (SendVisible e' s m) = counted_as e st m"
  by (simp_all add: counted_as_def standings_def fun_eq_iff)

lemma counted_as_SetVisible:
  "counted_as e st m \<Longrightarrow> omap_find (rm_factions m) k = Some s \<Longrightarrow> counted_as e st (SetVisible_state e' k s m)"
  by (simp add: SetVisible_state_def Let_def counted_as_put)

lemma counted_as_with:
  "counted_as e st m \<Longrightarrow> (\<And>s. omap_find (rm_factions m) k = Some s \<Longrightarrow> counted_as e st (g s m)) \<Longrightarrow>
     counted_as e st (with_state k g m)"
  by (simp add: with_state_def split: option.split)

lemma counted_as_if: "counted_as e st a \<Longrightarrow> counted_as e st b \<Longrightarrow> counted_as e st (if c then a else b)"
  by simp

lemma counted_as_flag:
  assumes "counted_as e st m"
  shows "counted_as e st (with_state k (SetVisible_state e' k) m)"
    "counted_as e st (with_state k (\<lambda>t. put_state k (SetAtWar_state t b)) m)"
    "counted_as e st (with_state k (\<lambda>t. put_state k (SetInactive_state t b)) m)"
    "counted_as e st (with_state k (\<lambda>t. if P t then put_state k (SetAtWar_state t b) else (\<lambda>x. x)) m)"
    "counted_as e st (with_state k (\<lambda>t. if P t then put_state k (t\<lparr>fs_needSend := b, fs_needSave := b\<rparr>)
                                       else (\<lambda>x. x)) m)"
  using assms
  by (auto intro!: counted_as_with simp: counted_as_SetVisible counted_as_put)

lemma load_row_counted:
  assumes st: "store_ok e" and ok: "rep_ok e m" and f: "faction_store e (ucast fid) = Some f" "fe_listID f \<ge> 0"
    and fresh: "standings m (list_key f) = Some (i, 0)"
  shows "counted_as e ((standings m)(list_key f \<mapsto> (ucast fid, int32_of standing))) (load_row e (fid, standing, flags) m)"
proof -
  let ?k = "list_key f" and ?base = "GetBaseReputation e (Some f)"
  let ?S = "(standings m)(?k \<mapsto> (ucast fid, int32_of standing))"
  obtain s where s: "omap_find (rm_factions m) ?k = Some s" "fs_Standing s = 0"
    using fresh by (auto simp: standings_def)
  have om: "omap_ok (rm_factions m)" using ok by (simp add: rep_ok_def)
  obtain g where g: "faction_store e (fs_ID s) = Some g" "list_key g = ?k" "fe_listID g \<ge> 0"
    using rep_ok_entries [OF ok s(1)] by (auto simp: entry_ok_def split: option.splits)
  have id: "fs_ID s = ucast fid" using store_ok_unique [OF st f(1) g(1)] g by simp
  define t where "t = s\<lparr>fs_Standing := int32_of standing\<rparr>"
  define m2 where "m2 = UpdateRankCounters (ReputationToRank ?base) (ReputationToRank (int32_of (?base + int32_of standing)))
    (put_state ?k t m)"
  have ranks: "rank_of e s = ReputationToRank ?base" "rank_of e t = ReputationToRank (int32_of (?base + int32_of standing))"
    using f(1) by (simp_all add: rank_of_def id s(2) t_def add.commute)
  have "rep_ok e m2"
    unfolding m2_def ranks [symmetric] by (rule rep_ok_new_standing [OF ok s(1)]) (simp_all add: t_def)
  moreover have "standings m2 = ?S" using om by (auto simp: m2_def standings_def t_def id fun_eq_iff)
  ultimately have m2: "counted_as e ?S m2" by (simp add: counted_as_def)
  have m1: "put_state ?k t (m\<lparr>rm_factions := rm_factions m\<rparr>) = put_state ?k t m" by simp
  show ?thesis
    unfolding load_row_def prod.case f(1) option.case if_P [OF f(2)] Let_def omap_index_present [OF s(1)]
      t_def [symmetric] m1 m2_def [symmetric]
    by (intro m2 counted_as_flag counted_as_if)
qed

text \<open>\<open>Initialize\<close> gives every listed faction an entry with standing zero.\<close>

lemma init_faction_standings:
  assumes "omap_ok (rm_factions m)"
  shows "omap_ok (rm_factions (init_faction e i m))"
    "standings (init_faction e i m) k =
      (case faction_store e i of
         Some f \<Rightarrow> if fe_listID f \<ge> 0 \<and> list_key f = k then Some (fe_ID f, 0) else standings m k
       | None \<Rightarrow> standings m k)"
  using assms
  by (auto simp: init_faction_def Let_def standings_def put_state_def om.find_put om.invar_put split: option.split)

lemma init_fold_zero:
  "omap_ok (rm_factions m) \<Longrightarrow> (\<And>k j v. standings m k = Some (j, v) \<Longrightarrow> v = 0) \<Longrightarrow>
     standings (fold (init_faction e) is m) k = Some (j, v) \<Longrightarrow> v = 0"
proof (induction "is" arbitrary: m)
  case (Cons x xs)
  note step = init_faction_standings [OF Cons.prems(1), of e x]
  have "standings (init_faction e x m) k = Some (j, v) \<Longrightarrow> v = 0" for k j v
    using Cons.prems(2) by (auto simp: step(2) split: option.splits if_splits)
  from Cons.IH [OF step(1) this] Cons.prems(3) show ?case by simp
qed simp

lemma init_fold_present:
  "omap_ok (rm_factions m) \<Longrightarrow> i \<in> set is \<or> standings m (list_key f) \<noteq> None \<Longrightarrow>
     faction_store e i = Some f \<Longrightarrow> fe_listID f \<ge> 0 \<Longrightarrow>
     standings (fold (init_faction e) is m) (list_key f) \<noteq> None"
proof (induction "is" arbitrary: m)
  case (Cons x xs)
  note step = init_faction_standings [OF Cons.prems(1), of e x]
  have "i \<in> set xs \<or> standings (init_faction e x m) (list_key f) \<noteq> None"
    using Cons.prems by (auto simp: step(2) split: option.split)
  from Cons.IH [OF step(1) this Cons.prems(3,4)] show ?case by simp
qed simp

text \<open>While rows are loaded: only the factions of earlier rows have a standing other than zero.\<close>

definition loaded :: "rep_env \<Rightarrow> uint32 set \<Rightarrow> rep_mgr \<Rightarrow> bool" where
  "loaded e D m \<longleftrightarrow> rep_ok e m \<and> (\<forall>k j v. standings m k = Some (j, v) \<longrightarrow> v = 0 \<or> j \<in> D) \<and>
     (\<forall>i f. faction_store e i = Some f \<longrightarrow> fe_listID f \<ge> 0 \<longrightarrow> standings m (list_key f) \<noteq> None)"

lemma Initialize_loaded:
  assumes "store_ok e" "faction_rows e \<le> 2 ^ 32"
  shows "loaded e {} (rep_Initialize e m)"
proof -
  let ?m = "m\<lparr>rm_factions := [], rm_visible := 0, rm_honored := 0, rm_revered := 0, rm_exalted := 0,
    rm_sendIncreased := False\<rparr>" and ?is = "map (of_nat :: nat \<Rightarrow> uint32) [1..<faction_rows e]"
  have ok: "omap_ok (rm_factions ?m)" by (simp add: om.invar_empty)
  have none: "standings ?m k = None" for k by (simp add: standings_def omap_find_def)
  have mem: "i \<in> set ?is" if "faction_store e i = Some f" for i f
  proof -
    have "i \<noteq> 0" "unat i < faction_rows e" using assms(1) that by (auto simp: store_ok_def)
    then have "unat i \<in> set [1..<faction_rows e]" by (simp add: Suc_le_eq unat_gt_0)
    then show ?thesis by (auto intro!: image_eqI [of _ _ "unat i"])
  qed
  have "standings (rep_Initialize e m) k = Some (j, v) \<Longrightarrow> v = 0" for k j v
    unfolding rep_Initialize_def by (rule init_fold_zero [OF ok, of e ?is]) (simp_all add: none)
  moreover have "standings (rep_Initialize e m) (list_key f) \<noteq> None"
    if "faction_store e i = Some f" "fe_listID f \<ge> 0" for i f
    unfolding rep_Initialize_def by (rule init_fold_present [OF ok _ that]) (use mem [OF that(1)] in blast)
  ultimately show ?thesis
    using Initialize_rep_ok [OF assms] unfolding loaded_def by blast
qed

lemma load_row_loaded:
  assumes st: "store_ok e" and m: "loaded e D m" and new: "(ucast fid :: uint32) \<notin> D"
  shows "loaded e (insert (ucast fid) D) (load_row e (fid, standing, flags) m)"
proof (cases "\<exists>f. faction_store e (ucast fid) = Some f \<and> fe_listID f \<ge> 0")
  case False
  then have "load_row e (fid, standing, flags) m = m" by (auto simp: load_row_def split: option.split)
  with m show ?thesis by (auto simp: loaded_def)
next
  case True
  then obtain f where f: "faction_store e (ucast fid) = Some f" "fe_listID f \<ge> 0" by auto
  have ok: "rep_ok e m" using m by (simp add: loaded_def)
  obtain j v where jv: "standings m (list_key f) = Some (j, v)"
    using m f by (fastforce simp: loaded_def)
  obtain s where s: "omap_find (rm_factions m) (list_key f) = Some s" "fs_ID s = j"
    using jv by (auto simp: standings_def)
  obtain g where g: "faction_store e j = Some g" "list_key g = list_key f" "fe_listID g \<ge> 0"
    using rep_ok_entries [OF ok s(1)] s(2) by (auto simp: entry_ok_def split: option.splits)
  have "j = ucast fid" using store_ok_unique [OF st f(1) g(1)] g by simp
  moreover have "v = 0 \<or> j \<in> D" using m jv by (auto simp: loaded_def)
  ultimately have "standings m (list_key f) = Some (ucast fid, 0)" using jv new by auto
  note row = load_row_counted [OF st ok f this, of standing flags]
  show ?thesis using row m by (auto simp: counted_as_def loaded_def)
qed

lemma load_rows_loaded:
  assumes "store_ok e"
  shows "loaded e D m \<Longrightarrow> distinct (map fst rows) \<Longrightarrow> ucast ` fst ` set rows \<inter> D = {} \<Longrightarrow>
    rep_ok e (fold (load_row e) rows m)"
proof (induction rows arbitrary: D m)
  case (Cons row rows)
  obtain fid standing flags where row: "row = (fid, standing, flags)" by (cases row)
  have inj: "(ucast a :: uint32) = ucast b \<Longrightarrow> a = b" for a b :: uint16
  proof -
    have "uint (ucast c :: uint32) = uint c" for c :: uint16
      using uint_bounded [of c] by (simp add: unsigned_ucast_eq take_bit_int_eq_self)
    then show "(ucast a :: uint32) = ucast b \<Longrightarrow> a = b" by (metis word_uint_eq_iff)
  qed
  have "loaded e (insert (ucast fid) D) (load_row e row m)"
    unfolding row by (rule load_row_loaded [OF assms Cons.prems(1)]) (use Cons.prems(3) row in auto)
  moreover have "ucast ` fst ` set rows \<inter> insert (ucast fid) D = {}"
    using Cons.prems(2,3) by (auto simp: row dest!: inj)
  ultimately show ?case using Cons.IH Cons.prems(2) by simp
qed (simp add: loaded_def)

lemma LoadFromDB_rep_ok:
  "store_ok e \<Longrightarrow> faction_rows e \<le> 2 ^ 32 \<Longrightarrow> distinct (map fst rows) \<Longrightarrow> rep_ok e (rep_LoadFromDB e rows m)"
  by (simp add: rep_LoadFromDB_def load_rows_loaded [OF _ Initialize_loaded])


datatype rep_op =
    RepSet uint32 int bool bool
  | RepSwap uint32 uint32
  | RepDrop uint32
  | RepLoad "(uint16 \<times> int \<times> uint16) list"
  | RepSave
  | RepVisible uint32
  | RepAtWar uint32 bool
  | RepInactive uint32 bool
  | RepForced uint32 rep_rank bool
  | RepSendState
  | RepSendInitial

fun rep_step :: "rep_env \<Rightarrow> rep_mgr \<Rightarrow> rep_op \<Rightarrow> rep_mgr" where
  "rep_step e m (RepSet i v inc spill) =
     (case faction_store e i of None \<Rightarrow> m | Some f \<Rightarrow> snd (SetReputation_full e f v inc spill m))"
| "rep_step e m (RepSwap i j) = SwapFactionReputation e i j m"
| "rep_step e m (RepDrop k) = DropFactionReputation k m"
| "rep_step e m (RepLoad rows) = rep_LoadFromDB e rows m"
| "rep_step e m RepSave = rep_SaveToDB e m"
| "rep_step e m (RepVisible i) = SetVisible_template e i m"
| "rep_step e m (RepAtWar k on) = SetAtWar k on m"
| "rep_step e m (RepInactive k on) = SetInactive k on m"
| "rep_step e m (RepForced i r b) = ApplyForceReaction i r b m"
| "rep_step e m RepSendState = SendState None m"
| "rep_step e m RepSendInitial = SendInitialReputations m"

text \<open>
  The operations that keep the counters exact: all but \<open>DropFactionReputation\<close>, and a load
  from a table with one row per faction (its primary key).
\<close>

fun recounts :: "rep_op \<Rightarrow> bool" where
  "recounts (RepDrop k) = False"
| "recounts (RepLoad rows) = distinct (map fst rows)"
| "recounts x = True"

interpretation rep: invariant_ops "rep_step e" "\<lambda>m. store_ok e \<and> faction_rows e \<le> 2 ^ 32 \<longrightarrow> rep_ok e m"
  "\<lambda>m x. recounts x" for e
proof (unfold_locales, intro impI)
  fix m x
  assume inv: "store_ok e \<and> faction_rows e \<le> 2 ^ 32 \<longrightarrow> rep_ok e m"
    and st: "store_ok e \<and> faction_rows e \<le> 2 ^ 32" and x: "recounts x"
  then have ok: "rep_ok e m" by simp
  show "rep_ok e (rep_step e m x)"
  proof (cases x)
    case (RepSet i v inc spill)
    then show ?thesis using ok st SetReputation_full_rep_ok by (auto split: option.split)
  next
    case (RepVisible i)
    then show ?thesis
      using ok by (auto simp: SetVisible_template_def SetVisible_def rep_ok_SetVisible_state split: option.split)
  qed (use ok st x in \<open>auto simp: SetAtWar_def SetInactive_def rep_ok_put SendState_rep_ok SendInitial_rep_ok
      SaveToDB_rep_ok ApplyForceReaction_rep_ok Swap_rep_ok LoadFromDB_rep_ok split: option.split\<close>)
qed

lemma reached_rep_ok:
  assumes "store_ok e" "faction_rows e \<le> 2 ^ 32" "list_all recounts ops"
  shows "rep_ok e (run_ops (rep_step e) (rep_Initialize e m0) ops)"
proof -
  have "rep.all_admissible e m ops" for m using assms(3) by (induction ops arbitrary: m) simp_all
  then show ?thesis
    using rep.run_inv [of e "rep_Initialize e m0" ops] Initialize_rep_ok [OF assms(1,2)] assms(1,2) by simp
qed

text \<open>
  C14. Set up a character's factions from a table whose entries are stored under their ids and
  whose list ids are distinct. After any sequence of reputation changes (set, add, swap), loads
  of saved rows (at most one per faction), saves, visibility, war, inactivity and forced rank
  changes and packets, the counters of honoured, revered and exalted factions equal the number
  of factions with at least that rank, modulo 256, their width. \<open>DropFactionReputation\<close> is the
  one operation left out: it does not update the counters.
\<close>

theorem rank_counters_match:
  assumes "store_ok e" "faction_rows e \<le> 2 ^ 32" "list_all recounts ops"
  shows "let m = run_ops (rep_step e) (rep_Initialize e m0) ops
         in rm_honored m = wcount (\<lambda>s. rank_of e s \<ge> REP_HONORED) (rm_factions m) \<and>
            rm_revered m = wcount (\<lambda>s. rank_of e s \<ge> REP_REVERED) (rm_factions m) \<and>
            rm_exalted m = wcount (\<lambda>s. rank_of e s \<ge> REP_EXALTED) (rm_factions m)"
  using reached_rep_ok [OF assms] by (simp add: rep_ok_def Let_def)

lemma demo_store_ok: "store_ok demo_rep_env"
  by (auto simp: store_ok_def demo_rep_env_def demo_faction_def split: if_splits)

theorem rank_counters_match_witness:
  "let m = run_ops (rep_step demo_rep_env) (rep_Initialize demo_rep_env ReputationMgr_new)
             [RepLoad [(72, 6000, 1)], RepSet 72 9500 False False]
   in rm_honored m = wcount (\<lambda>s. rank_of demo_rep_env s \<ge> REP_HONORED) (rm_factions m) \<and>
      rm_revered m = wcount (\<lambda>s. rank_of demo_rep_env s \<ge> REP_REVERED) (rm_factions m) \<and>
      rm_exalted m = wcount (\<lambda>s. rank_of demo_rep_env s \<ge> REP_EXALTED) (rm_factions m)"
  by (rule rank_counters_match [OF demo_store_ok]) (simp_all add: demo_rep_env_def)

section \<open>Dropping a faction\<close>

text \<open>
  \<open>DropFactionReputation\<close> zeroes the standing of the entry with the given list id and
  leaves the rank counters as they were: afterwards each counter is off from the number of
  factions with that rank by exactly one when the entry had the rank before the drop and its
  base reputation does not give it, by minus one in the opposite case, and is exact otherwise.
\<close>

theorem dropped_faction_stays_counted:
  assumes "store_ok e" "faction_rows e \<le> 2 ^ 32" "list_all recounts ops"
    and "m = run_ops (rep_step e) (rep_Initialize e m0) ops"
    and "omap_find (rm_factions m) k = Some s"
  shows "let m' = DropFactionReputation k m;
             off = (\<lambda>r. of_bool (rank_of e s \<ge> r) - of_bool (rank_of e (s\<lparr>fs_Standing := 0\<rparr>) \<ge> r))
         in rm_honored m' = wcount (\<lambda>s. rank_of e s \<ge> REP_HONORED) (rm_factions m') + off REP_HONORED \<and>
            rm_revered m' = wcount (\<lambda>s. rank_of e s \<ge> REP_REVERED) (rm_factions m') + off REP_REVERED \<and>
            rm_exalted m' = wcount (\<lambda>s. rank_of e s \<ge> REP_EXALTED) (rm_factions m') + off REP_EXALTED"
proof -
  have ok: "rep_ok e m" unfolding assms(4) using assms(1-3) by (rule reached_rep_ok)
  then have om: "omap_ok (rm_factions m)" by (simp add: rep_ok_def)
  let ?t = "s\<lparr>fs_needDelete := True, fs_Standing := 0\<rparr>"
  have rank: "rank_of e ?t = rank_of e (s\<lparr>fs_Standing := 0\<rparr>)" by (simp add: rank_of_def)
  have drop: "DropFactionReputation k m = put_state k ?t m"
    by (simp add: DropFactionReputation_def with_state_def assms(5))
  show ?thesis
    using ok wcount_set [OF om assms(5), where v' = ?t]
    by (simp add: drop Let_def put_state_def rep_ok_def rank)
qed

text \<open>The character is honoured with the faction (a standing of 9500) and drops it; its base is 4000.\<close>

theorem dropped_faction_stays_counted_witness:
  "let m = run_ops (rep_step demo_rep_env) (rep_Initialize demo_rep_env ReputationMgr_new)
             [RepSet 72 9500 False False];
       m' = DropFactionReputation 19 m
   in rm_honored m' = 1 \<and> wcount (\<lambda>s. rank_of demo_rep_env s \<ge> REP_HONORED) (rm_factions m') = 0"
proof -
  let ?ops = "[RepSet 72 9500 False False]"
  let ?m = "run_ops (rep_step demo_rep_env) (rep_Initialize demo_rep_env ReputationMgr_new) ?ops"
  have "omap_find (rm_factions ?m) 19 = Some
      \<lparr>fs_ID = 72, fs_listID = 19, fs_Standing = 5500, fs_Flags = 0x11, fs_needSend = False,
       fs_needSave = True, fs_needDelete = False\<rparr>"
    by code_simp
  note off = dropped_faction_stays_counted [OF demo_store_ok _ _ refl this]
  have "wcount (\<lambda>s. rank_of demo_rep_env s \<ge> REP_HONORED) (rm_factions (DropFactionReputation 19 ?m)) = 0"
    by code_simp
  moreover have "rank_of demo_rep_env \<lparr>fs_ID = 72, fs_listID = 19, fs_Standing = 5500, fs_Flags = 0x11,
      fs_needSend = False, fs_needSave = True, fs_needDelete = False\<rparr> = 5"
    and "rank_of demo_rep_env \<lparr>fs_ID = 72, fs_listID = 19, fs_Standing = 0, fs_Flags = 0x11,
      fs_needSend = False, fs_needSave = True, fs_needDelete = False\<rparr> = 4"
    by code_simp+
  ultimately show ?thesis using off by (simp add: Let_def) (simp add: demo_rep_env_def)
qed

text \<open>
  \<open>DropFactionReputation\<close> called with a faction's id, as the faction change command does,
  leaves that faction's reputation as it was whenever its list id differs from its id: the
  id is looked up among the list ids.
\<close>

theorem drop_misses_faction:
  assumes "omap_ok (rm_factions m)" "list_key f \<noteq> fe_ID f"
  shows "GetReputation e (DropFactionReputation (fe_ID f) m) (Some f) = GetReputation e m (Some f)"
  using assms
  by (auto simp: GetReputation_def GetState_def DropFactionReputation_def with_state_def split: option.split)

theorem drop_misses_faction_witness:
  "GetReputation demo_rep_env (DropFactionReputation (fe_ID demo_faction) demo_rep) (Some demo_faction) =
   GetReputation demo_rep_env demo_rep (Some demo_faction)"
  by (rule drop_misses_faction [OF demo_rep_ordered]) (simp add: list_key_def demo_faction_def)

section \<open>The initial packet\<close>

definition entry_fields :: "(uint32, faction_state) omap \<Rightarrow> nat \<Rightarrow> field list" where
  "entry_fields fs n =
     (case omap_find fs (of_nat n) of None \<Rightarrow> [U8 0, U32 0]
      | Some s \<Rightarrow> [U8 (fs_Flags s), U32 (word_of_int (fs_Standing s))])"

lemma absent_fields_entries:
  assumes "a \<le> b" "b \<le> 128" "\<forall>n. unat a \<le> n \<and> n < unat b \<longrightarrow> omap_find fs (of_nat n) = None"
  shows "absent_fields a b = concat (map (entry_fields fs) [unat a..<unat b])"
proof -
  have len: "unat (b - a) = unat b - unat a" using assms(1) by (simp add: unat_sub)
  have "entry_fields fs n = [U8 0, U32 0]" if "n \<in> set [unat a..<unat b]" for n
    using assms(3) that by (simp add: entry_fields_def)
  then have "map (entry_fields fs) [unat a..<unat b] = map (\<lambda>n. [U8 0, U32 0]) [unat a..<unat b]"
    by (intro map_cong) simp_all
  then have "map (entry_fields fs) [unat a..<unat b] = replicate (unat b - unat a) [U8 0, U32 0]"
    by (simp add: map_replicate_const)
  then show ?thesis by (simp add: absent_fields_def len)
qed

lemma unat_of_small_nat: "n < 128 \<Longrightarrow> unat (of_nat n :: uint32) = n"
  by (simp add: unat_of_nat)

lemma initial_fields_entries:
  assumes "omap_ok fs" "\<forall>k \<in> fst ` set fs. a \<le> k \<and> k < 128" "a \<le> 128"
  shows "initial_fields a fs = concat (map (entry_fields fs) [unat a..<128])"
  using assms
proof (induction a fs rule: initial_fields.induct)
  case (1 a)
  then show ?case
    using absent_fields_entries [of a 128 "[]"] by (simp add: omap_find_def)
next
  case (2 a k s fs)
  let ?m = "(k, s) # fs"
  have k: "a \<le> k" "k < 128" and later: "\<forall>j \<in> fst ` set fs. k < j \<and> j < 128"
    using "2.prems" by (auto simp: omap_ok_def)
  have uk: "unat k < 128" "unat a \<le> unat k" "unat (k + 1) = Suc (unat k)"
    using k by (simp_all add: word_less_nat_alt word_le_nat_alt unat_word_ariths(1))
  have front: "omap_find ?m (of_nat n) = None" if "unat a \<le> n" "n < unat k" for n
  proof -
    have "of_nat n < k" using that uk by (simp add: word_less_nat_alt unat_of_small_nat)
    then have "of_nat n \<noteq> k" "of_nat n \<notin> fst ` set fs" using later by (auto dest: less_trans)
    then show ?thesis by (simp add: omap_find_def map_of_eq_None_iff)
  qed
  have rest: "entry_fields ?m n = entry_fields fs n" if "n \<in> set [Suc (unat k)..<128]" for n
  proof -
    have "unat (of_nat n :: uint32) = n" using that by (simp add: unat_of_small_nat)
    then have "of_nat n \<noteq> k" using that by auto
    then show ?thesis by (simp add: entry_fields_def omap_find_def)
  qed
  have "k + 1 \<le> j" if "k < j" for j using that by (simp add: inc_le)
  then have "initial_fields (k + 1) fs = concat (map (entry_fields fs) [Suc (unat k)..<128])"
    using "2.IH" "2.prems"(1) later k by (auto simp: omap_ok_def uk inc_le)
  also have "\<dots> = concat (map (entry_fields ?m) [Suc (unat k)..<128])"
    using rest by (intro arg_cong [where f = concat] map_cong) simp_all
  finally have tail: "initial_fields (k + 1) fs = concat (map (entry_fields ?m) [Suc (unat k)..<128])" .
  have split: "[unat a..<128] = [unat a..<unat k] @ unat k # [Suc (unat k)..<128]"
    using uk upt_add_eq_append [of "unat a" "unat k" "128 - unat k"] by (simp add: upt_conv_Cons)
  have "absent_fields a k = concat (map (entry_fields ?m) [unat a..<unat k])"
    using absent_fields_entries [of a k ?m] front k by (auto simp: less_imp_le)
  moreover have "entry_fields ?m (unat k) = [U8 (fs_Flags s), U32 (word_of_int (fs_Standing s))]"
    by (simp add: entry_fields_def omap_find_def)
  ultimately show ?case by (simp add: split tail)
qed

text \<open>
  The packet of initial reputations lists all 128 slots of the client in order: slot \<open>n\<close>
  carries the flags and standing of the faction with list id \<open>n\<close>, or zeros when the
  character has none, provided every list id is below 128.
\<close>

theorem initial_packet_has_every_slot:
  assumes "omap_ok (rm_factions m)" "\<forall>k \<in> fst ` set (rm_factions m). k < 128"
  shows "SendInitialReputations m =
           rep_emit (RepSend \<lparr>wp_opcode = 0x122,
                              wp_fields = U32 128 # concat (map (entry_fields (rm_factions m)) [0..<128])\<rparr>)
             (m\<lparr>rm_factions := map (\<lambda>(k, s). (k, s\<lparr>fs_needSend := False\<rparr>)) (rm_factions m)\<rparr>)"
  using initial_fields_entries [of "rm_factions m" 0] assms by (simp add: SendInitialReputations_def)

theorem initial_packet_has_every_slot_witness:
  "SendInitialReputations demo_rep =
     rep_emit (RepSend \<lparr>wp_opcode = 0x122,
                        wp_fields = U32 128 # concat (map (entry_fields (rm_factions demo_rep)) [0..<128])\<rparr>)
       (demo_rep\<lparr>rm_factions := map (\<lambda>(k, s). (k, s\<lparr>fs_needSend := False\<rparr>)) (rm_factions demo_rep)\<rparr>)"
  by (rule initial_packet_has_every_slot [OF demo_rep_ordered]) (simp add: demo_rep_def)


end
