(* ===== verification/Social.thy ===== *)
theory Social
  imports Channel
begin

text \<open>
  Friend and ignore lists (src/src/server/game/Entities/Player/SocialMgr.h and SocialMgr.cpp)
  and their packet handlers (src/src/server/game/SocialHandler.cpp). A list is a
  \<open>std::map\<close> from the low guid of the other character to its flags and note. Every change
  is written to the table \<open>character_social\<close> at once; the statements and the packets an
  operation issues are its output, in order. The online players, the character cache, the
  configuration, \<open>utf8truncate\<close> (the vendored UTF-8 library) and the escaping of strings by
  the database connector are the environment.
\<close>

section \<open>State\<close>

record friend_info =
  fi_Status :: uint8
  fi_Flags :: uint32
  fi_Area :: uint32
  fi_Level :: uint32
  fi_Class :: uint32
  fi_Note :: string

definition FriendInfo_new :: "uint32 \<Rightarrow> string \<Rightarrow> friend_info" where
  "FriendInfo_new flags note =
     \<lparr>fi_Status = 0, fi_Flags = flags, fi_Area = 0, fi_Level = 0, fi_Class = 0, fi_Note = note\<rparr>"

abbreviation "SOCIAL_FLAG_FRIEND \<equiv> (0x01 :: uint32)"
abbreviation "SOCIAL_FLAG_IGNORED \<equiv> (0x02 :: uint32)"
abbreviation "SOCIALMGR_FRIEND_LIMIT \<equiv> (50 :: nat)"
abbreviation "SOCIALMGR_IGNORE_LIMIT \<equiv> (25 :: nat)"

abbreviation "FRIEND_STATUS_OFFLINE \<equiv> (0 :: uint8)"
abbreviation "FRIEND_STATUS_ONLINE \<equiv> (1 :: uint8)"
abbreviation "FRIEND_STATUS_AFK \<equiv> (2 :: uint8)"
abbreviation "FRIEND_STATUS_DND \<equiv> (4 :: uint8)"

abbreviation "FRIEND_LIST_FULL \<equiv> (0x01 :: uint8)"
abbreviation "FRIEND_ONLINE \<equiv> (0x02 :: uint8)"
abbreviation "FRIEND_NOT_FOUND \<equiv> (0x04 :: uint8)"
abbreviation "FRIEND_REMOVED \<equiv> (0x05 :: uint8)"
abbreviation "FRIEND_ADDED_ONLINE \<equiv> (0x06 :: uint8)"
abbreviation "FRIEND_ADDED_OFFLINE \<equiv> (0x07 :: uint8)"
abbreviation "FRIEND_ALREADY \<equiv> (0x08 :: uint8)"
abbreviation "FRIEND_SELF \<equiv> (0x09 :: uint8)"
abbreviation "FRIEND_ENEMY \<equiv> (0x0A :: uint8)"
abbreviation "FRIEND_IGNORE_FULL \<equiv> (0x0B :: uint8)"
abbreviation "FRIEND_IGNORE_SELF \<equiv> (0x0C :: uint8)"
abbreviation "FRIEND_IGNORE_NOT_FOUND \<equiv> (0x0D :: uint8)"
abbreviation "FRIEND_IGNORE_ALREADY \<equiv> (0x0E :: uint8)"
abbreviation "FRIEND_IGNORE_ADDED \<equiv> (0x0F :: uint8)"
abbreviation "FRIEND_IGNORE_REMOVED \<equiv> (0x10 :: uint8)"
abbreviation "SMSG_CONTACT_LIST \<equiv> (0x067 :: uint16)"
abbreviation "SMSG_FRIEND_STATUS \<equiv> (0x068 :: uint16)"

text \<open>The statements on \<open>character_social\<close>, with the values put into their text.\<close>

datatype social_stmt =
    UpdOrFlags uint32 uint32 uint32
  | InsSocial uint32 uint32 uint32
  | DelSocial uint32 uint32
  | UpdAndNotFlags uint32 uint32 uint32
  | UpdNote string uint32 uint32

record player_social =
  ps_map :: "(uint32, friend_info) omap"
  ps_guid :: uint32

definition PlayerSocial_new :: player_social where
  "PlayerSocial_new = \<lparr>ps_map = [], ps_guid = 0\<rparr>"

text \<open>What the code asks of a player, beyond what the channels ask.\<close>

record social_player = player +
  sp_zone :: uint32
  sp_class :: uint32
  sp_afk :: bool
  sp_dnd :: bool
  sp_in_world :: bool

record char_info =
  ci_team :: uint32
  ci_account_security :: nat

record social_env =
  se_connected :: "guid \<Rightarrow> social_player option"
  se_find_player :: "guid \<Rightarrow> social_player option"
  visible_globally_for :: "guid \<Rightarrow> guid \<Rightarrow> bool"
  two_side_who_list :: bool
  gm_level_in_who_list :: nat
  allow_gm_friend :: bool
  two_side_add_friend :: bool
  char_guid_by_name :: "string \<Rightarrow> uint32"
  char_cache :: "uint32 \<Rightarrow> char_info option"
  se_normalize_name :: "string \<Rightarrow> string option"
  utf8truncate48 :: "string \<Rightarrow> string"
  escape_string :: "string \<Rightarrow> string"

datatype social_effect = SocialSend guid world_packet | SocialSql social_stmt

record social_mgr =
  sm_map :: "(uint32, player_social) omap"
  sm_out :: "social_effect list"

section \<open>One player's list\<close>

definition GetNumberOfSocialsWithFlag :: "uint32 \<Rightarrow> player_social \<Rightarrow> uint32" where
  "GetNumberOfSocialsWithFlag flag ps =
     of_nat (length (filter (\<lambda>(k, i). has_flag (fi_Flags i) flag) (ps_map ps)))"

definition social_flag :: "bool \<Rightarrow> uint32" where
  "social_flag ignore = (if ignore then SOCIAL_FLAG_IGNORED else SOCIAL_FLAG_FRIEND)"

definition AddToSocialList :: "uint32 \<Rightarrow> bool \<Rightarrow> player_social \<Rightarrow> bool \<times> player_social \<times> social_stmt list" where
  "AddToSocialList friend_guid ignore ps =
     (if (if ignore then GetNumberOfSocialsWithFlag SOCIAL_FLAG_IGNORED ps \<ge> of_nat SOCIALMGR_IGNORE_LIMIT
          else GetNumberOfSocialsWithFlag SOCIAL_FLAG_FRIEND ps \<ge> of_nat SOCIALMGR_FRIEND_LIMIT)
      then (False, ps, [])
      else
        let flag = social_flag ignore
        in case omap_find (ps_map ps) friend_guid of
             Some i \<Rightarrow>
               (True, ps\<lparr>ps_map := omap_set friend_guid (i\<lparr>fi_Flags := add_flag (fi_Flags i) flag\<rparr>) (ps_map ps)\<rparr>,
                [UpdOrFlags flag (ps_guid ps) friend_guid])
           | None \<Rightarrow>
               let fi = FriendInfo_new 0 ''''
               in (True, ps\<lparr>ps_map := omap_set friend_guid (fi\<lparr>fi_Flags := add_flag (fi_Flags fi) flag\<rparr>) (ps_map ps)\<rparr>,
                   [InsSocial (ps_guid ps) friend_guid flag]))"

definition RemoveFromSocialList :: "uint32 \<Rightarrow> bool \<Rightarrow> player_social \<Rightarrow> player_social \<times> social_stmt list" where
  "RemoveFromSocialList friend_guid ignore ps =
     (case omap_find (ps_map ps) friend_guid of
        None \<Rightarrow> (ps, [])
      | Some i \<Rightarrow>
          let flag = social_flag ignore;
              i' = i\<lparr>fi_Flags := del_flag (fi_Flags i) flag\<rparr>
          in if fi_Flags i' = 0
             then (ps\<lparr>ps_map := omap_erase friend_guid (ps_map ps)\<rparr>, [DelSocial (ps_guid ps) friend_guid])
             else (ps\<lparr>ps_map := omap_set friend_guid i' (ps_map ps)\<rparr>,
                   [UpdAndNotFlags flag (ps_guid ps) friend_guid]))"

definition SetFriendNote :: "social_env \<Rightarrow> uint32 \<Rightarrow> string \<Rightarrow> player_social \<Rightarrow> player_social \<times> social_stmt list" where
  "SetFriendNote e friend_guid note ps =
     (case omap_find (ps_map ps) friend_guid of
        None \<Rightarrow> (ps, [])
      | Some i \<Rightarrow>
          let note' = escape_string e (utf8truncate48 e note)
          in (ps\<lparr>ps_map := omap_set friend_guid (i\<lparr>fi_Note := note'\<rparr>) (ps_map ps)\<rparr>,
              [UpdNote note' (ps_guid ps) friend_guid]))"

definition HasFriend :: "uint32 \<Rightarrow> player_social \<Rightarrow> bool" where
  "HasFriend friend_guid ps =
     (case omap_find (ps_map ps) friend_guid of
        None \<Rightarrow> False | Some i \<Rightarrow> has_flag (fi_Flags i) SOCIAL_FLAG_FRIEND)"

definition HasIgnore :: "uint32 \<Rightarrow> player_social \<Rightarrow> bool" where
  "HasIgnore ignore_guid ps =
     (case omap_find (ps_map ps) ignore_guid of
        None \<Rightarrow> False | Some i \<Rightarrow> has_flag (fi_Flags i) SOCIAL_FLAG_IGNORED)"

section \<open>The manager\<close>

definition low_player :: "uint32 \<Rightarrow> guid" where
  "low_player low = guid_of_counter HG_Player low"

text \<open>\<open>player->GetSocial()\<close> points into the manager's map; the player's key is its low guid.\<close>

definition social_of :: "'a player_scheme \<Rightarrow> social_mgr \<Rightarrow> player_social option" where
  "social_of p sm = omap_find (sm_map sm) (guid_counter (pl_guid p))"

definition RemovePlayerSocial :: "uint32 \<Rightarrow> social_mgr \<Rightarrow> social_mgr" where
  "RemovePlayerSocial g sm = sm\<lparr>sm_map := omap_erase g (sm_map sm)\<rparr>"

definition GetFriendInfo ::
  "social_env \<Rightarrow> social_mgr \<Rightarrow> social_player option \<Rightarrow> uint32 \<Rightarrow> friend_info \<Rightarrow> friend_info" where
  "GetFriendInfo e sm pl friendGUID friendInfo =
     (case pl of None \<Rightarrow> friendInfo
      | Some p \<Rightarrow>
          let i0 = friendInfo\<lparr>fi_Status := FRIEND_STATUS_OFFLINE, fi_Area := 0, fi_Level := 0, fi_Class := 0\<rparr>
          in case se_connected e (low_player friendGUID) of
               None \<Rightarrow> i0
             | Some f \<Rightarrow>
                 let i1 = (case social_of p sm of
                             None \<Rightarrow> i0
                           | Some ps \<Rightarrow> (case omap_find (ps_map ps) friendGUID of
                                           None \<Rightarrow> i0 | Some own \<Rightarrow> i0\<lparr>fi_Note := fi_Note own\<rparr>))
                 in if pl_name f \<noteq> [] \<and>
                       (pl_security p > SEC_PLAYER \<or>
                        ((pl_team f = pl_team p \<or> two_side_who_list e) \<and>
                         pl_security f \<le> gm_level_in_who_list e)) \<and>
                       visible_globally_for e (pl_guid f) (pl_guid p)
                    then i1\<lparr>fi_Status := (if sp_dnd f then FRIEND_STATUS_DND
                                          else if sp_afk f then FRIEND_STATUS_AFK else FRIEND_STATUS_ONLINE),
                             fi_Area := sp_zone f, fi_Level := pl_level f, fi_Class := sp_class f\<rparr>
                    else i1)"

definition social_emit :: "social_effect \<Rightarrow> social_mgr \<Rightarrow> social_mgr" where
  "social_emit x sm = sm\<lparr>sm_out := sm_out sm @ [x]\<rparr>"

definition contact_fields :: "uint32 \<times> friend_info \<Rightarrow> field list" where
  "contact_fields ki =
     (case ki of (k, i) \<Rightarrow>
        [U64 (ucast k), U32 (fi_Flags i), Str (fi_Note i)] @
        (if has_flag (fi_Flags i) SOCIAL_FLAG_FRIEND then
           U8 (fi_Status i) #
           (if fi_Status i \<noteq> 0 then [U32 (fi_Area i), U32 (fi_Level i), U32 (fi_Class i)] else [])
         else []))"

text \<open>\<open>SendSocialList\<close> refreshes the entries as it writes them.\<close>

definition SendSocialList :: "social_env \<Rightarrow> uint32 \<Rightarrow> social_mgr \<Rightarrow> social_mgr" where
  "SendSocialList e g sm =
     (case omap_find (sm_map sm) g of
        None \<Rightarrow> sm
      | Some ps \<Rightarrow>
          (case se_connected e (low_player (ps_guid ps)) of
             None \<Rightarrow> sm
           | Some p \<Rightarrow>
               let m' = map (\<lambda>(k, i). (k, GetFriendInfo e sm (Some p) k i)) (ps_map ps)
               in social_emit (SocialSend (pl_guid p)
                    \<lparr>wp_opcode = SMSG_CONTACT_LIST,
                     wp_fields = [U32 7, U32 (of_nat (length (ps_map ps)))] @ concat (map contact_fields m')\<rparr>)
                    (sm\<lparr>sm_map := omap_set g (ps\<lparr>ps_map := m'\<rparr>) (sm_map sm)\<rparr>)))"

definition MakeFriendStatusPacket :: "uint8 \<Rightarrow> uint32 \<Rightarrow> world_packet" where
  "MakeFriendStatusPacket res g = \<lparr>wp_opcode = SMSG_FRIEND_STATUS, wp_fields = [U8 res, U64 (ucast g)]\<rparr>"

text \<open>The players a broadcast reaches, in the order of the manager's map.\<close>

definition hears_status :: "social_env \<Rightarrow> social_player \<Rightarrow> uint32 \<times> player_social \<Rightarrow> bool" where
  "hears_status e p entry =
     (case entry of (k, ps) \<Rightarrow>
        HasFriend (guid_counter (pl_guid p)) ps \<and>
        (case se_find_player e (low_player k) of
           None \<Rightarrow> False
         | Some f \<Rightarrow>
             sp_in_world f \<and>
             (pl_security f > SEC_PLAYER \<or>
              (pl_team f = pl_team p \<or> (two_side_who_list e \<and> pl_security p \<le> gm_level_in_who_list e))) \<and>
             visible_globally_for e (pl_guid p) (pl_guid f)))"

definition BroadcastToFriendListers ::
  "social_env \<Rightarrow> social_player \<Rightarrow> world_packet \<Rightarrow> social_mgr \<Rightarrow> social_mgr" where
  "BroadcastToFriendListers e p packet sm =
     fold (\<lambda>(k, ps). case se_find_player e (low_player k) of
                       None \<Rightarrow> id | Some f \<Rightarrow> social_emit (SocialSend (pl_guid f) packet))
       (filter (hears_status e p) (sm_map sm)) sm"

definition SendFriendStatus ::
  "social_env \<Rightarrow> social_player \<Rightarrow> uint8 \<Rightarrow> uint32 \<Rightarrow> bool \<Rightarrow> social_mgr \<Rightarrow> social_mgr" where
  "SendFriendStatus e p res friend_guid broadcast sm =
     (let fi = GetFriendInfo e sm (Some p) friend_guid (FriendInfo_new 0 '''');
          base = MakeFriendStatusPacket res friend_guid;
          data = base\<lparr>wp_fields := wp_fields base @
                   (if res = FRIEND_ADDED_OFFLINE \<or> res = FRIEND_ADDED_ONLINE then [Str (fi_Note fi)] else []) @
                   (if res = FRIEND_ADDED_ONLINE \<or> res = FRIEND_ONLINE
                    then [U8 (fi_Status fi), U32 (fi_Area fi), U32 (fi_Level fi), U32 (fi_Class fi)] else [])\<rparr>
      in if broadcast then BroadcastToFriendListers e p data sm
         else social_emit (SocialSend (pl_guid p) data) sm)"

text \<open>\<open>&m_socialMap[guid]\<close> with its guid set.\<close>

definition GetDefault :: "uint32 \<Rightarrow> social_mgr \<Rightarrow> social_mgr" where
  "GetDefault g sm =
     (let (ps, m) = omap_index PlayerSocial_new g (sm_map sm)
      in sm\<lparr>sm_map := omap_set g (ps\<lparr>ps_guid := g\<rparr>) m\<rparr>)"

fun load_social_rows ::
  "(uint32 \<times> uint8 \<times> string) list \<Rightarrow> (uint32, friend_info) omap \<Rightarrow> (uint32, friend_info) omap" where
  "load_social_rows [] m = m"
| "load_social_rows ((f, flags, note) # rows) m =
     (let m' = omap_set f (FriendInfo_new (ucast flags) note) m
      in if length m' \<ge> SOCIALMGR_FRIEND_LIMIT + SOCIALMGR_IGNORE_LIMIT then m'
         else load_social_rows rows m')"

definition social_LoadFromDB :: "(uint32 \<times> uint8 \<times> string) list \<Rightarrow> uint32 \<Rightarrow> social_mgr \<Rightarrow> social_mgr" where
  "social_LoadFromDB rows g sm =
     (let sm1 = GetDefault g sm
      in case omap_find (sm_map sm1) g of
           None \<Rightarrow> sm1
         | Some ps \<Rightarrow>
             sm1\<lparr>sm_map := omap_set g (ps\<lparr>ps_map := load_social_rows rows (ps_map ps)\<rparr>) (sm_map sm1)\<rparr>)"

section \<open>The packet handlers\<close>

text \<open>An operation on the list of player \<open>g\<close>: its new list and the statements it executes.\<close>

definition on_social ::
  "uint32 \<Rightarrow> (player_social \<Rightarrow> player_social \<times> social_stmt list) \<Rightarrow> social_mgr \<Rightarrow> social_mgr" where
  "on_social g act sm =
     (case omap_find (sm_map sm) g of
        None \<Rightarrow> sm
      | Some ps \<Rightarrow>
          (case act ps of (ps', stmts) \<Rightarrow>
             fold (\<lambda>x. social_emit (SocialSql x)) stmts (sm\<lparr>sm_map := omap_set g ps' (sm_map sm)\<rparr>)))"

definition HandleContactListOpcode ::
  "social_env \<Rightarrow> social_player \<Rightarrow> byte_buffer \<Rightarrow> social_mgr \<Rightarrow> (bb_error, social_mgr) result" where
  "HandleContactListOpcode e p b sm =
     bind_result (read_word b) (\<lambda>(unk :: uint32, b1).
       Inr (SendSocialList e (guid_counter (pl_guid p)) sm))"

text \<open>The part of \<open>HandleAddFriendOpcode\<close> for a character that exists: the result and the list.\<close>

definition add_friend ::
  "social_env \<Rightarrow> social_player \<Rightarrow> uint32 \<Rightarrow> char_info \<Rightarrow> player_social \<Rightarrow> uint8 \<times> player_social \<times> social_stmt list" where
  "add_friend e p friendGuid info ps =
     (if ucast friendGuid = pl_guid p then (FRIEND_SELF, ps, [])
      else if pl_team p \<noteq> ci_team info \<and> \<not> two_side_add_friend e \<and> pl_security p < SEC_GAMEMASTER1
      then (FRIEND_ENEMY, ps, [])
      else if HasFriend friendGuid ps then (FRIEND_ALREADY, ps, [])
      else
        let online = (case se_find_player e (low_player friendGuid) of
                        None \<Rightarrow> False
                      | Some f \<Rightarrow> sp_in_world f \<and> visible_globally_for e (pl_guid f) (pl_guid p))
        in case AddToSocialList friendGuid False ps of (ok, ps', stmts) \<Rightarrow>
             (if \<not> ok then FRIEND_LIST_FULL else if online then FRIEND_ADDED_ONLINE else FRIEND_ADDED_OFFLINE,
              ps', stmts))"

definition HandleAddFriendOpcode ::
  "social_env \<Rightarrow> social_player \<Rightarrow> byte_buffer \<Rightarrow> social_mgr \<Rightarrow> (bb_error, social_mgr) result" where
  "HandleAddFriendOpcode e p b sm =
     bind_result (read_string b) (\<lambda>(raw, b1).
     bind_result (read_string b1) (\<lambda>(friendNote, b2).
       case se_normalize_name e raw of
         None \<Rightarrow> Inr sm
       | Some friendName \<Rightarrow>
           let friendGuid = char_guid_by_name e friendName;
               self = guid_counter (pl_guid p)
           in Inr (case (if friendGuid = 0 then None else char_cache e friendGuid) of
                None \<Rightarrow> SendFriendStatus e p FRIEND_NOT_FOUND friendGuid False sm
              | Some info \<Rightarrow>
                  if \<not> (pl_security p \<ge> SEC_GAMEMASTER1 \<or> allow_gm_friend e \<or>
                        ci_account_security info < SEC_GAMEMASTER1)
                  then SendFriendStatus e p FRIEND_NOT_FOUND friendGuid False sm
                  else
                    let res = (case omap_find (sm_map sm) self of
                                 None \<Rightarrow> FRIEND_NOT_FOUND | Some ps \<Rightarrow> fst (add_friend e p friendGuid info ps));
                        sm1 = on_social self (\<lambda>ps. snd (add_friend e p friendGuid info ps)) sm;
                        sm2 = on_social self (SetFriendNote e friendGuid friendNote) sm1
                    in SendFriendStatus e p res friendGuid False sm2)))"

definition HandleDelFriendOpcode ::
  "social_env \<Rightarrow> social_player \<Rightarrow> byte_buffer \<Rightarrow> social_mgr \<Rightarrow> (bb_error, social_mgr) result" where
  "HandleDelFriendOpcode e p b sm =
     bind_result (read_word b) (\<lambda>(friendGUID :: uint64, b1).
       Inr (SendFriendStatus e p FRIEND_REMOVED (guid_counter friendGUID) False
              (on_social (guid_counter (pl_guid p))
                 (RemoveFromSocialList (guid_counter friendGUID) False) sm)))"

definition add_ignore ::
  "social_player \<Rightarrow> uint32 \<Rightarrow> player_social \<Rightarrow> uint8 \<times> player_social \<times> social_stmt list" where
  "add_ignore p ignoreGuid ps =
     (if ucast ignoreGuid = pl_guid p then (FRIEND_IGNORE_SELF, ps, [])
      else if HasIgnore ignoreGuid ps then (FRIEND_IGNORE_ALREADY, ps, [])
      else case AddToSocialList ignoreGuid True ps of (ok, ps', stmts) \<Rightarrow>
             (if ok then FRIEND_IGNORE_ADDED else FRIEND_IGNORE_FULL, ps', stmts))"

definition HandleAddIgnoreOpcode ::
  "social_env \<Rightarrow> social_player \<Rightarrow> byte_buffer \<Rightarrow> social_mgr \<Rightarrow> (bb_error, social_mgr) result" where
  "HandleAddIgnoreOpcode e p b sm =
     bind_result (read_string b) (\<lambda>(raw, b1).
       case se_normalize_name e raw of
         None \<Rightarrow> Inr sm
       | Some ignoreName \<Rightarrow>
           let ignoreGuid = char_guid_by_name e ignoreName;
               self = guid_counter (pl_guid p)
           in Inr (if ignoreGuid = 0 then SendFriendStatus e p FRIEND_IGNORE_NOT_FOUND ignoreGuid False sm
                   else
                     let res = (case omap_find (sm_map sm) self of
                                  None \<Rightarrow> FRIEND_IGNORE_NOT_FOUND | Some ps \<Rightarrow> fst (add_ignore p ignoreGuid ps))
                     in SendFriendStatus e p res ignoreGuid False
                          (on_social self (\<lambda>ps. snd (add_ignore p ignoreGuid ps)) sm)))"

definition HandleDelIgnoreOpcode ::
  "social_env \<Rightarrow> social_player \<Rightarrow> byte_buffer \<Rightarrow> social_mgr \<Rightarrow> (bb_error, social_mgr) result" where
  "HandleDelIgnoreOpcode e p b sm =
     bind_result (read_word b) (\<lambda>(ignoreGUID :: uint64, b1).
       Inr (SendFriendStatus e p FRIEND_IGNORE_REMOVED (guid_counter ignoreGUID) False
              (on_social (guid_counter (pl_guid p))
                 (RemoveFromSocialList (guid_counter ignoreGUID) True) sm)))"

text \<open>The note handler passes the whole guid where a 32-bit low guid is expected.\<close>

definition HandleSetContactNotesOpcode ::
  "social_env \<Rightarrow> social_player \<Rightarrow> byte_buffer \<Rightarrow> social_mgr \<Rightarrow> (bb_error, social_mgr) result" where
  "HandleSetContactNotesOpcode e p b sm =
     bind_result (read_word b) (\<lambda>(g :: uint64, b1).
     bind_result (read_string b1) (\<lambda>(note, b2).
       Inr (on_social (guid_counter (pl_guid p)) (SetFriendNote e (ucast g) note) sm)))"


section \<open>The table\<close>

text \<open>The effect of the statements on \<open>character_social\<close>, keyed by owner and friend.\<close>

type_synonym social_table = "uint32 \<times> uint32 \<Rightarrow> (uint32 \<times> string) option"

fun exec_social :: "(string \<Rightarrow> string) \<Rightarrow> social_stmt \<Rightarrow> social_table \<Rightarrow> social_table" where
  "exec_social unesc (UpdOrFlags fl g f) db =
     db((g, f) := map_option (\<lambda>(w, n). (add_flag w fl, n)) (db (g, f)))"
| "exec_social unesc (InsSocial g f fl) db =
     (if db (g, f) = None then db((g, f) := Some (fl, '''')) else db)"
| "exec_social unesc (DelSocial g f) db = db((g, f) := None)"
| "exec_social unesc (UpdAndNotFlags fl g f) db =
     db((g, f) := map_option (\<lambda>(w, n). (del_flag w fl, n)) (db (g, f)))"
| "exec_social unesc (UpdNote lit g f) db =
     db((g, f) := map_option (\<lambda>(w, n). (w, unesc lit)) (db (g, f)))"

definition table_after :: "(string \<Rightarrow> string) \<Rightarrow> social_table \<Rightarrow> social_effect list \<Rightarrow> social_table" where
  "table_after unesc db effs =
     fold (\<lambda>x db. case x of SocialSql s \<Rightarrow> exec_social unesc s db | SocialSend g d \<Rightarrow> db) effs db"

definition mirrors :: "social_table \<Rightarrow> player_social \<Rightarrow> bool" where
  "mirrors db ps \<longleftrightarrow>
     (\<forall>f. map_option fst (db (ps_guid ps, f)) = map_option fi_Flags (omap_find (ps_map ps) f))"

section \<open>Invariants\<close>

definition flag_count :: "uint32 \<Rightarrow> (uint32, friend_info) omap \<Rightarrow> nat" where
  "flag_count flag m = length (filter (\<lambda>(k, i). has_flag (fi_Flags i) flag) m)"

definition social_ok :: "player_social \<Rightarrow> bool" where
  "social_ok ps \<longleftrightarrow>
     omap_ok (ps_map ps) \<and>
     (\<forall>(k, i) \<in> set (ps_map ps). fi_Flags i \<in> {1, 2, 3}) \<and>
     flag_count SOCIAL_FLAG_FRIEND (ps_map ps) \<le> SOCIALMGR_FRIEND_LIMIT \<and>
     flag_count SOCIAL_FLAG_IGNORED (ps_map ps) \<le> SOCIALMGR_IGNORE_LIMIT"

text \<open>What every operation on a list keeps.\<close>

definition good_change :: "(string \<Rightarrow> string) \<Rightarrow> player_social \<Rightarrow> player_social \<times> social_stmt list \<Rightarrow> bool" where
  "good_change unesc ps r \<longleftrightarrow>
     social_ok (fst r) \<and> ps_guid (fst r) = ps_guid ps \<and>
     (\<forall>db. mirrors db ps \<longrightarrow> mirrors (fold (exec_social unesc) (snd r) db) (fst r)) \<and>
     (\<forall>db g f. g \<noteq> ps_guid ps \<longrightarrow> fold (exec_social unesc) (snd r) db (g, f) = db (g, f))"

lemma social_flags_cases:
  "social_ok ps \<Longrightarrow> omap_find (ps_map ps) f = Some i \<Longrightarrow> fi_Flags i \<in> {1, 2, 3}"
  using omap_find_in_set by (fastforce simp: social_ok_def)

lemma social_set_ok:
  assumes "social_ok ps" "fi_Flags i \<in> {1, 2, 3}"
    and "flag_count 1 (omap_set f i (ps_map ps)) \<le> 50" "flag_count 2 (omap_set f i (ps_map ps)) \<le> 25"
  shows "social_ok (ps\<lparr>ps_map := omap_set f i (ps_map ps)\<rparr>)"
proof -
  have "\<forall>(k, j) \<in> set (omap_set f i (ps_map ps)). fi_Flags j \<in> {1, 2, 3}"
    using assms(1,2) omap_in_set_find [OF omap_set_ok] social_flags_cases [OF assms(1)]
    by (fastforce simp: social_ok_def om.find_put split: if_splits)
  then show ?thesis using assms by (simp add: social_ok_def omap_set_ok)
qed

lemma flag_count_set:
  assumes "omap_ok m"
  shows "flag_count w (omap_set f i m) +
           (case omap_find m f of None \<Rightarrow> 0 | Some j \<Rightarrow> of_bool (has_flag (fi_Flags j) w)) =
         flag_count w m + of_bool (has_flag (fi_Flags i) w)"
  using omap_count_set [OF assms, of "\<lambda>(k, i). has_flag (fi_Flags i) w" f i]
  by (simp add: flag_count_def split: option.split_asm option.split)


lemma social_count_word:
  assumes "social_ok ps"
  shows "GetNumberOfSocialsWithFlag 1 ps \<ge> 50 \<longleftrightarrow> flag_count 1 (ps_map ps) \<ge> 50"
    and "GetNumberOfSocialsWithFlag 2 ps \<ge> 25 \<longleftrightarrow> flag_count 2 (ps_map ps) \<ge> 25"
  using assms
  by (simp_all add: social_ok_def GetNumberOfSocialsWithFlag_def flag_count_def word_le_nat_alt unat_of_nat)

lemma mirrors_None: "mirrors db ps \<Longrightarrow> omap_find (ps_map ps) f = None \<Longrightarrow> db (ps_guid ps, f) = None"
  by (metis mirrors_def map_option_is_None)

lemma mirrors_Some:
  "mirrors db ps \<Longrightarrow> omap_find (ps_map ps) f = Some i \<Longrightarrow> \<exists>n. db (ps_guid ps, f) = Some (fi_Flags i, n)"
  unfolding mirrors_def by (erule allE [of _ f]) auto

lemma mirrors_set:
  assumes "mirrors db ps" "omap_ok (ps_map ps)"
    and "map_option fst v = Some (fi_Flags i)"
  shows "mirrors (db((ps_guid ps, f) := v)) (ps\<lparr>ps_map := omap_set f i (ps_map ps)\<rparr>)"
  using assms by (auto simp: mirrors_def om.find_put)

lemma good_changeI:
  assumes "social_ok ps'" "ps_guid ps' = ps_guid ps"
    and "\<And>db. mirrors db ps \<Longrightarrow> mirrors (exec_social unesc s db) ps'"
    and "\<And>db g f. g \<noteq> ps_guid ps \<Longrightarrow> exec_social unesc s db (g, f) = db (g, f)"
  shows "good_change unesc ps (ps', [s])"
  using assms by (simp add: good_change_def)

lemmas flag_values = add_flag_def del_flag_def has_flag_def social_flag_def FriendInfo_new_def

lemma AddToSocialList_good:
  assumes ok: "social_ok ps"
  shows "good_change unesc ps (snd (AddToSocialList f ign ps))"
proof -
  have m: "omap_ok (ps_map ps)" using ok by (simp add: social_ok_def)
  have counts: "flag_count 1 (ps_map ps) \<le> 50" "flag_count 2 (ps_map ps) \<le> 25"
    using ok by (simp_all add: social_ok_def)
  note words = social_count_word [OF ok]
  show ?thesis
  proof (cases "if ign then flag_count 2 (ps_map ps) \<ge> 25 else flag_count 1 (ps_map ps) \<ge> 50")
    case True
    then show ?thesis using ok words by (auto simp: AddToSocialList_def good_change_def split: if_splits)
  next
    case room: False
    show ?thesis
    proof (cases "omap_find (ps_map ps) f")
      case None
      have "social_ok (ps\<lparr>ps_map := omap_set f (FriendInfo_new (social_flag ign) '''') (ps_map ps)\<rparr>)"
        using flag_count_set [OF m, of 1 f "FriendInfo_new (social_flag ign) ''''"]
          flag_count_set [OF m, of 2 f "FriendInfo_new (social_flag ign) ''''"] None room counts
        by (intro social_set_ok [OF ok]) (auto simp: flag_values split: if_splits)
      then have "good_change unesc ps
          (ps\<lparr>ps_map := omap_set f (FriendInfo_new (social_flag ign) '''') (ps_map ps)\<rparr>,
           [InsSocial (ps_guid ps) f (social_flag ign)])"
        using None m by (intro good_changeI) (auto dest: mirrors_None intro!: mirrors_set simp: FriendInfo_new_def)
      then show ?thesis
        using None room words by (auto simp: AddToSocialList_def Let_def flag_values split: if_splits)
    next
      case (Some i)
      let ?i = "i\<lparr>fi_Flags := add_flag (fi_Flags i) (social_flag ign)\<rparr>"
      have w: "fi_Flags i \<in> {1, 2, 3}" using social_flags_cases [OF ok Some] .
      have "social_ok (ps\<lparr>ps_map := omap_set f ?i (ps_map ps)\<rparr>)"
        using flag_count_set [OF m, of 1 f ?i] flag_count_set [OF m, of 2 f ?i] Some room counts w
        by (intro social_set_ok [OF ok]) (auto simp: flag_values split: if_splits)
      then have "good_change unesc ps (ps\<lparr>ps_map := omap_set f ?i (ps_map ps)\<rparr>,
          [UpdOrFlags (social_flag ign) (ps_guid ps) f])"
        using m by (intro good_changeI) (auto dest: mirrors_Some [OF _ Some] intro!: mirrors_set)
      then show ?thesis
        using Some room words by (auto simp: AddToSocialList_def Let_def split: if_splits)
    qed
  qed
qed


lemma mirrors_erase:
  assumes "mirrors db ps" "omap_ok (ps_map ps)"
  shows "mirrors (db((ps_guid ps, f) := None)) (ps\<lparr>ps_map := omap_erase f (ps_map ps)\<rparr>)"
  using assms by (auto simp: mirrors_def om.find_erase)

lemma social_erase_ok:
  assumes "social_ok ps"
  shows "social_ok (ps\<lparr>ps_map := omap_erase f (ps_map ps)\<rparr>)"
proof -
  have "\<forall>(k, i) \<in> set (omap_erase f (ps_map ps)). fi_Flags i \<in> {1, 2, 3}"
    using assms omap_erase_subset [of f "ps_map ps"] by (fastforce simp: social_ok_def)
  then show ?thesis
    using assms omap_count_erase [of "\<lambda>(k, i). has_flag (fi_Flags i) 1" f "ps_map ps"]
      omap_count_erase [of "\<lambda>(k, i). has_flag (fi_Flags i) 2" f "ps_map ps"]
    by (simp add: social_ok_def omap_erase_ok flag_count_def)
qed

lemma good_change_id: "social_ok ps \<Longrightarrow> good_change unesc ps (ps, [])"
  by (simp add: good_change_def)

lemma RemoveFromSocialList_good:
  assumes ok: "social_ok ps"
  shows "good_change unesc ps (RemoveFromSocialList f ign ps)"
proof (cases "omap_find (ps_map ps) f")
  case None
  then show ?thesis using ok by (simp add: RemoveFromSocialList_def good_change_id)
next
  case (Some i)
  let ?i = "i\<lparr>fi_Flags := del_flag (fi_Flags i) (social_flag ign)\<rparr>"
  have m: "omap_ok (ps_map ps)" using ok by (simp add: social_ok_def)
  have w: "fi_Flags i \<in> {1, 2, 3}" using social_flags_cases [OF ok Some] .
  show ?thesis
  proof (cases "fi_Flags ?i = 0")
    case True
    have "good_change unesc ps (ps\<lparr>ps_map := omap_erase f (ps_map ps)\<rparr>, [DelSocial (ps_guid ps) f])"
      using ok m by (intro good_changeI) (auto intro: social_erase_ok mirrors_erase)
    then show ?thesis using Some True by (simp add: RemoveFromSocialList_def Let_def)
  next
    case False
    have "flag_count 1 (ps_map ps) \<le> 50" "flag_count 2 (ps_map ps) \<le> 25"
      using ok by (simp_all add: social_ok_def)
    then have "social_ok (ps\<lparr>ps_map := omap_set f ?i (ps_map ps)\<rparr>)"
      using flag_count_set [OF m, of 1 f ?i] flag_count_set [OF m, of 2 f ?i] Some w False
      by (intro social_set_ok [OF ok]) (auto simp: flag_values split: if_splits)
    then have "good_change unesc ps (ps\<lparr>ps_map := omap_set f ?i (ps_map ps)\<rparr>,
        [UpdAndNotFlags (social_flag ign) (ps_guid ps) f])"
      using m by (intro good_changeI) (auto dest: mirrors_Some [OF _ Some] intro!: mirrors_set)
    then show ?thesis using Some False by (simp add: RemoveFromSocialList_def Let_def)
  qed
qed

lemma SetFriendNote_good:
  assumes ok: "social_ok ps"
  shows "good_change unesc ps (SetFriendNote e f note ps)"
proof (cases "omap_find (ps_map ps) f")
  case None
  then show ?thesis using ok by (simp add: SetFriendNote_def good_change_id)
next
  case (Some i)
  let ?note = "escape_string e (utf8truncate48 e note)"
  let ?i = "i\<lparr>fi_Note := ?note\<rparr>"
  have m: "omap_ok (ps_map ps)" using ok by (simp add: social_ok_def)
  have "flag_count 1 (ps_map ps) \<le> 50" "flag_count 2 (ps_map ps) \<le> 25"
    using ok by (simp_all add: social_ok_def)
  then have "social_ok (ps\<lparr>ps_map := omap_set f ?i (ps_map ps)\<rparr>)"
    using flag_count_set [OF m, of 1 f ?i] flag_count_set [OF m, of 2 f ?i] Some
      social_flags_cases [OF ok Some]
    by (intro social_set_ok [OF ok]) auto
  then have "good_change unesc ps (ps\<lparr>ps_map := omap_set f ?i (ps_map ps)\<rparr>, [UpdNote ?note (ps_guid ps) f])"
    using m by (intro good_changeI) (auto dest: mirrors_Some [OF _ Some] intro!: mirrors_set)
  then show ?thesis using Some by (simp add: SetFriendNote_def Let_def)
qed


section \<open>All lists, all packets\<close>

definition socials_ok :: "(string \<Rightarrow> string) \<Rightarrow> social_table \<Rightarrow> social_mgr \<Rightarrow> bool" where
  "socials_ok unesc db0 sm \<longleftrightarrow>
     omap_ok (sm_map sm) \<and>
     (\<forall>g ps. omap_find (sm_map sm) g = Some ps \<longrightarrow>
        ps_guid ps = g \<and> social_ok ps \<and> mirrors (table_after unesc db0 (sm_out sm)) ps)"

lemma table_after_send: "table_after unesc db0 (effs @ [SocialSend g d]) = table_after unesc db0 effs"
  by (simp add: table_after_def)

lemma socials_ok_send: "socials_ok unesc db0 (social_emit (SocialSend g d) sm) = socials_ok unesc db0 sm"
  by (simp add: socials_ok_def social_emit_def table_after_send)

lemma fold_social_emit:
  "fold (\<lambda>x. social_emit (SocialSql x)) stmts sm = sm\<lparr>sm_out := sm_out sm @ map SocialSql stmts\<rparr>"
  by (induction stmts arbitrary: sm) (simp_all add: social_emit_def)

lemma table_after_stmts:
  "table_after unesc db0 (effs @ map SocialSql stmts) = fold (exec_social unesc) stmts (table_after unesc db0 effs)"
  by (simp add: table_after_def fold_map comp_def)

lemma on_social_ok:
  assumes ok: "socials_ok unesc db0 sm" and act: "\<And>ps. social_ok ps \<Longrightarrow> good_change unesc ps (act ps)"
  shows "socials_ok unesc db0 (on_social g act sm)"
proof (cases "omap_find (sm_map sm) g")
  case None
  then show ?thesis using ok by (simp add: on_social_def)
next
  case (Some ps)
  obtain ps' stmts where r: "act ps = (ps', stmts)" by fastforce
  have ps: "ps_guid ps = g" "social_ok ps" "mirrors (table_after unesc db0 (sm_out sm)) ps"
    using ok Some by (auto simp: socials_ok_def)
  then have ch: "good_change unesc ps (ps', stmts)" using act [of ps] r by simp
  have "mirrors (fold (exec_social unesc) stmts (table_after unesc db0 (sm_out sm))) q"
    if "omap_find (sm_map sm) h = Some q" "h \<noteq> g" for h q
  proof -
    have "ps_guid q = h" "mirrors (table_after unesc db0 (sm_out sm)) q"
      using ok that by (auto simp: socials_ok_def)
    then show ?thesis using ch ps(1) that(2) by (simp add: good_change_def mirrors_def)
  qed
  then show ?thesis
    using ok Some r ch ps
    by (auto simp: socials_ok_def on_social_def fold_social_emit table_after_stmts om.find_put om.invar_put
        good_change_def split: if_splits)
qed

lemma GetFriendInfo_flags: "fi_Flags (GetFriendInfo e sm pl k i) = fi_Flags i"
  by (simp add: GetFriendInfo_def Let_def split: option.split)

lemma omap_find_map: "omap_find (map (\<lambda>(k, i). (k, f k i)) m) k = map_option (f k) (omap_find m k)"
  by (induction m) (auto simp: omap_find_def)

lemma social_refresh:
  assumes "\<And>k i. fi_Flags (f k i) = fi_Flags i"
  shows "social_ok (ps\<lparr>ps_map := map (\<lambda>(k, i). (k, f k i)) (ps_map ps)\<rparr>) = social_ok ps"
    and "mirrors db (ps\<lparr>ps_map := map (\<lambda>(k, i). (k, f k i)) (ps_map ps)\<rparr>) = mirrors db ps"
proof -
  have "map fst (map (\<lambda>(k, i). (k, f k i)) (ps_map ps)) = map fst (ps_map ps)" by (induction "ps_map ps") auto
  moreover have "flag_count w (map (\<lambda>(k, i). (k, f k i)) m) = flag_count w m" for w m
    by (induction m) (auto simp: flag_count_def assms)
  ultimately show "social_ok (ps\<lparr>ps_map := map (\<lambda>(k, i). (k, f k i)) (ps_map ps)\<rparr>) = social_ok ps"
    by (auto simp: social_ok_def omap_ok_def assms split_def comp_def)
  show "mirrors db (ps\<lparr>ps_map := map (\<lambda>(k, i). (k, f k i)) (ps_map ps)\<rparr>) = mirrors db ps"
    by (simp add: mirrors_def omap_find_map option.map_comp comp_def assms)
qed

lemma SendSocialList_ok:
  assumes "socials_ok unesc db0 sm"
  shows "socials_ok unesc db0 (SendSocialList e g sm)"
  using assms
  by (auto simp: SendSocialList_def socials_ok_send Let_def split: option.split)
    (auto simp: socials_ok_def om.find_put om.invar_put social_refresh [OF GetFriendInfo_flags] split: if_splits)

lemma Broadcast_ok: "socials_ok unesc db0 (BroadcastToFriendListers e p d sm) = socials_ok unesc db0 sm"
  unfolding BroadcastToFriendListers_def
  by (rule fold_preserves) (simp add: socials_ok_send split_def split: option.split)

lemma SendFriendStatus_ok:
  "socials_ok unesc db0 (SendFriendStatus e p res f bc sm) = socials_ok unesc db0 sm"
  by (simp add: SendFriendStatus_def Let_def Broadcast_ok socials_ok_send)

lemma add_friend_good: "social_ok ps \<Longrightarrow> good_change unesc ps (snd (add_friend e p f info ps))"
  using AddToSocialList_good [of ps unesc f False]
  by (auto simp: add_friend_def good_change_id Let_def split_def)

lemma add_ignore_good: "social_ok ps \<Longrightarrow> good_change unesc ps (snd (add_ignore p f ps))"
  using AddToSocialList_good [of ps unesc f True]
  by (auto simp: add_ignore_def good_change_id split_def)


datatype social_request = ContactList | AddFriend | DelFriend | AddIgnore | DelIgnore | SetContactNotes

fun dispatch_social ::
  "social_env \<Rightarrow> social_request \<Rightarrow> social_player \<Rightarrow> byte_buffer \<Rightarrow> social_mgr \<Rightarrow> (bb_error, social_mgr) result" where
  "dispatch_social e ContactList p b sm = HandleContactListOpcode e p b sm"
| "dispatch_social e AddFriend p b sm = HandleAddFriendOpcode e p b sm"
| "dispatch_social e DelFriend p b sm = HandleDelFriendOpcode e p b sm"
| "dispatch_social e AddIgnore p b sm = HandleAddIgnoreOpcode e p b sm"
| "dispatch_social e DelIgnore p b sm = HandleDelIgnoreOpcode e p b sm"
| "dispatch_social e SetContactNotes p b sm = HandleSetContactNotesOpcode e p b sm"

text \<open>A packet that is too short is reported and dropped.\<close>

definition social_step ::
  "social_env \<Rightarrow> social_mgr \<Rightarrow> social_player \<times> social_request \<times> byte_buffer \<Rightarrow> social_mgr" where
  "social_step e sm ev =
     (case ev of (p, rq, b) \<Rightarrow> (case dispatch_social e rq p b sm of Inl err \<Rightarrow> sm | Inr sm' \<Rightarrow> sm'))"

lemma dispatch_social_ok:
  assumes "socials_ok unesc db0 sm" "dispatch_social e rq p b sm = Inr sm'"
  shows "socials_ok unesc db0 sm'"
proof (cases rq)
  case ContactList
  then show ?thesis
    using assms SendSocialList_ok [OF assms(1)]
    by (auto simp: HandleContactListOpcode_def bind_result_Inr_iff)
next
  case AddFriend
  have "socials_ok unesc db0 (on_social g (SetFriendNote e f n) (on_social g (\<lambda>ps. snd (add_friend e p f i ps)) sm))"
    for g f n i
    by (intro on_social_ok [OF on_social_ok [OF assms(1)]] SetFriendNote_good add_friend_good)
  moreover obtain raw b1 txt2 b2 where r: "read_string b = Inr (raw, b1)" "read_string b1 = Inr (txt2, b2)"
    using assms(2) AddFriend by (auto simp: HandleAddFriendOpcode_def bind_result_Inr_iff)
  ultimately show ?thesis
    using assms AddFriend
    by (cases "se_normalize_name e raw"; cases "omap_find (sm_map sm) (guid_counter (pl_guid p))")
      (auto simp: HandleAddFriendOpcode_def r Let_def SendFriendStatus_ok split: option.splits if_splits)
next
  case AddIgnore
  have "socials_ok unesc db0 (on_social g (\<lambda>ps. snd (add_ignore p f ps)) sm)" for g f
    by (intro on_social_ok [OF assms(1)] add_ignore_good)
  moreover obtain raw b1 where r: "read_string b = Inr (raw, b1)"
    using assms(2) AddIgnore by (auto simp: HandleAddIgnoreOpcode_def bind_result_Inr_iff)
  ultimately show ?thesis
    using assms AddIgnore
    by (cases "se_normalize_name e raw"; cases "omap_find (sm_map sm) (guid_counter (pl_guid p))")
      (auto simp: HandleAddIgnoreOpcode_def r Let_def SendFriendStatus_ok split: if_splits)
qed (use assms on_social_ok [OF assms(1) RemoveFromSocialList_good] on_social_ok [OF assms(1) SetFriendNote_good]
  in \<open>auto simp: HandleDelFriendOpcode_def HandleDelIgnoreOpcode_def HandleSetContactNotesOpcode_def
      bind_result_Inr_iff SendFriendStatus_ok\<close>)

interpretation soc: invariant_ops "social_step e" "socials_ok unesc db0" "\<lambda>sm x. True" for e unesc db0
  by unfold_locales (auto simp: social_step_def split: sum.split dest: dispatch_social_ok)

lemma social_ok_size:
  assumes "social_ok ps"
  shows "length (ps_map ps) \<le> 75"
proof -
  have "length m \<le> flag_count 1 m + flag_count 2 m" if "\<forall>(k, i) \<in> set m. fi_Flags i \<in> {1, 2, 3}" for m
    using that by (induction m) (auto simp: flag_count_def has_flag_def)
  then show ?thesis using assms by (fastforce simp: social_ok_def)
qed

text \<open>
  C29. Whatever packets clients send to the friend and ignore handlers, with whatever bytes,
  every list keeps the limits of the client (50 friends, 25 ignored, 75 entries), and
  executing the statements issued so far leaves in the table exactly the flags that the
  lists hold in memory.
\<close>

theorem social_lists_bounded_and_saved:
  assumes "socials_ok unesc db0 sm0"
  shows "let sm = run_ops (social_step e) sm0 evs
         in \<forall>g ps. omap_find (sm_map sm) g = Some ps \<longrightarrow>
              flag_count SOCIAL_FLAG_FRIEND (ps_map ps) \<le> 50 \<and>
              flag_count SOCIAL_FLAG_IGNORED (ps_map ps) \<le> 25 \<and> length (ps_map ps) \<le> 75 \<and>
              (\<forall>f. map_option fst (table_after unesc db0 (sm_out sm) (g, f)) =
                   map_option fi_Flags (omap_find (ps_map ps) f))"
proof -
  have "socials_ok unesc db0 (run_ops (social_step e) sm0 evs)"
    by (rule soc.run_inv_total) (use assms in simp_all)
  then show ?thesis
    unfolding Let_def socials_ok_def using social_ok_size by (auto simp: social_ok_def mirrors_def)
qed

definition demo_social :: social_mgr where
  "demo_social = \<lparr>sm_map = [(7, \<lparr>ps_map = [(9, FriendInfo_new 3 ''hi'')], ps_guid = 7\<rparr>)], sm_out = []\<rparr>"

definition demo_table :: social_table where
  "demo_table = [(7, 9) \<mapsto> (3, ''hi'')]"

definition demo_social_env :: social_env where
  "demo_social_env =
     \<lparr>se_connected = Map.empty, se_find_player = Map.empty, visible_globally_for = (\<lambda>a b. True),
      two_side_who_list = False, gm_level_in_who_list = 0, allow_gm_friend = False,
      two_side_add_friend = False, char_guid_by_name = (\<lambda>n. if n = ''Bob'' then 9 else 0),
      char_cache = Map.empty, se_normalize_name = Some, utf8truncate48 = take 48,
      escape_string = concat \<circ> map (\<lambda>c. if c = CHR 39 then [CHR 92, CHR 39] else [c])\<rparr>"

definition demo_social_player :: social_player where
  "demo_social_player =
     \<lparr>pl_guid = 7, pl_name = ''Ann'', pl_security = 0, pl_team = 469, pl_guild = 0, pl_in_group = False,
      pl_lfg_empty = True, pl_level = 70, pl_ignored = (\<lambda>g. False), pl_chat_tag = 0, pl_gm_on = False,
      pl_gm_chat = False, sp_zone = 12, sp_class = 1, sp_afk = False, sp_dnd = False, sp_in_world = True\<rparr>"

lemma demo_social_ok: "socials_ok unesc demo_table demo_social"
  by (auto simp: socials_ok_def demo_social_def demo_table_def omap_ok_def omap_find_def social_ok_def
      flag_count_def FriendInfo_new_def mirrors_def table_after_def has_flag_def split: if_splits)

theorem social_lists_bounded_and_saved_witness:
  "let sm = run_ops (social_step demo_social_env) demo_social
              [(demo_social_player, DelFriend, \<lparr>bb_rpos = 0, bb_wpos = 8, bb_storage = [9, 0, 0, 0, 0, 0, 0, 0]\<rparr>)]
   in \<forall>g ps. omap_find (sm_map sm) g = Some ps \<longrightarrow>
        flag_count SOCIAL_FLAG_FRIEND (ps_map ps) \<le> 50 \<and>
        flag_count SOCIAL_FLAG_IGNORED (ps_map ps) \<le> 25 \<and> length (ps_map ps) \<le> 75 \<and>
        (\<forall>f. map_option fst (table_after id demo_table (sm_out sm) (g, f)) =
             map_option fi_Flags (omap_find (ps_map ps) f))"
  by (rule social_lists_bounded_and_saved [OF demo_social_ok])


section \<open>Reloading\<close>

text \<open>What the query for a character's list may return: its rows, in any order.\<close>

definition select_rows :: "social_table \<Rightarrow> uint32 \<Rightarrow> (uint32 \<times> uint8 \<times> string) list \<Rightarrow> bool" where
  "select_rows db g rows \<longleftrightarrow>
     distinct (map fst rows) \<and>
     (\<forall>f fl n. (f, fl, n) \<in> set rows \<longleftrightarrow> (\<exists>w. db (g, f) = Some (w, n) \<and> fl = ucast w))"

lemma omap_set_length:
  assumes "omap_ok m" "omap_find m k = None"
  shows "length (omap_set k v m) = Suc (length m)"
  using om.length_keys_put_absent [OF assms] by simp

lemma load_social_rows_find:
  assumes "omap_ok m" "distinct (map fst rows)" "fst ` set rows \<inter> fst ` set m = {}"
    and "length rows + length m \<le> 75"
  shows "omap_find (load_social_rows rows m) f =
           (case map_of rows f of None \<Rightarrow> omap_find m f | Some (fl, n) \<Rightarrow> Some (FriendInfo_new (ucast fl) n))"
  using assms
proof (induction rows m rule: load_social_rows.induct)
  case (2 k fl n rows m)
  let ?m = "omap_set k (FriendInfo_new (ucast fl) n) m"
  have absent: "omap_find m k = None"
    using "2.prems"(3) by (simp add: omap_find_def map_of_eq_None_iff)
  have len: "length ?m = Suc (length m)" by (rule omap_set_length [OF "2.prems"(1) absent])
  have k: "map_of rows k = None" using "2.prems"(2) by (simp add: map_of_eq_None_iff)
  have find: "omap_find ?m f = (if f = k then Some (FriendInfo_new (ucast fl) n) else omap_find m f)"
    using "2.prems"(1) by (simp add: om.find_put)
  show ?case
  proof (cases "length ?m \<ge> 75")
    case True
    then have "rows = []" using "2.prems"(4) len by (cases rows) simp_all
    then show ?thesis using True find by simp
  next
    case False
    have "omap_find (load_social_rows rows ?m) f =
        (case map_of rows f of None \<Rightarrow> omap_find ?m f | Some (fl, n) \<Rightarrow> Some (FriendInfo_new (ucast fl) n))"
      using False "2.prems" len
      by (intro "2.IH" [OF refl]) (auto simp: omap_set_ok omap_set_dom)
    then show ?thesis using False k find by (auto split: option.splits)
  qed
qed simp

lemma small_flag_ucast: "w \<in> {1, 2, 3} \<Longrightarrow> ucast (ucast (w :: uint32) :: uint8) = w"
  by (elim insertE emptyE) simp_all

lemma reload_flags:
  assumes ok: "social_ok ps" and mir: "mirrors db ps" and rows: "select_rows db (ps_guid ps) rows"
  shows "map_option fi_Flags (omap_find (load_social_rows rows []) f) =
         map_option fi_Flags (omap_find (ps_map ps) f)"
proof -
  have keys: "fst ` set rows = dom (omap_find (ps_map ps))"
  proof (rule set_eqI)
    fix k
    have "k \<in> fst ` set rows \<longleftrightarrow> db (ps_guid ps, k) \<noteq> None"
    proof
      assume "k \<in> fst ` set rows"
      then obtain fl n where "(k, fl, n) \<in> set rows" by auto
      then show "db (ps_guid ps, k) \<noteq> None" using rows unfolding select_rows_def by force
    next
      assume "db (ps_guid ps, k) \<noteq> None"
      then obtain w n where "db (ps_guid ps, k) = Some (w, n)" by auto
      then have "(k, ucast w, n) \<in> set rows" using rows unfolding select_rows_def by blast
      then show "k \<in> fst ` set rows" by force
    qed
    also have "\<dots> \<longleftrightarrow> omap_find (ps_map ps) k \<noteq> None"
      using mir unfolding mirrors_def by (metis map_option_is_None)
    finally show "k \<in> fst ` set rows \<longleftrightarrow> k \<in> dom (omap_find (ps_map ps))" by auto
  qed
  have m: "omap_ok (ps_map ps)" using ok by (simp add: social_ok_def)
  have dist: "distinct (map fst rows)" using rows by (simp add: select_rows_def)
  have "length rows = card (dom (omap_find (ps_map ps)))"
    using distinct_card [OF dist] keys by simp
  then have "length rows \<le> 75" using om.length_keys [OF m] social_ok_size [OF ok] by simp
  then have load: "omap_find (load_social_rows rows []) f =
      (case map_of rows f of None \<Rightarrow> None | Some (fl, n) \<Rightarrow> Some (FriendInfo_new (ucast fl) n))"
    using load_social_rows_find [of "[]" rows f] dist
    by (simp add: om.invar_empty om.find_empty split: option.split)
  show ?thesis
  proof (cases "omap_find (ps_map ps) f")
    case None
    then have "map_of rows f = None" using keys by (auto simp: map_of_eq_None_iff dom_def)
    then show ?thesis using load None by simp
  next
    case (Some i)
    obtain n where "db (ps_guid ps, f) = Some (fi_Flags i, n)" using mirrors_Some [OF mir Some] by blast
    then have "(f, ucast (fi_Flags i), n) \<in> set rows" using rows by (auto simp: select_rows_def)
    then have "map_of rows f = Some (ucast (fi_Flags i), n)" using dist by (simp add: map_of_eq_Some_iff)
    then show ?thesis
      using load Some small_flag_ucast [OF social_flags_cases [OF ok Some]] by (simp add: FriendInfo_new_def)
  qed
qed

lemma HasFriend_flags:
  "HasFriend f ps = (case map_option fi_Flags (omap_find (ps_map ps) f) of None \<Rightarrow> False
     | Some w \<Rightarrow> has_flag w SOCIAL_FLAG_FRIEND)"
  by (simp add: HasFriend_def split: option.split)

lemma HasIgnore_flags:
  "HasIgnore f ps = (case map_option fi_Flags (omap_find (ps_map ps) f) of None \<Rightarrow> False
     | Some w \<Rightarrow> has_flag w SOCIAL_FLAG_IGNORED)"
  by (simp add: HasIgnore_def split: option.split)

text \<open>
  C30. A character that logs out and in again, after any packets to the friend and ignore
  handlers, has exactly the friends and the ignored players it had before: loading the rows
  of the table, in whatever order they come, restores the list.
\<close>

theorem relog_restores_lists:
  assumes "socials_ok unesc db0 sm0"
    and "sm = run_ops (social_step e) sm0 evs" "omap_find (sm_map sm) g = Some ps"
    and "select_rows (table_after unesc db0 (sm_out sm)) g rows"
  shows "\<exists>ps'. omap_find (sm_map (social_LoadFromDB rows g (RemovePlayerSocial g sm))) g = Some ps' \<and>
           (\<forall>f. HasFriend f ps' = HasFriend f ps \<and> HasIgnore f ps' = HasIgnore f ps)"
proof -
  have ok: "socials_ok unesc db0 sm"
    unfolding assms(2) by (rule soc.run_inv_total) (use assms(1) in simp_all)
  then have m: "omap_ok (sm_map sm)" and ps: "ps_guid ps = g" "social_ok ps"
      "mirrors (table_after unesc db0 (sm_out sm)) ps"
    using assms(3) by (auto simp: socials_ok_def)
  let ?ps = "\<lparr>ps_map = load_social_rows rows [], ps_guid = g\<rparr>"
  have "omap_find (sm_map (social_LoadFromDB rows g (RemovePlayerSocial g sm))) g = Some ?ps"
    using m
    by (simp add: social_LoadFromDB_def RemovePlayerSocial_def GetDefault_def omap_index_def Let_def
        om.find_put om.find_erase om.invar_put om.invar_erase PlayerSocial_new_def)
  moreover have "map_option fi_Flags (omap_find (ps_map ?ps) f) = map_option fi_Flags (omap_find (ps_map ps) f)" for f
    using reload_flags [OF ps(2,3)] assms(4) ps(1) by simp
  then have "HasFriend f ?ps = HasFriend f ps \<and> HasIgnore f ?ps = HasIgnore f ps" for f
    unfolding HasFriend_flags HasIgnore_flags by simp
  ultimately show ?thesis by blast
qed

theorem relog_restores_lists_witness:
  "\<exists>ps'. omap_find (sm_map (social_LoadFromDB [(9, 3, ''hi'')] 7 (RemovePlayerSocial 7 demo_social))) 7 = Some ps' \<and>
     (\<forall>f. HasFriend f ps' = HasFriend f \<lparr>ps_map = [(9, FriendInfo_new 3 ''hi'')], ps_guid = 7\<rparr> \<and>
          HasIgnore f ps' = HasIgnore f \<lparr>ps_map = [(9, FriendInfo_new 3 ''hi'')], ps_guid = 7\<rparr>)"
proof (rule relog_restores_lists [OF demo_social_ok])
  show "demo_social = run_ops (social_step demo_social_env) demo_social []" by simp
  show "omap_find (sm_map demo_social) 7 = Some \<lparr>ps_map = [(9, FriendInfo_new 3 ''hi'')], ps_guid = 7\<rparr>"
    by (simp add: demo_social_def omap_find_def)
  show "select_rows (table_after id demo_table (sm_out demo_social)) 7 [(9, 3, ''hi'')]"
    by (auto simp: select_rows_def table_after_def demo_social_def demo_table_def)
qed

section \<open>Notes and status broadcasts\<close>

text \<open>
  \<open>SetFriendNote\<close> keeps the escaped text of the note in memory: whenever escaping changes
  the (truncated) note, the list shows another text than the one the table holds and the
  next login will load.
\<close>

theorem note_kept_escaped:
  assumes "\<And>s. unesc (escape_string e s) = s"
    and "escape_string e (utf8truncate48 e txt) \<noteq> utf8truncate48 e txt"
    and "omap_ok (ps_map ps)" "omap_find (ps_map ps) f = Some i" "mirrors db ps"
    and "SetFriendNote e f txt ps = (ps', stmts)"
  shows "\<exists>i' w. omap_find (ps_map ps') f = Some i' \<and>
           fold (exec_social unesc) stmts db (ps_guid ps, f) = Some (w, utf8truncate48 e txt) \<and>
           fi_Note i' \<noteq> utf8truncate48 e txt"
  using assms mirrors_Some [OF assms(5,4)] by (auto simp: SetFriendNote_def Let_def om.find_put)

text \<open>A connector that puts a backslash before quotes, and its inverse on such text.\<close>

fun unescape_demo :: "string \<Rightarrow> string" where
  "unescape_demo [] = []"
| "unescape_demo (c # cs) = (if c = CHR 92 \<and> cs \<noteq> [] then hd cs # unescape_demo (tl cs) else c # unescape_demo cs)"

definition demo_escape_env :: social_env where
  "demo_escape_env = demo_social_env\<lparr>escape_string := concat \<circ> map (\<lambda>c. [CHR 92, c])\<rparr>"

lemma unescape_demo_inverse: "unescape_demo (escape_string demo_escape_env s) = s"
  by (induction s) (simp_all add: demo_escape_env_def)

theorem note_kept_escaped_witness:
  "\<exists>i' w. omap_find (ps_map (fst (SetFriendNote demo_escape_env 9 ''x'' \<lparr>ps_map = [(9, FriendInfo_new 3 ''hi'')], ps_guid = 7\<rparr>))) 9 = Some i' \<and>
     fold (exec_social unescape_demo)
       (snd (SetFriendNote demo_escape_env 9 ''x'' \<lparr>ps_map = [(9, FriendInfo_new 3 ''hi'')], ps_guid = 7\<rparr>)) demo_table (7, 9) =
       Some (w, utf8truncate48 demo_escape_env ''x'') \<and>
     fi_Note i' \<noteq> utf8truncate48 demo_escape_env ''x''"
  using note_kept_escaped [of unescape_demo demo_escape_env "''x''" "\<lparr>ps_map = [(9, FriendInfo_new 3 ''hi'')], ps_guid = 7\<rparr>"
      9 "FriendInfo_new 3 ''hi''" demo_table, OF unescape_demo_inverse _ _ _ _ surjective_pairing]
  by (simp add: demo_escape_env_def demo_social_env_def omap_ok_def omap_find_def mirrors_def demo_table_def
      FriendInfo_new_def)

text \<open>
  A status broadcast reaches a friend of the same side whatever the rank of the player it
  is about, although for the same two players \<open>GetFriendInfo\<close> reports a player above the
  configured rank as offline.
\<close>

theorem broadcast_shows_hidden_rank:
  assumes "HasFriend (guid_counter (pl_guid p)) ps" "se_find_player e (low_player k) = Some f"
    and "sp_in_world f" "pl_team f = pl_team p" "visible_globally_for e (pl_guid p) (pl_guid f)"
    and "se_connected e (low_player (guid_counter (pl_guid p))) = Some p"
    and "pl_security f = SEC_PLAYER" "pl_security p > gm_level_in_who_list e"
  shows "hears_status e p (k, ps) \<and>
         fi_Status (GetFriendInfo e sm (Some f) (guid_counter (pl_guid p)) i) = FRIEND_STATUS_OFFLINE"
  using assms by (auto simp: hears_status_def GetFriendInfo_def Let_def split: option.split)

definition demo_gm :: social_player where
  "demo_gm = demo_social_player\<lparr>pl_guid := 9, pl_security := 2\<rparr>"

definition demo_broadcast_env :: social_env where
  "demo_broadcast_env = demo_social_env\<lparr>se_find_player := [7 \<mapsto> demo_social_player], se_connected := [9 \<mapsto> demo_gm]\<rparr>"

theorem broadcast_shows_hidden_rank_witness:
  "hears_status demo_broadcast_env demo_gm (7, \<lparr>ps_map = [(9, FriendInfo_new 3 ''hi'')], ps_guid = 7\<rparr>) \<and>
   fi_Status (GetFriendInfo demo_broadcast_env demo_social (Some demo_social_player)
     (guid_counter (pl_guid demo_gm)) (FriendInfo_new 1 '''')) = FRIEND_STATUS_OFFLINE"
proof -
  have low: "guid_counter (pl_guid demo_gm) = 9" "low_player 7 = 7" "low_player 9 = 9"
    by (simp_all add: demo_gm_def demo_social_player_def guid_counter_def guid_has_entry_def high_has_entry_def
        guid_high_def low_player_def guid_of_counter_def)
  show ?thesis
    by (rule broadcast_shows_hidden_rank)
      (simp_all add: low HasFriend_def demo_broadcast_env_def demo_social_env_def omap_find_def FriendInfo_new_def
        has_flag_def, simp_all add: demo_gm_def demo_social_player_def)
qed


end
