(* ===== verification/ArenaTeam.thy ===== *)
theory ArenaTeam
  imports Social
begin

text \<open>
  Arena teams (src/src/server/game/Battlegrounds/ArenaTeam.h and ArenaTeam.cpp): the team with
  its members and statistics, membership, captaincy, ratings, decay, weekly points, packets
  and the statements it writes. An operation works on the team object and on the world it
  touches: the store of teams, the arena fields of the players, the pending invitations, the
  arena team ids in the character cache, and the effects in order. The online players, the
  character cache, the configuration, the battleground queues and the two floating-point
  formulas (the Elo chance and the points of a rating) are the environment. The build is
  the one without \<open>LICH_KING\<close>.
\<close>

section \<open>State\<close>

record arena_member =
  am_Guid :: guid
  am_Name :: string
  am_Class :: uint8
  am_WeekGames :: uint32
  am_WeekWins :: uint32
  am_SeasonGames :: uint32
  am_SeasonWins :: uint32
  am_PersonalRating :: uint32

record arena_stats =
  as_Rating :: uint16
  as_WeekGames :: uint16
  as_WeekWins :: uint16
  as_SeasonGames :: uint16
  as_SeasonWins :: uint16
  as_Rank :: uint32
  as_NonPlayedWeeks :: uint32

record arena_team =
  at_Id :: uint32
  at_Type :: uint8
  at_Name :: string
  at_Captain :: guid
  at_BackgroundColor :: uint32
  at_EmblemStyle :: uint32
  at_EmblemColor :: uint32
  at_BorderStyle :: uint32
  at_BorderColor :: uint32
  at_Members :: "arena_member list"
  at_Stats :: arena_stats

definition ArenaTeam_new :: arena_team where
  "ArenaTeam_new =
     \<lparr>at_Id = 0, at_Type = 0, at_Name = '''', at_Captain = 0, at_BackgroundColor = 0, at_EmblemStyle = 0,
      at_EmblemColor = 0, at_BorderStyle = 0, at_BorderColor = 0, at_Members = [],
      at_Stats = \<lparr>as_Rating = 1500, as_WeekGames = 0, as_WeekWins = 0, as_SeasonGames = 0,
                  as_SeasonWins = 0, as_Rank = 0, as_NonPlayedWeeks = 0\<rparr>\<rparr>"

record arena_player =
  ap_guid :: guid
  ap_name :: string
  ap_class :: uint8
  ap_level :: uint32
  ap_team :: uint32
  ap_group :: "guid option"
  ap_in_arena :: bool
  ap_on_arena_map :: bool
  ap_address :: string

record arena_char =
  ac_name :: string
  ac_level :: uint8
  ac_class :: uint8
  ac_team :: uint32

text \<open>
  \<open>ae_queue g t\<close> is the queue entry of player \<open>g\<close> for arena type \<open>t\<close>: present or not, and
  whether it has been invited into a match. \<open>ae_oob\<close> is what a read past the three arena
  team ids of a cached character finds.
\<close>

record arena_env =
  ae_find_player :: "guid \<Rightarrow> arena_player option"
  ae_connected :: "guid \<Rightarrow> arena_player option"
  ae_find_by_name :: "string \<Rightarrow> arena_player option"
  ae_char :: "guid \<Rightarrow> arena_char option"
  ae_normalize_name :: "string \<Rightarrow> string option"
  ae_social :: "guid \<Rightarrow> player_social"
  ae_reserved_name :: "string \<Rightarrow> bool"
  ae_valid_charter_name :: "string \<Rightarrow> bool"
  ae_max_level :: uint32
  ae_two_side_guild :: bool
  ae_new_title_distrib :: bool
  ae_alternate_rating :: bool
  ae_decay_enabled :: bool
  ae_decay_min_rating :: uint32
  ae_decay_weeks :: uint32
  ae_decay_value :: uint32
  ae_may_inspect :: "guid \<Rightarrow> guid \<Rightarrow> bool"
  ae_queue :: "guid \<Rightarrow> uint32 \<Rightarrow> bool option"
  ae_oob :: "guid \<Rightarrow> nat \<Rightarrow> uint32"
  ae_elo_gain :: "uint32 \<Rightarrow> uint32 \<Rightarrow> int"
  ae_points :: "uint8 \<Rightarrow> uint32 \<Rightarrow> uint32"

abbreviation "ARENA_TEAM_2v2 \<equiv> (2 :: uint32)"
abbreviation "ARENA_TEAM_3v3 \<equiv> (3 :: uint32)"
abbreviation "ARENA_TEAM_5v5 \<equiv> (5 :: uint32)"

datatype arena_stmt =
    InsArenaTeam uint32 string uint32 uint8 uint16 uint32 uint8 uint32 uint8 uint32
  | InsArenaTeamMember uint32 uint32
  | UpdArenaTeamName string uint32
  | UpdArenaTeamCaptain uint32 uint32
  | DelArenaTeamMember uint32 uint32
  | DelArenaTeam uint32
  | DelArenaTeamMembers uint32
  | UpdArenaTeamStats arena_stats uint32
  | UpdArenaTeamMember uint16 uint16 uint16 uint16 uint16 uint32 uint32
  | UpdAddCharArenaPoints uint32 uint32

datatype arena_effect =
    ArenaSend guid world_packet
  | ArenaSql arena_stmt
  | ArenaLog uint32 uint32 uint32 uint32 string
  | RemovePetitionsAndSigns guid uint32
  | LeaveArenaQueue guid uint32
  | UpdateArenaTitles guid
  | UpdateArenaLeadersTitles
  | ModifyArenaPoints guid uint32
  | NotWhileInArena guid
  | CacheOutOfBounds guid nat

abbreviation "AT_EV_CREATE \<equiv> (1 :: uint32)"
abbreviation "AT_EV_DISBAND \<equiv> (2 :: uint32)"
abbreviation "AT_EV_LEAVE \<equiv> (4 :: uint32)"
abbreviation "AT_EV_PROMOTE \<equiv> (5 :: uint32)"

text \<open>
  The store is an unordered map in the source; only results that do not depend on the order
  of iteration are read off it. \<open>aw_field g i\<close> is the unit field
  \<open>PLAYER_FIELD_ARENA_TEAM_INFO_1_1 + i\<close> of player \<open>g\<close>, \<open>aw_deleted\<close> the ids of team objects
  that were deleted.
\<close>

record arena_world =
  aw_store :: "(uint32, arena_team) omap"
  aw_next :: uint32
  aw_stop :: bool
  aw_deleted :: "uint32 list"
  aw_field :: "guid \<Rightarrow> nat \<Rightarrow> uint32"
  aw_invited :: "guid \<Rightarrow> uint32"
  aw_cache :: "guid \<Rightarrow> nat \<Rightarrow> uint32"
  aw_out :: "arena_effect list"

definition aemit :: "arena_effect \<Rightarrow> arena_world \<Rightarrow> arena_world" where
  "aemit x w = w\<lparr>aw_out := aw_out w @ [x]\<rparr>"

definition set_field :: "guid \<Rightarrow> nat \<Rightarrow> uint32 \<Rightarrow> arena_world \<Rightarrow> arena_world" where
  "set_field g i v w = w\<lparr>aw_field := (aw_field w)(g := (aw_field w g)(i := v))\<rparr>"

section \<open>Slots, lookups\<close>

definition GetType :: "arena_team \<Rightarrow> uint32" where
  "GetType t = ucast (at_Type t)"

definition GetSlotByType :: "uint32 \<Rightarrow> uint8" where
  "GetSlotByType type =
     (if type = ARENA_TEAM_2v2 then 0 else if type = ARENA_TEAM_3v3 then 1
      else if type = ARENA_TEAM_5v5 then 2 else 0xFF)"

definition GetSlot :: "arena_team \<Rightarrow> nat" where
  "GetSlot t = unat (GetSlotByType (GetType t))"

definition GetArenaTeamId :: "guid \<Rightarrow> nat \<Rightarrow> arena_world \<Rightarrow> uint32" where
  "GetArenaTeamId g slot w = aw_field w g (slot * 6)"

definition SetInArenaTeam :: "uint32 \<Rightarrow> guid \<Rightarrow> nat \<Rightarrow> arena_world \<Rightarrow> arena_world" where
  "SetInArenaTeam teamId g slot w = set_field g (slot * 6) teamId w"

text \<open>\<open>Player::GetArenaTeamIdFromCharacterInfo\<close>: three ids, indexed with its second argument.\<close>

definition GetArenaTeamIdFromCharacterInfo :: "arena_env \<Rightarrow> guid \<Rightarrow> nat \<Rightarrow> arena_world \<Rightarrow> uint32" where
  "GetArenaTeamIdFromCharacterInfo e g i w =
     (case ae_char e g of
        None \<Rightarrow> 0
      | Some c \<Rightarrow> if i < 3 then aw_cache w g i else ae_oob e g i)"

definition UpdateCharacterArenaTeamId :: "arena_env \<Rightarrow> guid \<Rightarrow> nat \<Rightarrow> uint32 \<Rightarrow> arena_world \<Rightarrow> arena_world" where
  "UpdateCharacterArenaTeamId e g slot teamId w =
     (case ae_char e g of
        None \<Rightarrow> w
      | Some c \<Rightarrow>
          if slot < 3 then w\<lparr>aw_cache := (aw_cache w)(g := (aw_cache w g)(slot := teamId))\<rparr>
          else aemit (CacheOutOfBounds g slot) w)"

definition HaveMember :: "guid \<Rightarrow> arena_team \<Rightarrow> bool" where
  "HaveMember g t \<longleftrightarrow> (\<exists>m \<in> set (at_Members t). am_Guid m = g)"

definition GetMember :: "guid \<Rightarrow> arena_team \<Rightarrow> arena_member option" where
  "GetMember g t = find (\<lambda>m. am_Guid m = g) (at_Members t)"

fun member_by_name :: "arena_env \<Rightarrow> string \<Rightarrow> arena_member list \<Rightarrow> arena_member option" where
  "member_by_name e name [] = None"
| "member_by_name e name (m # ms) =
     (case ae_char e (am_Guid m) of
        None \<Rightarrow> None
      | Some c \<Rightarrow> if ac_name c = name then Some m else member_by_name e name ms)"

definition GetMember_by_name :: "arena_env \<Rightarrow> string \<Rightarrow> arena_team \<Rightarrow> arena_member option" where
  "GetMember_by_name e name t = member_by_name e name (at_Members t)"

definition IsFighting :: "arena_env \<Rightarrow> arena_team \<Rightarrow> bool" where
  "IsFighting e t \<longleftrightarrow>
     (\<exists>m \<in> set (at_Members t).
        case ae_find_player e (am_Guid m) of None \<Rightarrow> False | Some p \<Rightarrow> ap_on_arena_map p)"

section \<open>Packets\<close>

definition BroadcastPacket :: "arena_env \<Rightarrow> world_packet \<Rightarrow> arena_team \<Rightarrow> arena_world \<Rightarrow> arena_world" where
  "BroadcastPacket e packet t w =
     fold (\<lambda>m w. case ae_connected e (am_Guid m) of
                   None \<Rightarrow> w | Some p \<Rightarrow> aemit (ArenaSend (ap_guid p) packet) w)
       (at_Members t) w"

definition roster_fields :: "arena_env \<Rightarrow> arena_team \<Rightarrow> arena_member \<Rightarrow> field list" where
  "roster_fields e t m =
     (let pData = ae_char e (am_Guid m)
      in [U64 (am_Guid m), U8 (if ae_connected e (am_Guid m) \<noteq> None then 1 else 0),
          Str (case pData of None \<Rightarrow> ''Unknown'' | Some c \<Rightarrow> ac_name c),
          U32 (if am_Guid m = at_Captain t then 0 else 1),
          U8 (case pData of None \<Rightarrow> 0 | Some c \<Rightarrow> ac_level c),
          U8 (case pData of None \<Rightarrow> 0 | Some c \<Rightarrow> ac_class c),
          U32 (am_WeekGames m), U32 (am_WeekWins m), U32 (am_SeasonGames m), U32 (am_SeasonWins m),
          U32 (am_PersonalRating m)])"

definition Roster :: "arena_env \<Rightarrow> guid \<Rightarrow> arena_team \<Rightarrow> arena_world \<Rightarrow> arena_world" where
  "Roster e session t =
     aemit (ArenaSend session
       \<lparr>wp_opcode = 0x34E,
        wp_fields = [U32 (at_Id t), U32 (of_nat (length (at_Members t))), U32 (GetType t)] @
                    concat (map (roster_fields e t) (at_Members t))\<rparr>)"

definition Query :: "guid \<Rightarrow> arena_team \<Rightarrow> arena_world \<Rightarrow> arena_world" where
  "Query session t =
     aemit (ArenaSend session
       \<lparr>wp_opcode = 0x34C,
        wp_fields = [U32 (at_Id t), Str (at_Name t), U32 (GetType t), U32 (at_BackgroundColor t),
                     U32 (at_EmblemStyle t), U32 (at_EmblemColor t), U32 (at_BorderStyle t), U32 (at_BorderColor t)]\<rparr>)"

definition SendStats :: "guid \<Rightarrow> arena_team \<Rightarrow> arena_world \<Rightarrow> arena_world" where
  "SendStats session t =
     (let s = at_Stats t
      in aemit (ArenaSend session
           \<lparr>wp_opcode = 0x35B,
            wp_fields = [U32 (at_Id t), U32 (ucast (as_Rating s)), U32 (ucast (as_WeekGames s)),
                         U32 (ucast (as_WeekWins s)), U32 (ucast (as_SeasonGames s)),
                         U32 (ucast (as_SeasonWins s)), U32 (as_Rank s)]\<rparr>))"

definition NotifyStatsChanged :: "arena_env \<Rightarrow> arena_team \<Rightarrow> arena_world \<Rightarrow> arena_world" where
  "NotifyStatsChanged e t w =
     fold (\<lambda>m w. case ae_connected e (am_Guid m) of None \<Rightarrow> w | Some p \<Rightarrow> SendStats (ap_guid p) t w)
       (at_Members t) w"

definition Inspect :: "guid \<Rightarrow> guid \<Rightarrow> arena_team \<Rightarrow> arena_world \<Rightarrow> arena_world" where
  "Inspect session g t w =
     (case GetMember g t of
        None \<Rightarrow> w
      | Some m \<Rightarrow>
          aemit (ArenaSend session
            \<lparr>wp_opcode = 0x377,
             wp_fields = [U64 g, U8 (of_nat (GetSlot t)), U32 (at_Id t), U32 (ucast (as_Rating (at_Stats t))),
                          U32 (ucast (as_SeasonGames (at_Stats t))), U32 (ucast (as_SeasonWins (at_Stats t))),
                          U32 (am_SeasonGames m), U32 (am_PersonalRating m)]\<rparr>) w)"

section \<open>Membership\<close>

definition new_member :: "guid \<Rightarrow> arena_member" where
  "new_member g =
     \<lparr>am_Guid = g, am_Name = '''', am_Class = 0, am_WeekGames = 0, am_WeekWins = 0, am_SeasonGames = 0,
      am_SeasonWins = 0, am_PersonalRating = 1500\<rparr>"

definition AddMember ::
  "arena_env \<Rightarrow> guid \<Rightarrow> arena_team \<Rightarrow> arena_world \<Rightarrow> bool \<times> arena_team \<times> arena_world" where
  "AddMember e g t w =
     (let pl = ae_find_player e g;
          slot = GetSlot t
      in if length (at_Members t) \<ge> unat (GetType t * 2) then (False, t, w)
         else if pl = None \<and> ae_char e g = None then (False, t, w)
         else if (pl \<noteq> None \<and> GetArenaTeamId g slot w \<noteq> 0) \<or>
                 GetArenaTeamIdFromCharacterInfo e g (unat (at_Type t)) w \<noteq> 0
         then (False, t, w)
         else
           let w1 = aemit (RemovePetitionsAndSigns g (GetType t)) w;
               t1 = t\<lparr>at_Members := at_Members t @ [new_member g]\<rparr>;
               w2 = UpdateCharacterArenaTeamId e g slot (at_Id t) w1;
               w3 = aemit (ArenaSql (InsArenaTeamMember (at_Id t) (guid_counter g))) w2;
               w4 = (if pl \<noteq> None then
                       let v1 = SetInArenaTeam (at_Id t) g slot w3;
                           v2 = v1\<lparr>aw_invited := (aw_invited v1)(g := 0)\<rparr>;
                           v3 = set_field g (slot * 6 + 5) 1500 v2
                       in (if at_Captain t \<noteq> g then set_field g (slot * 6 + 1) 1 v3 else v3)
                     else w3)
           in (True, t1, w4))"

definition arena_queue :: "uint32 \<Rightarrow> bool" where
  "arena_queue type \<longleftrightarrow> type = ARENA_TEAM_2v2 \<or> type = ARENA_TEAM_3v3 \<or> type = ARENA_TEAM_5v5"

text \<open>A member of the leaving player's group that waits in the queue without invitation leaves it.\<close>

definition queue_drop :: "arena_env \<Rightarrow> guid option \<Rightarrow> uint32 \<Rightarrow> arena_member \<Rightarrow> arena_world \<Rightarrow> arena_world" where
  "queue_drop e grp type m w =
     (case ae_connected e (am_Guid m) of
        None \<Rightarrow> w
      | Some pm \<Rightarrow>
          if grp \<noteq> None \<and> ap_group pm = grp \<and> arena_queue type \<and> ae_queue e (ap_guid pm) type = Some False
          then aemit (LeaveArenaQueue (ap_guid pm) type) w else w)"

fun delete_loop ::
  "arena_env \<Rightarrow> guid option \<Rightarrow> arena_team \<Rightarrow> guid \<Rightarrow> arena_member list \<Rightarrow> arena_world
   \<Rightarrow> arena_member list \<times> arena_world" where
  "delete_loop e grp t g [] w = ([], w)"
| "delete_loop e grp t g (m # ms) w =
     (let w1 = queue_drop e grp (GetType t) m w
      in if am_Guid m = g then (ms, UpdateCharacterArenaTeamId e g (GetSlot t) 0 w1)
         else (case delete_loop e grp t g ms w1 of (ms', w2) \<Rightarrow> (m # ms', w2)))"

definition SendArenaTeamCommandResult :: "guid \<Rightarrow> uint32 \<Rightarrow> string \<Rightarrow> string \<Rightarrow> uint32 \<Rightarrow> arena_world \<Rightarrow> arena_world" where
  "SendArenaTeamCommandResult session team_action team pl error_id =
     aemit (ArenaSend session
       \<lparr>wp_opcode = 0x349, wp_fields = [U32 team_action, Str team, Str pl, U32 error_id]\<rparr>)"

definition clear_fields :: "guid \<Rightarrow> nat \<Rightarrow> arena_world \<Rightarrow> arena_world" where
  "clear_fields g slot w = fold (\<lambda>i. set_field g (slot * 6 + i) 0) [0..<6] w"

definition DeleteMember ::
  "arena_env \<Rightarrow> guid \<Rightarrow> bool \<Rightarrow> arena_team \<Rightarrow> arena_world \<Rightarrow> arena_team \<times> arena_world" where
  "DeleteMember e g cleanDb t w =
     (let pl = ae_connected e g;
          grp = (case pl of None \<Rightarrow> None | Some p \<Rightarrow> ap_group p)
      in if (case pl of None \<Rightarrow> False | Some p \<Rightarrow> ap_in_arena p) then (t, w)
         else
           let (ms, w1) = delete_loop e grp t g (at_Members t) w;
               t1 = t\<lparr>at_Members := ms\<rparr>;
               w2 = (case pl of
                       None \<Rightarrow> w1
                     | Some p \<Rightarrow>
                         let v1 = SetInArenaTeam 0 g (GetSlot t1) w1;
                             v2 = SendArenaTeamCommandResult (ap_guid p) 0x03 (at_Name t1) '''' 0 v1;
                             v3 = (if ae_new_title_distrib e then aemit (UpdateArenaTitles g) v2 else v2);
                             v4 = clear_fields g (GetSlot t1) v3
                         in aemit (ArenaLog (at_Id t1) AT_EV_LEAVE (GetType t1) (guid_counter g) (ap_address p)) v4)
           in (t1, if cleanDb then aemit (ArenaSql (DelArenaTeamMember (at_Id t1) (guid_counter g))) w2 else w2))"

definition SetCaptain :: "arena_env \<Rightarrow> guid \<Rightarrow> arena_team \<Rightarrow> arena_world \<Rightarrow> arena_team \<times> arena_world" where
  "SetCaptain e g t w =
     (let w1 = (if ae_find_player e (at_Captain t) \<noteq> None
                then set_field (at_Captain t) (1 + GetSlot t * 6) 1 w else w);
          t1 = t\<lparr>at_Captain := g\<rparr>;
          w2 = aemit (ArenaSql (UpdArenaTeamCaptain (guid_counter g) (at_Id t1))) w1
      in (t1,
          case ae_find_player e g of
            None \<Rightarrow> w2
          | Some p \<Rightarrow> aemit (ArenaLog (at_Id t1) AT_EV_PROMOTE (GetType t1) (guid_counter g) (ap_address p))
                        (set_field g (1 + GetSlot t1 * 6) 0 w2)))"

definition SetName :: "arena_env \<Rightarrow> string \<Rightarrow> arena_team \<Rightarrow> arena_world \<Rightarrow> bool \<times> arena_team \<times> arena_world" where
  "SetName e name t w =
     (if at_Name t = name \<or> name = [] \<or> length name > 24 \<or> ae_reserved_name e name \<or> \<not> ae_valid_charter_name e name
      then (False, t, w)
      else (True, t\<lparr>at_Name := name\<rparr>, aemit (ArenaSql (UpdArenaTeamName name (at_Id t))) w))"

section \<open>Disbanding\<close>

text \<open>
  \<open>while (!Members.empty()) DeleteMember(Members.front().Guid, false)\<close>, with fuel: the loop
  ends only if every call removes a member.
\<close>

fun disband_loop :: "nat \<Rightarrow> arena_env \<Rightarrow> arena_team \<Rightarrow> arena_world \<Rightarrow> (arena_team \<times> arena_world) option" where
  "disband_loop 0 e t w = None"
| "disband_loop (Suc n) e t w =
     (case at_Members t of
        [] \<Rightarrow> Some (t, w)
      | m # ms \<Rightarrow> (case DeleteMember e (am_Guid m) False t w of (t', w') \<Rightarrow> disband_loop n e t' w'))"

definition BuildArenaTeamEventPacket :: "uint8 \<Rightarrow> string list \<Rightarrow> world_packet" where
  "BuildArenaTeamEventPacket eventid strs =
     \<lparr>wp_opcode = 0x357, wp_fields = [U8 eventid, U8 (of_nat (length strs))] @ map Str strs\<rparr>"

definition RemoveArenaTeam :: "uint32 \<Rightarrow> arena_world \<Rightarrow> arena_world" where
  "RemoveArenaTeam teamId w = w\<lparr>aw_store := omap_erase teamId (aw_store w)\<rparr>"

text \<open>The session is the player of the session, if there is one.\<close>

definition Disband ::
  "nat \<Rightarrow> arena_env \<Rightarrow> arena_player option \<Rightarrow> arena_team \<Rightarrow> arena_world \<Rightarrow> (arena_team \<times> arena_world) option" where
  "Disband fuel e session t w =
     (if (case session of None \<Rightarrow> False | Some p \<Rightarrow> ap_in_arena p)
      then Some (t, case session of None \<Rightarrow> w | Some p \<Rightarrow> aemit (NotWhileInArena (ap_guid p)) w)
      else
        let w1 = (case session of
                    None \<Rightarrow> w
                  | Some p \<Rightarrow> BroadcastPacket e (BuildArenaTeamEventPacket 8 [ap_name p, at_Name t]) t w)
        in case disband_loop fuel e t w1 of
             None \<Rightarrow> None
           | Some (t2, w2) \<Rightarrow>
               let w3 = aemit (ArenaLog (at_Id t2) AT_EV_DISBAND (GetType t2)
                          (case session of None \<Rightarrow> 0 | Some p \<Rightarrow> guid_counter (ap_guid p))
                          (case session of None \<Rightarrow> '''' | Some p \<Rightarrow> ap_address p)) w2;
                   w4 = aemit (ArenaSql (DelArenaTeam (at_Id t2))) w3;
                   w5 = aemit (ArenaSql (DelArenaTeamMembers (at_Id t2))) w4
               in Some (t2, RemoveArenaTeam (at_Id t2) w5))"

section \<open>Ratings\<close>

text \<open>
  Ranks are computed over the store, in which the team itself is the object being changed.
\<close>

definition store_with :: "arena_team \<Rightarrow> arena_world \<Rightarrow> (uint32, arena_team) omap" where
  "store_with t w = (if omap_has (aw_store w) (at_Id t) then omap_set (at_Id t) t (aw_store w) else aw_store w)"

definition UpdateRank :: "arena_team \<Rightarrow> arena_world \<Rightarrow> arena_team" where
  "UpdateRank t w =
     t\<lparr>at_Stats := (at_Stats t)\<lparr>as_Rank := 1 + of_nat (length (filter
         (\<lambda>(k, o'). GetType o' = ucast (at_Type t) \<and> as_Rating (at_Stats o') > as_Rating (at_Stats t))
         (store_with t w)))\<rparr>\<rparr>"

definition GetRatingMod :: "arena_env \<Rightarrow> uint32 \<Rightarrow> uint32 \<Rightarrow> bool \<Rightarrow> int" where
  "GetRatingMod e ownRating opponentRating won =
     (let m = (if ae_alternate_rating e \<and> ownRating < 1900 \<and> opponentRating < 1900 \<and>
                  ownRating > 1450 \<and> opponentRating > 1450
               then 15
               else if ae_elo_gain e ownRating opponentRating < 1 then 1
               else ae_elo_gain e ownRating opponentRating)
      in if won then m else - m)"

text \<open>\<open>Stats.Rating += mod\<close> on the 16-bit rating wraps.\<close>

definition add_rating :: "int \<Rightarrow> arena_stats \<Rightarrow> arena_stats" where
  "add_rating m s = s\<lparr>as_Rating := word_of_int (uint (as_Rating s) + m)\<rparr>"

definition titles_if :: "arena_env \<Rightarrow> arena_world \<Rightarrow> arena_world" where
  "titles_if e w = (if ae_new_title_distrib e then aemit UpdateArenaLeadersTitles w else w)"

definition WonAgainst :: "arena_env \<Rightarrow> uint32 \<Rightarrow> arena_team \<Rightarrow> arena_world \<Rightarrow> int \<times> arena_team \<times> arena_world" where
  "WonAgainst e againstRating t w =
     (let m = GetRatingMod e (ucast (as_Rating (at_Stats t))) againstRating True;
          s = add_rating m (at_Stats t);
          s' = s\<lparr>as_WeekGames := as_WeekGames s + 1, as_WeekWins := as_WeekWins s + 1,
                 as_SeasonGames := as_SeasonGames s + 1, as_SeasonWins := as_SeasonWins s + 1\<rparr>
      in (m, UpdateRank (t\<lparr>at_Stats := s'\<rparr>) w, titles_if e w))"

definition LostAgainst :: "arena_env \<Rightarrow> uint32 \<Rightarrow> arena_team \<Rightarrow> arena_world \<Rightarrow> int \<times> arena_team \<times> arena_world" where
  "LostAgainst e againstRating t w =
     (let m = GetRatingMod e (ucast (as_Rating (at_Stats t))) againstRating False;
          s = add_rating m (at_Stats t);
          s' = s\<lparr>as_WeekGames := as_WeekGames s + 1, as_SeasonGames := as_SeasonGames s + 1\<rparr>
      in (m, UpdateRank (t\<lparr>at_Stats := s'\<rparr>) w, titles_if e w))"

text \<open>\<open>int32(PersonalRating) + mod\<close> is signed; the rating stops at 0.\<close>

definition modified_rating :: "int \<Rightarrow> uint32 \<Rightarrow> uint32" where
  "modified_rating m r = (if sint r + m < 0 then 0 else r + word_of_int m)"

definition ModifyPersonalRating ::
  "guid option \<Rightarrow> int \<Rightarrow> nat \<Rightarrow> arena_member \<Rightarrow> arena_world \<Rightarrow> arena_member \<times> arena_world" where
  "ModifyPersonalRating pl m slot mem w =
     (let r = modified_rating m (am_PersonalRating mem)
      in (mem\<lparr>am_PersonalRating := r\<rparr>,
          case pl of None \<Rightarrow> w | Some g \<Rightarrow> set_field g (slot * 6 + 5) r w))"

text \<open>The loops over the members that change the first one with the given guid.\<close>

fun update_first ::
  "guid \<Rightarrow> (arena_member \<Rightarrow> arena_world \<Rightarrow> arena_member \<times> arena_world) \<Rightarrow> arena_member list \<Rightarrow> arena_world
   \<Rightarrow> arena_member list \<times> arena_world" where
  "update_first g f [] w = ([], w)"
| "update_first g f (m # ms) w =
     (if am_Guid m = g then (case f m w of (m', w') \<Rightarrow> (m' # ms, w'))
      else (case update_first g f ms w of (ms', w') \<Rightarrow> (m # ms', w')))"

definition on_member ::
  "guid \<Rightarrow> (arena_member \<Rightarrow> arena_world \<Rightarrow> arena_member \<times> arena_world) \<Rightarrow> arena_team \<Rightarrow> arena_world
   \<Rightarrow> arena_team \<times> arena_world" where
  "on_member g f t w =
     (case update_first g f (at_Members t) w of (ms, w') \<Rightarrow> (t\<lparr>at_Members := ms\<rparr>, w'))"

definition MemberLost :: "arena_env \<Rightarrow> guid \<Rightarrow> uint32 \<Rightarrow> arena_team \<Rightarrow> arena_world \<Rightarrow> arena_team \<times> arena_world" where
  "MemberLost e g againstRating t w =
     on_member g (\<lambda>m w.
       let r = GetRatingMod e (ucast (as_Rating (at_Stats t))) againstRating False;
           (m1, w1) = ModifyPersonalRating (Some g) r (GetSlot t) m w;
           m2 = m1\<lparr>am_WeekGames := am_WeekGames m1 + 1, am_SeasonGames := am_SeasonGames m1 + 1\<rparr>
       in (m2, set_field g (6 * GetSlot t + 3) (am_SeasonGames m2)
                 (set_field g (6 * GetSlot t + 2) (am_WeekGames m2) w1))) t w"

definition OfflineMemberLost :: "arena_env \<Rightarrow> guid \<Rightarrow> uint32 \<Rightarrow> arena_team \<Rightarrow> arena_world \<Rightarrow> arena_team \<times> arena_world" where
  "OfflineMemberLost e g againstRating t w =
     on_member g (\<lambda>m w.
       let r = GetRatingMod e (am_PersonalRating m) againstRating False;
           (m1, w1) = ModifyPersonalRating None r (unat (GetType t)) m w
       in (m1\<lparr>am_WeekGames := am_WeekGames m1 + 1, am_SeasonGames := am_SeasonGames m1 + 1\<rparr>, w1)) t w"

definition MemberWon :: "arena_env \<Rightarrow> guid \<Rightarrow> uint32 \<Rightarrow> arena_team \<Rightarrow> arena_world \<Rightarrow> arena_team \<times> arena_world" where
  "MemberWon e g againstRating t w =
     on_member g (\<lambda>m w.
       let r = GetRatingMod e (am_PersonalRating m) againstRating True;
           (m1, w1) = ModifyPersonalRating (Some g) r (GetSlot t) m w;
           m2 = m1\<lparr>am_WeekGames := am_WeekGames m1 + 1, am_SeasonGames := am_SeasonGames m1 + 1,
                   am_SeasonWins := am_SeasonWins m1 + 1, am_WeekWins := am_WeekWins m1 + 1\<rparr>
       in (m2, set_field g (6 * GetSlot t + 3) (am_SeasonGames m2)
                 (set_field g (6 * GetSlot t + 2) (am_WeekGames m2) w1))) t w"

definition HandleDecay :: "arena_env \<Rightarrow> arena_team \<Rightarrow> arena_world \<Rightarrow> arena_team" where
  "HandleDecay e t w =
     (let s = at_Stats t;
          rating = (ucast (as_Rating s) :: uint32);
          s' = (if rating > ae_decay_min_rating e \<and> as_NonPlayedWeeks s \<ge> ae_decay_weeks e
                then let diff = rating - ae_decay_min_rating e
                     in s\<lparr>as_Rating := as_Rating s - ucast (if diff < ae_decay_value e then diff else ae_decay_value e)\<rparr>
                else s)
      in UpdateRank (t\<lparr>at_Stats := s'\<rparr>) w)"

section \<open>Weekly points\<close>

text \<open>\<open>MemberRating + 150 < Stats.Rating ? MemberRating : Stats.Rating\<close>, then the formula.\<close>

definition GetPoints :: "arena_env \<Rightarrow> uint32 \<Rightarrow> arena_team \<Rightarrow> uint32" where
  "GetPoints e memberRating t =
     ae_points e (at_Type t)
       (if memberRating + 150 < ucast (as_Rating (at_Stats t)) then memberRating
        else ucast (as_Rating (at_Stats t)))"

text \<open>
  \<open>ceil(WeekGames * 0.3)\<close>: the double product of a 16-bit number and 0.3 is exact where the
  true product is an integer, so the ceiling is that of the rational product.
\<close>

definition min_plays :: "uint16 \<Rightarrow> uint32" where
  "min_plays games = of_nat ((3 * unat games + 9) div 10)"

definition add_points :: "arena_env \<Rightarrow> arena_team \<Rightarrow> arena_member \<Rightarrow> (uint32, uint32) omap \<Rightarrow> (uint32, uint32) omap" where
  "add_points e t m pts =
     (let p = (if am_WeekGames m \<ge> min_plays (as_WeekGames (at_Stats t))
               then GetPoints e (am_PersonalRating m) t else 0);
          k = guid_counter (am_Guid m)
      in case omap_find pts k of
           Some q \<Rightarrow> if q < p then omap_set k p pts else pts
         | None \<Rightarrow> omap_set k p pts)"

definition UpdateArenaPointsHelper ::
  "arena_env \<Rightarrow> arena_team \<Rightarrow> (uint32, uint32) omap \<Rightarrow> arena_team \<times> (uint32, uint32) omap" where
  "UpdateArenaPointsHelper e t pts =
     (if as_WeekGames (at_Stats t) < 10
      then (t\<lparr>at_Stats := (at_Stats t)\<lparr>as_NonPlayedWeeks := as_NonPlayedWeeks (at_Stats t) + 1\<rparr>\<rparr>, pts)
      else let t' = t\<lparr>at_Stats := (at_Stats t)\<lparr>as_NonPlayedWeeks := 0\<rparr>\<rparr>
           in (t', fold (add_points e t') (at_Members t') pts))"

definition arena_SaveToDB :: "arena_team \<Rightarrow> arena_world \<Rightarrow> arena_world" where
  "arena_SaveToDB t w =
     fold (\<lambda>m. aemit (ArenaSql (UpdArenaTeamMember (ucast (am_PersonalRating m)) (ucast (am_WeekGames m))
                (ucast (am_WeekWins m)) (ucast (am_SeasonGames m)) (ucast (am_SeasonWins m)) (at_Id t)
                (guid_counter (am_Guid m)))))
       (filter (\<lambda>m. am_WeekGames m \<noteq> 0) (at_Members t))
       (aemit (ArenaSql (UpdArenaTeamStats (at_Stats t) (at_Id t))) w)"

definition FinishWeek :: "arena_team \<Rightarrow> bool \<times> arena_team" where
  "FinishWeek t =
     (if as_WeekGames (at_Stats t) = 0 then (False, t)
      else (True, t\<lparr>at_Stats := (at_Stats t)\<lparr>as_WeekGames := 0, as_WeekWins := 0\<rparr>,
                    at_Members := map (\<lambda>m. m\<lparr>am_WeekGames := 0, am_WeekWins := 0\<rparr>) (at_Members t)\<rparr>))"


end
