(* ===== verification/ArenaTeamMgr.thy ===== *)
theory ArenaTeamMgr
  imports ArenaTeam
begin

text \<open>
  The store of arena teams (src/src/server/game/Battlegrounds/ArenaTeamMgr.cpp), creating and
  loading teams, the weekly distribution of points, and the packet handlers
  (ArenaTeamHandler.cpp). A handler may throw on a short packet, touch a team object that
  was deleted, or not return at all: its result is \<open>None\<close> when the fuel for the loop of
  \<open>Disband\<close> runs out, otherwise an error or the new world.
\<close>

section \<open>The store\<close>

definition toupper_char :: "char \<Rightarrow> char" where
  "toupper_char c = (let n = of_char c :: nat in if 97 \<le> n \<and> n \<le> 122 then char_of (n - 32) else c)"

definition GetArenaTeamById :: "uint32 \<Rightarrow> arena_world \<Rightarrow> arena_team option" where
  "GetArenaTeamById teamId w = omap_find (aw_store w) teamId"

definition GetArenaTeamByName :: "string \<Rightarrow> arena_world \<Rightarrow> arena_team option" where
  "GetArenaTeamByName name w =
     (let search = map toupper_char name
      in map_option snd (find (\<lambda>(k, t). search = map toupper_char (at_Name t)) (aw_store w)))"

definition GetArenaTeamByCaptain :: "guid \<Rightarrow> arena_world \<Rightarrow> arena_team option" where
  "GetArenaTeamByCaptain g w = map_option snd (find (\<lambda>(k, t). at_Captain t = g) (aw_store w))"

definition AddArenaTeam :: "arena_team \<Rightarrow> arena_world \<Rightarrow> arena_world" where
  "AddArenaTeam t w = w\<lparr>aw_store := omap_set (at_Id t) t (aw_store w)\<rparr>"

definition GenerateArenaTeamId :: "arena_world \<Rightarrow> uint32 \<times> arena_world" where
  "GenerateArenaTeamId w =
     (let w1 = (if aw_next w \<ge> 0xFFFFFFFE then w\<lparr>aw_stop := True\<rparr> else w)
      in (aw_next w1, w1\<lparr>aw_next := aw_next w1 + 1\<rparr>))"

definition Create ::
  "arena_env \<Rightarrow> guid \<Rightarrow> uint8 \<Rightarrow> string \<Rightarrow> uint32 \<Rightarrow> uint8 \<Rightarrow> uint32 \<Rightarrow> uint8 \<Rightarrow> uint32
   \<Rightarrow> arena_team \<Rightarrow> arena_world \<Rightarrow> bool \<times> arena_team \<times> arena_world" where
  "Create e captain type teamName background style color border borderColor t w =
     (case ae_find_player e captain of
        None \<Rightarrow> (False, t, w)
      | Some p \<Rightarrow>
          if GetArenaTeamByName teamName w \<noteq> None then (False, t, w)
          else
            let (teamId, w1) = GenerateArenaTeamId w;
                t1 = t\<lparr>at_Id := teamId, at_Captain := captain, at_Type := type, at_Name := teamName,
                       at_BackgroundColor := background, at_EmblemStyle := ucast style,
                       at_EmblemColor := color, at_BorderStyle := ucast border, at_BorderColor := borderColor\<rparr>;
                w2 = aemit (ArenaSql (InsArenaTeam teamId teamName (guid_counter captain) type
                       (as_Rating (at_Stats t1)) background style color border borderColor)) w1;
                w3 = aemit (ArenaLog teamId AT_EV_CREATE (GetType t1) (guid_counter captain) (ap_address p)) w2;
                (ok, t2, w4) = AddMember e captain t1 w3
            in (True, t2, w4))"

section \<open>Loading\<close>

record arena_team_row =
  tr_id :: uint32
  tr_name :: string
  tr_captain :: uint32
  tr_type :: uint8
  tr_background :: uint32
  tr_emblem_style :: uint8
  tr_emblem_color :: uint32
  tr_border_style :: uint8
  tr_border_color :: uint32
  tr_rating :: uint16
  tr_WeekGames :: uint16
  tr_WeekWins :: uint16
  tr_SeasonGames :: uint16
  tr_SeasonWins :: uint16
  tr_rank :: uint32
  tr_nonplayed :: uint16

record arena_member_row =
  mr_team :: uint32
  mr_guid :: uint32
  mr_WeekGames :: uint16
  mr_WeekWins :: uint16
  mr_SeasonGames :: uint16
  mr_SeasonWins :: uint16
  mr_name :: string
  mr_class :: uint8
  mr_rating :: uint16

definition LoadArenaTeamFromDB :: "arena_team_row \<Rightarrow> arena_team \<Rightarrow> arena_team" where
  "LoadArenaTeamFromDB r t =
     t\<lparr>at_Id := tr_id r, at_Name := tr_name r, at_Captain := guid_of_counter HG_Player (tr_captain r),
       at_Type := tr_type r, at_BackgroundColor := tr_background r, at_EmblemStyle := ucast (tr_emblem_style r),
       at_EmblemColor := tr_emblem_color r, at_BorderStyle := ucast (tr_border_style r),
       at_BorderColor := tr_border_color r,
       at_Stats := \<lparr>as_Rating = tr_rating r, as_WeekGames = tr_WeekGames r, as_WeekWins = tr_WeekWins r,
                    as_SeasonGames = tr_SeasonGames r, as_SeasonWins = tr_SeasonWins r, as_Rank = tr_rank r,
                    as_NonPlayedWeeks = ucast (tr_nonplayed r)\<rparr>\<rparr>"

text \<open>The cursor over the member rows of all teams stands at the first row of its list.\<close>

fun load_members ::
  "arena_env \<Rightarrow> bool \<Rightarrow> arena_member_row list \<Rightarrow> arena_team \<Rightarrow> arena_world
   \<Rightarrow> bool \<times> arena_member_row list \<times> arena_team \<times> arena_world" where
  "load_members e captainPresent [] t w = (captainPresent, [], t, w)"
| "load_members e captainPresent (r # rows) t w =
     (if mr_team r > at_Id t then (captainPresent, r # rows, t, w)
      else
        let m = \<lparr>am_Guid = guid_of_counter HG_Player (mr_guid r), am_Name = mr_name r, am_Class = mr_class r,
                 am_WeekGames = ucast (mr_WeekGames r), am_WeekWins = ucast (mr_WeekWins r),
                 am_SeasonGames = ucast (mr_SeasonGames r), am_SeasonWins = ucast (mr_SeasonWins r),
                 am_PersonalRating = ucast (mr_rating r)\<rparr>
        in load_members e (captainPresent \<or> am_Guid m = at_Captain t) rows
             (t\<lparr>at_Members := at_Members t @ [m]\<rparr>)
             (UpdateCharacterArenaTeamId e (am_Guid m) (GetSlot t) (at_Id t) w))"

definition LoadMembersFromDB ::
  "arena_env \<Rightarrow> arena_member_row list \<Rightarrow> arena_team \<Rightarrow> arena_world
   \<Rightarrow> bool \<times> arena_member_row list \<times> arena_team \<times> arena_world" where
  "LoadMembersFromDB e rows t w =
     (case load_members e False rows t w of (cap, rows', t', w') \<Rightarrow>
        (\<not> (at_Members t' = [] \<or> \<not> cap), rows', t', w'))"

fun load_teams ::
  "nat \<Rightarrow> arena_env \<Rightarrow> arena_team_row list \<Rightarrow> arena_member_row list \<Rightarrow> arena_world \<Rightarrow> arena_world option" where
  "load_teams fuel e [] members w = Some w"
| "load_teams fuel e (r # rows) members w =
     (case LoadMembersFromDB e members (LoadArenaTeamFromDB r ArenaTeam_new) w of
        (ok, members', t, w1) \<Rightarrow>
          if ok then load_teams fuel e rows members' (AddArenaTeam t w1)
          else (case Disband fuel e None t w1 of
                  None \<Rightarrow> None
                | Some (t', w2) \<Rightarrow> load_teams fuel e rows members' w2))"

section \<open>Distribution of points\<close>

fun collect_points ::
  "arena_env \<Rightarrow> (uint32, arena_team) omap \<Rightarrow> (uint32, uint32) omap
   \<Rightarrow> (uint32, arena_team) omap \<times> (uint32, uint32) omap" where
  "collect_points e [] pts = ([], pts)"
| "collect_points e ((k, t) # ts) pts =
     (case UpdateArenaPointsHelper e t pts of (t', pts1) \<Rightarrow>
        (case collect_points e ts pts1 of (ts', pts2) \<Rightarrow> ((k, t') # ts', pts2)))"

definition give_points :: "arena_env \<Rightarrow> uint32 \<times> uint32 \<Rightarrow> arena_world \<Rightarrow> arena_world" where
  "give_points e kp w =
     (case kp of (k, p) \<Rightarrow>
        (case ae_connected e (guid_of_counter HG_Player k) of
           Some pl \<Rightarrow> aemit (ModifyArenaPoints (ap_guid pl) p) w
         | None \<Rightarrow> aemit (ArenaSql (UpdAddCharArenaPoints p k)) w))"

definition end_week :: "arena_env \<Rightarrow> uint32 \<Rightarrow> arena_world \<Rightarrow> arena_world" where
  "end_week e k w =
     (case omap_find (aw_store w) k of
        None \<Rightarrow> w
      | Some t \<Rightarrow>
          let t1 = (if GetType t = ARENA_TEAM_2v2 \<and> ae_decay_enabled e then HandleDecay e t w else t);
              (changed, t2) = FinishWeek t1;
              w1 = AddArenaTeam t2 w;
              w2 = (if changed then arena_SaveToDB t2 w1 else w1)
          in NotifyStatsChanged e t2 w2)"

definition DistributeArenaPoints :: "arena_env \<Rightarrow> arena_world \<Rightarrow> arena_world" where
  "DistributeArenaPoints e w =
     (case collect_points e (aw_store w) [] of (ts, pts) \<Rightarrow>
        titles_if e (fold (end_week e) (map fst ts) (fold (give_points e) pts (w\<lparr>aw_store := ts\<rparr>))))"

section \<open>Packet handlers\<close>

datatype arena_error = ArenaPacket bb_error | UseOfDeletedTeam uint32

type_synonym arena_result = "(arena_error, arena_world) result option"

definition read_or_throw :: "(bb_error, 'a) result \<Rightarrow> ('a \<Rightarrow> arena_result) \<Rightarrow> arena_result" where
  "read_or_throw r k = (case r of Inl err \<Rightarrow> Some (Inl (ArenaPacket err)) | Inr x \<Rightarrow> k x)"

text \<open>Using the team found in the store; the pointer is dangling when the object was deleted.\<close>

definition use_team :: "uint32 \<Rightarrow> arena_world \<Rightarrow> arena_result \<Rightarrow> (arena_team \<Rightarrow> arena_result) \<Rightarrow> arena_result" where
  "use_team teamId w absent k =
     (case GetArenaTeamById teamId w of
        None \<Rightarrow> absent
      | Some t \<Rightarrow> if teamId \<in> set (aw_deleted w) then Some (Inl (UseOfDeletedTeam teamId)) else k t)"

definition HandleInspectArenaTeamsOpcode :: "arena_env \<Rightarrow> arena_player \<Rightarrow> byte_buffer \<Rightarrow> arena_world \<Rightarrow> arena_result" where
  "HandleInspectArenaTeamsOpcode e p b w =
     read_or_throw (read_word b) (\<lambda>(g :: uint64, b1).
       case ae_find_player e g of
         None \<Rightarrow> Some (Inr w)
       | Some target \<Rightarrow>
           if \<not> ae_may_inspect e (ap_guid p) g then Some (Inr w)
           else fold (\<lambda>i r. case r of
                       Some (Inr v) \<Rightarrow>
                         let a_id = GetArenaTeamId g i v
                         in if a_id = 0 then r
                            else use_team a_id v r (\<lambda>t. Some (Inr (Inspect (ap_guid p) g t v)))
                     | _ \<Rightarrow> r) [0..<3] (Some (Inr w)))"

definition HandleArenaTeamQueryOpcode :: "arena_player \<Rightarrow> byte_buffer \<Rightarrow> arena_world \<Rightarrow> arena_result" where
  "HandleArenaTeamQueryOpcode p b w =
     read_or_throw (read_word b) (\<lambda>(teamId :: uint32, b1).
       use_team teamId w (Some (Inr w)) (\<lambda>t. Some (Inr (SendStats (ap_guid p) t (Query (ap_guid p) t w)))))"

definition HandleArenaTeamRosterOpcode :: "arena_env \<Rightarrow> arena_player \<Rightarrow> byte_buffer \<Rightarrow> arena_world \<Rightarrow> arena_result" where
  "HandleArenaTeamRosterOpcode e p b w =
     read_or_throw (read_word b) (\<lambda>(teamId :: uint32, b1).
       use_team teamId w (Some (Inr w)) (\<lambda>t. Some (Inr (Roster e (ap_guid p) t w))))"

abbreviation "ERR_ARENA_TEAM_CREATE_S \<equiv> (0x00 :: uint32)"
abbreviation "ERR_ARENA_TEAM_INVITE_SS \<equiv> (0x01 :: uint32)"
abbreviation "ERR_ARENA_TEAM_QUIT_S \<equiv> (0x03 :: uint32)"

definition HandleArenaTeamInviteOpcode :: "arena_env \<Rightarrow> arena_player \<Rightarrow> byte_buffer \<Rightarrow> arena_world \<Rightarrow> arena_result" where
  "HandleArenaTeamInviteOpcode e p b w =
     read_or_throw (read_word b) (\<lambda>(teamId :: uint32, b1).
     read_or_throw (read_string b1) (\<lambda>(rawName, b2).
       let reply = (\<lambda>action team pl err. Some (Inr (SendArenaTeamCommandResult (ap_guid p) action team pl err w)))
       in case (if rawName = [] then Some [] else ae_normalize_name e rawName) of
            None \<Rightarrow> Some (Inr w)
          | Some invitedName \<Rightarrow>
              (case (if rawName = [] then None else ae_find_by_name e invitedName) of
                 None \<Rightarrow> reply ERR_ARENA_TEAM_CREATE_S '''' invitedName 0x0B
               | Some pl \<Rightarrow>
                   if ap_level pl < ae_max_level e then reply ERR_ARENA_TEAM_CREATE_S '''' (ap_name pl) 0x15
                   else use_team teamId w (reply ERR_ARENA_TEAM_CREATE_S '''' '''' 0x09) (\<lambda>t.
                     if HasIgnore (guid_counter (ap_guid p)) (ae_social e (ap_guid pl)) then Some (Inr w)
                     else if \<not> ae_two_side_guild e \<and> ap_team pl \<noteq> ap_team p
                     then reply ERR_ARENA_TEAM_INVITE_SS '''' '''' 0x0C
                     else if GetArenaTeamId (ap_guid pl) (GetSlot t) w \<noteq> 0
                     then reply ERR_ARENA_TEAM_INVITE_SS '''' (ap_name pl) 0x03
                     else if aw_invited w (ap_guid pl) \<noteq> 0
                     then reply ERR_ARENA_TEAM_INVITE_SS '''' (ap_name pl) 0x05
                     else if length (at_Members t) \<ge> unat (GetType t * 2)
                     then reply ERR_ARENA_TEAM_CREATE_S (at_Name t) '''' 0x16
                     else Some (Inr (aemit (ArenaSend (ap_guid pl)
                            \<lparr>wp_opcode = 0x350, wp_fields = [Str (ap_name p), Str (at_Name t)]\<rparr>)
                            (w\<lparr>aw_invited := (aw_invited w)(ap_guid pl := at_Id t)\<rparr>)))))))"

definition HandleArenaTeamAcceptOpcode :: "arena_env \<Rightarrow> arena_player \<Rightarrow> arena_world \<Rightarrow> arena_result" where
  "HandleArenaTeamAcceptOpcode e p w =
     (let reply = (\<lambda>err. Some (Inr (SendArenaTeamCommandResult (ap_guid p) ERR_ARENA_TEAM_CREATE_S '''' '''' err w)))
      in use_team (aw_invited w (ap_guid p)) w (Some (Inr w)) (\<lambda>t.
           if GetArenaTeamId (ap_guid p) (unat (GetType t)) w \<noteq> 0 then reply 0x02
           else if \<not> ae_two_side_guild e \<and>
                   ap_team p \<noteq> (case ae_char e (at_Captain t) of None \<Rightarrow> 0 | Some c \<Rightarrow> ac_team c)
           then reply 0x0C
           else case AddMember e (ap_guid p) t w of (ok, t1, w1) \<Rightarrow>
                  if \<not> ok then reply 0x01
                  else Some (Inr (BroadcastPacket e (BuildArenaTeamEventPacket 3 [ap_name p, at_Name t1]) t1
                              (AddArenaTeam t1 w1)))))"

definition HandleArenaTeamDeclineOpcode :: "arena_player \<Rightarrow> arena_world \<Rightarrow> arena_result" where
  "HandleArenaTeamDeclineOpcode p w = Some (Inr (w\<lparr>aw_invited := (aw_invited w)(ap_guid p := 0)\<rparr>))"

text \<open>The player is queued for the team's arena type and already invited into a match.\<close>

definition queue_invited :: "arena_env \<Rightarrow> arena_player \<Rightarrow> arena_team \<Rightarrow> bool" where
  "queue_invited e p t \<longleftrightarrow> arena_queue (GetType t) \<and> ae_queue e (ap_guid p) (GetType t) = Some True"

text \<open>\<open>at->Disband(this); delete at;\<close>\<close>

definition disband_and_delete :: "nat \<Rightarrow> arena_env \<Rightarrow> arena_player \<Rightarrow> arena_team \<Rightarrow> arena_world \<Rightarrow> arena_result" where
  "disband_and_delete fuel e p t w =
     (case Disband fuel e (Some p) t w of
        None \<Rightarrow> None
      | Some (t', w') \<Rightarrow> Some (Inr (w'\<lparr>aw_deleted := at_Id t' # aw_deleted w'\<rparr>)))"

definition HandleArenaTeamLeaveOpcode :: "nat \<Rightarrow> arena_env \<Rightarrow> arena_player \<Rightarrow> byte_buffer \<Rightarrow> arena_world \<Rightarrow> arena_result" where
  "HandleArenaTeamLeaveOpcode fuel e p b w =
     read_or_throw (read_word b) (\<lambda>(teamId :: uint32, b1).
       use_team teamId w (Some (Inr w)) (\<lambda>t.
         if ap_guid p = at_Captain t \<and> length (at_Members t) > 1
         then Some (Inr (SendArenaTeamCommandResult (ap_guid p) ERR_ARENA_TEAM_QUIT_S '''' '''' 0x08 w))
         else if queue_invited e p t
         then Some (Inr (SendArenaTeamCommandResult (ap_guid p) ERR_ARENA_TEAM_QUIT_S '''' '''' 0x01 w))
         else if ap_guid p = at_Captain t then disband_and_delete fuel e p t w
         else case DeleteMember e (ap_guid p) True t w of (t1, w1) \<Rightarrow>
                let w2 = AddArenaTeam t1 w1
                in if ap_in_arena p then Some (Inr w2)
                   else Some (Inr (SendArenaTeamCommandResult (ap_guid p) ERR_ARENA_TEAM_QUIT_S (at_Name t1) '''' 0
                          (BroadcastPacket e (BuildArenaTeamEventPacket 4 [ap_name p, at_Name t1]) t1 w2)))))"

definition HandleArenaTeamDisbandOpcode :: "nat \<Rightarrow> arena_env \<Rightarrow> arena_player \<Rightarrow> byte_buffer \<Rightarrow> arena_world \<Rightarrow> arena_result" where
  "HandleArenaTeamDisbandOpcode fuel e p b w =
     read_or_throw (read_word b) (\<lambda>(teamId :: uint32, b1).
       use_team teamId w (Some (Inr w)) (\<lambda>t.
         if at_Captain t \<noteq> ap_guid p then Some (Inr w)
         else if queue_invited e p t then Some (Inr w)
         else if IsFighting e t then Some (Inr w)
         else disband_and_delete fuel e p t w))"

text \<open>The beginning that removing a member and promoting one share: the captain names a member.\<close>

definition captain_names_member ::
  "arena_env \<Rightarrow> arena_player \<Rightarrow> byte_buffer \<Rightarrow> arena_world
   \<Rightarrow> (arena_team \<Rightarrow> string \<Rightarrow> arena_member \<Rightarrow> arena_result) \<Rightarrow> arena_result" where
  "captain_names_member e p b w k =
     (let reply = (\<lambda>pl err. Some (Inr (SendArenaTeamCommandResult (ap_guid p) ERR_ARENA_TEAM_CREATE_S '''' pl err w)))
      in read_or_throw (read_word b) (\<lambda>(teamId :: uint32, b1).
         read_or_throw (read_string b1) (\<lambda>(rawName, b2).
           use_team teamId w (Some (Inr w)) (\<lambda>t.
             if at_Captain t \<noteq> ap_guid p then reply '''' 0x08
             else case ae_normalize_name e rawName of
                    None \<Rightarrow> Some (Inr w)
                  | Some name \<Rightarrow>
                      (case GetMember_by_name e name t of
                         None \<Rightarrow> reply name 0x0B
                       | Some m \<Rightarrow> k t name m)))))"

definition HandleArenaTeamRemoveOpcode :: "arena_env \<Rightarrow> arena_player \<Rightarrow> byte_buffer \<Rightarrow> arena_world \<Rightarrow> arena_result" where
  "HandleArenaTeamRemoveOpcode e p b w =
     captain_names_member e p b w (\<lambda>t name m.
       if (case ae_find_player e (am_Guid m) of None \<Rightarrow> False | Some q \<Rightarrow> ap_in_arena q) then Some (Inr w)
       else if at_Captain t = am_Guid m
       then Some (Inr (SendArenaTeamCommandResult (ap_guid p) ERR_ARENA_TEAM_QUIT_S '''' '''' 0x08 w))
       else if queue_invited e p t
       then Some (Inr (SendArenaTeamCommandResult (ap_guid p) ERR_ARENA_TEAM_QUIT_S '''' '''' 0x01 w))
       else if IsFighting e t then Some (Inr w)
       else case DeleteMember e (am_Guid m) True t w of (t1, w1) \<Rightarrow>
              Some (Inr (BroadcastPacket e (BuildArenaTeamEventPacket 5 [name, at_Name t1, ap_name p]) t1
                     (AddArenaTeam t1 w1))))"

definition HandleArenaTeamLeaderOpcode :: "arena_env \<Rightarrow> arena_player \<Rightarrow> byte_buffer \<Rightarrow> arena_world \<Rightarrow> arena_result" where
  "HandleArenaTeamLeaderOpcode e p b w =
     captain_names_member e p b w (\<lambda>t name m.
       if at_Captain t = am_Guid m then Some (Inr w)
       else case SetCaptain e (am_Guid m) t w of (t1, w1) \<Rightarrow>
              Some (Inr (BroadcastPacket e (BuildArenaTeamEventPacket 7 [ap_name p, name, at_Name t1]) t1
                     (AddArenaTeam t1 w1))))"

end
