(* ===== verification/ArenaLaws.thy ===== *)
theory ArenaLaws
  imports ArenaTeamMgr
begin

text \<open>
  Laws of the arena teams: which operations touch the store, what adding and deleting
  members do to a team, when disbanding ends, the invariant that client packets keep, the
  points a player gets, and the defects the model shows.
\<close>

section \<open>Frames\<close>

named_theorems arena_frame \<open>operations that leave the store of teams alone\<close>

lemma aemit_frame [arena_frame]:
  "aw_store (aemit x w) = aw_store w" "aw_deleted (aemit x w) = aw_deleted w"
  "aw_field (aemit x w) = aw_field w" "aw_cache (aemit x w) = aw_cache w"
  by (simp_all add: aemit_def)

lemma set_field_frame [arena_frame]:
  "aw_store (set_field g i v w) = aw_store w" "aw_deleted (set_field g i v w) = aw_deleted w"
  by (simp_all add: set_field_def)

lemma cache_frame [arena_frame]:
  "aw_store (UpdateCharacterArenaTeamId e g s i w) = aw_store w"
  "aw_deleted (UpdateCharacterArenaTeamId e g s i w) = aw_deleted w"
  "aw_field (UpdateCharacterArenaTeamId e g s i w) = aw_field w"
  by (simp_all add: UpdateCharacterArenaTeamId_def aemit_frame split: option.split)

lemma send_frame [arena_frame]:
  "aw_store (SendArenaTeamCommandResult p a nm n err w) = aw_store w"
  "aw_deleted (SendArenaTeamCommandResult p a nm n err w) = aw_deleted w"
  "aw_field (SendArenaTeamCommandResult p a nm n err w) = aw_field w"
  "aw_store (SendStats p t w) = aw_store w" "aw_deleted (SendStats p t w) = aw_deleted w"
  "aw_store (Query p t w) = aw_store w" "aw_deleted (Query p t w) = aw_deleted w"
  "aw_store (Roster e p t w) = aw_store w" "aw_deleted (Roster e p t w) = aw_deleted w"
  by (simp_all add: SendArenaTeamCommandResult_def SendStats_def Query_def Roster_def Let_def aemit_frame)

lemma inspect_frame [arena_frame]:
  "aw_store (Inspect p g t w) = aw_store w" "aw_deleted (Inspect p g t w) = aw_deleted w"
  by (simp_all add: Inspect_def aemit_frame split: option.split)

lemma broadcast_frame [arena_frame]:
  "aw_store (BroadcastPacket e d t w) = aw_store w" "aw_deleted (BroadcastPacket e d t w) = aw_deleted w"
  "aw_field (BroadcastPacket e d t w) = aw_field w"
proof -
  have "(aw_store (BroadcastPacket e d t w), aw_deleted (BroadcastPacket e d t w), aw_field (BroadcastPacket e d t w)) =
      (aw_store w, aw_deleted w, aw_field w)"
    unfolding BroadcastPacket_def
    by (rule fold_preserves [where P = "\<lambda>w. (aw_store w, aw_deleted w, aw_field w)"])
      (simp add: aemit_frame split: option.split)
  then show "aw_store (BroadcastPacket e d t w) = aw_store w" "aw_deleted (BroadcastPacket e d t w) = aw_deleted w"
    "aw_field (BroadcastPacket e d t w) = aw_field w" by simp_all
qed

lemma clear_fields_frame [arena_frame]:
  "aw_store (clear_fields g s w) = aw_store w" "aw_deleted (clear_fields g s w) = aw_deleted w"
  by (simp_all add: clear_fields_def upt_conv_Cons set_field_frame numeral_eq_Suc)

lemma queue_drop_frame [arena_frame]:
  "aw_store (queue_drop e grp ty m w) = aw_store w" "aw_deleted (queue_drop e grp ty m w) = aw_deleted w"
  "aw_field (queue_drop e grp ty m w) = aw_field w"
  by (simp_all add: queue_drop_def aemit_frame split: option.split)

section \<open>Adding and deleting members\<close>

lemma AddMember_cases:
  assumes "AddMember e g t w = (ok, t', w')"
  obtains (refused) "\<not> ok" "t' = t" "w' = w"
  | (added) ok "length (at_Members t) < unat (GetType t * 2)"
      "t' = t\<lparr>at_Members := at_Members t @ [new_member g]\<rparr>"
      "aw_store w' = aw_store w" "aw_deleted w' = aw_deleted w"
proof -
  have "(\<not> ok \<and> t' = t \<and> w' = w) \<or>
      (ok \<and> length (at_Members t) < unat (GetType t * 2) \<and>
       t' = t\<lparr>at_Members := at_Members t @ [new_member g]\<rparr> \<and>
       aw_store w' = aw_store w \<and> aw_deleted w' = aw_deleted w)"
    using assms by (auto simp: AddMember_def Let_def SetInArenaTeam_def arena_frame split: if_splits)
  then show thesis using refused added by blast
qed

lemma delete_loop_frame:
  "delete_loop e grp t g ms w = (ms', w') \<Longrightarrow>
   aw_store w' = aw_store w \<and> aw_deleted w' = aw_deleted w \<and> aw_field w' = aw_field w"
  by (induction ms arbitrary: w ms' w')
    (auto simp: Let_def arena_frame split: if_splits prod.splits)

lemma delete_loop_members:
  "delete_loop e grp t g ms w = (ms', w') \<Longrightarrow>
   length ms' \<le> length ms \<and> {m \<in> set ms. am_Guid m \<noteq> g} \<subseteq> set ms'"
  by (induction ms arbitrary: w ms' w') (fastforce simp: Let_def split: if_splits prod.splits)+

definition in_arena :: "arena_env \<Rightarrow> guid \<Rightarrow> bool" where
  "in_arena e g \<longleftrightarrow> (case ae_connected e g of None \<Rightarrow> False | Some p \<Rightarrow> ap_in_arena p)"

lemma DeleteMember_frame:
  assumes "DeleteMember e g c t w = (t', w')"
  shows "aw_store w' = aw_store w" "aw_deleted w' = aw_deleted w"
    and "at_Id t' = at_Id t" "at_Type t' = at_Type t" "at_Captain t' = at_Captain t" "at_Name t' = at_Name t"
  using assms
  by (auto simp: DeleteMember_def Let_def SetInArenaTeam_def arena_frame dest!: delete_loop_frame
      split: if_splits option.splits prod.splits)

lemma DeleteMember_members:
  assumes "DeleteMember e g c t w = (t', w')"
  shows "length (at_Members t') \<le> length (at_Members t)"
    and "HaveMember h t \<Longrightarrow> h \<noteq> g \<Longrightarrow> HaveMember h t'"
proof -
  have "t' = t \<or> (\<exists>grp w1. delete_loop e grp t g (at_Members t) w = (at_Members t', w1))"
    using assms by (auto simp: DeleteMember_def Let_def split: if_splits prod.splits)
  then show "length (at_Members t') \<le> length (at_Members t)"
    and "HaveMember h t \<Longrightarrow> h \<noteq> g \<Longrightarrow> HaveMember h t'"
    using delete_loop_members by (fastforce simp: HaveMember_def)+
qed

section \<open>Disbanding\<close>

lemma DeleteMember_in_arena: "in_arena e g \<Longrightarrow> DeleteMember e g c t w = (t, w)"
  by (simp add: DeleteMember_def in_arena_def Let_def)

lemma DeleteMember_front:
  assumes "\<not> in_arena e (am_Guid m)" "at_Members t = m # ms"
  shows "at_Members (fst (DeleteMember e (am_Guid m) c t w)) = ms"
  using assms by (simp add: DeleteMember_def in_arena_def Let_def)

lemma disband_loop_ends:
  assumes "\<forall>m \<in> set (at_Members t). \<not> in_arena e (am_Guid m)"
  shows "\<exists>t' w'. disband_loop (Suc (length (at_Members t))) e t w = Some (t', w') \<and> at_Members t' = [] \<and>
           at_Id t' = at_Id t \<and> aw_store w' = aw_store w \<and> aw_deleted w' = aw_deleted w"
  using assms
proof (induction "at_Members t" arbitrary: t w)
  case Nil
  then show ?case by simp
next
  case (Cons m ms)
  obtain t1 w1 where d: "DeleteMember e (am_Guid m) False t w = (t1, w1)" by fastforce
  have ms: "at_Members t1 = ms"
    using DeleteMember_front [of e m t ms False w] Cons d by (metis fst_conv list.set_intros(1))
  then have "\<forall>x \<in> set (at_Members t1). \<not> in_arena e (am_Guid x)" using Cons by (metis list.set_intros(2))
  from Cons.hyps(1) [OF ms [symmetric] this, of w1] show ?case
    using ms Cons.hyps(2) [symmetric] d DeleteMember_frame [OF d] by simp
qed

lemma disband_loop_hangs:
  assumes "\<exists>m \<in> set (at_Members t). in_arena e (am_Guid m)"
  shows "disband_loop n e t w = None"
  using assms
proof (induction n arbitrary: t w)
  case (Suc n)
  then obtain m ms where t: "at_Members t = m # ms" by (cases "at_Members t") auto
  obtain t1 w1 where d: "DeleteMember e (am_Guid m) False t w = (t1, w1)" by fastforce
  have "\<exists>m \<in> set (at_Members t1). in_arena e (am_Guid m)"
  proof (cases "in_arena e (am_Guid m)")
    case True
    then show ?thesis using d DeleteMember_in_arena Suc.prems by force
  next
    case False
    then have "at_Members t1 = ms" using DeleteMember_front [OF False t, of False w] d by simp
    then show ?thesis using Suc.prems t False by auto
  qed
  then show ?case using t d Suc.IH by simp
qed simp

text \<open>
  C34. The loop of \<open>Disband\<close> ends if and only if no member of the team is connected and in an
  arena; otherwise it runs forever, because \<open>DeleteMember\<close> refuses such a member and the
  loop retries the same one.
\<close>

theorem disband_ends_iff_nobody_in_arena:
  "(\<exists>fuel r. disband_loop fuel e t w = Some r) \<longleftrightarrow> \<not> (\<exists>m \<in> set (at_Members t). in_arena e (am_Guid m))"
  using disband_loop_ends [of t e w] disband_loop_hangs [of t e _ w] by fastforce

section \<open>What client packets keep\<close>

definition team_ok :: "uint32 \<Rightarrow> arena_team \<Rightarrow> bool" where
  "team_ok teamId t \<longleftrightarrow>
     at_Id t = teamId \<and> HaveMember (at_Captain t) t \<and> length (at_Members t) \<le> unat (GetType t * 2)"

definition arena_ok :: "arena_world \<Rightarrow> bool" where
  "arena_ok w \<longleftrightarrow>
     omap_ok (aw_store w) \<and>
     (\<forall>teamId t. omap_find (aw_store w) teamId = Some t \<longrightarrow> teamId \<notin> set (aw_deleted w) \<longrightarrow> team_ok teamId t)"

lemma arena_ok_frame:
  "aw_store w' = aw_store w \<Longrightarrow> aw_deleted w' = aw_deleted w \<Longrightarrow> arena_ok w' = arena_ok w"
  by (simp add: arena_ok_def)

lemma arena_ok_invited [simp]: "arena_ok (w\<lparr>aw_invited := f\<rparr>) = arena_ok w"
  by (rule arena_ok_frame) simp_all

lemma arena_ok_frames [simp]:
  "arena_ok (aemit x w) = arena_ok w"
  "arena_ok (SendArenaTeamCommandResult p a nm n err w) = arena_ok w"
  "arena_ok (SendStats p t w) = arena_ok w" "arena_ok (Query p t w) = arena_ok w"
  "arena_ok (Roster e p t w) = arena_ok w" "arena_ok (Inspect p g t w) = arena_ok w"
  "arena_ok (BroadcastPacket e d t w) = arena_ok w"
  by (rule arena_ok_frame; simp add: arena_frame)+

text \<open>The shape of every handler: it keeps the invariant unless it throws or never returns.\<close>

definition keeps_arena :: "arena_result \<Rightarrow> bool" where
  "keeps_arena r \<longleftrightarrow> (\<forall>w'. r = Some (Inr w') \<longrightarrow> arena_ok w')"

lemma keeps_arena_simps [simp]: "keeps_arena (Some (Inr w)) = arena_ok w" "keeps_arena (Some (Inl err))" "keeps_arena None"
  by (simp_all add: keeps_arena_def)

lemma keeps_read [intro]: "(\<And>x. keeps_arena (k x)) \<Longrightarrow> keeps_arena (read_or_throw r k)"
  by (simp add: read_or_throw_def keeps_arena_def split: sum.split)

lemma keeps_use [intro]:
  assumes "arena_ok w" "keeps_arena absent" "\<And>t. omap_find (aw_store w) teamId = Some t \<Longrightarrow> team_ok teamId t \<Longrightarrow> keeps_arena (k t)"
  shows "keeps_arena (use_team teamId w absent k)"
  using assms by (auto simp: use_team_def GetArenaTeamById_def keeps_arena_def arena_ok_def split: option.split)

lemma arena_ok_put:
  assumes "arena_ok w" "team_ok (at_Id t) t" "aw_store w' = aw_store w" "aw_deleted w' = aw_deleted w"
  shows "arena_ok (AddArenaTeam t w')"
  using assms by (auto simp: arena_ok_def AddArenaTeam_def om.find_put om.invar_put)

lemma DeleteMember_team_ok:
  assumes "team_ok k t" "at_Captain t \<noteq> g" "DeleteMember e g c t w = (t', w')"
  shows "team_ok (at_Id t') t'"
  using assms DeleteMember_frame [OF assms(3)] DeleteMember_members [OF assms(3)]
  by (auto simp: team_ok_def GetType_def)

lemma AddMember_team_ok:
  assumes "team_ok k t" "AddMember e g t w = (True, t', w')"
  shows "team_ok (at_Id t') t'"
  using assms(2) by (cases rule: AddMember_cases) (use assms(1) in \<open>auto simp: team_ok_def GetType_def HaveMember_def\<close>)

lemma member_by_name_in: "member_by_name e nm ms = Some m \<Longrightarrow> m \<in> set ms"
  by (induction ms) (auto split: option.splits if_splits)

lemma SetCaptain_frame:
  assumes "SetCaptain e g t w = (t', w')"
  shows "t' = t\<lparr>at_Captain := g\<rparr>" "aw_store w' = aw_store w" "aw_deleted w' = aw_deleted w"
  using assms by (auto simp: SetCaptain_def Let_def arena_frame split: option.splits if_splits)

lemma disband_loop_frame:
  "disband_loop n e t w = Some (t', w') \<Longrightarrow>
   at_Id t' = at_Id t \<and> aw_store w' = aw_store w \<and> aw_deleted w' = aw_deleted w"
proof (induction n arbitrary: t w)
  case (Suc n)
  show ?case
  proof (cases "at_Members t")
    case (Cons m ms)
    obtain t1 w1 where d: "DeleteMember e (am_Guid m) False t w = (t1, w1)" by fastforce
    then show ?thesis using Suc Cons DeleteMember_frame [OF d] by simp
  qed (use Suc.prems in simp)
qed simp

lemma arena_ok_delete: "arena_ok w \<Longrightarrow> arena_ok (w\<lparr>aw_deleted := k # aw_deleted w\<rparr>)"
  by (auto simp: arena_ok_def)

lemma Disband_ok:
  assumes "arena_ok w" "Disband n e s t w = Some (t', w')"
  shows "arena_ok w'"
proof -
  have erase: "arena_ok (RemoveArenaTeam k v)" if "aw_store v = aw_store w" "aw_deleted v = aw_deleted w" for k v
    using assms(1) that by (auto simp: arena_ok_def RemoveArenaTeam_def om.find_erase om.invar_erase split: if_splits)
  show ?thesis
    using assms
    by (auto simp: Disband_def Let_def arena_frame intro!: erase dest!: disband_loop_frame
        split: if_splits option.splits)
qed

lemma keeps_disband: "arena_ok w \<Longrightarrow> keeps_arena (disband_and_delete n e p t w)"
  using Disband_ok by (auto simp: disband_and_delete_def keeps_arena_def intro!: arena_ok_delete split: option.splits)


datatype arena_request = ArInspect | ArQuery | ArRoster | ArInvite | ArAccept | ArDecline | ArLeave | ArDisband
  | ArRemove | ArLeader

fun dispatch_arena :: "nat \<Rightarrow> arena_env \<Rightarrow> arena_request \<Rightarrow> arena_player \<Rightarrow> byte_buffer \<Rightarrow> arena_world \<Rightarrow> arena_result" where
  "dispatch_arena n e ArInspect p b w = HandleInspectArenaTeamsOpcode e p b w"
| "dispatch_arena n e ArQuery p b w = HandleArenaTeamQueryOpcode p b w"
| "dispatch_arena n e ArRoster p b w = HandleArenaTeamRosterOpcode e p b w"
| "dispatch_arena n e ArInvite p b w = HandleArenaTeamInviteOpcode e p b w"
| "dispatch_arena n e ArAccept p b w = HandleArenaTeamAcceptOpcode e p w"
| "dispatch_arena n e ArDecline p b w = HandleArenaTeamDeclineOpcode p w"
| "dispatch_arena n e ArLeave p b w = HandleArenaTeamLeaveOpcode n e p b w"
| "dispatch_arena n e ArDisband p b w = HandleArenaTeamDisbandOpcode n e p b w"
| "dispatch_arena n e ArRemove p b w = HandleArenaTeamRemoveOpcode e p b w"
| "dispatch_arena n e ArLeader p b w = HandleArenaTeamLeaderOpcode e p b w"

lemma keeps_inspect:
  assumes "arena_ok w"
  shows "keeps_arena (HandleInspectArenaTeamsOpcode e p b w)"
proof -
  let ?step = "\<lambda>g i r. case r of Some (Inr v) \<Rightarrow>
      let a_id = GetArenaTeamId g i v
      in if a_id = 0 then r else use_team a_id v r (\<lambda>t. Some (Inr (Inspect (ap_guid p) g t v)))
    | _ \<Rightarrow> r"
  have step: "keeps_arena (?step g i r)" if "keeps_arena r" for g i r
  proof (cases r)
    case (Some x)
    then show ?thesis
      using that by (cases x) (auto simp: Let_def keeps_arena_def use_team_def GetArenaTeamById_def split: option.splits if_splits)
  qed (use that in simp)
  have fold: "keeps_arena (fold (?step g) xs r)" if "keeps_arena r" for g xs r
    using that by (induction xs arbitrary: r) (use step in auto)
  show ?thesis
    unfolding HandleInspectArenaTeamsOpcode_def
    using assms fold [of "Some (Inr w)"] by (auto split: option.split)
qed

lemma keeps_accept: "arena_ok w \<Longrightarrow> keeps_arena (HandleArenaTeamAcceptOpcode e p w)"
  unfolding HandleArenaTeamAcceptOpcode_def Let_def
proof (rule keeps_use)
  fix t
  assume ok: "arena_ok w" and t: "team_ok (aw_invited w (ap_guid p)) t"
  obtain r t1 w1 where a: "AddMember e (ap_guid p) t w = (r, t1, w1)" by (cases "AddMember e (ap_guid p) t w")
  have "arena_ok (AddArenaTeam t1 w1)" if r
    using a by (cases rule: AddMember_cases)
      (use that ok t a in \<open>auto intro!: arena_ok_put [OF ok] AddMember_team_ok\<close>)
  then show "keeps_arena (if GetArenaTeamId (ap_guid p) (unat (GetType t)) w \<noteq> 0
      then Some (Inr (SendArenaTeamCommandResult (ap_guid p) ERR_ARENA_TEAM_CREATE_S '''' '''' 2 w))
      else if \<not> ae_two_side_guild e \<and> ap_team p \<noteq> (case ae_char e (at_Captain t) of None \<Rightarrow> 0 | Some c \<Rightarrow> ac_team c)
      then Some (Inr (SendArenaTeamCommandResult (ap_guid p) ERR_ARENA_TEAM_CREATE_S '''' '''' 12 w))
      else case AddMember e (ap_guid p) t w of (r, t1, w1) \<Rightarrow>
        if \<not> r then Some (Inr (SendArenaTeamCommandResult (ap_guid p) ERR_ARENA_TEAM_CREATE_S '''' '''' 1 w))
        else Some (Inr (BroadcastPacket e (BuildArenaTeamEventPacket 3 [ap_name p, at_Name t1]) t1 (AddArenaTeam t1 w1))))"
    using ok a by auto
qed auto

lemma keeps_invite: "arena_ok w \<Longrightarrow> keeps_arena (HandleArenaTeamInviteOpcode e p b w)"
  unfolding HandleArenaTeamInviteOpcode_def Let_def
  by (auto intro!: keeps_read keeps_use split: option.split)

lemma keeps_after_delete:
  assumes "DeleteMember e g c t w = (t1, w1)" "arena_ok w" "team_ok k t" "g \<noteq> at_Captain t"
  shows "arena_ok (AddArenaTeam t1 w1)"
  using arena_ok_put [OF assms(2) DeleteMember_team_ok [OF assms(3) assms(4) [symmetric] assms(1)]]
    DeleteMember_frame [OF assms(1)] by simp

lemma keeps_leave: "arena_ok w \<Longrightarrow> keeps_arena (HandleArenaTeamLeaveOpcode n e p b w)"
  unfolding HandleArenaTeamLeaveOpcode_def
  by (auto intro!: keeps_read keeps_use keeps_disband simp: Let_def dest: keeps_after_delete split: prod.split)

lemma keeps_captain_names:
  assumes "arena_ok w"
    and "\<And>k t nm m. team_ok k t \<Longrightarrow> m \<in> set (at_Members t) \<Longrightarrow> keeps_arena (act t nm m)"
  shows "keeps_arena (captain_names_member e p b w act)"
  unfolding captain_names_member_def Let_def
  by (use assms in \<open>auto intro!: keeps_read keeps_use assms(2) [OF _ member_by_name_in]
      simp: GetMember_by_name_def split: option.split\<close>)

lemma keeps_remove:
  assumes "arena_ok w"
  shows "keeps_arena (HandleArenaTeamRemoveOpcode e p b w)"
  unfolding HandleArenaTeamRemoveOpcode_def
  by (rule keeps_captain_names [OF assms])
    (use assms in \<open>auto split: prod.split dest: keeps_after_delete [OF _ assms _ not_sym]\<close>)

lemma keeps_leader:
  assumes "arena_ok w"
  shows "keeps_arena (HandleArenaTeamLeaderOpcode e p b w)"
  unfolding HandleArenaTeamLeaderOpcode_def
proof (rule keeps_captain_names [OF assms])
  fix k t nm m
  assume t: "team_ok k t" "m \<in> set (at_Members t)"
  obtain t1 w1 where s: "SetCaptain e (am_Guid m) t w = (t1, w1)" by fastforce
  have "team_ok (at_Id t1) t1"
    using t SetCaptain_frame(1) [OF s] by (auto simp: team_ok_def HaveMember_def GetType_def)
  then have "arena_ok (AddArenaTeam t1 w1)"
    using arena_ok_put [OF assms] SetCaptain_frame(2,3) [OF s] by simp
  then show "keeps_arena (if at_Captain t = am_Guid m then Some (Inr w)
      else case SetCaptain e (am_Guid m) t w of (t1, w1) \<Rightarrow>
        Some (Inr (BroadcastPacket e (BuildArenaTeamEventPacket 7 [ap_name p, nm, at_Name t1]) t1 (AddArenaTeam t1 w1))))"
    using assms s by auto
qed

lemma dispatch_arena_ok: "arena_ok w \<Longrightarrow> keeps_arena (dispatch_arena n e rq p b w)"
proof (cases rq)
  case ArQuery
  then show "arena_ok w \<Longrightarrow> ?thesis"
    by (auto simp: HandleArenaTeamQueryOpcode_def intro!: keeps_read keeps_use)
next
  case ArRoster
  then show "arena_ok w \<Longrightarrow> ?thesis" by (auto simp: HandleArenaTeamRosterOpcode_def intro!: keeps_read keeps_use)
next
  case ArDisband
  then show "arena_ok w \<Longrightarrow> ?thesis"
    by (auto simp: HandleArenaTeamDisbandOpcode_def intro!: keeps_read keeps_use keeps_disband)
qed (auto simp: keeps_inspect keeps_invite keeps_accept keeps_leave keeps_remove keeps_leader HandleArenaTeamDeclineOpcode_def)

definition arena_step ::
  "nat \<Rightarrow> arena_env \<Rightarrow> arena_world \<Rightarrow> arena_player \<times> arena_request \<times> byte_buffer \<Rightarrow> arena_world" where
  "arena_step n e w ev =
     (case ev of (p, rq, b) \<Rightarrow> (case dispatch_arena n e rq p b w of Some (Inr w') \<Rightarrow> w' | _ \<Rightarrow> w))"

interpretation arena: invariant_ops "arena_step n e" arena_ok "\<lambda>w x. True" for n e
proof
  fix w and x :: "arena_player \<times> arena_request \<times> byte_buffer"
  assume ok: "arena_ok w"
  obtain p rq b where x: "x = (p, rq, b)" by (cases x)
  show "arena_ok (arena_step n e w x)"
    using dispatch_arena_ok [OF ok, of n e rq p b] ok
    by (auto simp: x arena_step_def keeps_arena_def split: option.split sum.split)
qed

lemma unat_mult_le: "unat (a * b) \<le> unat a * unat b"
  by (simp add: unat_word_ariths)

text \<open>
  C15. Whatever packets clients send to the arena team handlers, every team in the store whose
  object still exists is filed under its own id, has its captain among its members and has
  at most twice as many members as its type.
\<close>

theorem arena_teams_keep_captain:
  assumes "arena_ok w0"
  shows "let w = run_ops (arena_step n e) w0 evs
         in \<forall>teamId t. omap_find (aw_store w) teamId = Some t \<longrightarrow> teamId \<notin> set (aw_deleted w) \<longrightarrow>
              at_Id t = teamId \<and> HaveMember (at_Captain t) t \<and> length (at_Members t) \<le> 2 * unat (at_Type t)"
proof -
  have "unat (GetType t * 2) \<le> 2 * unat (at_Type t)" for t
    by (rule order_trans [OF unat_mult_le]) (simp add: GetType_def unsigned_ucast_eq take_bit_nat_less_eq_self)
  moreover have "arena_ok (run_ops (arena_step n e) w0 evs)"
    by (rule arena.run_inv_total) (use assms in simp_all)
  ultimately show ?thesis
    by (fastforce simp: Let_def arena_ok_def team_ok_def intro: order_trans)
qed

text \<open>A concrete world: a 2v2 team with a captain and one member, and a 5v5 team of the member.\<close>

definition demo_arena_player :: "guid \<Rightarrow> bool \<Rightarrow> arena_player" where
  "demo_arena_player g inArena =
     \<lparr>ap_guid = g, ap_name = ''Ann'', ap_class = 1, ap_level = 70, ap_team = 469, ap_group = None,
      ap_in_arena = inArena, ap_on_arena_map = False, ap_address = ''local''\<rparr>"

definition demo_arena_env :: "bool \<Rightarrow> arena_env" where
  "demo_arena_env inArena =
     \<lparr>ae_find_player = \<lambda>g. Some (demo_arena_player g inArena),
      ae_connected = \<lambda>g. Some (demo_arena_player g inArena), ae_find_by_name = \<lambda>nm. None,
      ae_char = \<lambda>g. Some \<lparr>ac_name = ''Ann'', ac_level = 70, ac_class = 1, ac_team = 469\<rparr>,
      ae_normalize_name = Some, ae_social = \<lambda>g. \<lparr>ps_map = [], ps_guid = guid_counter g\<rparr>,
      ae_reserved_name = \<lambda>nm. False, ae_valid_charter_name = \<lambda>nm. True, ae_max_level = 70,
      ae_two_side_guild = False, ae_new_title_distrib = False, ae_alternate_rating = False,
      ae_decay_enabled = False, ae_decay_min_rating = 1500, ae_decay_weeks = 2, ae_decay_value = 50,
      ae_may_inspect = \<lambda>g h. True, ae_queue = \<lambda>g ty. None, ae_oob = \<lambda>g i. 0,
      ae_elo_gain = \<lambda>a b. 16, ae_points = \<lambda>ty r. r\<rparr>"

definition demo_team :: "uint32 \<Rightarrow> uint8 \<Rightarrow> guid list \<Rightarrow> arena_team" where
  "demo_team teamId ty gs =
     ArenaTeam_new\<lparr>at_Id := teamId, at_Type := ty, at_Name := ''Team'', at_Captain := hd gs,
       at_Members := map new_member gs\<rparr>"

definition demo_arena :: arena_world where
  "demo_arena =
     \<lparr>aw_store = [(1, demo_team 1 2 [7]), (2, demo_team 2 5 [8, 9])], aw_next = 3, aw_stop = False,
      aw_deleted = [], aw_field = \<lambda>g i. 0, aw_invited = \<lambda>g. 0,
      aw_cache = \<lambda>g i. if i = 2 \<and> g = 8 then 2 else 0, aw_out = []\<rparr>"

lemmas demo_arena_defs = demo_arena_player_def demo_arena_env_def demo_team_def demo_arena_def ArenaTeam_new_def
  new_member_def

lemma demo_arena_find:
  "omap_find (aw_store demo_arena) k =
     (if k = 1 then Some (demo_team 1 2 [7]) else if k = 2 then Some (demo_team 2 5 [8, 9]) else None)"
  by (simp add: demo_arena_def omap_find_def)

lemma demo_arena_ok: "arena_ok demo_arena"
proof -
  have "omap_ok (aw_store demo_arena)" by (simp add: demo_arena_def omap_ok_def)
  then show ?thesis
    by (simp add: arena_ok_def demo_arena_find team_ok_def HaveMember_def GetType_def demo_team_def ArenaTeam_new_def
        new_member_def)
qed

theorem arena_teams_keep_captain_witness:
  "let w = run_ops (arena_step 5 (demo_arena_env False)) demo_arena
             [(demo_arena_player 7 False, ArDecline, bb_new)]
   in \<forall>teamId t. omap_find (aw_store w) teamId = Some t \<longrightarrow> teamId \<notin> set (aw_deleted w) \<longrightarrow>
        at_Id t = teamId \<and> HaveMember (at_Captain t) t \<and> length (at_Members t) \<le> 2 * unat (at_Type t)"
  by (rule arena_teams_keep_captain [OF demo_arena_ok])

section \<open>Leaving\<close>

lemma read_u32_bytes:
  "read_word \<lparr>bb_rpos = 0, bb_wpos = 4, bb_storage = [a, 0, 0, 0]\<rparr> =
     (Inr (ucast a, \<lparr>bb_rpos = 4, bb_wpos = 4, bb_storage = [a, 0, 0, 0]\<rparr>) :: (bb_error, uint32 \<times> byte_buffer) result)"
  by (simp add: read_word_def read_word_at_def bind_result_def bb_size_def size_add_def)

text \<open>
  A captain who is the only member and leaves the team while in an arena destroys the team
  object although \<open>Disband\<close> refused: the store keeps the pointer, the database keeps the
  team, and the next packet that names the team uses a deleted object.
\<close>

theorem leave_in_arena_leaves_dangling:
  assumes "omap_find (aw_store w) teamId = Some t" "at_Id t = teamId" "teamId \<notin> set (aw_deleted w)"
    and "ap_guid p = at_Captain t" "length (at_Members t) \<le> 1" "ap_in_arena p" "\<not> queue_invited e p t"
    and "read_word b = Inr (teamId, b1)"
  shows "\<exists>w'. HandleArenaTeamLeaveOpcode fuel e p b w = Some (Inr w') \<and>
           omap_find (aw_store w') teamId = Some t \<and> aw_out w' = aw_out w @ [NotWhileInArena (ap_guid p)] \<and>
           HandleArenaTeamQueryOpcode q b w' = Some (Inl (UseOfDeletedTeam teamId))"
  using assms
  by (simp add: HandleArenaTeamLeaveOpcode_def HandleArenaTeamQueryOpcode_def read_or_throw_def use_team_def
      GetArenaTeamById_def disband_and_delete_def Disband_def aemit_def)

theorem leave_in_arena_leaves_dangling_witness:
  "\<exists>w'. HandleArenaTeamLeaveOpcode 5 (demo_arena_env True) (demo_arena_player 7 True)
           \<lparr>bb_rpos = 0, bb_wpos = 4, bb_storage = [1, 0, 0, 0]\<rparr> demo_arena = Some (Inr w') \<and>
        omap_find (aw_store w') 1 = Some (demo_team 1 2 [7]) \<and>
        aw_out w' = aw_out demo_arena @ [NotWhileInArena (ap_guid (demo_arena_player 7 True))] \<and>
        HandleArenaTeamQueryOpcode (demo_arena_player 8 False)
          \<lparr>bb_rpos = 0, bb_wpos = 4, bb_storage = [1, 0, 0, 0]\<rparr> w' = Some (Inl (UseOfDeletedTeam 1))"
  by (rule leave_in_arena_leaves_dangling [OF _ _ _ _ _ _ _ read_u32_bytes [of 1, simplified]])
    (simp_all add: demo_arena_find, simp_all add: demo_arena_defs queue_invited_def)

lemma delete_loop_stranger:
  "g \<notin> am_Guid ` set ms \<Longrightarrow> fst (delete_loop e grp t g ms w) = ms"
  by (induction ms arbitrary: w) (auto simp: Let_def case_prod_beta)

lemma clear_fields_zero: "aw_field (clear_fields g s w) g (s * 6) = 0"
  by (simp add: clear_fields_def upt_conv_Cons set_field_def numeral_eq_Suc)

text \<open>
  The leave handler does not test that the player is a member of the team named in the
  packet: a player who names a foreign team loses the link to the own team of that type,
  while no team of the store changes and so the own team still lists the player.
\<close>

theorem leave_foreign_team_unlinks:
  assumes "arena_ok w" "omap_find (aw_store w) teamId = Some t" "teamId \<notin> set (aw_deleted w)"
    and "\<not> HaveMember (ap_guid p) t" "ap_guid p \<noteq> at_Captain t" "\<not> queue_invited e p t"
    and "ae_connected e (ap_guid p) = Some p" "\<not> ap_in_arena p" "read_word b = Inr (teamId, b1)"
  shows "\<exists>w'. HandleArenaTeamLeaveOpcode fuel e p b w = Some (Inr w') \<and>
           GetArenaTeamId (ap_guid p) (GetSlot t) w' = 0 \<and>
           (\<forall>k. omap_find (aw_store w') k = omap_find (aw_store w) k)"
proof -
  obtain t1 w1 where d: "DeleteMember e (ap_guid p) True t w = (t1, w1)" by fastforce
  have "fst (delete_loop e (ap_group p) t (ap_guid p) (at_Members t) w) = at_Members t"
    using assms(4) by (auto intro!: delete_loop_stranger simp: HaveMember_def)
  then have "t1 = t" and field: "aw_field w1 (ap_guid p) (GetSlot t * 6) = 0"
    using d assms(7,8) by (auto simp: DeleteMember_def Let_def case_prod_beta clear_fields_zero aemit_frame)
  moreover have "omap_ok (aw_store w)" "at_Id t = teamId"
    using assms(1-3) by (auto simp: arena_ok_def team_ok_def)
  ultimately show ?thesis
    using d assms DeleteMember_frame [OF d]
    by (auto simp: HandleArenaTeamLeaveOpcode_def read_or_throw_def use_team_def GetArenaTeamById_def Let_def
        arena_frame AddArenaTeam_def GetArenaTeamId_def om.find_put)
qed

theorem leave_foreign_team_unlinks_witness:
  "\<exists>w'. HandleArenaTeamLeaveOpcode 5 (demo_arena_env False) (demo_arena_player 8 False)
           \<lparr>bb_rpos = 0, bb_wpos = 4, bb_storage = [1, 0, 0, 0]\<rparr> demo_arena = Some (Inr w') \<and>
        GetArenaTeamId (ap_guid (demo_arena_player 8 False)) (GetSlot (demo_team 1 2 [7])) w' = 0 \<and>
        (\<forall>k. omap_find (aw_store w') k = omap_find (aw_store demo_arena) k)"
  by (rule leave_foreign_team_unlinks [OF demo_arena_ok _ _ _ _ _ _ _ read_u32_bytes [of 1, simplified]])
    (simp_all add: demo_arena_find, simp_all add: demo_arena_defs queue_invited_def HaveMember_def)


section \<open>Joining\<close>

text \<open>
  \<open>AddMember\<close> indexes the three cached team ids of a character with the arena type where
  the slot is meant: a character with a 5v5 team, whose id is in slot 2, can join no 2v2
  team, whether or not slot 0 is free.
\<close>

theorem join_2v2_blocked_by_5v5:
  assumes "at_Type t = 2" "ae_char e g = Some c" "aw_cache w g (unat (GetSlotByType ARENA_TEAM_5v5)) \<noteq> 0"
  shows "AddMember e g t w = (False, t, w)"
  using assms by (simp add: AddMember_def GetArenaTeamIdFromCharacterInfo_def GetSlotByType_def Let_def)

theorem join_2v2_blocked_by_5v5_witness:
  "aw_cache demo_arena 8 0 = 0 \<and> GetArenaTeamId 8 0 demo_arena = 0 \<and>
   AddMember (demo_arena_env False) 8 (demo_team 1 2 [7]) demo_arena = (False, demo_team 1 2 [7], demo_arena)"
proof (intro conjI)
  show "AddMember (demo_arena_env False) 8 (demo_team 1 2 [7]) demo_arena = (False, demo_team 1 2 [7], demo_arena)"
    by (rule join_2v2_blocked_by_5v5) (simp_all add: demo_arena_defs GetSlotByType_def)
qed (simp_all add: demo_arena_def GetArenaTeamId_def)

section \<open>Ratings\<close>

lemma GetRatingMod_range:
  assumes "0 \<le> ae_elo_gain e a b" "ae_elo_gain e a b \<le> 32"
  shows "1 \<le> GetRatingMod e a b True" "GetRatingMod e a b True \<le> 32"
    and "GetRatingMod e a b False = - GetRatingMod e a b True"
  using assms by (simp_all add: GetRatingMod_def Let_def)

lemma sint_ucast_16_32: "sint (ucast (r :: uint16) :: uint32) = uint r"
proof -
  have "- (2 ^ 31) \<le> uint r" by (rule order_trans [OF _ uint_ge_0]) simp
  moreover have "uint r < 2 ^ 31" using uint_bounded [of r] by simp
  ultimately show ?thesis by (simp add: signed_ucast_eq signed_take_bit_int_eq_self)
qed

text \<open>
  A member's personal rating stops at 0, but the 16-bit rating of the team does not: when a
  team with fewer points than the loss costs loses, its rating becomes larger than 65000.
  The Elo gain is the floor of a number between 0 and 32.
\<close>

theorem team_rating_underflow:
  assumes "0 \<le> ae_elo_gain e (ucast (as_Rating (at_Stats t))) r" "ae_elo_gain e (ucast (as_Rating (at_Stats t))) r \<le> 32"
    and "LostAgainst e r t w = (m, t', w')" "uint (as_Rating (at_Stats t)) + m < 0"
  shows "uint (as_Rating (at_Stats t')) = 65536 + uint (as_Rating (at_Stats t)) + m \<and>
         uint (as_Rating (at_Stats t')) > 65000 \<and> modified_rating m (ucast (as_Rating (at_Stats t))) = 0"
proof (intro conjI)
  let ?r = "uint (as_Rating (at_Stats t))"
  have m: "- 32 \<le> m" "m < 0"
    using assms(3) GetRatingMod_range [OF assms(1,2)] by (auto simp: LostAgainst_def Let_def)
  have "as_Rating (at_Stats t') = word_of_int (?r + m)"
    using assms(3) by (auto simp: LostAgainst_def Let_def UpdateRank_def add_rating_def)
  then have "uint (as_Rating (at_Stats t')) = (?r + m) mod 65536" by (simp only: uint_word_of_int) simp
  also have "\<dots> = (?r + m + 65536) mod 65536" by simp
  also have "\<dots> = ?r + m + 65536"
    by (rule mod_pos_pos_trivial) (use m assms(4) uint_ge_0 [of "as_Rating (at_Stats t)"] in linarith)+
  finally show *: "uint (as_Rating (at_Stats t')) = 65536 + ?r + m" by simp
  show "uint (as_Rating (at_Stats t')) > 65000"
    using * m uint_ge_0 [of "as_Rating (at_Stats t)"] by linarith
  show "modified_rating m (ucast (as_Rating (at_Stats t))) = 0"
    using assms(4) by (simp add: modified_rating_def sint_ucast_16_32)
qed

theorem team_rating_underflow_witness:
  "let t = (demo_team 1 2 [7])\<lparr>at_Stats := (at_Stats ArenaTeam_new)\<lparr>as_Rating := 3\<rparr>\<rparr>
   in uint (as_Rating (at_Stats (fst (snd (LostAgainst (demo_arena_env False) 100 t demo_arena))))) = 65523 \<and>
      modified_rating (- 16) 3 = 0"
proof -
  let ?t = "(demo_team 1 2 [7])\<lparr>at_Stats := (at_Stats ArenaTeam_new)\<lparr>as_Rating := 3\<rparr>\<rparr>"
  obtain t' w' where l: "LostAgainst (demo_arena_env False) 100 ?t demo_arena = (- 16, t', w')"
    by (simp add: LostAgainst_def GetRatingMod_def demo_arena_env_def Let_def)
  show ?thesis
    using team_rating_underflow [OF _ _ l] by (simp add: l) (simp add: demo_arena_env_def)
qed

section \<open>The weekly distribution\<close>

text \<open>
  The end of the week resets the weekly games of the members in memory, but saving then
  skips every member: the only statement written is the one for the team, so the members'
  weekly games of the past week come back with the next restart.
\<close>

theorem weekly_reset_not_saved:
  assumes "as_WeekGames (at_Stats t) \<noteq> 0" "FinishWeek t = (changed, t')"
  shows "changed \<and> (\<forall>m \<in> set (at_Members t'). am_WeekGames m = 0 \<and> am_WeekWins m = 0) \<and>
         aw_out (arena_SaveToDB t' w) = aw_out w @ [ArenaSql (UpdArenaTeamStats (at_Stats t') (at_Id t))]"
  using assms by (auto simp: FinishWeek_def arena_SaveToDB_def aemit_def filter_map o_def)

theorem weekly_reset_not_saved_witness:
  "let t = (demo_team 1 2 [7])\<lparr>at_Stats := (at_Stats ArenaTeam_new)\<lparr>as_WeekGames := 12\<rparr>,
                              at_Members := [(new_member 7)\<lparr>am_WeekGames := 12\<rparr>]\<rparr>
   in aw_out (arena_SaveToDB (snd (FinishWeek t)) demo_arena) =
        aw_out demo_arena @ [ArenaSql (UpdArenaTeamStats (at_Stats (snd (FinishWeek t))) (at_Id t))]"
  using weekly_reset_not_saved [of "(demo_team 1 2 [7])\<lparr>at_Stats := (at_Stats ArenaTeam_new)\<lparr>as_WeekGames := 12\<rparr>,
      at_Members := [(new_member 7)\<lparr>am_WeekGames := 12\<rparr>]\<rparr>", OF _ surjective_pairing]
  by (simp add: ArenaTeam_new_def)


text \<open>The points every team offers a character, in the order of the store.\<close>

definition member_award :: "arena_env \<Rightarrow> arena_team \<Rightarrow> arena_member \<Rightarrow> uint32" where
  "member_award e t m =
     (if am_WeekGames m \<ge> min_plays (as_WeekGames (at_Stats t)) then GetPoints e (am_PersonalRating m) t else 0)"

definition awards :: "arena_env \<Rightarrow> (uint32, arena_team) omap \<Rightarrow> uint32 \<Rightarrow> uint32 list" where
  "awards e ts k =
     concat (map (\<lambda>t. map (member_award e t) (filter (\<lambda>m. guid_counter (am_Guid m) = k) (at_Members t)))
       (filter (\<lambda>t. as_WeekGames (at_Stats t) \<ge> 10) (map snd ts)))"

fun raise_to :: "uint32 \<Rightarrow> uint32 option \<Rightarrow> uint32 option" where
  "raise_to p None = Some p"
| "raise_to p (Some q) = Some (max q p)"

lemma fold_raise_Some: "fold raise_to ps (Some q) = Some (Max (set (q # ps)))"
proof (induction ps arbitrary: q)
  case (Cons p ps)
  then show ?case by (cases "ps = []") (simp_all add: Max_insert max.assoc)
qed simp

lemma fold_raise_None: "fold raise_to ps None = (if ps = [] then None else Some (Max (set ps)))"
  by (cases ps) (simp_all add: fold_raise_Some)

lemma add_points_find:
  assumes "omap_ok pts"
  shows "omap_find (add_points e t m pts) k =
           (if guid_counter (am_Guid m) = k then raise_to (member_award e t m) (omap_find pts k) else omap_find pts k)"
    and "omap_ok (add_points e t m pts)"
  using assms
  by (auto simp: add_points_def member_award_def [symmetric] Let_def om.find_put om.invar_put max_def not_less
      split: option.split)

lemma fold_add_points_find:
  assumes "omap_ok pts"
  shows "omap_ok (fold (add_points e t) ms pts) \<and>
         omap_find (fold (add_points e t) ms pts) k =
           fold raise_to (map (member_award e t) (filter (\<lambda>m. guid_counter (am_Guid m) = k) ms)) (omap_find pts k)"
  using assms by (induction ms arbitrary: pts) (simp_all add: add_points_find)

lemma member_award_stats [simp]:
  "member_award e (t\<lparr>at_Stats := (at_Stats t)\<lparr>as_NonPlayedWeeks := n\<rparr>\<rparr>) = member_award e t"
  by (rule ext) (simp add: member_award_def GetPoints_def)

lemma collect_points_find:
  assumes "omap_ok pts"
  shows "omap_find (snd (collect_points e ts pts)) k = fold raise_to (awards e ts k) (omap_find pts k)"
  using assms
proof (induction ts arbitrary: pts)
  case (Cons a ts)
  obtain i t where a: "a = (i, t)" by fastforce
  show ?case
    using Cons fold_add_points_find [OF Cons.prems, of e]
    by (cases "as_WeekGames (at_Stats t) < 10")
      (simp_all add: a awards_def UpdateArenaPointsHelper_def Let_def case_prod_beta linorder_not_less [symmetric])
qed (simp add: awards_def)

text \<open>
  C33. The weekly distribution gives every character exactly the largest number of points that
  one of its teams with at least ten games offers, where a member who took part in fewer
  than 30 percent of the games is offered 0; a character of no such team gets no entry.
\<close>

theorem points_are_best_of_teams:
  "omap_find (snd (collect_points e (aw_store w) [])) k =
     (if awards e (aw_store w) k = [] then None else Some (Max (set (awards e (aw_store w) k))))"
  using collect_points_find [of "[]" e "aw_store w" k] by (simp add: fold_raise_None om.find_empty om.invar_empty)

end
