(* ===== verification/Guild.thy ===== *)
theory Guild
  imports Social ChannelOps
begin

text \<open>
  Guilds (src/src/server/game/Guilds/Guild.h and Guild.cpp): ranks with their rights, members
  with their daily withdrawals, bank tabs, the bounded event logs, the guild itself, its
  queries and the packets that show it. The environment holds the online players, the
  character data base and cache, configuration, clock and text tables. Prepared statements
  are emitted with their name and their bound parameters. Members are kept in the order of
  their low guids; the source's hash map promises no order. The build is the one without
  \<open>LICH_KING\<close>.
\<close>

section \<open>Constants\<close>

abbreviation (input) "GUILD_BANK_MAX_TABS \<equiv> (6 :: nat)"
abbreviation (input) "GUILD_BANK_MAX_SLOTS \<equiv> (98 :: nat)"
abbreviation (input) "GUILD_RANKS_MIN_COUNT \<equiv> (5 :: uint8)"
abbreviation (input) "GUILD_RANKS_MAX_COUNT \<equiv> (10 :: uint8)"
abbreviation (input) "GUILD_RANK_NONE \<equiv> (0xFF :: uint8)"
abbreviation (input) "GUILD_UNLIMITED \<equiv> (0xFFFFFFFF :: uint32)"
abbreviation (input) "GR_GUILDMASTER \<equiv> (0 :: uint8)"
abbreviation (input) "GR_OFFICER \<equiv> (1 :: uint8)"

abbreviation (input) "GR_RIGHT_EMPTY \<equiv> (0x00000040 :: uint32)"
abbreviation (input) "GR_RIGHT_GCHATLISTEN \<equiv> (0x00000041 :: uint32)"
abbreviation (input) "GR_RIGHT_GCHATSPEAK \<equiv> (0x00000042 :: uint32)"
abbreviation (input) "GR_RIGHT_OFFCHATLISTEN \<equiv> (0x00000044 :: uint32)"
abbreviation (input) "GR_RIGHT_OFFCHATSPEAK \<equiv> (0x00000048 :: uint32)"
abbreviation (input) "GR_RIGHT_INVITE \<equiv> (0x00000050 :: uint32)"
abbreviation (input) "GR_RIGHT_REMOVE \<equiv> (0x00000060 :: uint32)"
abbreviation (input) "GR_RIGHT_PROMOTE \<equiv> (0x000000C0 :: uint32)"
abbreviation (input) "GR_RIGHT_DEMOTE \<equiv> (0x00000140 :: uint32)"
abbreviation (input) "GR_RIGHT_SETMOTD \<equiv> (0x00001040 :: uint32)"
abbreviation (input) "GR_RIGHT_EPNOTE \<equiv> (0x00002040 :: uint32)"
abbreviation (input) "GR_RIGHT_VIEWOFFNOTE \<equiv> (0x00004040 :: uint32)"
abbreviation (input) "GR_RIGHT_EOFFNOTE \<equiv> (0x00008040 :: uint32)"
abbreviation (input) "GR_RIGHT_MODIFY_GUILD_INFO \<equiv> (0x00010040 :: uint32)"
abbreviation (input) "GR_RIGHT_WITHDRAW_REPAIR \<equiv> (0x00040000 :: uint32)"
abbreviation (input) "GR_RIGHT_WITHDRAW_GOLD \<equiv> (0x00080000 :: uint32)"
abbreviation (input) "GR_RIGHT_ALL \<equiv> (0x001DF1FF :: uint32)"
abbreviation (input) "GUILD_BANK_RIGHT_VIEW_TAB \<equiv> (0x01 :: uint32)"
abbreviation (input) "MAX_MONEY_AMOUNT \<equiv> (0x7FFFFFFF :: uint32)"

section \<open>Data\<close>

record emblem_info =
  em_style :: uint32
  em_color :: uint32
  em_borderStyle :: uint32
  em_borderColor :: uint32
  em_backgroundColor :: uint32

record rights_slots =
  rs_tabId :: uint8
  rs_rights :: uint8
  rs_slots :: uint32

definition SetGuildMasterValues :: "rights_slots \<Rightarrow> rights_slots" where
  "SetGuildMasterValues r = r\<lparr>rs_rights := 0xFF, rs_slots := GUILD_UNLIMITED\<rparr>"

record rank_info =
  ri_guildId :: uint32
  ri_rankId :: uint8
  ri_name :: string
  ri_rights :: uint32
  ri_bankMoneyPerDay :: uint32
  ri_tabs :: "rights_slots list"

definition RankInfo_new :: "uint32 \<Rightarrow> uint8 \<Rightarrow> string \<Rightarrow> uint32 \<Rightarrow> uint32 \<Rightarrow> rank_info" where
  "RankInfo_new guildId rankId name rights money =
     \<lparr>ri_guildId = guildId, ri_rankId = rankId, ri_name = name, ri_rights = rights,
      ri_bankMoneyPerDay = (if rankId \<noteq> GR_GUILDMASTER then money else GUILD_UNLIMITED),
      ri_tabs = replicate GUILD_BANK_MAX_TABS \<lparr>rs_tabId = 0xFF, rs_rights = 0, rs_slots = 0\<rparr>\<rparr>"

text \<open>The data of an item that the bank shows; gems are the enchantments of the three sockets.\<close>

record bank_item =
  bi_guid :: guid
  bi_entry :: uint32
  bi_random :: uint32
  bi_suffix :: uint32
  bi_count :: uint32
  bi_enchant :: uint32
  bi_charges :: uint8
  bi_gems :: "uint32 list"

record bank_tab =
  bt_guildId :: uint32
  bt_tabId :: uint8
  bt_items :: "bank_item option list"
  bt_name :: string
  bt_icon :: string
  bt_text :: string

definition BankTab_new :: "uint32 \<Rightarrow> uint8 \<Rightarrow> bank_tab" where
  "BankTab_new guildId tabId =
     \<lparr>bt_guildId = guildId, bt_tabId = tabId, bt_items = replicate GUILD_BANK_MAX_SLOTS None,
      bt_name = '''', bt_icon = '''', bt_text = ''''\<rparr>"

record guild_member =
  gm_guildId :: uint32
  gm_guid :: guid
  gm_name :: string
  gm_zoneId :: uint32
  gm_level :: uint8
  gm_class :: uint8
  gm_gender :: uint8
  gm_flags :: uint8
  gm_logoutTime :: uint64
  gm_accountId :: uint32
  gm_rankId :: uint8
  gm_publicNote :: string
  gm_officerNote :: string
  gm_bankWithdraw :: "uint32 list"

definition Member_new :: "uint64 \<Rightarrow> uint32 \<Rightarrow> guid \<Rightarrow> uint8 \<Rightarrow> guild_member" where
  "Member_new now guildId g rankId =
     \<lparr>gm_guildId = guildId, gm_guid = g, gm_name = '''', gm_zoneId = 0, gm_level = 0, gm_class = 0,
      gm_gender = 0, gm_flags = 0, gm_logoutTime = now, gm_accountId = 0, gm_rankId = rankId,
      gm_publicNote = '''', gm_officerNote = '''', gm_bankWithdraw = replicate (GUILD_BANK_MAX_TABS + 1) 0\<rparr>"

record event_entry =
  ee_guildId :: uint32
  ee_guid :: uint32
  ee_timestamp :: uint64
  ee_type :: uint8
  ee_player1 :: uint32
  ee_player2 :: uint32
  ee_newRank :: uint8

record bank_entry =
  be_guildId :: uint32
  be_guid :: uint32
  be_timestamp :: uint64
  be_type :: uint8
  be_tabId :: uint8
  be_player :: uint32
  be_itemOrMoney :: uint32
  be_stackCount :: uint16
  be_destTabId :: uint8

record 'a log_holder =
  lh_log :: "'a list"
  lh_maxRecords :: uint32
  lh_nextGUID :: uint32

definition LogHolder_new :: "uint32 \<Rightarrow> 'a log_holder" where
  "LogHolder_new maxRecords = \<lparr>lh_log = [], lh_maxRecords = maxRecords, lh_nextGUID = 0xFFFFFFFF\<rparr>"

record guild =
  g_id :: uint32
  g_name :: string
  g_leaderGuid :: guid
  g_motd :: string
  g_info :: string
  g_createdDate :: uint64
  g_emblem :: emblem_info
  g_accountsNumber :: uint32
  g_bankMoney :: uint64
  g_ranks :: "rank_info list"
  g_members :: "(uint32, guild_member) omap"
  g_bankTabs :: "bank_tab list"
  g_eventLog :: "event_entry log_holder"
  g_bankEventLog :: "bank_entry log_holder list"
  g_bankloaded :: bool

section \<open>The environment and the world\<close>

record guild_player = player +
  gp_class :: uint8
  gp_gender :: uint8
  gp_zone :: uint32
  gp_account :: uint32

record guild_char_row =
  cr_name :: string
  cr_level :: uint8
  cr_class :: uint8
  cr_gender :: uint8
  cr_zone :: uint16
  cr_account :: uint32

text \<open>
  \<open>ge_away d\<close> are the bits of the float \<open>d / DAY\<close>, \<open>ge_localtime\<close> day, month and year of a date,
  \<open>ge_truncate\<close> is \<open>utf8truncate\<close> with the length of a tab text.
\<close>

record guild_env =
  ge_find_player :: "guid \<Rightarrow> guild_player option"
  ge_connected :: "guid \<Rightarrow> guild_player option"
  ge_find_by_name :: "string \<Rightarrow> guild_player option"
  ge_cached :: "uint32 \<Rightarrow> bool"
  ge_char_team :: "guid \<Rightarrow> uint32"
  ge_char_row :: "uint32 \<Rightarrow> guild_char_row option"
  ge_zone_from_db :: "guid \<Rightarrow> uint32"
  ge_normalize_name :: "string \<Rightarrow> string option"
  ge_social :: "guid \<Rightarrow> player_social"
  ge_reserved_name :: "string \<Rightarrow> bool"
  ge_valid_charter_name :: "string \<Rightarrow> bool"
  ge_two_side_guild :: bool
  ge_multiple_masters :: bool
  ge_event_log_count :: uint32
  ge_bank_log_count :: uint32
  ge_now :: uint64
  ge_away :: "uint64 \<Rightarrow> uint32"
  ge_localtime :: "uint64 \<Rightarrow> uint32 \<times> uint32 \<times> uint32"
  ge_rank_names :: "string list"
  ge_truncate :: "string \<Rightarrow> string"
  ge_near_bank :: "guid \<Rightarrow> guid \<Rightarrow> bool"
  ge_near_tabard :: "guid \<Rightarrow> guid \<Rightarrow> bool"
  ge_feigning :: "guid \<Rightarrow> bool"

text \<open>
  \<open>GuildFault\<close> marks a step the source does not survive (a division by zero, an index out of
  range, a failed assertion); what follows it in the model has no meaning.
\<close>

datatype guild_effect =
    GuildSend guid world_packet
  | GuildSql string "field list"
  | RemoveCharterSigns guid
  | SaveGold guid uint32
  | TooMuchGold guid
  | RemoveFeignDeath guid
  | DeleteItem guid bool
  | SaveBankItem guid
  | DeleteGuildObject uint32
  | GuildFault string

text \<open>
  \<open>gw_this\<close> is the guild object a method runs on and \<open>gw_live\<close> says that it is in the store.
  \<open>gw_guild_of\<close>, \<open>gw_rank_of\<close>, \<open>gw_invited\<close> and \<open>gw_money\<close> are fields of the player objects,
  \<open>gw_cache\<close> the guild ids of the character cache.
\<close>

record guild_world =
  gw_this :: guild
  gw_live :: bool
  gw_guilds :: "(uint32, guild) omap"
  gw_next :: uint32
  gw_stop :: bool
  gw_guild_of :: "guid \<Rightarrow> uint32"
  gw_rank_of :: "guid \<Rightarrow> uint32"
  gw_invited :: "guid \<Rightarrow> uint32"
  gw_money :: "guid \<Rightarrow> uint32"
  gw_cache :: "uint32 \<Rightarrow> uint32"
  gw_out :: "guild_effect list"

definition gemit :: "guild_effect \<Rightarrow> guild_world \<Rightarrow> guild_world" where
  "gemit x w = w\<lparr>gw_out := gw_out w @ [x]\<rparr>"

abbreviation "gsql nm fs \<equiv> gemit (GuildSql nm fs)"

definition gsend :: "guild_player \<Rightarrow> uint16 \<Rightarrow> field list \<Rightarrow> guild_world \<Rightarrow> guild_world" where
  "gsend p opcode fs = gemit (GuildSend (pl_guid p) \<lparr>wp_opcode = opcode, wp_fields = fs\<rparr>)"

definition on_guild :: "(guild \<Rightarrow> guild) \<Rightarrow> guild_world \<Rightarrow> guild_world" where
  "on_guild f w = w\<lparr>gw_this := f (gw_this w)\<rparr>"

definition gemits :: "guild_effect list \<Rightarrow> guild_world \<Rightarrow> guild_world" where
  "gemits xs w = w\<lparr>gw_out := gw_out w @ xs\<rparr>"

section \<open>Ranks\<close>

definition RankInfo_LoadFromDB :: "uint8 \<Rightarrow> string \<Rightarrow> uint32 \<Rightarrow> uint32 \<Rightarrow> rank_info \<Rightarrow> rank_info" where
  "RankInfo_LoadFromDB rankId name rights money r =
     r\<lparr>ri_rankId := rankId, ri_name := name,
       ri_rights := (if rankId = GR_GUILDMASTER then rights OR GR_RIGHT_ALL else rights),
       ri_bankMoneyPerDay := money\<rparr>"

definition RankInfo_SaveToDB :: "rank_info \<Rightarrow> guild_effect list" where
  "RankInfo_SaveToDB r =
     [GuildSql ''CHAR_INS_GUILD_RANK''
        [U32 (ri_guildId r), U8 (ri_rankId r), Str (ri_name r), U32 (ri_rights r), U32 (ri_bankMoneyPerDay r)]]"

text \<open>\<open>GetRights\<close> of a tab returns a signed byte: widening it extends the sign.\<close>

definition tab_rights :: "rights_slots \<Rightarrow> uint32" where
  "tab_rights r = scast (rs_rights r)"

fun CreateMissingTabs ::
  "rank_info \<Rightarrow> uint8 \<Rightarrow> nat \<Rightarrow> rights_slots list \<Rightarrow> rights_slots list \<times> guild_effect list" where
  "CreateMissingTabs r i 0 ts = (ts, [])"
| "CreateMissingTabs r i (Suc n) [] = ([], [GuildFault ''tab index''])"
| "CreateMissingTabs r i (Suc n) (t # ts) =
     (case CreateMissingTabs r (i + 1) n ts of (ts', effs) \<Rightarrow>
        if rs_tabId t = i then (t # ts', effs)
        else
          let t1 = t\<lparr>rs_tabId := i\<rparr>;
              t2 = (if ri_rankId r = GR_GUILDMASTER then SetGuildMasterValues t1 else t1)
          in (t2 # ts', GuildSql ''CHAR_INS_GUILD_BANK_RIGHT''
                [U32 (ri_guildId r), U8 i, U8 (ri_rankId r), U8 (rs_rights t2), U32 (rs_slots t2)] # effs))"

definition CreateMissingTabsIfNeeded :: "uint8 \<Rightarrow> rank_info \<Rightarrow> rank_info \<times> guild_effect list" where
  "CreateMissingTabsIfNeeded tabs r =
     (case CreateMissingTabs r 0 (unat tabs) (ri_tabs r) of (ts, effs) \<Rightarrow> (r\<lparr>ri_tabs := ts\<rparr>, effs))"

definition RankInfo_WritePacket :: "rank_info \<Rightarrow> field list" where
  "RankInfo_WritePacket r =
     [U32 (ri_rights r), U32 (ri_bankMoneyPerDay r)] @
     concat (map (\<lambda>t. [U32 (tab_rights t), U32 (rs_slots t)]) (ri_tabs r))"

definition RankInfo_SetName :: "string \<Rightarrow> rank_info \<Rightarrow> rank_info \<times> guild_effect list" where
  "RankInfo_SetName name r =
     (if ri_name r = name then (r, [])
      else (r\<lparr>ri_name := name\<rparr>,
            [GuildSql ''CHAR_UPD_GUILD_RANK_NAME'' [Str name, U8 (ri_rankId r), U32 (ri_guildId r)]]))"

definition SetRights :: "uint32 \<Rightarrow> rank_info \<Rightarrow> rank_info \<times> guild_effect list" where
  "SetRights rights0 r =
     (let rights = (if ri_rankId r = GR_GUILDMASTER then GR_RIGHT_ALL else rights0)
      in if ri_rights r = rights then (r, [])
         else (r\<lparr>ri_rights := rights\<rparr>,
               [GuildSql ''CHAR_UPD_GUILD_RANK_RIGHTS'' [U32 rights, U8 (ri_rankId r), U32 (ri_guildId r)]]))"

definition SetBankMoneyPerDay :: "uint32 \<Rightarrow> rank_info \<Rightarrow> rank_info \<times> guild_effect list" where
  "SetBankMoneyPerDay money0 r =
     (let money = (if ri_rankId r = GR_GUILDMASTER then GUILD_UNLIMITED else money0)
      in if ri_bankMoneyPerDay r = money then (r, [])
         else (r\<lparr>ri_bankMoneyPerDay := money\<rparr>,
               [GuildSql ''CHAR_UPD_GUILD_RANK_BANK_MONEY'' [U32 money, U8 (ri_rankId r), U32 (ri_guildId r)]]))"

text \<open>The tab id is a signed byte; the array has six entries.\<close>

definition SetBankTabSlotsAndRights :: "rights_slots \<Rightarrow> bool \<Rightarrow> rank_info \<Rightarrow> rank_info \<times> guild_effect list" where
  "SetBankTabSlotsAndRights rs0 saveToDB r =
     (let rs = (if ri_rankId r = GR_GUILDMASTER then SetGuildMasterValues rs0 else rs0);
          i = sint (rs_tabId rs)
      in if i < 0 \<or> i \<ge> int (length (ri_tabs r)) then (r, [GuildFault ''tab index''])
         else (r\<lparr>ri_tabs := (ri_tabs r)[nat i := rs]\<rparr>,
               if saveToDB
               then [GuildSql ''CHAR_INS_GUILD_BANK_RIGHT''
                       [U32 (ri_guildId r), U8 (rs_tabId rs), U8 (ri_rankId r), U8 (rs_rights rs), U32 (rs_slots rs)]]
               else []))"

section \<open>Bank tabs\<close>

definition SetInfo :: "string \<Rightarrow> string \<Rightarrow> bank_tab \<Rightarrow> bank_tab \<times> guild_effect list" where
  "SetInfo name icon t =
     (if bt_name t = name \<and> bt_icon t = icon then (t, [])
      else (t\<lparr>bt_name := name, bt_icon := icon\<rparr>,
            [GuildSql ''CHAR_UPD_GUILD_BANK_TAB_INFO'' [Str name, Str icon, U32 (bt_guildId t), U8 (bt_tabId t)]]))"

definition SetText :: "guild_env \<Rightarrow> string \<Rightarrow> bank_tab \<Rightarrow> bank_tab \<times> guild_effect list" where
  "SetText e txt0 t =
     (if bt_text t = txt0 then (t, [])
      else (t\<lparr>bt_text := ge_truncate e txt0\<rparr>,
            [GuildSql ''CHAR_UPD_GUILD_BANK_TAB_TEXT'' [Str (ge_truncate e txt0), U32 (bt_guildId t), U8 (bt_tabId t)]]))"

definition SetItem :: "uint8 \<Rightarrow> bank_item option \<Rightarrow> bank_tab \<Rightarrow> bool \<times> bank_tab \<times> guild_effect list" where
  "SetItem slotId it t =
     (if unat slotId \<ge> GUILD_BANK_MAX_SLOTS then (False, t, [])
      else (True, t\<lparr>bt_items := (bt_items t)[unat slotId := it]\<rparr>,
            GuildSql ''CHAR_DEL_GUILD_BANK_ITEM'' [U32 (bt_guildId t), U8 (bt_tabId t), U8 slotId] #
            (case it of
               None \<Rightarrow> []
             | Some i \<Rightarrow>
                 [GuildSql ''CHAR_INS_GUILD_BANK_ITEM''
                    [U32 (bt_guildId t), U8 (bt_tabId t), U8 slotId, U32 (guid_counter (bi_guid i))],
                  SaveBankItem (bi_guid i)])))"

definition GetItem :: "uint8 \<Rightarrow> bank_tab \<Rightarrow> bank_item option" where
  "GetItem slotId t = (if unat slotId < GUILD_BANK_MAX_SLOTS then bt_items t ! unat slotId else None)"

text \<open>Destroying the items of a tab; the flag says that their rows go too.\<close>

definition BankTab_Delete :: "bool \<Rightarrow> bank_tab \<Rightarrow> guild_effect list" where
  "BankTab_Delete removeItemsFromDB t =
     concat (map (\<lambda>it. case it of None \<Rightarrow> [] | Some i \<Rightarrow> [DeleteItem (bi_guid i) removeItemsFromDB]) (bt_items t))"

definition gem_fields :: "uint32 list \<Rightarrow> field list" where
  "gem_fields gems =
     (let present = filter (\<lambda>(k, enchId). enchId \<noteq> 0) (enumerate 0 gems)
      in U8 (of_nat (length present)) # concat (map (\<lambda>(k, enchId). [U8 (of_nat k), U32 enchId]) present))"

text \<open>Nothing is written for an empty slot that may be skipped.\<close>

definition WriteSlotPacket :: "uint8 \<Rightarrow> bool \<Rightarrow> bank_tab \<Rightarrow> field list option" where
  "WriteSlotPacket slotId ignoreEmpty t =
     (let it = GetItem slotId t;
          itemEntry = (case it of None \<Rightarrow> 0 | Some i \<Rightarrow> bi_entry i)
      in if itemEntry = 0 \<and> ignoreEmpty then None
         else Some ([U8 slotId, U32 itemEntry] @
           (case it of
              None \<Rightarrow> []
            | Some i \<Rightarrow>
                if itemEntry = 0 then []
                else (if bi_random i \<noteq> 0 then [U32 (bi_random i), U32 (bi_suffix i)] else [U32 0]) @
                     [U8 (ucast (bi_count i)), U32 (bi_enchant i), U8 (bi_charges i)] @ gem_fields (bi_gems i))))"

definition BankTab_WritePacket :: "bank_tab \<Rightarrow> field list" where
  "BankTab_WritePacket t =
     (let slots = List.map_filter (\<lambda>i. WriteSlotPacket (of_nat i) True t) [0..<GUILD_BANK_MAX_SLOTS]
      in U8 (of_nat (length slots)) # concat slots)"

definition WriteInfoPacket :: "bank_tab \<Rightarrow> field list" where
  "WriteInfoPacket t = [Str (bt_name t), Str (bt_icon t)]"


section \<open>Members\<close>

definition SetStats_player :: "guild_player \<Rightarrow> guild_member \<Rightarrow> guild_member" where
  "SetStats_player p m =
     m\<lparr>gm_name := pl_name p, gm_level := ucast (pl_level p), gm_class := gp_class p, gm_gender := gp_gender p,
       gm_zoneId := gp_zone p, gm_accountId := gp_account p\<rparr>"

definition SetStats :: "guild_char_row \<Rightarrow> guild_member \<Rightarrow> guild_member" where
  "SetStats r m =
     m\<lparr>gm_name := cr_name r, gm_level := cr_level r, gm_class := cr_class r, gm_gender := cr_gender r,
       gm_zoneId := ucast (cr_zone r), gm_accountId := cr_account r\<rparr>"

definition CheckStats :: "guild_member \<Rightarrow> bool" where
  "CheckStats m \<longleftrightarrow> \<not> gm_level m < 1 \<and> \<not> (gm_class m < 1 \<or> gm_class m \<ge> 12)"

definition SetPublicNote :: "string \<Rightarrow> guild_member \<Rightarrow> guild_member \<times> guild_effect list" where
  "SetPublicNote note m =
     (if gm_publicNote m = note then (m, [])
      else (m\<lparr>gm_publicNote := note\<rparr>,
            [GuildSql ''CHAR_UPD_GUILD_MEMBER_PNOTE'' [Str note, U32 (guid_counter (gm_guid m))]]))"

definition SetOfficerNote :: "string \<Rightarrow> guild_member \<Rightarrow> guild_member \<times> guild_effect list" where
  "SetOfficerNote note m =
     (if gm_officerNote m = note then (m, [])
      else (m\<lparr>gm_officerNote := note\<rparr>,
            [GuildSql ''CHAR_UPD_GUILD_MEMBER_OFFNOTE'' [Str note, U32 (guid_counter (gm_guid m))]]))"

definition IsRank :: "uint8 \<Rightarrow> guild_member \<Rightarrow> bool" where
  "IsRank rankId m \<longleftrightarrow> gm_rankId m = rankId"

definition IsRankNotLower :: "uint8 \<Rightarrow> guild_member \<Rightarrow> bool" where
  "IsRankNotLower rankId m \<longleftrightarrow> gm_rankId m \<le> rankId"

definition Member_SaveToDB :: "guild_member \<Rightarrow> guild_effect list" where
  "Member_SaveToDB m =
     [GuildSql ''CHAR_INS_GUILD_MEMBER''
        [U32 (gm_guildId m), U32 (guid_counter (gm_guid m)), U8 (gm_rankId m), Str (gm_publicNote m),
         Str (gm_officerNote m)]]"

record guild_member_row =
  gr_guid :: uint32
  gr_rank :: uint8
  gr_pnote :: string
  gr_offnote :: string
  gr_withdraw :: "uint32 list"
  gr_char :: guild_char_row
  gr_logout :: uint32

definition Member_LoadFromDB :: "guild_env \<Rightarrow> guild_member_row \<Rightarrow> guild_member \<Rightarrow> bool \<times> guild_member" where
  "Member_LoadFromDB e r m =
     (let m1 = (SetStats (gr_char r) (m\<lparr>gm_publicNote := gr_pnote r, gm_officerNote := gr_offnote r,
                  gm_bankWithdraw := gr_withdraw r\<rparr>))\<lparr>gm_logoutTime := ucast (gr_logout r)\<rparr>
      in if \<not> CheckStats m1 then (False, m1)
         else
           let m2 = (if gm_zoneId m1 = 0 then m1\<lparr>gm_zoneId := ge_zone_from_db e (gm_guid m1)\<rparr> else m1)
           in (True, m2\<lparr>gm_flags := 0\<rparr>))"

definition Member_WritePacket :: "guild_env \<Rightarrow> bool \<Rightarrow> guild_member \<Rightarrow> field list" where
  "Member_WritePacket e sendOfficerNote m =
     [U64 (gm_guid m), U8 (gm_flags m), Str (gm_name m), U32 (ucast (gm_rankId m)), U8 (gm_level m),
      U8 (gm_class m), U8 (gm_gender m), U32 (gm_zoneId m)] @
     (if gm_flags m = 0 then [U32 (ge_away e (ge_now e - gm_logoutTime m))] else []) @
     [Str (gm_publicNote m), Str (if sendOfficerNote then gm_officerNote m else '''')]"

definition UpdateBankWithdrawValue :: "nat \<Rightarrow> uint32 \<Rightarrow> guild_member \<Rightarrow> guild_member \<times> guild_effect list" where
  "UpdateBankWithdrawValue tabId amount m =
     (if tabId \<ge> length (gm_bankWithdraw m) then (m, [GuildFault ''withdraw index''])
      else
        let ws = (gm_bankWithdraw m)[tabId := gm_bankWithdraw m ! tabId + amount]
        in (m\<lparr>gm_bankWithdraw := ws\<rparr>,
            [GuildSql ''CHAR_INS_GUILD_MEMBER_WITHDRAW'' (U32 (guid_counter (gm_guid m)) # map U32 ws)]))"

definition ResetValues :: "guild_member \<Rightarrow> guild_member" where
  "ResetValues m = m\<lparr>gm_bankWithdraw := map (\<lambda>x. 0) (gm_bankWithdraw m)\<rparr>"

text \<open>An \<open>int32\<close>, as its bits.\<close>

definition GetBankWithdrawValue :: "nat \<Rightarrow> guild_member \<Rightarrow> uint32" where
  "GetBankWithdrawValue tabId m =
     (if IsRank GR_GUILDMASTER m then GUILD_UNLIMITED else gm_bankWithdraw m ! tabId)"

section \<open>Event logs\<close>

definition CanInsert :: "'a log_holder \<Rightarrow> bool" where
  "CanInsert h \<longleftrightarrow> length (lh_log h) < unat (lh_maxRecords h)"

definition LoadEvent :: "('a \<Rightarrow> uint32) \<Rightarrow> 'a \<Rightarrow> 'a log_holder \<Rightarrow> 'a log_holder" where
  "LoadEvent guidOf entry h =
     h\<lparr>lh_nextGUID := (if lh_nextGUID h = 0xFFFFFFFF then guidOf entry else lh_nextGUID h),
       lh_log := entry # lh_log h\<rparr>"

text \<open>
  With a limit of 0 the front of an empty list is deleted and the number of the next record is
  a division by zero.
\<close>

definition AddLogEvent :: "('a \<Rightarrow> guild_effect list) \<Rightarrow> 'a \<Rightarrow> 'a log_holder \<Rightarrow> 'a log_holder \<times> guild_effect list" where
  "AddLogEvent save entry h =
     (let kept = (if length (lh_log h) \<ge> unat (lh_maxRecords h) then tl (lh_log h) else lh_log h)
      in (h\<lparr>lh_log := kept @ [entry]\<rparr>,
          (if lh_maxRecords h = 0 then [GuildFault ''empty log''] else []) @ save entry))"

definition GetNextGUID :: "'a log_holder \<Rightarrow> uint32 \<times> 'a log_holder" where
  "GetNextGUID h =
     (let n = (if lh_nextGUID h = 0xFFFFFFFF then 0 else (lh_nextGUID h + 1) mod lh_maxRecords h)
      in (n, h\<lparr>lh_nextGUID := n\<rparr>))"

definition Log_WritePacket :: "('a \<Rightarrow> field list) \<Rightarrow> 'a log_holder \<Rightarrow> field list" where
  "Log_WritePacket write h = U8 (of_nat (length (lh_log h))) # concat (map write (lh_log h))"

abbreviation (input) "LOG_INVITE \<equiv> (1 :: uint8)"
abbreviation (input) "LOG_JOIN \<equiv> (2 :: uint8)"
abbreviation (input) "LOG_PROMOTE \<equiv> (3 :: uint8)"
abbreviation (input) "LOG_DEMOTE \<equiv> (4 :: uint8)"
abbreviation (input) "LOG_UNINVITE \<equiv> (5 :: uint8)"
abbreviation (input) "LOG_LEAVE \<equiv> (6 :: uint8)"

definition EventLogEntry_SaveToDB :: "event_entry \<Rightarrow> guild_effect list" where
  "EventLogEntry_SaveToDB x =
     [GuildSql ''CHAR_DEL_GUILD_EVENTLOG'' [U32 (ee_guildId x), U32 (ee_guid x)],
      GuildSql ''CHAR_INS_GUILD_EVENTLOG''
        [U32 (ee_guildId x), U32 (ee_guid x), U8 (ee_type x), U32 (ee_player1 x), U32 (ee_player2 x),
         U8 (ee_newRank x), U64 (ee_timestamp x)]]"

definition EventLogEntry_WritePacket :: "guild_env \<Rightarrow> event_entry \<Rightarrow> field list" where
  "EventLogEntry_WritePacket e x =
     [U8 (ee_type x), U64 (guid_of_counter HG_Player (ee_player1 x))] @
     (if ee_type x \<noteq> LOG_JOIN \<and> ee_type x \<noteq> LOG_LEAVE then [U64 (guid_of_counter HG_Player (ee_player2 x))] else []) @
     (if ee_type x = LOG_PROMOTE \<or> ee_type x = LOG_DEMOTE then [U8 (ee_newRank x)] else []) @
     [U32 (ucast (ge_now e - ee_timestamp x))]"

abbreviation (input) "BANK_LOG_DEPOSIT_MONEY \<equiv> (4 :: uint8)"
abbreviation (input) "BANK_LOG_WITHDRAW_MONEY \<equiv> (5 :: uint8)"
abbreviation (input) "BANK_LOG_REPAIR_MONEY \<equiv> (6 :: uint8)"
abbreviation (input) "BANK_LOG_MOVE_ITEM \<equiv> (3 :: uint8)"

definition IsMoneyEvent :: "uint8 \<Rightarrow> bool" where
  "IsMoneyEvent eventType \<longleftrightarrow>
     eventType = BANK_LOG_DEPOSIT_MONEY \<or> eventType = BANK_LOG_WITHDRAW_MONEY \<or> eventType = BANK_LOG_REPAIR_MONEY"

definition BankEventLogEntry_SaveToDB :: "bank_entry \<Rightarrow> guild_effect list" where
  "BankEventLogEntry_SaveToDB x =
     [GuildSql ''CHAR_DEL_GUILD_BANK_EVENTLOG'' [U32 (be_guildId x), U32 (be_guid x), U8 (be_tabId x)],
      GuildSql ''CHAR_INS_GUILD_BANK_EVENTLOG''
        [U32 (be_guildId x), U32 (be_guid x), U8 (be_tabId x), U8 (be_type x), U32 (be_player x),
         U32 (be_itemOrMoney x), U16 (be_stackCount x), U8 (be_destTabId x), U64 (be_timestamp x)]]"

definition BankEventLogEntry_WritePacket :: "guild_env \<Rightarrow> bank_entry \<Rightarrow> field list" where
  "BankEventLogEntry_WritePacket e x =
     [U8 (be_type x), U64 (guid_of_counter HG_Player (be_player x)), U32 (be_itemOrMoney x)] @
     (if be_type x = 1 \<or> be_type x = 2 then [U8 (ucast (be_stackCount x))]
      else if be_type x = 3 \<or> be_type x = 7 then [U8 (ucast (be_stackCount x)), U8 (be_destTabId x)] else []) @
     [U32 (ucast (ge_now e - be_timestamp x))]"

section \<open>Emblem\<close>

definition Emblem_WritePacket :: "emblem_info \<Rightarrow> field list" where
  "Emblem_WritePacket m =
     [U32 (em_style m), U32 (em_color m), U32 (em_borderStyle m), U32 (em_borderColor m),
      U32 (em_backgroundColor m)]"

definition Emblem_SaveToDB :: "uint32 \<Rightarrow> emblem_info \<Rightarrow> guild_effect list" where
  "Emblem_SaveToDB guildId m =
     [GuildSql ''CHAR_UPD_GUILD_EMBLEM_INFO''
        [U32 (em_style m), U32 (em_color m), U32 (em_borderStyle m), U32 (em_borderColor m),
         U32 (em_backgroundColor m), U32 guildId]]"

definition Emblem_LoadFromDB :: "uint8 \<Rightarrow> uint8 \<Rightarrow> uint8 \<Rightarrow> uint8 \<Rightarrow> uint8 \<Rightarrow> emblem_info" where
  "Emblem_LoadFromDB style color borderStyle borderColor background =
     \<lparr>em_style = ucast style, em_color = ucast color, em_borderStyle = ucast borderStyle,
      em_borderColor = ucast borderColor, em_backgroundColor = ucast background\<rparr>"

definition Emblem_ReadPacket :: "byte_buffer \<Rightarrow> (bb_error, emblem_info \<times> byte_buffer) result" where
  "Emblem_ReadPacket b =
     bind_result (read_word b) (\<lambda>(s :: uint32, b1).
     bind_result (read_word b1) (\<lambda>(c :: uint32, b2).
     bind_result (read_word b2) (\<lambda>(bs :: uint32, b3).
     bind_result (read_word b3) (\<lambda>(bc :: uint32, b4).
     bind_result (read_word b4) (\<lambda>(bg :: uint32, b5).
       Inr (\<lparr>em_style = s, em_color = c, em_borderStyle = bs, em_borderColor = bc, em_backgroundColor = bg\<rparr>, b5))))))"


section \<open>Queries of the guild\<close>

definition GetRanksSize :: "guild \<Rightarrow> uint8" where
  "GetRanksSize g = of_nat (length (g_ranks g))"

definition GetRankInfo :: "uint8 \<Rightarrow> guild \<Rightarrow> rank_info option" where
  "GetRankInfo rankId g = (if rankId < GetRanksSize g then Some (g_ranks g ! unat rankId) else None)"

definition GetLowestRankId :: "guild \<Rightarrow> uint8" where
  "GetLowestRankId g = of_nat (length (g_ranks g)) - 1"

definition GetPurchasedTabsSize :: "guild \<Rightarrow> uint8" where
  "GetPurchasedTabsSize g = of_nat (length (g_bankTabs g))"

definition GetBankTab :: "uint8 \<Rightarrow> guild \<Rightarrow> bank_tab option" where
  "GetBankTab tabId g = (if unat tabId < length (g_bankTabs g) then Some (g_bankTabs g ! unat tabId) else None)"

definition Guild_GetMember :: "guid \<Rightarrow> guild \<Rightarrow> guild_member option" where
  "Guild_GetMember x g = omap_find (g_members g) (guid_counter x)"

definition Guild_GetMember_by_name :: "string \<Rightarrow> guild \<Rightarrow> guild_member option" where
  "Guild_GetMember_by_name name g = find (\<lambda>m. gm_name m = name) (map snd (g_members g))"

definition GetRankName :: "uint8 \<Rightarrow> guild \<Rightarrow> string" where
  "GetRankName rankId g = (case GetRankInfo rankId g of None \<Rightarrow> ''<unknown>'' | Some r \<Rightarrow> ri_name r)"

definition GetRankRights :: "uint8 \<Rightarrow> guild \<Rightarrow> uint32" where
  "GetRankRights rankId g = (case GetRankInfo rankId g of None \<Rightarrow> 0 | Some r \<Rightarrow> ri_rights r)"

definition GetRankBankMoneyPerDay :: "uint8 \<Rightarrow> guild \<Rightarrow> uint32" where
  "GetRankBankMoneyPerDay rankId g = (case GetRankInfo rankId g of None \<Rightarrow> 0 | Some r \<Rightarrow> ri_bankMoneyPerDay r)"

definition GetBankTabSlotsPerDay :: "uint8 \<Rightarrow> rank_info \<Rightarrow> uint32" where
  "GetBankTabSlotsPerDay tabId r = (if unat tabId < GUILD_BANK_MAX_TABS then rs_slots (ri_tabs r ! unat tabId) else 0)"

definition GetBankTabRights :: "uint8 \<Rightarrow> rank_info \<Rightarrow> uint32" where
  "GetBankTabRights tabId r = (if unat tabId < GUILD_BANK_MAX_TABS then tab_rights (ri_tabs r ! unat tabId) else 0)"

definition GetRankBankTabSlotsPerDay :: "uint8 \<Rightarrow> uint8 \<Rightarrow> guild \<Rightarrow> uint32" where
  "GetRankBankTabSlotsPerDay rankId tabId g =
     (if tabId < GetPurchasedTabsSize g
      then (case GetRankInfo rankId g of None \<Rightarrow> 0 | Some r \<Rightarrow> GetBankTabSlotsPerDay tabId r) else 0)"

definition GetRankBankTabRights :: "uint8 \<Rightarrow> uint8 \<Rightarrow> guild \<Rightarrow> uint32" where
  "GetRankBankTabRights rankId tabId g =
     (case GetRankInfo rankId g of None \<Rightarrow> 0 | Some r \<Rightarrow> GetBankTabRights tabId r)"

definition HasRankRight :: "guid \<Rightarrow> uint32 \<Rightarrow> guild \<Rightarrow> bool" where
  "HasRankRight x right g =
     (case Guild_GetMember x g of
        None \<Rightarrow> False | Some m \<Rightarrow> GetRankRights (gm_rankId m) g AND right \<noteq> GR_RIGHT_EMPTY)"

definition IsLeader :: "guid \<Rightarrow> guild \<Rightarrow> bool" where
  "IsLeader x g \<longleftrightarrow>
     x = g_leaderGuid g \<or> (case Guild_GetMember x g of None \<Rightarrow> False | Some m \<Rightarrow> IsRank GR_GUILDMASTER m)"

text \<open>Remaining amounts are \<open>int32\<close> differences: what is not positive counts as 0.\<close>

definition remaining_of :: "uint32 \<Rightarrow> uint32 \<Rightarrow> uint32" where
  "remaining_of perDay withdrawn = (if sint (perDay - withdrawn) > 0 then perDay - withdrawn else 0)"

definition GetMemberRemainingSlots :: "guild_member \<Rightarrow> uint8 \<Rightarrow> guild \<Rightarrow> uint32" where
  "GetMemberRemainingSlots m tabId g =
     (let rankId = gm_rankId m
      in if rankId = GR_GUILDMASTER then GUILD_UNLIMITED
         else if GetRankBankTabRights rankId tabId g AND GUILD_BANK_RIGHT_VIEW_TAB \<noteq> 0
         then remaining_of (GetRankBankTabSlotsPerDay rankId tabId g) (GetBankWithdrawValue (unat tabId) m)
         else 0)"

definition GetMemberRemainingMoney :: "guild_member \<Rightarrow> guild \<Rightarrow> uint32" where
  "GetMemberRemainingMoney m g =
     (let rankId = gm_rankId m
      in if rankId = GR_GUILDMASTER then GUILD_UNLIMITED
         else if GetRankRights rankId g AND (GR_RIGHT_WITHDRAW_REPAIR OR GR_RIGHT_WITHDRAW_GOLD) \<noteq> 0
         then remaining_of (GetRankBankMoneyPerDay rankId g) (GetBankWithdrawValue GUILD_BANK_MAX_TABS m)
         else 0)"

definition MemberHasTabRights :: "guid \<Rightarrow> uint8 \<Rightarrow> uint32 \<Rightarrow> guild \<Rightarrow> bool" where
  "MemberHasTabRights x tabId rights g =
     (case Guild_GetMember x g of
        None \<Rightarrow> False
      | Some m \<Rightarrow>
          IsRank GR_GUILDMASTER m \<or> g_leaderGuid g = x \<or>
          GetRankBankTabRights (gm_rankId m) tabId g AND rights = rights)"

section \<open>Changing parts\<close>

definition on_rank :: "uint8 \<Rightarrow> (rank_info \<Rightarrow> rank_info \<times> guild_effect list) \<Rightarrow> guild_world \<Rightarrow> guild_world" where
  "on_rank rankId f w =
     (case GetRankInfo rankId (gw_this w) of
        None \<Rightarrow> w
      | Some r \<Rightarrow>
          (case f r of (r', effs) \<Rightarrow>
             gemits effs (on_guild (\<lambda>g. g\<lparr>g_ranks := (g_ranks g)[unat rankId := r']\<rparr>) w)))"

definition on_gmember :: "guid \<Rightarrow> (guild_member \<Rightarrow> guild_member \<times> guild_effect list) \<Rightarrow> guild_world \<Rightarrow> guild_world" where
  "on_gmember x f w =
     (case Guild_GetMember x (gw_this w) of
        None \<Rightarrow> w
      | Some m \<Rightarrow>
          (case f m of (m', effs) \<Rightarrow>
             gemits effs (on_guild (\<lambda>g. g\<lparr>g_members := omap_set (guid_counter x) m' (g_members g)\<rparr>) w)))"

definition SetInGuild :: "guild_env \<Rightarrow> guid \<Rightarrow> uint32 \<Rightarrow> guild_world \<Rightarrow> guild_world" where
  "SetInGuild e x guildId w =
     (let w1 = w\<lparr>gw_guild_of := (gw_guild_of w)(x := guildId)\<rparr>
      in if ge_cached e (guid_counter x) then w1\<lparr>gw_cache := (gw_cache w1)(guid_counter x := guildId)\<rparr> else w1)"

definition UpdateCharacterGuildId :: "guild_env \<Rightarrow> guid \<Rightarrow> uint32 \<Rightarrow> guild_world \<Rightarrow> guild_world" where
  "UpdateCharacterGuildId e x guildId w =
     (if ge_cached e (guid_counter x) then w\<lparr>gw_cache := (gw_cache w)(guid_counter x := guildId)\<rparr> else w)"

definition GetCharacterGuildIdByGuid :: "guild_env \<Rightarrow> guid \<Rightarrow> guild_world \<Rightarrow> uint32" where
  "GetCharacterGuildIdByGuid e x w = (if ge_cached e (guid_counter x) then gw_cache w (guid_counter x) else 0)"

definition SetRank :: "guid \<Rightarrow> uint32 \<Rightarrow> guild_world \<Rightarrow> guild_world" where
  "SetRank x rankId w = w\<lparr>gw_rank_of := (gw_rank_of w)(x := rankId)\<rparr>"

definition SetGuildIdInvited :: "guid \<Rightarrow> uint32 \<Rightarrow> guild_world \<Rightarrow> guild_world" where
  "SetGuildIdInvited x guildId w = w\<lparr>gw_invited := (gw_invited w)(x := guildId)\<rparr>"

definition HasEnoughMoney :: "guid \<Rightarrow> uint32 \<Rightarrow> guild_world \<Rightarrow> bool" where
  "HasEnoughMoney x amount w \<longleftrightarrow> (if sint amount > 0 then gw_money w x \<ge> amount else True)"

definition ModifyMoney :: "guid \<Rightarrow> uint32 \<Rightarrow> guild_world \<Rightarrow> bool \<times> guild_world" where
  "ModifyMoney x amount w =
     (let money = gw_money w x;
          set_money = (\<lambda>v. w\<lparr>gw_money := (gw_money w)(x := v)\<rparr>)
      in if amount = 0 then (True, w)
         else if sint amount < 0 then (True, set_money (if money > - amount then money + amount else 0))
         else if money < MAX_MONEY_AMOUNT - amount then (True, set_money (money + amount))
         else (False, gemit (TooMuchGold x) w))"

text \<open>\<open>Guild::Member::ChangeRank\<close>, on a member of the guild.\<close>

definition ChangeRank :: "guild_env \<Rightarrow> guid \<Rightarrow> uint8 \<Rightarrow> guild_world \<Rightarrow> guild_world" where
  "ChangeRank e x newRank w =
     (let w1 = on_gmember x (\<lambda>m. (m\<lparr>gm_rankId := newRank\<rparr>, [])) w;
          w2 = (if ge_find_player e x \<noteq> None then SetRank x (ucast newRank) w1 else w1)
      in gsql ''CHAR_UPD_GUILD_MEMBER_RANK'' [U8 newRank, U32 (guid_counter x)] w2)"

section \<open>Broadcasts and packets\<close>

definition Guild_BroadcastPacket :: "guild_env \<Rightarrow> uint16 \<Rightarrow> field list \<Rightarrow> guild_world \<Rightarrow> guild_world" where
  "Guild_BroadcastPacket e opcode fs w =
     fold (\<lambda>m w. case ge_find_player e (gm_guid m) of None \<Rightarrow> w | Some p \<Rightarrow> gsend p opcode fs w)
       (map snd (g_members (gw_this w))) w"

definition BroadcastPacketToRank :: "guild_env \<Rightarrow> uint16 \<Rightarrow> field list \<Rightarrow> uint8 \<Rightarrow> guild_world \<Rightarrow> guild_world" where
  "BroadcastPacketToRank e opcode fs rankId w =
     fold (\<lambda>m w. if \<not> IsRank rankId m then w
                 else case ge_connected e (gm_guid m) of None \<Rightarrow> w | Some p \<Rightarrow> gsend p opcode fs w)
       (map snd (g_members (gw_this w))) w"

definition BroadcastToGuild :: "guild_env \<Rightarrow> guild_player \<Rightarrow> bool \<Rightarrow> string \<Rightarrow> uint32 \<Rightarrow> guild_world \<Rightarrow> guild_world" where
  "BroadcastToGuild e p officerOnly msg language w =
     (if HasRankRight (pl_guid p) (if officerOnly then GR_RIGHT_OFFCHATSPEAK else GR_RIGHT_GCHATSPEAK) (gw_this w)
      then
        (case BuildChatPacket (if officerOnly then 0x05 else 0x04) language (Some (player.truncate p)) msg '''' of
           None \<Rightarrow> w
         | Some (packet, pos) \<Rightarrow>
             fold (\<lambda>m w. case ge_connected e (gm_guid m) of
                           None \<Rightarrow> w
                         | Some q \<Rightarrow>
                             if HasRankRight (pl_guid q)
                                  (if officerOnly then GR_RIGHT_OFFCHATLISTEN else GR_RIGHT_GCHATLISTEN) (gw_this w) \<and>
                                \<not> HasIgnore (guid_counter (pl_guid p)) (ge_social e (pl_guid q))
                             then gemit (GuildSend (pl_guid q) packet) w else w)
               (map snd (g_members (gw_this w))) w)
      else w)"

text \<open>\<open>_BroadcastEvent\<close>: up to three parameters and a guid that is left out when empty.\<close>

definition BroadcastEvent :: "guild_env \<Rightarrow> uint8 \<Rightarrow> guid \<Rightarrow> string list \<Rightarrow> guild_world \<Rightarrow> guild_world" where
  "BroadcastEvent e ev x params =
     Guild_BroadcastPacket e 0x092
       ([U8 ev, U8 (of_nat (length params))] @ map Str params @ (if x \<noteq> 0 then [U64 x] else []))"

definition SendCommandResult :: "guild_player \<Rightarrow> uint32 \<Rightarrow> uint32 \<Rightarrow> string \<Rightarrow> guild_world \<Rightarrow> guild_world" where
  "SendCommandResult p typ errCode param = gsend p 0x093 [U32 typ, Str param, U32 errCode]"

definition SendSaveEmblemResult :: "guild_player \<Rightarrow> uint32 \<Rightarrow> guild_world \<Rightarrow> guild_world" where
  "SendSaveEmblemResult p errCode = gsend p 0x1F1 [U32 errCode]"


definition HandleRoster :: "guild_env \<Rightarrow> guild_player \<Rightarrow> guild_world \<Rightarrow> guild_world" where
  "HandleRoster e p w =
     (let g = gw_this w
      in gsend p 0x08A
           ([U32 (of_nat (length (g_members g))), Str (g_motd g), Str (g_info g), U32 (ucast (GetRanksSize g))] @
            concat (map RankInfo_WritePacket (g_ranks g)) @
            concat (map (\<lambda>(k, m). Member_WritePacket e (HasRankRight (pl_guid p) GR_RIGHT_VIEWOFFNOTE g) m) (g_members g))) w)"

definition HandleQuery :: "guild_player \<Rightarrow> guild_world \<Rightarrow> guild_world" where
  "HandleQuery p w =
     (let g = gw_this w
      in gsend p 0x055
           ([U32 (g_id g), Str (g_name g)] @
            map (\<lambda>i. if (of_nat i :: uint8) < GetRanksSize g then Str (ri_name (g_ranks g ! i)) else U8 0) [0..<10] @
            Emblem_WritePacket (g_emblem g)) w)"

definition SendInfo :: "guild_env \<Rightarrow> guild_player \<Rightarrow> guild_world \<Rightarrow> guild_world" where
  "SendInfo e p w =
     (let g = gw_this w;
          (mday, mon, year) = ge_localtime e (g_createdDate g)
      in gsend p 0x088
           [Str (g_name g), U32 mday, U32 mon, U32 year, U32 (of_nat (length (g_members g))),
            U32 (g_accountsNumber g)] w)"

definition SendEventLog :: "guild_env \<Rightarrow> guild_player \<Rightarrow> guild_world \<Rightarrow> guild_world" where
  "SendEventLog e p w = gsend p 0x3FE (Log_WritePacket (EventLogEntry_WritePacket e) (g_eventLog (gw_this w))) w"

definition SendBankLog :: "guild_env \<Rightarrow> guild_player \<Rightarrow> uint8 \<Rightarrow> guild_world \<Rightarrow> guild_world" where
  "SendBankLog e p tabId w =
     (let g = gw_this w
      in if tabId < GetPurchasedTabsSize g \<or> unat tabId = GUILD_BANK_MAX_TABS
         then gsend p 0x3ED
                (U8 tabId # Log_WritePacket (BankEventLogEntry_WritePacket e) (g_bankEventLog g ! unat tabId)) w
         else w)"

text \<open>The contents of the bank list packet around the remaining slots of the receiver.\<close>

definition bank_list_tail :: "uint8 \<Rightarrow> bool \<Rightarrow> uint8 list \<Rightarrow> guild \<Rightarrow> field list" where
  "bank_list_tail tabId sendAllSlots slots g =
     [U8 (if sendAllSlots then 1 else 0)] @
     (if sendAllSlots \<and> tabId = 0
      then U8 (GetPurchasedTabsSize g) # concat (map WriteInfoPacket (g_bankTabs g)) else []) @
     (case GetBankTab tabId g of
        None \<Rightarrow> [U8 0]
      | Some t \<Rightarrow>
          if sendAllSlots then BankTab_WritePacket t
          else if slots \<noteq> []
          then U8 (of_nat (length slots)) # concat (List.map_filter (\<lambda>s. WriteSlotPacket s False t) slots)
          else [U8 0])"

definition bank_list :: "uint8 \<Rightarrow> bool \<Rightarrow> uint8 list \<Rightarrow> uint32 \<Rightarrow> guild \<Rightarrow> field list" where
  "bank_list tabId sendAllSlots slots remaining g =
     [U64 (g_bankMoney g), U8 tabId, U32 remaining] @ bank_list_tail tabId sendAllSlots slots g"

definition SendBankList :: "guild_player \<Rightarrow> uint8 \<Rightarrow> bool \<Rightarrow> uint8 list \<Rightarrow> guild_world \<Rightarrow> guild_world" where
  "SendBankList p tabId sendAllSlots slots w =
     (let g = gw_this w;
          numSlots = (case Guild_GetMember (pl_guid p) g of None \<Rightarrow> 0 | Some m \<Rightarrow> GetMemberRemainingSlots m tabId g)
      in gsend p 0x3E7 (bank_list tabId sendAllSlots slots numSlots g) w)"

definition BroadcastBankList :: "guild_env \<Rightarrow> uint8 \<Rightarrow> bool \<Rightarrow> uint8 list \<Rightarrow> guild_world \<Rightarrow> guild_world" where
  "BroadcastBankList e tabId sendAllSlots slots w =
     fold (\<lambda>m w.
       if \<not> MemberHasTabRights (gm_guid m) tabId GUILD_BANK_RIGHT_VIEW_TAB (gw_this w) then w
       else case ge_find_player e (gm_guid m) of
              None \<Rightarrow> w
            | Some q \<Rightarrow>
                gsend q 0x3E7 (bank_list tabId sendAllSlots slots (GetMemberRemainingSlots m tabId (gw_this w)) (gw_this w)) w)
       (map snd (g_members (gw_this w))) w"

definition SendBankContent :: "guild_player \<Rightarrow> uint8 \<Rightarrow> guild_world \<Rightarrow> guild_world" where
  "SendBankContent p tabId w =
     (if \<not> MemberHasTabRights (pl_guid p) tabId GUILD_BANK_RIGHT_VIEW_TAB (gw_this w) then w
      else SendBankList p tabId True [] w)"

definition SendBankTabData :: "guild_player \<Rightarrow> uint8 \<Rightarrow> guild_world \<Rightarrow> guild_world" where
  "SendBankTabData p tabId w =
     (if tabId < GetPurchasedTabsSize (gw_this w) then SendBankContent p tabId w else w)"

definition SendBankTabsInfo :: "guild_player \<Rightarrow> bool \<Rightarrow> guild_world \<Rightarrow> guild_world" where
  "SendBankTabsInfo p sendAllSlots w = SendBankList p 0 sendAllSlots [] w"

text \<open>\<open>BankTab::SendText\<close>, to a session or to the guild.\<close>

definition SendText :: "guild_env \<Rightarrow> guild_player option \<Rightarrow> bank_tab \<Rightarrow> guild_world \<Rightarrow> guild_world" where
  "SendText e session t w =
     (let fs = [U8 (bt_tabId t), Str (bt_text t)]
      in case session of None \<Rightarrow> Guild_BroadcastPacket e 0x409 fs w | Some p \<Rightarrow> gsend p 0x409 fs w)"

definition SendBankTabText :: "guild_env \<Rightarrow> guild_player \<Rightarrow> uint8 \<Rightarrow> guild_world \<Rightarrow> guild_world" where
  "SendBankTabText e p tabId w =
     (case GetBankTab tabId (gw_this w) of None \<Rightarrow> w | Some t \<Rightarrow> SendText e (Some p) t w)"

definition SendPermissions :: "guild_player \<Rightarrow> guild_world \<Rightarrow> guild_world" where
  "SendPermissions p w =
     (let g = gw_this w
      in case Guild_GetMember (pl_guid p) g of
           None \<Rightarrow> w
         | Some m \<Rightarrow>
             let rankId = gm_rankId m
             in gsend p 0x3FC
                  ([U32 (ucast rankId), U32 (GetRankRights rankId g), U32 (GetMemberRemainingMoney m g),
                    U8 (GetPurchasedTabsSize g)] @
                   concat (map (\<lambda>i. [U32 (GetRankBankTabRights rankId (of_nat i) g),
                                      U32 (GetMemberRemainingSlots m (of_nat i) g)]) [0..<GUILD_BANK_MAX_TABS])) w)"

definition SendMoneyInfo :: "guild_player \<Rightarrow> guild_world \<Rightarrow> guild_world" where
  "SendMoneyInfo p w =
     (let g = gw_this w
      in case Guild_GetMember (pl_guid p) g of
           None \<Rightarrow> w | Some m \<Rightarrow> gsend p 0x3FD [U32 (GetMemberRemainingMoney m g)] w)"

definition SendLoginInfo :: "guild_env \<Rightarrow> guild_player \<Rightarrow> guild_world \<Rightarrow> guild_world" where
  "SendLoginInfo e p w =
     (let w1 = gsend p 0x092 [U8 2, U8 1, Str (g_motd (gw_this w))] w;
          w2 = SendBankTabsInfo p False w1;
          w3 = HandleRoster e p w2;
          w4 = BroadcastEvent e 12 (pl_guid p) [pl_name p] w3
      in on_gmember (pl_guid p)
           (\<lambda>m. ((SetStats_player p m)\<lparr>gm_flags := gm_flags m OR 1\<rparr>, [])) w4)"

end
