(* ===== verification/GuildOps.thy ===== *)
theory GuildOps
  imports Guild ArenaTeamMgr
begin

text \<open>
  The operations of a guild (src/src/server/game/Guilds/Guild.cpp): membership, ranks, leader,
  bank money, logs, disbanding, creation, loading and validation. A method changes the world
  in which \<open>gw_this\<close> is the object it runs on.
\<close>

section \<open>Logs and the bank account\<close>

definition LogEvent :: "guild_env \<Rightarrow> uint8 \<Rightarrow> uint32 \<Rightarrow> uint32 \<Rightarrow> uint8 \<Rightarrow> guild_world \<Rightarrow> guild_world" where
  "LogEvent e eventType player1 player2 newRank w =
     (let g = gw_this w;
          (n, h) = GetNextGUID (g_eventLog g);
          entry = \<lparr>ee_guildId = g_id g, ee_guid = n, ee_timestamp = ge_now e, ee_type = eventType,
                   ee_player1 = player1, ee_player2 = player2, ee_newRank = newRank\<rparr>;
          (h', effs) = AddLogEvent EventLogEntry_SaveToDB entry h
      in gemits effs (on_guild (\<lambda>g. g\<lparr>g_eventLog := h'\<rparr>) w))"

definition LogBankEvent ::
  "guild_env \<Rightarrow> uint8 \<Rightarrow> uint8 \<Rightarrow> uint32 \<Rightarrow> uint32 \<Rightarrow> uint16 \<Rightarrow> uint8 \<Rightarrow> guild_world \<Rightarrow> guild_world" where
  "LogBankEvent e eventType tabId0 lowguid itemOrMoney stackCount destTabId w =
     (if unat tabId0 > GUILD_BANK_MAX_TABS then w
      else if eventType = BANK_LOG_MOVE_ITEM \<and> tabId0 = destTabId then w
      else
        let g = gw_this w;
            tabId = (if IsMoneyEvent eventType then GUILD_BANK_MAX_TABS else unat tabId0);
            dbTabId = (if IsMoneyEvent eventType then 100 else tabId0);
            (n, h) = GetNextGUID (g_bankEventLog g ! tabId);
            entry = \<lparr>be_guildId = g_id g, be_guid = n, be_timestamp = ge_now e, be_type = eventType,
                     be_tabId = dbTabId, be_player = lowguid, be_itemOrMoney = itemOrMoney,
                     be_stackCount = stackCount, be_destTabId = destTabId\<rparr>;
            (h', effs) = AddLogEvent BankEventLogEntry_SaveToDB entry h
        in gemits effs (on_guild (\<lambda>g. g\<lparr>g_bankEventLog := (g_bankEventLog g)[tabId := h']\<rparr>) w))"

definition ModifyBankMoney :: "uint64 \<Rightarrow> bool \<Rightarrow> guild_world \<Rightarrow> bool \<times> guild_world" where
  "ModifyBankMoney amount add w =
     (let money = g_bankMoney (gw_this w);
          finish = (\<lambda>v. (True, gsql ''CHAR_UPD_GUILD_BANK_MONEY'' [U64 v, U32 (g_id (gw_this w))]
                          (on_guild (\<lambda>g. g\<lparr>g_bankMoney := v\<rparr>) w)))
      in if add then finish (money + amount)
         else if money < amount then (False, w) else finish (money - amount))"

definition UpdateAccountsNumber :: "guild_world \<Rightarrow> guild_world" where
  "UpdateAccountsNumber =
     on_guild (\<lambda>g. g\<lparr>g_accountsNumber := of_nat (card (set (map (gm_accountId \<circ> snd) (g_members g))))\<rparr>)"

definition SetLeaderGUID :: "guild_env \<Rightarrow> guid \<Rightarrow> guild_world \<Rightarrow> guild_world" where
  "SetLeaderGUID e x w =
     (let w1 = ChangeRank e x GR_GUILDMASTER (on_guild (\<lambda>g. g\<lparr>g_leaderGuid := x\<rparr>) w)
      in gsql ''CHAR_UPD_GUILD_LEADER'' [U32 (guid_counter x), U32 (g_id (gw_this w1))] w1)"

section \<open>Ranks and tabs\<close>

definition CreateRank :: "string \<Rightarrow> uint32 \<Rightarrow> guild_world \<Rightarrow> bool \<times> guild_world" where
  "CreateRank name rights w =
     (let g = gw_this w;
          newRankId = GetRanksSize g
      in if newRankId \<ge> GUILD_RANKS_MAX_COUNT then (False, w)
         else
           let info = RankInfo_new (g_id g) newRankId name rights 0;
               (info', effs) = CreateMissingTabsIfNeeded (GetPurchasedTabsSize g) info
           in (True, gemits (effs @ RankInfo_SaveToDB info')
                       (on_guild (\<lambda>g. g\<lparr>g_ranks := g_ranks g @ [info]\<rparr>) w)))"

definition chat_rights :: uint32 where
  "chat_rights = GR_RIGHT_GCHATLISTEN OR GR_RIGHT_GCHATSPEAK"

definition CreateDefaultGuildRanks :: "guild_env \<Rightarrow> guild_world \<Rightarrow> guild_world" where
  "CreateDefaultGuildRanks e w =
     (let guildId = g_id (gw_this w);
          w1 = gsql ''CHAR_DEL_GUILD_RANKS'' [U32 guildId] w;
          w2 = gsql ''CHAR_DEL_GUILD_BANK_RIGHTS'' [U32 guildId] w1
      in fold (\<lambda>(name, rights) w. snd (CreateRank name rights w))
           (zip (ge_rank_names e) [GR_RIGHT_ALL, GR_RIGHT_ALL, chat_rights, chat_rights, chat_rights]) w2)"

definition missing_tabs_of_all :: "uint8 \<Rightarrow> rank_info list \<Rightarrow> rank_info list \<times> guild_effect list" where
  "missing_tabs_of_all tabs rs =
     (let rs' = map (CreateMissingTabsIfNeeded tabs) rs in (map fst rs', concat (map snd rs')))"

definition CreateNewBankTab :: "guild_world \<Rightarrow> guild_world" where
  "CreateNewBankTab w =
     (let guildId = g_id (gw_this w);
          tabId = GetPurchasedTabsSize (gw_this w);
          w1 = on_guild (\<lambda>g. g\<lparr>g_bankTabs := g_bankTabs g @ [BankTab_new guildId tabId]\<rparr>) w;
          w2 = gsql ''CHAR_DEL_GUILD_BANK_TAB'' [U32 guildId, U8 tabId] w1;
          w3 = gsql ''CHAR_INS_GUILD_BANK_TAB'' [U32 guildId, U8 tabId] w2;
          (rs, effs) = missing_tabs_of_all (tabId + 1) (g_ranks (gw_this w3))
      in gemits effs (on_guild (\<lambda>g. g\<lparr>g_ranks := rs\<rparr>) w3))"

definition DeleteBankItems :: "bool \<Rightarrow> guild_world \<Rightarrow> guild_world" where
  "DeleteBankItems removeItemsFromDB w =
     gemits (concat (map (BankTab_Delete removeItemsFromDB) (g_bankTabs (gw_this w))))
       (on_guild (\<lambda>g. g\<lparr>g_bankTabs := []\<rparr>) w)"

definition SetRankBankMoneyPerDay :: "uint8 \<Rightarrow> uint32 \<Rightarrow> guild_world \<Rightarrow> guild_world" where
  "SetRankBankMoneyPerDay rankId money = on_rank rankId (SetBankMoneyPerDay money)"

definition SetRankBankTabRightsAndSlots :: "uint8 \<Rightarrow> rights_slots \<Rightarrow> bool \<Rightarrow> guild_world \<Rightarrow> guild_world" where
  "SetRankBankTabRightsAndSlots rankId rs saveToDB w =
     (if sint (rs_tabId rs) \<ge> uint (GetPurchasedTabsSize (gw_this w)) then w
      else on_rank rankId (SetBankTabSlotsAndRights rs saveToDB) w)"

definition UpdateMemberWithdrawSlots :: "guid \<Rightarrow> uint8 \<Rightarrow> guild_world \<Rightarrow> guild_world" where
  "UpdateMemberWithdrawSlots x tabId w =
     on_gmember x (\<lambda>m.
       if gm_rankId m \<noteq> GR_GUILDMASTER \<and>
          sint (GetBankWithdrawValue (unat tabId) m) <
            sint (GetRankBankTabSlotsPerDay (gm_rankId m) tabId (gw_this w))
       then UpdateBankWithdrawValue (unat tabId) 1 m else (m, [])) w"

section \<open>Membership\<close>

definition DeleteMemberFromDB :: "uint32 \<Rightarrow> guild_world \<Rightarrow> guild_world" where
  "DeleteMemberFromDB low = gsql ''CHAR_DEL_GUILD_MEMBER'' [U32 low]"

definition put_member :: "uint32 \<Rightarrow> guild_member \<Rightarrow> guild_world \<Rightarrow> guild_world" where
  "put_member low m = on_guild (\<lambda>g. g\<lparr>g_members := omap_set low m (g_members g)\<rparr>)"

definition Guild_AddMember :: "guild_env \<Rightarrow> guid \<Rightarrow> uint8 \<Rightarrow> guild_world \<Rightarrow> bool \<times> guild_world" where
  "Guild_AddMember e x rankId0 w =
     (let pl = ge_connected e x;
          low = guid_counter x
      in if (case pl of None \<Rightarrow> GetCharacterGuildIdByGuid e x w \<noteq> 0 | Some p \<Rightarrow> gw_guild_of w x \<noteq> 0) then (False, w)
         else
           let w1 = gemit (RemoveCharterSigns x) w;
               guildId = g_id (gw_this w1);
               rankId = (if rankId0 = GUILD_RANK_NONE then GetLowestRankId (gw_this w1) else rankId0);
               member = Member_new (ge_now e) guildId x rankId;
               joined = (\<lambda>name w.
                 let w1 = (case Guild_GetMember x (gw_this w) of
                             None \<Rightarrow> w | Some m \<Rightarrow> gemits (Member_SaveToDB m) w);
                     w2 = UpdateAccountsNumber w1;
                     w3 = LogEvent e LOG_JOIN low 0 0 w2
                 in (True, BroadcastEvent e 3 x [name] w3))
           in case pl of
                Some p \<Rightarrow>
                  let w2 = put_member low member w1;
                      w3 = SetInGuild e x guildId w2;
                      w4 = SetGuildIdInvited x 0 w3;
                      w5 = SetRank x (ucast rankId) w4;
                      w6 = on_gmember x (\<lambda>m. (SetStats_player p m, [])) w5
                  in joined (pl_name p) (SendLoginInfo e p w6)
              | None \<Rightarrow>
                  (case ge_char_row e low of
                     None \<Rightarrow> (False, w1)
                   | Some r \<Rightarrow>
                       let m = SetStats r member
                       in if \<not> CheckStats m then (False, w1)
                          else joined (cr_name r) (UpdateCharacterGuildId e x guildId (put_member low m w1))))"

text \<open>The member with the best rank apart from the leaving one.\<close>

fun best_ranked :: "uint32 \<Rightarrow> guild_member option \<Rightarrow> (uint32 \<times> guild_member) list \<Rightarrow> guild_member option" where
  "best_ranked low best [] = best"
| "best_ranked low best ((k, m) # ms) =
     best_ranked low
       (if k = low then best
        else case best of
               None \<Rightarrow> Some m | Some b \<Rightarrow> if gm_rankId b > gm_rankId m then Some m else best) ms"

definition Guild_RemoveFromStore :: "uint32 \<Rightarrow> guild_world \<Rightarrow> guild_world" where
  "Guild_RemoveFromStore guildId w = w\<lparr>gw_guilds := omap_erase guildId (gw_guilds w), gw_live := False\<rparr>"

text \<open>What \<open>DeleteMember\<close> does with any member, after it has dealt with a leaving leader.\<close>

definition erase_member :: "guild_env \<Rightarrow> guid \<Rightarrow> bool \<Rightarrow> guild_world \<Rightarrow> guild_world" where
  "erase_member e x isDisbanding w =
     (let low = guid_counter x;
          w1 = on_guild (\<lambda>g. g\<lparr>g_members := omap_erase low (g_members g)\<rparr>) w;
          w2 = (case ge_connected e x of
                  Some p \<Rightarrow> SetRank x 0 (SetInGuild e x 0 w1)
                | None \<Rightarrow> UpdateCharacterGuildId e x 0 w1);
          w3 = DeleteMemberFromDB low w2
      in if isDisbanding then w3 else UpdateAccountsNumber w3)"

text \<open>
  \<open>while (!m_members.empty())\<close> with the first member deleted each time: the leader case of
  \<open>DeleteMember\<close> does not apply when the guild is disbanding.
\<close>

fun disband_members :: "guild_env \<Rightarrow> nat \<Rightarrow> guild_world \<Rightarrow> guild_world option" where
  "disband_members e n w =
     (case g_members (gw_this w) of
        [] \<Rightarrow> Some w
      | (k, m) # ms \<Rightarrow>
          (case n of 0 \<Rightarrow> None | Suc n' \<Rightarrow> disband_members e n' (erase_member e (gm_guid m) True w)))"

definition Guild_Disband :: "guild_env \<Rightarrow> guild_world \<Rightarrow> guild_world option" where
  "Guild_Disband e w =
     (let w0 = BroadcastEvent e 8 0 [] w
      in case disband_members e (length (g_members (gw_this w0))) w0 of
           None \<Rightarrow> None
         | Some w1 \<Rightarrow>
             let guildId = g_id (gw_this w1);
                 del = (\<lambda>nm. gsql nm [U32 guildId]);
                 w2 = del ''CHAR_DEL_GUILD_BANK_TABS'' (del ''CHAR_DEL_GUILD_RANKS'' (del ''CHAR_DEL_GUILD'' w1));
                 w3 = DeleteBankItems True w2;
                 w4 = del ''CHAR_DEL_GUILD_EVENTLOGS'' (del ''CHAR_DEL_GUILD_BANK_EVENTLOGS''
                        (del ''CHAR_DEL_GUILD_BANK_RIGHTS'' (del ''CHAR_DEL_GUILD_BANK_ITEMS'' w3)))
             in Some (Guild_RemoveFromStore guildId w4))"

definition Guild_DeleteMember ::
  "guild_env \<Rightarrow> guid \<Rightarrow> bool \<Rightarrow> bool \<Rightarrow> guild_world \<Rightarrow> guild_world option" where
  "Guild_DeleteMember e x isDisbanding canDeleteGuild w =
     (if \<not> (g_leaderGuid (gw_this w) = x \<and> \<not> isDisbanding) then Some (erase_member e x isDisbanding w)
      else
        let low = guid_counter x;
            oldLeader = omap_find (g_members (gw_this w)) low
        in case best_ranked low None (g_members (gw_this w)) of
             None \<Rightarrow>
               (case Guild_Disband e w of
                  None \<Rightarrow> None
                | Some w1 \<Rightarrow>
                    Some (if canDeleteGuild then gemit (DeleteGuildObject (g_id (gw_this w1))) w1 else w1))
           | Some newLeader \<Rightarrow>
               let w1 = SetLeaderGUID e (gm_guid newLeader) w;
                   w2 = (if ge_find_player e (gm_guid newLeader) \<noteq> None then SetRank (gm_guid newLeader) 0 w1 else w1);
                   w3 = (case oldLeader of
                           None \<Rightarrow> w2
                         | Some old \<Rightarrow>
                             BroadcastEvent e 4 x [gm_name old]
                               (BroadcastEvent e 7 0 [gm_name old, gm_name newLeader] w2))
               in Some (erase_member e x isDisbanding w3))"

definition ChangeMemberRank :: "guild_env \<Rightarrow> guid \<Rightarrow> uint8 \<Rightarrow> guild_world \<Rightarrow> bool \<times> guild_world" where
  "ChangeMemberRank e x newRank w =
     (if newRank \<le> GetLowestRankId (gw_this w) \<and> Guild_GetMember x (gw_this w) \<noteq> None
      then (True, ChangeRank e x newRank w) else (False, w))"

section \<open>Creating\<close>

definition CreateLogHolders :: "guild_env \<Rightarrow> guild_world \<Rightarrow> guild_world" where
  "CreateLogHolders e =
     on_guild (\<lambda>g. g\<lparr>g_eventLog := LogHolder_new (ge_event_log_count e),
                     g_bankEventLog := replicate (GUILD_BANK_MAX_TABS + 1) (LogHolder_new (ge_bank_log_count e))\<rparr>)"

definition GetGuildByName :: "string \<Rightarrow> guild_world \<Rightarrow> guild option" where
  "GetGuildByName name w =
     (let search = map toupper_char name
      in map_option snd (find (\<lambda>(k, g). search = map toupper_char (g_name g)) (gw_guilds w)))"

definition GenerateGuildId :: "guild_world \<Rightarrow> uint32 \<times> guild_world" where
  "GenerateGuildId w =
     (let w1 = (if gw_next w \<ge> 0xFFFFFFFE then w\<lparr>gw_stop := True\<rparr> else w)
      in (gw_next w1, w1\<lparr>gw_next := gw_next w1 + 1\<rparr>))"

definition Guild_Create :: "guild_env \<Rightarrow> guild_player \<Rightarrow> string \<Rightarrow> guild_world \<Rightarrow> bool \<times> guild_world" where
  "Guild_Create e p name w =
     (if GetGuildByName name w \<noteq> None then (False, w)
      else
        let (guildId, w1) = GenerateGuildId w;
            w2 = CreateLogHolders e (on_guild (\<lambda>g. g\<lparr>g_id := guildId, g_leaderGuid := pl_guid p, g_name := name,
                   g_info := '''', g_motd := ''No message set.'', g_bankMoney := 0, g_createdDate := ge_now e\<rparr>) w1);
            w3 = gsql ''CHAR_DEL_GUILD_MEMBERS'' [U32 guildId] w2;
            em = g_emblem (gw_this w3);
            w4 = gsql ''CHAR_INS_GUILD''
                   [U32 guildId, Str name, U32 (guid_counter (pl_guid p)), Str '''', Str ''No message set.'',
                    U64 (ucast (ucast (ge_now e) :: uint32)), U32 (em_style em), U32 (em_color em),
                    U32 (em_borderStyle em), U32 (em_borderColor em), U32 (em_backgroundColor em), U64 0] w3;
            w5 = CreateDefaultGuildRanks e w4;
            (ret, w6) = Guild_AddMember e (pl_guid p) GR_GUILDMASTER w5
        in (ret, on_guild (\<lambda>g. g\<lparr>g_bankloaded := True\<rparr>) w6))"


section \<open>Loading\<close>

record guild_row =
  wr_id :: uint32
  wr_name :: string
  wr_leader :: uint32
  wr_style :: uint8
  wr_color :: uint8
  wr_borderStyle :: uint8
  wr_borderColor :: uint8
  wr_background :: uint8
  wr_info :: string
  wr_motd :: string
  wr_created :: uint32
  wr_money :: uint64
  wr_tabs :: uint64

definition Guild_LoadFromDB :: "guild_env \<Rightarrow> guild_row \<Rightarrow> guild_world \<Rightarrow> guild_world" where
  "Guild_LoadFromDB e r w =
     (let tabs0 = (ucast (wr_tabs r) :: uint8);
          tabs = (if unat tabs0 > GUILD_BANK_MAX_TABS then GUILD_BANK_MAX_TABS else unat tabs0)
      in CreateLogHolders e (on_guild (\<lambda>g. g\<lparr>g_id := wr_id r, g_name := wr_name r,
           g_leaderGuid := guid_of_counter HG_Player (wr_leader r),
           g_emblem := Emblem_LoadFromDB (wr_style r) (wr_color r) (wr_borderStyle r) (wr_borderColor r) (wr_background r),
           g_info := wr_info r, g_motd := wr_motd r, g_createdDate := ucast (wr_created r), g_bankMoney := wr_money r,
           g_bankTabs := map (\<lambda>i. BankTab_new (wr_id r) (of_nat i)) [0..<tabs]\<rparr>) w))"

definition LoadRankFromDB :: "uint8 \<Rightarrow> string \<Rightarrow> uint32 \<Rightarrow> uint32 \<Rightarrow> guild_world \<Rightarrow> guild_world" where
  "LoadRankFromDB rankId name rights money =
     on_guild (\<lambda>g. g\<lparr>g_ranks := g_ranks g @
       [RankInfo_LoadFromDB rankId name rights money (RankInfo_new (g_id g) GUILD_RANK_NONE '''' GR_RIGHT_EMPTY 0)]\<rparr>)"

definition LoadMemberFromDB :: "guild_env \<Rightarrow> guild_member_row \<Rightarrow> guild_world \<Rightarrow> bool \<times> guild_world" where
  "LoadMemberFromDB e r w =
     (let low = gr_guid r;
          x = guid_of_counter HG_Player low;
          (ok, m) = Member_LoadFromDB e r (Member_new (ge_now e) (g_id (gw_this w)) x (gr_rank r))
      in if \<not> ok then (False, DeleteMemberFromDB low w)
         else (True, put_member low m (UpdateCharacterGuildId e x (g_id (gw_this w)) w)))"

definition LoadBankRightFromDB :: "uint8 \<Rightarrow> uint8 \<Rightarrow> uint8 \<Rightarrow> uint32 \<Rightarrow> guild_world \<Rightarrow> guild_world" where
  "LoadBankRightFromDB tabId rankId rights slots =
     SetRankBankTabRightsAndSlots rankId \<lparr>rs_tabId = tabId, rs_rights = rights, rs_slots = slots\<rparr> False"

definition LoadEventLogFromDB :: "event_entry \<Rightarrow> guild_world \<Rightarrow> bool \<times> guild_world" where
  "LoadEventLogFromDB entry w =
     (let g = gw_this w
      in if CanInsert (g_eventLog g)
         then (True, on_guild (\<lambda>g. g\<lparr>g_eventLog := LoadEvent ee_guid (entry\<lparr>ee_guildId := g_id g\<rparr>) (g_eventLog g)\<rparr>) w)
         else (False, w))"

definition LoadBankEventLogFromDB :: "bank_entry \<Rightarrow> guild_world \<Rightarrow> bool \<times> guild_world" where
  "LoadBankEventLogFromDB entry w =
     (let g = gw_this w;
          dbTabId = be_tabId entry;
          isMoneyTab = (dbTabId = 100);
          tabId = (if isMoneyTab then GUILD_BANK_MAX_TABS else unat dbTabId)
      in if \<not> (dbTabId < GetPurchasedTabsSize g \<or> isMoneyTab) then (True, w)
         else if \<not> CanInsert (g_bankEventLog g ! tabId) then (True, w)
         else if IsMoneyEvent (be_type entry) \<and> \<not> isMoneyTab then (False, w)
         else if \<not> IsMoneyEvent (be_type entry) \<and> isMoneyTab then (False, w)
         else (True, on_guild (\<lambda>g. g\<lparr>g_bankEventLog := (g_bankEventLog g)[tabId :=
                 LoadEvent be_guid (entry\<lparr>be_guildId := g_id g\<rparr>) (g_bankEventLog g ! tabId)]\<rparr>) w))"

definition LoadBankTabFromDB :: "uint8 \<Rightarrow> string \<Rightarrow> string \<Rightarrow> string \<Rightarrow> guild_world \<Rightarrow> guild_world" where
  "LoadBankTabFromDB tabId name icon txt0 w =
     (if tabId \<ge> GetPurchasedTabsSize (gw_this w) then w
      else on_guild (\<lambda>g. g\<lparr>g_bankTabs := (g_bankTabs g)[unat tabId :=
             (g_bankTabs g ! unat tabId)\<lparr>bt_name := name, bt_icon := icon, bt_text := txt0\<rparr>]\<rparr>) w)"

section \<open>Validation\<close>

text \<open>The ranks must be 5 to 10 and numbered from 0; tabs missing in a rank are added.\<close>

fun validate_ranks :: "uint8 \<Rightarrow> uint8 \<Rightarrow> rank_info list \<Rightarrow> bool \<times> rank_info list \<times> guild_effect list" where
  "validate_ranks tabs i [] = (False, [], [])"
| "validate_ranks tabs i (r # rs) =
     (case validate_ranks tabs (i + 1) rs of (broken, rs', effs) \<Rightarrow>
        if ri_rankId r \<noteq> i then (True, r # rs', effs)
        else (case CreateMissingTabsIfNeeded tabs r of (r', effs0) \<Rightarrow> (broken, r' # rs', effs0 @ effs)))"

definition Validate_ranks :: "guild_env \<Rightarrow> guild_world \<Rightarrow> guild_world" where
  "Validate_ranks e w =
     (let g = gw_this w;
          ranks = GetRanksSize g;
          (broken, w1) =
            (if ranks < GUILD_RANKS_MIN_COUNT \<or> ranks > GUILD_RANKS_MAX_COUNT then (True, w)
             else (case validate_ranks (GetPurchasedTabsSize g) 0 (g_ranks g) of (broken, rs, effs) \<Rightarrow>
                     (broken, gemits effs (on_guild (\<lambda>g. g\<lparr>g_ranks := rs\<rparr>) w))))
      in if broken then CreateDefaultGuildRanks e (on_guild (\<lambda>g. g\<lparr>g_ranks := []\<rparr>) w1) else w1)"

definition Validate_members :: "guild_env \<Rightarrow> guild_world \<Rightarrow> guild_world" where
  "Validate_members e w =
     fold (\<lambda>(k, m) w. if gm_rankId m > GetRanksSize (gw_this w)
                      then ChangeRank e (gm_guid m) (GetLowestRankId (gw_this w)) w else w)
       (g_members (gw_this w)) w"

definition one_guildmaster :: "guild_env \<Rightarrow> guild_world \<Rightarrow> guild_world" where
  "one_guildmaster e w =
     (if ge_multiple_masters e then w
      else fold (\<lambda>(k, m) w. if gm_rankId m = GR_GUILDMASTER \<and> gm_guid m \<noteq> g_leaderGuid (gw_this w)
                            then ChangeRank e (gm_guid m) GR_OFFICER w else w)
             (g_members (gw_this w)) w)"

definition Validate :: "guild_env \<Rightarrow> guild_world \<Rightarrow> (bool \<times> guild_world) option" where
  "Validate e w0 =
     (let w = Validate_members e (Validate_ranks e w0);
          leader = g_leaderGuid (gw_this w);
          finish = (\<lambda>w. Some (True, UpdateAccountsNumber (one_guildmaster e w)))
      in case Guild_GetMember leader (gw_this w) of
           None \<Rightarrow>
             (case Guild_DeleteMember e leader False False w of
                None \<Rightarrow> None
              | Some w1 \<Rightarrow>
                  if g_members (gw_this w1) = []
                  then map_option (Pair False) (Guild_Disband e w1)
                  else finish w1)
         | Some m \<Rightarrow> finish (if IsRank GR_GUILDMASTER m then w else SetLeaderGUID e leader w))"

end
