(* ===== verification/GuildHandlers.thy ===== *)
theory GuildHandlers
  imports GuildOps
begin

text \<open>
  The client commands of a guild (\<open>Guild::Handle...\<close> in src/src/server/game/Guilds/Guild.cpp),
  the store of guilds (GuildMgr.cpp) and the packet handlers
  (src/src/server/game/Handlers/GuildHandler.cpp). A command that may disband the guild has
  an optional result: \<open>None\<close> means that the loop of \<open>Disband\<close> does not end. A handler throws
  when its packet is short.
\<close>

section \<open>Numbers as text\<close>

fun dec_string :: "nat \<Rightarrow> string" where
  "dec_string n = (if n < 10 then [char_of (48 + n)] else dec_string (n div 10) @ [char_of (48 + n mod 10)])"

definition hex_digit :: "nat \<Rightarrow> char" where
  "hex_digit n = (char_of (if n < 10 then 48 + n else 55 + n))"

text \<open>The eight bytes of the account, the most significant first.\<close>

definition hex_money :: "uint64 \<Rightarrow> string" where
  "hex_money v = map (\<lambda>i. hex_digit (unat (drop_bit (4 * i) v) mod 16)) (rev [0..<16])"

section \<open>Texts, emblem, notes\<close>

abbreviation (input) "ERR_GUILD_PERMISSIONS \<equiv> (8 :: uint32)"

definition HandleSetMOTD :: "guild_env \<Rightarrow> guild_player \<Rightarrow> string \<Rightarrow> guild_world \<Rightarrow> guild_world" where
  "HandleSetMOTD e p motd w =
     (if g_motd (gw_this w) = motd then w
      else if \<not> HasRankRight (pl_guid p) GR_RIGHT_SETMOTD (gw_this w) then SendCommandResult p 11 ERR_GUILD_PERMISSIONS '''' w
      else BroadcastEvent e 2 0 [motd]
             (gsql ''CHAR_UPD_GUILD_MOTD'' [Str motd, U32 (g_id (gw_this w))] (on_guild (\<lambda>g. g\<lparr>g_motd := motd\<rparr>) w)))"

definition HandleSetInfo :: "guild_player \<Rightarrow> string \<Rightarrow> guild_world \<Rightarrow> guild_world" where
  "HandleSetInfo p info w =
     (if g_info (gw_this w) = info then w
      else if HasRankRight (pl_guid p) GR_RIGHT_MODIFY_GUILD_INFO (gw_this w)
      then gsql ''CHAR_UPD_GUILD_INFO'' [Str info, U32 (g_id (gw_this w))] (on_guild (\<lambda>g. g\<lparr>g_info := info\<rparr>) w)
      else w)"

definition HandleSetEmblem :: "guild_player \<Rightarrow> emblem_info \<Rightarrow> guild_world \<Rightarrow> guild_world" where
  "HandleSetEmblem p em w =
     (if \<not> IsLeader (pl_guid p) (gw_this w) then SendSaveEmblemResult p 3 w
      else if \<not> HasEnoughMoney (pl_guid p) 100000 w then SendSaveEmblemResult p 4 w
      else
        let (paid, w1) = ModifyMoney (pl_guid p) (- 100000) w;
            w2 = gemits (Emblem_SaveToDB (g_id (gw_this w1)) em) (on_guild (\<lambda>g. g\<lparr>g_emblem := em\<rparr>) w1)
        in HandleQuery p (SendSaveEmblemResult p 0 w2))"

definition HandleSetMemberNote ::
  "guild_env \<Rightarrow> guild_player \<Rightarrow> string \<Rightarrow> string \<Rightarrow> bool \<Rightarrow> guild_world \<Rightarrow> guild_world" where
  "HandleSetMemberNote e p name note0 officer w =
     (if \<not> HasRankRight (pl_guid p) (if officer then GR_RIGHT_EOFFNOTE else GR_RIGHT_EPNOTE) (gw_this w)
      then SendCommandResult p 19 ERR_GUILD_PERMISSIONS '''' w
      else case Guild_GetMember_by_name name (gw_this w) of
             None \<Rightarrow> w
           | Some m \<Rightarrow>
               HandleRoster e p
                 (on_gmember (gm_guid m) (if officer then SetOfficerNote note0 else SetPublicNote note0) w))"

definition HandleSetBankTabInfo :: "guild_env \<Rightarrow> uint8 \<Rightarrow> string \<Rightarrow> string \<Rightarrow> guild_world \<Rightarrow> guild_world" where
  "HandleSetBankTabInfo e tabId name icon w =
     (if \<not> g_bankloaded (gw_this w) then w
      else case GetBankTab tabId (gw_this w) of
             None \<Rightarrow> w
           | Some t \<Rightarrow>
               (case SetInfo name icon t of (t', effs) \<Rightarrow>
                  BroadcastEvent e 16 0 [dec_string (unat tabId), name, icon]
                    (gemits effs (on_guild (\<lambda>g. g\<lparr>g_bankTabs := (g_bankTabs g)[unat tabId := t']\<rparr>) w))))"

definition SetBankTabText :: "guild_env \<Rightarrow> uint8 \<Rightarrow> string \<Rightarrow> guild_world \<Rightarrow> guild_world" where
  "SetBankTabText e tabId txt0 w =
     (case GetBankTab tabId (gw_this w) of
        None \<Rightarrow> w
      | Some t \<Rightarrow>
          (case SetText e txt0 t of (t', effs) \<Rightarrow>
             SendText e None t'
               (gemits effs (on_guild (\<lambda>g. g\<lparr>g_bankTabs := (g_bankTabs g)[unat tabId := t']\<rparr>) w))))"

section \<open>Leader, ranks and tabs\<close>

definition HandleSetLeader :: "guild_env \<Rightarrow> guild_player \<Rightarrow> string \<Rightarrow> guild_world \<Rightarrow> guild_world" where
  "HandleSetLeader e p name w =
     (if \<not> IsLeader (pl_guid p) (gw_this w) then SendCommandResult p 10 ERR_GUILD_PERMISSIONS '''' w
      else if Guild_GetMember (pl_guid p) (gw_this w) = None then w
      else case Guild_GetMember_by_name name (gw_this w) of
             None \<Rightarrow> w
           | Some newLeader \<Rightarrow>
               BroadcastEvent e 7 0 [pl_name p, name]
                 (ChangeRank e (pl_guid p) GR_OFFICER (SetLeaderGUID e (gm_guid newLeader) w)))"

definition HandleSetRankInfo ::
  "guild_env \<Rightarrow> guild_player \<Rightarrow> uint8 \<Rightarrow> string \<Rightarrow> uint32 \<Rightarrow> uint32 \<Rightarrow> rights_slots list \<Rightarrow> guild_world \<Rightarrow> guild_world" where
  "HandleSetRankInfo e p rankId name rights moneyPerDay rss w =
     (if \<not> IsLeader (pl_guid p) (gw_this w) then SendCommandResult p 16 ERR_GUILD_PERMISSIONS '''' w
      else if GetRankInfo rankId (gw_this w) = None then w
      else
        let w1 = on_rank rankId (RankInfo_SetName name) w;
            w2 = on_rank rankId (SetRights rights) w1;
            w3 = SetRankBankMoneyPerDay rankId moneyPerDay w2;
            w4 = fold (\<lambda>rs w. SetRankBankTabRightsAndSlots rankId rs True w) rss w3
        in BroadcastEvent e 10 0 [dec_string (unat rankId), name] w4)"

definition HandleAddNewRank :: "guild_env \<Rightarrow> guild_player \<Rightarrow> string \<Rightarrow> guild_world \<Rightarrow> guild_world" where
  "HandleAddNewRank e p name w =
     (let size0 = GetRanksSize (gw_this w)
      in if size0 \<ge> GUILD_RANKS_MAX_COUNT then w
         else if IsLeader (pl_guid p) (gw_this w)
         then (case CreateRank name chat_rights w of
                 (ok, w1) \<Rightarrow> if ok then BroadcastEvent e 10 0 [dec_string (unat size0), name] w1 else w1)
         else w)"

definition HandleRemoveRank :: "guild_env \<Rightarrow> guild_player \<Rightarrow> uint8 \<Rightarrow> guild_world \<Rightarrow> guild_world" where
  "HandleRemoveRank e p rankId w =
     (let g = gw_this w
      in if GetRanksSize g \<le> GUILD_RANKS_MIN_COUNT \<or> rankId \<ge> GetRanksSize g \<or> \<not> IsLeader (pl_guid p) g then w
         else
           let w1 = gsql ''CHAR_DEL_GUILD_BANK_RIGHTS_FOR_RANK'' [U32 (g_id g), U8 rankId] w;
               w2 = gsql ''CHAR_DEL_GUILD_LOWEST_RANK'' [U32 (g_id g), U8 rankId] w1;
               w3 = on_guild (\<lambda>g. g\<lparr>g_ranks := butlast (g_ranks g)\<rparr>) w2
           in BroadcastEvent e 11 0 [dec_string (unat rankId)] w3)"

definition HandleRemoveLowestRank :: "guild_env \<Rightarrow> guild_player \<Rightarrow> guild_world \<Rightarrow> guild_world" where
  "HandleRemoveLowestRank e p w = HandleRemoveRank e p (GetLowestRankId (gw_this w)) w"

text \<open>Gold, of 10000 copper each.\<close>

definition GetGuildBankTabPrice :: "uint8 \<Rightarrow> uint32" where
  "GetGuildBankTabPrice tabId = [100, 250, 500, 1000, 2500, 5000] ! unat tabId"

definition HandleBuyBankTab :: "guild_env \<Rightarrow> guild_player \<Rightarrow> uint8 \<Rightarrow> guild_world \<Rightarrow> guild_world" where
  "HandleBuyBankTab e p tabId w =
     (let g = gw_this w
      in if \<not> g_bankloaded g then w
         else if Guild_GetMember (pl_guid p) g = None then w
         else if GetPurchasedTabsSize g \<ge> 6 \<or> tabId \<noteq> GetPurchasedTabsSize g \<or> tabId \<ge> 6 then w
         else
           let tabCost = GetGuildBankTabPrice tabId * 10000
           in if \<not> HasEnoughMoney (pl_guid p) tabCost w then w
              else
                let (paid, w1) = ModifyMoney (pl_guid p) (- tabCost) w
                in SendPermissions p (BroadcastEvent e 15 0 [] (CreateNewBankTab w1)))"

section \<open>Members\<close>

definition HandleInviteMember :: "guild_env \<Rightarrow> guild_player \<Rightarrow> string \<Rightarrow> guild_world \<Rightarrow> guild_world" where
  "HandleInviteMember e p name w =
     (let reply = (\<lambda>err param. SendCommandResult p 1 err param w)
      in case ge_find_by_name e name of
           None \<Rightarrow> reply 11 name
         | Some q \<Rightarrow>
             if HasIgnore (guid_counter (pl_guid p)) (ge_social e (pl_guid q)) then w
             else if \<not> ge_two_side_guild e \<and> pl_team q \<noteq> pl_team p then reply 12 name
             else if gw_guild_of w (pl_guid q) \<noteq> 0 then reply 3 name
             else if gw_invited w (pl_guid q) \<noteq> 0 then reply 5 name
             else if \<not> HasRankRight (pl_guid p) GR_RIGHT_INVITE (gw_this w) then reply ERR_GUILD_PERMISSIONS ''''
             else
               let w1 = SetGuildIdInvited (pl_guid q) (g_id (gw_this w)) (reply 0 name);
                   w2 = LogEvent e LOG_INVITE (guid_counter (pl_guid p)) (guid_counter (pl_guid q)) 0 w1
               in gsend q 0x083 [Str (pl_name p), Str (g_name (gw_this w2))] w2)"

definition HandleAcceptMember :: "guild_env \<Rightarrow> guild_player \<Rightarrow> guild_world \<Rightarrow> guild_world" where
  "HandleAcceptMember e p w =
     (if \<not> ge_two_side_guild e \<and> pl_team p \<noteq> ge_char_team e (g_leaderGuid (gw_this w)) then w
      else snd (Guild_AddMember e (pl_guid p) GUILD_RANK_NONE w))"

text \<open>\<open>delete this\<close> at the end of a command that has disbanded the guild.\<close>

definition disband_this :: "guild_env \<Rightarrow> guild_world \<Rightarrow> guild_world option" where
  "disband_this e w = map_option (\<lambda>w'. gemit (DeleteGuildObject (g_id (gw_this w'))) w') (Guild_Disband e w)"

definition HandleLeaveMember :: "guild_env \<Rightarrow> guild_player \<Rightarrow> guild_world \<Rightarrow> guild_world option" where
  "HandleLeaveMember e p w =
     (if IsLeader (pl_guid p) (gw_this w)
      then (if length (g_members (gw_this w)) > 1 then Some (SendCommandResult p 3 8 '''' w) else disband_this e w)
      else
        (case Guild_DeleteMember e (pl_guid p) False False w of
           None \<Rightarrow> None
         | Some w1 \<Rightarrow>
             let w2 = LogEvent e LOG_LEAVE (guid_counter (pl_guid p)) 0 0 w1;
                 w3 = BroadcastEvent e 4 (pl_guid p) [pl_name p] w2
             in Some (SendCommandResult p 3 0 (g_name (gw_this w3)) w3)))"

definition HandleRemoveMember :: "guild_env \<Rightarrow> guild_player \<Rightarrow> string \<Rightarrow> guild_world \<Rightarrow> guild_world option" where
  "HandleRemoveMember e p name w =
     (let g = gw_this w
      in if \<not> HasRankRight (pl_guid p) GR_RIGHT_REMOVE g then Some (SendCommandResult p 8 ERR_GUILD_PERMISSIONS '''' w)
         else case Guild_GetMember_by_name name g of
                None \<Rightarrow> Some w
              | Some m \<Rightarrow>
                  if IsRank GR_GUILDMASTER m then Some (SendCommandResult p 8 8 '''' w)
                  else if (case Guild_GetMember (pl_guid p) g of
                             None \<Rightarrow> True | Some me \<Rightarrow> IsRankNotLower (gm_rankId me) m)
                  then Some (SendCommandResult p 8 13 name w)
                  else (case Guild_DeleteMember e (gm_guid m) False False w of
                          None \<Rightarrow> None
                        | Some w1 \<Rightarrow>
                            Some (BroadcastEvent e 5 0 [name, pl_name p]
                              (LogEvent e LOG_UNINVITE (guid_counter (pl_guid p)) (guid_counter (gm_guid m)) 0 w1))))"

definition HandleUpdateMemberRank :: "guild_env \<Rightarrow> guild_player \<Rightarrow> string \<Rightarrow> bool \<Rightarrow> guild_world \<Rightarrow> guild_world" where
  "HandleUpdateMemberRank e p name demote w =
     (let g = gw_this w;
          typ = (if demote then 7 else 6)
      in if \<not> HasRankRight (pl_guid p) (if demote then GR_RIGHT_DEMOTE else GR_RIGHT_PROMOTE) g
         then SendCommandResult p typ ERR_GUILD_PERMISSIONS '''' w
         else case Guild_GetMember_by_name name g of
                None \<Rightarrow> w
              | Some m \<Rightarrow>
                  if gm_guid m = pl_guid p then SendCommandResult p typ 6 '''' w
                  else (case Guild_GetMember (pl_guid p) g of
                          None \<Rightarrow> gemit (GuildFault ''ASSERT(memberMe)'') w
                        | Some me \<Rightarrow>
                            if demote \<and> IsRankNotLower (gm_rankId me) m then SendCommandResult p typ 13 name w
                            else if demote \<and> gm_rankId m \<ge> GetLowestRankId g then SendCommandResult p typ 14 name w
                            else if \<not> demote \<and> IsRankNotLower (gm_rankId me + 1) m then SendCommandResult p typ 13 name w
                            else
                              let newRankId = gm_rankId m + (if demote then 1 else - 1);
                                  w1 = ChangeRank e (gm_guid m) newRankId w;
                                  w2 = LogEvent e (if demote then LOG_DEMOTE else LOG_PROMOTE) (guid_counter (pl_guid p))
                                         (guid_counter (gm_guid m)) newRankId w1
                              in BroadcastEvent e (if demote then 1 else 0) 0
                                   [pl_name p, name, GetRankName newRankId (gw_this w2)] w2))"

definition HandleMemberLogout :: "guild_env \<Rightarrow> guild_player \<Rightarrow> guild_world \<Rightarrow> guild_world" where
  "HandleMemberLogout e p w =
     BroadcastEvent e 13 (pl_guid p) [pl_name p]
       (on_gmember (pl_guid p)
          (\<lambda>m. ((SetStats_player p m)\<lparr>gm_logoutTime := ge_now e, gm_flags := 0\<rparr>, [])) w)"

definition HandleDisband :: "guild_env \<Rightarrow> guild_player \<Rightarrow> guild_world \<Rightarrow> guild_world option" where
  "HandleDisband e p w = (if IsLeader (pl_guid p) (gw_this w) then disband_this e w else Some w)"

datatype member_data = GMD_ZoneId | GMD_Level

definition UpdateMemberData :: "guid \<Rightarrow> member_data \<Rightarrow> uint32 \<Rightarrow> guild_world \<Rightarrow> guild_world" where
  "UpdateMemberData x dataid v =
     on_gmember x (\<lambda>m. (case dataid of GMD_ZoneId \<Rightarrow> m\<lparr>gm_zoneId := v\<rparr> | GMD_Level \<Rightarrow> m\<lparr>gm_level := ucast v\<rparr>, []))"

definition OnPlayerStatusChange :: "guid \<Rightarrow> uint32 \<Rightarrow> bool \<Rightarrow> guild_world \<Rightarrow> guild_world" where
  "OnPlayerStatusChange x flag state =
     on_gmember x (\<lambda>m. (m\<lparr>gm_flags := (if state then gm_flags m OR ucast flag else gm_flags m AND NOT (ucast flag))\<rparr>, []))"

definition Guild_SetName :: "guild_env \<Rightarrow> string \<Rightarrow> guild_world \<Rightarrow> bool \<times> guild_world" where
  "Guild_SetName e name w =
     (if g_name (gw_this w) = name \<or> name = [] \<or> length name > 24 \<or> ge_reserved_name e name \<or>
         \<not> ge_valid_charter_name e name
      then (False, w)
      else (True, gsql ''CHAR_UPD_GUILD_NAME'' [Str name, U32 (g_id (gw_this w))]
                    (on_guild (\<lambda>g. g\<lparr>g_name := name\<rparr>) w)))"

definition ResetTimes :: "guild_env \<Rightarrow> guild_world \<Rightarrow> guild_world" where
  "ResetTimes e w =
     BroadcastEvent e 18 0 []
       (on_guild (\<lambda>g. g\<lparr>g_members := map (\<lambda>(k, m). (k, ResetValues m)) (g_members g)\<rparr>) w)"

section \<open>The money of the bank\<close>

definition HandleMemberDepositMoney :: "guild_env \<Rightarrow> guild_player \<Rightarrow> uint32 \<Rightarrow> guild_world \<Rightarrow> guild_world" where
  "HandleMemberDepositMoney e p amount w =
     (let (ok, w1) = ModifyBankMoney (ucast amount) True w;
          (paid, w2) = ModifyMoney (pl_guid p) (- amount) w1;
          w3 = gemit (SaveGold (pl_guid p) (gw_money w2 (pl_guid p))) w2;
          w4 = LogBankEvent e BANK_LOG_DEPOSIT_MONEY 0 (guid_counter (pl_guid p)) amount 0 0 w3
      in BroadcastEvent e 17 0 [hex_money (g_bankMoney (gw_this w4))] w4)"

definition HandleMemberWithdrawMoney :: "guild_env \<Rightarrow> guild_player \<Rightarrow> uint32 \<Rightarrow> bool \<Rightarrow> guild_world \<Rightarrow> bool \<times> guild_world" where
  "HandleMemberWithdrawMoney e p amount0 repair w =
     (let amount = min amount0 MAX_MONEY_AMOUNT;
          g = gw_this w
      in if g_bankMoney g < ucast amount then (False, w)
         else case Guild_GetMember (pl_guid p) g of
                None \<Rightarrow> (False, w)
              | Some m \<Rightarrow>
                  if GetMemberRemainingMoney m g < amount then (False, w)
                  else
                    let (ok, w1) = (if repair then (True, w)
                                    else (case ModifyMoney (pl_guid p) amount w of
                                            (ok, w1) \<Rightarrow>
                                              (ok, if ok then gemit (SaveGold (pl_guid p) (gw_money w1 (pl_guid p))) w1 else w1)))
                    in if \<not> ok then (False, w1)
                       else
                         let w2 = on_gmember (pl_guid p) (UpdateBankWithdrawValue GUILD_BANK_MAX_TABS amount) w1;
                             (ok', w3) = ModifyBankMoney (ucast amount) False w2;
                             w4 = LogBankEvent e (if repair then BANK_LOG_REPAIR_MONEY else BANK_LOG_WITHDRAW_MONEY) 0
                                    (guid_counter (pl_guid p)) amount 0 0 w3
                         in (True, BroadcastEvent e 17 0 [hex_money (g_bankMoney (gw_this w4))] w4))"

section \<open>The store and the packet handlers\<close>

definition GetGuildById :: "uint32 \<Rightarrow> guild_world \<Rightarrow> guild option" where
  "GetGuildById guildId w = omap_find (gw_guilds w) guildId"

definition AddGuild :: "guild_world \<Rightarrow> guild_world" where
  "AddGuild w = w\<lparr>gw_guilds := omap_set (g_id (gw_this w)) (gw_this w) (gw_guilds w)\<rparr>"

definition GetGuildNameById :: "uint32 \<Rightarrow> guild_world \<Rightarrow> string" where
  "GetGuildNameById guildId w = (case GetGuildById guildId w of None \<Rightarrow> '''' | Some g \<Rightarrow> g_name g)"

definition GetGuildByLeader :: "guid \<Rightarrow> guild_world \<Rightarrow> guild option" where
  "GetGuildByLeader x w = map_option snd (find (\<lambda>(k, g). g_leaderGuid g = x) (gw_guilds w))"

type_synonym guild_result = "(bb_error, guild_world) result option"

text \<open>Calling a method on the guild with an id, if there is one.\<close>

definition call_guild :: "uint32 \<Rightarrow> (guild_world \<Rightarrow> guild_world option) \<Rightarrow> guild_world \<Rightarrow> guild_result" where
  "call_guild guildId f w =
     (case GetGuildById guildId w of
        None \<Rightarrow> Some (Inr w)
      | Some g \<Rightarrow>
          (case f (w\<lparr>gw_this := g, gw_live := True\<rparr>) of
             None \<Rightarrow> None
           | Some w' \<Rightarrow>
               Some (Inr (if gw_live w' then w'\<lparr>gw_guilds := omap_set guildId (gw_this w') (gw_guilds w')\<rparr> else w'))))"

definition GetGuild :: "guild_player \<Rightarrow> guild_world \<Rightarrow> guild option" where
  "GetGuild p w = (let guildId = gw_guild_of w (pl_guid p) in if guildId \<noteq> 0 then GetGuildById guildId w else None)"

definition on_own_guild :: "guild_player \<Rightarrow> (guild_world \<Rightarrow> guild_world option) \<Rightarrow> guild_world \<Rightarrow> guild_result" where
  "on_own_guild p f w =
     (if GetGuild p w = None then Some (Inr w) else call_guild (gw_guild_of w (pl_guid p)) f w)"

abbreviation "own p f w \<equiv> on_own_guild p (\<lambda>w. Some (f w)) w"

definition greading :: "(bb_error, 'a) result \<Rightarrow> ('a \<Rightarrow> guild_result) \<Rightarrow> guild_result" where
  "greading r k = (case r of Inl err \<Rightarrow> Some (Inl err) | Inr x \<Rightarrow> k x)"

text \<open>The handlers that read a player's name first.\<close>

definition with_name ::
  "guild_env \<Rightarrow> guild_player \<Rightarrow> byte_buffer \<Rightarrow> (string \<Rightarrow> guild_world \<Rightarrow> guild_world option) \<Rightarrow> guild_world \<Rightarrow> guild_result" where
  "with_name e p b f w =
     greading (read_string b) (\<lambda>(name, b1).
       case ge_normalize_name e name of None \<Rightarrow> Some (Inr w) | Some n \<Rightarrow> on_own_guild p (f n) w)"

definition HandleGuildQueryOpcode :: "guild_player \<Rightarrow> byte_buffer \<Rightarrow> guild_world \<Rightarrow> guild_result" where
  "HandleGuildQueryOpcode p b w =
     greading (read_word b) (\<lambda>(guildId :: uint32, b1).
       if guildId = 0 then Some (Inr w) else call_guild guildId (\<lambda>w. Some (HandleQuery p w)) w)"

definition HandleGuildCreateOpcode :: "byte_buffer \<Rightarrow> guild_world \<Rightarrow> guild_result" where
  "HandleGuildCreateOpcode b w = greading (read_string b) (\<lambda>(name, b1). Some (Inr w))"

definition HandleGuildInviteOpcode :: "guild_env \<Rightarrow> guild_player \<Rightarrow> byte_buffer \<Rightarrow> guild_world \<Rightarrow> guild_result" where
  "HandleGuildInviteOpcode e p b = with_name e p b (\<lambda>n w. Some (HandleInviteMember e p n w))"

definition HandleGuildRemoveOpcode :: "guild_env \<Rightarrow> guild_player \<Rightarrow> byte_buffer \<Rightarrow> guild_world \<Rightarrow> guild_result" where
  "HandleGuildRemoveOpcode e p b = with_name e p b (HandleRemoveMember e p)"

definition HandleGuildAcceptOpcode :: "guild_env \<Rightarrow> guild_player \<Rightarrow> guild_world \<Rightarrow> guild_result" where
  "HandleGuildAcceptOpcode e p w =
     (if gw_guild_of w (pl_guid p) \<noteq> 0 then Some (Inr w)
      else call_guild (gw_invited w (pl_guid p)) (\<lambda>w. Some (HandleAcceptMember e p w)) w)"

definition HandleGuildDeclineOpcode :: "guild_env \<Rightarrow> guild_player \<Rightarrow> guild_world \<Rightarrow> guild_result" where
  "HandleGuildDeclineOpcode e p w = Some (Inr (SetInGuild e (pl_guid p) 0 (SetGuildIdInvited (pl_guid p) 0 w)))"

definition HandleGuildInfoOpcode :: "guild_env \<Rightarrow> guild_player \<Rightarrow> guild_world \<Rightarrow> guild_result" where
  "HandleGuildInfoOpcode e p w = own p (SendInfo e p) w"

definition HandleGuildRosterOpcode :: "guild_env \<Rightarrow> guild_player \<Rightarrow> guild_world \<Rightarrow> guild_result" where
  "HandleGuildRosterOpcode e p w =
     (if GetGuild p w = None then Some (Inr (SendCommandResult p 5 9 '''' w)) else own p (HandleRoster e p) w)"

definition HandleGuildPromoteOpcode :: "guild_env \<Rightarrow> guild_player \<Rightarrow> byte_buffer \<Rightarrow> guild_world \<Rightarrow> guild_result" where
  "HandleGuildPromoteOpcode e p b = with_name e p b (\<lambda>n w. Some (HandleUpdateMemberRank e p n False w))"

definition HandleGuildDemoteOpcode :: "guild_env \<Rightarrow> guild_player \<Rightarrow> byte_buffer \<Rightarrow> guild_world \<Rightarrow> guild_result" where
  "HandleGuildDemoteOpcode e p b = with_name e p b (\<lambda>n w. Some (HandleUpdateMemberRank e p n True w))"

definition HandleGuildLeaveOpcode :: "guild_env \<Rightarrow> guild_player \<Rightarrow> guild_world \<Rightarrow> guild_result" where
  "HandleGuildLeaveOpcode e p = on_own_guild p (HandleLeaveMember e p)"

definition HandleGuildDisbandOpcode :: "guild_env \<Rightarrow> guild_player \<Rightarrow> guild_world \<Rightarrow> guild_result" where
  "HandleGuildDisbandOpcode e p = on_own_guild p (HandleDisband e p)"

definition HandleGuildLeaderOpcode :: "guild_env \<Rightarrow> guild_player \<Rightarrow> byte_buffer \<Rightarrow> guild_world \<Rightarrow> guild_result" where
  "HandleGuildLeaderOpcode e p b = with_name e p b (\<lambda>n w. Some (HandleSetLeader e p n w))"

definition HandleGuildMOTDOpcode :: "guild_env \<Rightarrow> guild_player \<Rightarrow> byte_buffer \<Rightarrow> guild_world \<Rightarrow> guild_result" where
  "HandleGuildMOTDOpcode e p b w = greading (read_string b) (\<lambda>(motd, b1). own p (HandleSetMOTD e p motd) w)"

text \<open>Public and officer notes differ in one argument.\<close>

definition HandleGuildSetNoteOpcode :: "guild_env \<Rightarrow> guild_player \<Rightarrow> bool \<Rightarrow> byte_buffer \<Rightarrow> guild_world \<Rightarrow> guild_result" where
  "HandleGuildSetNoteOpcode e p officer b w =
     greading (read_string b) (\<lambda>(name, b1).
     greading (read_string b1) (\<lambda>(note0, b2).
       case ge_normalize_name e name of
         None \<Rightarrow> Some (Inr w) | Some n \<Rightarrow> own p (HandleSetMemberNote e p n note0 officer) w))"

fun read_rights :: "nat \<Rightarrow> nat \<Rightarrow> byte_buffer \<Rightarrow> (bb_error, rights_slots list \<times> byte_buffer) result" where
  "read_rights i 0 b = Inr ([], b)"
| "read_rights i (Suc n) b =
     bind_result (read_word b) (\<lambda>(rights :: uint32, b1).
     bind_result (read_word b1) (\<lambda>(slots :: uint32, b2).
     bind_result (read_rights (Suc i) n b2) (\<lambda>(rss, b3).
       Inr (\<lparr>rs_tabId = of_nat i, rs_rights = ucast rights, rs_slots = slots\<rparr> # rss, b3))))"

definition HandleGuildRankOpcode :: "guild_env \<Rightarrow> guild_player \<Rightarrow> byte_buffer \<Rightarrow> guild_world \<Rightarrow> guild_result" where
  "HandleGuildRankOpcode e p b w =
     greading (read_word b) (\<lambda>(rankId :: uint32, b1).
     greading (read_word b1) (\<lambda>(rights :: uint32, b2).
     greading (read_string b2) (\<lambda>(rankName, b3).
     greading (read_word b3) (\<lambda>(money :: uint32, b4).
       if GetGuild p w = None then Some (Inr w)
       else greading (read_rights 0 GUILD_BANK_MAX_TABS b4) (\<lambda>(rss, b5).
         own p (HandleSetRankInfo e p (ucast rankId) rankName rights money rss) w)))))"

definition HandleGuildAddRankOpcode :: "guild_env \<Rightarrow> guild_player \<Rightarrow> byte_buffer \<Rightarrow> guild_world \<Rightarrow> guild_result" where
  "HandleGuildAddRankOpcode e p b w = greading (read_string b) (\<lambda>(rankName, b1). own p (HandleAddNewRank e p rankName) w)"

definition HandleGuildDelRankOpcode :: "guild_env \<Rightarrow> guild_player \<Rightarrow> guild_world \<Rightarrow> guild_result" where
  "HandleGuildDelRankOpcode e p w = own p (HandleRemoveLowestRank e p) w"

definition HandleGuildChangeInfoTextOpcode :: "guild_player \<Rightarrow> byte_buffer \<Rightarrow> guild_world \<Rightarrow> guild_result" where
  "HandleGuildChangeInfoTextOpcode p b w = greading (read_string b) (\<lambda>(info, b1). own p (HandleSetInfo p info) w)"

definition HandleSaveGuildEmblemOpcode :: "guild_env \<Rightarrow> guild_player \<Rightarrow> byte_buffer \<Rightarrow> guild_world \<Rightarrow> guild_result" where
  "HandleSaveGuildEmblemOpcode e p b w =
     greading (read_word b) (\<lambda>(vendorGuid :: uint64, b1).
     greading (Emblem_ReadPacket b1) (\<lambda>(em, b2).
       if \<not> ge_near_tabard e (pl_guid p) vendorGuid then Some (Inr (SendSaveEmblemResult p 5 w))
       else
         let w1 = (if ge_feigning e (pl_guid p) then gemit (RemoveFeignDeath (pl_guid p)) w else w)
         in if GetGuild p w1 = None then Some (Inr (SendSaveEmblemResult p 2 w1))
            else own p (HandleSetEmblem p em) w1))"

definition HandleGuildEventLogQueryOpcode :: "guild_env \<Rightarrow> guild_player \<Rightarrow> guild_world \<Rightarrow> guild_result" where
  "HandleGuildEventLogQueryOpcode e p w = own p (SendEventLog e p) w"

definition HandleGuildBankMoneyWithdrawn :: "guild_player \<Rightarrow> guild_world \<Rightarrow> guild_result" where
  "HandleGuildBankMoneyWithdrawn p w = own p (SendMoneyInfo p) w"

definition HandleGuildPermissions :: "guild_player \<Rightarrow> guild_world \<Rightarrow> guild_result" where
  "HandleGuildPermissions p w = own p (SendPermissions p) w"

definition HandleGuildBankerActivate :: "guild_player \<Rightarrow> byte_buffer \<Rightarrow> guild_world \<Rightarrow> guild_result" where
  "HandleGuildBankerActivate p b w =
     greading (read_word b) (\<lambda>(x :: uint64, b1).
     greading (read_bool b1) (\<lambda>(sendAllSlots, b2).
       if GetGuild p w = None then Some (Inr (SendCommandResult p 21 9 '''' w))
       else own p (SendBankTabsInfo p sendAllSlots) w))"

definition HandleGuildBankQueryTab :: "guild_env \<Rightarrow> guild_player \<Rightarrow> byte_buffer \<Rightarrow> guild_world \<Rightarrow> guild_result" where
  "HandleGuildBankQueryTab e p b w =
     greading (read_word b) (\<lambda>(x :: uint64, b1).
     greading (read_word b1) (\<lambda>(tabId :: uint8, b2).
     greading (read_bool b2) (\<lambda>(full, b3).
       if ge_near_bank e (pl_guid p) x then own p (SendBankTabData p tabId) w else Some (Inr w))))"

definition HandleGuildBankDepositMoney :: "guild_env \<Rightarrow> guild_player \<Rightarrow> byte_buffer \<Rightarrow> guild_world \<Rightarrow> guild_result" where
  "HandleGuildBankDepositMoney e p b w =
     greading (read_word b) (\<lambda>(x :: uint64, b1).
     greading (read_word b1) (\<lambda>(money :: uint32, b2).
       if ge_near_bank e (pl_guid p) x \<and> money \<noteq> 0 \<and> HasEnoughMoney (pl_guid p) money w
       then own p (HandleMemberDepositMoney e p money) w else Some (Inr w)))"

definition HandleGuildBankWithdrawMoney :: "guild_env \<Rightarrow> guild_player \<Rightarrow> byte_buffer \<Rightarrow> guild_world \<Rightarrow> guild_result" where
  "HandleGuildBankWithdrawMoney e p b w =
     greading (read_word b) (\<lambda>(x :: uint64, b1).
     greading (read_word b1) (\<lambda>(money :: uint32, b2).
       if money \<noteq> 0 \<and> ge_near_bank e (pl_guid p) x
       then own p (\<lambda>w. snd (HandleMemberWithdrawMoney e p money False w)) w else Some (Inr w)))"

definition HandleGuildBankBuyTab :: "guild_env \<Rightarrow> guild_player \<Rightarrow> byte_buffer \<Rightarrow> guild_world \<Rightarrow> guild_result" where
  "HandleGuildBankBuyTab e p b w =
     greading (read_word b) (\<lambda>(x :: uint64, b1).
     greading (read_word b1) (\<lambda>(tabId :: uint8, b2).
       if ge_near_bank e (pl_guid p) x then own p (HandleBuyBankTab e p tabId) w else Some (Inr w)))"

definition HandleGuildBankUpdateTab :: "guild_env \<Rightarrow> guild_player \<Rightarrow> byte_buffer \<Rightarrow> guild_world \<Rightarrow> guild_result" where
  "HandleGuildBankUpdateTab e p b w =
     greading (read_word b) (\<lambda>(x :: uint64, b1).
     greading (read_word b1) (\<lambda>(tabId :: uint8, b2).
     greading (read_string b2) (\<lambda>(name, b3).
     greading (read_string b3) (\<lambda>(icon, b4).
       if name \<noteq> [] \<and> icon \<noteq> [] \<and> ge_near_bank e (pl_guid p) x
       then own p (HandleSetBankTabInfo e tabId name icon) w else Some (Inr w)))))"

definition HandleGuildBankLogQuery :: "guild_env \<Rightarrow> guild_player \<Rightarrow> byte_buffer \<Rightarrow> guild_world \<Rightarrow> guild_result" where
  "HandleGuildBankLogQuery e p b w =
     greading (read_word b) (\<lambda>(tabId :: uint8, b1). own p (SendBankLog e p tabId) w)"

definition HandleQueryGuildBankTabText :: "guild_env \<Rightarrow> guild_player \<Rightarrow> byte_buffer \<Rightarrow> guild_world \<Rightarrow> guild_result" where
  "HandleQueryGuildBankTabText e p b w =
     greading (read_word b) (\<lambda>(tabId :: uint8, b1). own p (SendBankTabText e p tabId) w)"

definition HandleGuildBankSetTabText :: "guild_env \<Rightarrow> guild_player \<Rightarrow> byte_buffer \<Rightarrow> guild_world \<Rightarrow> guild_result" where
  "HandleGuildBankSetTabText e p b w =
     greading (read_word b) (\<lambda>(tabId :: uint8, b1).
     greading (read_string b1) (\<lambda>(txt0, b2). own p (SetBankTabText e tabId txt0) w))"


section \<open>Any packet\<close>

datatype guild_request =
    GuQuery | GuCreate | GuInvite | GuRemove | GuAccept | GuDecline | GuInfo | GuRoster | GuPromote | GuDemote
  | GuLeave | GuDisband | GuLeader | GuMOTD | GuPublicNote | GuOfficerNote | GuRank | GuAddRank | GuDelRank
  | GuInfoText | GuEmblem | GuEventLog | GuMoneyWithdrawn | GuPermissions | GuBankerActivate | GuBankQueryTab
  | GuDeposit | GuWithdraw | GuBuyTab | GuUpdateTab | GuBankLog | GuQueryTabText | GuSetTabText

fun dispatch_guild ::
  "guild_env \<Rightarrow> guild_player \<Rightarrow> guild_request \<Rightarrow> byte_buffer \<Rightarrow> guild_world \<Rightarrow> guild_result" where
  "dispatch_guild e p GuQuery b = HandleGuildQueryOpcode p b"
| "dispatch_guild e p GuCreate b = HandleGuildCreateOpcode b"
| "dispatch_guild e p GuInvite b = HandleGuildInviteOpcode e p b"
| "dispatch_guild e p GuRemove b = HandleGuildRemoveOpcode e p b"
| "dispatch_guild e p GuAccept b = HandleGuildAcceptOpcode e p"
| "dispatch_guild e p GuDecline b = HandleGuildDeclineOpcode e p"
| "dispatch_guild e p GuInfo b = HandleGuildInfoOpcode e p"
| "dispatch_guild e p GuRoster b = HandleGuildRosterOpcode e p"
| "dispatch_guild e p GuPromote b = HandleGuildPromoteOpcode e p b"
| "dispatch_guild e p GuDemote b = HandleGuildDemoteOpcode e p b"
| "dispatch_guild e p GuLeave b = HandleGuildLeaveOpcode e p"
| "dispatch_guild e p GuDisband b = HandleGuildDisbandOpcode e p"
| "dispatch_guild e p GuLeader b = HandleGuildLeaderOpcode e p b"
| "dispatch_guild e p GuMOTD b = HandleGuildMOTDOpcode e p b"
| "dispatch_guild e p GuPublicNote b = HandleGuildSetNoteOpcode e p False b"
| "dispatch_guild e p GuOfficerNote b = HandleGuildSetNoteOpcode e p True b"
| "dispatch_guild e p GuRank b = HandleGuildRankOpcode e p b"
| "dispatch_guild e p GuAddRank b = HandleGuildAddRankOpcode e p b"
| "dispatch_guild e p GuDelRank b = HandleGuildDelRankOpcode e p"
| "dispatch_guild e p GuInfoText b = HandleGuildChangeInfoTextOpcode p b"
| "dispatch_guild e p GuEmblem b = HandleSaveGuildEmblemOpcode e p b"
| "dispatch_guild e p GuEventLog b = HandleGuildEventLogQueryOpcode e p"
| "dispatch_guild e p GuMoneyWithdrawn b = HandleGuildBankMoneyWithdrawn p"
| "dispatch_guild e p GuPermissions b = HandleGuildPermissions p"
| "dispatch_guild e p GuBankerActivate b = HandleGuildBankerActivate p b"
| "dispatch_guild e p GuBankQueryTab b = HandleGuildBankQueryTab e p b"
| "dispatch_guild e p GuDeposit b = HandleGuildBankDepositMoney e p b"
| "dispatch_guild e p GuWithdraw b = HandleGuildBankWithdrawMoney e p b"
| "dispatch_guild e p GuBuyTab b = HandleGuildBankBuyTab e p b"
| "dispatch_guild e p GuUpdateTab b = HandleGuildBankUpdateTab e p b"
| "dispatch_guild e p GuBankLog b = HandleGuildBankLogQuery e p b"
| "dispatch_guild e p GuQueryTabText b = HandleQueryGuildBankTabText e p b"
| "dispatch_guild e p GuSetTabText b = HandleGuildBankSetTabText e p b"

end
