(* ===== verification/GuildLaws.thy ===== *)
theory GuildLaws
  imports GuildHandlers
begin

text \<open>
  Laws of the guilds: the invariant that client packets keep, who may change ranks, the money
  of the bank, the event log and its table, disbanding, and the defects the model shows.
\<close>

section \<open>Frames\<close>

named_theorems guild_frame \<open>what an operation on the guild world leaves alone\<close>

lemma gemit_frame [guild_frame]:
  "gw_this (gemit x w) = gw_this w" "gw_live (gemit x w) = gw_live w" "gw_guilds (gemit x w) = gw_guilds w"
  "gw_guild_of (gemit x w) = gw_guild_of w" "gw_money (gemit x w) = gw_money w" "gw_invited (gemit x w) = gw_invited w"
  "gw_this (gemits xs w) = gw_this w" "gw_live (gemits xs w) = gw_live w" "gw_guilds (gemits xs w) = gw_guilds w"
  "gw_guild_of (gemits xs w) = gw_guild_of w" "gw_money (gemits xs w) = gw_money w"
  "gw_invited (gemits xs w) = gw_invited w"
  by (simp_all add: gemit_def gemits_def)

lemma gsend_frame [guild_frame]:
  "gw_this (gsend p op fs w) = gw_this w" "gw_live (gsend p op fs w) = gw_live w"
  "gw_guilds (gsend p op fs w) = gw_guilds w" "gw_guild_of (gsend p op fs w) = gw_guild_of w"
  "gw_money (gsend p op fs w) = gw_money w" "gw_invited (gsend p op fs w) = gw_invited w"
  by (simp_all add: gsend_def guild_frame)

lemma on_guild_frame [guild_frame]:
  "gw_this (on_guild f w) = f (gw_this w)" "gw_live (on_guild f w) = gw_live w"
  "gw_guilds (on_guild f w) = gw_guilds w" "gw_guild_of (on_guild f w) = gw_guild_of w"
  "gw_money (on_guild f w) = gw_money w" "gw_invited (on_guild f w) = gw_invited w"
  by (simp_all add: on_guild_def)

lemma set_player_frame [guild_frame]:
  "gw_this (SetInGuild e x i w) = gw_this w" "gw_live (SetInGuild e x i w) = gw_live w"
  "gw_guilds (SetInGuild e x i w) = gw_guilds w" "gw_money (SetInGuild e x i w) = gw_money w"
  "gw_this (UpdateCharacterGuildId e x i w) = gw_this w" "gw_live (UpdateCharacterGuildId e x i w) = gw_live w"
  "gw_guilds (UpdateCharacterGuildId e x i w) = gw_guilds w"
  "gw_guild_of (UpdateCharacterGuildId e x i w) = gw_guild_of w" "gw_money (UpdateCharacterGuildId e x i w) = gw_money w"
  "gw_this (SetRank x r w) = gw_this w" "gw_live (SetRank x r w) = gw_live w" "gw_guilds (SetRank x r w) = gw_guilds w"
  "gw_guild_of (SetRank x r w) = gw_guild_of w" "gw_money (SetRank x r w) = gw_money w"
  "gw_this (SetGuildIdInvited x i w) = gw_this w" "gw_live (SetGuildIdInvited x i w) = gw_live w"
  "gw_guilds (SetGuildIdInvited x i w) = gw_guilds w" "gw_guild_of (SetGuildIdInvited x i w) = gw_guild_of w"
  "gw_money (SetGuildIdInvited x i w) = gw_money w"
  by (simp_all add: SetInGuild_def UpdateCharacterGuildId_def SetRank_def SetGuildIdInvited_def Let_def)

lemma broadcast_packet_frame [guild_frame]:
  "gw_this (Guild_BroadcastPacket e op fs w) = gw_this w" "gw_live (Guild_BroadcastPacket e op fs w) = gw_live w"
  "gw_guilds (Guild_BroadcastPacket e op fs w) = gw_guilds w"
  "gw_guild_of (Guild_BroadcastPacket e op fs w) = gw_guild_of w"
  "gw_money (Guild_BroadcastPacket e op fs w) = gw_money w"
  unfolding Guild_BroadcastPacket_def
  by (rule fold_preserves; simp add: guild_frame split: option.split)+

lemma broadcast_event_frame [guild_frame]:
  "gw_this (BroadcastEvent e ev x ps w) = gw_this w" "gw_live (BroadcastEvent e ev x ps w) = gw_live w"
  "gw_guilds (BroadcastEvent e ev x ps w) = gw_guilds w" "gw_guild_of (BroadcastEvent e ev x ps w) = gw_guild_of w"
  "gw_money (BroadcastEvent e ev x ps w) = gw_money w"
  by (simp_all add: BroadcastEvent_def guild_frame)

lemma show_frame [guild_frame]:
  "gw_this (SendCommandResult p t c s w) = gw_this w" "gw_live (SendCommandResult p t c s w) = gw_live w"
  "gw_guilds (SendCommandResult p t c s w) = gw_guilds w"
  "gw_this (SendSaveEmblemResult p c w) = gw_this w" "gw_live (SendSaveEmblemResult p c w) = gw_live w"
  "gw_guilds (SendSaveEmblemResult p c w) = gw_guilds w"
  "gw_this (HandleRoster e p w) = gw_this w" "gw_live (HandleRoster e p w) = gw_live w"
  "gw_guilds (HandleRoster e p w) = gw_guilds w" "gw_guild_of (HandleRoster e p w) = gw_guild_of w"
  "gw_money (HandleRoster e p w) = gw_money w"
  "gw_this (HandleQuery p w) = gw_this w" "gw_live (HandleQuery p w) = gw_live w"
  "gw_guilds (HandleQuery p w) = gw_guilds w"
  "gw_this (SendBankList p i a ss w) = gw_this w" "gw_live (SendBankList p i a ss w) = gw_live w"
  "gw_guilds (SendBankList p i a ss w) = gw_guilds w" "gw_guild_of (SendBankList p i a ss w) = gw_guild_of w"
  "gw_money (SendBankList p i a ss w) = gw_money w"
  by (simp_all add: SendCommandResult_def SendSaveEmblemResult_def HandleRoster_def HandleQuery_def SendBankList_def
      Let_def guild_frame)

lemma show_frame2 [guild_frame]:
  "gw_this (SendInfo e p w) = gw_this w" "gw_guilds (SendInfo e p w) = gw_guilds w"
  "gw_this (SendEventLog e p w) = gw_this w" "gw_guilds (SendEventLog e p w) = gw_guilds w"
  "gw_this (SendBankLog e p t w) = gw_this w" "gw_guilds (SendBankLog e p t w) = gw_guilds w"
  "gw_this (SendBankTabsInfo p a w) = gw_this w" "gw_guilds (SendBankTabsInfo p a w) = gw_guilds w"
  "gw_live (SendBankTabsInfo p a w) = gw_live w" "gw_guild_of (SendBankTabsInfo p a w) = gw_guild_of w"
  "gw_money (SendBankTabsInfo p a w) = gw_money w"
  "gw_this (SendBankTabData p t w) = gw_this w" "gw_guilds (SendBankTabData p t w) = gw_guilds w"
  "gw_this (SendPermissions p w) = gw_this w" "gw_guilds (SendPermissions p w) = gw_guilds w"
  "gw_this (SendMoneyInfo p w) = gw_this w" "gw_guilds (SendMoneyInfo p w) = gw_guilds w"
  "gw_this (SendText e s bt w) = gw_this w" "gw_guilds (SendText e s bt w) = gw_guilds w"
  "gw_this (SendBankTabText e p i w) = gw_this w" "gw_guilds (SendBankTabText e p i w) = gw_guilds w"
  by (auto simp: SendInfo_def SendEventLog_def SendBankLog_def SendBankTabsInfo_def SendBankTabData_def
      SendBankContent_def SendPermissions_def SendMoneyInfo_def SendText_def SendBankTabText_def Let_def case_prod_beta
      guild_frame split: option.split)

lemma ModifyMoney_frame [guild_frame]:
  "gw_this (snd (ModifyMoney x a w)) = gw_this w" "gw_guilds (snd (ModifyMoney x a w)) = gw_guilds w"
  "gw_live (snd (ModifyMoney x a w)) = gw_live w"
  by (simp_all add: ModifyMoney_def Let_def guild_frame)


section \<open>The invariant of a guild\<close>

definition player_guid :: "guid \<Rightarrow> bool" where
  "player_guid x \<longleftrightarrow> guid_of_counter HG_Player (guid_counter x) = x"

lemma counter_of_player [simp]: "guid_counter (guid_of_counter HG_Player c) = c"
  using guid_counter_roundtrip(2) [of c HG_Player]
  by (cases "c = 0") (simp_all add: guid_of_counter_def guid_counter_def guid_has_entry_def high_has_entry_def guid_high_def)

lemma player_guid_of_counter [simp]: "player_guid (guid_of_counter HG_Player c)"
  by (simp add: player_guid_def)

lemma player_guid_counter_eq: "player_guid x \<Longrightarrow> player_guid y \<Longrightarrow> guid_counter x = guid_counter y \<longleftrightarrow> x = y"
  by (metis player_guid_def)

text \<open>A set of guids is exempt from the rule that only the leader has rank 0.\<close>

definition member_ok :: "guid set \<Rightarrow> guild \<Rightarrow> uint32 \<Rightarrow> guild_member \<Rightarrow> bool" where
  "member_ok Y g low m \<longleftrightarrow>
     player_guid (gm_guid m) \<and> guid_counter (gm_guid m) = low \<and> gm_rankId m < 10 \<and>
     (gm_rankId m = GR_GUILDMASTER \<longrightarrow> gm_guid m \<in> insert (g_leaderGuid g) Y)"

definition ranks_ok :: "rank_info list \<Rightarrow> bool" where
  "ranks_ok rs \<longleftrightarrow> 5 \<le> length rs \<and> length rs \<le> 10 \<and> map ri_rankId rs = map of_nat [0..<length rs]"

definition guild_ok_but :: "guid set \<Rightarrow> guild \<Rightarrow> bool" where
  "guild_ok_but Y g \<longleftrightarrow>
     omap_ok (g_members g) \<and> (\<forall>low m. omap_find (g_members g) low = Some m \<longrightarrow> member_ok Y g low m) \<and>
     player_guid (g_leaderGuid g) \<and> Guild_GetMember (g_leaderGuid g) g \<noteq> None \<and> ranks_ok (g_ranks g)"

abbreviation "guild_ok \<equiv> guild_ok_but {}"

definition guilds_ok :: "(uint32, guild) omap \<Rightarrow> bool" where
  "guilds_ok gs \<longleftrightarrow> omap_ok gs \<and> (\<forall>k g. omap_find gs k = Some g \<longrightarrow> g_id g = k \<and> guild_ok g)"

text \<open>While a method runs, and when it has returned (the guild may be gone).\<close>

definition running_but :: "guid set \<Rightarrow> uint32 \<Rightarrow> guild_world \<Rightarrow> bool" where
  "running_but Y k w \<longleftrightarrow> g_id (gw_this w) = k \<and> guild_ok_but Y (gw_this w) \<and> guilds_ok (gw_guilds w)"

abbreviation "running_ok \<equiv> running_but {}"

definition done_ok :: "uint32 \<Rightarrow> guild_world \<Rightarrow> bool" where
  "done_ok k w \<longleftrightarrow> (gw_live w \<longrightarrow> running_ok k w) \<and> guilds_ok (gw_guilds w)"

lemma running_done: "running_ok k w \<Longrightarrow> done_ok k w"
  by (simp add: done_ok_def running_but_def)

lemma running_frame:
  "gw_this w' = gw_this w \<Longrightarrow> gw_guilds w' = gw_guilds w \<Longrightarrow> running_but Y k w' = running_but Y k w"
  by (simp add: running_but_def)

lemma running_simps [simp]:
  "running_but Y k (gemit eff w) = running_but Y k w" "running_but Y k (gemits effs w) = running_but Y k w"
  "running_but Y k (gsend p op fs w) = running_but Y k w" "running_but Y k (BroadcastEvent e ev x ps w) = running_but Y k w"
  "running_but Y k (Guild_BroadcastPacket e op fs w) = running_but Y k w"
  "running_but Y k (SetInGuild e x i w) = running_but Y k w" "running_but Y k (UpdateCharacterGuildId e x i w) = running_but Y k w"
  "running_but Y k (SetRank x r w) = running_but Y k w" "running_but Y k (SetGuildIdInvited x i w) = running_but Y k w"
  "running_but Y k (SendCommandResult p c d s w) = running_but Y k w" "running_but Y k (SendSaveEmblemResult p c w) = running_but Y k w"
  "running_but Y k (HandleRoster e p w) = running_but Y k w" "running_but Y k (HandleQuery p w) = running_but Y k w"
  "running_but Y k (SendInfo e p w) = running_but Y k w" "running_but Y k (SendEventLog e p w) = running_but Y k w"
  by (rule running_frame; simp add: guild_frame)+

lemma running_simps2 [simp]:
  "running_but Y k (SendBankLog e p b w) = running_but Y k w" "running_but Y k (SendBankList p b a ss w) = running_but Y k w"
  "running_but Y k (SendBankTabsInfo p a w) = running_but Y k w" "running_but Y k (SendBankTabData p b w) = running_but Y k w"
  "running_but Y k (SendPermissions p w) = running_but Y k w" "running_but Y k (SendMoneyInfo p w) = running_but Y k w"
  "running_but Y k (SendText e s bt w) = running_but Y k w" "running_but Y k (SendBankTabText e p b w) = running_but Y k w"
  "running_but Y k (snd (ModifyMoney x money w)) = running_but Y k w"
  by (rule running_frame; simp add: guild_frame)+

lemma running_on_guild:
  assumes "running_but Y k w" "guild_ok_but Y (gw_this w) \<Longrightarrow> guild_ok_but Y (f (gw_this w))" "g_id (f (gw_this w)) = g_id (gw_this w)"
  shows "running_but Y k (on_guild f w)"
  using assms by (simp add: running_but_def guild_frame)

text \<open>Fields the invariant does not speak about.\<close>

lemma guild_ok_fields:
  assumes "g_members g' = g_members g" "g_leaderGuid g' = g_leaderGuid g" "g_ranks g' = g_ranks g"
  shows "guild_ok_but Y g' = guild_ok_but Y g"
  using assms by (simp add: guild_ok_but_def member_ok_def Guild_GetMember_def)

lemma running_other_field:
  assumes "running_but Y k w" "\<And>g. g_members (f g) = g_members g" "\<And>g. g_leaderGuid (f g) = g_leaderGuid g"
    "\<And>g. g_ranks (f g) = g_ranks g" "\<And>g. g_id (f g) = g_id g"
  shows "running_but Y k (on_guild f w)"
  using assms guild_ok_fields [of "f (gw_this w)" "gw_this w"] by (intro running_on_guild) auto

lemma running_ranks:
  assumes "running_but Y k w" "ranks_ok rs"
  shows "running_but Y k (on_guild (\<lambda>g. g\<lparr>g_ranks := rs\<rparr>) w)"
  using assms by (intro running_on_guild) (simp_all add: guild_ok_but_def member_ok_def Guild_GetMember_def)

section \<open>Ranks\<close>

lemma ranks_ok_update:
  assumes "ranks_ok rs" "i < length rs" "ri_rankId r = ri_rankId (rs ! i)"
  shows "ranks_ok (rs[i := r])"
proof -
  have "map ri_rankId (rs[i := r]) = (map ri_rankId rs)[i := map ri_rankId rs ! i]"
    using assms(2,3) by (simp add: map_update)
  then show ?thesis using assms(1) by (simp add: ranks_ok_def)
qed

lemma GetRankInfo_index: "GetRankInfo rankId g = Some r \<Longrightarrow> unat rankId < length (g_ranks g) \<and> r = g_ranks g ! unat rankId"
  by (auto simp: GetRankInfo_def GetRanksSize_def word_less_nat_alt unat_of_nat split: if_splits
      intro: less_le_trans [OF _ mod_less_eq_dividend])

lemma running_on_rank:
  assumes "running_but Y k w" "\<And>r. ri_rankId (fst (f r)) = ri_rankId r"
  shows "running_but Y k (on_rank rankId f w)"
proof (cases "GetRankInfo rankId (gw_this w)")
  case (Some r)
  obtain r' effs where f: "f r = (r', effs)" by fastforce
  have i: "unat rankId < length (g_ranks (gw_this w))" "r = g_ranks (gw_this w) ! unat rankId"
    using GetRankInfo_index [OF Some] by auto
  have "running_but Y k (on_guild (\<lambda>g. g\<lparr>g_ranks := (g_ranks g)[unat rankId := r']\<rparr>) w)"
  proof (rule running_on_guild [OF assms(1)])
    assume g: "guild_ok_but Y (gw_this w)"
    have "ranks_ok ((g_ranks (gw_this w))[unat rankId := r'])"
      by (rule ranks_ok_update) (use g i f assms(2) [of r] in \<open>simp_all add: guild_ok_but_def\<close>)
    with g show "guild_ok_but Y ((gw_this w)\<lparr>g_ranks := (g_ranks (gw_this w))[unat rankId := r']\<rparr>)"
      by (simp add: guild_ok_but_def member_ok_def Guild_GetMember_def)
  qed simp
  then show ?thesis by (simp add: on_rank_def Some f)
qed (use assms in \<open>simp add: on_rank_def\<close>)

lemma rank_id_kept [simp]:
  "ri_rankId (fst (RankInfo_SetName name r)) = ri_rankId r" "ri_rankId (fst (SetRights rights r)) = ri_rankId r"
  "ri_rankId (fst (SetBankMoneyPerDay money r)) = ri_rankId r"
  "ri_rankId (fst (SetBankTabSlotsAndRights rs b r)) = ri_rankId r"
  "ri_rankId (fst (CreateMissingTabsIfNeeded tabs r)) = ri_rankId r"
  by (simp_all add: RankInfo_SetName_def SetRights_def SetBankMoneyPerDay_def SetBankTabSlotsAndRights_def
      CreateMissingTabsIfNeeded_def Let_def case_prod_beta)

lemma ranks_ok_append:
  assumes "ranks_ok rs" "length rs < 10" "ri_rankId r = of_nat (length rs)"
  shows "ranks_ok (rs @ [r])"
  using assms by (simp add: ranks_ok_def)

lemma ranks_ok_butlast: "ranks_ok rs \<Longrightarrow> 5 < length rs \<Longrightarrow> ranks_ok (butlast rs)"
  by (cases rs rule: rev_cases) (simp_all add: ranks_ok_def)

lemma ranks_size: "ranks_ok (g_ranks g) \<Longrightarrow> unat (GetRanksSize g) = length (g_ranks g)"
  by (simp add: ranks_ok_def GetRanksSize_def unat_of_nat)

lemma running_create_rank:
  assumes "running_but Y k w"
  shows "running_but Y k (snd (CreateRank name rights w))"
proof (cases "GetRanksSize (gw_this w) \<ge> GUILD_RANKS_MAX_COUNT")
  case False
  have r: "ranks_ok (g_ranks (gw_this w))" using assms by (simp add: running_but_def guild_ok_but_def)
  have "length (g_ranks (gw_this w)) < 10"
    using False ranks_size [OF r] by (simp add: word_le_nat_alt)
  then have "ranks_ok (g_ranks (gw_this w) @ [RankInfo_new (g_id (gw_this w)) (GetRanksSize (gw_this w)) name rights 0])"
    by (intro ranks_ok_append [OF r]) (simp_all add: RankInfo_new_def GetRanksSize_def)
  then have "running_but Y k (on_guild (\<lambda>g. g\<lparr>g_ranks := g_ranks g @
      [RankInfo_new (g_id (gw_this w)) (GetRanksSize (gw_this w)) name rights 0]\<rparr>) w)"
    by (intro running_on_guild [OF assms]) (simp_all add: guild_ok_but_def member_ok_def Guild_GetMember_def)
  then show ?thesis using False by (simp add: CreateRank_def Let_def case_prod_beta)
qed (use assms in \<open>simp add: CreateRank_def Let_def\<close>)


section \<open>Members\<close>

lemma GetMember_ok:
  assumes "guild_ok_but Y g" "Guild_GetMember x g = Some m"
  shows "player_guid (gm_guid m)" "guid_counter (gm_guid m) = guid_counter x" "gm_rankId m < 10"
    and "gm_rankId m = GR_GUILDMASTER \<Longrightarrow> gm_guid m \<in> insert (g_leaderGuid g) Y"
    and "player_guid x \<Longrightarrow> gm_guid m = x"
proof -
  have m: "member_ok Y g (guid_counter x) m"
    using assms by (simp add: guild_ok_but_def Guild_GetMember_def)
  then show "player_guid (gm_guid m)" "guid_counter (gm_guid m) = guid_counter x" "gm_rankId m < 10"
    and "gm_rankId m = GR_GUILDMASTER \<Longrightarrow> gm_guid m \<in> insert (g_leaderGuid g) Y"
    by (simp_all add: member_ok_def)
  show "player_guid x \<Longrightarrow> gm_guid m = x" using m player_guid_counter_eq by (auto simp: member_ok_def)
qed

lemma member_by_name_ok:
  assumes "guild_ok_but Y g" "Guild_GetMember_by_name name g = Some m"
  shows "Guild_GetMember (gm_guid m) g = Some m"
proof -
  have "m \<in> snd ` set (g_members g)"
    using assms(2) by (auto simp: Guild_GetMember_by_name_def find_Some_iff)
  then obtain low where "(low, m) \<in> set (g_members g)" by auto
  then have "omap_find (g_members g) low = Some m"
    using assms(1) by (simp add: omap_in_set_find guild_ok_but_def)
  then show ?thesis using assms(1) by (auto simp: guild_ok_but_def member_ok_def Guild_GetMember_def)
qed

text \<open>Writing a member back, possibly under a new leader.\<close>

lemma guild_ok_put:
  assumes "guild_ok_but Y g" "member_ok Z g' low m" "Y - {gm_guid m} \<subseteq> insert (g_leaderGuid g') Z"
    and "g_members g' = omap_set low m (g_members g)" "g_ranks g' = g_ranks g"
    and "g_leaderGuid g' = g_leaderGuid g"
  shows "guild_ok_but Z g'"
proof -
  have g: "omap_ok (g_members g)" "\<And>l n. omap_find (g_members g) l = Some n \<Longrightarrow> member_ok Y g l n"
    using assms(1) by (simp_all add: guild_ok_but_def)
  have find: "omap_find (g_members g') = (omap_find (g_members g))(low \<mapsto> m)"
    using g(1) assms(4) by (simp add: om.find_put)
  have "member_ok Z g' l n" if "omap_find (g_members g') l = Some n" for l n
  proof (cases "l = low")
    case False
    then have n: "member_ok Y g l n" using that find g(2) by simp
    then have "gm_guid n \<noteq> gm_guid m" using False assms(2) by (auto simp: member_ok_def)
    then show ?thesis using n assms(3,6) by (auto simp: member_ok_def)
  qed (use that find assms(2) in simp)
  moreover have "omap_ok (g_members g')" using g(1) assms(4) by (simp add: om.invar_put)
  moreover have "Guild_GetMember (g_leaderGuid g') g' \<noteq> None"
    using assms(1,6) by (auto simp: Guild_GetMember_def find guild_ok_but_def)
  ultimately show ?thesis using assms(1,5,6) by (simp add: guild_ok_but_def)
qed

lemma running_gmember:
  assumes "running_but Y k w" "Y - {x} \<subseteq> Z" "player_guid x"
    and "\<And>m. Guild_GetMember x (gw_this w) = Some m \<Longrightarrow> gm_guid (fst (f m)) = gm_guid m \<and> gm_rankId (fst (f m)) < 10 \<and>
           (gm_rankId (fst (f m)) = GR_GUILDMASTER \<longrightarrow> gm_guid m \<in> insert (g_leaderGuid (gw_this w)) Z)"
    and "Guild_GetMember x (gw_this w) = None \<Longrightarrow> Y \<subseteq> Z"
  shows "running_but Z k (on_gmember x f w)"
proof (cases "Guild_GetMember x (gw_this w)")
  case None
  then have "Y \<subseteq> Z" using assms(5) by simp
  then show ?thesis
    using assms(1) None
    by (fastforce simp: on_gmember_def running_but_def guild_ok_but_def member_ok_def)
next
  case (Some m)
  obtain m' effs where f: "f m = (m', effs)" by fastforce
  have g: "guild_ok_but Y (gw_this w)" using assms(1) by (simp add: running_but_def)
  have m: "gm_guid m = x" using GetMember_ok(5) [OF g Some assms(3)] .
  have "guild_ok_but Z ((gw_this w)\<lparr>g_members := omap_set (guid_counter x) m' (g_members (gw_this w))\<rparr>)"
    by (rule guild_ok_put [OF g]) (use assms(2-4) Some f m in \<open>auto simp: member_ok_def\<close>)
  then show ?thesis
    using assms(1) by (simp add: on_gmember_def Some f running_but_def guild_frame)
qed

lemma running_same_rank:
  assumes "running_ok k w" "player_guid x" "\<And>m. gm_guid (fst (f m)) = gm_guid m \<and> gm_rankId (fst (f m)) = gm_rankId m"
  shows "running_ok k (on_gmember x f w)"
proof (rule running_gmember [OF assms(1)])
  fix m
  assume "Guild_GetMember x (gw_this w) = Some m"
  then show "gm_guid (fst (f m)) = gm_guid m \<and> gm_rankId (fst (f m)) < 10 \<and>
      (gm_rankId (fst (f m)) = GR_GUILDMASTER \<longrightarrow> gm_guid m \<in> insert (g_leaderGuid (gw_this w)) {})"
    using assms(1,3) GetMember_ok(3,4) [of "{}" "gw_this w" x m] by (auto simp: running_but_def)
qed (use assms in auto)

lemma on_gmember_frame [guild_frame]:
  "g_leaderGuid (gw_this (on_gmember x f w)) = g_leaderGuid (gw_this w)"
  "g_ranks (gw_this (on_gmember x f w)) = g_ranks (gw_this w)" "g_id (gw_this (on_gmember x f w)) = g_id (gw_this w)"
  "gw_live (on_gmember x f w) = gw_live w" "gw_guilds (on_gmember x f w) = gw_guilds w"
  "gw_guild_of (on_gmember x f w) = gw_guild_of w" "gw_money (on_gmember x f w) = gw_money w"
  "g_bankMoney (gw_this (on_gmember x f w)) = g_bankMoney (gw_this w)"
  by (simp_all add: on_gmember_def guild_frame split: option.split prod.split)

lemma ChangeRank_frame [guild_frame]:
  "g_leaderGuid (gw_this (ChangeRank e x r w)) = g_leaderGuid (gw_this w)"
  "g_ranks (gw_this (ChangeRank e x r w)) = g_ranks (gw_this w)" "g_id (gw_this (ChangeRank e x r w)) = g_id (gw_this w)"
  "gw_live (ChangeRank e x r w) = gw_live w" "gw_guilds (ChangeRank e x r w) = gw_guilds w"
  "gw_guild_of (ChangeRank e x r w) = gw_guild_of w"
  by (simp_all add: ChangeRank_def Let_def guild_frame)

lemma running_change_rank:
  assumes "running_but Y k w" "player_guid x" "Y \<subseteq> {x}" "r < 10" "r = GR_GUILDMASTER \<longrightarrow> x = g_leaderGuid (gw_this w)"
    and "Guild_GetMember x (gw_this w) \<noteq> None"
  shows "running_ok k (ChangeRank e x r w)"
proof -
  have "running_ok k (on_gmember x (\<lambda>m. (m\<lparr>gm_rankId := r\<rparr>, [])) w)"
  proof (rule running_gmember [OF assms(1) _ assms(2)])
    fix m
    assume m: "Guild_GetMember x (gw_this w) = Some m"
    have "gm_guid m = x" using GetMember_ok(5) [OF _ m assms(2)] assms(1) by (auto simp: running_but_def)
    then show "gm_guid (fst (m\<lparr>gm_rankId := r\<rparr>, [])) = gm_guid m \<and> gm_rankId (fst (m\<lparr>gm_rankId := r\<rparr>, [])) < 10 \<and>
      (gm_rankId (fst (m\<lparr>gm_rankId := r\<rparr>, [])) = GR_GUILDMASTER \<longrightarrow> gm_guid m \<in> insert (g_leaderGuid (gw_this w)) {})"
      using assms(4,5) by simp
  qed (use assms in auto)
  then show ?thesis by (simp add: ChangeRank_def Let_def)
qed

lemma GetMember_put:
  assumes "omap_ok (g_members g)" "player_guid x" "player_guid y"
  shows "Guild_GetMember y (g\<lparr>g_members := omap_set (guid_counter x) m (g_members g)\<rparr>) =
           (if y = x then Some m else Guild_GetMember y g)"
  using assms by (simp add: Guild_GetMember_def om.find_put player_guid_counter_eq)

lemma GetMember_ChangeRank:
  assumes "guild_ok_but Y (gw_this w)" "player_guid x" "player_guid y"
  shows "Guild_GetMember y (gw_this (ChangeRank e x r w)) =
           (if y = x then map_option (\<lambda>m. m\<lparr>gm_rankId := r\<rparr>) (Guild_GetMember x (gw_this w))
            else Guild_GetMember y (gw_this w))"
  using assms GetMember_put [of "gw_this w" x y]
  by (auto simp: ChangeRank_def on_gmember_def Let_def guild_frame guild_ok_but_def split: option.split)

text \<open>The new leader has rank 0; the old one may still have it.\<close>

lemma running_set_leader:
  assumes "running_ok k w" "player_guid x" "Guild_GetMember x (gw_this w) \<noteq> None"
  shows "running_but {g_leaderGuid (gw_this w)} k (SetLeaderGUID e x w)"
proof -
  let ?Y = "{g_leaderGuid (gw_this w)}"
  let ?w = "on_guild (\<lambda>g. g\<lparr>g_leaderGuid := x\<rparr>) w"
  have "running_but ?Y k ?w"
    using assms by (auto simp: running_but_def guild_ok_but_def member_ok_def Guild_GetMember_def guild_frame)
  then have "running_but ?Y k (on_gmember x (\<lambda>m. (m\<lparr>gm_rankId := GR_GUILDMASTER\<rparr>, [])) ?w)"
  proof (rule running_gmember [OF _ _ assms(2)])
    fix m
    assume m: "Guild_GetMember x (gw_this ?w) = Some m"
    have "gm_guid m = x"
      using GetMember_ok(5) [of ?Y "gw_this ?w" x m] m assms(2) \<open>running_but ?Y k ?w\<close> by (auto simp: running_but_def)
    then show "gm_guid (fst (m\<lparr>gm_rankId := GR_GUILDMASTER\<rparr>, [])) = gm_guid m \<and>
        gm_rankId (fst (m\<lparr>gm_rankId := GR_GUILDMASTER\<rparr>, [])) < 10 \<and>
        (gm_rankId (fst (m\<lparr>gm_rankId := GR_GUILDMASTER\<rparr>, [])) = GR_GUILDMASTER \<longrightarrow>
          gm_guid m \<in> insert (g_leaderGuid (gw_this ?w)) ?Y)"
      by (simp add: guild_frame)
  qed auto
  then show ?thesis by (simp add: SetLeaderGUID_def ChangeRank_def Let_def)
qed


section \<open>Leaving, joining, disbanding\<close>

lemma running_other_fields:
  assumes "running_but Y k w"
  shows "running_but Y k (UpdateAccountsNumber w)" "running_but Y k (LogEvent e ev p1 p2 r w)"
    "running_but Y k (LogBankEvent e ev b lg it ct dt w)" "running_but Y k (snd (ModifyBankMoney amount add w))"
  using assms
  by (auto simp: UpdateAccountsNumber_def LogEvent_def LogBankEvent_def ModifyBankMoney_def Let_def case_prod_beta
      intro!: running_other_field)

lemma log_frame [guild_frame]:
  "gw_live (UpdateAccountsNumber w) = gw_live w" "gw_live (LogEvent e ev p1 p2 r w) = gw_live w"
  "gw_guilds (UpdateAccountsNumber w) = gw_guilds w" "gw_guilds (LogEvent e ev p1 p2 r w) = gw_guilds w"
  "gw_guild_of (UpdateAccountsNumber w) = gw_guild_of w" "gw_guild_of (LogEvent e ev p1 p2 r w) = gw_guild_of w"
  "gw_money (LogEvent e ev p1 p2 r w) = gw_money w"
  "g_members (gw_this (UpdateAccountsNumber w)) = g_members (gw_this w)"
  "g_members (gw_this (LogEvent e ev p1 p2 r w)) = g_members (gw_this w)"
  "g_leaderGuid (gw_this (UpdateAccountsNumber w)) = g_leaderGuid (gw_this w)"
  "g_id (gw_this (UpdateAccountsNumber w)) = g_id (gw_this w)" "g_id (gw_this (LogEvent e ev p1 p2 r w)) = g_id (gw_this w)"
  by (simp_all add: UpdateAccountsNumber_def LogEvent_def Let_def case_prod_beta guild_frame)

lemma erase_member_frame [guild_frame]:
  "g_members (gw_this (erase_member e x b w)) = omap_erase (guid_counter x) (g_members (gw_this w))"
  "gw_live (erase_member e x b w) = gw_live w" "gw_guilds (erase_member e x b w) = gw_guilds w"
  "g_id (gw_this (erase_member e x b w)) = g_id (gw_this w)"
  by (simp_all add: erase_member_def Let_def guild_frame DeleteMemberFromDB_def split: option.split)

text \<open>Erasing a member who is not the leader; the member may have been exempt.\<close>

lemma running_erase:
  assumes "running_but Y k w" "player_guid x" "x \<noteq> g_leaderGuid (gw_this w)" "Y \<subseteq> {x}"
  shows "running_ok k (erase_member e x b w)"
proof -
  let ?g = "gw_this w"
  let ?g' = "?g\<lparr>g_members := omap_erase (guid_counter x) (g_members ?g)\<rparr>"
  have g: "guild_ok_but Y ?g" "g_id ?g = k" "guilds_ok (gw_guilds w)" using assms(1) by (auto simp: running_but_def)
  have "omap_ok (g_members ?g)" using g(1) by (simp add: guild_ok_but_def)
  then have find: "omap_find (g_members ?g') = (omap_find (g_members ?g))(guid_counter x := None)"
    and ok: "omap_ok (g_members ?g')"
    by (simp_all add: om.find_erase om.invar_erase)
  have lead: "guid_counter (g_leaderGuid ?g) \<noteq> guid_counter x"
    using g(1) assms(2,3) by (auto simp: guild_ok_but_def player_guid_counter_eq)
  have "member_ok {} ?g' l m" if "omap_find (g_members ?g') l = Some m" for l m
  proof -
    have "l \<noteq> guid_counter x" "omap_find (g_members ?g) l = Some m" using that find by (auto split: if_splits)
    then have "member_ok Y ?g l m" "gm_guid m \<noteq> x"
      using g(1) by (auto simp: guild_ok_but_def member_ok_def)
    then show ?thesis using assms(4) by (auto simp: member_ok_def)
  qed
  moreover have "Guild_GetMember (g_leaderGuid ?g') ?g' \<noteq> None"
    using g(1) lead find by (auto simp: guild_ok_but_def Guild_GetMember_def)
  ultimately have "guild_ok ?g'" using g(1) ok by (simp add: guild_ok_but_def)
  then have "running_ok k (on_guild (\<lambda>g. g\<lparr>g_members := omap_erase (guid_counter x) (g_members g)\<rparr>) w)"
    using g(2,3) by (simp add: running_but_def guild_frame)
  then show ?thesis
    by (auto simp: erase_member_def Let_def DeleteMemberFromDB_def running_other_fields split: option.split)
qed

lemma guilds_ok_erase: "guilds_ok gs \<Longrightarrow> guilds_ok (omap_erase k gs)"
  by (auto simp: guilds_ok_def om.find_erase om.invar_erase split: if_splits)

lemma guilds_ok_put: "guilds_ok gs \<Longrightarrow> guild_ok g \<Longrightarrow> g_id g = k \<Longrightarrow> guilds_ok (omap_set k g gs)"
  by (auto simp: guilds_ok_def om.find_put om.invar_put split: if_splits)

declare disband_members.simps [simp del]

lemma disband_members_frame:
  "disband_members e n w = Some w' \<Longrightarrow> gw_guilds w' = gw_guilds w \<and> g_id (gw_this w') = g_id (gw_this w) \<and>
     g_members (gw_this w') = []"
proof (induction n arbitrary: w)
  case 0
  then show ?case by (simp add: disband_members.simps [of e 0] split: list.splits)
next
  case (Suc n)
  show ?case
  proof (cases "g_members (gw_this w)")
    case (Cons a ms)
    then have "disband_members e n (erase_member e (gm_guid (snd a)) True w) = Some w'"
      using Suc.prems by (simp add: disband_members.simps [of e "Suc n"] case_prod_beta)
    from Suc.IH [OF this] show ?thesis by (simp add: guild_frame)
  qed (use Suc.prems in \<open>simp add: disband_members.simps [of e "Suc n"]\<close>)
qed

lemma DeleteBankItems_frame [guild_frame]:
  "gw_guilds (DeleteBankItems b w) = gw_guilds w" "gw_live (DeleteBankItems b w) = gw_live w"
  "gw_guild_of (DeleteBankItems b w) = gw_guild_of w" "g_members (gw_this (DeleteBankItems b w)) = g_members (gw_this w)"
  "g_id (gw_this (DeleteBankItems b w)) = g_id (gw_this w)"
  by (simp_all add: DeleteBankItems_def guild_frame)

lemma Disband_done:
  assumes "Guild_Disband e w = Some w'" "guilds_ok (gw_guilds w)"
  shows "done_ok k w'" "gw_live w' = False"
    and "gw_guilds w' = omap_erase (g_id (gw_this w)) (gw_guilds w)" "g_members (gw_this w') = []"
  using assms
  by (auto simp: Guild_Disband_def Let_def Guild_RemoveFromStore_def done_ok_def guild_frame guilds_ok_erase
      dest!: disband_members_frame split: option.splits)

lemma best_ranked_in:
  "best_ranked low best ms = Some m \<Longrightarrow> best = Some m \<or> (\<exists>k. (k, m) \<in> set ms \<and> k \<noteq> low)"
proof (induction ms arbitrary: best)
  case (Cons a ms)
  obtain k n where a: "a = (k, n)" by fastforce
  show ?case
    using Cons.IH [of "if k = low then best
        else case best of None \<Rightarrow> Some n | Some b \<Rightarrow> if gm_rankId b > gm_rankId n then Some n else best"] Cons.prems
    by (auto simp: a split: if_splits option.splits)
qed simp

lemma SetLeader_leader [guild_frame]:
  "g_leaderGuid (gw_this (SetLeaderGUID e x w)) = x" "gw_live (SetLeaderGUID e x w) = gw_live w"
  by (simp_all add: SetLeaderGUID_def Let_def guild_frame)

lemma DeleteMember_done:
  assumes "running_ok k w" "player_guid x" "Guild_DeleteMember e x False False w = Some w'"
  shows "done_ok k w'" "gw_live w' \<Longrightarrow> running_ok k w'"
proof -
  have g: "guild_ok (gw_this w)" "guilds_ok (gw_guilds w)" using assms(1) by (simp_all add: running_but_def)
  have "gw_live w' \<longrightarrow> running_ok k w'" "guilds_ok (gw_guilds w')"
  proof -
    show "gw_live w' \<longrightarrow> running_ok k w'"
    proof (cases "g_leaderGuid (gw_this w) = x")
      case False
      then show ?thesis
        using assms running_erase [OF assms(1,2), of e False] by (auto simp: Guild_DeleteMember_def)
    next
      case leader: True
      show ?thesis
      proof (cases "best_ranked (guid_counter x) None (g_members (gw_this w))")
        case None
        then show ?thesis
          using assms(3) leader Disband_done [OF _ g(2)] by (auto simp: Guild_DeleteMember_def Let_def split: option.splits)
      next
        case (Some n)
        obtain l where l: "(l, n) \<in> set (g_members (gw_this w))" "l \<noteq> guid_counter x"
          using best_ranked_in [OF Some] by auto
        then have find: "omap_find (g_members (gw_this w)) l = Some n"
          using g(1) by (simp add: guild_ok_but_def omap_in_set_find)
        then have n: "player_guid (gm_guid n)" "guid_counter (gm_guid n) = l"
          using g(1) by (auto simp: guild_ok_but_def member_ok_def)
        have r: "running_but {x} k (SetLeaderGUID e (gm_guid n) w)"
          using running_set_leader [OF assms(1) n(1), of e] leader find n(2) by (simp add: Guild_GetMember_def)
        have nx: "x \<noteq> gm_guid n" using n(2) l(2) by auto
        have "running_ok k (erase_member e x False w2)"
          if "running_but {x} k w2" "g_leaderGuid (gw_this w2) = gm_guid n" for w2
          using running_erase [OF that(1) assms(2)] that(2) nx by simp
        then show ?thesis
          using assms(3) leader Some r by (auto simp: Guild_DeleteMember_def Let_def guild_frame split: option.splits)
      qed
    qed
    show "guilds_ok (gw_guilds w')"
      using assms(3) g(2) Disband_done [OF _ g(2)]
      by (auto simp: Guild_DeleteMember_def Let_def guild_frame SetLeaderGUID_def done_ok_def split: option.splits if_splits)
  qed
  then show "done_ok k w'" "gw_live w' \<Longrightarrow> running_ok k w'" by (simp_all add: done_ok_def)
qed


text \<open>The object accessor finds a player under the player's own guid.\<close>

definition guild_env_ok :: "guild_env \<Rightarrow> bool" where
  "guild_env_ok e \<longleftrightarrow> (\<forall>x p. ge_connected e x = Some p \<longrightarrow> pl_guid p = x)"

lemma running_login:
  "running_ok k w \<Longrightarrow> player_guid (pl_guid p) \<Longrightarrow> running_ok k (SendLoginInfo e p w)"
  unfolding SendLoginInfo_def Let_def by (rule running_same_rank) (simp_all add: SetStats_player_def)

lemma running_put_member:
  assumes "running_ok k w" "player_guid (gm_guid m)" "gm_rankId m < 10"
    and "gm_rankId m = GR_GUILDMASTER \<longrightarrow> gm_guid m = g_leaderGuid (gw_this w)"
  shows "running_ok k (put_member (guid_counter (gm_guid m)) m w)"
  unfolding put_member_def
proof (rule running_on_guild [OF assms(1)])
  let ?g' = "(gw_this w)\<lparr>g_members := omap_set (guid_counter (gm_guid m)) m (g_members (gw_this w))\<rparr>"
  have "member_ok {} ?g' (guid_counter (gm_guid m)) m" using assms(2-4) by (simp add: member_ok_def)
  then show "guild_ok (gw_this w) \<Longrightarrow> guild_ok ?g'" by (rule guild_ok_put [rotated]) simp_all
qed simp

lemma lowest_rank:
  assumes "ranks_ok (g_ranks g)"
  shows "GetLowestRankId g < 10" "GetLowestRankId g \<noteq> 0" "unat (GetLowestRankId g) = length (g_ranks g) - 1"
proof -
  have "5 \<le> length (g_ranks g)" "length (g_ranks g) \<le> 10" using assms by (simp_all add: ranks_ok_def)
  then have "(of_nat (length (g_ranks g)) :: uint8) - 1 = of_nat (length (g_ranks g) - 1)" by (simp add: of_nat_diff)
  then show u: "unat (GetLowestRankId g) = length (g_ranks g) - 1"
    using \<open>length (g_ranks g) \<le> 10\<close> by (simp add: GetLowestRankId_def unat_of_nat)
  show "GetLowestRankId g < 10" "GetLowestRankId g \<noteq> 0"
    using u \<open>5 \<le> length (g_ranks g)\<close> \<open>length (g_ranks g) \<le> 10\<close> by (auto simp: word_less_nat_alt)
qed

lemma AddMember_running:
  assumes "running_ok k w" "player_guid x" "guild_env_ok e"
  shows "running_ok k (snd (Guild_AddMember e x GUILD_RANK_NONE w))"
proof -
  have r: "ranks_ok (g_ranks (gw_this w))" using assms(1) by (simp add: running_but_def guild_ok_but_def)
  have put: "running_ok k (put_member (guid_counter x) m (gemit (RemoveCharterSigns x) w))"
    if "gm_guid m = x" "gm_rankId m = GetLowestRankId (gw_this w)" for m
    using running_put_member [of k "gemit (RemoveCharterSigns x) w" m] assms(1,2) that lowest_rank [OF r] by simp
  have pl: "pl_guid p = x" if "ge_connected e x = Some p" for p using assms(3) that by (auto simp: guild_env_ok_def)
  have saved: "running_ok k (case om of None \<Rightarrow> v | Some m \<Rightarrow> gemits (Member_SaveToDB m) v) = running_ok k v" for om v
    by (cases om) simp_all
  show ?thesis
  proof (cases "ge_connected e x")
    case None
    have "running_ok k (snd (if c then (False, w) else r))" if "running_ok k (snd r)" for c r
      using that assms(1) by simp
    note split_if = this
    show ?thesis
      unfolding Guild_AddMember_def None Let_def option.case
      by (rule split_if, cases "ge_char_row e (guid_counter x)")
        (simp_all add: assms(1) saved put guild_frame Member_new_def SetStats_def running_other_fields)
  next
    case (Some p)
    have stats: "running_ok k (on_gmember x (\<lambda>m. (SetStats_player p m, [])) w')" if "running_ok k w'" for w'
      by (rule running_same_rank [OF that assms(2)]) (simp add: SetStats_player_def)
    have login: "running_ok k (SendLoginInfo e p w')" if "running_ok k w'" for w'
      using running_login [OF that] assms(2) pl [OF Some] by simp
    have member: "running_ok k (put_member (guid_counter x)
        (Member_new (ge_now e) i x (GetLowestRankId (gw_this w))) (gemit (RemoveCharterSigns x) w))" for i
      by (rule put) (simp_all add: Member_new_def)
    show ?thesis
      unfolding Guild_AddMember_def Some Let_def option.case
      by (simp add: assms(1) saved stats login member guild_frame running_other_fields)
  qed
qed

section \<open>The client commands\<close>

named_theorems guild_keeps \<open>commands that keep the invariant of the guild they run on\<close>

lemma keep_texts [guild_keeps]:
  assumes "running_ok k w"
  shows "running_ok k (HandleSetMOTD e p motd w)" "running_ok k (HandleSetInfo p info w)"
    "running_ok k (HandleSetEmblem p em w)" "running_ok k (HandleSetBankTabInfo e tab name icon w)"
    "running_ok k (SetBankTabText e tab txt0 w)"
  using assms
  by (auto simp: HandleSetMOTD_def HandleSetInfo_def HandleSetEmblem_def HandleSetBankTabInfo_def SetBankTabText_def
      Let_def case_prod_beta split: option.split intro!: running_other_field)

lemma keep_note [guild_keeps]:
  assumes "running_ok k w"
  shows "running_ok k (HandleSetMemberNote e p name note0 officer w)"
proof (cases "Guild_GetMember_by_name name (gw_this w)")
  case (Some m)
  have g: "guild_ok (gw_this w)" using assms by (simp add: running_but_def)
  have "player_guid (gm_guid m)"
    using GetMember_ok(1) [OF g member_by_name_ok [OF g Some]] .
  then have "running_ok k (on_gmember (gm_guid m) f w)"
    if "\<And>m. gm_guid (fst (f m)) = gm_guid m \<and> gm_rankId (fst (f m)) = gm_rankId m" for f
    using running_same_rank [OF assms _ that] by simp
  then show ?thesis
    using assms Some by (simp add: HandleSetMemberNote_def SetOfficerNote_def SetPublicNote_def)
qed (use assms in \<open>simp add: HandleSetMemberNote_def\<close>)

lemma running_fold: "(\<And>x w. running_ok k w \<Longrightarrow> running_ok k (f x w)) \<Longrightarrow> running_ok k w \<Longrightarrow> running_ok k (fold f xs w)"
  by (induction xs arbitrary: w) simp_all

lemma keep_rank_info [guild_keeps]:
  assumes "running_ok k w"
  shows "running_ok k (HandleSetRankInfo e p rankId name rights money rss w)"
  unfolding HandleSetRankInfo_def Let_def SetRankBankMoneyPerDay_def SetRankBankTabRightsAndSlots_def
  using assms by (auto intro!: running_fold running_on_rank)

lemma keep_ranks [guild_keeps]:
  assumes "running_ok k w"
  shows "running_ok k (HandleAddNewRank e p name w)" "running_ok k (HandleRemoveLowestRank e p w)"
proof -
  show "running_ok k (HandleAddNewRank e p name w)"
    using assms running_create_rank [OF assms, of name chat_rights]
    by (auto simp: HandleAddNewRank_def Let_def case_prod_beta)
  have r: "ranks_ok (g_ranks (gw_this w))" using assms by (simp add: running_but_def guild_ok_but_def)
  have "running_ok k (on_guild (\<lambda>g. g\<lparr>g_ranks := butlast (g_ranks g)\<rparr>) w')"
    if "\<not> GetRanksSize (gw_this w) \<le> GUILD_RANKS_MIN_COUNT" "gw_this w' = gw_this w" "running_ok k w'" for w'
  proof (rule running_on_guild [OF that(3)])
    have "5 < length (g_ranks (gw_this w))"
      using that(1) ranks_size [OF r] by (simp add: word_le_nat_alt)
    then have b: "ranks_ok (butlast (g_ranks (gw_this w)))" by (rule ranks_ok_butlast [OF r])
    assume "guild_ok (gw_this w')"
    then show "guild_ok ((gw_this w')\<lparr>g_ranks := butlast (g_ranks (gw_this w'))\<rparr>)"
      using that(2) b by (simp add: guild_ok_but_def member_ok_def Guild_GetMember_def)
  qed simp
  then show "running_ok k (HandleRemoveLowestRank e p w)"
    using assms by (simp add: HandleRemoveLowestRank_def HandleRemoveRank_def Let_def guild_frame)
qed

lemma length_missing_tabs: "length (fst (missing_tabs_of_all n rs)) = length rs"
  "map ri_rankId (fst (missing_tabs_of_all n rs)) = map ri_rankId rs"
  by (simp_all add: missing_tabs_of_all_def Let_def comp_def)

lemma keep_buy_tab [guild_keeps]:
  assumes "running_ok k w"
  shows "running_ok k (HandleBuyBankTab e p tab w)"
proof -
  have new_tab: "running_ok k (CreateNewBankTab v)" if v: "running_ok k v" for v
  proof -
    let ?v = "on_guild (\<lambda>g. g\<lparr>g_bankTabs := g_bankTabs g @ [BankTab_new (g_id (gw_this v)) (GetPurchasedTabsSize (gw_this v))]\<rparr>) v"
    have "running_ok k ?v" by (rule running_other_field [OF v]) simp_all
    moreover have "ranks_ok (fst (missing_tabs_of_all (GetPurchasedTabsSize (gw_this v) + 1) (g_ranks (gw_this v))))"
      using v by (simp add: ranks_ok_def length_missing_tabs running_but_def guild_ok_but_def)
    ultimately show ?thesis
      by (simp add: CreateNewBankTab_def Let_def case_prod_beta guild_frame running_ranks)
  qed
  then show ?thesis using assms by (simp add: HandleBuyBankTab_def Let_def case_prod_beta)
qed

lemma keep_invite [guild_keeps]:
  "running_ok k w \<Longrightarrow> running_ok k (HandleInviteMember e p name w)"
  by (simp add: HandleInviteMember_def Let_def running_other_fields split: option.split)

lemma keep_accept [guild_keeps]:
  "running_ok k w \<Longrightarrow> player_guid (pl_guid p) \<Longrightarrow> guild_env_ok e \<Longrightarrow> running_ok k (HandleAcceptMember e p w)"
  by (simp add: HandleAcceptMember_def AddMember_running)

lemma keep_logout [guild_keeps]:
  "running_ok k w \<Longrightarrow> player_guid (pl_guid p) \<Longrightarrow> running_ok k (HandleMemberLogout e p w)"
  unfolding HandleMemberLogout_def running_simps
  by (rule running_same_rank) (simp_all add: SetStats_player_def)

lemma withdraw_value_kept [simp]:
  "gm_guid (fst (UpdateBankWithdrawValue tab amount m)) = gm_guid m"
  "gm_rankId (fst (UpdateBankWithdrawValue tab amount m)) = gm_rankId m"
  by (simp_all add: UpdateBankWithdrawValue_def Let_def)

lemma keep_money [guild_keeps]:
  assumes "running_ok k w" "player_guid (pl_guid p)"
  shows "running_ok k (HandleMemberDepositMoney e p amount w)"
    "running_ok k (snd (HandleMemberWithdrawMoney e p amount repair w))"
proof -
  have bank: "running_ok k w2" if "ModifyBankMoney v add w1 = (ok, w2)" "running_ok k w1" for v add w1 ok w2
    using running_other_fields(4) [OF that(2), of v add] that(1) by simp
  have purse: "running_ok k w2" if "ModifyMoney x v w1 = (ok, w2)" "running_ok k w1" for x v w1 ok w2
    using running_simps2(9) [of "{}" k x v w1] that by simp
  have drawn: "running_ok k (on_gmember (pl_guid p) (UpdateBankWithdrawValue i v) w1)" if "running_ok k w1" for i v w1
    by (rule running_same_rank [OF that assms(2)]) simp
  show "running_ok k (HandleMemberDepositMoney e p amount w)"
    using assms(1) by (auto simp: HandleMemberDepositMoney_def Let_def running_other_fields case_prod_beta)
  show "running_ok k (snd (HandleMemberWithdrawMoney e p amount repair w))"
    using assms(1) drawn
    by (simp add: HandleMemberWithdrawMoney_def Let_def running_other_fields case_prod_beta split: option.split)
qed

lemma keep_set_leader [guild_keeps]:
  assumes "running_ok k w" "player_guid (pl_guid p)"
  shows "running_ok k (HandleSetLeader e p name w)"
proof (cases "IsLeader (pl_guid p) (gw_this w) \<and> Guild_GetMember (pl_guid p) (gw_this w) \<noteq> None")
  case True
  show ?thesis
  proof (cases "Guild_GetMember_by_name name (gw_this w)")
    case (Some m)
    have g: "guild_ok (gw_this w)" using assms(1) by (simp add: running_but_def)
    have m: "Guild_GetMember (gm_guid m) (gw_this w) = Some m" by (rule member_by_name_ok [OF g Some])
    then have mg: "player_guid (gm_guid m)" using GetMember_ok(1) [OF g] by blast
    obtain me where me: "Guild_GetMember (pl_guid p) (gw_this w) = Some me" using True by auto
    have lead: "g_leaderGuid (gw_this w) = pl_guid p"
      using True me GetMember_ok(4,5) [OF g me] assms(2) by (auto simp: IsLeader_def IsRank_def)
    let ?w = "SetLeaderGUID e (gm_guid m) w"
    have set: "running_but {pl_guid p} k ?w"
      using running_set_leader [OF assms(1) mg, of e] m lead by simp
    let ?v = "on_guild (\<lambda>g. g\<lparr>g_leaderGuid := gm_guid m\<rparr>) w"
    have v: "Guild_GetMember x (gw_this ?v) = Guild_GetMember x (gw_this w)" for x
      by (simp add: Guild_GetMember_def guild_frame)
    have "omap_ok (g_members (gw_this w))" using g by (simp add: guild_ok_but_def)
    then have "Guild_GetMember (pl_guid p) (gw_this ?w) \<noteq> None"
      using me v m
      by (auto simp: SetLeaderGUID_def ChangeRank_def on_gmember_def Let_def guild_frame Guild_GetMember_def om.find_put)
    then have "running_ok k (ChangeRank e (pl_guid p) GR_OFFICER ?w)"
      by (intro running_change_rank [OF set assms(2)]) simp_all
    then show ?thesis using True Some me by (simp add: HandleSetLeader_def)
  qed (use assms True in \<open>simp add: HandleSetLeader_def\<close>)
qed (use assms in \<open>auto simp: HandleSetLeader_def\<close>)

lemma rank_steps:
  fixes x y :: uint8
  shows "x < y \<Longrightarrow> y < 10 \<Longrightarrow> x + 1 < 10" "x < y \<Longrightarrow> y < 10 \<Longrightarrow> x + 1 \<noteq> 0"
    and "x < 10 \<Longrightarrow> x + 1 < y \<Longrightarrow> y < 10 \<Longrightarrow> y - 1 < 10" "x < 10 \<Longrightarrow> x + 1 < y \<Longrightarrow> y < 10 \<Longrightarrow> y - 1 \<noteq> 0"
  by (auto simp: word_less_nat_alt word_unat_eq_iff unat_word_ariths unat_sub_if')

lemma keep_update_rank [guild_keeps]:
  assumes "running_ok k w" "player_guid (pl_guid p)"
  shows "running_ok k (HandleUpdateMemberRank e p name demote w)"
proof (cases "Guild_GetMember_by_name name (gw_this w)")
  case (Some m)
  have g: "guild_ok (gw_this w)" using assms(1) by (simp add: running_but_def)
  have m: "Guild_GetMember (gm_guid m) (gw_this w) = Some m" by (rule member_by_name_ok [OF g Some])
  note mg = GetMember_ok(1,3) [OF g m]
  have change: "running_ok k (ChangeRank e (gm_guid m) r w)" if "r < 10" "r \<noteq> 0" for r
    using running_change_rank [OF assms(1) mg(1), of r e] that m by simp
  have low: "GetLowestRankId (gw_this w) < 10" using g lowest_rank(1) by (simp add: guild_ok_but_def)
  have down: "running_ok k (ChangeRank e (gm_guid m) (gm_rankId m + 1) w)" if "gm_rankId m < GetLowestRankId (gw_this w)"
    using that low rank_steps(1,2) change by blast
  have up: "running_ok k (ChangeRank e (gm_guid m) (gm_rankId m - 1) w)"
    if "Guild_GetMember x (gw_this w) = Some me" "gm_rankId me + 1 < gm_rankId m" for me x
    using that(2) GetMember_ok(3) [OF g that(1)] mg(2) rank_steps(3,4) change by blast
  show ?thesis
    using assms(1) Some
    by (auto simp: HandleUpdateMemberRank_def Let_def IsRankNotLower_def not_le down up running_other_fields
        split: option.split)
qed (use assms in \<open>simp add: HandleUpdateMemberRank_def Let_def\<close>)

text \<open>Commands that may disband the guild.\<close>

lemma done_LogEvent: "done_ok k w \<Longrightarrow> done_ok k (LogEvent e ev p1 p2 r w)"
  by (simp add: done_ok_def guild_frame running_other_fields)

lemma done_simps [simp]:
  "done_ok k (BroadcastEvent e ev x ps w) = done_ok k w" "done_ok k (SendCommandResult p t c s w) = done_ok k w"
  "done_ok k (gemit eff w) = done_ok k w"
  by (simp_all add: done_ok_def guild_frame)

lemma keep_leaving [guild_keeps]:
  assumes "running_ok k w" "player_guid (pl_guid p)"
  shows "HandleLeaveMember e p w = Some w' \<Longrightarrow> done_ok k w'"
    "HandleDisband e p w = Some w' \<Longrightarrow> done_ok k w'"
    "HandleRemoveMember e p name w = Some w' \<Longrightarrow> done_ok k w'"
proof -
  have g: "guild_ok (gw_this w)" "guilds_ok (gw_guilds w)" using assms(1) by (simp_all add: running_but_def)
  have dis: "disband_this e w = Some w' \<Longrightarrow> done_ok k w'" for w'
    using Disband_done(1) [OF _ g(2)] by (auto simp: disband_this_def)
  show "HandleDisband e p w = Some w' \<Longrightarrow> done_ok k w'"
    using dis running_done [OF assms(1)] by (auto simp: HandleDisband_def split: if_splits)
  show "HandleLeaveMember e p w = Some w' \<Longrightarrow> done_ok k w'"
    using dis running_done [OF assms(1)] DeleteMember_done(1) [OF assms]
    by (auto simp: HandleLeaveMember_def Let_def done_LogEvent split: if_splits option.splits)
  show "HandleRemoveMember e p name w = Some w' \<Longrightarrow> done_ok k w'"
  proof (cases "Guild_GetMember_by_name name (gw_this w)")
    case (Some m)
    then have "player_guid (gm_guid m)" using GetMember_ok(1) [OF g(1) member_by_name_ok [OF g(1)]] by blast
    then show "HandleRemoveMember e p name w = Some w' \<Longrightarrow> done_ok k w'"
      using Some running_done [OF assms(1)] DeleteMember_done(1) [OF assms(1)]
      by (auto simp: HandleRemoveMember_def Let_def done_LogEvent split: if_splits option.splits)
  qed (use running_done [OF assms(1)] in \<open>auto simp: HandleRemoveMember_def Let_def split: if_splits\<close>)
qed

section \<open>Disbanding ends\<close>

definition unlinked :: "guild_env \<Rightarrow> guid \<Rightarrow> guild_world \<Rightarrow> bool" where
  "unlinked e x w \<longleftrightarrow>
     (if ge_connected e x \<noteq> None then gw_guild_of w x = 0
      else GetCharacterGuildIdByGuid e x w = 0) \<and>
     GuildSql ''CHAR_DEL_GUILD_MEMBER'' [U32 (guid_counter x)] \<in> set (gw_out w)"

lemma unlinked_erase:
  "unlinked e x (erase_member e x True w)" "unlinked e y w \<Longrightarrow> unlinked e y (erase_member e x True w)"
  by (auto simp: unlinked_def erase_member_def Let_def DeleteMemberFromDB_def SetRank_def SetInGuild_def on_guild_def
      UpdateCharacterGuildId_def GetCharacterGuildIdByGuid_def gemit_def split: option.split)

lemma disband_members_ends:
  assumes "\<forall>(low, m) \<in> set (g_members (gw_this w)). guid_counter (gm_guid m) = low"
    and "length (g_members (gw_this w)) \<le> n"
  shows "\<exists>w'. disband_members e n w = Some w' \<and>
           (\<forall>x. unlinked e x w \<or> x \<in> gm_guid ` snd ` set (g_members (gw_this w)) \<longrightarrow> unlinked e x w')"
  using assms
proof (induction n arbitrary: w)
  case 0
  then show ?case by (simp add: disband_members.simps [of e 0])
next
  case (Suc n)
  show ?case
  proof (cases "g_members (gw_this w)")
    case Nil
    then show ?thesis by (simp add: disband_members.simps [of e "Suc n"])
  next
    case (Cons a ms)
    let ?x = "gm_guid (snd a)"
    let ?w = "erase_member e ?x True w"
    have ms: "g_members (gw_this ?w) = ms"
      using Suc.prems(1) Cons by (cases a) (simp add: guild_frame)
    have "\<exists>w'. disband_members e n ?w = Some w' \<and>
        (\<forall>x. unlinked e x ?w \<or> x \<in> gm_guid ` snd ` set (g_members (gw_this ?w)) \<longrightarrow> unlinked e x w')"
      by (rule Suc.IH) (use Suc.prems Cons ms in auto)
    then obtain w' where w': "disband_members e n ?w = Some w'"
      "\<And>x. unlinked e x ?w \<or> x \<in> gm_guid ` snd ` set ms \<Longrightarrow> unlinked e x w'"
      using ms by auto
    then have "disband_members e (Suc n) w = Some w'"
      using Cons by (simp add: disband_members.simps [of e "Suc n"] case_prod_beta)
    moreover have "unlinked e x w'" if "unlinked e x w \<or> x \<in> gm_guid ` snd ` set (g_members (gw_this w))" for x
      using that w'(2) [of x] unlinked_erase [where e = e and w = w] Cons by auto
    ultimately show ?thesis by blast
  qed
qed

lemma guild_ok_keys: "guild_ok_but Y g \<Longrightarrow> \<forall>(low, m) \<in> set (g_members g). guid_counter (gm_guid m) = low"
  by (auto simp: guild_ok_but_def member_ok_def dest: omap_in_set_find)

lemma unlinked_frame:
  "unlinked e x w \<Longrightarrow> unlinked e x (gemit y w)" "unlinked e x w \<Longrightarrow> unlinked e x (DeleteBankItems b w)"
  "unlinked e x w \<Longrightarrow> unlinked e x (Guild_RemoveFromStore i w)"
  by (auto simp: unlinked_def GetCharacterGuildIdByGuid_def gemit_def gemits_def DeleteBankItems_def on_guild_def
      Guild_RemoveFromStore_def)

lemma Disband_ends:
  assumes "\<forall>(low, m) \<in> set (g_members (gw_this w)). guid_counter (gm_guid m) = low"
  shows "\<exists>w'. Guild_Disband e w = Some w' \<and> (\<forall>x \<in> gm_guid ` snd ` set (g_members (gw_this w)). unlinked e x w')"
proof -
  let ?w = "BroadcastEvent e 8 0 [] w"
  have same: "gw_this ?w = gw_this w" by (simp add: guild_frame)
  obtain w1 where w1: "disband_members e (length (g_members (gw_this ?w))) ?w = Some w1"
    "\<forall>x \<in> gm_guid ` snd ` set (g_members (gw_this w)). unlinked e x w1"
    using disband_members_ends [of ?w "length (g_members (gw_this ?w))" e] assms same by auto
  show ?thesis
    using w1(2) by (auto simp: Guild_Disband_def Let_def w1(1) intro!: unlinked_frame)
qed

section \<open>Packets keep the guilds\<close>

definition keeps_guilds :: "guild_result \<Rightarrow> bool" where
  "keeps_guilds r \<longleftrightarrow> (case r of None \<Rightarrow> False | Some (Inl err) \<Rightarrow> True | Some (Inr w) \<Rightarrow> guilds_ok (gw_guilds w))"

lemma keeps_here [simp]: "keeps_guilds (Some (Inr w)) = guilds_ok (gw_guilds w)"
  by (simp add: keeps_guilds_def)

lemma keeps_greading: "(\<And>x. keeps_guilds (f x)) \<Longrightarrow> keeps_guilds (greading r f)"
  by (simp add: keeps_guilds_def greading_def split: sum.split)

lemma keeps_call:
  assumes "guilds_ok (gw_guilds w)"
    and "\<And>v. running_ok k v \<Longrightarrow> \<exists>w'. f v = Some w' \<and> done_ok k w'"
  shows "keeps_guilds (call_guild k f w)"
proof (cases "GetGuildById k w")
  case (Some g)
  then have "running_ok k (w\<lparr>gw_this := g, gw_live := True\<rparr>)"
    using assms(1) by (simp add: GetGuildById_def guilds_ok_def running_but_def)
  from assms(2) [OF this] obtain w' where w': "f (w\<lparr>gw_this := g, gw_live := True\<rparr>) = Some w'" "done_ok k w'" by blast
  then have "guilds_ok (omap_set k (gw_this w') (gw_guilds w'))" if "gw_live w'"
    using that by (auto simp: done_ok_def running_but_def intro!: guilds_ok_put)
  then show ?thesis
    using w' Some by (simp add: call_guild_def done_ok_def)
qed (use assms in \<open>simp add: call_guild_def\<close>)

lemma keeps_own:
  assumes "guilds_ok (gw_guilds w)" "\<And>k v. running_ok k v \<Longrightarrow> \<exists>w'. f v = Some w' \<and> done_ok k w'"
  shows "keeps_guilds (on_own_guild p f w)"
  using keeps_call [OF assms(1), of "gw_guild_of w (pl_guid p)" f] assms by (simp add: on_own_guild_def)

lemma keeps_own_total:
  assumes "guilds_ok (gw_guilds w)" "\<And>k v. running_ok k v \<Longrightarrow> running_ok k (f v)"
  shows "keeps_guilds (own p f w)"
  by (rule keeps_own [OF assms(1)]) (use assms(2) running_done in blast)

lemma keeps_name:
  assumes "guilds_ok (gw_guilds w)" "\<And>n k v. running_ok k v \<Longrightarrow> \<exists>w'. f n v = Some w' \<and> done_ok k w'"
  shows "keeps_guilds (with_name e p b f w)"
  unfolding with_name_def
  by (rule keeps_greading) (use assms keeps_own [OF assms(1), of "f _"] in \<open>auto split: option.split\<close>)

lemma keeps_name_total:
  assumes "guilds_ok (gw_guilds w)" "\<And>n k v. running_ok k v \<Longrightarrow> running_ok k (f n v)"
  shows "keeps_guilds (with_name e p b (\<lambda>n w. Some (f n w)) w)"
  by (rule keeps_name [OF assms(1)]) (use assms(2) running_done in blast)


lemma commands_end:
  assumes "running_ok k w"
  shows "Guild_DeleteMember e x b c w \<noteq> None" "HandleLeaveMember e p w \<noteq> None" "HandleDisband e p w \<noteq> None"
    and "HandleRemoveMember e p name w \<noteq> None"
proof -
  have "guild_ok (gw_this w)" using assms by (simp add: running_but_def)
  then have d: "\<exists>w'. Guild_Disband e w = Some w'" using Disband_ends [OF guild_ok_keys] by blast
  then show del: "Guild_DeleteMember e x b c w \<noteq> None" for x b c
    by (auto simp: Guild_DeleteMember_def Let_def split: option.split)
  show "HandleDisband e p w \<noteq> None" "HandleLeaveMember e p w \<noteq> None"
    using d del [of "pl_guid p" False False]
    by (auto simp: HandleDisband_def HandleLeaveMember_def disband_this_def Let_def)
  show "HandleRemoveMember e p name w \<noteq> None"
    by (auto simp: HandleRemoveMember_def Let_def del [unfolded not_None_eq] split: option.split dest: del [THEN notE])
qed

lemma keeps_leaving:
  assumes "guilds_ok (gw_guilds w)" "player_guid (pl_guid p)"
  shows "keeps_guilds (HandleGuildRemoveOpcode e p b w)" "keeps_guilds (HandleGuildLeaveOpcode e p w)"
    and "keeps_guilds (HandleGuildDisbandOpcode e p w)"
proof -
  note ends = keep_leaving [OF _ assms(2), where e = e]
  show "keeps_guilds (HandleGuildRemoveOpcode e p b w)"
    unfolding HandleGuildRemoveOpcode_def
    by (rule keeps_name [OF assms(1)]) (metis ends(3) commands_end(4) not_None_eq)
  show "keeps_guilds (HandleGuildLeaveOpcode e p w)"
    unfolding HandleGuildLeaveOpcode_def
    by (rule keeps_own [OF assms(1)]) (metis ends(1) commands_end(2) not_None_eq)
  show "keeps_guilds (HandleGuildDisbandOpcode e p w)"
    unfolding HandleGuildDisbandOpcode_def
    by (rule keeps_own [OF assms(1)]) (metis ends(2) commands_end(3) not_None_eq)
qed

lemma keeps_guild_accept:
  assumes "guilds_ok (gw_guilds w)" "player_guid (pl_guid p)" "guild_env_ok e"
  shows "keeps_guilds (HandleGuildAcceptOpcode e p w)"
proof -
  have "keeps_guilds (call_guild (gw_invited w (pl_guid p)) (\<lambda>w. Some (HandleAcceptMember e p w)) w)"
    by (rule keeps_call [OF assms(1)]) (use keep_accept [OF _ assms(2,3)] running_done in blast)
  then show ?thesis using assms(1) by (simp add: HandleGuildAcceptOpcode_def)
qed

lemma keeps_query: "guilds_ok (gw_guilds w) \<Longrightarrow> keeps_guilds (HandleGuildQueryOpcode p b w)"
  unfolding HandleGuildQueryOpcode_def
  by (rule keeps_greading) (auto intro!: keeps_call running_done)

lemmas guild_handlers =
  HandleGuildCreateOpcode_def HandleGuildInviteOpcode_def HandleGuildDeclineOpcode_def HandleGuildInfoOpcode_def
  HandleGuildRosterOpcode_def HandleGuildPromoteOpcode_def HandleGuildDemoteOpcode_def HandleGuildLeaderOpcode_def
  HandleGuildMOTDOpcode_def HandleGuildSetNoteOpcode_def HandleGuildRankOpcode_def HandleGuildAddRankOpcode_def
  HandleGuildDelRankOpcode_def HandleGuildChangeInfoTextOpcode_def HandleSaveGuildEmblemOpcode_def
  HandleGuildEventLogQueryOpcode_def HandleGuildBankMoneyWithdrawn_def HandleGuildPermissions_def

lemmas bank_handlers =
  HandleGuildBankerActivate_def HandleGuildBankQueryTab_def HandleGuildBankDepositMoney_def
  HandleGuildBankWithdrawMoney_def HandleGuildBankBuyTab_def HandleGuildBankUpdateTab_def HandleGuildBankLogQuery_def
  HandleQueryGuildBankTabText_def HandleGuildBankSetTabText_def

lemma dispatch_guild_keeps:
  assumes "guilds_ok (gw_guilds w)" "player_guid (pl_guid p)" "guild_env_ok e"
  shows "keeps_guilds (dispatch_guild e p rq b w)"
proof -
  have kept: "guilds_ok (gw_guilds (gemit eff w))" "guilds_ok (gw_guilds (SendCommandResult p c d s w))"
    "guilds_ok (gw_guilds (SendSaveEmblemResult p c w))" "guilds_ok (gw_guilds (SetInGuild e x i w))"
    "guilds_ok (gw_guilds (SetGuildIdInvited x i w))"
    if "guilds_ok (gw_guilds w)" for eff w c d s x i
    using that by (simp_all add: guild_frame)
  note steps = keeps_greading keeps_own_total keeps_name_total
  show ?thesis
    by (cases rq)
      (use assms in \<open>auto simp: guild_handlers bank_handlers kept keeps_leaving keeps_guild_accept keeps_query guild_keeps Let_def
        split: prod.split option.split intro!: steps\<close>)
qed

definition guild_step ::
  "guild_env \<Rightarrow> guild_world \<Rightarrow> guild_player \<times> guild_request \<times> byte_buffer \<Rightarrow> guild_world" where
  "guild_step e w ev =
     (case ev of (p, rq, b) \<Rightarrow> (case dispatch_guild e p rq b w of Some (Inr w') \<Rightarrow> w' | _ \<Rightarrow> w))"


end
