(* ===== verification/GuildProps.thy ===== *)
theory GuildProps
  imports GuildLaws
begin

text \<open>
  What the guilds promise: the invariant over any packets of any clients, who may change a rank,
  how the money of the bank moves, the event log as the last events of a sequence, disbanding,
  and the defects the model shows. The concrete guild at the start serves the examples.
\<close>

section \<open>A concrete guild\<close>

definition demo_gplayer :: "guid \<Rightarrow> string \<Rightarrow> guild_player" where
  "demo_gplayer x nm =
     \<lparr>pl_guid = x, pl_name = nm, pl_security = 0, pl_team = 469, pl_guild = 0, pl_in_group = False,
      pl_lfg_empty = True, pl_level = 70, pl_ignored = (\<lambda>k. False), pl_chat_tag = 0, pl_gm_on = False,
      pl_gm_chat = False, gp_class = 1, gp_gender = 0, gp_zone = 12, gp_account = 5\<rparr>"

definition demo_genv :: guild_env where
  "demo_genv =
     \<lparr>ge_find_player = (\<lambda>x. if x = 7 then Some (demo_gplayer 7 ''Ann'') else None),
      ge_connected = (\<lambda>x. if x = 7 then Some (demo_gplayer 7 ''Ann'') else None),
      ge_find_by_name = (\<lambda>nm. if nm = ''Ann'' then Some (demo_gplayer 7 ''Ann'') else None),
      ge_cached = (\<lambda>low. True), ge_char_team = (\<lambda>x. 469), ge_char_row = (\<lambda>low. None), ge_zone_from_db = (\<lambda>x. 0),
      ge_normalize_name = Some, ge_social = (\<lambda>x. PlayerSocial_new), ge_reserved_name = (\<lambda>nm. False),
      ge_valid_charter_name = (\<lambda>nm. True), ge_two_side_guild = False, ge_multiple_masters = False,
      ge_event_log_count = 2, ge_bank_log_count = 2, ge_now = 1000, ge_away = (\<lambda>d. 0),
      ge_localtime = (\<lambda>d. (1, 1, 2010)), ge_rank_names = [''a'', ''b'', ''c'', ''d'', ''e''], ge_truncate = id,
      ge_near_bank = (\<lambda>x y. True), ge_near_tabard = (\<lambda>x y. True), ge_feigning = (\<lambda>x. False)\<rparr>"

text \<open>Ann leads, Bob is an officer, Cid has the lowest of six ranks and may take 500 copper a day.\<close>

definition demo_ranks :: "rank_info list" where
  "demo_ranks = map (\<lambda>(i, r, n). \<lparr>ri_guildId = 1, ri_rankId = i, ri_name = [], ri_rights = r, ri_bankMoneyPerDay = n,
       ri_tabs = []\<rparr>)
     [(0, GR_RIGHT_ALL, GUILD_UNLIMITED), (1, GR_RIGHT_ALL, 0), (2, 0x43, 0), (3, 0x43, 0), (4, 0x43, 0), (5, 0x80043, 500)]"

definition demo_member :: "guid \<Rightarrow> string \<Rightarrow> uint8 \<Rightarrow> guild_member" where
  "demo_member x nm r = (Member_new 0 1 x r)\<lparr>gm_name := nm\<rparr>"

definition demo_guild :: guild where
  "demo_guild =
     \<lparr>g_id = 1, g_name = ''Sun'', g_leaderGuid = 7, g_motd = [], g_info = [], g_createdDate = 0,
      g_emblem = \<lparr>em_style = 0, em_color = 0, em_borderStyle = 0, em_borderColor = 0, em_backgroundColor = 0\<rparr>,
      g_accountsNumber = 3, g_bankMoney = 1000, g_ranks = demo_ranks,
      g_members = [(7, demo_member 7 ''Ann'' 0), (8, demo_member 8 ''Bob'' 1), (9, demo_member 9 ''Cid'' 5)],
      g_bankTabs = [], g_eventLog = LogHolder_new 2, g_bankEventLog = replicate 7 (LogHolder_new 2),
      g_bankloaded = True\<rparr>"

definition demo_gworld :: guild_world where
  "demo_gworld =
     \<lparr>gw_this = demo_guild, gw_live = True, gw_guilds = [(1, demo_guild)], gw_next = 2, gw_stop = False,
      gw_guild_of = (\<lambda>x. 1), gw_rank_of = (\<lambda>x. 0), gw_invited = (\<lambda>x. 0), gw_money = (\<lambda>x. 300), gw_cache = (\<lambda>low. 1),
      gw_out = []\<rparr>"

lemma demo_guids: "player_guid 7" "player_guid 8" "player_guid 9"
    "guid_counter 7 = 7" "guid_counter 8 = 8" "guid_counter 9 = 9"
  by (simp_all add: player_guid_def guid_of_counter_def guid_counter_def guid_has_entry_def high_has_entry_def guid_high_def)

lemma demo_guild_ok: "guild_ok demo_guild"
  by (auto simp: guild_ok_but_def member_ok_def ranks_ok_def demo_guild_def demo_ranks_def demo_member_def Member_new_def
      omap_ok_def omap_find_def Guild_GetMember_def demo_guids upt_conv_Cons split: if_splits)

lemma demo_guilds_ok: "guilds_ok (gw_guilds demo_gworld)"
  by (auto simp: guilds_ok_def demo_gworld_def omap_ok_def omap_find_def demo_guild_ok split: if_splits)
    (simp add: demo_guild_def)

lemma demo_genv_ok: "guild_env_ok demo_genv"
  by (auto simp: guild_env_ok_def demo_genv_def demo_gplayer_def split: if_splits)

section \<open>Disbanding\<close>

text \<open>
  C24. Disbanding a guild whose members are filed under their own guids always comes to an end:
  afterwards it has no member, its id is free, every former member is without a guild (the
  player object if connected, else the character cache) and the row of each member is deleted.
\<close>

theorem disband_removes_everyone:
  assumes "\<forall>(low, m) \<in> set (g_members (gw_this w)). guid_counter (gm_guid m) = low" "guilds_ok (gw_guilds w)"
  shows "\<exists>w'. Guild_Disband e w = Some w' \<and> g_members (gw_this w') = [] \<and>
           GetGuildById (g_id (gw_this w)) w' = None \<and>
           (\<forall>(low, m) \<in> set (g_members (gw_this w)).
              (if ge_connected e (gm_guid m) \<noteq> None then gw_guild_of w' (gm_guid m) = 0
               else GetCharacterGuildIdByGuid e (gm_guid m) w' = 0) \<and>
              GuildSql ''CHAR_DEL_GUILD_MEMBER'' [U32 low] \<in> set (gw_out w'))"
proof -
  obtain w' where w': "Guild_Disband e w = Some w'" "\<forall>x \<in> gm_guid ` snd ` set (g_members (gw_this w)). unlinked e x w'"
    using Disband_ends [OF assms(1)] by blast
  have "omap_ok (gw_guilds w)" using assms(2) by (simp add: guilds_ok_def)
  then have "GetGuildById (g_id (gw_this w)) w' = None"
    using Disband_done(3) [OF w'(1) assms(2)] by (simp add: GetGuildById_def om.find_erase)
  moreover have "\<forall>(low, m) \<in> set (g_members (gw_this w)).
      (if ge_connected e (gm_guid m) \<noteq> None then gw_guild_of w' (gm_guid m) = 0
       else GetCharacterGuildIdByGuid e (gm_guid m) w' = 0) \<and>
      GuildSql ''CHAR_DEL_GUILD_MEMBER'' [U32 low] \<in> set (gw_out w')"
    using w'(2) assms(1) by (fastforce simp: unlinked_def)
  ultimately show ?thesis using w'(1) Disband_done(4) [OF w'(1) assms(2)] by blast
qed

theorem disband_removes_everyone_witness:
  "\<exists>w'. Guild_Disband demo_genv demo_gworld = Some w' \<and> g_members (gw_this w') = [] \<and>
     GetGuildById (g_id (gw_this demo_gworld)) w' = None \<and>
     (\<forall>(low, m) \<in> set (g_members (gw_this demo_gworld)).
        (if ge_connected demo_genv (gm_guid m) \<noteq> None then gw_guild_of w' (gm_guid m) = 0
         else GetCharacterGuildIdByGuid demo_genv (gm_guid m) w' = 0) \<and>
        GuildSql ''CHAR_DEL_GUILD_MEMBER'' [U32 low] \<in> set (gw_out w'))"
proof (rule disband_removes_everyone [OF _ demo_guilds_ok])
  show "\<forall>(low, m) \<in> set (g_members (gw_this demo_gworld)). guid_counter (gm_guid m) = low"
    using guild_ok_keys [OF demo_guild_ok] by (simp add: demo_gworld_def)
qed

section \<open>The invariant over any packets\<close>

definition from_player :: "guild_player \<times> guild_request \<times> byte_buffer \<Rightarrow> bool" where
  "from_player ev \<longleftrightarrow> player_guid (pl_guid (fst ev))"

definition packet_of_player :: "guild_env \<Rightarrow> guild_world \<Rightarrow> guild_player \<times> guild_request \<times> byte_buffer \<Rightarrow> bool" where
  "packet_of_player e w ev \<longleftrightarrow> guild_env_ok e \<and> from_player ev"

interpretation guilds:
  invariant_ops "guild_step e" "\<lambda>w. guilds_ok (gw_guilds w)" "packet_of_player e" for e
proof
  fix w :: guild_world and ev :: "guild_player \<times> guild_request \<times> byte_buffer"
  assume ok: "guilds_ok (gw_guilds w)" "packet_of_player e w ev"
  obtain p rq b where ev: "ev = (p, rq, b)" by (cases ev)
  have "keeps_guilds (dispatch_guild e p rq b w)"
    by (rule dispatch_guild_keeps) (use ok ev in \<open>auto simp: packet_of_player_def from_player_def\<close>)
  then show "guilds_ok (gw_guilds (guild_step e w ev))"
    using ok by (auto simp: ev guild_step_def keeps_guilds_def split: option.splits sum.splits)
qed

lemma guilds_all_admissible:
  "guild_env_ok e \<Longrightarrow> \<forall>ev \<in> set evs. from_player ev \<Longrightarrow> guilds.all_admissible e w evs"
  by (induction evs arbitrary: w) (simp_all add: packet_of_player_def)

text \<open>
  C4. Whatever packets players send to the guild handlers, every guild in the store is filed under
  its id, its leader is one of its members and no other member has the rank of a guild master,
  members are filed under their own guids with one of ten ranks, it has five to ten ranks
  numbered from 0, and the handling of any further packet comes to an end.
\<close>

theorem guilds_keep_leader:
  assumes "guild_env_ok e" "guilds_ok (gw_guilds w0)" "\<forall>ev \<in> set evs. from_player ev"
  shows "let w = run_ops (guild_step e) w0 evs
         in (\<forall>guildId g. GetGuildById guildId w = Some g \<longrightarrow>
               g_id g = guildId \<and> Guild_GetMember (g_leaderGuid g) g \<noteq> None \<and>
               (\<forall>low m. omap_find (g_members g) low = Some m \<longrightarrow>
                  guid_counter (gm_guid m) = low \<and> gm_rankId m < 10 \<and>
                  (gm_rankId m = GR_GUILDMASTER \<longrightarrow> gm_guid m = g_leaderGuid g)) \<and>
               length (g_ranks g) \<in> {5..10} \<and>
               map ri_rankId (g_ranks g) = map of_nat [0..<length (g_ranks g)]) \<and>
            (\<forall>p rq b. player_guid (pl_guid p) \<longrightarrow> dispatch_guild e p rq b w \<noteq> None)"
proof -
  define w where "w = run_ops (guild_step e) w0 evs"
  have ok: "guilds_ok (gw_guilds w)"
    unfolding w_def
    by (rule guilds.run_inv [where s = w0, OF assms(2)]) (rule guilds_all_admissible [OF assms(1,3)])
  have "dispatch_guild e p rq b w \<noteq> None" if "player_guid (pl_guid p)" for p rq b
    using dispatch_guild_keeps [OF ok that assms(1), of rq b] by (auto simp: keeps_guilds_def split: option.splits)
  moreover have "g_id g = k \<and> guild_ok g" if "GetGuildById k w = Some g" for k g
    using ok that by (simp add: guilds_ok_def GetGuildById_def)
  ultimately show ?thesis
    unfolding Let_def w_def [symmetric] by (fastforce simp: guild_ok_but_def member_ok_def ranks_ok_def)
qed

theorem guilds_keep_leader_witness:
  "let w = run_ops (guild_step demo_genv) demo_gworld [(demo_gplayer 7 ''Ann'', GuDisband, \<lparr>bb_rpos = 0, bb_wpos = 0, bb_storage = []\<rparr>)]
   in (\<forall>guildId g. GetGuildById guildId w = Some g \<longrightarrow>
         g_id g = guildId \<and> Guild_GetMember (g_leaderGuid g) g \<noteq> None \<and>
         (\<forall>low m. omap_find (g_members g) low = Some m \<longrightarrow>
            guid_counter (gm_guid m) = low \<and> gm_rankId m < 10 \<and>
            (gm_rankId m = GR_GUILDMASTER \<longrightarrow> gm_guid m = g_leaderGuid g)) \<and>
         length (g_ranks g) \<in> {5..10} \<and>
         map ri_rankId (g_ranks g) = map of_nat [0..<length (g_ranks g)]) \<and>
      (\<forall>p rq b. player_guid (pl_guid p) \<longrightarrow> dispatch_guild demo_genv p rq b w \<noteq> None)"
  by (rule guilds_keep_leader [OF demo_genv_ok demo_guilds_ok]) (simp add: from_player_def demo_gplayer_def demo_guids)

section \<open>Ranks\<close>

lemma GetMember_LogEvent: "Guild_GetMember x (gw_this (LogEvent e ev p1 p2 r w)) = Guild_GetMember x (gw_this w)"
  by (simp add: Guild_GetMember_def guild_frame)

lemma rank_moves:
  fixes me r low :: uint8
  assumes "me < 10" "r < 10" "low < 10"
  shows "r < low \<Longrightarrow> me < r \<Longrightarrow> me < r + 1" "r < low \<Longrightarrow> unat (r + 1) = unat r + 1" "r < low \<Longrightarrow> r + 1 \<le> low"
    and "me + 1 < r \<Longrightarrow> me < r" "me + 1 < r \<Longrightarrow> me < r - 1" "me + 1 < r \<Longrightarrow> unat r = unat (r - 1) + 1"
  using assms by (auto simp: word_less_nat_alt word_le_nat_alt unat_word_ariths unat_sub_if')

text \<open>
  C21. Promoting and demoting: a member whose rank changes is another member than the one who asks,
  has the name given, was of a lower rank than the one who asks and still is, and has moved by
  exactly one rank; the one who asks has the right for it.
\<close>

theorem rank_changes_stay_below_self:
  assumes "guild_ok (gw_this w)" "player_guid x"
    and "Guild_GetMember x (gw_this w) = Some m"
    and "Guild_GetMember x (gw_this (HandleUpdateMemberRank e p name demote w)) = Some m'"
    and "gm_rankId m' \<noteq> gm_rankId m"
  shows "x \<noteq> pl_guid p \<and> gm_name m = name \<and>
         HasRankRight (pl_guid p) (if demote then GR_RIGHT_DEMOTE else GR_RIGHT_PROMOTE) (gw_this w) \<and>
         (\<exists>me. Guild_GetMember (pl_guid p) (gw_this w) = Some me \<and>
            gm_rankId me < gm_rankId m \<and> gm_rankId me < gm_rankId m') \<and>
         (if demote then unat (gm_rankId m') = unat (gm_rankId m) + 1 \<and> gm_rankId m' \<le> GetLowestRankId (gw_this w)
          else unat (gm_rankId m) = unat (gm_rankId m') + 1)"
proof (cases "Guild_GetMember_by_name name (gw_this w)")
  case (Some n)
  have n: "Guild_GetMember (gm_guid n) (gw_this w) = Some n" by (rule member_by_name_ok [OF assms(1) Some])
  note ng = GetMember_ok(1,3) [OF assms(1) n]
  have nm: "gm_name n = name" using Some by (auto simp: Guild_GetMember_by_name_def find_Some_iff)
  have low: "GetLowestRankId (gw_this w) < 10" using assms(1) lowest_rank(1) by (simp add: guild_ok_but_def)
  have other: "Guild_GetMember x (gw_this (ChangeRank e (gm_guid n) r w)) =
      (if x = gm_guid n then Some (n\<lparr>gm_rankId := r\<rparr>) else Some m)" for r
    using GetMember_ChangeRank [OF assms(1) ng(1) assms(2), of e r] n assms(3) by simp
  show ?thesis
  proof (cases "Guild_GetMember (pl_guid p) (gw_this w)")
    case None
    then show ?thesis
      using assms(3-5) Some by (auto simp: HandleUpdateMemberRank_def Let_def guild_frame split: if_splits)
  next
    case me: (Some me)
    note meg = GetMember_ok(3) [OF assms(1) me]
    have x: "x = gm_guid n"
      using assms(3-5) Some me
      by (auto simp: HandleUpdateMemberRank_def Let_def guild_frame GetMember_LogEvent other split: if_splits)
    then have "m = n" using n assms(3) by simp
    have rank: "Guild_GetMember (gm_guid n) (gw_this (ChangeRank e (gm_guid n) r w)) = Some (n\<lparr>gm_rankId := r\<rparr>)" for r
      using other [of r] x by simp
    show ?thesis
      using assms(4,5) Some me nm meg ng(2) low n rank_moves [of "gm_rankId me" "gm_rankId n" "GetLowestRankId (gw_this w)"]
      unfolding \<open>m = n\<close> x
      by (cases demote)
        (auto simp: HandleUpdateMemberRank_def Let_def guild_frame GetMember_LogEvent IsRankNotLower_def not_le rank
          split: if_splits)
  qed
qed (use assms(3-5) in \<open>auto simp: HandleUpdateMemberRank_def Let_def guild_frame split: if_splits\<close>)

lemmas demo_simps =
  demo_gworld_def demo_guild_def demo_member_def Member_new_def demo_ranks_def demo_gplayer_def demo_genv_def
  Guild_GetMember_def omap_find_def demo_guids guild_frame

theorem rank_changes_stay_below_self_witness:
  "(8 :: guid) \<noteq> 9 \<and> ''Cid'' = ''Cid'' \<and>
   HasRankRight 8 GR_RIGHT_PROMOTE demo_guild \<and>
   (\<exists>me. Guild_GetMember 8 demo_guild = Some me \<and> gm_rankId me < 5 \<and> gm_rankId me < 4) \<and>
   unat (5 :: uint8) = unat (4 :: uint8) + 1"
proof -
  have by_name: "Guild_GetMember_by_name ''Cid'' demo_guild = Some (demo_member 9 ''Cid'' 5)"
    by (simp add: Guild_GetMember_by_name_def demo_simps)
  have bob: "Guild_GetMember 8 demo_guild = Some (demo_member 8 ''Bob'' 1)" by (simp add: demo_simps)
  have cid: "Guild_GetMember 9 demo_guild = Some (demo_member 9 ''Cid'' 5)" by (simp add: demo_simps)
  have right: "HasRankRight 8 GR_RIGHT_PROMOTE demo_guild"
    by (simp add: HasRankRight_def bob GetRankRights_def GetRankInfo_def GetRanksSize_def)
       (simp add: demo_simps)
  let ?p = "demo_gplayer 8 ''Bob''"
  have demo: "gw_this demo_gworld = demo_guild" "pl_guid ?p = 8" by (simp_all add: demo_gworld_def demo_gplayer_def)
  have "gw_this (HandleUpdateMemberRank demo_genv ?p ''Cid'' False demo_gworld) =
      gw_this (LogEvent demo_genv LOG_PROMOTE 8 9 4 (ChangeRank demo_genv 9 4 demo_gworld))"
    using right by_name bob demo
    by (simp add: HandleUpdateMemberRank_def Let_def guild_frame IsRankNotLower_def demo_member_def Member_new_def demo_guids)
  then have "Guild_GetMember 9 (gw_this (HandleUpdateMemberRank demo_genv ?p ''Cid'' False demo_gworld)) =
      Some (demo_member 9 ''Cid'' 4)"
    using GetMember_ChangeRank [of "{}" demo_gworld 9 9] cid demo_guild_ok demo
    by (simp add: GetMember_LogEvent demo_guids demo_member_def Member_new_def)
  from rank_changes_stay_below_self [of demo_gworld 9 _ demo_genv ?p "''Cid''" False, OF _ _ _ this]
  show ?thesis
    using cid demo_guild_ok demo demo_guids
    by (simp add: demo_member_def Member_new_def)
qed

text \<open>
  Without being the leader (by guid or by rank) a player changes nothing of a guild by the
  commands for ranks, leader, emblem and disbanding: whatever the arguments, the guild, the
  store of guilds and the money of every player stay as they were.
\<close>

theorem only_leader_rules:
  assumes "\<not> IsLeader (pl_guid p) (gw_this w)"
  shows "HandleDisband e p w = Some w \<and>
         (\<forall>w' \<in> {HandleSetRankInfo e p rankId name rights money rss w, HandleAddNewRank e p name w,
                HandleRemoveRank e p rankId w, HandleSetLeader e p name w, HandleSetEmblem p em w}.
            gw_this w' = gw_this w \<and> gw_guilds w' = gw_guilds w \<and> gw_money w' = gw_money w)"
  using assms
  by (simp add: HandleSetRankInfo_def HandleAddNewRank_def HandleRemoveRank_def HandleSetLeader_def HandleSetEmblem_def
      HandleDisband_def Let_def guild_frame SendCommandResult_def SendSaveEmblemResult_def)

theorem only_leader_rules_witness:
  "HandleDisband demo_genv (demo_gplayer 9 ''Cid'') demo_gworld = Some demo_gworld \<and>
   (\<forall>w' \<in> {HandleSetRankInfo demo_genv (demo_gplayer 9 ''Cid'') 5 [] GR_RIGHT_ALL 0 [] demo_gworld,
            HandleAddNewRank demo_genv (demo_gplayer 9 ''Cid'') [] demo_gworld,
            HandleRemoveRank demo_genv (demo_gplayer 9 ''Cid'') 5 demo_gworld,
            HandleSetLeader demo_genv (demo_gplayer 9 ''Cid'') [] demo_gworld,
            HandleSetEmblem (demo_gplayer 9 ''Cid'') (g_emblem demo_guild) demo_gworld}.
      gw_this w' = gw_this demo_gworld \<and> gw_guilds w' = gw_guilds demo_gworld \<and> gw_money w' = gw_money demo_gworld)"
  by (rule only_leader_rules) (simp add: IsLeader_def IsRank_def demo_simps)

text \<open>
  When the leader removes the lowest rank, a member who held it keeps its number, and from
  then on has every right: the rights of a missing rank are 0, and 0 is not the value that the
  test for a right compares with.
\<close>

theorem deleted_rank_has_all_rights:
  assumes "guild_ok (gw_this w)" "IsLeader (pl_guid p) (gw_this w)" "length (g_ranks (gw_this w)) > 5"
    and "Guild_GetMember x (gw_this w) = Some m" "gm_rankId m = GetLowestRankId (gw_this w)"
  shows "\<forall>right. HasRankRight x right (gw_this (HandleRemoveLowestRank e p w))"
proof -
  have r: "ranks_ok (g_ranks (gw_this w))" using assms(1) by (simp add: guild_ok_but_def)
  let ?g = "gw_this w"
  let ?g' = "?g\<lparr>g_ranks := butlast (g_ranks ?g)\<rparr>"
  have size: "unat (GetRanksSize ?g) = length (g_ranks ?g)" "unat (GetLowestRankId ?g) = length (g_ranks ?g) - 1"
    using ranks_size [OF r] lowest_rank(3) [OF r] by simp_all
  have "unat (GetRanksSize ?g') = length (g_ranks ?g) - 1"
    using ranks_size [of ?g'] ranks_ok_butlast [OF r assms(3)] by simp
  then have "GetRankRights (gm_rankId m) ?g' = 0"
    using size assms(5) by (simp add: GetRankRights_def GetRankInfo_def word_less_nat_alt)
  moreover have "gw_this (HandleRemoveLowestRank e p w) = ?g'"
    using assms(2,3) size by (simp add: HandleRemoveLowestRank_def HandleRemoveRank_def Let_def guild_frame word_le_nat_alt)
  ultimately show ?thesis
    using assms(4) by (simp add: HasRankRight_def Guild_GetMember_def)
qed

theorem deleted_rank_has_all_rights_witness:
  "\<forall>right. HasRankRight 9 right (gw_this (HandleRemoveLowestRank demo_genv (demo_gplayer 7 ''Ann'') demo_gworld))"
  by (rule deleted_rank_has_all_rights [where m = "demo_member 9 ''Cid'' 5"])
    (use demo_guild_ok in \<open>simp_all add: IsLeader_def GetLowestRankId_def demo_simps\<close>)

text \<open>
  A leader who hands the guild over to himself stays leader but is demoted: he ends with the
  rank of an officer, so that no member has the rank of a guild master any more.
\<close>

theorem leader_to_self_demotes:
  assumes "guild_ok (gw_this w)" "g_leaderGuid (gw_this w) = pl_guid p"
    and "Guild_GetMember_by_name name (gw_this w) = Some me" "gm_guid me = pl_guid p"
  shows "let g = gw_this (HandleSetLeader e p name w)
         in g_leaderGuid g = pl_guid p \<and> map_option gm_rankId (Guild_GetMember (pl_guid p) g) = Some GR_OFFICER \<and>
            (\<forall>low m. omap_find (g_members g) low = Some m \<longrightarrow> gm_rankId m \<noteq> GR_GUILDMASTER)"
proof -
  let ?x = "pl_guid p"
  have x: "player_guid ?x" using assms(1,2) by (simp add: guild_ok_but_def)
  have me: "Guild_GetMember ?x (gw_this w) = Some me" using member_by_name_ok [OF assms(1,3)] assms(4) by simp
  define v where "v = SetLeaderGUID e ?x w"
  have ok: "omap_ok (g_members (gw_this w))" using assms(1) by (simp add: guild_ok_but_def)
  have vm: "g_members (gw_this v) = omap_set (guid_counter ?x) (me\<lparr>gm_rankId := GR_GUILDMASTER\<rparr>) (g_members (gw_this w))"
    using me by (simp add: v_def SetLeaderGUID_def ChangeRank_def Let_def on_gmember_def guild_frame Guild_GetMember_def)
  then have find_v: "omap_find (g_members (gw_this v)) = (omap_find (g_members (gw_this w)))
      (guid_counter ?x \<mapsto> me\<lparr>gm_rankId := GR_GUILDMASTER\<rparr>)" and ok_v: "omap_ok (g_members (gw_this v))"
    using ok by (simp_all add: om.find_put om.invar_put)
  have "g_members (gw_this (ChangeRank e ?x GR_OFFICER v)) =
      omap_set (guid_counter ?x) (me\<lparr>gm_rankId := GR_OFFICER\<rparr>) (g_members (gw_this v))"
    using find_v by (simp add: ChangeRank_def Let_def on_gmember_def guild_frame Guild_GetMember_def)
  then have find: "omap_find (g_members (gw_this (ChangeRank e ?x GR_OFFICER v))) =
      (omap_find (g_members (gw_this w)))(guid_counter ?x \<mapsto> me\<lparr>gm_rankId := GR_OFFICER\<rparr>)"
    using find_v ok_v by (simp add: om.find_put)
  have "gm_rankId m \<noteq> GR_GUILDMASTER" if "omap_find (g_members (gw_this w)) low = Some m" "low \<noteq> guid_counter ?x" for low m
    using assms(1,2) that by (fastforce simp: guild_ok_but_def member_ok_def)
  moreover have "gw_this (HandleSetLeader e p name w) = gw_this (ChangeRank e ?x GR_OFFICER v)"
    using assms(2-4) me by (simp add: HandleSetLeader_def IsLeader_def guild_frame v_def)
  moreover have "g_leaderGuid (gw_this (ChangeRank e ?x GR_OFFICER v)) = ?x"
    by (simp add: v_def guild_frame)
  ultimately show ?thesis by (auto simp: find Guild_GetMember_def Let_def)
qed

theorem leader_to_self_demotes_witness:
  "let g = gw_this (HandleSetLeader demo_genv (demo_gplayer 7 ''Ann'') ''Ann'' demo_gworld)
   in g_leaderGuid g = pl_guid (demo_gplayer 7 ''Ann'') \<and>
      map_option gm_rankId (Guild_GetMember (pl_guid (demo_gplayer 7 ''Ann'')) g) = Some GR_OFFICER \<and>
      (\<forall>low m. omap_find (g_members g) low = Some m \<longrightarrow> gm_rankId m \<noteq> GR_GUILDMASTER)"
  by (rule leader_to_self_demotes [where me = "demo_member 7 ''Ann'' 0"])
    (use demo_guild_ok in \<open>simp_all add: Guild_GetMember_by_name_def demo_simps\<close>)

text \<open>
  A player of a guild who sends the packet that declines an invitation is cut off from it: the
  player object has no guild any more, while the guild still lists the player as a member.
\<close>

theorem decline_unlinks_member:
  assumes "GetGuildById (gw_guild_of w (pl_guid p)) w = Some g" "Guild_GetMember (pl_guid p) g = Some m"
  shows "\<exists>w'. HandleGuildDeclineOpcode e p w = Some (Inr w') \<and> GetGuild p w' = None \<and>
           (\<exists>g'. GetGuildById (gw_guild_of w (pl_guid p)) w' = Some g' \<and> Guild_GetMember (pl_guid p) g' = Some m)"
  using assms
  by (simp add: HandleGuildDeclineOpcode_def GetGuild_def GetGuildById_def guild_frame Let_def)
    (simp add: SetInGuild_def Let_def)

theorem decline_unlinks_member_witness:
  "\<exists>w'. HandleGuildDeclineOpcode demo_genv (demo_gplayer 9 ''Cid'') demo_gworld = Some (Inr w') \<and>
     GetGuild (demo_gplayer 9 ''Cid'') w' = None \<and>
     (\<exists>g'. GetGuildById (gw_guild_of demo_gworld (pl_guid (demo_gplayer 9 ''Cid''))) w' = Some g' \<and>
        Guild_GetMember (pl_guid (demo_gplayer 9 ''Cid'')) g' = Some (demo_member 9 ''Cid'' 5))"
  by (rule decline_unlinks_member [where g = demo_guild]) (simp_all add: GetGuildById_def demo_simps)

section \<open>The money of the bank\<close>

definition total_money :: "guild_player \<Rightarrow> guild_world \<Rightarrow> int" where
  "total_money p w = uint (g_bankMoney (gw_this w)) + uint (gw_money w (pl_guid p))"

lemma LogBankEvent_money [guild_frame]:
  "g_bankMoney (gw_this (LogBankEvent e ev b lg it ct dt w)) = g_bankMoney (gw_this w)"
  "gw_money (LogBankEvent e ev b lg it ct dt w) = gw_money w"
  "g_ranks (gw_this (LogBankEvent e ev b lg it ct dt w)) = g_ranks (gw_this w)"
  "g_members (gw_this (LogBankEvent e ev b lg it ct dt w)) = g_members (gw_this w)"
  by (simp_all add: LogBankEvent_def Let_def case_prod_beta guild_frame)

lemma sint_uint32:
  fixes a :: uint32
  shows "uint a < 2 ^ 31 \<Longrightarrow> sint a = uint a" "\<not> uint a < 2 ^ 31 \<Longrightarrow> sint a = uint a - 2 ^ 32"
proof -
  have "sint a = signed_take_bit 31 (uint a)" by (simp add: sint_uint)
  moreover have "0 \<le> uint a" "uint a < 2 ^ 32" using uint_lt2p [of a] by simp_all
  moreover have "(uint a + 2 ^ 31) mod 2 ^ 32 = uint a - 2 ^ 31" if "\<not> uint a < 2 ^ 31"
    using that \<open>uint a < 2 ^ 32\<close> mod_add_self2 [of "uint a - 2 ^ 31" "2 ^ 32"] by (simp add: add.commute)
  ultimately show "uint a < 2 ^ 31 \<Longrightarrow> sint a = uint a" "\<not> uint a < 2 ^ 31 \<Longrightarrow> sint a = uint a - 2 ^ 32"
    by (simp_all add: signed_take_bit_eq_take_bit_shift take_bit_eq_mod)
qed

lemma ModifyMoney_add:
  assumes "a \<le> MAX_MONEY_AMOUNT"
  shows "ModifyMoney x a w =
    (if a = 0 then (True, w)
     else if gw_money w x < MAX_MONEY_AMOUNT - a then (True, w\<lparr>gw_money := (gw_money w)(x := gw_money w x + a)\<rparr>)
     else (False, gemit (TooMuchGold x) w))"
proof -
  have "\<not> sint a < 0" using assms sint_uint32(1) [of a] by (simp add: word_le_def not_less)
  then show ?thesis by (simp add: ModifyMoney_def Let_def)
qed


lemma purse_grows:
  fixes m n :: uint32
  shows "n \<le> MAX_MONEY_AMOUNT \<Longrightarrow> m < MAX_MONEY_AMOUNT - n \<Longrightarrow> m \<le> m + n"
  by (simp add: word_less_def word_le_def uint_sub_if' uint_plus_if')

lemma ModifyMoney_pay:
  assumes "0 < a" "uint a < 2 ^ 31" "a \<le> gw_money w x"
  shows "ModifyMoney x (- a) w = (True, w\<lparr>gw_money := (gw_money w)(x := gw_money w x - a)\<rparr>)"
proof -
  have "a \<noteq> 0" using assms(1) by auto
  then have "uint (- a) = 2 ^ 32 - uint a"
    using assms(1,2) by (simp add: uint_word_ariths zmod_zminus1_eq_if word_less_def)
  then have "sint (- a) < 0" using sint_uint32(2) [of "- a"] assms(1,2) by (simp add: word_less_def)
  then show ?thesis using assms(3) \<open>a \<noteq> 0\<close> by (auto simp: ModifyMoney_def Let_def not_less)
qed

text \<open>
  C23. Gold moves between a member's purse and the bank without being lost or made: a deposit of an
  amount that the member has (below 2^31, with room in the account) and every withdrawal, whether
  it is granted or refused, keep the sum of the account and the purse.
\<close>

theorem bank_money_conserved:
  shows "(0 < amount \<and> uint amount < 2 ^ 31 \<and> amount \<le> gw_money w (pl_guid p) \<and>
          uint (g_bankMoney (gw_this w)) + uint amount < 2 ^ 64 \<longrightarrow>
          total_money p (HandleMemberDepositMoney e p amount w) = total_money p w) \<and>
         total_money p (snd (HandleMemberWithdrawMoney e p amount False w)) = total_money p w"
proof
  show "0 < amount \<and> uint amount < 2 ^ 31 \<and> amount \<le> gw_money w (pl_guid p) \<and>
      uint (g_bankMoney (gw_this w)) + uint amount < 2 ^ 64 \<longrightarrow>
      total_money p (HandleMemberDepositMoney e p amount w) = total_money p w"
  proof
    assume a: "0 < amount \<and> uint amount < 2 ^ 31 \<and> amount \<le> gw_money w (pl_guid p) \<and>
      uint (g_bankMoney (gw_this w)) + uint amount < 2 ^ 64"
    have "uint (g_bankMoney (gw_this w) + ucast amount) = uint (g_bankMoney (gw_this w)) + uint amount"
      using a by (simp add: uint_word_ariths uint_up_ucast is_up)
    moreover have "uint (gw_money w (pl_guid p) - amount) = uint (gw_money w (pl_guid p)) - uint amount"
      using a by (simp add: uint_minus_simple_alt word_le_def uint_sub_if')
    ultimately show "total_money p (HandleMemberDepositMoney e p amount w) = total_money p w"
      using a by (simp add: total_money_def HandleMemberDepositMoney_def ModifyBankMoney_def Let_def guild_frame ModifyMoney_pay)
  qed
  define a where "a = min amount MAX_MONEY_AMOUNT"
  have a: "a \<le> MAX_MONEY_AMOUNT" by (simp add: a_def)
  let ?bank = "g_bankMoney (gw_this w)"
  let ?purse = "gw_money w (pl_guid p)"
  have bank: "uint (?bank - ucast a) = uint ?bank - uint a" if "\<not> ?bank < ucast a"
    using that by (simp add: not_less word_le_def uint_sub_if' uint_up_ucast is_up)
  have purse: "uint (?purse + a) = uint ?purse + uint a" if "?purse < MAX_MONEY_AMOUNT - a"
    using that a by (simp add: word_less_def word_le_def uint_sub_if' uint_plus_if')
  show "total_money p (snd (HandleMemberWithdrawMoney e p amount False w)) = total_money p w"
    using bank purse
    by (auto simp: HandleMemberWithdrawMoney_def a_def [symmetric] ModifyMoney_add [OF a] Let_def ModifyBankMoney_def
        total_money_def guild_frame split: option.split)
qed

theorem bank_money_conserved_witness:
  "total_money (demo_gplayer 9 ''Cid'') (HandleMemberDepositMoney demo_genv (demo_gplayer 9 ''Cid'') 250 demo_gworld) =
   total_money (demo_gplayer 9 ''Cid'') demo_gworld"
proof -
  have "(0 :: uint32) < 250 \<and> uint (250 :: uint32) < 2 ^ 31 \<and> 250 \<le> gw_money demo_gworld (pl_guid (demo_gplayer 9 ''Cid'')) \<and>
      uint (g_bankMoney (gw_this demo_gworld)) + uint (250 :: uint32) < 2 ^ 64"
    by (simp add: demo_simps)
  then show ?thesis
    using bank_money_conserved [of 250 demo_gworld "demo_gplayer 9 ''Cid''" demo_genv] by blast
qed

text \<open>
  C36. A deposit of more than 2^31 copper is always accepted: the amount is negative as a signed
  number, so the test whether the member has it succeeds, and paying it adds to the purse. The
  account grows by the whole amount and the purse does not shrink.
\<close>

theorem deposit_creates_money:
  assumes "uint amount > 2 ^ 31" "uint (g_bankMoney (gw_this w)) + uint amount < 2 ^ 64"
  shows "HasEnoughMoney (pl_guid p) amount w \<and>
         (let w' = HandleMemberDepositMoney e p amount w
          in uint (g_bankMoney (gw_this w')) = uint (g_bankMoney (gw_this w)) + uint amount \<and>
             gw_money w (pl_guid p) \<le> gw_money w' (pl_guid p))"
proof -
  have "sint amount < 0" using sint_uint32(2) [of amount] assms(1) uint_lt2p [of amount] by simp
  then have "HasEnoughMoney (pl_guid p) amount w" by (simp add: HasEnoughMoney_def)
  moreover have "uint (- amount) = 2 ^ 32 - uint amount"
    using assms(1) uint_lt2p [of amount] by (auto simp: uint_word_ariths zmod_zminus1_eq_if)
  then have neg: "- amount \<le> MAX_MONEY_AMOUNT" using assms(1) by (simp add: word_le_def)
  have bank: "uint (g_bankMoney (gw_this w) + ucast amount) = uint (g_bankMoney (gw_this w)) + uint amount"
    using assms(2) by (simp add: uint_word_ariths uint_up_ucast is_up)
  note purse = purse_grows [OF neg]
  ultimately show ?thesis
    using bank
    by (auto simp: HandleMemberDepositMoney_def ModifyBankMoney_def Let_def guild_frame ModifyMoney_add [OF neg]
        dest: purse)
qed

theorem deposit_creates_money_witness:
  "HasEnoughMoney (pl_guid (demo_gplayer 9 ''Cid'')) 0xFFFFFFFF demo_gworld \<and>
   (let w' = HandleMemberDepositMoney demo_genv (demo_gplayer 9 ''Cid'') 0xFFFFFFFF demo_gworld
    in uint (g_bankMoney (gw_this w')) = uint (g_bankMoney (gw_this demo_gworld)) + uint (0xFFFFFFFF :: uint32) \<and>
       gw_money demo_gworld (pl_guid (demo_gplayer 9 ''Cid'')) \<le> gw_money w' (pl_guid (demo_gplayer 9 ''Cid'')))"
  by (rule deposit_creates_money) (simp_all add: demo_simps)

text \<open>A withdrawal is refused, or it is paid and counted.\<close>

lemma LogBankEvent_leader [guild_frame]:
  "g_leaderGuid (gw_this (LogBankEvent e ev b lg it ct dt w)) = g_leaderGuid (gw_this w)"
  by (simp add: LogBankEvent_def Let_def case_prod_beta guild_frame)






section \<open>The event log\<close>

text \<open>The rows of a guild in the table of events, as the statements leave them.\<close>

definition event_row :: "uint32 \<Rightarrow> guild_effect \<Rightarrow> (uint32 \<rightharpoonup> field list) \<Rightarrow> (uint32 \<rightharpoonup> field list)" where
  "event_row guildId eff rows =
     (case eff of
        GuildSql nm (U32 g # U32 n # fs) \<Rightarrow>
          if g \<noteq> guildId then rows
          else if nm = ''CHAR_DEL_GUILD_EVENTLOG'' then rows(n := None)
          else if nm = ''CHAR_INS_GUILD_EVENTLOG'' then rows(n \<mapsto> fs) else rows
      | _ \<Rightarrow> rows)"

definition event_rows :: "uint32 \<Rightarrow> guild_effect list \<Rightarrow> (uint32 \<rightharpoonup> field list)" where
  "event_rows guildId effs = fold (event_row guildId) effs Map.empty"

definition row_of_entry :: "event_entry \<Rightarrow> field list" where
  "row_of_entry x = [U8 (ee_type x), U32 (ee_player1 x), U32 (ee_player2 x), U8 (ee_newRank x), U64 (ee_timestamp x)]"

definition LogEvents :: "guild_env \<Rightarrow> (uint8 \<times> uint32 \<times> uint32 \<times> uint8) list \<Rightarrow> guild_world \<Rightarrow> guild_world" where
  "LogEvents e evs = fold (\<lambda>(t, p1, p2, r). LogEvent e t p1 p2 r) evs"

definition nth_entry :: "guild_env \<Rightarrow> uint32 \<Rightarrow> nat \<Rightarrow> (uint8 \<times> uint32 \<times> uint32 \<times> uint8) list \<Rightarrow> nat \<Rightarrow> event_entry" where
  "nth_entry e guildId M evs i =
     (case evs ! i of (t, p1, p2, r) \<Rightarrow>
        \<lparr>ee_guildId = guildId, ee_guid = of_nat (i mod M), ee_timestamp = ge_now e, ee_type = t,
         ee_player1 = p1, ee_player2 = p2, ee_newRank = r\<rparr>)"

lemma guid_window:
  assumes "0 < M" "M < 2 ^ 32" "i < j" "j < i + M"
  shows "(of_nat (i mod M) :: uint32) \<noteq> of_nat (j mod M)"
proof
  assume "(of_nat (i mod M) :: uint32) = of_nat (j mod M)"
  moreover have "i mod M < 2 ^ 32" "j mod M < 2 ^ 32" using assms(1,2) by (meson mod_less_divisor less_trans)+
  ultimately have "i mod M = j mod M" by (simp add: of_nat_inverse word_of_nat_eq_iff take_bit_nat_eq_self)
  then have "M dvd j - i" using assms(3) by (metis mod_eq_dvd_iff_nat less_imp_le)
  then show False using assms(3,4) by (auto dest: dvd_imp_le)
qed

lemma next_guid_value:
  assumes "maxr \<noteq> 0" "lh_maxRecords h = maxr"
    and "lh_nextGUID h = (if n = 0 then 0xFFFFFFFF else of_nat ((n - 1) mod unat maxr))"
  shows "GetNextGUID h = (of_nat (n mod unat maxr), h\<lparr>lh_nextGUID := of_nat (n mod unat maxr)\<rparr>)"
proof (cases n)
  case (Suc k)
  let ?M = "unat maxr"
  let ?x = "of_nat (k mod ?M) :: uint32"
  have M: "0 < ?M" "?M < 2 ^ 32" using assms(1) unsigned_less [of maxr] by (simp_all add: unat_gt_0)
  then have k: "k mod ?M < ?M" by simp
  then have "k mod ?M < 4294967296" using M(2) by simp
  then have x: "unat ?x = k mod ?M" by (simp add: unat_of_nat)
  then have "?x \<noteq> 0xFFFFFFFF" using k M(2) by auto
  have "unat (?x + 1) = k mod ?M + 1" using x k M(2) by (simp add: unat_word_ariths)
  then have "unat ((?x + 1) mod maxr) = n mod ?M" using Suc by (simp add: unat_mod mod_Suc_eq)
  moreover have "n mod ?M < 4294967296" using M by (meson mod_less_divisor less_trans M(2) [simplified])
  ultimately have "(?x + 1) mod maxr = of_nat (n mod ?M)" by (simp add: word_unat_eq_iff unat_of_nat)
  with \<open>?x \<noteq> 0xFFFFFFFF\<close> show ?thesis using assms(2,3) Suc by (simp add: GetNextGUID_def Let_def)
qed (use assms in \<open>simp add: GetNextGUID_def\<close>)

definition log_state :: "guild_env \<Rightarrow> uint32 \<Rightarrow> uint32 \<Rightarrow> (uint8 \<times> uint32 \<times> uint32 \<times> uint8) list \<Rightarrow> guild_world \<Rightarrow> bool" where
  "log_state e i0 maxr evs w \<longleftrightarrow>
     (let h = g_eventLog (gw_this w); n = length evs; M = unat maxr
      in g_id (gw_this w) = i0 \<and> lh_maxRecords h = maxr \<and>
         lh_nextGUID h = (if n = 0 then 0xFFFFFFFF else of_nat ((n - 1) mod M)) \<and>
         lh_log h = map (nth_entry e i0 M evs) [n - M..<n] \<and>
         event_rows i0 (gw_out w) = map_of (map (\<lambda>x. (ee_guid x, row_of_entry x)) (lh_log h)))"

lemma window_append:
  assumes "0 < M"
  shows "(if length [n - M..<n] \<ge> M then tl [n - M..<n] else [n - M..<n]) @ [n] = [Suc n - M..<Suc n]"
proof (cases "M \<le> n")
  case True
  then have "[n - M..<n] = (n - M) # [Suc (n - M)..<n]" using assms by (simp add: upt_conv_Cons)
  then show ?thesis using True assms by (simp add: Suc_diff_le)
qed simp

lemma rows_append:
  assumes "0 < M" "M < 2 ^ 32"
  shows "(map_of (map (\<lambda>i. (of_nat (i mod M) :: uint32, R i)) [n - M..<n]))(of_nat (n mod M) \<mapsto> R n) =
         map_of (map (\<lambda>i. (of_nat (i mod M), R i)) [Suc n - M..<Suc n])"
proof -
  let ?f = "\<lambda>i. (of_nat (i mod M) :: uint32, R i)"
  have new: "(of_nat (n mod M) :: uint32) \<notin> fst ` set (map ?f [Suc n - M..<n])"
  proof
    assume "(of_nat (n mod M) :: uint32) \<in> fst ` set (map ?f [Suc n - M..<n])"
    then obtain i where "Suc n - M \<le> i" "i < n" "(of_nat (i mod M) :: uint32) = of_nat (n mod M)" by auto
    then show False using guid_window [OF assms, of i n] by simp
  qed
  have "map_of (map ?f [Suc n - M..<Suc n]) = [of_nat (n mod M) \<mapsto> R n] ++ map_of (map ?f [Suc n - M..<n])"
    using upt_Suc_append [of "Suc n - M" n] assms(1) by (simp del: upt_Suc)
  also have "\<dots> = (map_of (map ?f [Suc n - M..<n]))(of_nat (n mod M) \<mapsto> R n)"
    using new map_add_upd_left [of "of_nat (n mod M)" "map_of (map ?f [Suc n - M..<n])" Map.empty "R n"]
    by (simp add: dom_map_of_conv_image_fst)
  also have "\<dots> = (map_of (map ?f [n - M..<n]))(of_nat (n mod M) \<mapsto> R n)"
  proof (cases "M \<le> n")
    case True
    then have "[n - M..<n] = (n - M) # [Suc n - M..<n]" using assms(1) by (simp add: upt_conv_Cons Suc_diff_le)
    moreover have "(n - M) mod M = n mod M" using True by (metis mod_add_self2 le_add_diff_inverse2)
    ultimately show ?thesis by simp
  qed simp
  finally show ?thesis by simp
qed

lemma log_state_step:
  assumes "log_state e i0 maxr evs w" "maxr \<noteq> 0"
  shows "log_state e i0 maxr (evs @ [(t, p1, p2, r)]) (LogEvent e t p1 p2 r w)"
proof -
  let ?h = "g_eventLog (gw_this w)"
  let ?n = "length evs"
  let ?M = "unat maxr"
  let ?evs = "evs @ [(t, p1, p2, r)]"
  let ?f = "nth_entry e i0 ?M ?evs"
  have s: "g_id (gw_this w) = i0" "lh_maxRecords ?h = maxr"
    "lh_nextGUID ?h = (if ?n = 0 then 0xFFFFFFFF else of_nat ((?n - 1) mod ?M))"
    "lh_log ?h = map (nth_entry e i0 ?M evs) [?n - ?M..<?n]"
    "event_rows i0 (gw_out w) = map_of (map (\<lambda>x. (ee_guid x, row_of_entry x)) (lh_log ?h))"
    using assms(1) by (simp_all add: log_state_def Let_def)
  have M: "0 < ?M" "?M < 2 ^ 32" using assms(2) unsigned_less [of maxr] by (simp_all add: unat_gt_0)
  have log: "lh_log ?h = map ?f [?n - ?M..<?n]"
    using s(4) by (simp add: nth_entry_def nth_append)
  have entry: "\<lparr>ee_guildId = i0, ee_guid = of_nat (?n mod ?M), ee_timestamp = ge_now e, ee_type = t,
      ee_player1 = p1, ee_player2 = p2, ee_newRank = r\<rparr> = ?f ?n"
    by (simp add: nth_entry_def)
  have kept: "(if length (lh_log ?h) \<ge> ?M then tl (lh_log ?h) else lh_log ?h) @ [?f ?n] = map ?f [Suc ?n - ?M..<Suc ?n]"
    unfolding log window_append [OF M(1), symmetric] by (simp add: map_tl del: tl_upt)
  have gn: "GetNextGUID ?h = (of_nat (?n mod ?M), ?h\<lparr>lh_nextGUID := of_nat (?n mod ?M)\<rparr>)"
    by (rule next_guid_value [OF assms(2) s(2,3)])
  have w': "LogEvent e t p1 p2 r w = gemits (EventLogEntry_SaveToDB (?f ?n))
      (on_guild (\<lambda>g. g\<lparr>g_eventLog := ?h\<lparr>lh_nextGUID := of_nat (?n mod ?M), lh_log := map ?f [Suc ?n - ?M..<Suc ?n]\<rparr>\<rparr>) w)"
    using assms(2) s(1,2) kept
    by (cases "?M \<le> length (lh_log ?h)") (simp_all add: LogEvent_def gn AddLogEvent_def Let_def entry del: upt_Suc)
  have keys: "ee_guid (?f i) = of_nat (i mod ?M)" for i by (simp add: nth_entry_def split: prod.split)
  have "event_rows i0 (gw_out (LogEvent e t p1 p2 r w)) =
      (event_rows i0 (gw_out w))(of_nat (?n mod ?M) \<mapsto> row_of_entry (?f ?n))"
    by (simp add: w' gemits_def on_guild_def event_rows_def EventLogEntry_SaveToDB_def event_row_def row_of_entry_def keys)
      (simp add: nth_entry_def)
  also have "\<dots> = map_of (map (\<lambda>x. (ee_guid x, row_of_entry x)) (map ?f [Suc ?n - ?M..<Suc ?n]))"
    using rows_append [OF M, of "\<lambda>i. row_of_entry (?f i)" ?n] by (simp add: s(5) log keys comp_def del: upt_Suc)
  finally show ?thesis
    using s(1,2) by (simp add: log_state_def Let_def w' guild_frame del: upt_Suc)
qed

lemma LogEvents_state:
  assumes "log_state e i0 maxr [] w" "maxr \<noteq> 0"
  shows "log_state e i0 maxr evs (LogEvents e evs w)"
proof (induction evs rule: rev_induct)
  case (snoc ev evs)
  then show ?case using log_state_step [OF _ assms(2)] by (cases ev) (simp add: LogEvents_def)
qed (use assms in \<open>simp add: LogEvents_def\<close>)

text \<open>
  C20. A new event log with room for n records holds, after any sequence of events, the last n of
  them in order, under distinct record numbers; and the statements that were sent leave in the
  table exactly the rows of those records, each under its number.
\<close>

theorem event_log_is_last_events:
  assumes "g_eventLog (gw_this w) = LogHolder_new maxr" "maxr \<noteq> 0"
    and "event_rows (g_id (gw_this w)) (gw_out w) = Map.empty"
  shows "let w' = LogEvents e evs w; records = lh_log (g_eventLog (gw_this w'))
         in map (\<lambda>x. (ee_type x, ee_player1 x, ee_player2 x, ee_newRank x)) records = drop (length evs - unat maxr) evs \<and>
            distinct (map ee_guid records) \<and>
            event_rows (g_id (gw_this w)) (gw_out w') = map_of (map (\<lambda>x. (ee_guid x, row_of_entry x)) records)"
proof -
  let ?M = "unat maxr"
  let ?n = "length evs"
  let ?i0 = "g_id (gw_this w)"
  have "log_state e ?i0 maxr [] w"
    using assms by (simp add: log_state_def Let_def LogHolder_new_def)
  then have st: "log_state e ?i0 maxr evs (LogEvents e evs w)" by (rule LogEvents_state [OF _ assms(2)])
  then have log: "lh_log (g_eventLog (gw_this (LogEvents e evs w))) = map (nth_entry e ?i0 ?M evs) [?n - ?M..<?n]"
    by (simp add: log_state_def Let_def)
  have M: "0 < ?M" "?M < 2 ^ 32" using assms(2) unsigned_less [of maxr] by (simp_all add: unat_gt_0)
  have "inj_on (\<lambda>i. of_nat (i mod ?M) :: uint32) {?n - ?M..<?n}"
    using guid_window [OF M] by (intro linorder_inj_onI) auto
  then have "distinct (map (\<lambda>i. of_nat (i mod ?M) :: uint32) [?n - ?M..<?n])" by (simp add: distinct_map)
  moreover have "map (\<lambda>i. evs ! i) [?n - ?M..<?n] = drop (?n - ?M) evs"
    by (rule nth_equalityI) simp_all
  ultimately show ?thesis
    using st by (simp add: Let_def log comp_def nth_entry_def case_prod_beta log_state_def)
qed

theorem event_log_is_last_events_witness:
  "let w' = LogEvents demo_genv [(1, 7, 9, 0), (2, 9, 0, 0), (3, 7, 9, 4)] demo_gworld;
       records = lh_log (g_eventLog (gw_this w'))
   in map (\<lambda>x. (ee_type x, ee_player1 x, ee_player2 x, ee_newRank x)) records = [(2, 9, 0, 0), (3, 7, 9, 4)] \<and>
      distinct (map ee_guid records) \<and>
      event_rows (g_id (gw_this demo_gworld)) (gw_out w') = map_of (map (\<lambda>x. (ee_guid x, row_of_entry x)) records)"
  using event_log_is_last_events [of demo_gworld 2 demo_genv "[(1, 7, 9, 0), (2, 9, 0, 0), (3, 7, 9, 4)]"]
  by (simp add: demo_gworld_def demo_guild_def event_rows_def Let_def)

end
