(* ===== verification/Loot.thy ===== *)
theory Loot
  imports Packets ObjectGuids
begin

text \<open>
  The loot of a corpse, chest or container (src/src/server/game/Loot/Loot.h and Loot.cpp): its
  items, the lists of quest, free-for-all and conditional items each player may take, filling
  those lists, taking an item (\<open>Player::StoreLootItem\<close>), the notifications and the loot window.
  A player is named by guid. What the loot code asks of players, item templates, conditions and
  the random generator is the environment; the bags are seen through \<open>CanStoreNewItem\<close> and
  \<open>GetItemCount\<close>, which may depend on everything stored so far. A null template that is
  dereferenced, an index past the end of a vector, and an 8-bit loop counter that can never
  reach the size of its vector are faults. The build is the one without \<open>LICH_KING\<close>.
\<close>

section \<open>Data\<close>

abbreviation (input) "MAX_NR_LOOT_ITEMS \<equiv> (16 :: nat)"
abbreviation (input) "MAX_NR_QUEST_ITEMS \<equiv> (32 :: nat)"
abbreviation (input) "EQUIP_ERR_OK \<equiv> (0 :: uint8)"
abbreviation (input) "EQUIP_ERR_CANT_EQUIP_LEVEL_I \<equiv> (1 :: uint8)"
abbreviation (input) "EQUIP_ERR_ALREADY_LOOTED \<equiv> (49 :: uint8)"
abbreviation (input) "ITEM_FLAG_MULTI_DROP \<equiv> (0x800 :: uint32)"
abbreviation (input) "BAG_FAMILY_MASK_CURRENCY_TOKENS \<equiv> (0x2000 :: uint32)"

datatype loot_method = FREE_FOR_ALL | ROUND_ROBIN | MASTER_LOOT | GROUP_LOOT | NEED_BEFORE_GREED

datatype permission = ALL_PERMISSION | GROUP_PERMISSION | MASTER_PERMISSION | RESTRICTED_PERMISSION
  | ROUND_ROBIN_PERMISSION | OWNER_PERMISSION | NONE_PERMISSION

datatype loot_fault = NullTemplate | BadIndex | EndlessLoop | NullGroup | StackOverflow | DivideByZero

record item_template =
  it_Quality :: uint32
  it_Flags :: uint32
  it_Stackable :: uint32
  it_DisplayInfoID :: uint32
  it_MaxCount :: uint32
  it_StartQuest :: uint32
  it_BagFamily :: uint32
  it_RequiredLevel :: uint32

definition GetMaxStackSize :: "item_template \<Rightarrow> uint32" where
  "GetMaxStackSize t =
     (if it_Stackable t = 2147483647 \<or> sint (it_Stackable t) \<le> 0 then 0x7FFFFFFF - 1 else it_Stackable t)"

definition IsCurrencyToken :: "item_template \<Rightarrow> bool" where
  "IsCurrencyToken t \<longleftrightarrow> has_flag (it_BagFamily t) BAG_FAMILY_MASK_CURRENCY_TOKENS"

record loot_item =
  li_itemid :: uint32
  li_randomSuffix :: uint32
  li_randomPropertyId :: uint32
  li_conditions :: "uint32 list"
  li_rollWinnerGUID :: guid
  li_count :: uint8
  li_is_looted :: bool
  li_is_blocked :: bool
  li_freeforall :: bool
  li_is_underthreshold :: bool
  li_is_counted :: bool
  li_needs_quest :: bool
  li_follow_loot_rules :: bool

record not_normal_loot_item =
  nn_index :: uint8
  nn_is_looted :: bool

definition NotNormalLootItem_new :: "uint8 \<Rightarrow> not_normal_loot_item" where
  "NotNormalLootItem_new i = \<lparr>nn_index = i, nn_is_looted = False\<rparr>"

type_synonym not_normal_map = "(guid, not_normal_loot_item list) omap"

record loot =
  l_items :: "loot_item list"
  l_quest_items :: "loot_item list"
  l_gold :: uint32
  l_unlootedCount :: uint8
  l_roundRobinPlayer :: guid
  l_loot_type :: uint8
  l_maxDuplicates :: uint8
  l_containerID :: uint32
  l_PlayersLooting :: "guid oset"
  l_PlayerQuestItems :: not_normal_map
  l_PlayerFFAItems :: not_normal_map
  l_PlayerCondItems :: not_normal_map

definition Loot_new :: "uint32 \<Rightarrow> loot" where
  "Loot_new gold =
     \<lparr>l_items = [], l_quest_items = [], l_gold = gold, l_unlootedCount = 0, l_roundRobinPlayer = 0,
      l_loot_type = 0, l_maxDuplicates = 1, l_containerID = 0, l_PlayersLooting = [],
      l_PlayerQuestItems = [], l_PlayerFFAItems = [], l_PlayerCondItems = []\<rparr>"

text \<open>An entry of a loot table; the chance is the bit pattern of the source's \<open>float\<close>.\<close>

record loot_store_item =
  si_itemid :: uint32
  si_reference :: uint32
  si_chance :: uint32
  si_lootmode :: uint16
  si_needs_quest :: bool
  si_groupid :: uint8
  si_mincount :: uint8
  si_maxcount :: uint8
  si_conditions :: "uint32 list"

section \<open>Environment and effects\<close>

text \<open>
  The effects in order: a packet to a player, an item stored in a player's bags (item, count,
  random property), the message for a new item, the rows of a stored container that are deleted,
  calls on objects whose code is not part of the model (object, call, arguments), and prepared
  statements with their parameters.
\<close>

datatype loot_effect =
    LSend guid world_packet
  | LStore guid uint32 uint8 uint32
  | LNewItem guid uint32 uint32
  | LRemoveStoredItem uint32 uint32 uint8
  | LRemoveStoredMoney uint32
  | LCall guid string "uint32 list"
  | LStatement string "uint64 list"

record loot_group =
  lg_lowGuid :: uint32
  lg_lootMethod :: loot_method
  lg_masterLooterGuid :: guid
  lg_lootThreshold :: uint8
  lg_members :: "guid list"

record loot_env =
  le_template :: "uint32 \<Rightarrow> item_template option"
  le_meets :: "guid \<Rightarrow> uint32 list \<Rightarrow> bool"
  le_HasQuestForItem :: "loot_effect list \<Rightarrow> guid \<Rightarrow> uint32 \<Rightarrow> bool"
  le_questKnown :: "guid \<Rightarrow> uint32 \<Rightarrow> bool"
  le_GetItemCount :: "loot_effect list \<Rightarrow> guid \<Rightarrow> uint32 \<Rightarrow> uint32"
  le_CanStore :: "loot_effect list \<Rightarrow> guid \<Rightarrow> uint32 \<Rightarrow> uint8 \<Rightarrow> uint8"
  le_CanUseItem :: "guid \<Rightarrow> uint32 \<Rightarrow> bool"
  le_FindPlayer :: "guid \<Rightarrow> bool"
  le_FindConnected :: "guid \<Rightarrow> bool"
  le_session :: "guid \<Rightarrow> bool"
  le_mapOf :: "guid \<Rightarrow> uint32"
  le_inMap :: "guid \<Rightarrow> guid \<Rightarrow> bool"
  le_near :: "guid \<Rightarrow> guid \<Rightarrow> bool"
  le_passOnLoot :: "guid \<Rightarrow> bool"
  le_group :: "guid \<Rightarrow> loot_group option"
  le_urand :: "nat \<Rightarrow> uint32 \<Rightarrow> uint32 \<Rightarrow> uint32"
  le_suffix :: "nat \<Rightarrow> uint32 \<Rightarrow> uint32"
  le_property :: "nat \<Rightarrow> uint32 \<Rightarrow> uint32"
  le_moneyRate :: "uint32 \<Rightarrow> uint32"

text \<open>
  What the operations change besides the loot: which object each player is looting
  (\<open>GetLootGUID\<close>), the number of random values drawn so far, and the effects.
\<close>

record loot_world =
  lw_lootGuid :: "guid \<Rightarrow> guid"
  lw_draws :: nat
  lw_out :: "loot_effect list"

definition emit :: "loot_effect \<Rightarrow> loot_world \<Rightarrow> loot_world" where
  "emit e w = w\<lparr>lw_out := lw_out w @ [e]\<rparr>"

definition draw :: "loot_world \<Rightarrow> loot_world" where
  "draw w = w\<lparr>lw_draws := Suc (lw_draws w)\<rparr>"

definition send_to :: "guid \<Rightarrow> uint16 \<Rightarrow> field list \<Rightarrow> loot_world \<Rightarrow> loot_world" where
  "send_to p opcode fs = emit (LSend p \<lparr>wp_opcode = opcode, wp_fields = fs\<rparr>)"

definition SendLootRelease :: "guid \<Rightarrow> guid \<Rightarrow> loot_world \<Rightarrow> loot_world" where
  "SendLootRelease p g = send_to p 0x161 [U64 g, U8 1]"

definition SendLootError :: "guid \<Rightarrow> guid \<Rightarrow> uint8 \<Rightarrow> loot_world \<Rightarrow> loot_world" where
  "SendLootError p g err = send_to p 0x160 [U64 g, U8 0, U8 err]"

definition SendNotifyLootMoneyRemoved :: "guid \<Rightarrow> loot_world \<Rightarrow> loot_world" where
  "SendNotifyLootMoneyRemoved p = send_to p 0x165 []"

definition SendNotifyLootItemRemoved :: "guid \<Rightarrow> uint8 \<Rightarrow> loot_world \<Rightarrow> loot_world" where
  "SendNotifyLootItemRemoved p slot = send_to p 0x162 [U8 slot]"

text \<open>\<open>SendEquipError\<close> without item objects: the loot code only passes an item id, or 0.\<close>

definition SendEquipError :: "loot_env \<Rightarrow> guid \<Rightarrow> uint8 \<Rightarrow> uint32 \<Rightarrow> loot_world \<Rightarrow> loot_world" where
  "SendEquipError env p msg itemid = send_to p 0x112
     (U8 msg #
      (if msg = EQUIP_ERR_OK then []
       else [U64 0, U64 0, U8 0] @
         (if msg = EQUIP_ERR_CANT_EQUIP_LEVEL_I
          then [U32 (case le_template env itemid of None \<Rightarrow> 0 | Some t \<Rightarrow> it_RequiredLevel t)] else [])))"

definition StoreNewItem :: "guid \<Rightarrow> uint32 \<Rightarrow> uint8 \<Rightarrow> uint32 \<Rightarrow> loot_world \<Rightarrow> loot_world" where
  "StoreNewItem p itemid cnt prop_id = emit (LStore p itemid cnt prop_id)"

section \<open>Items\<close>

definition LootItem_new :: "loot_env \<Rightarrow> loot_store_item \<Rightarrow> loot_world \<Rightarrow> loot_item \<times> loot_world" where
  "LootItem_new env li w =
     (let n = lw_draws w; w1 = draw w; k = lw_draws w1; w2 = draw w1 in
      (\<lparr>li_itemid = si_itemid li, li_randomSuffix = le_suffix env n (si_itemid li),
        li_randomPropertyId = le_property env k (si_itemid li), li_conditions = si_conditions li,
        li_rollWinnerGUID = 0, li_count = 0, li_is_looted = False, li_is_blocked = False,
        li_freeforall = (case le_template env (si_itemid li) of None \<Rightarrow> False
          | Some t \<Rightarrow> has_flag (it_Flags t) ITEM_FLAG_MULTI_DROP),
        li_is_underthreshold = False, li_is_counted = False, li_needs_quest = si_needs_quest li,
        li_follow_loot_rules = False\<rparr>, w2))"

definition IsObjectMeetToConditions :: "loot_env \<Rightarrow> guid \<Rightarrow> uint32 list \<Rightarrow> bool" where
  "IsObjectMeetToConditions env p cs \<longleftrightarrow> cs = [] \<or> le_meets env p cs"

definition AllowedForPlayer ::
  "loot_env \<Rightarrow> loot_effect list \<Rightarrow> loot_item \<Rightarrow> guid \<Rightarrow> (loot_fault, bool) result" where
  "AllowedForPlayer env out it p =
     (if \<not> IsObjectMeetToConditions env p (li_conditions it) then Inr False
      else if li_needs_quest it then Inr (le_HasQuestForItem env out p (li_itemid it))
      else case le_template env (li_itemid it) of
          None \<Rightarrow> Inl NullTemplate
        | Some t \<Rightarrow>
            if it_StartQuest t \<noteq> 0 \<and> le_questKnown env p (it_StartQuest t) \<and>
              \<not> le_HasQuestForItem env out p (li_itemid it)
            then Inr False
            else Inr (\<not> (it_MaxCount t \<noteq> 0 \<and> it_MaxCount t \<le> le_GetItemCount env out p (li_itemid it))))"

definition clear :: "loot \<Rightarrow> loot" where
  "clear l = l\<lparr>l_PlayerQuestItems := [], l_PlayerFFAItems := [], l_PlayerCondItems := [],
     l_PlayersLooting := [], l_items := [], l_quest_items := [], l_gold := 0, l_unlootedCount := 0,
     l_roundRobinPlayer := 0, l_loot_type := 0\<rparr>"

definition empty_loot :: "loot \<Rightarrow> bool" where
  "empty_loot l \<longleftrightarrow> l_items l = [] \<and> l_gold l = 0"

definition isLooted :: "loot \<Rightarrow> bool" where
  "isLooted l \<longleftrightarrow> l_gold l = 0 \<and> l_unlootedCount l = 0"

definition AddLooter :: "guid \<Rightarrow> loot \<Rightarrow> loot" where
  "AddLooter p l = l\<lparr>l_PlayersLooting := oset_insert p (l_PlayersLooting l)\<rparr>"

definition RemoveLooter :: "guid \<Rightarrow> loot \<Rightarrow> loot" where
  "RemoveLooter p l = l\<lparr>l_PlayersLooting := oset_erase p (l_PlayersLooting l)\<rparr>"

text \<open>
  \<open>AddItem\<close> draws a count and splits it into stacks. The count of a stack is an 8-bit field.
\<close>

fun add_stacks ::
  "loot_env \<Rightarrow> loot_store_item \<Rightarrow> item_template \<Rightarrow> nat \<Rightarrow> uint32 \<Rightarrow> loot \<times> loot_world \<Rightarrow> loot \<times> loot_world" where
  "add_stacks env si t 0 cnt lw = lw"
| "add_stacks env si t (Suc n) cnt (l, w) =
     (let lootItems = (if si_needs_quest si then l_quest_items l else l_items l);
          limit = (if si_needs_quest si then MAX_NR_QUEST_ITEMS else MAX_NR_LOOT_ITEMS) in
      if length lootItems < limit then
        (let (it, w1) = LootItem_new env si w;
             it' = it\<lparr>li_count := ucast (min cnt (GetMaxStackSize t))\<rparr>;
             l1 = (if si_needs_quest si then l\<lparr>l_quest_items := l_quest_items l @ [it']\<rparr>
                   else l\<lparr>l_items := l_items l @ [it']\<rparr>);
             l2 = (if \<not> si_needs_quest si \<and> si_conditions si = [] \<and>
                      \<not> has_flag (it_Flags t) ITEM_FLAG_MULTI_DROP
                   then l1\<lparr>l_unlootedCount := l_unlootedCount l1 + 1\<rparr> else l1)
         in add_stacks env si t n (cnt - GetMaxStackSize t) (l2, w1))
      else (l, w))"

definition stacks_of :: "uint32 \<Rightarrow> uint32 \<Rightarrow> uint32" where
  "stacks_of cnt size_max = cnt div size_max + (if cnt mod size_max \<noteq> 0 then 1 else 0)"

definition AddItem :: "loot_env \<Rightarrow> loot_store_item \<Rightarrow> loot \<times> loot_world \<Rightarrow> loot \<times> loot_world" where
  "AddItem env si lw =
     (case lw of (l, w) \<Rightarrow>
      case le_template env (si_itemid si) of
        None \<Rightarrow> (l, w)
      | Some t \<Rightarrow>
          let cnt = le_urand env (lw_draws w) (ucast (si_mincount si)) (ucast (si_maxcount si)) in
          add_stacks env si t (unat (stacks_of cnt (GetMaxStackSize t))) cnt (l, draw w))"

section \<open>Queries\<close>

fun first_index :: "('a \<Rightarrow> bool) \<Rightarrow> 'a list \<Rightarrow> nat option" where
  "first_index P [] = None"
| "first_index P (x # xs) = (if P x then Some 0 else map_option Suc (first_index P xs))"

text \<open>
  A pointer to an item of the loot, with the pointers into the player's own lists that
  \<open>LootItemInSlot\<close> hands out.
\<close>

record slot_ref =
  sr_quest :: bool
  sr_index :: nat
  sr_qitem :: "nat option"
  sr_ffaitem :: "nat option"
  sr_conditem :: "nat option"

definition ref_item :: "loot \<Rightarrow> slot_ref \<Rightarrow> loot_item" where
  "ref_item l r = (if sr_quest r then l_quest_items l ! sr_index r else l_items l ! sr_index r)"

definition ref_update :: "(loot_item \<Rightarrow> loot_item) \<Rightarrow> slot_ref \<Rightarrow> loot \<Rightarrow> loot" where
  "ref_update f r l =
     (if sr_quest r then l\<lparr>l_quest_items := (l_quest_items l)[sr_index r := f (l_quest_items l ! sr_index r)]\<rparr>
      else l\<lparr>l_items := (l_items l)[sr_index r := f (l_items l ! sr_index r)]\<rparr>)"

definition own_entry :: "not_normal_map \<Rightarrow> guid \<Rightarrow> uint32 \<Rightarrow> (nat \<times> not_normal_loot_item) option" where
  "own_entry m p slot =
     (case omap_find m p of
        None \<Rightarrow> None
      | Some ql \<Rightarrow> map_option (\<lambda>j. (j, ql ! j)) (first_index (\<lambda>e. ucast (nn_index e) = slot) ql))"

definition LootItemInSlot :: "loot \<Rightarrow> uint32 \<Rightarrow> guid \<Rightarrow> (loot_fault, slot_ref option) result" where
  "LootItemInSlot l slot p =
     (let n = length (l_items l) in
      if unat slot \<ge> n then
        (case omap_find (l_PlayerQuestItems l) p of
           None \<Rightarrow> Inr None
         | Some ql \<Rightarrow>
             let j = unat slot - n in
             if j < length ql then
               (if unat (nn_index (ql ! j)) < length (l_quest_items l)
                then Inr (if nn_is_looted (ql ! j) then None
                  else Some \<lparr>sr_quest = True, sr_index = unat (nn_index (ql ! j)), sr_qitem = Some j,
                             sr_ffaitem = None, sr_conditem = None\<rparr>)
                else Inl BadIndex)
             else Inr None)
      else
        let it = l_items l ! unat slot;
            ffa = (if li_freeforall it then own_entry (l_PlayerFFAItems l) p slot else None);
            cond = (if \<not> li_freeforall it \<and> li_conditions it \<noteq> []
                    then own_entry (l_PlayerCondItems l) p slot else None);
            looted = (case ffa of Some (_, e) \<Rightarrow> nn_is_looted e
              | None \<Rightarrow> (case cond of Some (_, e) \<Rightarrow> nn_is_looted e | None \<Rightarrow> li_is_looted it))
        in Inr (if looted then None
             else Some \<lparr>sr_quest = False, sr_index = unat slot, sr_qitem = None,
                        sr_ffaitem = map_option fst ffa, sr_conditem = map_option fst cond\<rparr>))"

definition GetMaxSlotInLootFor :: "loot \<Rightarrow> guid \<Rightarrow> nat" where
  "GetMaxSlotInLootFor l p = length (l_items l) +
     (case omap_find (l_PlayerQuestItems l) p of None \<Rightarrow> 0 | Some ql \<Rightarrow> length ql)"

definition hasItemForAll :: "loot \<Rightarrow> bool" where
  "hasItemForAll l \<longleftrightarrow> l_gold l \<noteq> 0 \<or>
     list_ex (\<lambda>it. \<not> li_is_looted it \<and> \<not> li_freeforall it \<and> li_conditions it = []) (l_items l)"

fun has_open_entry :: "loot_item list \<Rightarrow> not_normal_loot_item list \<Rightarrow> (loot_fault, bool) result" where
  "has_open_entry its [] = Inr False"
| "has_open_entry its (e # es) =
     (if unat (nn_index e) < length its then
        (if \<not> nn_is_looted e \<and> \<not> li_is_looted (its ! unat (nn_index e)) then Inr True
         else has_open_entry its es)
      else Inl BadIndex)"

definition has_open_in :: "loot_item list \<Rightarrow> not_normal_map \<Rightarrow> guid \<Rightarrow> (loot_fault, bool) result" where
  "has_open_in its m p = (case omap_find m p of None \<Rightarrow> Inr False | Some es \<Rightarrow> has_open_entry its es)"

definition hasItemFor :: "loot \<Rightarrow> guid \<Rightarrow> (loot_fault, bool) result" where
  "hasItemFor l p =
     bind_result (has_open_in (l_quest_items l) (l_PlayerQuestItems l) p) (\<lambda>q. if q then Inr True else
     bind_result (has_open_in (l_items l) (l_PlayerFFAItems l) p) (\<lambda>f. if f then Inr True else
     has_open_in (l_items l) (l_PlayerCondItems l) p))"

definition hasOverThresholdItem :: "loot \<Rightarrow> (loot_fault, bool) result" where
  "hasOverThresholdItem l =
     (if list_ex (\<lambda>it. \<not> li_is_looted it \<and> \<not> li_is_underthreshold it \<and> \<not> li_freeforall it)
           (take 256 (l_items l)) then Inr True
      else if length (l_items l) < 256 then Inr False else Inl EndlessLoop)"

definition generateMoneyLoot :: "loot_env \<Rightarrow> uint32 \<Rightarrow> uint32 \<Rightarrow> loot \<times> loot_world \<Rightarrow> loot \<times> loot_world" where
  "generateMoneyLoot env minAmount maxAmount lw =
     (case lw of (l, w) \<Rightarrow>
      if maxAmount > 0 then
        (if maxAmount \<le> minAmount then (l\<lparr>l_gold := le_moneyRate env maxAmount\<rparr>, w)
         else if maxAmount - minAmount < 32700
         then (l\<lparr>l_gold := le_moneyRate env (le_urand env (lw_draws w) minAmount maxAmount)\<rparr>, draw w)
         else (l\<lparr>l_gold := push_bit 8 (le_moneyRate env
                 (le_urand env (lw_draws w) (drop_bit 8 minAmount) (drop_bit 8 maxAmount)))\<rparr>, draw w))
      else (l, w))"

section \<open>Notifications\<close>

text \<open>
  The loops walk over the looting players, tell those that are found and forget the others.
\<close>

definition notify_looters ::
  "loot_env \<Rightarrow> (guid \<Rightarrow> loot_world \<Rightarrow> loot_world) \<Rightarrow> loot \<times> loot_world \<Rightarrow> loot \<times> loot_world" where
  "notify_looters env tell lw =
     (case lw of (l, w) \<Rightarrow>
      (l\<lparr>l_PlayersLooting := filter (le_FindPlayer env) (l_PlayersLooting l)\<rparr>,
       fold (\<lambda>p w. if le_FindPlayer env p then tell p w else w) (l_PlayersLooting l) w))"

definition NotifyItemRemoved :: "loot_env \<Rightarrow> uint8 \<Rightarrow> loot \<times> loot_world \<Rightarrow> loot \<times> loot_world" where
  "NotifyItemRemoved env slot = notify_looters env (\<lambda>p. SendNotifyLootItemRemoved p slot)"

definition NotifyMoneyRemoved :: "loot_env \<Rightarrow> loot \<times> loot_world \<Rightarrow> loot \<times> loot_world" where
  "NotifyMoneyRemoved env = notify_looters env SendNotifyLootMoneyRemoved"

definition NotifyQuestItemRemoved :: "loot_env \<Rightarrow> uint8 \<Rightarrow> loot \<times> loot_world \<Rightarrow> loot \<times> loot_world" where
  "NotifyQuestItemRemoved env questIndex lw =
     notify_looters env
       (\<lambda>p w. case omap_find (l_PlayerQuestItems (fst lw)) p of
          None \<Rightarrow> w
        | Some pql \<Rightarrow> (case first_index (\<lambda>e. nn_index e = questIndex) pql of
            None \<Rightarrow> w
          | Some j \<Rightarrow> SendNotifyLootItemRemoved p (of_nat (length (l_items (fst lw)) + j)) w)) lw"

section \<open>Taking an item\<close>

definition mark_entry :: "guid \<Rightarrow> nat \<Rightarrow> not_normal_map \<Rightarrow> not_normal_map" where
  "mark_entry p j m =
     (case omap_find m p of
        None \<Rightarrow> m
      | Some ql \<Rightarrow> omap_set p (ql[j := (ql ! j)\<lparr>nn_is_looted := True\<rparr>]) m)"

text \<open>The part of \<open>StoreLootItem\<close> after the item has found a place in the bags.\<close>

definition take_item ::
  "loot_env \<Rightarrow> guid \<Rightarrow> uint8 \<Rightarrow> slot_ref \<Rightarrow> loot_item \<Rightarrow> loot \<times> loot_world \<Rightarrow> loot \<times> loot_world" where
  "take_item env p slot r it lw =
     (case lw of (l, w) \<Rightarrow>
      let w0 = StoreNewItem p (li_itemid it) (li_count it) (li_randomPropertyId it) w;
          (l1, w1) =
            (case sr_qitem r of
               Some j \<Rightarrow>
                 let l' = l\<lparr>l_PlayerQuestItems := mark_entry p j (l_PlayerQuestItems l)\<rparr> in
                 if li_freeforall it \<or> length (l_PlayerQuestItems l') = 1
                 then (l', SendNotifyLootItemRemoved p slot w0)
                 else NotifyQuestItemRemoved env (of_nat (sr_index r)) (l', w0)
             | None \<Rightarrow>
                 (case sr_ffaitem r of
                    Some j \<Rightarrow> (l\<lparr>l_PlayerFFAItems := mark_entry p j (l_PlayerFFAItems l)\<rparr>,
                      SendNotifyLootItemRemoved p slot w0)
                  | None \<Rightarrow> NotifyItemRemoved env slot
                      (case sr_conditem r of
                         Some j \<Rightarrow> l\<lparr>l_PlayerCondItems := mark_entry p j (l_PlayerCondItems l)\<rparr>
                       | None \<Rightarrow> l, w0)));
          l2 = (if li_freeforall it then l1 else ref_update (li_is_looted_update (\<lambda>_. True)) r l1);
          l3 = l2\<lparr>l_unlootedCount := l_unlootedCount l2 - 1\<rparr>;
          w2 = emit (LNewItem p (li_itemid it) (ucast (li_count it))) w1;
          w3 = (if l_containerID l > 0
                then emit (LRemoveStoredItem (l_containerID l) (li_itemid it) (li_count it)) w2 else w2)
      in (l3, w3))"

definition StoreLootItem ::
  "loot_env \<Rightarrow> guid \<Rightarrow> uint8 \<Rightarrow> loot \<times> loot_world \<Rightarrow> (loot_fault, loot \<times> loot_world) result" where
  "StoreLootItem env p slot lw =
     (case lw of (l, w) \<Rightarrow>
      bind_result (LootItemInSlot l (ucast slot) p) (\<lambda>r0.
      case r0 of
        None \<Rightarrow> Inr (l, SendEquipError env p EQUIP_ERR_ALREADY_LOOTED 0 w)
      | Some r \<Rightarrow>
          let it = ref_item l r in
          bind_result (AllowedForPlayer env (lw_out w) it p) (\<lambda>allowed.
          if \<not> allowed \<or> sr_qitem r = None \<and> li_is_blocked it \<or>
             li_rollWinnerGUID it \<noteq> 0 \<and> li_rollWinnerGUID it \<noteq> p
          then Inr (l, SendLootRelease p (lw_lootGuid w p) w)
          else
            let msg = le_CanStore env (lw_out w) p (li_itemid it) (li_count it) in
            if msg = EQUIP_ERR_OK then Inr (take_item env p slot r it (l, w))
            else Inr (l, SendEquipError env p msg (li_itemid it) w))))"

section \<open>Filling the lists of a player\<close>

text \<open>
  The loops run an 8-bit index over a vector. They are modelled for vectors of fewer than 256
  elements; with more the index never reaches the size, which is a fault.
\<close>

definition u8_loop :: "(nat \<Rightarrow> 's \<Rightarrow> (loot_fault, 's) result) \<Rightarrow> nat \<Rightarrow> 's \<Rightarrow> (loot_fault, 's) result" where
  "u8_loop body n s =
     (if n < 256 then fold_result body [0..<n] s else Inl EndlessLoop)"

definition set_list :: "guid \<Rightarrow> not_normal_loot_item list \<Rightarrow> not_normal_map \<Rightarrow> not_normal_map" where
  "set_list p ql m = (if ql = [] then m else omap_set p ql m)"

definition ffa_step ::
  "loot_env \<Rightarrow> loot_effect list \<Rightarrow> guid \<Rightarrow> loot_item list \<Rightarrow> nat \<Rightarrow>
   not_normal_loot_item list \<times> uint8 \<Rightarrow> (loot_fault, not_normal_loot_item list \<times> uint8) result" where
  "ffa_step env out p its i s =
     (case s of (ql, n) \<Rightarrow>
      let it = its ! i in
      if \<not> li_is_looted it \<and> li_freeforall it then
        bind_result (AllowedForPlayer env out it p) (\<lambda>ok.
          Inr (if ok then (ql @ [NotNormalLootItem_new (of_nat i)], n + 1) else (ql, n)))
      else Inr (ql, n))"

definition FillFFALoot ::
  "loot_env \<Rightarrow> loot_effect list \<Rightarrow> guid \<Rightarrow> loot \<Rightarrow> (loot_fault, loot) result" where
  "FillFFALoot env out p l =
     bind_result (u8_loop (ffa_step env out p (l_items l)) (length (l_items l)) ([], l_unlootedCount l))
       (\<lambda>(ql, n). Inr (l\<lparr>l_unlootedCount := n, l_PlayerFFAItems := set_list p ql (l_PlayerFFAItems l)\<rparr>))"

definition quest_entry_allowed ::
  "loot_env \<Rightarrow> loot_effect list \<Rightarrow> guid \<Rightarrow> loot_item \<Rightarrow> (loot_fault, bool) result" where
  "quest_entry_allowed env out p it =
     bind_result (AllowedForPlayer env out it p) (\<lambda>ok.
       Inr (ok \<or> li_follow_loot_rules it \<and>
         (case le_group env p of None \<Rightarrow> False
          | Some g \<Rightarrow> lg_lootMethod g = MASTER_LOOT \<and> lg_masterLooterGuid g = p \<or>
              lg_lootMethod g \<noteq> MASTER_LOOT)))"

definition blocks_quest_items :: "loot_env \<Rightarrow> guid \<Rightarrow> bool" where
  "blocks_quest_items env p \<longleftrightarrow>
     (case le_group env p of None \<Rightarrow> True
      | Some g \<Rightarrow> lg_lootMethod g \<noteq> GROUP_LOOT \<and> lg_lootMethod g \<noteq> ROUND_ROBIN)"

text \<open>The loop of \<open>FillQuestLoot\<close> stops when the loot window is full.\<close>

definition quest_step ::
  "loot_env \<Rightarrow> loot_effect list \<Rightarrow> guid \<Rightarrow> nat \<Rightarrow> nat \<Rightarrow>
   (loot_item list \<times> not_normal_loot_item list \<times> uint8 \<times> bool) \<Rightarrow>
   (loot_fault, loot_item list \<times> not_normal_loot_item list \<times> uint8 \<times> bool) result" where
  "quest_step env out p shown i s =
     (case s of (qs, ql, n, stop) \<Rightarrow>
      let it = qs ! i in
      if stop \<or> li_is_looted it then Inr s
      else bind_result (quest_entry_allowed env out p it) (\<lambda>ok.
        if \<not> ok then Inr s
        else
          let ql' = ql @ [NotNormalLootItem_new (of_nat i)];
              n' = (if li_freeforall it \<or> \<not> li_is_blocked it then n + 1 else n);
              qs' = (if blocks_quest_items env p then qs[i := it\<lparr>li_is_blocked := True\<rparr>] else qs)
          in Inr (qs', ql', n', shown + length ql' = MAX_NR_LOOT_ITEMS)))"

definition FillQuestLoot ::
  "loot_env \<Rightarrow> loot_effect list \<Rightarrow> guid \<Rightarrow> loot \<Rightarrow> (loot_fault, loot) result" where
  "FillQuestLoot env out p l =
     (if length (l_items l) = MAX_NR_LOOT_ITEMS then Inr l
      else bind_result
        (u8_loop (quest_step env out p (length (l_items l))) (length (l_quest_items l))
           (l_quest_items l, [], l_unlootedCount l, False))
        (\<lambda>(qs, ql, n, stop). Inr (l\<lparr>l_quest_items := qs, l_unlootedCount := n,
           l_PlayerQuestItems := set_list p ql (l_PlayerQuestItems l)\<rparr>)))"

definition cond_step ::
  "loot_env \<Rightarrow> loot_effect list \<Rightarrow> guid \<Rightarrow> nat \<Rightarrow>
   (loot_item list \<times> not_normal_loot_item list \<times> uint8) \<Rightarrow>
   (loot_fault, loot_item list \<times> not_normal_loot_item list \<times> uint8) result" where
  "cond_step env out p i s =
     (case s of (its, ql, n) \<Rightarrow>
      let it = its ! i in
      if \<not> li_is_looted it \<and> \<not> li_freeforall it then
        bind_result (AllowedForPlayer env out it p) (\<lambda>ok.
          if ok \<and> li_conditions it \<noteq> [] then
            Inr (its[i := it\<lparr>li_is_counted := True\<rparr>], ql @ [NotNormalLootItem_new (of_nat i)],
                 if li_is_counted it then n else n + 1)
          else Inr s)
      else Inr s)"

definition FillNonQuestNonFFAConditionalLoot ::
  "loot_env \<Rightarrow> loot_effect list \<Rightarrow> guid \<Rightarrow> loot \<Rightarrow> (loot_fault, loot) result" where
  "FillNonQuestNonFFAConditionalLoot env out p l =
     bind_result (u8_loop (cond_step env out p) (length (l_items l)) (l_items l, [], l_unlootedCount l))
       (\<lambda>(its, ql, n). Inr (l\<lparr>l_items := its, l_unlootedCount := n,
          l_PlayerCondItems := set_list p ql (l_PlayerCondItems l)\<rparr>))"

text \<open>
  The currency loop of \<open>FillNotNormalLootFor\<close>: a slot past the ordinary items is looked up in
  the vector of quest items, not through the player's own list.
\<close>

definition currency_step ::
  "loot_env \<Rightarrow> guid \<Rightarrow> nat \<Rightarrow> nat \<Rightarrow> loot \<times> loot_world \<Rightarrow> (loot_fault, loot \<times> loot_world) result" where
  "currency_step env p itemsSize i lw =
     (case lw of (l, w) \<Rightarrow>
      if i < length (l_items l) \<or> i - itemsSize < length (l_quest_items l) then
        let it = (if i < length (l_items l) then l_items l ! i else l_quest_items l ! (i - itemsSize)) in
        if \<not> li_is_looted it \<and> li_freeforall it then
          bind_result (AllowedForPlayer env (lw_out w) it p) (\<lambda>ok.
            if ok \<and> (case le_template env (li_itemid it) of None \<Rightarrow> False | Some t \<Rightarrow> IsCurrencyToken t)
            then StoreLootItem env p (of_nat i) (l, w) else Inr (l, w))
        else Inr (l, w)
      else Inl BadIndex)"

definition FillNotNormalLootFor ::
  "loot_env \<Rightarrow> guid \<Rightarrow> bool \<Rightarrow> loot \<times> loot_world \<Rightarrow> (loot_fault, loot \<times> loot_world) result" where
  "FillNotNormalLootFor env p present lw =
     (case lw of (l, w) \<Rightarrow>
      bind_result (if omap_has (l_PlayerQuestItems l) p then Inr l else FillQuestLoot env (lw_out w) p l) (\<lambda>l1.
      bind_result (if omap_has (l_PlayerFFAItems l1) p then Inr l1 else FillFFALoot env (lw_out w) p l1) (\<lambda>l2.
      bind_result (if omap_has (l_PlayerCondItems l2) p then Inr l2
                   else FillNonQuestNonFFAConditionalLoot env (lw_out w) p l2) (\<lambda>l3.
      if \<not> present then Inr (l3, w)
      else fold_result (currency_step env p (length (l_items l3))) [0..<GetMaxSlotInLootFor l3 p] (l3, w)))))"

section \<open>The loot window\<close>

abbreviation (input) "LOOT_SLOT_TYPE_ALLOW_LOOT \<equiv> (0 :: uint8)"
abbreviation (input) "LOOT_SLOT_TYPE_ROLL_ONGOING \<equiv> (1 :: uint8)"
abbreviation (input) "LOOT_SLOT_TYPE_MASTER \<equiv> (2 :: uint8)"
abbreviation (input) "LOOT_SLOT_TYPE_LOCKED \<equiv> (3 :: uint8)"
abbreviation (input) "LOOT_SLOT_TYPE_OWNER \<equiv> (4 :: uint8)"

definition write_loot_item :: "loot_env \<Rightarrow> loot_item \<Rightarrow> (loot_fault, field list) result" where
  "write_loot_item env it =
     (case le_template env (li_itemid it) of
        None \<Rightarrow> Inl NullTemplate
      | Some t \<Rightarrow> Inr [U32 (li_itemid it), U32 (ucast (li_count it)), U32 (it_DisplayInfoID t),
          U32 (li_randomSuffix it), U32 (li_randomPropertyId it)])"

text \<open>The slot type of an ordinary item for the viewer, or nothing when it is not displayed.\<close>

definition item_slot_type :: "loot_env \<Rightarrow> loot \<Rightarrow> guid \<Rightarrow> permission \<Rightarrow> loot_item \<Rightarrow> uint8 option" where
  "item_slot_type env l viewer perm it =
     (case perm of
        ALL_PERMISSION \<Rightarrow> Some LOOT_SLOT_TYPE_ALLOW_LOOT
      | OWNER_PERMISSION \<Rightarrow> Some LOOT_SLOT_TYPE_OWNER
      | NONE_PERMISSION \<Rightarrow> None
      | ROUND_ROBIN_PERMISSION \<Rightarrow>
          if l_roundRobinPlayer l \<noteq> 0 \<and> viewer \<noteq> l_roundRobinPlayer l then None
          else Some LOOT_SLOT_TYPE_ALLOW_LOOT
      | _ \<Rightarrow>
          if li_is_blocked it then
            (if perm = GROUP_PERMISSION then Some LOOT_SLOT_TYPE_ROLL_ONGOING
             else if perm = MASTER_PERMISSION then
               Some (case le_group env viewer of
                 None \<Rightarrow> LOOT_SLOT_TYPE_LOCKED
               | Some g \<Rightarrow> if lg_masterLooterGuid g = viewer then LOOT_SLOT_TYPE_MASTER
                           else LOOT_SLOT_TYPE_LOCKED)
             else Some LOOT_SLOT_TYPE_LOCKED)
          else if li_rollWinnerGUID it \<noteq> 0 then
            (if li_rollWinnerGUID it = viewer then Some LOOT_SLOT_TYPE_OWNER else None)
          else if l_roundRobinPlayer l = 0 \<or> viewer = l_roundRobinPlayer l \<or> \<not> li_is_underthreshold it
          then Some LOOT_SLOT_TYPE_ALLOW_LOOT
          else None)"

text \<open>The slot type of an item from one of the player's own lists that follows the loot rules.\<close>

definition ruled_slot_type :: "permission \<Rightarrow> loot_item \<Rightarrow> uint8" where
  "ruled_slot_type perm it =
     (let slotType = (if perm = OWNER_PERMISSION then LOOT_SLOT_TYPE_OWNER else LOOT_SLOT_TYPE_ALLOW_LOOT) in
      case perm of
        MASTER_PERMISSION \<Rightarrow> LOOT_SLOT_TYPE_MASTER
      | RESTRICTED_PERMISSION \<Rightarrow> if li_is_blocked it then LOOT_SLOT_TYPE_LOCKED else slotType
      | GROUP_PERMISSION \<Rightarrow> if \<not> li_is_blocked it then LOOT_SLOT_TYPE_ALLOW_LOOT else LOOT_SLOT_TYPE_ROLL_ONGOING
      | ROUND_ROBIN_PERMISSION \<Rightarrow>
          if \<not> li_is_blocked it then LOOT_SLOT_TYPE_ALLOW_LOOT else LOOT_SLOT_TYPE_ROLL_ONGOING
      | _ \<Rightarrow> slotType)"

definition view_item ::
  "loot_env \<Rightarrow> loot_effect list \<Rightarrow> loot \<Rightarrow> guid \<Rightarrow> permission \<Rightarrow> nat \<Rightarrow> field list list \<Rightarrow>
   (loot_fault, field list list) result" where
  "view_item env out l viewer perm i acc =
     (let it = l_items l ! i in
      if \<not> li_is_looted it \<and> \<not> li_freeforall it \<and> li_conditions it = [] then
        bind_result (AllowedForPlayer env out it viewer) (\<lambda>ok.
          case (if ok then item_slot_type env l viewer perm it else None) of
            None \<Rightarrow> Inr acc
          | Some st \<Rightarrow> bind_result (write_loot_item env it) (\<lambda>fs.
              Inr (acc @ [U8 (of_nat i) # fs @ [U8 st]])))
      else Inr acc)"

text \<open>One list of the player: the byte that names the slot, and the slot type, are arguments.\<close>

definition view_entry ::
  "loot_env \<Rightarrow> loot_item list \<Rightarrow> (nat \<Rightarrow> not_normal_loot_item \<Rightarrow> uint8) \<Rightarrow> (loot_item \<Rightarrow> uint8) \<Rightarrow>
   nat \<times> not_normal_loot_item \<Rightarrow> field list list \<Rightarrow> (loot_fault, field list list) result" where
  "view_entry env its slot st je acc =
     (case je of (j, e) \<Rightarrow>
      if unat (nn_index e) < length its then
        let it = its ! unat (nn_index e) in
        if \<not> nn_is_looted e \<and> \<not> li_is_looted it
        then bind_result (write_loot_item env it) (\<lambda>fs. Inr (acc @ [U8 (slot j e) # fs @ [U8 (st it)]]))
        else Inr acc
      else Inl BadIndex)"

definition view_list ::
  "loot_env \<Rightarrow> loot_item list \<Rightarrow> not_normal_map \<Rightarrow> guid \<Rightarrow> (nat \<Rightarrow> not_normal_loot_item \<Rightarrow> uint8) \<Rightarrow>
   (loot_item \<Rightarrow> uint8) \<Rightarrow> field list list \<Rightarrow> (loot_fault, field list list) result" where
  "view_list env its m viewer slot st acc =
     (case omap_find m viewer of None \<Rightarrow> Inr acc
      | Some es \<Rightarrow> fold_result (view_entry env its slot st) (enumerate 0 es) acc)"

definition loot_view_entries ::
  "loot_env \<Rightarrow> loot_effect list \<Rightarrow> loot \<Rightarrow> guid \<Rightarrow> permission \<Rightarrow> (loot_fault, field list list) result" where
  "loot_view_entries env out l viewer perm =
     (let slotType = (if perm = OWNER_PERMISSION then LOOT_SLOT_TYPE_OWNER else LOOT_SLOT_TYPE_ALLOW_LOOT) in
      bind_result (u8_loop (view_item env out l viewer perm) (length (l_items l)) []) (\<lambda>a.
      bind_result (view_list env (l_quest_items l) (l_PlayerQuestItems l) viewer
        (\<lambda>j e. of_nat (length (l_items l) + j))
        (\<lambda>it. if li_follow_loot_rules it then ruled_slot_type perm it else slotType) a) (\<lambda>b.
      bind_result (view_list env (l_items l) (l_PlayerFFAItems l) viewer (\<lambda>j e. nn_index e)
        (\<lambda>it. slotType) b) (\<lambda>c.
      view_list env (l_items l) (l_PlayerCondItems l) viewer (\<lambda>j e. nn_index e) (ruled_slot_type perm) c))))"

definition write_loot_view ::
  "loot_env \<Rightarrow> loot_effect list \<Rightarrow> loot \<Rightarrow> guid \<Rightarrow> permission \<Rightarrow> (loot_fault, field list) result" where
  "write_loot_view env out l viewer perm =
     (if perm = NONE_PERMISSION then Inr [U32 0, U8 0]
      else bind_result (loot_view_entries env out l viewer perm) (\<lambda>es.
        Inr (U32 (l_gold l) # U8 (of_nat (length es)) # concat es)))"

end
