(* ===== verification/LootTables.thy ===== *)
theory LootTables
  imports Loot
begin

text \<open>
  Loot tables (src/src/server/game/Loot/LootMgr.h and LootMgr.cpp): entries, groups of which one
  entry drops, templates of entries, references and groups, loading a table, rolling a template
  into a loot, filling a loot (\<open>Loot::FillLoot\<close>) and the queries for quest drops. Chances are
  \<open>float\<close>s: their bit patterns are kept and the float operations, like the random generator,
  belong to the environment. References make \<open>Process\<close> and the quest queries recursive; the
  first argument of these functions is the number of stack frames left, and a call without one
  is the fault \<open>StackOverflow\<close>.
\<close>

section \<open>Data\<close>

record loot_table_group =
  tg_ExplicitlyChanced :: "loot_store_item list"
  tg_EqualChanced :: "loot_store_item list"

record loot_template =
  lt_Entries :: "loot_store_item list"
  lt_Groups :: "loot_table_group option list"

text \<open>
  The float operations on chances, the random choices (the first argument counts the values
  drawn) and the reference store \<open>LootTemplates_Reference\<close>.
\<close>

record store_env =
  se_env :: loot_env
  se_chanceGe100 :: "uint32 \<Rightarrow> bool"
  se_chanceZero :: "uint32 \<Rightarrow> bool"
  se_chanceLow :: "uint32 \<Rightarrow> bool"
  se_rollReference :: "nat \<Rightarrow> bool \<Rightarrow> uint32 \<Rightarrow> bool"
  se_rollItem :: "nat \<Rightarrow> uint32 option \<Rightarrow> uint32 \<Rightarrow> bool"
  se_randChance :: "nat \<Rightarrow> uint32"
  se_sub :: "uint32 \<Rightarrow> uint32 \<Rightarrow> uint32"
  se_negative :: "uint32 \<Rightarrow> bool"
  se_reference :: "uint32 \<Rightarrow> loot_template option"

abbreviation (input) "MAX_ITEM_QUALITY \<equiv> (7 :: uint32)"

section \<open>Entries\<close>

definition StoreItem_Roll ::
  "store_env \<Rightarrow> bool \<Rightarrow> loot_store_item \<Rightarrow> loot_world \<Rightarrow> (loot_fault, bool \<times> loot_world) result" where
  "StoreItem_Roll se rate si w =
     (if se_chanceGe100 se (si_chance si) then Inr (True, w)
      else if si_reference si > 0
      then Inr (se_rollReference se (lw_draws w) rate (si_chance si), draw w)
      else case le_template (se_env se) (si_itemid si) of
          None \<Rightarrow> Inr (se_rollItem se (lw_draws w) None (si_chance si), draw w)
        | Some t \<Rightarrow>
            if it_Quality t < MAX_ITEM_QUALITY
            then Inr (se_rollItem se (lw_draws w) (Some (it_Quality t)) (si_chance si), draw w)
            else Inl BadIndex)"

definition StoreItem_IsValid :: "store_env \<Rightarrow> loot_store_item \<Rightarrow> bool" where
  "StoreItem_IsValid se si \<longleftrightarrow>
     si_mincount si \<noteq> 0 \<and>
     (if si_reference si = 0 then
        le_template (se_env se) (si_itemid si) \<noteq> None \<and>
        \<not> (se_chanceZero se (si_chance si) \<and> si_groupid si = 0) \<and>
        \<not> (\<not> se_chanceZero se (si_chance si) \<and> se_chanceLow se (si_chance si)) \<and>
        si_mincount si \<le> si_maxcount si
      else si_needs_quest si \<or> \<not> se_chanceZero se (si_chance si))"

section \<open>Groups\<close>

definition LootGroup_new :: loot_table_group where
  "LootGroup_new = \<lparr>tg_ExplicitlyChanced = [], tg_EqualChanced = []\<rparr>"

definition Group_AddEntry :: "store_env \<Rightarrow> loot_store_item \<Rightarrow> loot_table_group \<Rightarrow> loot_table_group" where
  "Group_AddEntry se si g =
     (if \<not> se_chanceZero se (si_chance si)
      then g\<lparr>tg_ExplicitlyChanced := tg_ExplicitlyChanced g @ [si]\<rparr>
      else g\<lparr>tg_EqualChanced := tg_EqualChanced g @ [si]\<rparr>)"

text \<open>\<open>LootGroupInvalidSelector\<close>: the duplicates are counted in eight bits.\<close>

fun too_many_duplicates :: "uint8 \<Rightarrow> uint32 \<Rightarrow> uint8 \<Rightarrow> loot_item list \<Rightarrow> bool" where
  "too_many_duplicates limit itemid found [] = False"
| "too_many_duplicates limit itemid found (it # its) =
     (if li_itemid it = itemid
      then found + 1 = limit \<or> too_many_duplicates limit itemid (found + 1) its
      else too_many_duplicates limit itemid found its)"

definition invalid_for :: "loot \<Rightarrow> uint16 \<Rightarrow> loot_store_item \<Rightarrow> bool" where
  "invalid_for l lootMode si \<longleftrightarrow>
     \<not> has_flag (si_lootmode si) lootMode \<or>
     too_many_duplicates (l_maxDuplicates l) (si_itemid si) 0 (l_items l)"

fun explicit_choice :: "store_env \<Rightarrow> uint32 \<Rightarrow> loot_store_item list \<Rightarrow> loot_store_item option" where
  "explicit_choice se r [] = None"
| "explicit_choice se r (si # sis) =
     (if se_chanceGe100 se (si_chance si) then Some si
      else let r' = se_sub se r (si_chance si) in
        if se_negative se r' then Some si else explicit_choice se r' sis)"

definition Group_Roll ::
  "store_env \<Rightarrow> loot_table_group \<Rightarrow> uint16 \<Rightarrow> loot \<Rightarrow> loot_world \<Rightarrow> loot_store_item option \<times> loot_world" where
  "Group_Roll se g lootMode l w =
     (let possible = filter (\<lambda>si. \<not> invalid_for l lootMode si) (tg_ExplicitlyChanced g);
          (c, w1) = (if possible \<noteq> []
             then (explicit_choice se (se_randChance se (lw_draws w)) possible, draw w) else (None, w))
      in case c of
           Some si \<Rightarrow> (Some si, w1)
         | None \<Rightarrow>
             let equal = filter (\<lambda>si. \<not> invalid_for l lootMode si) (tg_EqualChanced g) in
             if equal \<noteq> []
             then (Some (equal ! unat (le_urand (se_env se) (lw_draws w1) 0 (of_nat (length equal) - 1))),
                   draw w1)
             else (None, w1))"

definition Group_Process ::
  "store_env \<Rightarrow> uint16 \<Rightarrow> loot_table_group \<Rightarrow> loot \<times> loot_world \<Rightarrow> loot \<times> loot_world" where
  "Group_Process se lootMode g lw =
     (case lw of (l, w) \<Rightarrow>
      case Group_Roll se g lootMode l w of
        (None, w1) \<Rightarrow> (l, w1)
      | (Some si, w1) \<Rightarrow> AddItem (se_env se) si (l, w1))"

definition Group_HasQuestDrop :: "loot_table_group \<Rightarrow> bool" where
  "Group_HasQuestDrop g \<longleftrightarrow>
     list_ex si_needs_quest (tg_ExplicitlyChanced g) \<or> list_ex si_needs_quest (tg_EqualChanced g)"

definition Group_HasQuestDropForPlayer ::
  "loot_env \<Rightarrow> loot_effect list \<Rightarrow> guid \<Rightarrow> loot_table_group \<Rightarrow> bool" where
  "Group_HasQuestDropForPlayer env out p g \<longleftrightarrow>
     list_ex (\<lambda>si. le_HasQuestForItem env out p (si_itemid si)) (tg_ExplicitlyChanced g) \<or>
     list_ex (\<lambda>si. le_HasQuestForItem env out p (si_itemid si)) (tg_EqualChanced g)"

definition Group_CopyConditions :: "uint32 list \<Rightarrow> loot_table_group \<Rightarrow> loot_table_group" where
  "Group_CopyConditions conds g =
     g\<lparr>tg_ExplicitlyChanced := map (si_conditions_update (\<lambda>_. [])) (tg_ExplicitlyChanced g),
       tg_EqualChanced := map (si_conditions_update (\<lambda>_. [])) (tg_EqualChanced g)\<rparr>"

section \<open>Templates\<close>

definition LootTemplate_new :: loot_template where
  "LootTemplate_new = \<lparr>lt_Entries = [], lt_Groups = []\<rparr>"

definition AddEntry :: "store_env \<Rightarrow> loot_store_item \<Rightarrow> loot_template \<Rightarrow> loot_template" where
  "AddEntry se si t =
     (if si_groupid si > 0 \<and> si_reference si = 0 then
        let k = unat (si_groupid si);
            gs = (if k \<ge> length (lt_Groups t)
                  then lt_Groups t @ replicate (k - length (lt_Groups t)) None else lt_Groups t);
            g = (case gs ! (k - 1) of None \<Rightarrow> LootGroup_new | Some g \<Rightarrow> g)
        in t\<lparr>lt_Groups := gs[k - 1 := Some (Group_AddEntry se si g)]\<rparr>
      else t\<lparr>lt_Entries := lt_Entries t @ [si]\<rparr>)"

definition CopyConditions :: "uint32 list \<Rightarrow> loot_template \<Rightarrow> loot_template" where
  "CopyConditions conds t =
     t\<lparr>lt_Entries := map (si_conditions_update (\<lambda>_. [])) (lt_Entries t),
       lt_Groups := map (map_option (Group_CopyConditions conds)) (lt_Groups t)\<rparr>"

definition CopyConditions_item :: "loot_template \<Rightarrow> loot_item \<Rightarrow> loot_item" where
  "CopyConditions_item t it =
     (case find (\<lambda>si. si_itemid si = li_itemid it) (lt_Entries t) of
        None \<Rightarrow> it | Some si \<Rightarrow> it\<lparr>li_conditions := si_conditions si\<rparr>)"

fun push_condition :: "uint32 \<Rightarrow> uint32 \<Rightarrow> loot_store_item list \<Rightarrow> loot_store_item list option" where
  "push_condition entry cond [] = None"
| "push_condition entry cond (si # sis) =
     (if si_itemid si = entry then Some (si\<lparr>si_conditions := si_conditions si @ [cond]\<rparr> # sis)
      else map_option (Cons si) (push_condition entry cond sis))"

fun push_condition_groups ::
  "uint32 \<Rightarrow> uint32 \<Rightarrow> loot_table_group option list \<Rightarrow> loot_table_group option list option" where
  "push_condition_groups entry cond [] = None"
| "push_condition_groups entry cond (None # gs) = map_option (Cons None) (push_condition_groups entry cond gs)"
| "push_condition_groups entry cond (Some g # gs) =
     (case push_condition entry cond (tg_ExplicitlyChanced g) of
        Some sis \<Rightarrow> Some (Some (g\<lparr>tg_ExplicitlyChanced := sis\<rparr>) # gs)
      | None \<Rightarrow> (case push_condition entry cond (tg_EqualChanced g) of
          Some sis \<Rightarrow> Some (Some (g\<lparr>tg_EqualChanced := sis\<rparr>) # gs)
        | None \<Rightarrow> map_option (Cons (Some g)) (push_condition_groups entry cond gs)))"

text \<open>The condition is given with its source entry; \<open>None\<close> is a null or unloaded condition.\<close>

definition addConditionItem :: "(uint32 \<times> uint32) option \<Rightarrow> loot_template \<Rightarrow> bool \<times> loot_template" where
  "addConditionItem c t =
     (case c of
        None \<Rightarrow> (False, t)
      | Some (entry, cond) \<Rightarrow>
          case push_condition entry cond (lt_Entries t) of
            Some es \<Rightarrow> (True, t\<lparr>lt_Entries := es\<rparr>)
          | None \<Rightarrow> (case push_condition_groups entry cond (lt_Groups t) of
              Some gs \<Rightarrow> (True, t\<lparr>lt_Groups := gs\<rparr>)
            | None \<Rightarrow> (False, t)))"

definition isReference :: "uint32 \<Rightarrow> loot_template \<Rightarrow> bool" where
  "isReference i t \<longleftrightarrow> list_ex (\<lambda>si. si_itemid si = i \<and> si_reference si > 0) (lt_Entries t)"

section \<open>Rolling a template\<close>

definition process_entry ::
  "(uint8 \<Rightarrow> loot_template \<Rightarrow> loot \<times> loot_world \<Rightarrow> (loot_fault, loot \<times> loot_world) result) \<Rightarrow>
   store_env \<Rightarrow> bool \<Rightarrow> uint16 \<Rightarrow> loot_store_item \<Rightarrow> loot \<times> loot_world \<Rightarrow>
   (loot_fault, loot \<times> loot_world) result" where
  "process_entry rec se rate lootMode si lw =
     (case lw of (l, w) \<Rightarrow>
      if \<not> has_flag (si_lootmode si) lootMode then Inr (l, w)
      else bind_result (StoreItem_Roll se rate si w) (\<lambda>(hit, w1).
        if \<not> hit then Inr (l, w1)
        else if si_reference si > 0 then
          (case se_reference se (si_reference si) of
             None \<Rightarrow> Inr (l, w1)
           | Some t \<Rightarrow> fold_result (\<lambda>_. rec (si_groupid si) t) [0..<unat (si_maxcount si)] (l, w1))
        else Inr (AddItem (se_env se) si (l, w1))))"

primrec Process ::
  "nat \<Rightarrow> store_env \<Rightarrow> bool \<Rightarrow> uint16 \<Rightarrow> uint8 \<Rightarrow> loot_template \<Rightarrow> loot \<times> loot_world \<Rightarrow>
   (loot_fault, loot \<times> loot_world) result" where
  "Process 0 se rate lootMode groupId t lw = Inl StackOverflow"
| "Process (Suc d) se rate lootMode groupId t lw =
     (if groupId \<noteq> 0 then
        (if unat groupId > length (lt_Groups t) then Inr lw
         else case lt_Groups t ! (unat groupId - 1) of
             None \<Rightarrow> Inr lw
           | Some g \<Rightarrow> Inr (Group_Process se lootMode g lw))
      else
        bind_result (fold_result (process_entry (Process d se rate lootMode) se rate lootMode) (lt_Entries t) lw)
          (\<lambda>lw1. Inr (fold (\<lambda>g lw. case g of None \<Rightarrow> lw | Some g' \<Rightarrow> Group_Process se lootMode g' lw)
                       (lt_Groups t) lw1)))"

fun any_result :: "('a \<Rightarrow> ('e, bool) result) \<Rightarrow> 'a list \<Rightarrow> ('e, bool) result" where
  "any_result f [] = Inr False"
| "any_result f (x # xs) = bind_result (f x) (\<lambda>b. if b then Inr True else any_result f xs)"

primrec HasQuestDrop ::
  "nat \<Rightarrow> (uint32 \<Rightarrow> loot_template option) \<Rightarrow> uint8 \<Rightarrow> loot_template \<Rightarrow> (loot_fault, bool) result" where
  "HasQuestDrop 0 store groupId t = Inl StackOverflow"
| "HasQuestDrop (Suc d) store groupId t =
     (if groupId \<noteq> 0 then
        (if unat groupId > length (lt_Groups t) then Inr False
         else case lt_Groups t ! (unat groupId - 1) of
             None \<Rightarrow> Inl NullGroup
           | Some g \<Rightarrow> Inr (Group_HasQuestDrop g))
      else
        bind_result (any_result (\<lambda>si.
            if si_reference si > 0
            then (case store (si_reference si) of
                    None \<Rightarrow> Inr False
                  | Some t' \<Rightarrow> HasQuestDrop d store (si_groupid si) t')
            else Inr (si_needs_quest si)) (lt_Entries t))
          (\<lambda>b. Inr (b \<or> list_ex (\<lambda>g. case g of None \<Rightarrow> False | Some g' \<Rightarrow> Group_HasQuestDrop g') (lt_Groups t))))"

primrec HasQuestDropForPlayer ::
  "nat \<Rightarrow> loot_env \<Rightarrow> loot_effect list \<Rightarrow> (uint32 \<Rightarrow> loot_template option) \<Rightarrow> guid \<Rightarrow> uint8 \<Rightarrow> loot_template \<Rightarrow>
   (loot_fault, bool) result" where
  "HasQuestDropForPlayer 0 env out store p groupId t = Inl StackOverflow"
| "HasQuestDropForPlayer (Suc d) env out store p groupId t =
     (if groupId \<noteq> 0 then
        (if unat groupId > length (lt_Groups t) then Inr False
         else case lt_Groups t ! (unat groupId - 1) of
             None \<Rightarrow> Inr False
           | Some g \<Rightarrow> Inr (Group_HasQuestDropForPlayer env out p g))
      else
        bind_result (any_result (\<lambda>si.
            if si_reference si > 0
            then (case store (si_reference si) of
                    None \<Rightarrow> Inr False
                  | Some t' \<Rightarrow> HasQuestDropForPlayer d env out store p (si_groupid si) t')
            else Inr (le_HasQuestForItem env out p (si_itemid si))) (lt_Entries t))
          (\<lambda>b. Inr (b \<or> list_ex (\<lambda>g. case g of None \<Rightarrow> False
             | Some g' \<Rightarrow> Group_HasQuestDropForPlayer env out p g') (lt_Groups t))))"

section \<open>Stores\<close>

type_synonym loot_store = "(uint32, loot_template) omap"

text \<open>
  \<open>LoadLootTable\<close> over the rows of the query (entry, item). The iterator the source keeps from
  row to row always denotes the template of the row's entry.
\<close>

fun load_rows :: "store_env \<Rightarrow> (uint32 \<times> loot_store_item) list \<Rightarrow> loot_store \<Rightarrow> uint32 \<Rightarrow> loot_store \<times> uint32" where
  "load_rows se [] m n = (m, n)"
| "load_rows se ((entry, si) # rows) m n =
     (if StoreItem_IsValid se si
      then load_rows se rows
        (omap_set entry (AddEntry se si (case omap_find m entry of None \<Rightarrow> LootTemplate_new | Some t \<Rightarrow> t)) m)
        (n + 1)
      else load_rows se rows m n)"

definition LoadLootTable :: "store_env \<Rightarrow> (uint32 \<times> loot_store_item) list \<Rightarrow> loot_store \<times> uint32" where
  "LoadLootTable se rows = load_rows se rows [] 0"

definition GetLootFor :: "loot_store \<Rightarrow> uint32 \<Rightarrow> loot_template option" where
  "GetLootFor m i = omap_find m i"

definition HaveQuestLootFor :: "nat \<Rightarrow> loot_store \<Rightarrow> uint32 \<Rightarrow> (loot_fault, bool) result" where
  "HaveQuestLootFor d m i =
     (case omap_find m i of None \<Rightarrow> Inr False | Some t \<Rightarrow> HasQuestDrop d (omap_find m) 0 t)"

definition HaveQuestLootForPlayer ::
  "nat \<Rightarrow> loot_env \<Rightarrow> loot_effect list \<Rightarrow> loot_store \<Rightarrow> guid \<Rightarrow> uint32 \<Rightarrow> (loot_fault, bool) result" where
  "HaveQuestLootForPlayer d env out m p i =
     (case omap_find m i of None \<Rightarrow> Inr False
      | Some t \<Rightarrow> HasQuestDropForPlayer d env out (omap_find m) p 0 t)"

definition ResetConditions :: "loot_store \<Rightarrow> loot_store" where
  "ResetConditions m = map (\<lambda>(k, t). (k, CopyConditions [] t)) m"

section \<open>Filling a loot\<close>

definition mark_underthreshold :: "loot_env \<Rightarrow> uint8 \<Rightarrow> loot_item \<Rightarrow> loot_item" where
  "mark_underthreshold env threshold it =
     (case le_template env (li_itemid it) of
        None \<Rightarrow> it
      | Some t \<Rightarrow> if it_Quality t < ucast threshold then it\<lparr>li_is_underthreshold := True\<rparr> else it)"

definition fill_for_group ::
  "loot_env \<Rightarrow> guid \<Rightarrow> loot_group \<Rightarrow> loot \<times> loot_world \<Rightarrow> (loot_fault, bool \<times> loot \<times> loot_world) result" where
  "fill_for_group env p g lw =
     bind_result (fold_result
         (\<lambda>q lw. if le_inMap env q p then FillNotNormalLootFor env q (le_near env q p) lw else Inr lw)
         (lg_members g) ((fst lw)\<lparr>l_roundRobinPlayer := p\<rparr>, snd lw))
       (\<lambda>(l2, w2).
         if length (l_items l2) < 256
         then Inr (True, l2\<lparr>l_items := map (mark_underthreshold env (lg_lootThreshold g)) (l_items l2)\<rparr>, w2)
         else Inl EndlessLoop)"

definition FillLoot ::
  "nat \<Rightarrow> store_env \<Rightarrow> loot_store \<Rightarrow> bool \<Rightarrow> uint32 \<Rightarrow> guid option \<Rightarrow> bool \<Rightarrow> uint16 \<Rightarrow> loot \<times> loot_world \<Rightarrow>
   (loot_fault, bool \<times> loot \<times> loot_world) result" where
  "FillLoot d se store ratesAllowed lootId lootOwner personal lootMode lw =
     (case lootOwner of
        None \<Rightarrow> Inr (False, lw)
      | Some p \<Rightarrow>
      case GetLootFor store lootId of
        None \<Rightarrow> Inr (False, lw)
      | Some tab \<Rightarrow>
          bind_result (Process d se ratesAllowed lootMode 0 tab lw) (\<lambda>lw1.
          case (if personal then None else le_group (se_env se) p) of
            None \<Rightarrow> bind_result (FillNotNormalLootFor (se_env se) p True lw1) (\<lambda>lw2. Inr (True, lw2))
          | Some g \<Rightarrow> fill_for_group (se_env se) p g lw1))"

end
