(* ===== verification/LootLaws.thy ===== *)
theory LootLaws
  imports LootTables
begin

text \<open>
  Laws of the loot: the invariant under which no operation reads a null template or an index out
  of range, that every operation keeps it, what taking an item does, and that rolling a template
  ends when references do not go in a circle.
\<close>

section \<open>The invariant\<close>

definition known_items :: "loot_env \<Rightarrow> loot_item list \<Rightarrow> bool" where
  "known_items env its \<longleftrightarrow> list_all (\<lambda>it. le_template env (li_itemid it) \<noteq> None) its"

definition entries_ok :: "nat \<Rightarrow> not_normal_map \<Rightarrow> bool" where
  "entries_ok n m \<longleftrightarrow> omap_ok m \<and>
     list_all (\<lambda>(p, es). length es \<le> n \<and> list_all (\<lambda>e. unat (nn_index e) < n) es) m"

definition loot_ok :: "loot_env \<Rightarrow> loot \<Rightarrow> bool" where
  "loot_ok env l \<longleftrightarrow>
     length (l_items l) \<le> MAX_NR_LOOT_ITEMS \<and> length (l_quest_items l) \<le> MAX_NR_QUEST_ITEMS \<and>
     known_items env (l_items l) \<and> known_items env (l_quest_items l) \<and>
     entries_ok (length (l_quest_items l)) (l_PlayerQuestItems l) \<and>
     entries_ok (length (l_items l)) (l_PlayerFFAItems l) \<and>
     entries_ok (length (l_items l)) (l_PlayerCondItems l)"

lemma known_nth: "known_items env its \<Longrightarrow> i < length its \<Longrightarrow> \<exists>t. le_template env (li_itemid (its ! i)) = Some t"
  by (auto simp: known_items_def list_all_length)

lemma known_items_append [simp]:
  "known_items env (xs @ ys) \<longleftrightarrow> known_items env xs \<and> known_items env ys"
  by (simp add: known_items_def)

lemma known_items_update:
  "known_items env its \<Longrightarrow> li_itemid (f (its ! i)) = li_itemid (its ! i) \<Longrightarrow> known_items env (its[i := f (its ! i)])"
  by (cases "i < length its")
    (auto simp: known_items_def list_all_length nth_list_update list_update_beyond)

lemma entries_find:
  "entries_ok n m \<Longrightarrow> omap_find m p = Some es \<Longrightarrow> length es \<le> n \<and> (\<forall>e \<in> set es. unat (nn_index e) < n)"
  by (auto simp: entries_ok_def list_all_iff dest!: omap_find_in_set)

lemma entries_nth:
  "entries_ok n m \<Longrightarrow> omap_find m p = Some es \<Longrightarrow> j < length es \<Longrightarrow> unat (nn_index (es ! j)) < n"
  using entries_find nth_mem by blast

lemma omap_set_subset: "set (omap_set k v m) \<subseteq> insert (k, v) (set m)"
  by (induction k v m rule: omap_set.induct) auto

lemma entries_ok_set:
  "entries_ok n m \<Longrightarrow> length es \<le> n \<Longrightarrow> list_all (\<lambda>e. unat (nn_index e) < n) es \<Longrightarrow> entries_ok n (omap_set p es m)"
  using omap_set_subset [of p es m] by (fastforce simp: entries_ok_def omap_set_ok list_all_iff)

lemma entries_ok_set_list:
  "entries_ok n m \<Longrightarrow> length es \<le> n \<Longrightarrow> list_all (\<lambda>e. unat (nn_index e) < n) es \<Longrightarrow> entries_ok n (set_list p es m)"
  by (simp add: set_list_def entries_ok_set)

lemma entries_ok_mark:
  assumes "entries_ok n m"
  shows "entries_ok n (mark_entry p j m)"
proof (cases "omap_find m p")
  case (Some es)
  have "list_all (\<lambda>e. unat (nn_index e) < n) (es[j := (es ! j)\<lparr>nn_is_looted := True\<rparr>])"
    using entries_find [OF assms Some]
    by (cases "j < length es") (auto simp: list_all_length nth_list_update list_update_beyond)
  then show ?thesis
    using assms Some entries_find [OF assms Some] by (simp add: mark_entry_def entries_ok_set)
qed (use assms in \<open>simp add: mark_entry_def\<close>)

lemma entries_ok_mono: "entries_ok n m \<Longrightarrow> n \<le> k \<Longrightarrow> entries_ok k m"
  by (fastforce simp: entries_ok_def list_all_iff)

lemma first_index_Some:
  "first_index P xs = Some j \<longleftrightarrow> j < length xs \<and> P (xs ! j) \<and> (\<forall>i<j. \<not> P (xs ! i))"
proof (induction xs arbitrary: j)
  case (Cons x xs)
  show ?case
    by (cases j) (auto simp: Cons.IH less_Suc_eq_0_disj)
qed simp

section \<open>Faults and shape\<close>

lemma allowed_returns:
  "le_template env (li_itemid it) \<noteq> None \<Longrightarrow> \<exists>b. AllowedForPlayer env out it p = Inr b"
  by (auto simp: AllowedForPlayer_def split: option.split)

lemma allowed_yields:
  "le_template env (li_itemid it) \<noteq> None \<Longrightarrow> yields (AllowedForPlayer env out it p) (\<lambda>_. True)"
  using allowed_returns by (auto simp: yields_def)

lemma write_item_yields:
  "le_template env (li_itemid it) \<noteq> None \<Longrightarrow> yields (write_loot_item env it) (\<lambda>fs. length fs = 5)"
  by (auto simp: write_loot_item_def split: option.split)

text \<open>Where a slot leads: an item that exists, and an entry of the player's own list for it.\<close>

definition ref_ok :: "loot \<Rightarrow> slot_ref \<Rightarrow> bool" where
  "ref_ok l r \<longleftrightarrow> sr_index r < (if sr_quest r then length (l_quest_items l) else length (l_items l))"

lemma slot_yields:
  assumes "loot_ok env l"
  shows "yields (LootItemInSlot l slot p) (\<lambda>r. case r of None \<Rightarrow> True | Some r' \<Rightarrow> ref_ok l r')"
proof (cases "unat slot \<ge> length (l_items l)")
  case True
  then show ?thesis
    using assms entries_nth [of "length (l_quest_items l)" "l_PlayerQuestItems l" p]
    by (auto simp: LootItemInSlot_def Let_def loot_ok_def ref_ok_def split: option.split)
next
  case False
  then show ?thesis by (auto simp: LootItemInSlot_def Let_def ref_ok_def)
qed

lemma ref_item_known:
  "loot_ok env l \<Longrightarrow> ref_ok l r \<Longrightarrow> le_template env (li_itemid (ref_item l r)) \<noteq> None"
  using known_nth [of env "l_items l" "sr_index r"] known_nth [of env "l_quest_items l" "sr_index r"]
  by (auto simp: loot_ok_def ref_ok_def ref_item_def split: if_splits)

lemma loot_ok_unlooted [simp]: "loot_ok env (l\<lparr>l_unlootedCount := n\<rparr>) = loot_ok env l"
  and loot_ok_looting [simp]: "loot_ok env (l\<lparr>l_PlayersLooting := ps\<rparr>) = loot_ok env l"
  and loot_ok_gold [simp]: "loot_ok env (l\<lparr>l_gold := g\<rparr>) = loot_ok env l"
  and loot_ok_robin [simp]: "loot_ok env (l\<lparr>l_roundRobinPlayer := q\<rparr>) = loot_ok env l"
  by (simp_all add: loot_ok_def)

lemma loot_ok_marks:
  "loot_ok env l \<Longrightarrow> loot_ok env (l\<lparr>l_PlayerQuestItems := mark_entry p j (l_PlayerQuestItems l)\<rparr>)"
  "loot_ok env l \<Longrightarrow> loot_ok env (l\<lparr>l_PlayerFFAItems := mark_entry p j (l_PlayerFFAItems l)\<rparr>)"
  "loot_ok env l \<Longrightarrow> loot_ok env (l\<lparr>l_PlayerCondItems := mark_entry p j (l_PlayerCondItems l)\<rparr>)"
  by (simp_all add: loot_ok_def entries_ok_mark)

lemma loot_ok_ref_update:
  "loot_ok env l \<Longrightarrow> (\<And>it. li_itemid (f it) = li_itemid it) \<Longrightarrow> loot_ok env (ref_update f r l)"
  by (simp add: loot_ok_def ref_update_def known_items_update)

lemma notify_loot [simp]:
  "fst (notify_looters env tell (l, w)) = l\<lparr>l_PlayersLooting := filter (le_FindPlayer env) (l_PlayersLooting l)\<rparr>"
  by (simp add: notify_looters_def)

lemmas notify_defs = NotifyItemRemoved_def NotifyMoneyRemoved_def NotifyQuestItemRemoved_def

lemma take_item_ok: "loot_ok env l \<Longrightarrow> loot_ok env (fst (take_item env p slot r it (l, w)))"
  by (auto simp: take_item_def Let_def notify_defs notify_looters_def loot_ok_marks loot_ok_ref_update
      split: option.split)

lemma store_yields:
  assumes "loot_ok env l"
  shows "yields (StoreLootItem env p slot (l, w)) (\<lambda>(l', w'). loot_ok env l')"
proof -
  obtain r0 where r0: "LootItemInSlot l (ucast slot) p = Inr r0"
    and ok: "case r0 of None \<Rightarrow> True | Some r \<Rightarrow> ref_ok l r"
    using slot_yields [OF assms] by (auto simp: yields_def)
  show ?thesis
  proof (cases r0)
    case (Some r)
    with ok have "ref_ok l r" by simp
    from allowed_returns [OF ref_item_known [OF assms this]] obtain b where
      "AllowedForPlayer env (lw_out w) (ref_item l r) p = Inr b" by blast
    then show ?thesis
      using Some r0 assms take_item_ok [OF assms, of p slot r "ref_item l r" w]
      by (auto simp: StoreLootItem_def Let_def split: prod.split)
  qed (use assms r0 in \<open>simp add: StoreLootItem_def\<close>)
qed

section \<open>Filling\<close>

lemma yields_fold_upt:
  assumes "I k s" and "k \<le> n" and "\<And>i s. k \<le> i \<Longrightarrow> i < n \<Longrightarrow> I i s \<Longrightarrow> yields (f i s) (I (Suc i))"
  shows "yields (fold_result f [k..<n] s) (I n)"
  using assms
proof (induction "n - k" arbitrary: k s)
  case (Suc d)
  then have "k < n" by simp
  then have "yields (f k s) (I (Suc k))" using Suc.prems by simp
  moreover have "yields (fold_result f [Suc k..<n] s') (I n)" if "I (Suc k) s'" for s'
    using Suc.hyps(2) Suc.prems that \<open>k < n\<close> by (intro Suc.hyps(1)) simp_all
  ultimately show ?case using \<open>k < n\<close> by (simp add: upt_conv_Cons yields_bindI)
qed simp

lemma u8_loop_yields:
  assumes "n < 256" and "I 0 s" and "\<And>i s. i < n \<Longrightarrow> I i s \<Longrightarrow> yields (body i s) (I (Suc i))"
  shows "yields (u8_loop body n s) (I n)"
  using assms by (auto simp: u8_loop_def intro!: yields_fold_upt)

text \<open>A list built by a loop over the indices below \<open>i\<close>.\<close>

definition built :: "nat \<Rightarrow> nat \<Rightarrow> not_normal_loot_item list \<Rightarrow> bool" where
  "built n i ql \<longleftrightarrow> length ql \<le> i \<and> list_all (\<lambda>e. unat (nn_index e) < n) ql"

lemma built_Nil [simp]: "built n i []"
  by (simp add: built_def)

lemma built_Suc: "built n i ql \<Longrightarrow> built n (Suc i) ql"
  by (simp add: built_def)

lemma built_snoc: "built n i ql \<Longrightarrow> i < n \<Longrightarrow> n < 256 \<Longrightarrow> built n (Suc i) (ql @ [NotNormalLootItem_new (of_nat i)])"
  by (simp add: built_def NotNormalLootItem_new_def unat_of_nat take_bit_nat_eq_self)

lemma ffa_step_yields:
  assumes "known_items env its" and "i < length its" and "length its < 256" and "built (length its) i (fst s)"
  shows "yields (ffa_step env out p its i s) (\<lambda>s'. built (length its) (Suc i) (fst s'))"
proof -
  obtain b where "AllowedForPlayer env out (its ! i) p = Inr b"
    using known_nth [OF assms(1,2)] allowed_returns by (metis option.distinct(1))
  then show ?thesis
    using assms by (cases s) (auto simp: ffa_step_def Let_def built_Suc built_snoc)
qed

lemma fill_ffa_yields:
  assumes "loot_ok env l"
  shows "yields (FillFFALoot env out p l) (loot_ok env)"
proof -
  let ?its = "l_items l"
  have k: "known_items env ?its" and n: "length ?its < 256" using assms by (auto simp: loot_ok_def)
  have "yields (u8_loop (ffa_step env out p ?its) (length ?its) ([], l_unlootedCount l))
      (\<lambda>s. built (length ?its) (length ?its) (fst s))"
    by (rule u8_loop_yields [where I = "\<lambda>i s. built (length ?its) i (fst s)"])
      (use n k in \<open>auto intro: ffa_step_yields\<close>)
  then show ?thesis
    unfolding FillFFALoot_def
    by (rule yields_bindI) (use assms in \<open>auto simp: loot_ok_def built_def entries_ok_set_list\<close>)
qed

lemma cond_step_yields:
  assumes "known_items env (fst s)" and "length (fst s) = n" and "i < n" and "n < 256" and "built n i (fst (snd s))"
  shows "yields (cond_step env out p i s)
    (\<lambda>s'. known_items env (fst s') \<and> length (fst s') = n \<and> built n (Suc i) (fst (snd s')))"
proof -
  obtain its ql k where s: "s = (its, ql, k)" by (cases s) auto
  obtain b where "AllowedForPlayer env out (its ! i) p = Inr b"
    using known_nth [of env its i] allowed_returns assms s by (metis fst_conv option.distinct(1))
  then show ?thesis
    using assms s known_items_update [of env its "\<lambda>it. it\<lparr>li_is_counted := True\<rparr>" i]
    by (auto simp: cond_step_def Let_def built_Suc built_snoc)
qed

lemma fill_cond_yields:
  assumes "loot_ok env l"
  shows "yields (FillNonQuestNonFFAConditionalLoot env out p l) (loot_ok env)"
proof -
  let ?n = "length (l_items l)"
  have k: "known_items env (l_items l)" and n: "?n < 256" using assms by (auto simp: loot_ok_def)
  have "yields (u8_loop (cond_step env out p) ?n (l_items l, [], l_unlootedCount l))
      (\<lambda>s. known_items env (fst s) \<and> length (fst s) = ?n \<and> built ?n ?n (fst (snd s)))"
    by (rule u8_loop_yields
        [where I = "\<lambda>i s. known_items env (fst s) \<and> length (fst s) = ?n \<and> built ?n i (fst (snd s))"])
      (use n k in \<open>auto intro: cond_step_yields\<close>)
  then show ?thesis
    unfolding FillNonQuestNonFFAConditionalLoot_def
    by (rule yields_bindI) (use assms in \<open>auto simp: loot_ok_def built_def entries_ok_set_list\<close>)
qed

lemma quest_step_yields:
  assumes "known_items env (fst s)" and "length (fst s) = n" and "i < n" and "n < 256" and "built n i (fst (snd s))"
  shows "yields (quest_step env out p shown i s)
    (\<lambda>s'. known_items env (fst s') \<and> length (fst s') = n \<and> built n (Suc i) (fst (snd s')))"
proof -
  obtain qs ql k stop where s: "s = (qs, ql, k, stop)" by (cases s) auto
  obtain b where "AllowedForPlayer env out (qs ! i) p = Inr b"
    using known_nth [of env qs i] allowed_returns assms s by (metis fst_conv option.distinct(1))
  then show ?thesis
    using assms s known_items_update [of env qs "\<lambda>it. it\<lparr>li_is_blocked := True\<rparr>" i]
    by (auto simp: quest_step_def quest_entry_allowed_def Let_def built_Suc built_snoc)
qed

lemma fill_quest_yields:
  assumes "loot_ok env l"
  shows "yields (FillQuestLoot env out p l) (loot_ok env)"
proof -
  let ?n = "length (l_quest_items l)" and ?m = "length (l_items l)"
  have k: "known_items env (l_quest_items l)" and n: "?n < 256" using assms by (auto simp: loot_ok_def)
  have "yields (u8_loop (quest_step env out p ?m) ?n (l_quest_items l, [], l_unlootedCount l, False))
      (\<lambda>s. known_items env (fst s) \<and> length (fst s) = ?n \<and> built ?n ?n (fst (snd s)))"
    by (rule u8_loop_yields
        [where I = "\<lambda>i s. known_items env (fst s) \<and> length (fst s) = ?n \<and> built ?n i (fst (snd s))"])
      (use n k in \<open>auto intro: quest_step_yields\<close>)
  then have "yields (bind_result (u8_loop (quest_step env out p ?m) ?n (l_quest_items l, [], l_unlootedCount l, False))
        (\<lambda>(qs, ql, n, stop). Inr (l\<lparr>l_quest_items := qs, l_unlootedCount := n,
           l_PlayerQuestItems := set_list p ql (l_PlayerQuestItems l)\<rparr>))) (loot_ok env)"
    by (rule yields_bindI) (use assms in \<open>auto simp: loot_ok_def built_def entries_ok_set_list\<close>)
  then show ?thesis using assms by (simp add: FillQuestLoot_def)
qed

text \<open>Taking an item changes neither the number of items nor the lengths of the players' lists.\<close>

definition sizes :: "loot \<Rightarrow> nat \<times> nat" where
  "sizes l = (length (l_items l), length (l_quest_items l))"

lemma take_item_sizes: "sizes (fst (take_item env p slot r it (l, w))) = sizes l"
  by (auto simp: take_item_def Let_def notify_defs notify_looters_def ref_update_def sizes_def
      split: option.split)

lemma store_cases:
  assumes "StoreLootItem env p slot (l, w) = Inr (l', w')"
  obtains (refused) q opcode fs where "l' = l" and "w' = send_to q opcode fs w"
  | (taken) r where "LootItemInSlot l (ucast slot) p = Inr (Some r)"
      and "AllowedForPlayer env (lw_out w) (ref_item l r) p = Inr True"
      and "sr_qitem r = None \<longrightarrow> \<not> li_is_blocked (ref_item l r)"
      and "li_rollWinnerGUID (ref_item l r) = 0 \<or> li_rollWinnerGUID (ref_item l r) = p"
      and "(l', w') = take_item env p slot r (ref_item l r) (l, w)"
proof -
  from assms obtain r0 where r0: "LootItemInSlot l (ucast slot) p = Inr r0"
    by (auto simp: StoreLootItem_def bind_result_Inr_iff)
  show thesis
  proof (cases r0)
    case None
    with assms r0 show thesis by (auto simp: StoreLootItem_def SendEquipError_def intro: refused)
  next
    case (Some r)
    with assms r0 obtain b where b: "AllowedForPlayer env (lw_out w) (ref_item l r) p = Inr b"
      by (auto simp: StoreLootItem_def bind_result_Inr_iff Let_def)
    show thesis
    proof (cases "\<not> b \<or> sr_qitem r = None \<and> li_is_blocked (ref_item l r) \<or>
             li_rollWinnerGUID (ref_item l r) \<noteq> 0 \<and> li_rollWinnerGUID (ref_item l r) \<noteq> p")
      case True
      with assms r0 Some b show thesis
        by (auto simp: StoreLootItem_def SendLootRelease_def Let_def intro: refused)
    next
      case False
      with assms r0 Some b show thesis
        by (cases "le_CanStore env (lw_out w) p (li_itemid (ref_item l r)) (li_count (ref_item l r)) = 0")
          (auto simp: StoreLootItem_def SendEquipError_def Let_def intro: refused taken)
    qed
  qed
qed

lemma store_sizes: "StoreLootItem env p slot (l, w) = Inr (l', w') \<Longrightarrow> sizes l' = sizes l"
  by (erule store_cases) (auto simp: take_item_sizes dest: arg_cong [where f = fst])

lemma currency_step_yields:
  assumes "loot_ok env l" and "sizes l = (n, k)" and "i < n + k"
  shows "yields (currency_step env p n i (l, w)) (\<lambda>s. loot_ok env (fst s) \<and> sizes (fst s) = (n, k))"
proof -
  let ?it = "if i < length (l_items l) then l_items l ! i else l_quest_items l ! (i - n)"
  have bound: "i < length (l_items l) \<or> i - n < length (l_quest_items l)"
    using assms by (auto simp: sizes_def)
  have "le_template env (li_itemid ?it) \<noteq> None"
    using assms known_nth [of env "l_items l" i] known_nth [of env "l_quest_items l" "i - n"] bound
    by (auto simp: loot_ok_def)
  then obtain b where b: "AllowedForPlayer env (lw_out w) ?it p = Inr b" using allowed_returns by blast
  have "yields (StoreLootItem env p (of_nat i) (l, w)) (\<lambda>s. loot_ok env (fst s) \<and> sizes (fst s) = (n, k))"
    using store_yields [OF assms(1), of p "of_nat i" w] store_sizes assms(2) by (auto simp: yields_def)
  then show ?thesis
    unfolding currency_step_def prod.case if_P [OF bound] Let_def using assms b by simp
qed

lemma fill_yields:
  assumes "loot_ok env l"
  shows "yields (FillNotNormalLootFor env p present (l, w)) (\<lambda>s. loot_ok env (fst s))"
proof -
  have loop: "yields (fold_result (currency_step env p (length (l_items l))) [0..<GetMaxSlotInLootFor l p] (l, w))
      (\<lambda>s. loot_ok env (fst s))" if ok: "loot_ok env l" for l w
  proof -
    let ?n = "length (l_items l)" and ?k = "length (l_quest_items l)"
    have le: "GetMaxSlotInLootFor l p \<le> ?n + ?k"
      using ok entries_find [of ?k "l_PlayerQuestItems l" p]
      by (auto simp: GetMaxSlotInLootFor_def loot_ok_def split: option.split)
    have "yields (fold_result (currency_step env p ?n) [0..<GetMaxSlotInLootFor l p] (l, w))
        (\<lambda>s. loot_ok env (fst s) \<and> sizes (fst s) = (?n, ?k))"
      using ok le currency_step_yields [of env _ ?n ?k _ p]
      by (intro yields_fold) (auto simp: sizes_def [of l] split_beta)
    then show ?thesis by (rule yields_mono) auto
  qed
  show ?thesis
    unfolding FillNotNormalLootFor_def prod.case
    by (intro yields_bindI [where P = "loot_ok env"])
      (use assms loop in \<open>auto simp: fill_quest_yields fill_ffa_yields fill_cond_yields\<close>)
qed

section \<open>Showing\<close>

lemma view_item_yields:
  assumes "known_items env (l_items l)" and "i < length (l_items l)"
  shows "yields (view_item env out l v perm i acc) (\<lambda>_. True)"
proof -
  have t: "le_template env (li_itemid (l_items l ! i)) \<noteq> None" using known_nth [OF assms] by auto
  then show ?thesis
    using allowed_returns [OF t, of out v] write_item_yields [OF t]
    by (auto simp: view_item_def Let_def yields_bind yields_def split: option.split)
qed

lemma view_entry_yields:
  assumes "known_items env its" and "unat (nn_index (snd je)) < length its"
  shows "yields (view_entry env its slot st je acc) (\<lambda>_. True)"
proof -
  obtain j e where je: "je = (j, e)" by (cases je) auto
  have t: "le_template env (li_itemid (its ! unat (nn_index e))) \<noteq> None"
    using known_nth [OF assms] je by auto
  show ?thesis
    using write_item_yields [OF t] assms je by (auto simp: view_entry_def Let_def yields_def)
qed

lemma view_list_yields:
  assumes "known_items env its" and "entries_ok (length its) m"
  shows "yields (view_list env its m v slot st acc) (\<lambda>_. True)"
proof (cases "omap_find m v")
  case (Some es)
  have "unat (nn_index (snd je)) < length its" if "je \<in> set (enumerate 0 es)" for je
    using in_set_enumerate_eq [of je 0 es] that entries_find [OF assms(2) Some] nth_mem [of "fst je" es] by auto
  then show ?thesis
    unfolding view_list_def Some option.case
    by (intro yields_fold) (auto intro: view_entry_yields [OF assms(1)])
qed (simp add: view_list_def)

lemma view_entries_yields:
  assumes "loot_ok env l"
  shows "yields (loot_view_entries env out l v perm) (\<lambda>_. True)"
proof -
  have ok: "known_items env (l_items l)" "known_items env (l_quest_items l)"
    "entries_ok (length (l_quest_items l)) (l_PlayerQuestItems l)"
    "entries_ok (length (l_items l)) (l_PlayerFFAItems l)"
    "entries_ok (length (l_items l)) (l_PlayerCondItems l)" and n: "length (l_items l) < 256"
    using assms by (auto simp: loot_ok_def)
  have "yields (u8_loop (view_item env out l v perm) (length (l_items l)) []) (\<lambda>_. True)"
    by (rule u8_loop_yields [where I = "\<lambda>_ _. True"]) (use n ok in \<open>auto intro: view_item_yields\<close>)
  then show ?thesis
    unfolding loot_view_entries_def Let_def
    by (auto intro!: yields_bindI [where P = "\<lambda>_. True"] view_list_yields simp: ok)
qed

lemma view_yields: "loot_ok env l \<Longrightarrow> yields (write_loot_view env out l v perm) (\<lambda>_. True)"
  using view_entries_yields [of env l out v perm]
  by (auto simp: write_loot_view_def intro!: yields_bindI [where P = "\<lambda>_. True"])

lemma open_entry_yields:
  "list_all (\<lambda>e. unat (nn_index e) < length its) es \<Longrightarrow> yields (has_open_entry its es) (\<lambda>_. True)"
  by (induction es) auto

lemma hasItemFor_yields:
  assumes "loot_ok env l"
  shows "yields (hasItemFor l p) (\<lambda>_. True)"
proof -
  have "yields (has_open_in its m p) (\<lambda>_. True)" if "entries_ok (length its) m" for its m
    using entries_find [OF that] by (auto simp: has_open_in_def list_all_iff intro!: open_entry_yields split: option.split)
  then show ?thesis
    using assms by (auto simp: hasItemFor_def loot_ok_def intro!: yields_bindI [where P = "\<lambda>_. True"])
qed

section \<open>Generating\<close>

lemma add_stacks_ok:
  "loot_ok env l \<Longrightarrow> le_template env (si_itemid si) \<noteq> None \<Longrightarrow> loot_ok env (fst (add_stacks env si t n c (l, w)))"
proof (induction env si t n c "(l, w)" arbitrary: l w rule: add_stacks.induct)
  case (2 env si t n c l w)
  have id: "li_itemid (fst (LootItem_new env si w)) = si_itemid si" for w
    by (simp add: LootItem_new_def Let_def)
  obtain it w1 where new: "LootItem_new env si w = (it, w1)" by (cases "LootItem_new env si w")
  have it: "li_itemid it = si_itemid si" using id [of w] new by simp
  let ?it = "it\<lparr>li_count := ucast (min c (GetMaxStackSize t))\<rparr>"
  let ?l1 = "if si_needs_quest si then l\<lparr>l_quest_items := l_quest_items l @ [?it]\<rparr>
             else l\<lparr>l_items := l_items l @ [?it]\<rparr>"
  have "loot_ok env ?l1" if "length (if si_needs_quest si then l_quest_items l else l_items l) <
      (if si_needs_quest si then MAX_NR_QUEST_ITEMS else MAX_NR_LOOT_ITEMS)"
    using 2(2,3) that it by (auto simp: loot_ok_def known_items_def intro: entries_ok_mono)
  then show ?case using 2 new by (auto simp: Let_def)
qed simp

lemma AddItem_ok: "loot_ok env (fst lw) \<Longrightarrow> loot_ok env (fst (AddItem env si lw))"
  by (auto simp: AddItem_def Let_def intro: add_stacks_ok split: prod.split option.split)

lemma Group_Process_ok: "loot_ok (se_env se) (fst lw) \<Longrightarrow> loot_ok (se_env se) (fst (Group_Process se mode g lw))"
  by (auto simp: Group_Process_def intro: AddItem_ok split: prod.split option.split)

definition qualities_ok :: "loot_env \<Rightarrow> bool" where
  "qualities_ok env \<longleftrightarrow> (\<forall>i t. le_template env i = Some t \<longrightarrow> it_Quality t < MAX_ITEM_QUALITY)"

lemma roll_yields: "qualities_ok (se_env se) \<Longrightarrow> yields (StoreItem_Roll se rate si w) (\<lambda>_. True)"
  by (auto simp: StoreItem_Roll_def qualities_ok_def split: option.split)

text \<open>The stack frames that rolling a template needs.\<close>

primrec depth_ok :: "nat \<Rightarrow> (uint32 \<Rightarrow> loot_template option) \<Rightarrow> loot_template \<Rightarrow> bool" where
  "depth_ok 0 refs t = False"
| "depth_ok (Suc d) refs t = list_all (\<lambda>si. si_reference si = 0 \<or>
     (case refs (si_reference si) of None \<Rightarrow> True | Some t' \<Rightarrow> depth_ok d refs t')) (lt_Entries t)"

lemma depth_ok_rank:
  assumes "\<And>i t si. refs i = Some t \<Longrightarrow> si \<in> set (lt_Entries t) \<Longrightarrow> si_reference si \<noteq> 0 \<Longrightarrow> rank (si_reference si) < rank i"
    and "\<And>si. si \<in> set (lt_Entries t) \<Longrightarrow> si_reference si \<noteq> 0 \<Longrightarrow> rank (si_reference si) < (n :: nat)"
  shows "depth_ok (Suc n) refs t"
  using assms(2)
proof (induction n arbitrary: t rule: less_induct)
  case (less n)
  have "depth_ok n refs t'" if "si \<in> set (lt_Entries t)" "si_reference si \<noteq> 0" "refs (si_reference si) = Some t'" for si t'
  proof -
    have lt: "rank (si_reference si) < n" using less.prems that by blast
    then obtain k where k: "n = Suc k" by (cases n) auto
    have "depth_ok (Suc (rank (si_reference si))) refs t'"
      using less.IH [OF lt] assms(1) that by blast
    moreover have "depth_ok i refs t \<Longrightarrow> i \<le> j \<Longrightarrow> depth_ok j refs t" for i j t
    proof (induction i arbitrary: j t)
      case (Suc i)
      then obtain j' where "j = Suc j'" "i \<le> j'" by (cases j) auto
      with Suc show ?case by (auto simp: list_all_iff split: option.splits)
    qed simp
    ultimately show ?thesis using lt by (meson Suc_leI)
  qed
  then show ?case by (auto simp: list_all_iff split: option.split)
qed

lemma process_entry_yields:
  assumes "qualities_ok (se_env se)" and "loot_ok (se_env se) (fst lw)"
    and "\<And>t lw. si_reference si \<noteq> 0 \<Longrightarrow> se_reference se (si_reference si) = Some t \<Longrightarrow> loot_ok (se_env se) (fst lw) \<Longrightarrow>
      yields (rec (si_groupid si) t lw) (\<lambda>lw'. loot_ok (se_env se) (fst lw'))"
  shows "yields (process_entry rec se rate mode si lw) (\<lambda>lw'. loot_ok (se_env se) (fst lw'))"
proof -
  obtain l w where lw: "lw = (l, w)" by (cases lw)
  obtain h w1 where r: "StoreItem_Roll se rate si w = Inr (h, w1)"
    using roll_yields [OF assms(1), of rate si w] by (auto simp: yields_def)
  show ?thesis
    using assms lw r
    by (auto simp: process_entry_def word_gt_0 intro!: AddItem_ok yields_fold split: option.split)
qed

lemma Process_yields:
  assumes "qualities_ok (se_env se)" and "loot_ok (se_env se) (fst lw)" and "depth_ok d (se_reference se) t"
  shows "yields (Process d se rate mode groupId t lw) (\<lambda>lw'. loot_ok (se_env se) (fst lw'))"
  using assms(2,3)
proof (induction d arbitrary: groupId t lw)
  case (Suc d)
  have groups: "loot_ok (se_env se) (fst (fold (\<lambda>g lw. case g of None \<Rightarrow> lw | Some g' \<Rightarrow> Group_Process se mode g' lw) gs lw))"
    if "loot_ok (se_env se) (fst lw)" for gs lw
    using that by (induction gs arbitrary: lw) (simp_all add: Group_Process_ok split: option.split)
  have entry: "yields (process_entry (Process d se rate mode) se rate mode si lw) (\<lambda>lw'. loot_ok (se_env se) (fst lw'))"
    if "si \<in> set (lt_Entries t)" "loot_ok (se_env se) (fst lw)" for si lw
  proof (rule process_entry_yields [OF assms(1) that(2)])
    fix t' and lw :: "loot \<times> loot_world"
    assume "si_reference si \<noteq> 0" "se_reference se (si_reference si) = Some t'" "loot_ok (se_env se) (fst lw)"
    moreover have "depth_ok d (se_reference se) t'"
      using Suc.prems(2) that(1) calculation(1,2) by (auto simp: list_all_iff)
    ultimately show "yields (Process d se rate mode (si_groupid si) t' lw) (\<lambda>lw'. loot_ok (se_env se) (fst lw'))"
      by (intro Suc.IH)
  qed
  have "yields (fold_result (process_entry (Process d se rate mode) se rate mode) (lt_Entries t) lw)
      (\<lambda>lw'. loot_ok (se_env se) (fst lw'))"
    using Suc.prems(1) entry by (intro yields_fold)
  then have "yields (bind_result (fold_result (process_entry (Process d se rate mode) se rate mode) (lt_Entries t) lw)
          (\<lambda>lw1. Inr (fold (\<lambda>g lw. case g of None \<Rightarrow> lw | Some g' \<Rightarrow> Group_Process se mode g' lw)
                       (lt_Groups t) lw1))) (\<lambda>lw'. loot_ok (se_env se) (fst lw'))"
    by (rule yields_bindI) (simp add: groups)
  then show ?case using Suc.prems by (auto intro: Group_Process_ok split: option.split)
qed simp

lemma underthreshold_ok:
  "loot_ok env l \<Longrightarrow> loot_ok env (l\<lparr>l_items := map (mark_underthreshold env thr) (l_items l)\<rparr>)"
  by (auto simp: loot_ok_def known_items_def list_all_iff mark_underthreshold_def split: option.split)

lemma fill_for_group_yields:
  assumes "loot_ok env (fst lw)"
  shows "yields (fill_for_group env p g lw) (\<lambda>r. loot_ok env (fst (snd r)))"
proof -
  have "yields (fold_result
         (\<lambda>q lw. if le_inMap env q p then FillNotNormalLootFor env q (le_near env q p) lw else Inr lw)
         (lg_members g) ((fst lw)\<lparr>l_roundRobinPlayer := p\<rparr>, snd lw)) (\<lambda>s. loot_ok env (fst s))"
    using assms fill_yields [of env] by (intro yields_fold) (auto simp: split_paired_all)
  then show ?thesis
    unfolding fill_for_group_def
    by (rule yields_bindI) (auto simp: underthreshold_ok, auto simp: loot_ok_def)
qed

lemma FillLoot_yields:
  assumes "qualities_ok (se_env se)" and "loot_ok (se_env se) (fst lw)"
    and "\<And>t. GetLootFor store i = Some t \<Longrightarrow> depth_ok d (se_reference se) t"
  shows "yields (FillLoot d se store rates i owner personal mode lw) (\<lambda>r. loot_ok (se_env se) (fst (snd r)))"
proof (cases "owner = None \<or> GetLootFor store i = None")
  case False
  then obtain p tab where p: "owner = Some p" and tab: "GetLootFor store i = Some tab" by auto
  have rolled: "yields (Process d se rates mode 0 tab lw) (\<lambda>s. loot_ok (se_env se) (fst s))"
    using assms tab by (intro Process_yields)
  have own: "yields (bind_result (FillNotNormalLootFor (se_env se) p True s) (\<lambda>lw2. Inr (True, lw2)))
      (\<lambda>r. loot_ok (se_env se) (fst (snd r)))" if "loot_ok (se_env se) (fst s)" for s
    using that fill_yields [of "se_env se" "fst s" p True "snd s"] by (auto intro: yields_bindI)
  show ?thesis
    unfolding FillLoot_def p tab option.case
    by (rule yields_bindI [OF rolled]) (auto intro: fill_for_group_yields own split: option.split)
qed (use assms in \<open>auto simp: FillLoot_def split: option.split\<close>)

end
