(* ===== verification/LootRoll.thy ===== *)
theory LootRoll
  imports LootTables
begin

text \<open>
  Group loot (src/src/server/game/Groups/Group.h and Group.cpp, the loot system): a roll is
  started for every item above the threshold, the members vote, the roll is counted when all
  have voted or when its timer runs out, and the winner receives the item. Also master loot, the
  removal of a leaving member from the rolls, and the handlers \<open>HandleLootRoll\<close> and
  \<open>HandleLootMasterGiveOpcode\<close>. A loot belongs to the object with a given guid; a roll refers
  to its loot by that guid, and to nothing once the loot was cleared.
\<close>

section \<open>State\<close>

datatype roll_vote = PASS | NEED | GREED | NOT_EMITED_YET | NOT_VALID

fun vote_code :: "roll_vote \<Rightarrow> uint8" where
  "vote_code PASS = 0"
| "vote_code NEED = 1"
| "vote_code GREED = 2"
| "vote_code NOT_EMITED_YET = 3"
| "vote_code NOT_VALID = 4"

abbreviation (input) "ROLL_PASS \<equiv> (0 :: uint8)"
abbreviation (input) "ROLL_NEED \<equiv> (1 :: uint8)"
abbreviation (input) "ROLL_GREED \<equiv> (2 :: uint8)"
abbreviation (input) "MAX_ROLL_TYPE \<equiv> (3 :: uint8)"
abbreviation (input) "EQUIP_ERR_YOU_CAN_NEVER_USE_THAT_ITEM \<equiv> (10 :: uint8)"
abbreviation (input) "EQUIP_ERR_CANT_CARRY_MORE_OF_THIS \<equiv> (17 :: uint8)"
abbreviation (input) "EQUIP_ERR_INVENTORY_FULL \<equiv> (50 :: uint8)"

record roll =
  ro_itemGUID :: guid
  ro_itemid :: uint32
  ro_itemRandomPropId :: uint32
  ro_itemRandomSuffix :: uint32
  ro_playerVote :: "(guid, roll_vote) omap"
  ro_totalPlayersRolling :: uint8
  ro_totalNeed :: uint8
  ro_totalGreed :: uint8
  ro_totalPass :: uint8
  ro_itemSlot :: uint8
  ro_loot :: "guid option"

definition Roll_new :: "guid \<Rightarrow> loot_item \<Rightarrow> roll" where
  "Roll_new g li =
     \<lparr>ro_itemGUID = g, ro_itemid = li_itemid li, ro_itemRandomPropId = li_randomPropertyId li,
      ro_itemRandomSuffix = li_randomSuffix li, ro_playerVote = [], ro_totalPlayersRolling = 0,
      ro_totalNeed = 0, ro_totalGreed = 0, ro_totalPass = 0, ro_itemSlot = 0, ro_loot = None\<rparr>"

text \<open>
  The group with its rolls (\<open>RollId\<close>), the loots of the objects, the loot timers of creatures
  and chests (time left, low guid of the group), the generator of item guids, and the world.
\<close>

record roll_state =
  rs_group :: loot_group
  rs_rolls :: "roll list"
  rs_loots :: "(guid, loot) omap"
  rs_timers :: "(guid, uint32 \<times> uint32) omap"
  rs_items :: guid_generator
  rs_world :: loot_world

text \<open>What the roll code asks besides \<open>loot_env\<close>.\<close>

record roll_env =
  re_env :: loot_env
  re_levels :: guid_levels
  re_hasTimer :: "guid \<Rightarrow> bool"
  re_inWorld :: "guid \<Rightarrow> bool"

definition set_loot :: "guid \<Rightarrow> loot \<Rightarrow> roll_state \<Rightarrow> roll_state" where
  "set_loot g l s = s\<lparr>rs_loots := omap_set g l (rs_loots s)\<rparr>"

definition with_world :: "(loot_world \<Rightarrow> loot_world) \<Rightarrow> roll_state \<Rightarrow> roll_state" where
  "with_world f s = s\<lparr>rs_world := f (rs_world s)\<rparr>"

text \<open>Clearing a loot takes it away from the rolls that refer to it.\<close>

definition clear_loot :: "guid \<Rightarrow> roll_state \<Rightarrow> roll_state" where
  "clear_loot g s =
     (case omap_find (rs_loots s) g of
        None \<Rightarrow> s
      | Some l \<Rightarrow> (set_loot g (clear l) s)\<lparr>rs_rolls :=
          map (\<lambda>r. if ro_loot r = Some g then r\<lparr>ro_loot := None\<rparr> else r) (rs_rolls s)\<rparr>)"

section \<open>Packets\<close>

definition send_voters ::
  "loot_env \<Rightarrow> (roll_vote \<Rightarrow> bool) \<Rightarrow> (guid, roll_vote) omap \<Rightarrow> uint16 \<Rightarrow> field list \<Rightarrow> loot_world \<Rightarrow> loot_world" where
  "send_voters env P votes opcode fs =
     fold (\<lambda>(p, v) w. if le_FindConnected env p \<and> le_session env p \<and> P v then send_to p opcode fs w else w) votes"

definition start_roll_fields :: "uint32 \<Rightarrow> roll \<Rightarrow> field list" where
  "start_roll_fields countDown r =
     [U64 (ro_itemGUID r), U32 (ucast (ro_itemSlot r)), U32 (ro_itemid r), U32 (ro_itemRandomSuffix r),
      U32 (ro_itemRandomPropId r), U32 countDown]"

definition SendLootStartRoll :: "loot_env \<Rightarrow> uint32 \<Rightarrow> roll \<Rightarrow> loot_world \<Rightarrow> loot_world" where
  "SendLootStartRoll env countDown r =
     send_voters env (\<lambda>v. v = NOT_EMITED_YET) (ro_playerVote r) 0x2A1 (start_roll_fields countDown r)"

definition SendLootStartRollToPlayer :: "loot_env \<Rightarrow> uint32 \<Rightarrow> guid \<Rightarrow> roll \<Rightarrow> loot_world \<Rightarrow> loot_world" where
  "SendLootStartRollToPlayer env countDown p r w =
     (if le_session env p then send_to p 0x2A1 (start_roll_fields countDown r) w else w)"

definition SendLootRoll ::
  "loot_env \<Rightarrow> guid \<Rightarrow> guid \<Rightarrow> uint8 \<Rightarrow> uint8 \<Rightarrow> roll \<Rightarrow> loot_world \<Rightarrow> loot_world" where
  "SendLootRoll env source target rollNumber rollType r =
     send_voters env (\<lambda>v. v \<noteq> NOT_VALID) (ro_playerVote r) 0x2A2
       [U64 source, U32 (ucast (ro_itemSlot r)), U64 target, U32 (ro_itemid r), U32 (ro_itemRandomSuffix r),
        U32 (ro_itemRandomPropId r), U8 rollNumber, U8 rollType, U8 0]"

definition SendLootRollWon ::
  "loot_env \<Rightarrow> guid \<Rightarrow> guid \<Rightarrow> uint8 \<Rightarrow> uint8 \<Rightarrow> roll \<Rightarrow> loot_world \<Rightarrow> loot_world" where
  "SendLootRollWon env source target rollNumber rollType r =
     send_voters env (\<lambda>v. v \<noteq> NOT_VALID) (ro_playerVote r) 0x29F
       [U64 source, U32 (ucast (ro_itemSlot r)), U32 (ro_itemid r), U32 (ro_itemRandomSuffix r),
        U32 (ro_itemRandomPropId r), U64 target, U8 rollNumber, U8 rollType]"

definition SendLootAllPassed :: "loot_env \<Rightarrow> roll \<Rightarrow> loot_world \<Rightarrow> loot_world" where
  "SendLootAllPassed env r =
     send_voters env (\<lambda>v. v \<noteq> NOT_VALID) (ro_playerVote r) 0x29E
       [U64 (ro_itemGUID r), U32 (ucast (ro_itemSlot r)), U32 (ro_itemid r), U32 (ro_itemRandomPropId r),
        U32 (ro_itemRandomSuffix r)]"

definition SendLooter :: "roll_env \<Rightarrow> guid \<Rightarrow> guid option \<Rightarrow> roll_state \<Rightarrow> (loot_fault, roll_state) result" where
  "SendLooter re creature groupLooter s =
     (case omap_find (rs_loots s) creature of
        None \<Rightarrow> Inl BadIndex
      | Some l \<Rightarrow>
          bind_result (if lg_lootMethod (rs_group s) = MASTER_LOOT then hasOverThresholdItem l else Inr False) (\<lambda>over.
          let fs = U64 creature #
                (if over then map U8 (pack_guid_bytes (lg_masterLooterGuid (rs_group s))) else [U8 0]) @
                (case groupLooter of None \<Rightarrow> [U8 0] | Some p \<Rightarrow> map U8 (pack_guid_bytes p))
          in Inr (with_world (fold (\<lambda>p w. if le_session (re_env re) p then send_to p 0x3F8 fs w else w)
                   (lg_members (rs_group s))) s)))"

section \<open>Starting rolls\<close>

definition collect_voter ::
  "(guid \<Rightarrow> (loot_fault, bool) result) \<Rightarrow> (guid \<Rightarrow> bool) \<Rightarrow> guid \<Rightarrow> roll \<Rightarrow> (loot_fault, roll) result" where
  "collect_voter eligible passes p r =
     bind_result (eligible p) (\<lambda>ok. Inr (
       if \<not> ok then r
       else
         let r1 = r\<lparr>ro_totalPlayersRolling := ro_totalPlayersRolling r + 1\<rparr> in
         if passes p
         then r1\<lparr>ro_playerVote := omap_set p PASS (ro_playerVote r1), ro_totalPass := ro_totalPass r1 + 1\<rparr>
         else r1\<lparr>ro_playerVote := omap_set p NOT_EMITED_YET (ro_playerVote r1)\<rparr>))"

definition collect_voters ::
  "loot_env \<Rightarrow> (guid \<Rightarrow> (loot_fault, bool) result) \<Rightarrow> (guid \<Rightarrow> bool) \<Rightarrow> guid list \<Rightarrow> roll \<Rightarrow> (loot_fault, roll) result" where
  "collect_voters env eligible passes members =
     fold_result (collect_voter eligible passes) (filter (le_session env) members)"

definition guid_of_new_item :: "roll_env \<Rightarrow> roll_state \<Rightarrow> guid \<times> roll_state" where
  "guid_of_new_item re s =
     (let (c, gen) = generate (re_levels re) HG_Item (rs_items s)
      in (guid_of_counter HG_Item c, s\<lparr>rs_items := gen\<rparr>))"

definition set_roll_timer :: "roll_env \<Rightarrow> guid \<Rightarrow> roll_state \<Rightarrow> roll_state" where
  "set_roll_timer re obj s =
     (if re_hasTimer re obj
      then s\<lparr>rs_timers := omap_set obj (60000, lg_lowGuid (rs_group s)) (rs_timers s)\<rparr> else s)"

text \<open>
  The announcements of a new roll: \<open>GroupLoot\<close> first reports the automatic passes and then asks
  those who have not voted; \<open>NeedBeforeGreed\<close> goes through the voters once.
\<close>

definition announce_group_loot :: "loot_env \<Rightarrow> roll \<Rightarrow> loot_world \<Rightarrow> loot_world" where
  "announce_group_loot env r w =
     SendLootStartRoll env 60000 r
       (if ro_totalPass r \<noteq> 0
        then fold (\<lambda>(p, v) w. if le_FindConnected env p \<and> le_session env p \<and> v = PASS
                             then SendLootRoll env (ro_itemGUID r) p 128 ROLL_PASS r w else w)
               (ro_playerVote r) w
        else w)"

definition announce_need_before_greed :: "loot_env \<Rightarrow> roll \<Rightarrow> loot_world \<Rightarrow> loot_world" where
  "announce_need_before_greed env r =
     fold (\<lambda>(p, v) w.
         if le_FindConnected env p \<and> le_session env p
         then (if v = PASS then SendLootRoll env (ro_itemGUID r) p 128 ROLL_PASS r w
               else SendLootStartRollToPlayer env 60000 p r w)
         else w) (ro_playerVote r)"

definition block_item :: "bool \<Rightarrow> nat \<Rightarrow> loot \<Rightarrow> loot" where
  "block_item quest i = ref_update (li_is_blocked_update (\<lambda>_. True))
     \<lparr>sr_quest = quest, sr_index = i, sr_qitem = None, sr_ffaitem = None, sr_conditem = None\<rparr>"

text \<open>One item: slot of the roll, index in its vector, who may roll and how it is announced.\<close>

definition start_roll ::
  "roll_env \<Rightarrow> (loot_env \<Rightarrow> roll \<Rightarrow> loot_world \<Rightarrow> loot_world) \<Rightarrow> (guid \<Rightarrow> (loot_fault, bool) result) \<Rightarrow>
   (guid \<Rightarrow> bool) \<Rightarrow> guid \<Rightarrow> bool \<Rightarrow> nat \<Rightarrow> uint8 \<Rightarrow> loot \<Rightarrow> loot_item \<Rightarrow> roll_state \<Rightarrow>
   (loot_fault, roll_state) result" where
  "start_roll re announce eligible passes obj quest i slot l it s =
     (let (g, s1) = guid_of_new_item re s in
      bind_result (collect_voters (re_env re) eligible passes (lg_members (rs_group s)) (Roll_new g it)) (\<lambda>r.
      if ro_totalPlayersRolling r > 0 then
        let r' = r\<lparr>ro_loot := Some obj, ro_itemSlot := slot\<rparr>;
            s2 = with_world (announce (re_env re) r') (set_loot obj (block_item quest i l) s1)
        in Inr (set_roll_timer re obj (s2\<lparr>rs_rolls := rs_rolls s2 @ [r']\<rparr>))
      else Inr s1))"

definition loot_of :: "roll_state \<Rightarrow> guid \<Rightarrow> (loot_fault, loot) result" where
  "loot_of s g = (case omap_find (rs_loots s) g of None \<Rightarrow> Inl BadIndex | Some l \<Rightarrow> Inr l)"

definition near_and_allowed :: "roll_env \<Rightarrow> loot_effect list \<Rightarrow> guid \<Rightarrow> loot_item \<Rightarrow> guid \<Rightarrow> (loot_fault, bool) result" where
  "near_and_allowed re out obj it p =
     (if le_near (re_env re) p obj then AllowedForPlayer (re_env re) out it p else Inr False)"

definition mark_under :: "guid \<Rightarrow> nat \<Rightarrow> loot \<Rightarrow> roll_state \<Rightarrow> roll_state" where
  "mark_under obj i l = set_loot obj
     (l\<lparr>l_items := (l_items l)[i := (l_items l ! i)\<lparr>li_is_underthreshold := True\<rparr>]\<rparr>)"

definition group_loot_item :: "roll_env \<Rightarrow> guid \<Rightarrow> nat \<Rightarrow> roll_state \<Rightarrow> (loot_fault, roll_state) result" where
  "group_loot_item re obj i s =
     bind_result (loot_of s obj) (\<lambda>l.
     let it = l_items l ! i in
     if li_freeforall it then Inr s
     else case le_template (re_env re) (li_itemid it) of
         None \<Rightarrow> Inr s
       | Some t \<Rightarrow>
           if it_Quality t \<ge> ucast (lg_lootThreshold (rs_group s))
           then start_roll re announce_group_loot (near_and_allowed re (lw_out (rs_world s)) obj it)
                  (le_passOnLoot (re_env re)) obj False i (of_nat i) l it s
           else Inr (mark_under obj i l s))"

definition group_loot_quest_item :: "roll_env \<Rightarrow> guid \<Rightarrow> nat \<Rightarrow> roll_state \<Rightarrow> (loot_fault, roll_state) result" where
  "group_loot_quest_item re obj i s =
     bind_result (loot_of s obj) (\<lambda>l.
     let it = l_quest_items l ! i in
     if \<not> li_follow_loot_rules it \<or> le_template (re_env re) (li_itemid it) = None then Inr s
     else start_roll re (\<lambda>env r. SendLootStartRoll env 60000 r)
            (near_and_allowed re (lw_out (rs_world s)) obj it)
            (\<lambda>_. False) obj True i (of_nat (length (l_items l) + i)) l it s)"

text \<open>The slot numbers fit eight bits; a loot with more slots is outside the model.\<close>

definition over_items ::
  "(nat \<Rightarrow> roll_state \<Rightarrow> (loot_fault, roll_state) result) \<Rightarrow>
   (nat \<Rightarrow> roll_state \<Rightarrow> (loot_fault, roll_state) result) \<Rightarrow> guid \<Rightarrow> roll_state \<Rightarrow>
   (loot_fault, roll_state) result" where
  "over_items item quest_item obj s =
     bind_result (loot_of s obj) (\<lambda>l.
     if length (l_items l) + length (l_quest_items l) < 256
     then bind_result (fold_result item [0..<length (l_items l)] s)
            (fold_result quest_item [0..<length (l_quest_items l)])
     else Inl BadIndex)"

definition GroupLoot :: "roll_env \<Rightarrow> guid \<Rightarrow> roll_state \<Rightarrow> (loot_fault, roll_state) result" where
  "GroupLoot re obj = over_items (group_loot_item re obj) (group_loot_quest_item re obj) obj"

text \<open>\<open>NeedBeforeGreed\<close> reads the quality of the template without testing it for null.\<close>

definition can_use_and_allowed ::
  "roll_env \<Rightarrow> loot_effect list \<Rightarrow> guid \<Rightarrow> loot_item \<Rightarrow> guid \<Rightarrow> (loot_fault, bool) result" where
  "can_use_and_allowed re out obj it p =
     (if le_CanUseItem (re_env re) p (li_itemid it)
      then bind_result (AllowedForPlayer (re_env re) out it p) (\<lambda>ok. Inr (ok \<and> le_near (re_env re) p obj))
      else Inr False)"

definition nbg_item :: "roll_env \<Rightarrow> guid \<Rightarrow> nat \<Rightarrow> roll_state \<Rightarrow> (loot_fault, roll_state) result" where
  "nbg_item re obj i s =
     bind_result (loot_of s obj) (\<lambda>l.
     let it = l_items l ! i in
     if li_freeforall it then Inr s
     else case le_template (re_env re) (li_itemid it) of
         None \<Rightarrow> Inl NullTemplate
       | Some t \<Rightarrow>
           if it_Quality t \<ge> ucast (lg_lootThreshold (rs_group s))
           then start_roll re announce_need_before_greed (can_use_and_allowed re (lw_out (rs_world s)) obj it)
                  (le_passOnLoot (re_env re)) obj False i (of_nat i) l it s
           else Inr (mark_under obj i l s))"

definition nbg_quest_item :: "roll_env \<Rightarrow> guid \<Rightarrow> nat \<Rightarrow> roll_state \<Rightarrow> (loot_fault, roll_state) result" where
  "nbg_quest_item re obj i s =
     bind_result (loot_of s obj) (\<lambda>l.
     let it = l_quest_items l ! i in
     if \<not> li_follow_loot_rules it then Inr s
     else start_roll re announce_need_before_greed (near_and_allowed re (lw_out (rs_world s)) obj it)
            (\<lambda>_. False) obj True i (of_nat (length (l_items l) + i)) l it s)"

definition NeedBeforeGreed :: "roll_env \<Rightarrow> guid \<Rightarrow> roll_state \<Rightarrow> (loot_fault, roll_state) result" where
  "NeedBeforeGreed re obj = over_items (nbg_item re obj) (nbg_quest_item re obj) obj"

text \<open>\<open>MasterLoot\<close>; the source dereferences every member, so all are taken to be present.\<close>

definition MasterLoot :: "roll_env \<Rightarrow> guid \<Rightarrow> roll_state \<Rightarrow> (loot_fault, roll_state) result" where
  "MasterLoot re obj s =
     bind_result (loot_of s obj) (\<lambda>l.
     let l' = l\<lparr>l_items := map (\<lambda>it. if li_freeforall it then it
                  else it\<lparr>li_is_blocked := \<not> li_is_underthreshold it\<rparr>) (l_items l),
               l_quest_items := map (\<lambda>it. if \<not> li_follow_loot_rules it then it
                  else it\<lparr>li_is_blocked := \<not> li_is_underthreshold it\<rparr>) (l_quest_items l)\<rparr>;
         members = lg_members (rs_group s);
         looters = filter (\<lambda>p. re_inWorld re p \<and> le_near (re_env re) p obj) members;
         fs = U8 (of_nat (length looters)) # map U64 looters
     in Inr (with_world
          (fold (\<lambda>p w. if le_near (re_env re) p obj then send_to p 0x2A4 fs w else w) members)
          (set_loot obj l' s)))"

section \<open>Counting\<close>

definition isValid :: "roll \<Rightarrow> bool" where
  "isValid r \<longleftrightarrow> ro_loot r \<noteq> None"

definition GetRoll :: "guid \<Rightarrow> roll_state \<Rightarrow> nat option" where
  "GetRoll g s = first_index (\<lambda>r. ro_itemGUID r = g \<and> isValid r) (rs_rolls s)"

definition erase_roll :: "nat \<Rightarrow> roll_state \<Rightarrow> roll_state" where
  "erase_roll k s = s\<lparr>rs_rolls := take k (rs_rolls s) @ drop (Suc k) (rs_rolls s)\<rparr>"

text \<open>
  The loop that lets the voters of one kind roll: the number of those voters left, the highest
  roll, the guid that made it and the kind it voted, the world.
\<close>

record tally =
  ty_left :: uint8
  ty_maxresul :: uint8
  ty_maxguid :: guid
  ty_vote :: roll_vote
  ty_world :: loot_world

definition roll_step ::
  "loot_env \<Rightarrow> uint32 option \<Rightarrow> roll_vote \<Rightarrow> uint8 \<Rightarrow> roll \<Rightarrow> guid \<times> roll_vote \<Rightarrow> tally \<Rightarrow> tally" where
  "roll_step env allowedMap kind kindCode r pv t =
     (case pv of (p, v) \<Rightarrow>
      if v \<noteq> kind then t
      else if \<not> le_FindPlayer env p \<or> (case allowedMap of None \<Rightarrow> False | Some m \<Rightarrow> le_mapOf env p \<noteq> m)
      then t\<lparr>ty_left := ty_left t - 1\<rparr>
      else
        let w = ty_world t;
            randomN = ucast (le_urand env (lw_draws w) 1 100) :: uint8;
            t1 = t\<lparr>ty_world := SendLootRoll env 0 p randomN kindCode r (draw w)\<rparr>
        in if ty_maxresul t < randomN
           then t1\<lparr>ty_maxguid := p, ty_maxresul := randomN, ty_vote := v\<rparr> else t1)"

definition roll_all ::
  "loot_env \<Rightarrow> uint32 option \<Rightarrow> roll_vote \<Rightarrow> uint8 \<Rightarrow> roll \<Rightarrow> tally \<Rightarrow> tally" where
  "roll_all env allowedMap kind kindCode r t = fold (roll_step env allowedMap kind kindCode r) (ro_playerVote r) t"

text \<open>The need rolls start with the first voter as the winner of a roll of 0, the greed rolls with nobody.\<close>

definition need_rolls :: "loot_env \<Rightarrow> uint32 option \<Rightarrow> roll \<Rightarrow> loot_world \<Rightarrow> tally" where
  "need_rolls env allowedMap r w = roll_all env allowedMap NEED ROLL_NEED r
     \<lparr>ty_left = ro_totalNeed r, ty_maxresul = 0, ty_maxguid = fst (hd (ro_playerVote r)),
      ty_vote = NOT_VALID, ty_world = w\<rparr>"

definition greed_rolls :: "loot_env \<Rightarrow> uint32 option \<Rightarrow> roll \<Rightarrow> loot_world \<Rightarrow> tally" where
  "greed_rolls env allowedMap r w = roll_all env allowedMap GREED ROLL_GREED r
     \<lparr>ty_left = ro_totalGreed r, ty_maxresul = 0, ty_maxguid = 0, ty_vote = NOT_VALID, ty_world = w\<rparr>"

definition roll_ref :: "loot \<Rightarrow> roll \<Rightarrow> (loot_fault, slot_ref) result" where
  "roll_ref l r =
     (let i = unat (ro_itemSlot r); n = length (l_items l) in
      if i \<ge> n then
        (if i - n < length (l_quest_items l)
         then Inr \<lparr>sr_quest = True, sr_index = i - n, sr_qitem = None, sr_ffaitem = None, sr_conditem = None\<rparr>
         else Inl BadIndex)
      else Inr \<lparr>sr_quest = False, sr_index = i, sr_qitem = None, sr_ffaitem = None, sr_conditem = None\<rparr>)"

text \<open>The winner receives the item, or the item is reserved for the winner when the bags are full.\<close>

definition award ::
  "loot_env \<Rightarrow> guid \<Rightarrow> uint32 \<Rightarrow> roll \<Rightarrow> loot \<times> loot_world \<Rightarrow> (loot_fault, loot \<times> loot_world) result" where
  "award env winner errItem r lw =
     (case lw of (l, w) \<Rightarrow>
      bind_result (roll_ref l r) (\<lambda>ref.
      let it = ref_item l ref;
          msg = le_CanStore env (lw_out w) winner (ro_itemid r) (li_count it) in
      Inr (if msg = EQUIP_ERR_OK then
             let (l1, w1) = NotifyItemRemoved env (ro_itemSlot r)
                   (ref_update (li_is_looted_update (\<lambda>_. True)) ref l, w)
             in (l1\<lparr>l_unlootedCount := l_unlootedCount l1 - 1\<rparr>,
                 StoreNewItem winner (ro_itemid r) (li_count it) (li_randomPropertyId it) w1)
           else (ref_update (\<lambda>it. it\<lparr>li_is_blocked := False, li_rollWinnerGUID := winner\<rparr>) ref l,
                 SendEquipError env winner msg errItem w))))"

definition count_need ::
  "loot_env \<Rightarrow> uint32 option \<Rightarrow> roll \<Rightarrow> loot \<times> loot_world \<Rightarrow> (loot_fault, roll \<times> loot \<times> loot_world) result" where
  "count_need env allowedMap r lw =
     (case lw of (l, w) \<Rightarrow>
      if ro_totalNeed r > 0 \<and> ro_playerVote r \<noteq> [] then
        let t = need_rolls env allowedMap r w;
            r1 = r\<lparr>ro_totalNeed := ty_left t\<rparr>
        in if ty_maxguid t \<noteq> 0 then
             let w1 = SendLootRollWon env 0 (ty_maxguid t) (ty_maxresul t) ROLL_NEED r1 (ty_world t) in
             if le_FindPlayer env (ty_maxguid t) \<and> le_session env (ty_maxguid t)
             then bind_result (award env (ty_maxguid t) 0 r1 (l, w1)) (\<lambda>lw1. Inr (r1, lw1))
             else Inr (r1, l, w1)
           else Inr (r1\<lparr>ro_totalNeed := 0\<rparr>, l, ty_world t)
      else Inr (r, l, w))"

definition count_greed ::
  "loot_env \<Rightarrow> uint32 option \<Rightarrow> roll \<Rightarrow> loot \<times> loot_world \<Rightarrow> (loot_fault, roll \<times> loot \<times> loot_world) result" where
  "count_greed env allowedMap r lw =
     (case lw of (l, w) \<Rightarrow>
      if ro_totalNeed r = 0 \<and> ro_totalGreed r > 0 \<and> ro_playerVote r \<noteq> [] then
        let t = greed_rolls env allowedMap r w;
            r1 = r\<lparr>ro_totalGreed := ty_left t\<rparr>
        in if ty_maxguid t \<noteq> 0 then
             let w1 = SendLootRollWon env 0 (ty_maxguid t) (ty_maxresul t) (vote_code (ty_vote t)) r1 (ty_world t) in
             if le_FindConnected env (ty_maxguid t) \<and> le_session env (ty_maxguid t) \<and> ty_vote t = GREED
             then bind_result (award env (ty_maxguid t) (ro_itemid r1) r1 (l, w1)) (\<lambda>lw1. Inr (r1, lw1))
             else Inr (r1, l, w1)
           else Inr (r1\<lparr>ro_totalGreed := 0\<rparr>, l, ty_world t)
      else Inr (r, l, w))"

definition count_passed ::
  "loot_env \<Rightarrow> roll \<Rightarrow> loot \<times> loot_world \<Rightarrow> (loot_fault, loot \<times> loot_world) result" where
  "count_passed env r lw =
     (case lw of (l, w) \<Rightarrow>
      if ro_totalNeed r = 0 \<and> ro_totalGreed r = 0 then
        bind_result (roll_ref l r) (\<lambda>ref.
          Inr (ref_update (li_is_blocked_update (\<lambda>_. False)) ref l, SendLootAllPassed env r w))
      else Inr (l, w))"

definition count_roll ::
  "loot_env \<Rightarrow> uint32 option \<Rightarrow> roll \<Rightarrow> loot \<times> loot_world \<Rightarrow> (loot_fault, loot \<times> loot_world) result" where
  "count_roll env allowedMap r lw =
     bind_result (count_need env allowedMap r lw) (\<lambda>(r1, lw1).
     bind_result (count_greed env allowedMap r1 lw1) (\<lambda>(r2, lw2).
     count_passed env r2 lw2))"

definition CountTheRoll ::
  "roll_env \<Rightarrow> nat \<Rightarrow> uint32 option \<Rightarrow> roll_state \<Rightarrow> (loot_fault, roll_state) result" where
  "CountTheRoll re k allowedMap s =
     (let r = rs_rolls s ! k in
      case ro_loot r of
        None \<Rightarrow> Inr (erase_roll k s)
      | Some g \<Rightarrow>
          bind_result (loot_of s g) (\<lambda>l.
          bind_result (count_roll (re_env re) allowedMap r (l, rs_world s)) (\<lambda>(l', w').
          Inr (erase_roll k ((set_loot g l' s)\<lparr>rs_world := w'\<rparr>)))))"

text \<open>A vote: the announcement, and the roll with the vote counted; other choices change nothing.\<close>

definition cast_vote :: "guid \<Rightarrow> uint8 \<Rightarrow> roll \<Rightarrow> roll" where
  "cast_vote p choice r =
     (if choice = ROLL_PASS then
        r\<lparr>ro_totalPass := ro_totalPass r + 1, ro_playerVote := omap_set p PASS (ro_playerVote r)\<rparr>
      else if choice = ROLL_NEED then
        r\<lparr>ro_totalNeed := ro_totalNeed r + 1, ro_playerVote := omap_set p NEED (ro_playerVote r)\<rparr>
      else if choice = ROLL_GREED then
        r\<lparr>ro_totalGreed := ro_totalGreed r + 1, ro_playerVote := omap_set p GREED (ro_playerVote r)\<rparr>
      else r)"

definition announce_vote :: "loot_env \<Rightarrow> guid \<Rightarrow> uint8 \<Rightarrow> roll \<Rightarrow> loot_world \<Rightarrow> loot_world" where
  "announce_vote env p choice r =
     (if choice = ROLL_PASS then SendLootRoll env 0 p 128 128 r
      else if choice = ROLL_NEED then SendLootRoll env 0 p 0 0 r
      else if choice = ROLL_GREED then SendLootRoll env 0 p 128 2 r
      else id)"

definition all_voted :: "roll \<Rightarrow> bool" where
  "all_voted r \<longleftrightarrow> unat (ro_totalPass r) + unat (ro_totalNeed r) + unat (ro_totalGreed r)
     \<ge> unat (ro_totalPlayersRolling r)"

definition CountRollVote ::
  "roll_env \<Rightarrow> guid \<Rightarrow> guid \<Rightarrow> uint8 \<Rightarrow> roll_state \<Rightarrow> (loot_fault, roll_state) result" where
  "CountRollVote re p g choice s =
     (case GetRoll g s of
        None \<Rightarrow> Inr s
      | Some k \<Rightarrow>
          let r = rs_rolls s ! k in
          if \<not> omap_has (ro_playerVote r) p then Inr s
          else if (case ro_loot r of None \<Rightarrow> False
                 | Some lg \<Rightarrow> (case omap_find (rs_loots s) lg of None \<Rightarrow> False | Some l \<Rightarrow> l_items l = []))
          then Inr s
          else
            let r1 = cast_vote p choice r;
                s1 = s\<lparr>rs_rolls := (rs_rolls s)[k := r1],
                       rs_world := announce_vote (re_env re) p choice r (rs_world s)\<rparr>
            in if all_voted r1 then CountTheRoll re k None s1 else Inr s1)"

lemma erase_roll_length: "k < length (rs_rolls s) \<Longrightarrow> length (rs_rolls (erase_roll k s)) < length (rs_rolls s)"
  by (simp add: erase_roll_def)

lemma CountTheRoll_erases:
  "CountTheRoll re k allowedMap s = Inr s' \<Longrightarrow> rs_rolls s' = take k (rs_rolls s) @ drop (Suc k) (rs_rolls s)"
  by (auto simp: CountTheRoll_def Let_def bind_result_Inr_iff erase_roll_def set_loot_def split: option.splits)

lemma first_index_less: "first_index P xs = Some k \<Longrightarrow> k < length xs"
  by (induction xs arbitrary: k) (auto split: if_splits)

text \<open>\<open>EndRoll\<close> starts again from the first roll after each roll it has counted.\<close>

function EndRoll :: "roll_env \<Rightarrow> guid \<Rightarrow> uint32 option \<Rightarrow> roll_state \<Rightarrow> (loot_fault, roll_state) result" where
  "EndRoll re obj allowedMap s =
     (case first_index (\<lambda>r. ro_loot r = Some obj) (rs_rolls s) of
        None \<Rightarrow> Inr s
      | Some k \<Rightarrow> (case CountTheRoll re k allowedMap s of
          Inl e \<Rightarrow> Inl e
        | Inr s' \<Rightarrow> EndRoll re obj allowedMap s'))"
  by pat_completeness auto
termination
  by (relation "measure (\<lambda>(re, obj, m, s). length (rs_rolls s))")
    (auto simp: CountTheRoll_erases dest!: first_index_less)

declare EndRoll.simps [simp del]

section \<open>A member leaves\<close>

text \<open>
  The part of \<open>RemoveMember\<close> that takes the player out of the rolls; it then calls
  \<open>CountRollVote\<close> with a choice that is no vote.
\<close>

definition without_vote :: "guid \<Rightarrow> roll_vote \<Rightarrow> roll \<Rightarrow> roll" where
  "without_vote p v r =
     (let r1 = (if v = GREED then r\<lparr>ro_totalGreed := ro_totalGreed r - 1\<rparr>
                else if v = NEED then r\<lparr>ro_totalNeed := ro_totalNeed r - 1\<rparr>
                else if v = PASS then r\<lparr>ro_totalPass := ro_totalPass r - 1\<rparr> else r);
          r2 = (if v \<noteq> NOT_VALID then r1\<lparr>ro_totalPlayersRolling := ro_totalPlayersRolling r1 - 1\<rparr> else r1)
      in r2\<lparr>ro_playerVote := omap_erase p (ro_playerVote r2)\<rparr>)"

definition leave_roll :: "roll_env \<Rightarrow> guid \<Rightarrow> nat \<Rightarrow> roll_state \<Rightarrow> (loot_fault, roll_state) result" where
  "leave_roll re p k s =
     (if k < length (rs_rolls s) then
        (let r = rs_rolls s ! k in
         case omap_find (ro_playerVote r) p of
           None \<Rightarrow> Inr s
         | Some v \<Rightarrow> CountRollVote re p (ro_itemGUID r) MAX_ROLL_TYPE
             (s\<lparr>rs_rolls := (rs_rolls s)[k := without_vote p v r]\<rparr>))
      else Inr s)"

definition RemoveMember_rolls :: "roll_env \<Rightarrow> guid \<Rightarrow> roll_state \<Rightarrow> (loot_fault, roll_state) result" where
  "RemoveMember_rolls re p s = fold_result (leave_roll re p) [0..<length (rs_rolls s)] s"

section \<open>Handlers\<close>

text \<open>\<open>HandleLootRoll\<close> of a player whose group, if any, is the modelled one.\<close>

definition HandleLootRoll ::
  "roll_env \<Rightarrow> bool \<Rightarrow> guid \<Rightarrow> guid \<Rightarrow> uint32 \<Rightarrow> uint8 \<Rightarrow> roll_state \<Rightarrow> (loot_fault, roll_state) result" where
  "HandleLootRoll re hasGroup p g itemSlot rollType s =
     (if \<not> hasGroup \<or> rollType \<ge> MAX_ROLL_TYPE then Inr s else CountRollVote re p g rollType s)"

end
