(* ===== verification/LootHandlers.thy ===== *)
theory LootHandlers
  imports LootRoll
begin

text \<open>
  The packet handlers for looting (src/src/server/game/Loot/LootHandler.cpp): taking an item,
  taking the money and sharing it with the group, releasing a loot, and giving an item as master
  looter; and \<open>Player::ModifyMoney\<close>. They work on the objects of the world (creatures, game
  objects, items, corpses) with their loots, on the group and its rolls, and on the purses.
\<close>

section \<open>State\<close>

abbreviation (input) "LOOT_PICKPOCKETING \<equiv> (4 :: uint8)"
abbreviation (input) "CLASS_ROGUE \<equiv> (4 :: uint8)"
abbreviation (input) "GAMEOBJECT_TYPE_DOOR \<equiv> (0 :: uint32)"
abbreviation (input) "GAMEOBJECT_TYPE_CHEST \<equiv> (3 :: uint32)"
abbreviation (input) "GAMEOBJECT_TYPE_FISHINGNODE \<equiv> (17 :: uint32)"
abbreviation (input) "GAMEOBJECT_TYPE_FISHINGHOLE \<equiv> (25 :: uint32)"
abbreviation (input) "ITEM_FLAG_HAS_LOOT \<equiv> (0x4 :: uint32)"
abbreviation (input) "ITEM_FLAG_IS_PROSPECTABLE \<equiv> (0x40000 :: uint32)"
abbreviation (input) "GO_READY \<equiv> (1 :: uint32)"
abbreviation (input) "GO_ACTIVATED \<equiv> (2 :: uint32)"
abbreviation (input) "GO_JUST_DEACTIVATED \<equiv> (3 :: uint32)"
abbreviation (input) "MAX_PURSE \<equiv> (0x7FFFFFFF :: uint32)"
abbreviation (input) "EQUIP_ERR_TOO_MUCH_GOLD \<equiv> (77 :: uint8)"
abbreviation (input) "LOOT_ERROR_DIDNT_KILL \<equiv> (0 :: uint8)"
abbreviation (input) "LOOT_ERROR_TOO_FAR \<equiv> (4 :: uint8)"
abbreviation (input) "LOOT_ERROR_PLAYER_NOT_FOUND \<equiv> (10 :: uint8)"
abbreviation (input) "LOOT_ERROR_MASTER_INV_FULL \<equiv> (12 :: uint8)"
abbreviation (input) "LOOT_ERROR_MASTER_UNIQUE_ITEM \<equiv> (13 :: uint8)"
abbreviation (input) "LOOT_ERROR_MASTER_OTHER \<equiv> (14 :: uint8)"

text \<open>An object that can be looted; which fields mean something depends on its kind.\<close>

record world_object =
  wo_owner :: guid
  wo_goType :: uint32
  wo_minOpens :: uint32
  wo_maxOpens :: uint32
  wo_uses :: uint32
  wo_alive :: bool
  wo_recipient :: "guid option"
  wo_itemFlags :: uint32
  wo_count :: uint32

record loot_session =
  ls_rolls :: roll_state
  ls_objects :: "(guid, world_object) omap"
  ls_purse :: "guid \<Rightarrow> uint32"

text \<open>
  The questions of the handlers: whether an object is within interaction range of a player, the
  player's class, the group relations, and the float comparisons and random choices for mineral
  veins and fishing holes.
\<close>

record handler_env =
  he_roll :: roll_env
  he_range :: "guid \<Rightarrow> guid \<Rightarrow> bool"
  he_class :: "guid \<Rightarrow> uint8"
  he_hasGroup :: "guid \<Rightarrow> bool"
  he_looterGuid :: "guid \<Rightarrow> guid option"
  he_getPlayer :: "guid \<Rightarrow> guid \<Rightarrow> bool"
  he_raidWith :: "guid \<Rightarrow> guid \<Rightarrow> bool"
  he_instance :: "guid \<Rightarrow> uint32"
  he_usesBelowMax :: "uint32 \<Rightarrow> uint32 \<Rightarrow> bool"
  he_usesReachMin :: "uint32 \<Rightarrow> uint32 \<Rightarrow> bool"
  he_veinChance :: "nat \<Rightarrow> guid \<Rightarrow> uint32 \<Rightarrow> bool"
  he_irand :: "nat \<Rightarrow> uint32 \<Rightarrow> uint32 \<Rightarrow> uint32"

definition is_kind :: "high_guid \<Rightarrow> guid \<Rightarrow> bool" where
  "is_kind h g \<longleftrightarrow> guid_high g = high_code h"

definition ls_env :: "handler_env \<Rightarrow> loot_env" where
  "ls_env he = re_env (he_roll he)"

definition ls_world :: "loot_session \<Rightarrow> loot_world" where
  "ls_world s = rs_world (ls_rolls s)"

definition on_rolls :: "(roll_state \<Rightarrow> roll_state) \<Rightarrow> loot_session \<Rightarrow> loot_session" where
  "on_rolls f s = s\<lparr>ls_rolls := f (ls_rolls s)\<rparr>"

definition on_world :: "(loot_world \<Rightarrow> loot_world) \<Rightarrow> loot_session \<Rightarrow> loot_session" where
  "on_world f = on_rolls (with_world f)"

definition call :: "guid \<Rightarrow> string \<Rightarrow> uint32 list \<Rightarrow> loot_session \<Rightarrow> loot_session" where
  "call g what args = on_world (emit (LCall g what args))"

definition object_of :: "loot_session \<Rightarrow> guid \<Rightarrow> world_object option" where
  "object_of s g = omap_find (ls_objects s) g"

definition the_loot :: "loot_session \<Rightarrow> guid \<Rightarrow> loot" where
  "the_loot s g = (case omap_find (rs_loots (ls_rolls s)) g of None \<Rightarrow> Loot_new 0 | Some l \<Rightarrow> l)"

definition put_loot :: "guid \<Rightarrow> loot \<times> loot_world \<Rightarrow> loot_session \<Rightarrow> loot_session" where
  "put_loot g lw = on_rolls (\<lambda>rs. (set_loot g (fst lw) rs)\<lparr>rs_world := snd lw\<rparr>)"

section \<open>Money\<close>

text \<open>\<open>ModifyMoney\<close> with the signed amount, and \<open>sendError\<close> true.\<close>

definition ModifyMoney :: "handler_env \<Rightarrow> guid \<Rightarrow> uint32 \<Rightarrow> loot_session \<Rightarrow> loot_session" where
  "ModifyMoney he p amount s =
     (if amount = 0 then s
      else if sint amount < 0 then
        s\<lparr>ls_purse := (ls_purse s)(p := (if ls_purse s p > - amount then ls_purse s p + amount else 0))\<rparr>
      else if ls_purse s p < MAX_PURSE - amount then
        s\<lparr>ls_purse := (ls_purse s)(p := ls_purse s p + amount)\<rparr>
      else on_world (SendEquipError (ls_env he) p EQUIP_ERR_TOO_MUCH_GOLD 0) s)"

definition give_money :: "handler_env \<Rightarrow> uint32 \<Rightarrow> guid \<Rightarrow> loot_session \<Rightarrow> loot_session" where
  "give_money he amount p s = on_world (send_to p 0x163 [U32 amount]) (ModifyMoney he p amount s)"

section \<open>Reaching the loot\<close>

definition lootAllowed :: "handler_env \<Rightarrow> loot_session \<Rightarrow> guid \<Rightarrow> guid \<Rightarrow> bool" where
  "lootAllowed he s p g =
     (case object_of s g of
        None \<Rightarrow> False
      | Some c \<Rightarrow> wo_alive c = (he_class he p = CLASS_ROGUE \<and> l_loot_type (the_loot s g) = LOOT_PICKPOCKETING))"

section \<open>Releasing\<close>

definition release_gameobject ::
  "handler_env \<Rightarrow> guid \<Rightarrow> guid \<Rightarrow> world_object \<Rightarrow> loot_session \<Rightarrow> loot_session" where
  "release_gameobject he p g go s =
     (let l = the_loot s g;
          state = (\<lambda>st. call g ''SetLootState'' [st]);
          add_use = (\<lambda>s. let s' = s\<lparr>ls_objects := omap_set g (go\<lparr>wo_uses := wo_uses go + 1\<rparr>) (ls_objects s)\<rparr>
                     in if wo_goType go = GAMEOBJECT_TYPE_CHEST then call g ''DespawnOrUnsummon'' [] s' else s');
          uses = wo_uses go + 1
      in
      if wo_goType go = GAMEOBJECT_TYPE_DOOR then call g ''UseDoorOrButton'' [] s
      else if isLooted l \<or> wo_goType go = GAMEOBJECT_TYPE_FISHINGNODE then
        on_rolls (clear_loot g)
          (if wo_goType go = GAMEOBJECT_TYPE_CHEST then
             (if wo_minOpens go \<noteq> 0 \<and> wo_maxOpens go > wo_minOpens go then
                (if he_usesBelowMax he uses (wo_maxOpens go) then
                   (if he_usesReachMin he uses (wo_minOpens go) then
                      on_world draw (state (if he_veinChance he (lw_draws (ls_world s)) p uses then GO_READY
                                            else GO_JUST_DEACTIVATED) (add_use s))
                    else state GO_READY (add_use s))
                 else state GO_JUST_DEACTIVATED (add_use s))
              else state GO_JUST_DEACTIVATED s)
           else if wo_goType go = GAMEOBJECT_TYPE_FISHINGHOLE then
             on_world draw (state (if uses \<ge> he_irand he (lw_draws (ls_world s)) (wo_minOpens go) (wo_maxOpens go)
                                   then GO_JUST_DEACTIVATED else GO_READY) (add_use s))
           else state GO_JUST_DEACTIVATED s)
      else
        (let s1 = state GO_ACTIVATED s in
         if p = l_roundRobinPlayer l
         then on_rolls (set_loot g (l\<lparr>l_roundRobinPlayer := 0\<rparr>)) s1 else s1))"

definition release_item :: "guid \<Rightarrow> guid \<Rightarrow> world_object \<Rightarrow> loot_session \<Rightarrow> loot_session" where
  "release_item p g it s =
     (if has_flag (wo_itemFlags it) ITEM_FLAG_IS_PROSPECTABLE
      then call p ''DestroyItemCount'' [if wo_count it > 5 then 5 else wo_count it] (on_rolls (clear_loot g) s)
      else if isLooted (the_loot s g) \<or> \<not> has_flag (wo_itemFlags it) ITEM_FLAG_HAS_LOOT
      then call p ''DestroyItem'' [guid_counter g] s
      else s)"

definition release_creature ::
  "handler_env \<Rightarrow> guid \<Rightarrow> guid \<Rightarrow> world_object \<Rightarrow> loot_session \<Rightarrow> (loot_fault, loot_session) result" where
  "release_creature he p g c s =
     (let s1 = (case wo_recipient c of
                  None \<Rightarrow> s
                | Some recipient \<Rightarrow>
                    if he_looterGuid he recipient = Some p then call g ''UpdateLooterGuid'' [] s else s);
          l = the_loot s1 g
      in if isLooted l then
           Inr (on_rolls (clear_loot g) (call g ''RemoveLootableFlag'' []
             (if \<not> wo_alive c then call g ''AllLootRemovedFromCorpse'' [] s1 else s1)))
         else if p = l_roundRobinPlayer l then
           (let s2 = on_rolls (set_loot g (l\<lparr>l_roundRobinPlayer := 0\<rparr>)) s1 in
            if he_hasGroup he p then
              bind_result (SendLooter (he_roll he) g None (ls_rolls s2)) (\<lambda>rs.
                Inr (call g ''ForceValuesUpdateAtIndex'' [] (s2\<lparr>ls_rolls := rs\<rparr>)))
            else Inr s2)
         else Inr s1)"

definition remove_looter :: "guid \<Rightarrow> guid \<Rightarrow> loot_session \<Rightarrow> loot_session" where
  "remove_looter p g s = on_rolls (set_loot g (RemoveLooter p (the_loot s g))) s"

definition DoLootRelease :: "handler_env \<Rightarrow> guid \<Rightarrow> guid \<Rightarrow> loot_session \<Rightarrow> (loot_fault, loot_session) result" where
  "DoLootRelease he p lguid s =
     (let s1 = call p ''RemoveLootingFlag'' [] (on_world (\<lambda>w.
                 SendLootRelease p lguid (w\<lparr>lw_lootGuid := (lw_lootGuid w)(p := 0)\<rparr>)) s)
      in if \<not> re_inWorld (he_roll he) p then Inr s1
      else if is_kind HG_GameObject lguid then
        (case object_of s1 lguid of
           None \<Rightarrow> Inr s1
         | Some go \<Rightarrow>
             if wo_goType go \<noteq> GAMEOBJECT_TYPE_FISHINGHOLE \<and> wo_owner go \<noteq> p \<and> \<not> he_range he p lguid then Inr s1
             else Inr (remove_looter p lguid (release_gameobject he p lguid go s1)))
      else if is_kind HG_Corpse lguid then
        (if object_of s1 lguid = None \<or> \<not> he_range he p lguid then Inr s1
         else Inr (remove_looter p lguid (call lguid ''RemoveLootableFlag'' [] (on_rolls (clear_loot lguid) s1))))
      else if is_kind HG_Item lguid then
        (case object_of s1 lguid of None \<Rightarrow> Inr s1 | Some it \<Rightarrow> Inr (release_item p lguid it s1))
      else if \<not> lootAllowed he s1 p lguid \<or> \<not> he_range he p lguid then Inr s1
      else (case object_of s1 lguid of
          None \<Rightarrow> Inr s1
        | Some c \<Rightarrow> bind_result (release_creature he p lguid c s1) (\<lambda>s2. Inr (remove_looter p lguid s2))))"

definition HandleLootReleaseOpcode ::
  "handler_env \<Rightarrow> guid \<Rightarrow> guid \<Rightarrow> loot_session \<Rightarrow> (loot_fault, loot_session) result" where
  "HandleLootReleaseOpcode he p g s =
     (let lguid = lw_lootGuid (ls_world s) p in
      if lguid \<noteq> 0 \<and> lguid = g then DoLootRelease he p lguid s else Inr s)"

section \<open>Taking an item\<close>

text \<open>
  Which loot the slot belongs to: \<open>Inl\<close> of the answer when there is none to take from.
\<close>

definition autostore_target ::
  "handler_env \<Rightarrow> guid \<Rightarrow> guid \<Rightarrow> loot_session \<Rightarrow> (loot_session, guid) result" where
  "autostore_target he p lguid s =
     (let release = on_world (SendLootRelease p lguid) s in
      if is_kind HG_GameObject lguid then
        (case object_of s lguid of
           None \<Rightarrow> Inl s
         | Some go \<Rightarrow>
             if wo_owner go \<noteq> p \<and> wo_goType go \<noteq> GAMEOBJECT_TYPE_FISHINGHOLE \<and> \<not> he_range he p lguid
             then Inl release else Inr lguid)
      else if is_kind HG_Item lguid \<or> is_kind HG_Corpse lguid then
        (if object_of s lguid = None then Inl release else Inr lguid)
      else if \<not> lootAllowed he s p lguid then Inl (on_world (SendLootError p lguid LOOT_ERROR_DIDNT_KILL) s)
      else if \<not> he_range he p lguid then Inl (on_world (SendLootError p lguid LOOT_ERROR_TOO_FAR) s)
      else Inr lguid)"

definition HandleAutostoreLootItemOpcode ::
  "handler_env \<Rightarrow> guid \<Rightarrow> uint8 \<Rightarrow> loot_session \<Rightarrow> (loot_fault, loot_session) result" where
  "HandleAutostoreLootItemOpcode he p lootSlot s =
     (let lguid = lw_lootGuid (ls_world s) p in
      case autostore_target he p lguid s of
        Inl s' \<Rightarrow> Inr s'
      | Inr g \<Rightarrow>
          bind_result (StoreLootItem (ls_env he) p lootSlot (the_loot s g, ls_world s)) (\<lambda>lw.
          let s1 = put_loot g lw s in
          if isLooted (fst lw) \<and> is_kind HG_Item lguid then DoLootRelease he p lguid s1 else Inr s1))"

section \<open>Taking the money\<close>

text \<open>The loot whose money is taken and whether it is shared, or the answer when there is none.\<close>

definition money_target ::
  "handler_env \<Rightarrow> guid \<Rightarrow> guid \<Rightarrow> loot_session \<Rightarrow> (loot_session, bool) result" where
  "money_target he p g s =
     (if is_kind HG_GameObject g then
        (case object_of s g of
           Some go \<Rightarrow> if wo_owner go = p \<or> he_range he p g then Inr True else Inl s
         | None \<Rightarrow> Inl s)
      else if is_kind HG_Corpse g then
        (if object_of s g \<noteq> None \<and> he_range he p g then Inr False else Inl s)
      else if is_kind HG_Item g then (if object_of s g \<noteq> None then Inr False else Inl s)
      else if is_kind HG_Unit g then
        (if \<not> lootAllowed he s p g then Inl (on_world (SendLootError p g LOOT_ERROR_DIDNT_KILL) s)
         else if \<not> he_range he p g then Inl (on_world (SendLootError p g LOOT_ERROR_TOO_FAR) s)
         else Inr (case object_of s g of Some c \<Rightarrow> \<not> wo_alive c | None \<Rightarrow> True))
      else Inl s)"

definition share_money ::
  "handler_env \<Rightarrow> guid \<Rightarrow> bool \<Rightarrow> uint32 \<Rightarrow> loot_session \<Rightarrow> (loot_fault, loot_session) result" where
  "share_money he p shareMoney gold s =
     (if shareMoney \<and> he_hasGroup he p then
        let playersNear = filter (\<lambda>q. le_near (ls_env he) p q) (lg_members (rs_group (ls_rolls s))) in
        if playersNear = [] then Inl DivideByZero
        else Inr (fold (give_money he (of_nat (unat gold div length playersNear))) playersNear s)
      else Inr (give_money he gold p s))"

definition HandleLootMoneyOpcode :: "handler_env \<Rightarrow> guid \<Rightarrow> loot_session \<Rightarrow> (loot_fault, loot_session) result" where
  "HandleLootMoneyOpcode he p s =
     (let g = lw_lootGuid (ls_world s) p in
      if g = 0 then Inr s
      else case money_target he p g s of
          Inl s' \<Rightarrow> Inr s'
        | Inr shareMoney \<Rightarrow>
            let s1 = put_loot g (NotifyMoneyRemoved (ls_env he) (the_loot s g, ls_world s)) s;
                l = the_loot s1 g
            in if l_gold l = 0 then Inr s1
               else bind_result (share_money he p shareMoney (l_gold l) s1) (\<lambda>s2.
                 let l' = (the_loot s2 g)\<lparr>l_gold := 0\<rparr>;
                     s3 = on_rolls (set_loot g l') s2;
                     s4 = (if l_containerID l' > 0
                           then on_world (emit (LRemoveStoredMoney (l_containerID l'))) s3 else s3)
                 in if isLooted l' \<and> is_kind HG_Item g then DoLootRelease he p g s4 else Inr s4))"

section \<open>Master loot\<close>

definition HandleLootMasterGiveOpcode ::
  "handler_env \<Rightarrow> guid \<Rightarrow> guid \<Rightarrow> uint8 \<Rightarrow> guid \<Rightarrow> loot_session \<Rightarrow> (loot_fault, loot_session) result" where
  "HandleLootMasterGiveOpcode he p lootguid slotid target s =
     (let env = ls_env he;
          grp = rs_group (ls_rolls s);
          err = (\<lambda>e. Inr (on_world (SendLootError p lootguid e) s))
      in
      if \<not> he_hasGroup he p \<or> lg_masterLooterGuid grp \<noteq> p \<or> lg_lootMethod grp \<noteq> MASTER_LOOT
      then err LOOT_ERROR_DIDNT_KILL
      else if \<not> he_getPlayer he p target then err LOOT_ERROR_PLAYER_NOT_FOUND
      else if lw_lootGuid (ls_world s) p \<noteq> lootguid then err LOOT_ERROR_DIDNT_KILL
      else if \<not> he_raidWith he p target \<or> \<not> le_inMap env p target then err LOOT_ERROR_MASTER_OTHER
      else if le_near env p target then err LOOT_ERROR_TOO_FAR
      else if he_instance he p \<noteq> he_instance he target then err LOOT_ERROR_MASTER_OTHER
      else if \<not> (is_kind HG_Unit lootguid \<or> is_kind HG_Vehicle lootguid \<or> is_kind HG_GameObject lootguid) \<or>
              object_of s lootguid = None
      then err LOOT_ERROR_MASTER_OTHER
      else
        let l = the_loot s lootguid; i = unat slotid; n = length (l_items l); w = ls_world s in
        if i \<ge> n + length (l_quest_items l) then Inr s
        else
          let ref = \<lparr>sr_quest = i \<ge> n, sr_index = (if i \<ge> n then i - n else i), sr_qitem = None,
                     sr_ffaitem = None, sr_conditem = None\<rparr>;
              it = ref_item l ref;
              msg0 = le_CanStore env (lw_out w) target (li_itemid it) (li_count it)
          in bind_result (if li_follow_loot_rules it then AllowedForPlayer env (lw_out w) it target
                          else Inr True) (\<lambda>allowed.
             let msg = (if allowed then msg0 else EQUIP_ERR_YOU_CAN_NEVER_USE_THAT_ITEM) in
             if msg \<noteq> EQUIP_ERR_OK then
               Inr (on_world (SendEquipError env target msg 0)
                 (on_world (SendLootError p lootguid
                   (if msg = EQUIP_ERR_CANT_CARRY_MORE_OF_THIS then LOOT_ERROR_MASTER_UNIQUE_ITEM
                    else if msg = EQUIP_ERR_INVENTORY_FULL then LOOT_ERROR_MASTER_INV_FULL
                    else LOOT_ERROR_MASTER_OTHER)) s))
             else
               let w1 = emit (LNewItem target (li_itemid it) (ucast (li_count it)))
                          (StoreNewItem target (li_itemid it) (li_count it) (li_randomPropertyId it) w);
                   l1 = ref_update (\<lambda>it. it\<lparr>li_count := 0, li_is_looted := True\<rparr>) ref l;
                   (l2, w2) = NotifyItemRemoved env slotid (l1, w1)
               in Inr (put_loot lootguid (l2\<lparr>l_unlootedCount := l_unlootedCount l2 - 1\<rparr>, w2) s)))"

end
