(* ===== verification/LootProps.thy ===== *)
theory LootProps
  imports LootLaws LootHandlers
begin

text \<open>
  What the loot code guarantees: no operation on a well-formed loot reads out of bounds, an
  ordinary item is handed out exactly once, the loot window shows what can be taken, tables are
  loaded and rolled completely; and where it does not do what it means to.
\<close>

section \<open>Items are handed out once\<close>

text \<open>What the players received, and what is still in the loot, as item id and count.\<close>

fun stored_item :: "loot_effect \<Rightarrow> (uint32 \<times> uint8) list" where
  "stored_item (LStore p itemid cnt prop_id) = [(itemid, cnt)]"
| "stored_item e = []"

definition received :: "loot_effect list \<Rightarrow> (uint32 \<times> uint8) multiset" where
  "received out = mset (concat (map stored_item out))"

definition open_items :: "loot \<Rightarrow> loot_item list" where
  "open_items l = filter (\<lambda>it. \<not> li_is_looted it) (l_items l)"

definition remaining :: "loot \<Rightarrow> (uint32 \<times> uint8) multiset" where
  "remaining l = mset (map (\<lambda>it. (li_itemid it, li_count it)) (open_items l))"

text \<open>A loot of ordinary items: not free for all, without conditions, no quest items.\<close>

definition plain_loot :: "loot \<Rightarrow> bool" where
  "plain_loot l \<longleftrightarrow> list_all (\<lambda>it. \<not> li_freeforall it \<and> li_conditions it = []) (l_items l) \<and>
     l_PlayerQuestItems l = []"

definition count_exact :: "loot \<Rightarrow> bool" where
  "count_exact l \<longleftrightarrow> l_unlootedCount l = of_nat (length (open_items l))"

definition take_requests ::
  "loot_env \<Rightarrow> (guid \<times> uint8) list \<Rightarrow> loot \<times> loot_world \<Rightarrow> (loot_fault, loot \<times> loot_world) result" where
  "take_requests env reqs = fold_result (\<lambda>(p, slot). StoreLootItem env p slot) reqs"

lemma size_remaining: "size (remaining l) = length (open_items l)"
  by (simp add: remaining_def)

lemma received_append [simp]: "received (xs @ ys) = received xs + received ys"
  by (simp add: received_def)

lemma received_send [simp]:
  "received (lw_out (send_to q opcode fs w)) = received (lw_out w)"
  by (simp add: send_to_def emit_def received_def)

lemma send_to_lootGuid [simp]: "lw_lootGuid (send_to q opcode fs w) = lw_lootGuid w"
  by (simp add: send_to_def emit_def)

lemma received_fold_send:
  "(\<And>p w. received (lw_out (tell p w)) = received (lw_out w)) \<Longrightarrow>
   received (lw_out (fold (\<lambda>p w. if P p then tell p w else w) ps w)) = received (lw_out w)"
  by (induction ps arbitrary: w) auto

lemma received_notify [simp]:
  "received (lw_out (snd (NotifyItemRemoved env slot (l, w)))) = received (lw_out w)"
  by (simp add: NotifyItemRemoved_def notify_looters_def SendNotifyLootItemRemoved_def received_fold_send)

lemma plain_slot:
  assumes "plain_loot l" and "LootItemInSlot l slot p = Inr (Some r)"
  shows "r = \<lparr>sr_quest = False, sr_index = unat slot, sr_qitem = None, sr_ffaitem = None, sr_conditem = None\<rparr> \<and>
    unat slot < length (l_items l) \<and> \<not> li_is_looted (l_items l ! unat slot)"
  using assms
  by (auto simp: LootItemInSlot_def plain_loot_def Let_def omap_find_def list_all_length not_le
      split: if_splits)

lemma open_items_loot:
  assumes "i < length its" and "\<not> li_is_looted (its ! i)"
  shows "mset (map f (filter (\<lambda>it. \<not> li_is_looted it) its)) =
    add_mset (f (its ! i)) (mset (map f (filter (\<lambda>it. \<not> li_is_looted it)
      (its[i := (its ! i)\<lparr>li_is_looted := True\<rparr>]))))"
  using assms
proof (induction its arbitrary: i)
  case (Cons it its)
  then show ?case by (cases i) auto
qed simp

lemma take_plain:
  assumes "plain_loot l" and "i < length (l_items l)" and "\<not> li_is_looted (l_items l ! i)"
    and r: "r = \<lparr>sr_quest = False, sr_index = i, sr_qitem = None, sr_ffaitem = None, sr_conditem = None\<rparr>"
    and t: "take_item env p slot r (ref_item l r) (l, w) = (l', w')"
  shows "plain_loot l' \<and> remaining l = add_mset (li_itemid (l_items l ! i), li_count (l_items l ! i)) (remaining l') \<and>
    received (lw_out w') = add_mset (li_itemid (l_items l ! i), li_count (l_items l ! i)) (received (lw_out w)) \<and>
    l_unlootedCount l' = l_unlootedCount l - 1 \<and> length (open_items l) = Suc (length (open_items l'))"
proof -
  let ?it = "l_items l ! i"
  have nf: "\<not> li_freeforall ?it" using assms(1,2) by (simp add: plain_loot_def list_all_length)
  have items: "l_items l' = (l_items l)[i := ?it\<lparr>li_is_looted := True\<rparr>]"
    and cnt: "l_unlootedCount l' = l_unlootedCount l - 1"
    and quest: "l_PlayerQuestItems l' = l_PlayerQuestItems l"
    and out: "received (lw_out w') = add_mset (li_itemid ?it, li_count ?it) (received (lw_out w))"
    using t r nf received_notify [of env slot l "StoreNewItem p (li_itemid ?it) (li_count ?it) (li_randomPropertyId ?it) w"]
    by (auto simp: take_item_def Let_def NotifyItemRemoved_def notify_looters_def ref_update_def
        ref_item_def emit_def StoreNewItem_def split: if_splits)
      (simp_all add: received_def)
  have "plain_loot l'"
    using assms(1,2) items quest set_update_subset_insert [of "l_items l" i "?it\<lparr>li_is_looted := True\<rparr>"]
    by (fastforce simp: plain_loot_def list_all_iff)
  moreover have "remaining l = add_mset (li_itemid ?it, li_count ?it) (remaining l')"
    using open_items_loot [OF assms(2,3)] items by (simp add: remaining_def open_items_def)
  moreover have "length (open_items l) = Suc (length (open_items l'))"
    using calculation(2) by (metis size_remaining size_add_mset)
  ultimately show ?thesis using cnt out by simp
qed

lemma store_plain:
  assumes "plain_loot l" and "count_exact l" and "StoreLootItem env p slot (l, w) = Inr (l', w')"
  shows "plain_loot l' \<and> count_exact l' \<and>
    received (lw_out w') + remaining l' = received (lw_out w) + remaining l"
  using assms(3)
proof (cases rule: store_cases)
  case (taken r)
  note pl = plain_slot [OF assms(1) taken(1)]
  show ?thesis
    using take_plain [OF assms(1), of "unat (ucast slot :: uint32)" r env p slot w l' w'] pl taken(5) assms(2)
    by (auto simp: count_exact_def)
qed (use assms in simp)

text \<open>
  C6. Players send any sequence of requests to take items from a loot of ordinary items. Nothing
  faults, and the items they receive together with the items left are exactly the items that
  were there: none is duplicated and none is lost. The counter of unlooted items stays exact, so
  the loot counts as looted precisely when no item and no gold is left.
\<close>

theorem ordinary_items_handed_out_once:
  assumes "loot_ok env l" and "plain_loot l" and "count_exact l"
  shows "\<exists>l' w'. take_requests env reqs (l, w) = Inr (l', w') \<and>
    received (lw_out w') + remaining l' = received (lw_out w) + remaining l \<and>
    (isLooted l' \<longleftrightarrow> l_gold l' = 0 \<and> open_items l' = [])"
proof -
  let ?I = "\<lambda>s. loot_ok env (fst s) \<and> plain_loot (fst s) \<and> count_exact (fst s) \<and>
    received (lw_out (snd s)) + remaining (fst s) = received (lw_out w) + remaining l"
  have "yields (take_requests env reqs (l, w)) ?I"
    unfolding take_requests_def
  proof (rule yields_fold)
    fix x :: "guid \<times> uint8" and s :: "loot \<times> loot_world"
    assume I: "?I s"
    obtain p slot where x: "x = (p, slot)" by (cases x)
    obtain l1 w1 where s: "s = (l1, w1)" by (cases s)
    obtain l2 w2 where st: "StoreLootItem env p slot (l1, w1) = Inr (l2, w2)" "loot_ok env l2"
      using store_yields [of env l1 p slot w1] I s by (auto simp: yields_def)
    then show "yields ((case x of (p, slot) \<Rightarrow> StoreLootItem env p slot) s) ?I"
      using store_plain [OF _ _ st(1)] I s x by simp
  qed (use assms in simp)
  then obtain l' w' where run: "take_requests env reqs (l, w) = Inr (l', w')" and I: "?I (l', w')"
    by (auto simp: yields_def)
  have "length (open_items l') \<le> 16"
    using I by (auto simp: open_items_def loot_ok_def intro: order_trans [OF length_filter_le])
  then have "l_unlootedCount l' = 0 \<longleftrightarrow> open_items l' = []"
    using I nat_dvd_not_less [of "length (open_items l')" 256]
    by (auto simp: count_exact_def word_of_nat_eq_0_iff)
  then show ?thesis using run I by (auto simp: isLooted_def)
qed

text \<open>A small world: item 25 is rare, item 2589 is common and stacks to 20; all bags have room.\<close>

definition demo_template :: item_template where
  "demo_template = \<lparr>it_Quality = 3, it_Flags = 0, it_Stackable = 1, it_DisplayInfoID = 1542, it_MaxCount = 0,
     it_StartQuest = 0, it_BagFamily = 0, it_RequiredLevel = 0\<rparr>"

definition demo_env :: loot_env where
  "demo_env = \<lparr>le_template = (\<lambda>i. if i = 25 then Some demo_template
       else if i = 2589 then Some (demo_template\<lparr>it_Quality := 1, it_Stackable := 20\<rparr>) else None),
     le_meets = (\<lambda>_ _. True), le_HasQuestForItem = (\<lambda>_ _ _. False), le_questKnown = (\<lambda>_ _. False),
     le_GetItemCount = (\<lambda>_ _ _. 0), le_CanStore = (\<lambda>_ _ _ _. 0), le_CanUseItem = (\<lambda>_ _. True),
     le_FindPlayer = (\<lambda>_. True), le_FindConnected = (\<lambda>_. True), le_session = (\<lambda>_. True),
     le_mapOf = (\<lambda>_. 0), le_inMap = (\<lambda>_ _. True), le_near = (\<lambda>_ _. True), le_passOnLoot = (\<lambda>_. False),
     le_group = (\<lambda>_. None), le_urand = (\<lambda>k a b. b), le_suffix = (\<lambda>_ _. 0), le_property = (\<lambda>_ _. 0),
     le_moneyRate = id\<rparr>"

definition demo_item :: "uint32 \<Rightarrow> uint8 \<Rightarrow> loot_item" where
  "demo_item i n = \<lparr>li_itemid = i, li_randomSuffix = 0, li_randomPropertyId = 0, li_conditions = [],
     li_rollWinnerGUID = 0, li_count = n, li_is_looted = False, li_is_blocked = False, li_freeforall = False,
     li_is_underthreshold = False, li_is_counted = False, li_needs_quest = False, li_follow_loot_rules = False\<rparr>"

definition demo_loot :: loot where
  "demo_loot = (Loot_new 0)\<lparr>l_items := [demo_item 25 1, demo_item 2589 7], l_unlootedCount := 2\<rparr>"

definition demo_world :: loot_world where
  "demo_world = \<lparr>lw_lootGuid = (\<lambda>_. 0xF130000000000001), lw_draws = 0, lw_out = []\<rparr>"

lemmas loot_demo_defs = demo_template_def demo_env_def demo_item_def demo_loot_def demo_world_def Loot_new_def

lemma demo_loot_ok: "loot_ok demo_env demo_loot" "plain_loot demo_loot" "count_exact demo_loot"
  by (simp_all add: loot_demo_defs loot_ok_def known_items_def entries_ok_def omap_ok_def plain_loot_def
      count_exact_def open_items_def)

theorem ordinary_items_handed_out_once_witness:
  "\<exists>l' w'. take_requests demo_env [(1, 1), (2, 1), (2, 0), (1, 7)] (demo_loot, demo_world) = Inr (l', w') \<and>
    received (lw_out w') + remaining l' = received (lw_out demo_world) + remaining demo_loot \<and>
    (isLooted l' \<longleftrightarrow> l_gold l' = 0 \<and> open_items l' = [])"
  by (rule ordinary_items_handed_out_once [OF demo_loot_ok])

section \<open>Items that are handed out more than once\<close>

definition conditional_loot :: loot where
  "conditional_loot = (Loot_new 0)\<lparr>l_items := [(demo_item 25 1)\<lparr>li_conditions := [4]\<rparr>]\<rparr>"

definition filled_for_two :: "loot \<Rightarrow> (loot_fault, loot \<times> loot_world) result" where
  "filled_for_two l = bind_result (FillNotNormalLootFor demo_env 1 True (l, demo_world)) (FillNotNormalLootFor demo_env 2 True)"

definition ffa_loot :: loot where
  "ffa_loot = (Loot_new 0)\<lparr>l_items := [(demo_item 25 1)\<lparr>li_freeforall := True\<rparr>]\<rparr>"

lemma received_take_cond:
  assumes "sr_quest r = False" "sr_qitem r = None" "sr_ffaitem r = None" "sr_conditem r = Some j"
    and "\<not> li_freeforall it"
  shows "received (lw_out (snd (take_item env p slot r it (l, w)))) =
      add_mset (li_itemid it, li_count it) (received (lw_out w))"
    and "l_unlootedCount (fst (take_item env p slot r it (l, w))) = l_unlootedCount l - 1"
  using assms received_notify [of env slot "l\<lparr>l_PlayerCondItems := mark_entry p j (l_PlayerCondItems l)\<rparr>"
      "StoreNewItem p (li_itemid it) (li_count it) (li_randomPropertyId it) w"]
  by (auto simp: take_item_def Let_def emit_def StoreNewItem_def NotifyItemRemoved_def notify_looters_def ref_update_def)
    (simp_all add: received_def)

text \<open>
  An item with a loot condition is not protected: a player with an open entry for it takes it
  whether or not it is already looted, because only the entry in the player's own list is
  consulted. Each time the counter of unlooted items goes down by one, though the item was
  counted once, when the first player's list was filled.
\<close>

theorem conditional_item_ignores_looted:
  assumes "i < length (l_items l)" and "length (l_items l) < 256" and "it = l_items l ! i"
    and "\<not> li_freeforall it" and "li_conditions it \<noteq> []"
    and "own_entry (l_PlayerCondItems l) p (of_nat i) = Some (j, e)" and "\<not> nn_is_looted e"
    and "AllowedForPlayer env (lw_out w) it p = Inr True" and "\<not> li_is_blocked it" and "li_rollWinnerGUID it = 0"
    and "le_CanStore env (lw_out w) p (li_itemid it) (li_count it) = EQUIP_ERR_OK"
  shows "\<exists>l' w'. StoreLootItem env p (of_nat i) (l, w) = Inr (l', w') \<and>
    received (lw_out w') = add_mset (li_itemid it, li_count it) (received (lw_out w)) \<and>
    l_unlootedCount l' = l_unlootedCount l - 1"
proof -
  have slot: "ucast (of_nat i :: uint8) = (of_nat i :: uint32)" "unat (of_nat i :: uint32) = i"
    using assms(1,2) by (simp_all add: word_unat_eq_iff unsigned_ucast_eq unsigned_of_nat take_bit_nat_eq_self)
  let ?r = "\<lparr>sr_quest = False, sr_index = i, sr_qitem = None, sr_ffaitem = None, sr_conditem = Some j\<rparr>"
  have "LootItemInSlot l (of_nat i) p = Inr (Some ?r)"
    using assms(1,3-7) by (simp add: LootItemInSlot_def Let_def slot)
  then have "StoreLootItem env p (of_nat i) (l, w) = Inr (take_item env p (of_nat i) ?r it (l, w))"
    using assms(3,8-11) by (simp add: StoreLootItem_def slot(1) ref_item_def Let_def)
  then show ?thesis
    using received_take_cond [of ?r j it env p "of_nat i" l w] assms(4)
    by (intro exI [of _ "fst (take_item env p (of_nat i) ?r it (l, w))"]
        exI [of _ "snd (take_item env p (of_nat i) ?r it (l, w))"]) simp
qed

text \<open>The second of two players takes the item that the first one has taken.\<close>

theorem conditional_item_ignores_looted_witness:
  "\<exists>l w l' w'. bind_result (filled_for_two conditional_loot) (take_requests demo_env [(1, 0)]) = Inr (l, w) \<and>
     li_is_looted (l_items l ! 0) \<and> StoreLootItem demo_env 2 0 (l, w) = Inr (l', w') \<and>
     received (lw_out w') = {#(25, 1), (25, 1)#}"
proof -
  let ?it = "(demo_item 25 1)\<lparr>li_conditions := [4], li_is_looted := True, li_is_counted := True\<rparr>"
  have "case bind_result (filled_for_two conditional_loot) (take_requests demo_env [(1, 0)]) of Inl e \<Rightarrow> False
    | Inr (l, w) \<Rightarrow> l_items l = [?it] \<and>
        own_entry (l_PlayerCondItems l) 2 0 = Some (0, NotNormalLootItem_new 0) \<and>
        received (lw_out w) = {#(25, 1)#} \<and> AllowedForPlayer demo_env (lw_out w) ?it 2 = Inr True"
    by code_simp
  then obtain l w where s: "bind_result (filled_for_two conditional_loot) (take_requests demo_env [(1, 0)]) = Inr (l, w)"
    and l: "l_items l = [?it]" "own_entry (l_PlayerCondItems l) 2 0 = Some (0, NotNormalLootItem_new 0)"
    and w: "received (lw_out w) = {#(25, 1)#}" "AllowedForPlayer demo_env (lw_out w) ?it 2 = Inr True"
    by (auto split: sum.splits)
  have "\<exists>l' w'. StoreLootItem demo_env 2 (of_nat 0) (l, w) = Inr (l', w') \<and>
      received (lw_out w') = add_mset (li_itemid ?it, li_count ?it) (received (lw_out w)) \<and>
      l_unlootedCount l' = l_unlootedCount l - 1"
    by (rule conditional_item_ignores_looted [where j = 0 and e = "NotNormalLootItem_new 0"])
      (use l w in \<open>simp_all add: loot_demo_defs NotNormalLootItem_new_def\<close>)
  then show ?thesis using s l(1) w(1) by (auto simp: demo_item_def)
qed

text \<open>
  A player without a list of free-for-all items, such as one who joined after the loot was
  filled, can take a free-for-all item as often as there is room in the bags.
\<close>

theorem free_for_all_item_taken_repeatedly:
  "case bind_result (filled_for_two ffa_loot) (take_requests demo_env (replicate 3 (3, 0))) of
     Inl e \<Rightarrow> False
   | Inr (l', w') \<Rightarrow> received (lw_out w') = {#(25, 1), (25, 1), (25, 1)#}"
  by code_simp

section \<open>The loot window and taking\<close>

lemma slot_of_ordinary:
  assumes "i < length (l_items l)" and "length (l_items l) < 256" and "li_freeforall (l_items l ! i) = False"
    and "li_conditions (l_items l ! i) = []" and "li_is_looted (l_items l ! i) = False"
  shows "LootItemInSlot l (ucast (of_nat i :: uint8)) p =
    Inr (Some \<lparr>sr_quest = False, sr_index = i, sr_qitem = None, sr_ffaitem = None, sr_conditem = None\<rparr>)"
proof -
  have "unat (ucast (of_nat i :: uint8) :: uint32) = i"
    using assms(1,2) by (simp add: unsigned_ucast_eq unsigned_of_nat take_bit_nat_eq_self)
  then show ?thesis using assms by (simp add: LootItemInSlot_def Let_def)
qed

lemma received_take:
  assumes "sr_quest r = False" "sr_qitem r = None" "sr_ffaitem r = None" "sr_conditem r = None"
  shows "received (lw_out (snd (take_item env p slot r it (l, w)))) =
    add_mset (li_itemid it, li_count it) (received (lw_out w))"
  using assms received_notify [of env slot l "StoreNewItem p (li_itemid it) (li_count it) (li_randomPropertyId it) w"]
  by (auto simp: take_item_def Let_def emit_def StoreNewItem_def NotifyItemRemoved_def notify_looters_def)
    (simp_all add: received_def)

text \<open>
  C19. For a member of a group that shares loot (group loot, master loot), the slot type the loot
  window shows for an ordinary item is the truth: with room in the bags, \<open>StoreLootItem\<close> hands
  the item out exactly when the window shows it as free to take or as the viewer's own; an item
  under a roll, reserved for the master looter or locked is refused.
\<close>

theorem window_shows_what_can_be_taken:
  assumes "loot_ok env l" and "i < length (l_items l)" and "it = l_items l ! i"
    and "\<not> li_is_looted it" and "\<not> li_freeforall it" and "li_conditions it = []"
    and "AllowedForPlayer env (lw_out w) it p = Inr True"
    and "le_CanStore env (lw_out w) p (li_itemid it) (li_count it) = EQUIP_ERR_OK"
    and "perm \<in> {GROUP_PERMISSION, MASTER_PERMISSION, RESTRICTED_PERMISSION}"
    and "item_slot_type env l p perm it = Some st"
  shows "\<exists>l' w'. StoreLootItem env p (of_nat i) (l, w) = Inr (l', w') \<and>
    (received (lw_out w') = received (lw_out w) + {#(li_itemid it, li_count it)#} \<longleftrightarrow>
     st \<in> {LOOT_SLOT_TYPE_ALLOW_LOOT, LOOT_SLOT_TYPE_OWNER})"
proof -
  let ?r = "\<lparr>sr_quest = False, sr_index = i, sr_qitem = None, sr_ffaitem = None, sr_conditem = None\<rparr>"
  have len: "length (l_items l) < 256" using assms(1) by (simp add: loot_ok_def)
  have slot: "LootItemInSlot l (ucast (of_nat i :: uint8)) p = Inr (Some ?r)"
    using slot_of_ordinary [OF assms(2) len] assms(3-6) by simp
  have ref: "ref_item l ?r = it" using assms(3) by (simp add: ref_item_def)
  show ?thesis
  proof (cases "li_is_blocked it \<or> li_rollWinnerGUID it \<noteq> 0 \<and> li_rollWinnerGUID it \<noteq> p")
    case True
    then have "StoreLootItem env p (of_nat i) (l, w) = Inr (l, SendLootRelease p (lw_lootGuid w p) w)"
      using slot ref assms(7) by (auto simp: StoreLootItem_def Let_def)
    moreover have "st \<notin> {LOOT_SLOT_TYPE_ALLOW_LOOT, LOOT_SLOT_TYPE_OWNER}"
      using assms(9,10) True by (auto simp: item_slot_type_def split: if_splits option.splits)
    ultimately show ?thesis by (simp add: SendLootRelease_def)
  next
    case False
    then have "StoreLootItem env p (of_nat i) (l, w) = Inr (take_item env p (of_nat i) ?r it (l, w))"
      using slot ref assms(7,8) by (auto simp: StoreLootItem_def)
    moreover have "st \<in> {LOOT_SLOT_TYPE_ALLOW_LOOT, LOOT_SLOT_TYPE_OWNER}"
      using assms(9,10) False by (auto simp: item_slot_type_def split: if_splits)
    ultimately show ?thesis
      using received_take [of ?r env p "of_nat i" it l w] by (cases "take_item env p (of_nat i) ?r it (l, w)") simp
  qed
qed

theorem window_shows_what_can_be_taken_witness:
  "\<exists>l' w'. StoreLootItem demo_env 1 (of_nat 1) (demo_loot, demo_world) = Inr (l', w') \<and>
    (received (lw_out w') = received (lw_out demo_world) + {#(li_itemid (demo_item 2589 7), li_count (demo_item 2589 7))#} \<longleftrightarrow>
     LOOT_SLOT_TYPE_ALLOW_LOOT \<in> {LOOT_SLOT_TYPE_ALLOW_LOOT, LOOT_SLOT_TYPE_OWNER})"
  by (rule window_shows_what_can_be_taken [where perm = GROUP_PERMISSION, OF demo_loot_ok(1)])
    (simp_all add: loot_demo_defs AllowedForPlayer_def IsObjectMeetToConditions_def item_slot_type_def)

text \<open>
  An item below the threshold that is the turn of the round-robin looter is not shown to the
  other members, but it is not protected either: a member who asks for its slot receives it.
\<close>

theorem hidden_round_robin_item_is_not_protected:
  assumes "loot_ok env l" and "i < length (l_items l)" and "it = l_items l ! i"
    and "\<not> li_is_looted it" and "\<not> li_freeforall it" and "li_conditions it = []"
    and "AllowedForPlayer env (lw_out w) it p = Inr True"
    and "le_CanStore env (lw_out w) p (li_itemid it) (li_count it) = EQUIP_ERR_OK"
    and "li_is_underthreshold it" and "\<not> li_is_blocked it" and "li_rollWinnerGUID it = 0"
    and "l_roundRobinPlayer l \<noteq> 0" and "l_roundRobinPlayer l \<noteq> p"
  shows "item_slot_type env l p GROUP_PERMISSION it = None \<and>
    (\<exists>l' w'. StoreLootItem env p (of_nat i) (l, w) = Inr (l', w') \<and>
       received (lw_out w') = received (lw_out w) + {#(li_itemid it, li_count it)#})"
proof -
  let ?r = "\<lparr>sr_quest = False, sr_index = i, sr_qitem = None, sr_ffaitem = None, sr_conditem = None\<rparr>"
  have len: "length (l_items l) < 256" using assms(1) by (simp add: loot_ok_def)
  have "StoreLootItem env p (of_nat i) (l, w) = Inr (take_item env p (of_nat i) ?r it (l, w))"
    using slot_of_ordinary [OF assms(2) len] assms by (simp add: StoreLootItem_def ref_item_def)
  then show ?thesis
    using received_take [of ?r env p "of_nat i" it l w] assms(9-13)
    by (cases "take_item env p (of_nat i) ?r it (l, w)") (simp add: item_slot_type_def)
qed

definition round_robin_loot :: loot where
  "round_robin_loot = demo_loot\<lparr>l_items := [demo_item 25 1, (demo_item 2589 7)\<lparr>li_is_underthreshold := True\<rparr>],
     l_roundRobinPlayer := 2\<rparr>"

theorem hidden_round_robin_item_is_not_protected_witness:
  "item_slot_type demo_env round_robin_loot 1 GROUP_PERMISSION ((demo_item 2589 7)\<lparr>li_is_underthreshold := True\<rparr>) = None \<and>
    (\<exists>l' w'. StoreLootItem demo_env 1 (of_nat 1) (round_robin_loot, demo_world) = Inr (l', w') \<and>
       received (lw_out w') = received (lw_out demo_world) +
         {#(li_itemid ((demo_item 2589 7)\<lparr>li_is_underthreshold := True\<rparr>),
            li_count ((demo_item 2589 7)\<lparr>li_is_underthreshold := True\<rparr>))#})"
  by (rule hidden_round_robin_item_is_not_protected)
    (simp_all add: loot_demo_defs round_robin_loot_def loot_ok_def known_items_def entries_ok_def omap_ok_def
      AllowedForPlayer_def IsObjectMeetToConditions_def)

section \<open>Generating loot\<close>

text \<open>
  An entry that needs a quest goes to the quest items, of which the loot holds 32, every other
  one to the ordinary items, of which it holds 16.
\<close>

definition stack_list :: "loot_store_item \<Rightarrow> loot \<Rightarrow> loot_item list" where
  "stack_list si l = (if si_needs_quest si then l_quest_items l else l_items l)"

definition other_list :: "loot_store_item \<Rightarrow> loot \<Rightarrow> loot_item list" where
  "other_list si l = (if si_needs_quest si then l_items l else l_quest_items l)"

definition stack_room :: "loot_store_item \<Rightarrow> nat" where
  "stack_room si = (if si_needs_quest si then MAX_NR_QUEST_ITEMS else MAX_NR_LOOT_ITEMS)"

text \<open>The stacks that \<open>AddItem\<close> appended to the list the entry goes to.\<close>

definition new_items :: "loot_store_item \<Rightarrow> loot \<Rightarrow> loot \<Rightarrow> loot_item list" where
  "new_items si l l' = drop (length (stack_list si l)) (stack_list si l')"

lemma add_stacks_step:
  assumes "length (stack_list si l) < stack_room si" and "LootItem_new env si w = (it, w1)"
  obtains l2 where "add_stacks env si t (Suc n) c (l, w) = add_stacks env si t n (c - GetMaxStackSize t) (l2, w1)"
    and "stack_list si l2 = stack_list si l @ [it\<lparr>li_count := ucast (min c (GetMaxStackSize t))\<rparr>]"
    and "other_list si l2 = other_list si l"
proof -
  let ?it = "it\<lparr>li_count := ucast (min c (GetMaxStackSize t))\<rparr>"
  let ?l1 = "if si_needs_quest si then l\<lparr>l_quest_items := l_quest_items l @ [?it]\<rparr> else l\<lparr>l_items := l_items l @ [?it]\<rparr>"
  let ?l2 = "if \<not> si_needs_quest si \<and> si_conditions si = [] \<and> \<not> has_flag (it_Flags t) ITEM_FLAG_MULTI_DROP
             then ?l1\<lparr>l_unlootedCount := l_unlootedCount ?l1 + 1\<rparr> else ?l1"
  have "add_stacks env si t (Suc n) c (l, w) = add_stacks env si t n (c - GetMaxStackSize t) (?l2, w1)"
    using assms by (simp add: Let_def stack_list_def stack_room_def)
  then show thesis by (rule that) (simp_all add: stack_list_def other_list_def)
qed

lemma add_stacks_counts:
  assumes "0 < m" and "m \<le> 255" and "m = unat (GetMaxStackSize t)"
    and "unat c \<le> n * m" and "length (stack_list si l) + n \<le> stack_room si" and "(n - 1) * m < unat c \<or> n = 0"
  shows "\<exists>new. stack_list si (fst (add_stacks env si t n c (l, w))) = stack_list si l @ new \<and> length new = n \<and>
    sum_list (map (\<lambda>it. unat (li_count it)) new) = unat c \<and>
    list_all (\<lambda>it. li_itemid it = si_itemid si \<and> unat (li_count it) \<le> m) new \<and>
    other_list si (fst (add_stacks env si t n c (l, w))) = other_list si l"
  using assms(4-6)
proof (induction n arbitrary: c l w)
  case (Suc n)
  let ?s = "GetMaxStackSize t"
  obtain it w1 where new: "LootItem_new env si w = (it, w1)" by (cases "LootItem_new env si w")
  have id: "li_itemid it = si_itemid si" using new by (auto simp: LootItem_new_def Let_def)
  let ?it = "it\<lparr>li_count := ucast (min c ?s)\<rparr>"
  have room: "length (stack_list si l) < stack_room si" using Suc.prems(2) by simp
  obtain l2 where step: "add_stacks env si t (Suc n) c (l, w) = add_stacks env si t n (c - ?s) (l2, w1)"
    and l2: "stack_list si l2 = stack_list si l @ [?it]" "other_list si l2 = other_list si l"
    by (rule add_stacks_step [OF room new])
  have "unat (min c ?s) = min (unat c) m" using assms(3) by (simp add: min_def word_le_nat_alt)
  then have cnt: "unat (li_count ?it) = min (unat c) m"
    using assms(2) by (simp add: unsigned_ucast_eq take_bit_nat_eq_self min_def)
  show ?case
  proof (cases n)
    case 0
    then have "unat c \<le> m" using Suc.prems(1) by simp
    then show ?thesis using step l2 0 cnt id by (intro exI [of _ "[?it]"]) simp
  next
    case (Suc k)
    then have lt: "n * m < unat c" and m: "m < unat c"
      using Suc.prems(3) assms(1) by (auto intro: le_less_trans [rotated])
    have sub: "unat (c - ?s) = unat c - m"
      using m assms(3) by (simp add: unat_sub_if_size word_size word_le_nat_alt)
    have "unat (c - ?s) \<le> n * m" using sub Suc.prems(1) by simp
    moreover have "length (stack_list si l2) + n \<le> stack_room si" using Suc.prems(2) by (simp add: l2)
    moreover have "(n - 1) * m < unat (c - ?s) \<or> n = 0"
      using lt sub Suc by (simp add: less_diff_conv)
    ultimately obtain new' where n': "stack_list si (fst (add_stacks env si t n (c - ?s) (l2, w1))) = stack_list si l2 @ new'"
      "length new' = n" "sum_list (map (\<lambda>it. unat (li_count it)) new') = unat (c - ?s)"
      "list_all (\<lambda>it. li_itemid it = si_itemid si \<and> unat (li_count it) \<le> m) new'"
      "other_list si (fst (add_stacks env si t n (c - ?s) (l2, w1))) = other_list si l2"
      using Suc.IH by blast
    then show ?thesis
      using step l2 cnt id sub m by (intro exI [of _ "?it # new'"]) (simp add: min_def)
  qed
qed simp

lemma stacks_of_bounds:
  assumes "m = unat s" and "0 < m"
  shows "unat c \<le> unat (stacks_of c s) * m \<and> ((unat (stacks_of c s) - 1) * m < unat c \<or> unat (stacks_of c s) = 0)"
proof -
  have d: "unat (c div s) = unat c div m" and r: "(c mod s = 0) = (unat c mod m = 0)"
    using assms by (auto simp: unat_div_distrib unat_mod_distrib word_unat_eq_iff)
  have le: "unat c div m \<le> unat c" by simp
  have "unat (c div s + 1) = unat c div m + 1" if "unat c mod m \<noteq> 0"
  proof -
    have "m \<noteq> 1" and "unat c \<noteq> 0" using that by (metis mod_by_1, metis mod_0)
    then have "unat c div m < unat c" using assms(2) by (intro div_less_dividend) simp_all
    moreover have "unat c < 2 ^ LENGTH(32)" by (rule unsigned_less)
    ultimately have "unat c div m + 1 < 2 ^ 32" by simp
    then show ?thesis using d by (simp add: unat_word_ariths(1))
  qed
  then have st: "unat (stacks_of c s) = unat c div m + (if unat c mod m \<noteq> 0 then 1 else 0)"
    using d r by (simp add: stacks_of_def)
  define q r where "q = unat c div m" and "r = unat c mod m"
  have eq: "unat c = q * m + r" and lt: "r < m" using assms(2) by (simp_all add: q_def r_def)
  show ?thesis
  proof (cases "r = 0")
    case True
    have "q = 0 \<or> (q - 1) * m < q * m" using assms(2) by (cases q) simp_all
    then show ?thesis using st eq True by (auto simp: q_def [symmetric] r_def [symmetric])
  next
    case False
    then have "unat (stacks_of c s) = Suc q" using st by (simp add: q_def r_def)
    then show ?thesis using eq lt False by simp
  qed
qed

text \<open>
  C28. \<open>AddItem\<close> splits the count it draws into stacks without losing or adding anything. It
  appends to the quest items when the entry needs a quest and to the ordinary items otherwise,
  and leaves the other list alone. When that list has room for the stacks (32 and 16 items), the
  new stacks are of the entry's item, none exceeds the maximal stack of the item, and their
  counts add up to the drawn count. This holds for stacks of at most 255, the range of the 8-bit
  count of a loot item.
\<close>

theorem AddItem_splits_into_stacks:
  assumes "le_template env (si_itemid si) = Some t" and "GetMaxStackSize t \<le> 255"
    and "c = le_urand env (lw_draws w) (ucast (si_mincount si)) (ucast (si_maxcount si))"
    and "length (stack_list si l) + unat (stacks_of c (GetMaxStackSize t)) \<le> stack_room si"
    and "l' = fst (AddItem env si (l, w))"
  shows "stack_list si l' = stack_list si l @ new_items si l l' \<and> other_list si l' = other_list si l \<and>
    sum_list (map (\<lambda>it. unat (li_count it)) (new_items si l l')) = unat c \<and>
    list_all (\<lambda>it. li_itemid it = si_itemid si \<and> unat (li_count it) \<le> unat (GetMaxStackSize t)) (new_items si l l')"
proof -
  let ?m = "unat (GetMaxStackSize t)" and ?n = "unat (stacks_of c (GetMaxStackSize t))"
  have "GetMaxStackSize t \<noteq> 0" by (auto simp: GetMaxStackSize_def)
  then have m: "0 < ?m" by (simp add: unat_gt_0)
  have m255: "?m \<le> 255" using assms(2) by (simp add: word_le_nat_alt)
  have l': "l' = fst (add_stacks env si t ?n c (l, draw w))"
    using assms(1,3,5) by (simp add: AddItem_def Let_def)
  note b = stacks_of_bounds [OF refl m, of c]
  have "\<exists>new. stack_list si l' = stack_list si l @ new \<and> length new = ?n \<and>
      sum_list (map (\<lambda>it. unat (li_count it)) new) = unat c \<and>
      list_all (\<lambda>it. li_itemid it = si_itemid si \<and> unat (li_count it) \<le> ?m) new \<and>
      other_list si l' = other_list si l"
    unfolding l' by (rule add_stacks_counts [OF m m255 refl]) (use b assms(4) in auto)
  then show ?thesis by (auto simp: new_items_def)
qed

definition demo_entry :: "uint32 \<Rightarrow> uint8 \<Rightarrow> loot_store_item" where
  "demo_entry i n = \<lparr>si_itemid = i, si_reference = 0, si_chance = 0x42C80000, si_lootmode = 1, si_needs_quest = False,
     si_groupid = 0, si_mincount = 1, si_maxcount = n, si_conditions = []\<rparr>"

text \<open>45 of an item that stacks to 20, as a quest item: two full stacks and one of 5.\<close>

theorem AddItem_splits_into_stacks_witness:
  "let si = (demo_entry 2589 45)\<lparr>si_needs_quest := True\<rparr>; l' = fst (AddItem demo_env si (demo_loot, demo_world))
   in l_quest_items l' = l_quest_items demo_loot @ new_items si demo_loot l' \<and> l_items l' = l_items demo_loot \<and>
     sum_list (map (\<lambda>it. unat (li_count it)) (new_items si demo_loot l')) = 45 \<and>
     list_all (\<lambda>it. li_itemid it = 2589 \<and> unat (li_count it) \<le> 20) (new_items si demo_loot l')"
proof -
  let ?si = "(demo_entry 2589 45)\<lparr>si_needs_quest := True\<rparr>" and ?t = "demo_template\<lparr>it_Quality := 1, it_Stackable := 20\<rparr>"
  have h: "le_template demo_env (si_itemid ?si) = Some ?t" "GetMaxStackSize ?t \<le> 255"
    "45 = le_urand demo_env (lw_draws demo_world) (ucast (si_mincount ?si)) (ucast (si_maxcount ?si))"
    "length (stack_list ?si demo_loot) + unat (stacks_of 45 (GetMaxStackSize ?t)) \<le> stack_room ?si"
    "unat (GetMaxStackSize ?t) = 20"
    by code_simp+
  then show ?thesis
    using AddItem_splits_into_stacks [OF h(1-4) refl]
    by (simp add: Let_def stack_list_def other_list_def demo_entry_def)
qed

section \<open>Loading and rolling tables\<close>

definition group_items :: "loot_table_group option \<Rightarrow> loot_store_item multiset" where
  "group_items g = (case g of None \<Rightarrow> {#}
     | Some g' \<Rightarrow> mset (tg_ExplicitlyChanced g') + mset (tg_EqualChanced g'))"

text \<open>All entries of a template: the ungrouped ones and those in its groups.\<close>

definition template_items :: "loot_template \<Rightarrow> loot_store_item multiset" where
  "template_items t = mset (lt_Entries t) + sum_list (map group_items (lt_Groups t))"

lemma sum_list_add:
  "i < length gs \<Longrightarrow> f x = add_mset a (f (gs ! i)) \<Longrightarrow> sum_list (map f (gs[i := x])) = add_mset a (sum_list (map f gs))"
proof (induction gs arbitrary: i)
  case (Cons g gs)
  then show ?case by (cases i) auto
qed simp

lemma template_items_new [simp]: "template_items LootTemplate_new = {#}"
  by (simp add: template_items_def LootTemplate_new_def)

lemma sum_list_replicate_None [simp]: "sum_list (replicate n (group_items None)) = {#}"
  by (induction n) (simp_all add: group_items_def)

lemma AddEntry_items: "template_items (AddEntry se si t) = add_mset si (template_items t)"
proof (cases "si_groupid si > 0 \<and> si_reference si = 0")
  case True
  let ?k = "unat (si_groupid si)"
  let ?gs = "if ?k \<ge> length (lt_Groups t) then lt_Groups t @ replicate (?k - length (lt_Groups t)) None else lt_Groups t"
  let ?g = "case ?gs ! (?k - 1) of None \<Rightarrow> LootGroup_new | Some g \<Rightarrow> g"
  have "?k - 1 < length ?gs" using True by (auto simp: word_gt_0 unat_gt_0)
  moreover have "group_items (Some (Group_AddEntry se si ?g)) = add_mset si (group_items (?gs ! (?k - 1)))"
    by (cases "?gs ! (?k - 1)") (auto simp: group_items_def Group_AddEntry_def LootGroup_new_def)
  ultimately have "sum_list (map group_items (?gs[?k - 1 := Some (Group_AddEntry se si ?g)])) =
      add_mset si (sum_list (map group_items ?gs))" by (rule sum_list_add)
  moreover have "sum_list (map group_items ?gs) = sum_list (map group_items (lt_Groups t))" by simp
  ultimately show ?thesis using True by (simp add: AddEntry_def Let_def template_items_def)
next
  case False
  then show ?thesis by (auto simp: AddEntry_def template_items_def)
qed

definition store_items :: "loot_store \<Rightarrow> uint32 \<Rightarrow> loot_store_item multiset" where
  "store_items m i = (case GetLootFor m i of None \<Rightarrow> {#} | Some t \<Rightarrow> template_items t)"

definition valid_rows :: "store_env \<Rightarrow> (uint32 \<times> loot_store_item) list \<Rightarrow> (uint32 \<times> loot_store_item) list" where
  "valid_rows se = filter (\<lambda>(e, si). StoreItem_IsValid se si)"

lemma load_rows_items:
  "omap_ok m \<Longrightarrow> load_rows se rows m n = (m', n') \<Longrightarrow>
   store_items m' i = store_items m i + mset (map snd (filter (\<lambda>(e, si). e = i) (valid_rows se rows))) \<and>
   n' = n + of_nat (length (valid_rows se rows))"
proof (induction se rows m n rule: load_rows.induct)
  case (2 se entry si rows m n)
  show ?case
  proof (cases "StoreItem_IsValid se si")
    case True
    let ?t = "case omap_find m entry of None \<Rightarrow> LootTemplate_new | Some t \<Rightarrow> t"
    have "store_items (omap_set entry (AddEntry se si ?t) m) i =
        store_items m i + (if entry = i then {#si#} else {#})"
      using "2.prems"(1)
      by (auto simp: store_items_def GetLootFor_def omap_find_set AddEntry_items split: option.split)
    then show ?thesis
      using "2.IH"(1) [OF True] "2.prems" True by (auto simp: omap_set_ok valid_rows_def)
  next
    case False
    then show ?thesis using 2 by (auto simp: valid_rows_def)
  qed
qed (simp add: valid_rows_def)

text \<open>
  C27. Loading a table loses no row and invents none: the template of an id consists, in its entries
  and groups, of exactly the valid rows with that id, each once, and the number reported is the
  number of valid rows (in 32 bits).
\<close>

theorem LoadLootTable_keeps_every_valid_row:
  "store_items (fst (LoadLootTable se rows)) i =
     mset (map snd (filter (\<lambda>(e, si). e = i) (valid_rows se rows))) \<and>
   snd (LoadLootTable se rows) = of_nat (length (valid_rows se rows))"
  using load_rows_items [of "[]" se rows 0 "fst (LoadLootTable se rows)" "snd (LoadLootTable se rows)" i]
  by (simp add: LoadLootTable_def omap_ok_def store_items_def GetLootFor_def omap_find_def)

text \<open>
  C18. When references do not go in a circle (each leads to a smaller rank), filling a loot from a
  table returns, with as many stack frames as the ranks require, and the loot it returns is
  well formed: at most 16 items and 32 quest items, every item known and every index of the
  players' lists in range.
\<close>

theorem FillLoot_returns_well_formed:
  assumes "qualities_ok (se_env se)" and "loot_ok (se_env se) l"
    and "\<forall>i t si. se_reference se i = Some t \<longrightarrow> si \<in> set (lt_Entries t) \<longrightarrow> si_reference si \<noteq> 0 \<longrightarrow>
      rank (si_reference si) < rank i"
    and "\<forall>t. GetLootFor store i = Some t \<longrightarrow> (\<forall>si \<in> set (lt_Entries t). si_reference si \<noteq> 0 \<longrightarrow> rank (si_reference si) < n)"
  shows "\<exists>b l' w'. FillLoot (Suc n) se store rates i owner personal mode (l, w) = Inr (b, l', w') \<and>
    loot_ok (se_env se) l'"
proof -
  have "depth_ok (Suc n) (se_reference se) t" if "GetLootFor store i = Some t" for t
    by (rule depth_ok_rank [where rank = rank]) (use assms(3,4) that in blast)+
  then have "yields (FillLoot (Suc n) se store rates i owner personal mode (l, w))
      (\<lambda>r. loot_ok (se_env se) (fst (snd r)))"
    using assms(1,2) by (intro FillLoot_yields) simp_all
  then show ?thesis by (auto simp: yields_def)
qed

definition reference_entry :: "uint32 \<Rightarrow> loot_store_item" where
  "reference_entry n = (demo_entry 0 1)\<lparr>si_reference := n\<rparr>"

definition quest_template :: loot_template where
  "quest_template = \<lparr>lt_Entries = [(demo_entry 25 1)\<lparr>si_needs_quest := True\<rparr>], lt_Groups = []\<rparr>"

text \<open>
  Reference 1 holds a quest item, reference 2 refers to itself. Every chance is certain; creature
  100 drops reference 1, creature 200 drops reference 2.
\<close>

definition demo_store_env :: store_env where
  "demo_store_env = \<lparr>se_env = demo_env, se_chanceGe100 = (\<lambda>_. True), se_chanceZero = (\<lambda>_. False),
     se_chanceLow = (\<lambda>_. False), se_rollReference = (\<lambda>_ _ _. True), se_rollItem = (\<lambda>_ _ _. True),
     se_randChance = (\<lambda>_. 0), se_sub = (\<lambda>a b. a), se_negative = (\<lambda>_. False),
     se_reference = (\<lambda>i. if i = 1 then Some quest_template
       else if i = 2 then Some \<lparr>lt_Entries = [reference_entry 2], lt_Groups = []\<rparr> else None)\<rparr>"

definition acyclic_store_env :: store_env where
  "acyclic_store_env = demo_store_env\<lparr>se_reference := (\<lambda>i. if i = 1 then Some quest_template else None)\<rparr>"

definition creature_store :: loot_store where
  "creature_store = fst (LoadLootTable demo_store_env [(100, reference_entry 1), (200, reference_entry 2)])"

lemmas store_defs = demo_store_env_def acyclic_store_env_def creature_store_def quest_template_def
  reference_entry_def demo_entry_def LoadLootTable_def StoreItem_IsValid_def AddEntry_def LootTemplate_new_def

theorem FillLoot_returns_well_formed_witness:
  "\<exists>b l' w'. FillLoot (Suc 1) acyclic_store_env creature_store True 100 (Some 1) True 1 (Loot_new 0, demo_world) = Inr (b, l', w') \<and>
    loot_ok (se_env acyclic_store_env) l'"
  by (rule FillLoot_returns_well_formed [where rank = "\<lambda>i. 0"])
    (auto simp: store_defs qualities_ok_def loot_demo_defs loot_ok_def known_items_def entries_ok_def omap_ok_def
      GetLootFor_def omap_find_def split: if_splits)

text \<open>
  Nothing rejects a reference to itself when tables are loaded, and rolling one never ends: however
  many stack frames there are, filling the loot runs out of them.
\<close>

theorem circular_reference_overflows:
  "FillLoot d demo_store_env creature_store True 200 (Some 1) True 1 (Loot_new 0, w) = Inl StackOverflow"
proof -
  let ?t = "\<lparr>lt_Entries = [reference_entry 2], lt_Groups = []\<rparr>"
  have "Process d demo_store_env True 1 0 ?t (l, w) = Inl StackOverflow" for l w
  proof (induction d arbitrary: l w)
    case (Suc d)
    have "(0 :: nat) < 1" by simp
    then show ?case
      using Suc by (simp add: process_entry_def reference_entry_def demo_entry_def StoreItem_Roll_def
          demo_store_env_def has_flag_def upt_conv_Cons)
  qed simp
  moreover have "GetLootFor creature_store 200 = Some ?t"
    by (simp add: store_defs GetLootFor_def omap_find_def)
  ultimately show ?thesis by (simp add: FillLoot_def)
qed

text \<open>
  A quest item behind a reference is dropped but not announced: the query for quest loot
  looks references up in the store it was asked about instead of the store of references,
  which \<open>Process\<close> uses. A creature that always drops a quest item is reported to have none.
\<close>

theorem quest_drop_behind_reference_is_missed:
  "(case FillLoot 5 acyclic_store_env creature_store True 100 (Some 1) True 1 (Loot_new 0, demo_world) of
      Inl e \<Rightarrow> False | Inr (b, l', w') \<Rightarrow> b \<and> map li_needs_quest (l_quest_items l') = [True]) \<and>
   HaveQuestLootFor 5 creature_store 100 = Inr False"
  by code_simp

text \<open>
  The query for one group tests whether the group number is too large but not whether the group
  exists; the query for a player tests both.
\<close>

definition gap_template :: loot_template where
  "gap_template = AddEntry demo_store_env ((demo_entry 25 1)\<lparr>si_groupid := 2\<rparr>) LootTemplate_new"

theorem quest_query_reads_missing_group:
  "HasQuestDrop 5 (\<lambda>_. None) 1 gap_template = Inl NullGroup \<and>
   HasQuestDropForPlayer 5 demo_env [] (\<lambda>_. None) 1 1 gap_template = Inr False"
  by code_simp

end
