(* ===== verification/RollProps.thy ===== *)
theory RollProps
  imports LootProps
begin

text \<open>
  What the group loot code guarantees: who wins a roll, that counting a loot's rolls ends and
  removes them, that the counters of a roll agree with its votes, what master loot and the
  sharing of money do; and the cases in which an item is given twice or a roll ends early.
\<close>

section \<open>Who received what\<close>

fun store_of :: "loot_effect \<Rightarrow> (guid \<times> uint32 \<times> uint8) list" where
  "store_of (LStore p itemid cnt prop_id) = [(p, itemid, cnt)]"
| "store_of e = []"

definition stores :: "loot_world \<Rightarrow> (guid \<times> uint32 \<times> uint8) list" where
  "stores w = concat (map store_of (lw_out w))"

lemma stores_send [simp]: "stores (send_to p opcode fs w) = stores w"
  by (simp add: stores_def send_to_def emit_def)

lemma stores_draw [simp]: "stores (draw w) = stores w"
  by (simp add: stores_def draw_def)

lemma stores_store [simp]: "stores (StoreNewItem p i n x w) = stores w @ [(p, i, n)]"
  by (simp add: stores_def StoreNewItem_def emit_def)

lemma draws_send [simp]: "lw_draws (send_to p opcode fs w) = lw_draws w"
  by (simp add: send_to_def emit_def)

lemma draws_draw [simp]: "lw_draws (draw w) = Suc (lw_draws w)"
  by (simp add: draw_def)

lemma send_voters_world [simp]:
  "stores (send_voters env P votes opcode fs w) = stores w"
  "lw_draws (send_voters env P votes opcode fs w) = lw_draws w"
  by (induction votes arbitrary: w) (auto simp: send_voters_def split: prod.splits)

lemma announcements_world [simp]:
  "stores (SendLootRoll env a b c d r w) = stores w" "lw_draws (SendLootRoll env a b c d r w) = lw_draws w"
  "stores (SendLootRollWon env a b c d r w) = stores w" "stores (SendLootAllPassed env r w) = stores w"
  "stores (SendEquipError env p m i w) = stores w"
  by (simp_all add: SendLootRoll_def SendLootRollWon_def SendLootAllPassed_def SendEquipError_def)

lemma stores_fold_send:
  "(\<And>p w. stores (tell p w) = stores w) \<Longrightarrow> stores (fold (\<lambda>p w. if P p then tell p w else w) ps w) = stores w"
  by (induction ps arbitrary: w) auto

lemma stores_notify [simp]: "stores (snd (NotifyItemRemoved env slot (l, w))) = stores w"
  by (simp add: NotifyItemRemoved_def notify_looters_def SendNotifyLootItemRemoved_def stores_fold_send)

section \<open>The winner of the rolls\<close>

definition is_present :: "loot_env \<Rightarrow> uint32 option \<Rightarrow> guid \<Rightarrow> bool" where
  "is_present env m p \<longleftrightarrow> le_FindPlayer env p \<and> (case m of None \<Rightarrow> True | Some k \<Rightarrow> le_mapOf env p = k)"

definition voters :: "roll_vote \<Rightarrow> roll \<Rightarrow> guid list" where
  "voters v r = map fst (filter (\<lambda>(p, v'). v' = v) (ro_playerVote r))"

definition present_voters :: "loot_env \<Rightarrow> uint32 option \<Rightarrow> roll_vote \<Rightarrow> roll \<Rightarrow> guid list" where
  "present_voters env m v r = filter (is_present env m) (voters v r)"

definition dice :: "loot_env \<Rightarrow> nat \<Rightarrow> uint8" where
  "dice env k = ucast (le_urand env k 1 100)"

text \<open>The documented range of \<open>urand(1, 100)\<close>.\<close>

definition fair_dice :: "loot_env \<Rightarrow> bool" where
  "fair_dice env \<longleftrightarrow> (\<forall>k. 1 \<le> le_urand env k 1 100 \<and> le_urand env k 1 100 \<le> 100)"

lemma dice_pos: "fair_dice env \<Longrightarrow> 0 < dice env k"
proof -
  assume "fair_dice env"
  then have "1 \<le> unat (le_urand env k 1 100)" "unat (le_urand env k 1 100) \<le> 100"
    by (auto simp: fair_dice_def word_le_nat_alt)
  then show ?thesis
    by (simp add: dice_def word_less_nat_alt unsigned_ucast_eq take_bit_nat_eq_self)
qed

fun best_roll :: "(nat \<Rightarrow> uint8) \<Rightarrow> nat \<Rightarrow> guid list \<Rightarrow> guid \<times> uint8 \<Rightarrow> guid \<times> uint8" where
  "best_roll f n [] gb = gb"
| "best_roll f n (p # ps) gb = best_roll f (Suc n) ps (if snd gb < f n then (p, f n) else gb)"

lemma best_roll_spec:
  "best_roll f n ps gb = gb \<and> (\<forall>j < length ps. f (n + j) \<le> snd gb) \<or>
   (\<exists>k < length ps. best_roll f n ps gb = (ps ! k, f (n + k)) \<and> snd gb < f (n + k) \<and>
     (\<forall>j < length ps. f (n + j) \<le> f (n + k)) \<and> (\<forall>j < k. f (n + j) < f (n + k)))"
proof (induction ps arbitrary: n gb)
  case (Cons p ps)
  let ?gb = "if snd gb < f n then (p, f n) else gb"
  from Cons.IH [of "Suc n" ?gb] show ?case
  proof (elim disjE exE conjE)
    assume "best_roll f (Suc n) ps ?gb = ?gb" and le: "\<forall>j<length ps. f (Suc n + j) \<le> snd ?gb"
    show ?thesis
    proof (cases "snd gb < f n")
      case True
      then have "\<forall>j < length (p # ps). f (n + j) \<le> f (n + 0)"
        using le by (auto simp: less_Suc_eq_0_disj)
      then show ?thesis
        using True \<open>best_roll f (Suc n) ps ?gb = ?gb\<close> by (intro disjI2 exI [of _ 0]) simp
    next
      case False
      then show ?thesis
        using le \<open>best_roll f (Suc n) ps ?gb = ?gb\<close> by (intro disjI1) (auto simp: less_Suc_eq_0_disj)
    qed
  next
    fix k
    assume k: "k < length ps" "best_roll f (Suc n) ps ?gb = (ps ! k, f (Suc n + k))" "snd ?gb < f (Suc n + k)"
      "\<forall>j<length ps. f (Suc n + j) \<le> f (Suc n + k)" "\<forall>j<k. f (Suc n + j) < f (Suc n + k)"
    have "f n < f (Suc n + k)" "snd gb < f (Suc n + k)" using k(3) by (auto split: if_splits)
    then show ?thesis
      using k by (intro disjI2 exI [of _ "Suc k"]) (auto simp: less_Suc_eq_0_disj)
  qed
qed simp

lemma roll_step_other: "v' \<noteq> v \<Longrightarrow> roll_step env m v code r (p, v') t = t"
  by (simp add: roll_step_def)

lemma roll_step_absent:
  "\<not> is_present env m p \<Longrightarrow> roll_step env m v code r (p, v) t = t\<lparr>ty_left := ty_left t - 1\<rparr>"
  by (auto simp: roll_step_def is_present_def split: option.splits)

lemma roll_step_present:
  assumes "is_present env m p"
  shows "ty_left (roll_step env m v code r (p, v) t) = ty_left t"
    and "lw_draws (ty_world (roll_step env m v code r (p, v) t)) = Suc (lw_draws (ty_world t))"
    and "stores (ty_world (roll_step env m v code r (p, v) t)) = stores (ty_world t)"
    and "(ty_maxguid (roll_step env m v code r (p, v) t), ty_maxresul (roll_step env m v code r (p, v) t)) =
      (if ty_maxresul t < dice env (lw_draws (ty_world t)) then (p, dice env (lw_draws (ty_world t)))
       else (ty_maxguid t, ty_maxresul t))"
    and "ty_vote (roll_step env m v code r (p, v) t) =
      (if ty_maxresul t < dice env (lw_draws (ty_world t)) then v else ty_vote t)"
  using assms by (auto simp: roll_step_def is_present_def dice_def Let_def split: option.splits)

lemma votes_induct [case_names Nil other absent present]:
  assumes "\<And>t. Q [] t"
    and "\<And>p v' votes t. v' \<noteq> v \<Longrightarrow> Q votes t \<Longrightarrow> Q ((p, v') # votes) t"
    and "\<And>p votes t. \<not> is_present env m p \<Longrightarrow> (\<And>t. Q votes t) \<Longrightarrow> Q ((p, v) # votes) t"
    and "\<And>p votes t. is_present env m p \<Longrightarrow> (\<And>t. Q votes t) \<Longrightarrow> Q ((p, v) # votes) t"
  shows "Q votes t"
proof (induction votes arbitrary: t)
  case (Cons pv votes)
  obtain p v' where pv: "pv = (p, v')" by (cases pv)
  show ?case
  proof (cases "v' = v")
    case True
    then show ?thesis
      using pv assms(3,4) Cons.IH by (cases "is_present env m p") simp_all
  qed (use pv assms(2) Cons.IH in simp)
qed (rule assms(1))

abbreviation here :: "loot_env \<Rightarrow> uint32 option \<Rightarrow> roll_vote \<Rightarrow> (guid, roll_vote) omap \<Rightarrow> (guid, roll_vote) omap" where
  "here env m v \<equiv> filter (\<lambda>(p, v'). v' = v \<and> is_present env m p)"

lemma present_voters_eq: "present_voters env m v r = map fst (here env m v (ro_playerVote r))"
proof -
  have "filter (is_present env m) (map fst (filter (\<lambda>(p, v'). v' = v) votes)) = map fst (here env m v votes)" for votes
    by (induction votes) auto
  then show ?thesis by (simp add: present_voters_def voters_def)
qed

lemma here_le: "length (here env m v votes) \<le> length (filter (\<lambda>(p, v'). v' = v) votes)"
  by (induction votes) auto

lemma roll_all_best:
  "(ty_maxguid (roll_all env m v code r t), ty_maxresul (roll_all env m v code r t)) =
     best_roll (dice env) (lw_draws (ty_world t)) (present_voters env m v r) (ty_maxguid t, ty_maxresul t)"
proof -
  have "(ty_maxguid (fold (roll_step env m v code r) votes t), ty_maxresul (fold (roll_step env m v code r) votes t)) =
       best_roll (dice env) (lw_draws (ty_world t)) (map fst (here env m v votes)) (ty_maxguid t, ty_maxresul t)" for votes
    by (induction votes t rule: votes_induct [where env = env and m = m and v = v])
      (simp_all add: roll_step_other roll_step_absent roll_step_present)
  then show ?thesis by (simp add: roll_all_def present_voters_eq)
qed

lemma roll_all_left:
  "ty_left (roll_all env m v code r t) = ty_left t - of_nat (length (voters v r) - length (present_voters env m v r))"
proof -
  have "ty_left (fold (roll_step env m v code r) votes t) = ty_left t -
       of_nat (length (filter (\<lambda>(p, v'). v' = v) votes) - length (here env m v votes))" for votes
  proof (induction votes t rule: votes_induct [where env = env and m = m and v = v])
    case (absent p votes t)
    then show ?case using here_le [of v env m votes] by (simp add: roll_step_absent Suc_diff_le)
  qed (simp_all add: roll_step_other roll_step_present)
  then show ?thesis by (simp add: roll_all_def present_voters_eq voters_def)
qed

lemma roll_all_stores [simp]: "stores (ty_world (roll_all env m v code r t)) = stores (ty_world t)"
proof -
  have "stores (ty_world (fold (roll_step env m v code r) votes t)) = stores (ty_world t)" for votes
    by (induction votes t rule: votes_induct [where env = env and m = m and v = v])
      (simp_all add: roll_step_other roll_step_absent roll_step_present)
  then show ?thesis by (simp add: roll_all_def)
qed

lemma roll_all_vote:
  assumes "ty_vote t = v \<or> ty_maxguid t = 0" and "0 \<notin> set (voters v r)"
  shows "ty_vote (roll_all env m v code r t) = v \<or> ty_maxguid (roll_all env m v code r t) = 0"
proof -
  have "ty_vote t = v \<or> ty_maxguid t = 0 \<Longrightarrow>
       ty_vote (fold (roll_step env m v code r) votes t) = v \<or> ty_maxguid (fold (roll_step env m v code r) votes t) = 0" for votes
    by (induction votes t rule: votes_induct [where env = env and m = m and v = v])
      (use roll_step_present in \<open>auto simp: roll_step_other roll_step_absent prod_eq_iff split: if_splits\<close>)
  then show ?thesis using assms by (simp add: roll_all_def)
qed

section \<open>The award\<close>

lemma award_result:
  assumes "roll_ref l r = Inr ref"
  obtains l' w' where "award env p e r (l, w) = Inr (l', w')" and "sizes l' = sizes l"
    and "stores w' = stores w @
      (if le_CanStore env (lw_out w) p (ro_itemid r) (li_count (ref_item l ref)) = EQUIP_ERR_OK
       then [(p, ro_itemid r, li_count (ref_item l ref))] else [])"
    and "le_CanStore env (lw_out w) p (ro_itemid r) (li_count (ref_item l ref)) = EQUIP_ERR_OK \<Longrightarrow>
      li_is_looted (ref_item l' ref)"
proof -
  have ref_ok: "ref_ok l ref"
    using assms by (auto simp: roll_ref_def ref_ok_def Let_def split: if_splits)
  obtain l' w' where a: "award env p e r (l, w) = Inr (l', w')"
    using assms by (auto simp: award_def Let_def intro: prod.exhaust)
  show thesis
  proof (rule that [OF a])
    show "sizes l' = sizes l"
      using a assms by (auto simp: award_def Let_def sizes_def ref_update_def NotifyItemRemoved_def
          notify_looters_def split: if_splits)
    show "stores w' = stores w @ (if le_CanStore env (lw_out w) p (ro_itemid r) (li_count (ref_item l ref)) = EQUIP_ERR_OK
       then [(p, ro_itemid r, li_count (ref_item l ref))] else [])"
    proof -
      obtain x1 x2 where n: "NotifyItemRemoved env (ro_itemSlot r) (ref_update (li_is_looted_update (\<lambda>_. True)) ref l, w) = (x1, x2)"
        by (cases "NotifyItemRemoved env (ro_itemSlot r) (ref_update (li_is_looted_update (\<lambda>_. True)) ref l, w)")
      then have "stores x2 = stores w" by (metis stores_notify snd_conv)
      then show ?thesis using a assms n by (auto simp: award_def Let_def split: if_splits)
    qed
    show "li_is_looted (ref_item l' ref)"
      if "le_CanStore env (lw_out w) p (ro_itemid r) (li_count (ref_item l ref)) = EQUIP_ERR_OK"
      using a assms that ref_ok
      by (auto simp: award_def Let_def NotifyItemRemoved_def notify_looters_def ref_update_def ref_item_def
          ref_ok_def split: if_splits)
  qed
qed

lemma award_at_most_one:
  assumes "roll_ref l r = Inr ref"
  obtains l' w' where "award env p e r (l, w) = Inr (l', w')" and "sizes l' = sizes l"
    and "length (stores w') \<le> Suc (length (stores w))"
  by (rule award_result [OF assms, of env p e w]) (auto split: if_splits intro: that)

lemma roll_ref_sizes: "sizes l' = sizes l \<Longrightarrow> roll_ref l' r = roll_ref l r"
  by (simp add: roll_ref_def sizes_def Let_def)

lemma roll_ref_totals [simp]:
  "roll_ref l (r\<lparr>ro_totalNeed := n\<rparr>) = roll_ref l r" "roll_ref l (r\<lparr>ro_totalGreed := n\<rparr>) = roll_ref l r"
  by (simp_all add: roll_ref_def)

lemma roll_ref_exists:
  "unat (ro_itemSlot r) < length (l_items l) + length (l_quest_items l) \<Longrightarrow> \<exists>ref. roll_ref l r = Inr ref"
  by (auto simp: roll_ref_def Let_def)

text \<open>
  C5. The need rolls of an item: when somebody who chose need is there, the winner is the present
  player with the highest roll among those who chose need, the first of them on a tie, and that
  player alone receives the item, which is then looted. Bags have room and \<open>urand(1, 100)\<close>
  returns a number from 1 to 100.
\<close>

theorem highest_need_roll_wins:
  assumes "fair_dice env" and "ro_totalNeed r > 0" and "ps = present_voters env m NEED r" and "ps \<noteq> []"
    and "0 \<notin> set ps" and "roll_ref l r = Inr ref" and "\<forall>p \<in> set ps. le_session env p"
    and "\<forall>out p i n. le_CanStore env out p i n = EQUIP_ERR_OK"
  shows "\<exists>k < length ps. (\<forall>j < length ps. dice env (lw_draws w + j) \<le> dice env (lw_draws w + k)) \<and>
      (\<forall>j < k. dice env (lw_draws w + j) < dice env (lw_draws w + k)) \<and>
      (\<exists>r1 l1 w1. count_need env m r (l, w) = Inr (r1, l1, w1) \<and>
         stores w1 = stores w @ [(ps ! k, ro_itemid r, li_count (ref_item l ref))] \<and>
         li_is_looted (ref_item l1 ref))"
proof -
  let ?t = "need_rolls env m r w"
  have best: "(ty_maxguid ?t, ty_maxresul ?t) =
      best_roll (dice env) (lw_draws w) ps (fst (hd (ro_playerVote r)), 0)"
    using roll_all_best [of env m NEED ROLL_NEED r] assms(3) by (simp add: need_rolls_def)
  have "0 < length ps" using assms(4) by simp
  then have "\<not> (\<forall>j < length ps. dice env (lw_draws w + j) \<le> 0)"
    using dice_pos [OF assms(1)] by (metis leD)
  with best_roll_spec [of "dice env" "lw_draws w" ps "(fst (hd (ro_playerVote r)), 0)"] best
  obtain k where k: "k < length ps" "ty_maxguid ?t = ps ! k"
    "\<forall>j < length ps. dice env (lw_draws w + j) \<le> dice env (lw_draws w + k)"
    "\<forall>j < k. dice env (lw_draws w + j) < dice env (lw_draws w + k)" by auto
  have mem: "ps ! k \<in> set ps" using k(1) by simp
  then have nz: "ps ! k \<noteq> 0" using assms(5) by metis
  have found: "le_FindPlayer env (ps ! k)"
    using mem unfolding assms(3) by (simp add: present_voters_def is_present_def)
  have votes: "ro_playerVote r \<noteq> []"
    using assms(3,4) by (auto simp: present_voters_def voters_def)
  let ?r1 = "r\<lparr>ro_totalNeed := ty_left ?t\<rparr>"
  let ?w1 = "SendLootRollWon env 0 (ps ! k) (ty_maxresul ?t) ROLL_NEED ?r1 (ty_world ?t)"
  obtain l' w' where a: "award env (ps ! k) 0 ?r1 (l, ?w1) = Inr (l', w')"
    and s: "stores w' = stores ?w1 @ [(ps ! k, ro_itemid r, li_count (ref_item l ref))]"
    and looted: "li_is_looted (ref_item l' ref)"
    by (rule award_result [of l ?r1 ref env "ps ! k" 0 ?w1]) (use assms(6,8) in auto)
  have "count_need env m r (l, w) = Inr (?r1, l', w')"
    using assms(2,7) mem votes k(2) nz found a by (simp add: count_need_def Let_def)
  moreover have "stores ?w1 = stores w" by (simp add: need_rolls_def)
  ultimately show ?thesis using k s looted by auto
qed

lemma count_need_result:
  assumes "roll_ref l r = Inr ref"
  obtains r1 l1 w1 where "count_need env m r (l, w) = Inr (r1, l1, w1)" and "sizes l1 = sizes l"
    and "ro_itemSlot r1 = ro_itemSlot r" and "ro_playerVote r1 = ro_playerVote r"
    and "length (stores w1) \<le> length (stores w) + (if ro_totalNeed r = 0 then 0 else 1)"
    and "ro_totalNeed r = 0 \<Longrightarrow> r1 = r"
    and "ty_maxguid (need_rolls env m r w) \<noteq> 0 \<Longrightarrow> ro_totalNeed r > 0 \<Longrightarrow> ro_playerVote r \<noteq> [] \<Longrightarrow>
      ro_totalNeed r1 = ty_left (need_rolls env m r w)"
proof -
  let ?t = "need_rolls env m r w"
  let ?r1 = "r\<lparr>ro_totalNeed := ty_left ?t\<rparr>"
  let ?w1 = "SendLootRollWon env 0 (ty_maxguid ?t) (ty_maxresul ?t) ROLL_NEED ?r1 (ty_world ?t)"
  have world: "stores (ty_world ?t) = stores w" by (simp add: need_rolls_def)
  show thesis
  proof (cases "ro_totalNeed r > 0 \<and> ro_playerVote r \<noteq> []")
    case False
    then have "count_need env m r (l, w) = Inr (r, l, w)" by (auto simp: count_need_def)
    then show thesis using False by (intro that) auto
  next
    case True
    obtain l' w' where a: "award env (ty_maxguid ?t) 0 ?r1 (l, ?w1) = Inr (l', w')" "sizes l' = sizes l"
      "length (stores w') \<le> Suc (length (stores w))"
      using award_at_most_one [of l ?r1 ref env "ty_maxguid ?t" 0 ?w1] assms world by auto
    have n: "ro_totalNeed r \<noteq> 0" "ro_playerVote r \<noteq> []" using True by auto
    consider (nobody) "ty_maxguid ?t = 0"
      | (gone) "ty_maxguid ?t \<noteq> 0" "\<not> (le_FindPlayer env (ty_maxguid ?t) \<and> le_session env (ty_maxguid ?t))"
      | (won) "ty_maxguid ?t \<noteq> 0" "le_FindPlayer env (ty_maxguid ?t) \<and> le_session env (ty_maxguid ?t)" by blast
    then show thesis
    proof cases
      case nobody
      then have "count_need env m r (l, w) = Inr (?r1\<lparr>ro_totalNeed := 0\<rparr>, l, ty_world ?t)"
        using True by (simp add: count_need_def Let_def)
      then show thesis by (rule that) (use nobody world n in auto)
    next
      case gone
      then have "count_need env m r (l, w) = Inr (?r1, l, ?w1)"
        using True by (auto simp: count_need_def Let_def)
      then show thesis by (rule that) (use world n in auto)
    next
      case won
      then have "count_need env m r (l, w) = Inr (?r1, l', w')"
        using True a(1) by (simp add: count_need_def Let_def)
      then show thesis by (rule that) (use a(2,3) n in auto)
    qed
  qed
qed

lemma count_greed_result:
  assumes "roll_ref l r = Inr ref"
  obtains r1 l1 w1 where "count_greed env m r (l, w) = Inr (r1, l1, w1)" and "sizes l1 = sizes l"
    and "ro_itemSlot r1 = ro_itemSlot r"
    and "length (stores w1) \<le> length (stores w) + (if ro_totalNeed r = 0 then 1 else 0)"
proof -
  let ?t = "greed_rolls env m r w"
  let ?r1 = "r\<lparr>ro_totalGreed := ty_left ?t\<rparr>"
  let ?w1 = "SendLootRollWon env 0 (ty_maxguid ?t) (ty_maxresul ?t) (vote_code (ty_vote ?t)) ?r1 (ty_world ?t)"
  have world: "stores (ty_world ?t) = stores w" by (simp add: greed_rolls_def)
  show thesis
  proof (cases "ro_totalNeed r = 0 \<and> ro_totalGreed r > 0 \<and> ro_playerVote r \<noteq> []")
    case False
    then have "count_greed env m r (l, w) = Inr (r, l, w)" by (auto simp: count_greed_def)
    then show thesis by (rule that) auto
  next
    case True
    obtain l' w' where a: "award env (ty_maxguid ?t) (ro_itemid ?r1) ?r1 (l, ?w1) = Inr (l', w')" "sizes l' = sizes l"
      "length (stores w') \<le> Suc (length (stores w))"
      using award_at_most_one [of l ?r1 ref env "ty_maxguid ?t" "ro_itemid ?r1" ?w1] assms world by auto
    let ?won = "le_FindConnected env (ty_maxguid ?t) \<and> le_session env (ty_maxguid ?t) \<and> ty_vote ?t = GREED"
    consider (nobody) "ty_maxguid ?t = 0" | (gone) "ty_maxguid ?t \<noteq> 0" "\<not> ?won"
      | (won) "ty_maxguid ?t \<noteq> 0" ?won by blast
    then show thesis
    proof cases
      case nobody
      then have "count_greed env m r (l, w) = Inr (?r1\<lparr>ro_totalGreed := 0\<rparr>, l, ty_world ?t)"
        using True by (simp add: count_greed_def Let_def)
      then show thesis by (rule that) (use world in auto)
    next
      case gone
      then have "count_greed env m r (l, w) = Inr (?r1, l, ?w1)"
        using True by (auto simp: count_greed_def Let_def)
      then show thesis by (rule that) (use world in auto)
    next
      case won
      then have "count_greed env m r (l, w) = Inr (?r1, l', w')"
        using True a(1) by (simp add: count_greed_def Let_def)
      then show thesis by (rule that) (use a(2,3) True in auto)
    qed
  qed
qed

lemma count_passed_result:
  assumes "roll_ref l r = Inr ref"
  obtains l1 w1 where "count_passed env r (l, w) = Inr (l1, w1)" and "sizes l1 = sizes l" and "stores w1 = stores w"
proof (cases "ro_totalNeed r = 0 \<and> ro_totalGreed r = 0")
  case True
  then have "count_passed env r (l, w) =
      Inr (ref_update (li_is_blocked_update (\<lambda>_. False)) ref l, SendLootAllPassed env r w)"
    using assms by (simp add: count_passed_def)
  then show thesis by (rule that) (simp_all add: sizes_def ref_update_def)
next
  case False
  then have "count_passed env r (l, w) = Inr (l, w)" by (auto simp: count_passed_def)
  then show thesis by (rule that) simp_all
qed

lemma roll_ref_slot: "ro_itemSlot r1 = ro_itemSlot r \<Longrightarrow> roll_ref l r1 = roll_ref l r"
  by (simp add: roll_ref_def)

lemma count_roll_result:
  assumes "roll_ref l r = Inr ref"
  obtains r1 l1 w1 l' w' where "count_need env m r (l, w) = Inr (r1, l1, w1)"
    and "count_roll env m r (l, w) = Inr (l', w')" and "sizes l' = sizes l"
    and "length (stores w1) \<le> length (stores w) + (if ro_totalNeed r = 0 then 0 else 1)"
    and "length (stores w') \<le> length (stores w1) + (if ro_totalNeed r1 = 0 then 1 else 0)"
proof -
  obtain r1 l1 w1 where 1: "count_need env m r (l, w) = Inr (r1, l1, w1)" "sizes l1 = sizes l"
    "ro_itemSlot r1 = ro_itemSlot r" "length (stores w1) \<le> length (stores w) + (if ro_totalNeed r = 0 then 0 else 1)"
    by (rule count_need_result [OF assms])
  have ref1: "roll_ref l1 r1 = Inr ref" using assms 1 by (metis roll_ref_sizes roll_ref_slot)
  obtain r2 l2 w2 where 2: "count_greed env m r1 (l1, w1) = Inr (r2, l2, w2)" "sizes l2 = sizes l1"
    "ro_itemSlot r2 = ro_itemSlot r1" "length (stores w2) \<le> length (stores w1) + (if ro_totalNeed r1 = 0 then 1 else 0)"
    by (rule count_greed_result [OF ref1])
  have ref2: "roll_ref l2 r2 = Inr ref" using ref1 2 by (metis roll_ref_sizes roll_ref_slot)
  obtain l3 w3 where 3: "count_passed env r2 (l2, w2) = Inr (l3, w3)" "sizes l3 = sizes l2" "stores w3 = stores w2"
    by (rule count_passed_result [OF ref2])
  have "count_roll env m r (l, w) = Inr (l3, w3)" using 1 2 3 by (simp add: count_roll_def)
  then show thesis using 1 2 3 by (auto intro: that)
qed

section \<open>Counters and votes\<close>

text \<open>The counters of a roll are the numbers of votes of each kind.\<close>

definition totals_ok :: "roll \<Rightarrow> bool" where
  "totals_ok r \<longleftrightarrow> omap_ok (ro_playerVote r) \<and> length (ro_playerVote r) < 256 \<and> voters NOT_VALID r = [] \<and>
     ro_totalNeed r = of_nat (length (voters NEED r)) \<and> ro_totalGreed r = of_nat (length (voters GREED r)) \<and>
     ro_totalPass r = of_nat (length (voters PASS r)) \<and>
     ro_totalPlayersRolling r = of_nat (length (ro_playerVote r))"

lemma voters_le: "length (voters v r) \<le> length (ro_playerVote r)"
  by (simp add: voters_def length_filter_le)

lemma voters_sum:
  "length (voters PASS r) + length (voters NEED r) + length (voters GREED r) +
     length (voters NOT_EMITED_YET r) + length (voters NOT_VALID r) = length (ro_playerVote r)"
proof -
  have "length (filter (\<lambda>(p, v'). v' = PASS) votes) + length (filter (\<lambda>(p, v'). v' = NEED) votes) +
      length (filter (\<lambda>(p, v'). v' = GREED) votes) + length (filter (\<lambda>(p, v'). v' = NOT_EMITED_YET) votes) +
      length (filter (\<lambda>(p, v'). v' = NOT_VALID) votes) = length (votes :: (guid, roll_vote) omap)" for votes
    by (induction votes) (auto, case_tac b, auto)
  then show ?thesis by (simp add: voters_def)
qed

lemma unat_u8: "n < 256 \<Longrightarrow> unat (of_nat n :: uint8) = n"
  by (simp add: unsigned_of_nat take_bit_nat_eq_self)

text \<open>
  C7. A roll whose counters agree with its votes gives the item to at most one player, provided
  that nobody chose need or that at least one of those who did is there.
\<close>

theorem one_winner_when_need_voter_present:
  assumes "totals_ok r" and "roll_ref l r = Inr ref" and "0 \<notin> set (voters NEED r)"
    and "voters NEED r = [] \<or> present_voters env m NEED r \<noteq> []" and "fair_dice env"
  shows "\<exists>l' w'. count_roll env m r (l, w) = Inr (l', w') \<and> length (stores w') \<le> Suc (length (stores w))"
proof -
  obtain r1 l1 w1 l' w' where c: "count_need env m r (l, w) = Inr (r1, l1, w1)"
    "count_roll env m r (l, w) = Inr (l', w')"
    "length (stores w1) \<le> length (stores w) + (if ro_totalNeed r = 0 then 0 else 1)"
    "length (stores w') \<le> length (stores w1) + (if ro_totalNeed r1 = 0 then 1 else 0)"
    by (rule count_roll_result [OF assms(2), of env m w])
  have "ro_totalNeed r1 \<noteq> 0" if pos: "ro_totalNeed r \<noteq> 0"
  proof -
    let ?n = "length (voters NEED r)" and ?k = "length (present_voters env m NEED r)"
    have n: "?n < 256" using assms(1) voters_le [of NEED r] by (simp add: totals_ok_def)
    have "?n \<noteq> 0" using pos assms(1) by (auto simp: totals_ok_def)
    then have k: "0 < ?k" "?k \<le> ?n" using assms(4) by (auto simp: present_voters_def)
    have left: "ty_left (need_rolls env m r w) = of_nat ?k"
      using roll_all_left [of env m NEED ROLL_NEED r] k assms(1)
      by (simp add: need_rolls_def totals_ok_def of_nat_diff)
    have "ty_maxguid (need_rolls env m r w) \<noteq> 0"
    proof -
      let ?ps = "present_voters env m NEED r" and ?g0 = "fst (hd (ro_playerVote r))"
      have best: "(ty_maxguid (need_rolls env m r w), ty_maxresul (need_rolls env m r w)) =
          best_roll (dice env) (lw_draws w) ?ps (?g0, 0)"
        using roll_all_best [of env m NEED ROLL_NEED r] by (simp add: need_rolls_def)
      have "\<not> (\<forall>j < ?k. dice env (lw_draws w + j) \<le> 0)" using dice_pos [OF assms(5)] k(1) by (metis leD)
      with best_roll_spec [of "dice env" "lw_draws w" ?ps "(?g0, 0)"] best
      have "ty_maxguid (need_rolls env m r w) \<in> set ?ps" by auto
      then show ?thesis using assms(3) by (auto simp: present_voters_def)
    qed
    moreover have "ro_playerVote r \<noteq> []" using \<open>?n \<noteq> 0\<close> by (auto simp: voters_def)
    ultimately have "ro_totalNeed r1 = of_nat ?k"
      using left pos c(1) by (auto simp: count_need_def Let_def bind_result_Inr_iff word_gt_0 split: if_splits)
    then show ?thesis using k n nat_dvd_not_less [of ?k 256] by (auto simp: word_of_nat_eq_0_iff)
  qed
  moreover have "r1 = r" if "ro_totalNeed r = 0" using c(1) that by (auto simp: count_need_def)
  ultimately show ?thesis using c by (auto split: if_splits)
qed

section \<open>Votes\<close>

lemma voters_set:
  assumes "omap_ok (ro_playerVote r)" and "omap_find (ro_playerVote r) p = Some v0"
  shows "length (filter (\<lambda>(q, v'). v' = v) (omap_set p v1 (ro_playerVote r))) + of_bool (v0 = v) =
    length (voters v r) + of_bool (v1 = v)"
  using omap_count_set [OF assms(1), of "\<lambda>(q, v'). v' = v" p v1] assms(2) by (simp add: voters_def)

lemma length_omap_set:
  "omap_ok m \<Longrightarrow> omap_find m p = Some v0 \<Longrightarrow> length (omap_set p v m) = length m"
  using om.keys_put_present [of m p v] by (metis length_map option.distinct(1))

lemma voters_upd [simp]: "ro_playerVote r' = omap_set p v1 (ro_playerVote r) \<Longrightarrow>
    length (voters v r') = length (filter (\<lambda>(q, v'). v' = v) (omap_set p v1 (ro_playerVote r)))"
  by (simp add: voters_def)

lemma less_3_cases_u8: "(c :: uint8) < 3 \<Longrightarrow> c = 0 \<or> c = 1 \<or> c = 2"
proof -
  assume "c < 3"
  then have "unat c < 3" by (simp add: word_less_nat_alt)
  then have "unat c = unat (0 :: uint8) \<or> unat c = unat (1 :: uint8) \<or> unat c = unat (2 :: uint8)" by auto
  then show ?thesis by (simp only: word_unat_eq_iff)
qed

lemma cast_vote_counts:
  assumes "totals_ok r" and "omap_find (ro_playerVote r) p = Some NOT_EMITED_YET" and "choice < MAX_ROLL_TYPE"
  shows "totals_ok (cast_vote p choice r)"
    and "length (voters NOT_EMITED_YET r) = Suc (length (voters NOT_EMITED_YET (cast_vote p choice r)))"
proof -
  have ok: "omap_ok (ro_playerVote r)" using assms(1) by (simp add: totals_ok_def)
  have c: "choice = 0 \<or> choice = 1 \<or> choice = 2"
    using assms(3) by (rule less_3_cases_u8)
  note counts = voters_set [OF ok assms(2)] length_omap_set [OF ok assms(2)]
  have len: "length (omap_set p v1 (ro_playerVote r)) = length (ro_playerVote r)" for v1
    by (rule counts(2))
  have none: "voters NOT_VALID (r'\<lparr>ro_playerVote := omap_set p v1 (ro_playerVote r)\<rparr>) = []" if "v1 \<noteq> NOT_VALID" for v1 r'
  proof -
    have "length (voters NOT_VALID (r'\<lparr>ro_playerVote := omap_set p v1 (ro_playerVote r)\<rparr>)) = 0"
      using counts(1) [of NOT_VALID v1] assms(1) that by (simp add: totals_ok_def del: length_0_conv)
    then show ?thesis by (simp add: voters_def)
  qed
  show "totals_ok (cast_vote p choice r)"
    using c
  proof (elim disjE)
    assume "choice = 0"
    then show ?thesis
      using assms(1) none [of PASS] len [of PASS] ok counts(1) [of NEED PASS] counts(1) [of GREED PASS] counts(1) [of PASS PASS]
      by (simp add: totals_ok_def cast_vote_def omap_set_ok)
  next
    assume "choice = 1"
    then show ?thesis
      using assms(1) none [of NEED] len [of NEED] ok counts(1) [of NEED NEED] counts(1) [of GREED NEED] counts(1) [of PASS NEED]
      by (simp add: totals_ok_def cast_vote_def omap_set_ok)
  next
    assume "choice = 2"
    then show ?thesis
      using assms(1) none [of GREED] len [of GREED] ok counts(1) [of NEED GREED] counts(1) [of GREED GREED] counts(1) [of PASS GREED]
      by (simp add: totals_ok_def cast_vote_def omap_set_ok)
  qed
  show "length (voters NOT_EMITED_YET r) = Suc (length (voters NOT_EMITED_YET (cast_vote p choice r)))"
    using c counts(1) [of NOT_EMITED_YET] by (auto simp: cast_vote_def)
qed

lemma all_voted_iff:
  assumes "totals_ok r"
  shows "all_voted r \<longleftrightarrow> voters NOT_EMITED_YET r = []"
proof -
  have "length (ro_playerVote r) < 256" "length (voters v r) < 256" for v
    using assms voters_le [of v r] by (auto simp: totals_ok_def)
  then have "all_voted r \<longleftrightarrow> length (voters NOT_EMITED_YET r) = 0"
    using assms voters_sum [of r] by (simp add: all_voted_def totals_ok_def unat_u8 del: length_0_conv) linarith
  then show ?thesis by simp
qed

text \<open>
  C25. A vote (pass, need or greed) by a player of the roll who has not voted yet, on a roll whose
  loot still exists. As a change of the roll it keeps the counters in agreement with the votes.
  When the loot has ordinary items, \<open>CountRollVote\<close> announces and records the vote and counts
  the roll exactly when nobody else is still to vote. When the loot has none, as a loot of quest
  items only, the vote is dropped and nothing changes.
\<close>

theorem roll_is_counted_with_the_last_vote:
  assumes "GetRoll g s = Some k" and "totals_ok (rs_rolls s ! k)" and "choice < MAX_ROLL_TYPE"
    and "omap_find (ro_playerVote (rs_rolls s ! k)) p = Some NOT_EMITED_YET"
    and "ro_loot (rs_rolls s ! k) = Some obj" and "omap_find (rs_loots s) obj = Some l"
    and "s' = s\<lparr>rs_rolls := (rs_rolls s)[k := cast_vote p choice (rs_rolls s ! k)],
               rs_world := announce_vote (re_env re) p choice (rs_rolls s ! k) (rs_world s)\<rparr>"
  shows "totals_ok (cast_vote p choice (rs_rolls s ! k)) \<and>
    CountRollVote re p g choice s =
      (if l_items l = [] then Inr s
       else if voters NOT_EMITED_YET (rs_rolls s ! k) = [p] then CountTheRoll re k None s' else Inr s')"
proof -
  let ?r = "rs_rolls s ! k"
  note cast = cast_vote_counts [OF assms(2,4,3)]
  have "p \<in> set (voters NOT_EMITED_YET ?r)"
    using omap_find_in_set [OF assms(4)] by (force simp: voters_def)
  then have "voters NOT_EMITED_YET ?r = [p] \<longleftrightarrow> length (voters NOT_EMITED_YET ?r) = 1"
    by (auto simp: length_Suc_conv)
  then have "all_voted (cast_vote p choice ?r) \<longleftrightarrow> voters NOT_EMITED_YET ?r = [p]"
    using all_voted_iff [OF cast(1)] cast(2) by simp
  then show ?thesis
    using assms cast(1) by (simp add: CountRollVote_def Let_def omap_has_def)
qed

section \<open>A member leaves\<close>

lemma voters_erase:
  assumes "omap_ok m" and "omap_find m p = Some v0"
  shows "length (filter P (omap_erase p m)) + of_bool (P (p, v0)) = length (filter P m)"
  using assms
proof (induction p m rule: omap_erase.induct)
  case (2 k k' v' m)
  then show ?case by (auto simp: omap_find_def omap_ok_def)
qed (simp add: omap_find_def)

text \<open>
  C16. Taking a leaving member out of a roll keeps the counters in agreement with the votes that
  are left.
\<close>

theorem leaving_keeps_counters_exact:
  assumes "totals_ok r" and "omap_find (ro_playerVote r) p = Some v"
  shows "totals_ok (without_vote p v r) \<and> \<not> omap_has (ro_playerVote (without_vote p v r)) p"
proof -
  have ok: "omap_ok (ro_playerVote r)" using assms(1) by (simp add: totals_ok_def)
  have nv: "v \<noteq> NOT_VALID"
    using assms omap_find_in_set [OF assms(2)] by (auto simp: totals_ok_def voters_def filter_empty_conv)
  have e: "length (filter (\<lambda>(q, v'). v' = u) (omap_erase p (ro_playerVote r))) + of_bool (v = u) =
      length (voters u r)" for u
    using voters_erase [OF ok assms(2), of "\<lambda>(q, v'). v' = u"] by (simp add: voters_def)
  have len: "Suc (length (omap_erase p (ro_playerVote r))) = length (ro_playerVote r)"
    using voters_erase [OF ok assms(2), of "\<lambda>_. True"] by simp
  have v: "length (voters u (without_vote p v r)) = length (filter (\<lambda>(q, v'). v' = u) (omap_erase p (ro_playerVote r)))" for u
    by (simp add: voters_def without_vote_def Let_def)
  have votes: "ro_playerVote (without_vote p v r) = omap_erase p (ro_playerVote r)"
    by (simp add: without_vote_def Let_def)
  have n: "length (voters u r) = length (voters u (without_vote p v r)) + of_bool (v = u)" for u
    using e [of u] v [of u] by simp
  have totals: "ro_totalNeed r = of_nat (length (voters NEED r))" "ro_totalGreed r = of_nat (length (voters GREED r))"
    "ro_totalPass r = of_nat (length (voters PASS r))" "ro_totalPlayersRolling r = of_nat (length (ro_playerVote r))"
    "voters NOT_VALID r = []"
    using assms(1) by (simp_all add: totals_ok_def)
  have fields: "ro_totalNeed (without_vote p v r) = ro_totalNeed r - of_bool (v = NEED)"
    "ro_totalGreed (without_vote p v r) = ro_totalGreed r - of_bool (v = GREED)"
    "ro_totalPass (without_vote p v r) = ro_totalPass r - of_bool (v = PASS)"
    "ro_totalPlayersRolling (without_vote p v r) = ro_totalPlayersRolling r - 1"
    using nv by (simp_all add: without_vote_def Let_def)
  have "voters NOT_VALID (without_vote p v r) = []"
    using n [of NOT_VALID] totals(5) by simp
  moreover have "ro_totalPlayersRolling (without_vote p v r) = of_nat (length (omap_erase p (ro_playerVote r)))"
    unfolding fields totals len [symmetric] by simp
  moreover have "ro_totalNeed (without_vote p v r) = of_nat (length (voters NEED (without_vote p v r)))"
    unfolding fields totals n [of NEED] by simp
  moreover have "ro_totalGreed (without_vote p v r) = of_nat (length (voters GREED (without_vote p v r)))"
    unfolding fields totals n [of GREED] by simp
  moreover have "ro_totalPass (without_vote p v r) = of_nat (length (voters PASS (without_vote p v r)))"
    unfolding fields totals n [of PASS] by simp
  ultimately show ?thesis
    using ok votes len assms(1) by (simp add: totals_ok_def omap_erase_ok omap_has_erase)
qed

lemma fold_result_upt:
  assumes "\<And>k. k < n \<Longrightarrow> f k (S k) = Inr (S (Suc k))"
  shows "fold_result f [0..<n] (S 0) = Inr (S n)"
  using yields_fold_upt [of "\<lambda>k s. s = S k" 0 "S 0" n f] assms by (auto simp: yields_def)

definition after_leaving :: "guid \<Rightarrow> roll \<Rightarrow> roll" where
  "after_leaving p r = (case omap_find (ro_playerVote r) p of None \<Rightarrow> r | Some v \<Rightarrow> without_vote p v r)"

lemma after_leaving_guid [simp]: "ro_itemGUID (after_leaving p r) = ro_itemGUID r"
  by (simp add: after_leaving_def without_vote_def Let_def split: option.split)

lemma first_index_find:
  "first_index P xs = Some k \<Longrightarrow> P (xs ! k)"
  by (simp add: first_index_Some)

text \<open>
  When a member leaves, the vote is taken out of every roll and nothing else happens: no roll
  is counted, not even one on which everybody who is left has voted. The call of \<open>CountRollVote\<close>
  that should count it comes after the vote was erased and returns at once.
\<close>

theorem leaving_counts_no_roll:
  assumes "distinct (map ro_itemGUID (rs_rolls s))" and "list_all (\<lambda>r. omap_ok (ro_playerVote r)) (rs_rolls s)"
  shows "RemoveMember_rolls re p s = Inr (s\<lparr>rs_rolls := map (after_leaving p) (rs_rolls s)\<rparr>)"
proof -
  let ?rolls = "rs_rolls s"
  let ?S = "\<lambda>k. s\<lparr>rs_rolls := map (after_leaving p) (take k ?rolls) @ drop k ?rolls\<rparr>"
  have step: "leave_roll re p k (?S k) = Inr (?S (Suc k))" if k: "k < length ?rolls" for k
  proof -
    let ?r = "?rolls ! k" and ?rs = "map (after_leaving p) (take k ?rolls) @ drop k ?rolls"
    have nth: "?rs ! k = ?r" using k by (simp add: nth_append)
    have upd: "?rs[k := after_leaving p ?r] = map (after_leaving p) (take (Suc k) ?rolls) @ drop (Suc k) ?rolls"
      using k by (intro nth_equalityI) (auto simp: nth_append nth_list_update)
    show ?thesis
    proof (cases "omap_find (ro_playerVote ?r) p")
      case None
      then have "after_leaving p ?r = ?r" by (simp add: after_leaving_def)
      then have "?S (Suc k) = ?S k" using upd nth by (metis list_update_id)
      then show ?thesis using None nth k by (simp add: leave_roll_def Let_def)
    next
      case (Some v)
      have al: "after_leaving p ?r = without_vote p v ?r" using Some by (simp add: after_leaving_def)
      have ok: "omap_ok (ro_playerVote ?r)" using assms(2) k by (simp add: list_all_length)
      then have gone: "\<not> omap_has (ro_playerVote (after_leaving p ?r)) p"
        by (simp add: al without_vote_def Let_def omap_has_erase)
      have guids: "map ro_itemGUID (?rs[k := after_leaving p ?r]) = map ro_itemGUID ?rolls"
        using k by (intro nth_equalityI) (auto simp: nth_append nth_list_update)
      have "CountRollVote re p (ro_itemGUID ?r) MAX_ROLL_TYPE (?S (Suc k)) = Inr (?S (Suc k))"
      proof (cases "GetRoll (ro_itemGUID ?r) (?S (Suc k))")
        case None
        then show ?thesis by (simp add: CountRollVote_def)
      next
        case (Some j)
        have jl: "j < length ?rolls" using first_index_less Some by (fastforce simp: GetRoll_def)
        have "ro_itemGUID (rs_rolls (?S (Suc k)) ! j) = ro_itemGUID ?r"
          using first_index_find [OF Some [unfolded GetRoll_def]] by simp
        then have "ro_itemGUID (?rolls ! j) = ro_itemGUID ?r"
          using guids jl unfolding upd by (metis nth_map length_map roll_state.select_convs(2) roll_state.surjective roll_state.update_convs(2))
        then have "j = k" using assms(1) jl k by (metis distinct_conv_nth length_map nth_map)
        moreover have "rs_rolls (?S (Suc k)) ! k = after_leaving p ?r"
          using k by (simp add: nth_append take_Suc_conv_app_nth)
        ultimately show ?thesis using Some gone by (simp add: CountRollVote_def Let_def)
      qed
      then show ?thesis using Some nth k al upd by (simp add: leave_roll_def Let_def)
    qed
  qed
  show ?thesis
    using fold_result_upt [of "length ?rolls" "leave_roll re p" ?S] step by (simp add: RemoveMember_rolls_def)
qed

section \<open>The end of the rolls\<close>

text \<open>Every roll refers to a loot that exists and to a slot of it.\<close>

definition roll_in :: "(guid, loot) omap \<Rightarrow> roll \<Rightarrow> bool" where
  "roll_in loots r \<longleftrightarrow> (case ro_loot r of None \<Rightarrow> True
     | Some g \<Rightarrow> (case omap_find loots g of None \<Rightarrow> False
         | Some l \<Rightarrow> unat (ro_itemSlot r) < length (l_items l) + length (l_quest_items l)))"

definition rolls_ok :: "roll_state \<Rightarrow> bool" where
  "rolls_ok s \<longleftrightarrow> omap_ok (rs_loots s) \<and> list_all (roll_in (rs_loots s)) (rs_rolls s)"

lemma rolls_ok_erase: "rolls_ok s \<Longrightarrow> rolls_ok (erase_roll k s)"
  by (auto simp: rolls_ok_def erase_roll_def list_all_iff dest: in_set_takeD in_set_dropD)

lemma rolls_ok_set_loot:
  assumes "rolls_ok s" and "omap_find (rs_loots s) g = Some l" and "sizes l' = sizes l"
  shows "rolls_ok ((set_loot g l' s)\<lparr>rs_world := w'\<rparr>)"
proof -
  have "roll_in (omap_set g l' (rs_loots s)) r" if "roll_in (rs_loots s) r" for r
    using that assms by (auto simp: roll_in_def rolls_ok_def omap_find_set sizes_def split: option.splits)
  then show ?thesis
    using assms(1) by (auto simp: rolls_ok_def set_loot_def omap_set_ok list_all_iff)
qed

lemma CountTheRoll_yields:
  assumes "rolls_ok s" and "k < length (rs_rolls s)"
  shows "yields (CountTheRoll re k m s) rolls_ok"
proof (cases "ro_loot (rs_rolls s ! k)")
  case None
  then show ?thesis using assms(1) by (simp add: CountTheRoll_def rolls_ok_erase)
next
  case (Some g)
  let ?r = "rs_rolls s ! k"
  have "roll_in (rs_loots s) ?r" using assms by (simp add: rolls_ok_def list_all_length)
  then obtain l where l: "omap_find (rs_loots s) g = Some l"
    and slot: "unat (ro_itemSlot ?r) < length (l_items l) + length (l_quest_items l)"
    using Some by (auto simp: roll_in_def split: option.splits)
  obtain ref where "roll_ref l ?r = Inr ref" using roll_ref_exists [OF slot] by blast
  from count_roll_result [OF this, of "re_env re" m "rs_world s"] obtain l' w' where
    c: "count_roll (re_env re) m ?r (l, rs_world s) = Inr (l', w')" "sizes l' = sizes l" by metis
  then show ?thesis
    using Some l rolls_ok_erase [OF rolls_ok_set_loot [OF assms(1) l c(2)]]
    by (simp add: CountTheRoll_def loot_of_def)
qed

lemma filter_without:
  "k < length xs \<Longrightarrow> \<not> P (xs ! k) \<Longrightarrow> filter P (take k xs @ drop (Suc k) xs) = filter P xs"
  by (subst (3) id_take_nth_drop [of k xs]) simp_all

text \<open>
  C17. When the timer of a loot runs out, \<open>EndRoll\<close> ends after finitely many steps whatever the
  votes, without a fault, and removes exactly the rolls of that loot: the others remain, in
  order and still valid.
\<close>

theorem EndRoll_removes_the_rolls_of_a_loot:
  assumes "rolls_ok s"
  shows "\<exists>s'. EndRoll re obj m s = Inr s' \<and> rs_rolls s' = filter (\<lambda>r. ro_loot r \<noteq> Some obj) (rs_rolls s) \<and> rolls_ok s'"
  using assms
proof (induction re obj m s rule: EndRoll.induct)
  case (1 re obj m s)
  show ?case
  proof (cases "first_index (\<lambda>r. ro_loot r = Some obj) (rs_rolls s)")
    case None
    have "\<forall>r \<in> set xs. ro_loot r \<noteq> Some obj" if "first_index (\<lambda>r. ro_loot r = Some obj) xs = None" for xs
      using that by (induction xs) (auto split: if_splits)
    then have "filter (\<lambda>r. ro_loot r \<noteq> Some obj) (rs_rolls s) = rs_rolls s" using None by (simp add: filter_id_conv)
    then show ?thesis using None "1.prems" by (simp add: EndRoll.simps)
  next
    case (Some k)
    have k: "k < length (rs_rolls s)" "ro_loot (rs_rolls s ! k) = Some obj"
      using Some by (simp_all add: first_index_Some)
    obtain s1 where s1: "CountTheRoll re k m s = Inr s1" "rolls_ok s1"
      using CountTheRoll_yields [OF "1.prems" k(1)] by (auto simp: yields_def)
    from "1.IH" [OF Some s1] obtain s' where s': "EndRoll re obj m s1 = Inr s'"
      "rs_rolls s' = filter (\<lambda>r. ro_loot r \<noteq> Some obj) (rs_rolls s1)" "rolls_ok s'" by blast
    have "filter (\<lambda>r. ro_loot r \<noteq> Some obj) (rs_rolls s1) = filter (\<lambda>r. ro_loot r \<noteq> Some obj) (rs_rolls s)"
      using CountTheRoll_erases [OF s1(1)] filter_without [OF k(1), of "\<lambda>r. ro_loot r \<noteq> Some obj"] k(2) by simp
    then show ?thesis using s' Some s1(1) by (subst EndRoll.simps) simp
  qed
qed

section \<open>Money\<close>

lemma purse_on_world [simp]: "ls_purse (on_world f s) = ls_purse s" "ls_rolls (on_world f s) = with_world f (ls_rolls s)"
  by (simp_all add: on_world_def on_rolls_def)

lemma with_world_simps [simp]:
  "rs_loots (with_world f s) = rs_loots s" "rs_group (with_world f s) = rs_group s"
  "rs_rolls (with_world f s) = rs_rolls s"
  by (simp_all add: with_world_def)

lemma sint_small_nonneg:
  assumes "unat (x :: uint32) < 2 ^ 31"
  shows "0 \<le> sint x"
proof -
  have "uint x < int (2 ^ 31)" unfolding uint_nat using assms by (simp only: of_nat_less_iff)
  then have "take_bit 31 (uint x) = uint x" by (intro take_bit_int_eq_self) simp_all
  then have "\<not> bit (uint x) 31" by (metis bit_take_bit_iff less_irrefl)
  then show ?thesis by (simp add: sint_uint signed_take_bit_nonnegative_iff)
qed

lemma give_money_purse:
  assumes "0 \<le> sint a" and "unat (ls_purse s p) + unat a < unat MAX_PURSE"
  shows "ls_purse (give_money he a p s) q = (if q = p then ls_purse s p + a else ls_purse s q)"
proof -
  have "unat a \<le> unat MAX_PURSE" using assms(2) by simp
  then have "unat (MAX_PURSE - a) = unat MAX_PURSE - unat a"
    by (simp add: unat_sub_if_size)
  then have "ls_purse s p < MAX_PURSE - a" using assms(2) by (simp add: word_less_nat_alt)
  then show ?thesis using assms(1) by (auto simp: give_money_def ModifyMoney_def)
qed

lemma give_money_loots [simp]: "rs_loots (ls_rolls (give_money he a p s)) = rs_loots (ls_rolls s)"
  by (simp add: give_money_def ModifyMoney_def)

lemma share_purses:
  assumes "distinct ps" and "0 \<le> sint a" and "\<forall>p \<in> set ps. unat (ls_purse s p) + unat a < unat MAX_PURSE"
  shows "ls_purse (fold (give_money he a) ps s) q = (if q \<in> set ps then ls_purse s q + a else ls_purse s q) \<and>
    rs_loots (ls_rolls (fold (give_money he a) ps s)) = rs_loots (ls_rolls s)"
  using assms
proof (induction ps arbitrary: s)
  case (Cons p ps)
  have p: "ls_purse (give_money he a p s) r = (if r = p then ls_purse s p + a else ls_purse s r)" for r
    using Cons.prems by (intro give_money_purse) simp_all
  have "ls_purse (fold (give_money he a) ps (give_money he a p s)) q =
      (if q \<in> set ps then ls_purse (give_money he a p s) q + a else ls_purse (give_money he a p s) q) \<and>
    rs_loots (ls_rolls (fold (give_money he a) ps (give_money he a p s))) = rs_loots (ls_rolls (give_money he a p s))"
    using Cons.prems p by (intro Cons.IH) auto
  then show ?case using p Cons.prems(1) by auto
qed simp

text \<open>
  C26. Money from a loot is shared equally among the members of the group who are near: each
  receives the amount divided by their number, rounded down, and every other purse stays as it
  is. Purses are below their limit.
\<close>

theorem money_is_shared_equally:
  assumes "he_hasGroup he p" and "near = filter (le_near (ls_env he) p) (lg_members (rs_group (ls_rolls s)))"
    and "p \<in> set near" and "distinct near" and "sint gold \<ge> 0"
    and "\<forall>q \<in> set near. unat (ls_purse s q) + unat gold < unat MAX_PURSE"
  shows "\<exists>s'. share_money he p True gold s = Inr s' \<and>
    (\<forall>q. ls_purse s' q = (if q \<in> set near then ls_purse s q + of_nat (unat gold div length near) else ls_purse s q))"
proof -
  let ?n = "length near" and ?a = "of_nat (unat gold div length near) :: uint32"
  have n: "0 < ?n" using assms(3) by (cases near) auto
  have le: "unat gold div ?n \<le> unat gold" by simp
  also have "unat gold < 2 ^ LENGTH(32)" by (rule unsigned_less)
  finally have a: "unat ?a = unat gold div ?n"
    by (simp add: unsigned_of_nat take_bit_nat_eq_self)
  have "unat gold < 2 ^ 31"
    using bspec [OF assms(6) assms(3)] by simp
  then have "unat ?a < 2 ^ 31" unfolding a by (rule le_less_trans [OF le])
  then have pos: "0 \<le> sint ?a" by (rule sint_small_nonneg)
  have room: "\<forall>q \<in> set near. unat (ls_purse s q) + unat ?a < unat MAX_PURSE"
    unfolding a
  proof
    fix q
    assume "q \<in> set near"
    with assms(6) have "unat (ls_purse s q) + unat gold < unat MAX_PURSE" by blast
    then show "unat (ls_purse s q) + unat gold div ?n < unat MAX_PURSE" using le by linarith
  qed
  have "share_money he p True gold s = Inr (fold (give_money he ?a) near s)"
    using assms(1,2) n by (auto simp: share_money_def Let_def)
  moreover have "ls_purse (fold (give_money he ?a) near s) q =
      (if q \<in> set near then ls_purse s q + ?a else ls_purse s q)" for q
    using share_purses [OF assms(4) pos room] by blast
  ultimately show ?thesis by blast
qed

section \<open>Master loot\<close>

text \<open>
  C40. The master looter can give an item only to a player who is out of reward range: the test of
  the distance has the wrong sign, and whenever the handler stores an item, the receiver was
  not near.
\<close>

theorem master_gives_only_to_the_far:
  assumes "HandleLootMasterGiveOpcode he p g slotid target s = Inr s'"
    and "stores (ls_world s') \<noteq> stores (ls_world s)"
  shows "\<not> le_near (ls_env he) p target"
proof
  assume near: "le_near (ls_env he) p target"
  have err: "stores (ls_world (on_world (SendLootError p g e) s)) = stores (ls_world s)" for e
    by (simp add: ls_world_def with_world_def SendLootError_def)
  show False
    using assms near err by (auto simp: HandleLootMasterGiveOpcode_def Let_def split: if_splits)
qed

section \<open>Examples\<close>

text \<open>
  A group of the players 1, 2 and 3 rolls for item 25, the first item of the loot of a creature.
\<close>

definition demo_creature :: guid where
  "demo_creature = 0xF130000000000001"

definition demo_roll :: "(guid, roll_vote) omap \<Rightarrow> roll" where
  "demo_roll votes = \<lparr>ro_itemGUID = 0x4000000000000005, ro_itemid = 25, ro_itemRandomPropId = 0,
     ro_itemRandomSuffix = 0, ro_playerVote = votes, ro_totalPlayersRolling = of_nat (length votes),
     ro_totalNeed = of_nat (length (filter (\<lambda>(p, v). v = NEED) votes)),
     ro_totalGreed = of_nat (length (filter (\<lambda>(p, v). v = GREED) votes)),
     ro_totalPass = of_nat (length (filter (\<lambda>(p, v). v = PASS) votes)), ro_itemSlot = 0, ro_loot = Some demo_creature\<rparr>"

definition demo_group :: loot_group where
  "demo_group = \<lparr>lg_lowGuid = 9, lg_lootMethod = MASTER_LOOT, lg_masterLooterGuid = 1, lg_lootThreshold = 2,
     lg_members = [1, 2, 3]\<rparr>"

definition demo_rolls :: "(guid, roll_vote) omap \<Rightarrow> roll_state" where
  "demo_rolls votes = \<lparr>rs_group = demo_group, rs_rolls = [demo_roll votes], rs_loots = [(demo_creature, demo_loot)],
     rs_timers = [], rs_items = \<lparr>next_guid = 1, stop_requested = False, guid_alert = False, guid_warn = False\<rparr>,
     rs_world = demo_world\<rparr>"

definition demo_roll_env :: roll_env where
  "demo_roll_env = \<lparr>re_env = demo_env, re_levels = \<lparr>alert_level = 100, warn_level = 50\<rparr>, re_hasTimer = (\<lambda>_. True),
     re_inWorld = (\<lambda>_. True)\<rparr>"

text \<open>The dice of the example: the first roll is 40, every other 70.\<close>

definition dice_env :: loot_env where
  "dice_env = demo_env\<lparr>le_urand := (\<lambda>k a b. if k = 0 then 40 else 70)\<rparr>"

lemmas roll_defs = demo_roll_def demo_rolls_def demo_group_def demo_roll_env_def dice_env_def demo_creature_def

lemma demo_totals:
  "totals_ok (demo_roll [(1, PASS), (2, NEED), (3, NEED)])" "totals_ok (demo_roll [(1, PASS), (2, NOT_EMITED_YET), (3, NEED)])"
  by (simp_all add: totals_ok_def demo_roll_def voters_def omap_ok_def)

theorem highest_need_roll_wins_witness:
  "\<exists>k < length [2, 3 :: guid]. (\<forall>j < length [2, 3 :: guid]. dice dice_env (lw_draws demo_world + j) \<le> dice dice_env (lw_draws demo_world + k)) \<and>
      (\<forall>j < k. dice dice_env (lw_draws demo_world + j) < dice dice_env (lw_draws demo_world + k)) \<and>
      (\<exists>r1 l1 w1. count_need dice_env None (demo_roll [(1, PASS), (2, NEED), (3, NEED)]) (demo_loot, demo_world) = Inr (r1, l1, w1) \<and>
         stores w1 = stores demo_world @ [([2, 3] ! k, ro_itemid (demo_roll [(1, PASS), (2, NEED), (3, NEED)]),
           li_count (ref_item demo_loot \<lparr>sr_quest = False, sr_index = 0, sr_qitem = None, sr_ffaitem = None, sr_conditem = None\<rparr>))] \<and>
         li_is_looted (ref_item l1 \<lparr>sr_quest = False, sr_index = 0, sr_qitem = None, sr_ffaitem = None, sr_conditem = None\<rparr>))"
  by (rule highest_need_roll_wins)
    (simp_all add: roll_defs loot_demo_defs fair_dice_def present_voters_def voters_def is_present_def roll_ref_def)

theorem one_winner_when_need_voter_present_witness:
  "\<exists>l' w'. count_roll demo_env None (demo_roll [(1, PASS), (2, NEED), (3, NEED)]) (demo_loot, demo_world) = Inr (l', w') \<and>
    length (stores w') \<le> Suc (length (stores demo_world))"
  by (rule one_winner_when_need_voter_present [OF demo_totals(1),
        where ref = "\<lparr>sr_quest = False, sr_index = 0, sr_qitem = None, sr_ffaitem = None, sr_conditem = None\<rparr>"])
    (simp_all add: roll_defs loot_demo_defs fair_dice_def present_voters_def voters_def is_present_def roll_ref_def)

text \<open>The last of three players chooses greed.\<close>

theorem roll_is_counted_with_the_last_vote_witness:
  "let s = demo_rolls [(1, PASS), (2, NOT_EMITED_YET), (3, NEED)];
       s' = s\<lparr>rs_rolls := (rs_rolls s)[0 := cast_vote 2 ROLL_GREED (rs_rolls s ! 0)],
              rs_world := announce_vote (re_env demo_roll_env) 2 ROLL_GREED (rs_rolls s ! 0) (rs_world s)\<rparr>
   in totals_ok (cast_vote 2 ROLL_GREED (rs_rolls s ! 0)) \<and>
      CountRollVote demo_roll_env 2 0x4000000000000005 ROLL_GREED s = CountTheRoll demo_roll_env 0 None s'"
proof -
  let ?s = "demo_rolls [(1, PASS), (2, NOT_EMITED_YET), (3, NEED)]"
  have h: "GetRoll 0x4000000000000005 ?s = Some 0" "totals_ok (rs_rolls ?s ! 0)" "ROLL_GREED < MAX_ROLL_TYPE"
    "omap_find (ro_playerVote (rs_rolls ?s ! 0)) 2 = Some NOT_EMITED_YET"
    "ro_loot (rs_rolls ?s ! 0) = Some demo_creature" "omap_find (rs_loots ?s) demo_creature = Some demo_loot"
    using demo_totals by (simp_all add: demo_rolls_def GetRoll_def isValid_def demo_roll_def omap_find_def)
  have "l_items demo_loot \<noteq> []" "voters NOT_EMITED_YET (rs_rolls ?s ! 0) = [2]"
    by (simp_all add: loot_demo_defs demo_rolls_def demo_roll_def voters_def)
  then show ?thesis
    using roll_is_counted_with_the_last_vote [OF h refl, of demo_roll_env] by (simp add: Let_def)
qed

theorem leaving_keeps_counters_exact_witness:
  "totals_ok (without_vote 3 NEED (demo_roll [(1, PASS), (2, NEED), (3, NEED)])) \<and>
    \<not> omap_has (ro_playerVote (without_vote 3 NEED (demo_roll [(1, PASS), (2, NEED), (3, NEED)]))) 3"
  by (rule leaving_keeps_counters_exact [OF demo_totals(1)]) (simp add: demo_roll_def omap_find_def)

theorem leaving_counts_no_roll_witness:
  "RemoveMember_rolls demo_roll_env 2 (demo_rolls [(1, PASS), (2, NOT_EMITED_YET), (3, NEED)]) =
     Inr ((demo_rolls [(1, PASS), (2, NOT_EMITED_YET), (3, NEED)])
       \<lparr>rs_rolls := map (after_leaving 2) (rs_rolls (demo_rolls [(1, PASS), (2, NOT_EMITED_YET), (3, NEED)]))\<rparr>)"
  by (rule leaving_counts_no_roll) (simp_all add: demo_rolls_def demo_roll_def omap_ok_def)

theorem EndRoll_removes_the_rolls_of_a_loot_witness:
  "\<exists>s'. EndRoll demo_roll_env demo_creature (Some 0) (demo_rolls [(1, PASS), (2, NOT_EMITED_YET), (3, NEED)]) = Inr s' \<and>
    rs_rolls s' = filter (\<lambda>r. ro_loot r \<noteq> Some demo_creature) (rs_rolls (demo_rolls [(1, PASS), (2, NOT_EMITED_YET), (3, NEED)])) \<and>
    rolls_ok s'"
  by (rule EndRoll_removes_the_rolls_of_a_loot)
    (simp add: rolls_ok_def roll_in_def demo_rolls_def demo_roll_def omap_ok_def omap_find_def loot_demo_defs)

text \<open>Player 2 is far away from the others and in the raid of player 1.\<close>

definition far_env :: handler_env where
  "far_env = \<lparr>he_roll = demo_roll_env\<lparr>re_env := demo_env\<lparr>le_near := (\<lambda>p q. q \<noteq> 2)\<rparr>\<rparr>, he_range = (\<lambda>_ _. True),
     he_class = (\<lambda>_. 1), he_hasGroup = (\<lambda>_. True), he_looterGuid = (\<lambda>_. None), he_getPlayer = (\<lambda>_ _. True),
     he_raidWith = (\<lambda>_ _. True), he_instance = (\<lambda>_. 0), he_usesBelowMax = (\<lambda>_ _. True), he_usesReachMin = (\<lambda>_ _. True),
     he_veinChance = (\<lambda>_ _ _. True), he_irand = (\<lambda>_ a b. b)\<rparr>"

definition demo_session :: loot_session where
  "demo_session = \<lparr>ls_rolls = demo_rolls [], ls_objects = [(demo_creature, \<lparr>wo_owner = 0, wo_goType = 0, wo_minOpens = 0,
     wo_maxOpens = 0, wo_uses = 0, wo_alive = False, wo_recipient = None, wo_itemFlags = 0, wo_count = 0\<rparr>)],
     ls_purse = (\<lambda>_. 5)\<rparr>"

theorem money_is_shared_equally_witness:
  "\<exists>s'. share_money far_env 1 True 7 demo_session = Inr s' \<and>
    (\<forall>q. ls_purse s' q = (if q \<in> set [1, 3] then ls_purse demo_session q + of_nat (unat (7 :: uint32) div length [1 :: guid, 3])
       else ls_purse demo_session q))"
  by (rule money_is_shared_equally)
    (simp_all add: far_env_def ls_env_def demo_session_def roll_defs loot_demo_defs sint_uint)

theorem master_gives_only_to_the_far_witness:
  "\<exists>s'. HandleLootMasterGiveOpcode far_env 1 demo_creature 0 2 demo_session = Inr s' \<and>
    stores (ls_world s') = [(2, 25, 1)] \<and> \<not> le_near (ls_env far_env) 1 2"
proof -
  have "case HandleLootMasterGiveOpcode far_env 1 demo_creature 0 2 demo_session of
      Inl e \<Rightarrow> False | Inr s' \<Rightarrow> stores (ls_world s') = [(2, 25, 1)]" by code_simp
  then obtain s' where s': "HandleLootMasterGiveOpcode far_env 1 demo_creature 0 2 demo_session = Inr s'"
    "stores (ls_world s') = [(2, 25, 1)]" by (auto split: sum.splits)
  have "stores (ls_world demo_session) = []"
    by (simp add: ls_world_def demo_session_def demo_rolls_def demo_world_def stores_def)
  with s' have "\<not> le_near (ls_env far_env) 1 2" by (intro master_gives_only_to_the_far [OF s'(1)]) simp
  then show ?thesis using s' by blast
qed

section \<open>Two awards and repeated votes\<close>

lemma award_count:
  assumes "award env p e r (l, w) = Inr (l', w')" and "roll_ref l r = Inr ref"
  shows "li_count (ref_item l' ref) = li_count (ref_item l ref)"
proof -
  have "ref_ok l ref" using assms(2) by (auto simp: roll_ref_def ref_ok_def Let_def split: if_splits)
  then show ?thesis
    using assms by (auto simp: award_def Let_def NotifyItemRemoved_def notify_looters_def ref_update_def
        ref_item_def ref_ok_def split: if_splits)
qed

text \<open>The rolls of a kind of which nobody is there decide nothing, and nobody is left of it.\<close>

lemma roll_all_nobody:
  assumes "present_voters env m v r = []"
  shows "ty_maxguid (roll_all env m v code r t) = ty_maxguid t"
    and "ty_left (roll_all env m v code r t) = ty_left t - of_nat (length (voters v r))"
  using roll_all_best [of env m v code r t] roll_all_left [of env m v code r t] assms by simp_all

lemma count_need_nobody:
  assumes "totals_ok r" and "voters NEED r \<noteq> []" and "present_voters env m NEED r = []"
    and "roll_ref l r = Inr ref" and "first = fst (hd (ro_playerVote r))" and "first \<noteq> 0"
    and "le_FindPlayer env first" and "le_session env first"
    and "\<forall>out p i n. le_CanStore env out p i n = EQUIP_ERR_OK"
  obtains l1 w1 where "count_need env m r (l, w) = Inr (r\<lparr>ro_totalNeed := 0\<rparr>, l1, w1)" and "sizes l1 = sizes l"
    and "stores w1 = stores w @ [(first, ro_itemid r, li_count (ref_item l ref))]"
    and "li_count (ref_item l1 ref) = li_count (ref_item l ref)"
proof -
  let ?t = "need_rolls env m r w" and ?n = "length (voters NEED r)"
  let ?r1 = "r\<lparr>ro_totalNeed := 0\<rparr>"
  have n: "?n < 256" using assms(1) voters_le [of NEED r] by (simp add: totals_ok_def)
  have pos: "ro_totalNeed r > 0" and votes: "ro_playerVote r \<noteq> []"
    using assms(1,2) n nat_dvd_not_less [of ?n 256]
    by (auto simp: totals_ok_def word_gt_0 word_of_nat_eq_0_iff, auto simp: voters_def)
  have t: "ty_maxguid ?t = first" "ty_left ?t = 0"
    using roll_all_nobody [OF assms(3)] assms(1,5) by (simp_all add: need_rolls_def totals_ok_def)
  let ?w1 = "SendLootRollWon env 0 first (ty_maxresul ?t) ROLL_NEED ?r1 (ty_world ?t)"
  have ref: "roll_ref l ?r1 = Inr ref" using assms(4) by simp
  obtain l' w' where a: "award env first 0 ?r1 (l, ?w1) = Inr (l', w')" "sizes l' = sizes l"
    "stores w' = stores ?w1 @ [(first, ro_itemid r, li_count (ref_item l ref))]"
    by (rule award_result [OF ref, of env first 0 ?w1]) (use assms(9) in auto)
  have "count_need env m r (l, w) = Inr (?r1, l', w')"
    using pos votes t assms(6-8) a(1) by (simp add: count_need_def Let_def)
  moreover have "stores ?w1 = stores w" by (simp add: need_rolls_def)
  ultimately show thesis using a award_count [OF a(1) ref] by (intro that [of l' w']) auto
qed

lemma count_greed_awards:
  assumes "totals_ok r'" and "r = r'\<lparr>ro_totalNeed := 0\<rparr>" and "fair_dice env"
    and "ps = present_voters env m GREED r'" and "ps \<noteq> []" and "0 \<notin> set (voters GREED r')"
    and "roll_ref l r = Inr ref" and "\<forall>p \<in> set ps. le_FindConnected env p \<and> le_session env p"
    and "\<forall>out p i n. le_CanStore env out p i n = EQUIP_ERR_OK"
  obtains q r1 l1 w1 where "q \<in> set ps" and "count_greed env m r (l, w) = Inr (r1, l1, w1)"
    and "ro_itemSlot r1 = ro_itemSlot r" and "sizes l1 = sizes l"
    and "stores w1 = stores w @ [(q, ro_itemid r, li_count (ref_item l ref))]"
proof -
  let ?t = "greed_rolls env m r w" and ?n = "length (voters GREED r')"
  have same: "voters GREED r = voters GREED r'" "present_voters env m GREED r = ps" "ro_totalGreed r = ro_totalGreed r'"
    by (simp_all add: assms(2,4) voters_def present_voters_def)
  have n: "?n < 256" "?n \<noteq> 0"
    using assms(1,4,5) voters_le [of GREED r'] by (auto simp: totals_ok_def present_voters_def)
  then have pos: "ro_totalGreed r > 0"
    using assms(1) nat_dvd_not_less [of ?n 256] by (auto simp: same totals_ok_def word_gt_0 word_of_nat_eq_0_iff)
  have votes: "ro_playerVote r \<noteq> []" using n(2) same(1) by (auto simp: voters_def)
  have best: "(ty_maxguid ?t, ty_maxresul ?t) = best_roll (dice env) (lw_draws w) ps (0, 0)"
    using roll_all_best [of env m GREED ROLL_GREED r] same(2) by (simp add: greed_rolls_def)
  have "\<not> (\<forall>j < length ps. dice env (lw_draws w + j) \<le> 0)"
    using dice_pos [OF assms(3)] assms(5) by (metis leD length_greater_0_conv)
  with best_roll_spec [of "dice env" "lw_draws w" ps "(0, 0)"] best
  have q: "ty_maxguid ?t \<in> set ps" by auto
  then have nz: "ty_maxguid ?t \<noteq> 0" using assms(4,6) by (auto simp: present_voters_def)
  have "ty_vote ?t = GREED"
    using roll_all_vote [of "\<lparr>ty_left = ro_totalGreed r, ty_maxresul = 0, ty_maxguid = 0, ty_vote = NOT_VALID,
        ty_world = w\<rparr>" GREED r env m ROLL_GREED] assms(6) nz same(1) by (simp add: greed_rolls_def)
  let ?q = "ty_maxguid ?t" and ?r1 = "r\<lparr>ro_totalGreed := ty_left ?t\<rparr>"
  let ?w1 = "SendLootRollWon env 0 ?q (ty_maxresul ?t) (vote_code (ty_vote ?t)) ?r1 (ty_world ?t)"
  have ref: "roll_ref l ?r1 = Inr ref" using assms(7) by simp
  obtain l' w' where a: "award env ?q (ro_itemid ?r1) ?r1 (l, ?w1) = Inr (l', w')" "sizes l' = sizes l"
    "stores w' = stores ?w1 @ [(?q, ro_itemid r, li_count (ref_item l ref))]"
    by (rule award_result [OF ref, of env ?q "ro_itemid ?r1" ?w1]) (use assms(9) in auto)
  have "count_greed env m r (l, w) = Inr (?r1, l', w')"
    using pos votes nz q assms(2,8) \<open>ty_vote ?t = GREED\<close> a(1) by (simp add: count_greed_def Let_def)
  moreover have "stores ?w1 = stores w" by (simp add: greed_rolls_def)
  ultimately show thesis using a q by (intro that [of ?q ?r1 l' w']) auto
qed

text \<open>
  C37. Let nobody of those who chose need be there any more, and somebody of those who chose
  greed. The item is then given twice: the need rolls make the first voter of the roll the
  winner, whatever that player chose (provided the player is online), and because nobody is
  left who chose need the greed rolls are held as well and give the same item to one of the
  players who chose greed. Bags have room.
\<close>

theorem item_given_twice_when_need_voters_gone:
  assumes "totals_ok r" and "voters NEED r \<noteq> []" and "present_voters env m NEED r = []"
    and "ps = present_voters env m GREED r" and "ps \<noteq> []" and "0 \<notin> set (voters GREED r)"
    and "roll_ref l r = Inr ref" and "first = fst (hd (ro_playerVote r))" and "first \<noteq> 0"
    and "le_FindPlayer env first" and "le_session env first"
    and "\<forall>p \<in> set ps. le_FindConnected env p \<and> le_session env p"
    and "fair_dice env" and "\<forall>out p i n. le_CanStore env out p i n = EQUIP_ERR_OK"
  shows "\<exists>q \<in> set ps. \<exists>l' w'. count_roll env m r (l, w) = Inr (l', w') \<and>
    stores w' = stores w @ [(first, ro_itemid r, li_count (ref_item l ref)), (q, ro_itemid r, li_count (ref_item l ref))]"
proof -
  let ?r = "r\<lparr>ro_totalNeed := 0\<rparr>"
  obtain l1 w1 where 1: "count_need env m r (l, w) = Inr (?r, l1, w1)" "sizes l1 = sizes l"
    "stores w1 = stores w @ [(first, ro_itemid r, li_count (ref_item l ref))]"
    "li_count (ref_item l1 ref) = li_count (ref_item l ref)"
    by (rule count_need_nobody [OF assms(1-3,7-11,14)])
  have ref1: "roll_ref l1 ?r = Inr ref" using roll_ref_sizes [OF 1(2)] assms(7) by simp
  obtain q r2 l2 w2 where 2: "q \<in> set ps" "count_greed env m ?r (l1, w1) = Inr (r2, l2, w2)"
    "ro_itemSlot r2 = ro_itemSlot ?r" "sizes l2 = sizes l1"
    "stores w2 = stores w1 @ [(q, ro_itemid ?r, li_count (ref_item l1 ref))]"
    by (rule count_greed_awards [OF assms(1) refl assms(13,4-6) ref1 assms(12,14)])
  have "roll_ref l2 r2 = Inr ref" using ref1 2(3,4) by (metis roll_ref_sizes roll_ref_slot)
  then obtain l3 w3 where 3: "count_passed env r2 (l2, w2) = Inr (l3, w3)" "stores w3 = stores w2"
    by (rule count_passed_result)
  have "count_roll env m r (l, w) = Inr (l3, w3)" using 1 2 3 by (simp add: count_roll_def)
  then show ?thesis using 1(3,4) 2(1,5) 3(2) by auto
qed

text \<open>Player 1 has passed, player 2 chose need and has gone, player 3 chose greed.\<close>

theorem item_given_twice_when_need_voters_gone_witness:
  "\<exists>q \<in> {3}. \<exists>l' w'. count_roll (demo_env\<lparr>le_FindPlayer := (\<lambda>p. p \<noteq> 2)\<rparr>) None
      (demo_roll [(1, PASS), (2, NEED), (3, GREED)]) (demo_loot, demo_world) = Inr (l', w') \<and>
    stores w' = [(1, 25, 1), (q, 25, 1)]"
proof -
  let ?e = "demo_env\<lparr>le_FindPlayer := (\<lambda>p. p \<noteq> 2)\<rparr>" and ?r = "demo_roll [(1, PASS), (2, NEED), (3, GREED)]"
  have "totals_ok ?r" by (simp add: totals_ok_def demo_roll_def voters_def omap_ok_def)
  then have "\<exists>q \<in> set [3]. \<exists>l' w'. count_roll ?e None ?r (demo_loot, demo_world) = Inr (l', w') \<and>
      stores w' = stores demo_world @ [(1, ro_itemid ?r, li_count (ref_item demo_loot \<lparr>sr_quest = False, sr_index = 0, sr_qitem = None, sr_ffaitem = None, sr_conditem = None\<rparr>)),
        (q, ro_itemid ?r, li_count (ref_item demo_loot \<lparr>sr_quest = False, sr_index = 0, sr_qitem = None, sr_ffaitem = None, sr_conditem = None\<rparr>))]"
    by (rule item_given_twice_when_need_voters_gone)
      (simp_all add: roll_defs loot_demo_defs fair_dice_def present_voters_def voters_def is_present_def roll_ref_def)
  then show ?thesis by (simp add: roll_defs loot_demo_defs stores_def ref_item_def)
qed


text \<open>
  A vote of a player who has voted already is counted again: when one other player is still to
  vote, it ends the roll without waiting for that player.
\<close>

theorem repeated_vote_ends_the_roll:
  assumes "GetRoll g s = Some k" and "totals_ok (rs_rolls s ! k)" and "choice < MAX_ROLL_TYPE"
    and "omap_find (ro_playerVote (rs_rolls s ! k)) p = Some v" and "v \<noteq> NOT_EMITED_YET"
    and "voters NOT_EMITED_YET (rs_rolls s ! k) = [q]"
    and "ro_loot (rs_rolls s ! k) = Some obj" and "omap_find (rs_loots s) obj = Some l" and "l_items l \<noteq> []"
    and "s' = s\<lparr>rs_rolls := (rs_rolls s)[k := cast_vote p choice (rs_rolls s ! k)],
               rs_world := announce_vote (re_env re) p choice (rs_rolls s ! k) (rs_world s)\<rparr>"
  shows "CountRollVote re p g choice s = CountTheRoll re k None s'"
proof -
  let ?r = "rs_rolls s ! k" and ?u = "\<lambda>v. length (voters v (rs_rolls s ! k))"
  have sum: "?u PASS + ?u NEED + ?u GREED + 1 = length (ro_playerVote ?r)" and lt: "length (ro_playerVote ?r) < 256"
    using assms(2,6) voters_sum [of ?r] by (simp_all add: totals_ok_def)
  have le: "unat (of_nat n + 1 :: uint8) = n + 1" "unat (of_nat n :: uint8) = n" if "n < 255" for n
    using unat_u8 [of "Suc n"] unat_u8 [of n] that by (simp_all add: add.commute)
  have small: "?u PASS < 255" "?u NEED < 255" "?u GREED < 255" using sum lt by linarith+
  have "choice = 0 \<or> choice = 1 \<or> choice = 2" using assms(3) by (rule less_3_cases_u8)
  then have "all_voted (cast_vote p choice ?r)"
    using sum lt assms(2) small le by (auto simp: all_voted_def cast_vote_def totals_ok_def unat_u8)
  then show ?thesis
    using assms by (simp add: CountRollVote_def Let_def omap_has_def)
qed

text \<open>Player 1 passes a second time; player 2 has not voted yet.\<close>

theorem repeated_vote_ends_the_roll_witness:
  "let s = demo_rolls [(1, PASS), (2, NOT_EMITED_YET), (3, NEED)];
       s' = s\<lparr>rs_rolls := (rs_rolls s)[0 := cast_vote 1 ROLL_PASS (rs_rolls s ! 0)],
              rs_world := announce_vote (re_env demo_roll_env) 1 ROLL_PASS (rs_rolls s ! 0) (rs_world s)\<rparr>
   in CountRollVote demo_roll_env 1 0x4000000000000005 ROLL_PASS s = CountTheRoll demo_roll_env 0 None s'"
proof -
  let ?s = "demo_rolls [(1, PASS), (2, NOT_EMITED_YET), (3, NEED)]"
  have h: "GetRoll 0x4000000000000005 ?s = Some 0" "totals_ok (rs_rolls ?s ! 0)" "ROLL_PASS < MAX_ROLL_TYPE"
    "omap_find (ro_playerVote (rs_rolls ?s ! 0)) 1 = Some PASS" "PASS \<noteq> NOT_EMITED_YET"
    "voters NOT_EMITED_YET (rs_rolls ?s ! 0) = [2]"
    "ro_loot (rs_rolls ?s ! 0) = Some demo_creature" "omap_find (rs_loots ?s) demo_creature = Some demo_loot"
    "l_items demo_loot \<noteq> []"
    using demo_totals
    by (simp_all add: demo_rolls_def GetRoll_def isValid_def demo_roll_def omap_find_def voters_def loot_demo_defs)
  show ?thesis
    using repeated_vote_ends_the_roll [OF h refl, of demo_roll_env] by (simp add: Let_def)
qed

end
