(* ===== verification/GroupRoster.thy ===== *)
theory GroupRoster
  imports LootRoll Social
begin

text \<open>
  The group object of src/src/server/game/Groups/Group.h and Group.cpp without its loot rolls,
  which are in \<open>LootRoll\<close>: members, subgroups and their counters, leader, invitations, flags,
  target icons, the round-robin looter, and the packets that show the group. Group objects are
  on a heap, because players, the group manager and the groups refer to each other: a group is
  an address, a deleted group is \<open>None\<close>, and using it is the fault \<open>UseAfterFree\<close>. A player refers
  to the group with two links (\<open>m_group\<close>, \<open>m_originalGroup\<close>), which the group lists, newest first.
  Instance binds are calls. The build is the one without \<open>LICH_KING\<close>.
\<close>

abbreviation (input) "MAXGROUPSIZE \<equiv> (5 :: nat)"
abbreviation (input) "MAXRAIDSIZE \<equiv> (40 :: nat)"
abbreviation (input) "MAX_RAID_SUBGROUPS \<equiv> (8 :: nat)"
abbreviation (input) "TARGETICONCOUNT \<equiv> (8 :: nat)"
abbreviation (input) "GROUPTYPE_NORMAL \<equiv> (0 :: uint8)"
abbreviation (input) "GROUPTYPE_RAID \<equiv> (1 :: uint8)"
abbreviation (input) "MEMBER_FLAG_ASSISTANT \<equiv> (1 :: uint8)"
abbreviation (input) "MEMBER_FLAG_MAINTANK \<equiv> (2 :: uint8)"
abbreviation (input) "MEMBER_FLAG_MAINASSIST \<equiv> (4 :: uint8)"
abbreviation (input) "ITEM_QUALITY_UNCOMMON \<equiv> (2 :: uint8)"

section \<open>State\<close>

datatype group_fault = UseAfterFree | IndexRange | OutOfEnum | FullGroup | LootFault loot_fault

record member_slot =
  ms_guid :: guid
  ms_name :: string
  ms_group :: uint8
  ms_flags :: uint8
  ms_roles :: uint8

record group_obj =
  g_guid :: guid
  g_dbStoreId :: uint32
  g_memberSlots :: "member_slot list"
  g_refs :: "(guid \<times> bool) list"
  g_invitees :: "guid oset"
  g_leaderGuid :: guid
  g_leaderName :: string
  g_groupType :: uint8
  g_dungeonDifficulty :: uint8
  g_bgGroup :: bool
  g_targetIcons :: "guid list"
  g_lootMethod :: loot_method
  g_lootThreshold :: uint8
  g_looterGuid :: guid
  g_masterLooterGuid :: guid
  g_rolls :: "roll list"
  g_subGroupsCounts :: "uint8 list option"
  g_leaderLogoutTime :: int

definition Group_new :: group_obj where
  "Group_new = \<lparr>g_guid = 0, g_dbStoreId = 0, g_memberSlots = [], g_refs = [], g_invitees = [],
     g_leaderGuid = 0, g_leaderName = [], g_groupType = 0, g_dungeonDifficulty = 0, g_bgGroup = False,
     g_targetIcons = replicate TARGETICONCOUNT 0, g_lootMethod = FREE_FOR_ALL,
     g_lootThreshold = ITEM_QUALITY_UNCOMMON, g_looterGuid = 0, g_masterLooterGuid = 0, g_rolls = [],
     g_subGroupsCounts = None, g_leaderLogoutTime = 0\<rparr>"

text \<open>What a player object knows of groups: the targets of its links with their subgroups.\<close>

record group_player =
  gp_group :: "nat option"
  gp_subGroup :: uint8
  gp_original :: "nat option"
  gp_originalSub :: uint8
  gp_invite :: "nat option"
  gp_leaderFlag :: bool

definition Player_new :: group_player where
  "Player_new = \<lparr>gp_group = None, gp_subGroup = 0, gp_original = None, gp_originalSub = 0,
     gp_invite = None, gp_leaderFlag = False\<rparr>"

text \<open>
  The world: the group objects, the next free address, the player objects, the group manager
  (its store by low guid and its list by storage id with the next ids), and what the rolls need.
\<close>

record group_world =
  gw_groups :: "nat \<Rightarrow> group_obj option"
  gw_next :: nat
  gw_players :: "guid \<Rightarrow> group_player"
  gw_GroupStore :: "(uint32, nat) omap"
  gw_GroupDbStore :: "nat option list"
  gw_NextGroupDbStoreId :: uint32
  gw_NextGroupId :: uint32
  gw_loots :: "(guid, loot) omap"
  gw_timers :: "(guid, uint32 \<times> uint32) omap"
  gw_items :: guid_generator
  gw_world :: loot_world

text \<open>
  The environment of a request: the accessors of \<open>loot_env\<close>, names, the session flag
  \<open>PlayerLogout\<close>, testing bots, the clock and the reconnect period.
\<close>

record group_env =
  ge_roll :: roll_env
  ge_name :: "guid \<Rightarrow> string"
  ge_PlayerLogout :: "guid \<Rightarrow> bool"
  ge_testingBot :: "guid \<Rightarrow> bool"
  ge_level :: "guid \<Rightarrow> uint32"
  ge_difficulty :: "guid \<Rightarrow> uint8"
  ge_now :: int
  ge_reconnect :: int

definition ge_env :: "group_env \<Rightarrow> loot_env" where
  "ge_env ge = re_env (ge_roll ge)"

definition gemit :: "loot_effect \<Rightarrow> group_world \<Rightarrow> group_world" where
  "gemit e w = w\<lparr>gw_world := Loot.emit e (gw_world w)\<rparr>"

definition gsend :: "guid \<Rightarrow> uint16 \<Rightarrow> field list \<Rightarrow> group_world \<Rightarrow> group_world" where
  "gsend p opcode fs w = w\<lparr>gw_world := send_to p opcode fs (gw_world w)\<rparr>"

definition gcall :: "guid \<Rightarrow> string \<Rightarrow> uint32 list \<Rightarrow> group_world \<Rightarrow> group_world" where
  "gcall p what args = gemit (LCall p what args)"

definition gstmt :: "string \<Rightarrow> uint64 list \<Rightarrow> group_world \<Rightarrow> group_world" where
  "gstmt what args = gemit (LStatement what args)"

definition set_group :: "nat \<Rightarrow> group_obj \<Rightarrow> group_world \<Rightarrow> group_world" where
  "set_group g gr w = w\<lparr>gw_groups := (gw_groups w)(g \<mapsto> gr)\<rparr>"

definition set_player :: "guid \<Rightarrow> group_player \<Rightarrow> group_world \<Rightarrow> group_world" where
  "set_player p pl w = w\<lparr>gw_players := (gw_players w)(p := pl)\<rparr>"

definition with_group ::
  "nat \<Rightarrow> group_world \<Rightarrow> (group_obj \<Rightarrow> (group_fault, 'a) result) \<Rightarrow> (group_fault, 'a) result" where
  "with_group g w f = (case gw_groups w g of None \<Rightarrow> Inl UseAfterFree | Some gr \<Rightarrow> f gr)"

definition update_group :: "nat \<Rightarrow> (group_obj \<Rightarrow> group_obj) \<Rightarrow> group_world \<Rightarrow> (group_fault, group_world) result" where
  "update_group g f w = with_group g w (\<lambda>gr. Inr (set_group g (f gr) w))"

section \<open>Queries\<close>

definition isRaidGroup :: "group_obj \<Rightarrow> bool" where
  "isRaidGroup gr \<longleftrightarrow> has_flag (g_groupType gr) GROUPTYPE_RAID"

definition GetMembersCount :: "group_obj \<Rightarrow> nat" where
  "GetMembersCount gr = length (g_memberSlots gr)"

definition IsCreated :: "group_obj \<Rightarrow> bool" where
  "IsCreated gr \<longleftrightarrow> GetMembersCount gr > 0"

definition IsFull :: "group_obj \<Rightarrow> bool" where
  "IsFull gr \<longleftrightarrow> GetMembersCount gr \<ge> (if isRaidGroup gr then MAXRAIDSIZE else MAXGROUPSIZE)"

definition getMemberSlot :: "guid \<Rightarrow> group_obj \<Rightarrow> member_slot option" where
  "getMemberSlot p gr = find (\<lambda>s. ms_guid s = p) (g_memberSlots gr)"

definition IsMember :: "guid \<Rightarrow> group_obj \<Rightarrow> bool" where
  "IsMember p gr \<longleftrightarrow> getMemberSlot p gr \<noteq> None"

definition IsLeader :: "guid \<Rightarrow> group_obj \<Rightarrow> bool" where
  "IsLeader p gr \<longleftrightarrow> g_leaderGuid gr = p"

definition GetMemberGUID :: "string \<Rightarrow> group_obj \<Rightarrow> guid" where
  "GetMemberGUID n gr =
     (case find (\<lambda>s. ms_name s = n) (g_memberSlots gr) of None \<Rightarrow> 0 | Some s \<Rightarrow> ms_guid s)"

definition GetMemberFlags :: "guid \<Rightarrow> group_obj \<Rightarrow> uint8" where
  "GetMemberFlags p gr = (case getMemberSlot p gr of None \<Rightarrow> 0 | Some s \<Rightarrow> ms_flags s)"

definition IsAssistant :: "guid \<Rightarrow> group_obj \<Rightarrow> bool" where
  "IsAssistant p gr \<longleftrightarrow> GetMemberFlags p gr AND MEMBER_FLAG_ASSISTANT = MEMBER_FLAG_ASSISTANT"

definition GetMemberGroup :: "guid \<Rightarrow> group_obj \<Rightarrow> uint8" where
  "GetMemberGroup p gr =
     (case getMemberSlot p gr of None \<Rightarrow> of_nat MAX_RAID_SUBGROUPS + 1 | Some s \<Rightarrow> ms_group s)"

definition SameSubGroup :: "guid \<Rightarrow> guid \<Rightarrow> group_obj \<Rightarrow> bool" where
  "SameSubGroup p q gr \<longleftrightarrow>
     (case getMemberSlot q gr of None \<Rightarrow> False
      | Some s2 \<Rightarrow> (case getMemberSlot p gr of None \<Rightarrow> False | Some s1 \<Rightarrow> ms_group s1 = ms_group s2))"

definition GetLooterGuid :: "group_obj \<Rightarrow> guid" where
  "GetLooterGuid gr = (if g_lootMethod gr = FREE_FOR_ALL then 0 else g_looterGuid gr)"

definition GetTargetIcon :: "uint8 \<Rightarrow> group_obj \<Rightarrow> guid" where
  "GetTargetIcon i gr = (if unat i \<ge> TARGETICONCOUNT then 0 else g_targetIcons gr ! unat i)"

section \<open>Subgroup counters\<close>

text \<open>A subgroup outside the eight counters reads or writes past the array.\<close>

definition HasFreeSlotSubGroup :: "uint8 \<Rightarrow> group_obj \<Rightarrow> (group_fault, bool) result" where
  "HasFreeSlotSubGroup sub gr =
     (case g_subGroupsCounts gr of None \<Rightarrow> Inr False
      | Some cs \<Rightarrow> if unat sub < length cs then Inr (unat (cs ! unat sub) < MAXGROUPSIZE) else Inl IndexRange)"

definition count_at :: "(uint8 \<Rightarrow> uint8) \<Rightarrow> uint8 \<Rightarrow> group_obj \<Rightarrow> (group_fault, group_obj) result" where
  "count_at f sub gr =
     (case g_subGroupsCounts gr of None \<Rightarrow> Inr gr
      | Some cs \<Rightarrow> if unat sub < length cs
          then Inr (gr\<lparr>g_subGroupsCounts := Some (cs[unat sub := f (cs ! unat sub)])\<rparr>) else Inl IndexRange)"

definition SubGroupCounterIncrease :: "uint8 \<Rightarrow> group_obj \<Rightarrow> (group_fault, group_obj) result" where
  "SubGroupCounterIncrease = count_at (\<lambda>c. c + 1)"

definition SubGroupCounterDecrease :: "uint8 \<Rightarrow> group_obj \<Rightarrow> (group_fault, group_obj) result" where
  "SubGroupCounterDecrease = count_at (\<lambda>c. c - 1)"

definition initRaidSubGroupsCounter :: "group_obj \<Rightarrow> (group_fault, group_obj) result" where
  "initRaidSubGroupsCounter gr =
     fold_result (\<lambda>s. SubGroupCounterIncrease (ms_group s)) (g_memberSlots gr)
       (gr\<lparr>g_subGroupsCounts := Some (replicate MAX_RAID_SUBGROUPS 0)\<rparr>)"

text \<open>The first subgroup with a free place, as \<open>AddMember\<close> searches it.\<close>

fun first_free :: "uint8 \<Rightarrow> uint8 list \<Rightarrow> uint8 option" where
  "first_free i [] = None"
| "first_free i (c # cs) = (if unat c < MAXGROUPSIZE then Some i else first_free (i + 1) cs)"

section \<open>Links of players\<close>

text \<open>The flag says whether the link is the one to the original group.\<close>

definition link_target :: "bool \<Rightarrow> group_player \<Rightarrow> nat option" where
  "link_target orig pl = (if orig then gp_original pl else gp_group pl)"

definition unlink :: "bool \<Rightarrow> guid \<Rightarrow> group_world \<Rightarrow> group_world" where
  "unlink orig p w =
     (let pl = gw_players w p;
          w1 = (case link_target orig pl of
                  None \<Rightarrow> w
                | Some g \<Rightarrow> (case gw_groups w g of None \<Rightarrow> w
                    | Some gr \<Rightarrow> set_group g (gr\<lparr>g_refs := remove1 (p, orig) (g_refs gr)\<rparr>) w))
      in set_player p (if orig then pl\<lparr>gp_original := None\<rparr> else pl\<lparr>gp_group := None\<rparr>) w1)"

definition link :: "bool \<Rightarrow> guid \<Rightarrow> nat \<Rightarrow> uint8 \<Rightarrow> group_world \<Rightarrow> (group_fault, group_world) result" where
  "link orig p g sub w =
     (let w1 = unlink orig p w; pl = gw_players w1 p in
      update_group g (\<lambda>gr. gr\<lparr>g_refs := (p, orig) # g_refs gr\<rparr>)
        (set_player p (if orig then pl\<lparr>gp_original := Some g, gp_originalSub := sub\<rparr>
                       else pl\<lparr>gp_group := Some g, gp_subGroup := sub\<rparr>) w1))"

definition SetGroup :: "guid \<Rightarrow> nat option \<Rightarrow> uint8 \<Rightarrow> group_world \<Rightarrow> (group_fault, group_world) result" where
  "SetGroup p g sub w = (case g of None \<Rightarrow> Inr (unlink False p w) | Some g' \<Rightarrow> link False p g' sub w)"

definition SetOriginalGroup :: "guid \<Rightarrow> nat option \<Rightarrow> uint8 \<Rightarrow> group_world \<Rightarrow> (group_fault, group_world) result" where
  "SetOriginalGroup p g sub w = (case g of None \<Rightarrow> Inr (unlink True p w) | Some g' \<Rightarrow> link True p g' sub w)"

definition SetBattlegroundRaid :: "guid \<Rightarrow> nat \<Rightarrow> uint8 \<Rightarrow> group_world \<Rightarrow> (group_fault, group_world) result" where
  "SetBattlegroundRaid p g sub w =
     (let pl = gw_players w p in
      bind_result (SetOriginalGroup p (gp_group pl) (gp_subGroup pl) w) (link False p g sub))"

definition RemoveFromBattlegroundRaid :: "guid \<Rightarrow> group_world \<Rightarrow> (group_fault, group_world) result" where
  "RemoveFromBattlegroundRaid p w =
     (let w1 = unlink False p w; pl = gw_players w1 p in
      bind_result (case gp_original pl of None \<Rightarrow> Inr w1 | Some g \<Rightarrow> link False p g (gp_originalSub pl) w1)
        (SetOriginalGroup p None 0))"

definition SetGroupInvite :: "guid \<Rightarrow> nat option \<Rightarrow> group_world \<Rightarrow> group_world" where
  "SetGroupInvite p g w = set_player p ((gw_players w p)\<lparr>gp_invite := g\<rparr>) w"

definition set_leader_flag :: "bool \<Rightarrow> guid \<Rightarrow> group_world \<Rightarrow> group_world" where
  "set_leader_flag b p w = set_player p ((gw_players w p)\<lparr>gp_leaderFlag := b\<rparr>) w"

section \<open>Packets\<close>

definition BroadcastPacket ::
  "group_env \<Rightarrow> nat \<Rightarrow> uint16 \<Rightarrow> field list \<Rightarrow> bool \<Rightarrow> uint8 option \<Rightarrow> guid \<Rightarrow> group_obj \<Rightarrow> group_world \<Rightarrow> group_world" where
  "BroadcastPacket ge g opcode fs ignorePlayersInBGRaid sub ignored gr w =
     fold (\<lambda>(p, orig) w.
         let pl = gw_players w p in
         if ignored \<noteq> 0 \<and> p = ignored \<or> ignorePlayersInBGRaid \<and> gp_group pl \<noteq> Some g then w
         else if le_session (ge_env ge) p \<and>
                 (case sub of None \<Rightarrow> True | Some i \<Rightarrow> (if orig then gp_originalSub pl else gp_subGroup pl) = i)
         then gsend p opcode fs w else w) (g_refs gr) w"

definition member_fields :: "group_env \<Rightarrow> group_obj \<Rightarrow> member_slot \<Rightarrow> field list" where
  "member_fields ge gr s =
     [Str (ms_name s), U64 (ms_guid s),
      U8 ((if le_FindConnected (ge_env ge) (ms_guid s) \<and> \<not> ge_PlayerLogout ge (ms_guid s) then 1 else 0) OR
          (if g_bgGroup gr then 2 else 0)),
      U8 (ms_group s), U8 (ms_flags s)]"

fun method_code :: "loot_method \<Rightarrow> uint8" where
  "method_code FREE_FOR_ALL = 0"
| "method_code ROUND_ROBIN = 1"
| "method_code MASTER_LOOT = 2"
| "method_code GROUP_LOOT = 3"
| "method_code NEED_BEFORE_GREED = 4"

definition group_list_fields :: "group_env \<Rightarrow> member_slot \<Rightarrow> group_obj \<Rightarrow> field list" where
  "group_list_fields ge slot gr =
     [U8 (g_groupType gr), U8 (if g_bgGroup gr then 1 else 0), U8 (ms_group slot), U8 (ms_flags slot),
      U64 0x50000000FFFFFFFE, U32 (of_nat (GetMembersCount gr - 1))] @
     concat (map (member_fields ge gr) (filter (\<lambda>s. ms_guid s \<noteq> ms_guid slot) (g_memberSlots gr))) @
     [U64 (g_leaderGuid gr)] @
     (if GetMembersCount gr - 1 \<noteq> 0
      then [U8 (method_code (g_lootMethod gr)),
            U64 (if g_lootMethod gr = MASTER_LOOT then g_masterLooterGuid gr else 0),
            U8 (g_lootThreshold gr), U8 (g_dungeonDifficulty gr)]
      else [])"

definition SendUpdateToPlayer :: "group_env \<Rightarrow> nat \<Rightarrow> group_obj \<Rightarrow> guid \<Rightarrow> group_world \<Rightarrow> group_world" where
  "SendUpdateToPlayer ge g gr p w =
     (if \<not> le_FindPlayer (ge_env ge) p \<or> \<not> le_session (ge_env ge) p \<or> gp_group (gw_players w p) \<noteq> Some g then w
      else case getMemberSlot p gr of
          None \<Rightarrow> w
        | Some slot \<Rightarrow> gsend p 0x07D (group_list_fields ge slot gr) w)"

definition SendUpdate :: "group_env \<Rightarrow> nat \<Rightarrow> group_world \<Rightarrow> (group_fault, group_world) result" where
  "SendUpdate ge g w =
     with_group g w (\<lambda>gr. Inr (fold (\<lambda>s. SendUpdateToPlayer ge g gr (ms_guid s)) (g_memberSlots gr) w))"

definition SendTargetIconList :: "guid \<Rightarrow> group_obj \<Rightarrow> group_world \<Rightarrow> group_world" where
  "SendTargetIconList p gr =
     gsend p 0x321 (U8 1 # concat (map (\<lambda>(i, t). [U8 (of_nat i), U64 t])
       (filter (\<lambda>(i, t). t \<noteq> 0) (enumerate 0 (g_targetIcons gr)))))"

definition BroadcastReadyCheck :: "group_env \<Rightarrow> uint16 \<Rightarrow> field list \<Rightarrow> group_obj \<Rightarrow> group_world \<Rightarrow> group_world" where
  "BroadcastReadyCheck ge opcode fs gr =
     fold (\<lambda>(p, orig) w. if le_session (ge_env ge) p \<and> (IsLeader p gr \<or> IsAssistant p gr)
                        then gsend p opcode fs w else w) (g_refs gr)"

definition OfflineReadyCheck :: "group_env \<Rightarrow> group_obj \<Rightarrow> group_world \<Rightarrow> group_world" where
  "OfflineReadyCheck ge gr =
     fold (\<lambda>s w. if \<not> le_FindPlayer (ge_env ge) (ms_guid s) \<or> \<not> le_session (ge_env ge) (ms_guid s)
                then BroadcastReadyCheck ge 0x3AE [U64 (ms_guid s), U8 0] gr w else w) (g_memberSlots gr)"

definition BroadcastGroupUpdate :: "group_env \<Rightarrow> group_obj \<Rightarrow> group_world \<Rightarrow> group_world" where
  "BroadcastGroupUpdate ge gr =
     fold (\<lambda>s w. if le_FindPlayer (ge_env ge) (ms_guid s) \<and> re_inWorld (ge_roll ge) (ms_guid s)
                then gcall (ms_guid s) ''ForceValuesUpdate'' [] w else w) (g_memberSlots gr)"

section \<open>Settings\<close>

text \<open>The icons of the target are taken off one after another, each with its own packet.\<close>

definition put_icon :: "group_env \<Rightarrow> nat \<Rightarrow> nat \<Rightarrow> guid \<Rightarrow> group_world \<Rightarrow> (group_fault, group_world) result" where
  "put_icon ge g i target w =
     with_group g w (\<lambda>gr.
       let gr' = gr\<lparr>g_targetIcons := (g_targetIcons gr)[i := target]\<rparr> in
       Inr (BroadcastPacket ge g 0x321 [U8 0, U8 (of_nat i), U64 target] True None 0 gr' (set_group g gr' w)))"

definition SetTargetIcon :: "group_env \<Rightarrow> nat \<Rightarrow> uint8 \<Rightarrow> guid \<Rightarrow> group_world \<Rightarrow> (group_fault, group_world) result" where
  "SetTargetIcon ge g i target w =
     (if unat i \<ge> TARGETICONCOUNT then Inr w
      else bind_result
        (if target = 0 then Inr w
         else fold_result (\<lambda>j w. with_group g w (\<lambda>gr.
             if g_targetIcons gr ! j = target then put_icon ge g j 0 w else Inr w)) [0..<TARGETICONCOUNT] w)
        (put_icon ge g (unat i) target))"

definition map_slot :: "guid \<Rightarrow> (member_slot \<Rightarrow> member_slot) \<Rightarrow> group_obj \<Rightarrow> group_obj" where
  "map_slot p f gr =
     (case first_index (\<lambda>s. ms_guid s = p) (g_memberSlots gr) of
        None \<Rightarrow> gr
      | Some i \<Rightarrow> gr\<lparr>g_memberSlots := (g_memberSlots gr)[i := f (g_memberSlots gr ! i)]\<rparr>)"

end
