(* ===== verification/GroupOps.thy ===== *)
theory GroupOps
  imports GroupRoster
begin

text \<open>
  The operations of src/src/server/game/Groups/Group.cpp on the heap of groups, with the group
  manager (GroupMgr.cpp) and the group part of Player.cpp: inviting, adding and removing members,
  leadership, subgroups, flags, the round-robin looter, disbanding, loading. Removing a member
  takes the player out of the loot rolls with the operations of \<open>LootRoll\<close>. Statements of a
  transaction are recorded when they are appended.
\<close>

section \<open>Invitations\<close>

text \<open>The invitees are pointers to player objects, which exist while the player is connected.\<close>

definition RemoveInvite :: "guid \<Rightarrow> nat \<Rightarrow> group_world \<Rightarrow> (group_fault, group_world) result" where
  "RemoveInvite p g w =
     bind_result (update_group g (\<lambda>gr. gr\<lparr>g_invitees := oset_erase p (g_invitees gr)\<rparr>) w)
       (\<lambda>w1. Inr (SetGroupInvite p None w1))"

text \<open>The player's group outside battlegrounds.\<close>

definition own_group :: "guid \<Rightarrow> group_world \<Rightarrow> (group_fault, nat option) result" where
  "own_group p w =
     (let pl = gw_players w p in
      case gp_group pl of
        None \<Rightarrow> Inr None
      | Some h \<Rightarrow> with_group h w (\<lambda>gr. Inr (if g_bgGroup gr then gp_original pl else Some h)))"

definition AddInvite :: "guid \<Rightarrow> nat \<Rightarrow> group_world \<Rightarrow> (group_fault, bool \<times> group_world) result" where
  "AddInvite p g w =
     (if gp_invite (gw_players w p) \<noteq> None then Inr (False, w)
      else bind_result (own_group p w)
        (\<lambda>grp. if grp \<noteq> None then Inr (False, w)
          else
            bind_result (RemoveInvite p g w) (\<lambda>w1.
            bind_result (update_group g (\<lambda>gr. gr\<lparr>g_invitees := oset_insert p (g_invitees gr)\<rparr>) w1) (\<lambda>w2.
            Inr (True, SetGroupInvite p (Some g) w2)))))"

definition AddLeaderInvite :: "group_env \<Rightarrow> guid \<Rightarrow> nat \<Rightarrow> group_world \<Rightarrow> (group_fault, bool \<times> group_world) result" where
  "AddLeaderInvite ge p g w =
     bind_result (AddInvite p g w) (\<lambda>(ok, w1).
       if \<not> ok then Inr (False, w1)
       else bind_result (update_group g (\<lambda>gr. gr\<lparr>g_leaderGuid := p, g_leaderName := ge_name ge p\<rparr>) w1)
         (\<lambda>w2. Inr (True, w2)))"

definition RemoveAllInvites :: "group_env \<Rightarrow> nat \<Rightarrow> group_world \<Rightarrow> (group_fault, group_world) result" where
  "RemoveAllInvites ge g w =
     with_group g w (\<lambda>gr.
       bind_result (fold_result (\<lambda>p w. if le_FindConnected (ge_env ge) p then Inr (SetGroupInvite p None w)
                                      else Inl UseAfterFree) (g_invitees gr) w)
         (update_group g (\<lambda>gr. gr\<lparr>g_invitees := []\<rparr>)))"

text \<open>Looking for an invitee reads the player objects one after another.\<close>

definition find_invitee :: "group_env \<Rightarrow> (guid \<Rightarrow> bool) \<Rightarrow> group_obj \<Rightarrow> (group_fault, guid option) result" where
  "find_invitee ge P gr =
     fold_result (\<lambda>q found. if found \<noteq> None then Inr found
       else if \<not> le_FindConnected (ge_env ge) q then Inl UseAfterFree
       else Inr (if P q then Some q else None)) (g_invitees gr) None"

definition GetInvited :: "group_env \<Rightarrow> guid \<Rightarrow> group_obj \<Rightarrow> (group_fault, guid option) result" where
  "GetInvited ge p = find_invitee ge (\<lambda>q. q = p)"

definition GetInvited_by_name :: "group_env \<Rightarrow> string \<Rightarrow> group_obj \<Rightarrow> (group_fault, guid option) result" where
  "GetInvited_by_name ge n = find_invitee ge (\<lambda>q. ge_name ge q = n)"

section \<open>The group manager\<close>

definition next_free :: "nat option list \<Rightarrow> nat \<Rightarrow> nat" where
  "next_free xs i = i + length (takeWhile (\<lambda>x. x \<noteq> None) (drop i xs))"

definition GenerateNewGroupDbStoreId :: "group_world \<Rightarrow> uint32 \<times> group_world" where
  "GenerateNewGroupDbStoreId w =
     (let newStorageId = gw_NextGroupDbStoreId w;
          i0 = newStorageId + 1;
          i = next_free (gw_GroupDbStore w) (unat i0);
          w1 = w\<lparr>gw_NextGroupDbStoreId := (if i < 0xFFFFFFFF then of_nat i else i0)\<rparr>
      in (newStorageId,
          if newStorageId = gw_NextGroupDbStoreId w1 then gcall 0 ''World::StopNow'' [] w1 else w1))"

definition RegisterGroupDbStoreId :: "uint32 \<Rightarrow> nat \<Rightarrow> group_world \<Rightarrow> group_world" where
  "RegisterGroupDbStoreId i g w =
     (let xs = gw_GroupDbStore w;
          ys = (if unat i \<ge> length xs then xs @ replicate (unat i + 1 - length xs) None else xs)
      in w\<lparr>gw_GroupDbStore := ys[unat i := Some g]\<rparr>)"

definition FreeGroupDbStoreId :: "group_obj \<Rightarrow> group_world \<Rightarrow> (group_fault, group_world) result" where
  "FreeGroupDbStoreId gr w =
     (let i = g_dbStoreId gr in
      if unat i < length (gw_GroupDbStore w)
      then Inr (w\<lparr>gw_NextGroupDbStoreId := (if i < gw_NextGroupDbStoreId w then i else gw_NextGroupDbStoreId w),
                 gw_GroupDbStore := (gw_GroupDbStore w)[unat i := None]\<rparr>)
      else Inl IndexRange)"

definition GetGroupByDbStoreId :: "uint32 \<Rightarrow> group_world \<Rightarrow> nat option" where
  "GetGroupByDbStoreId i w =
     (if unat i < length (gw_GroupDbStore w) then gw_GroupDbStore w ! unat i else None)"

definition GenerateGroupId :: "group_world \<Rightarrow> uint32 \<times> group_world" where
  "GenerateGroupId w =
     (let w1 = (if gw_NextGroupId w \<ge> 0xFFFFFFFE then gcall 0 ''World::StopNow'' [] w else w)
      in (gw_NextGroupId w1, w1\<lparr>gw_NextGroupId := gw_NextGroupId w1 + 1\<rparr>))"

definition GetGroupByGUID :: "uint32 \<Rightarrow> group_world \<Rightarrow> nat option" where
  "GetGroupByGUID i w = omap_find (gw_GroupStore w) i"

definition AddGroup :: "nat \<Rightarrow> group_world \<Rightarrow> (group_fault, group_world) result" where
  "AddGroup g w =
     with_group g w (\<lambda>gr. Inr (w\<lparr>gw_GroupStore := omap_set (guid_counter (g_guid gr)) g (gw_GroupStore w)\<rparr>))"

definition RemoveGroup :: "group_obj \<Rightarrow> group_world \<Rightarrow> group_world" where
  "RemoveGroup gr w = w\<lparr>gw_GroupStore := omap_erase (guid_counter (g_guid gr)) (gw_GroupStore w)\<rparr>"

text \<open>\<open>new Group\<close> and \<open>delete\<close>, which invalidates the links to the group.\<close>

definition new_group :: "group_world \<Rightarrow> nat \<times> group_world" where
  "new_group w = (gw_next w, set_group (gw_next w) Group_new (w\<lparr>gw_next := Suc (gw_next w)\<rparr>))"

definition invalidate :: "guid \<times> bool \<Rightarrow> group_world \<Rightarrow> group_world" where
  "invalidate r w =
     (case r of (p, orig) \<Rightarrow>
      let pl = gw_players w p in
      set_player p (if orig then pl\<lparr>gp_original := None\<rparr> else pl\<lparr>gp_group := None\<rparr>) w)"

definition delete_group :: "nat \<Rightarrow> group_world \<Rightarrow> (group_fault, group_world) result" where
  "delete_group g w =
     with_group g w (\<lambda>gr.
       let w1 = fold invalidate (g_refs gr) (if g_bgGroup gr then gcall 0 ''SetBgRaid'' [] w else w)
       in Inr (w1\<lparr>gw_groups := (gw_groups w1)(g := None)\<rparr>))"

section \<open>Leader\<close>

definition ToggleGroupMemberFlag :: "guid \<Rightarrow> uint8 \<Rightarrow> bool \<Rightarrow> group_obj \<Rightarrow> group_obj" where
  "ToggleGroupMemberFlag p flag apply_it =
     map_slot p (\<lambda>s. s\<lparr>ms_flags := (if apply_it then add_flag (ms_flags s) flag else del_flag (ms_flags s) flag)\<rparr>)"

definition ChangeLeader :: "group_env \<Rightarrow> guid \<Rightarrow> nat \<Rightarrow> group_world \<Rightarrow> (group_fault, group_world) result" where
  "ChangeLeader ge p g w =
     with_group g w (\<lambda>gr.
       case getMemberSlot p gr of
         None \<Rightarrow> Inr w
       | Some slot \<Rightarrow>
           if \<not> le_FindConnected (ge_env ge) p then Inr w
           else
             let w1 = (if g_bgGroup gr then w
                       else gstmt ''CHAR_UPD_GROUP_LEADER'' [ucast (guid_counter p), ucast (g_dbStoreId gr)]
                         (gcall p ''ConvertLeaderInstancesToGroup'' [1]
                           (gcall 0 ''RemovePermanentBinds'' [g_dbStoreId gr] w)));
                 w2 = set_leader_flag True p
                        (if le_FindConnected (ge_env ge) (g_leaderGuid gr)
                         then set_leader_flag False (g_leaderGuid gr) w1 else w1);
                 gr2 = ToggleGroupMemberFlag p MEMBER_FLAG_ASSISTANT False
                         (gr\<lparr>g_leaderGuid := p, g_leaderName := ge_name ge p\<rparr>)
             in SendUpdate ge g (BroadcastPacket ge g 0x079 [Str (ms_name slot)] True None 0 gr2 (set_group g gr2 w2)))"

definition CheckLeader :: "group_env \<Rightarrow> guid \<Rightarrow> bool \<Rightarrow> nat \<Rightarrow> group_world \<Rightarrow> (group_fault, group_world) result" where
  "CheckLeader ge p isLogout =
     (\<lambda>g. update_group g (\<lambda>gr.
       if IsLeader p gr then gr\<lparr>g_leaderLogoutTime := (if isLogout then ge_now ge else 0)\<rparr>
       else if \<not> isLogout \<and> g_leaderLogoutTime gr = 0 \<and>
               (g_leaderGuid gr \<notin> fst ` set (g_refs gr) \<or> \<not> re_inWorld (ge_roll ge) (g_leaderGuid gr))
       then gr\<lparr>g_leaderLogoutTime := ge_now ge\<rparr> else gr))"

definition ChangeLeaderToFirstOnlineMember ::
  "group_env \<Rightarrow> nat \<Rightarrow> group_world \<Rightarrow> (group_fault, bool \<times> group_world) result" where
  "ChangeLeaderToFirstOnlineMember ge g w =
     with_group g w (\<lambda>gr.
       case find (\<lambda>(p, orig). re_inWorld (ge_roll ge) p \<and> p \<noteq> g_leaderGuid gr) (g_refs gr) of
         None \<Rightarrow> Inr (False, w)
       | Some (p, orig) \<Rightarrow> bind_result (ChangeLeader ge p g w) (\<lambda>w1. Inr (True, w1)))"

definition Group_Update :: "group_env \<Rightarrow> nat \<Rightarrow> group_world \<Rightarrow> (group_fault, group_world) result" where
  "Group_Update ge g w =
     with_group g w (\<lambda>gr.
       if g_leaderLogoutTime gr \<noteq> 0 \<and> ge_now ge > g_leaderLogoutTime gr + ge_reconnect ge
       then bind_result (ChangeLeaderToFirstOnlineMember ge g w) (\<lambda>(ok, w1).
         update_group g (\<lambda>gr. gr\<lparr>g_leaderLogoutTime := 0\<rparr>) w1)
       else Inr w)"

definition GroupMgr_Update :: "group_env \<Rightarrow> group_world \<Rightarrow> (group_fault, group_world) result" where
  "GroupMgr_Update ge w = fold_result (Group_Update ge) (map snd (gw_GroupStore w)) w"

section \<open>Subgroups and flags\<close>

definition set_slot_group :: "uint8 \<Rightarrow> member_slot \<Rightarrow> member_slot" where
  "set_slot_group sub s = s\<lparr>ms_group := sub\<rparr>"

definition move_link :: "group_env \<Rightarrow> guid \<Rightarrow> nat \<Rightarrow> uint8 \<Rightarrow> group_world \<Rightarrow> group_world" where
  "move_link ge p g sub w =
     (if \<not> le_FindConnected (ge_env ge) p then w
      else let pl = gw_players w p in
        set_player p (if gp_group pl = Some g then pl\<lparr>gp_subGroup := sub\<rparr> else pl\<lparr>gp_originalSub := sub\<rparr>) w)"

definition ChangeMembersGroup ::
  "group_env \<Rightarrow> guid \<Rightarrow> uint8 \<Rightarrow> nat \<Rightarrow> group_world \<Rightarrow> (group_fault, group_world) result" where
  "ChangeMembersGroup ge p sub g w =
     with_group g w (\<lambda>gr.
       if \<not> isRaidGroup gr \<or> getMemberSlot p gr = None \<or> GetMemberGroup p gr = sub then Inr w
       else
         bind_result (SubGroupCounterIncrease sub (map_slot p (set_slot_group sub) gr)) (\<lambda>gr1.
         bind_result (SubGroupCounterDecrease (GetMemberGroup p gr) gr1) (\<lambda>gr2.
         let w1 = set_group g gr2 w;
             w2 = (if g_bgGroup gr then w1
                   else gstmt ''CHAR_UPD_GROUP_MEMBER_SUBGROUP'' [ucast sub, ucast (guid_counter p)] w1)
         in SendUpdate ge g (move_link ge p g sub w2))))"

definition ConvertToRaid :: "group_env \<Rightarrow> nat \<Rightarrow> group_world \<Rightarrow> (group_fault, group_world) result" where
  "ConvertToRaid ge g w =
     with_group g w (\<lambda>gr.
       bind_result (initRaidSubGroupsCounter (gr\<lparr>g_groupType := add_flag (g_groupType gr) GROUPTYPE_RAID\<rparr>)) (\<lambda>gr1.
       let w1 = set_group g gr1 w;
           w2 = (if g_bgGroup gr1 then w1
                 else gstmt ''CHAR_UPD_GROUP_TYPE'' [ucast (g_groupType gr1), ucast (g_dbStoreId gr1)] w1)
       in bind_result (SendUpdate ge g w2) (\<lambda>w3.
          Inr (fold (\<lambda>s w. if le_FindPlayer (ge_env ge) (ms_guid s)
                          then gcall (ms_guid s) ''UpdateForQuestWorldObjects'' [] w else w)
                 (g_memberSlots gr1) w3))))"

definition RemoveUniqueGroupMemberFlag :: "uint8 \<Rightarrow> group_obj \<Rightarrow> group_obj" where
  "RemoveUniqueGroupMemberFlag flag gr =
     gr\<lparr>g_memberSlots := map (\<lambda>s. if has_flag (ms_flags s) flag then s\<lparr>ms_flags := del_flag (ms_flags s) flag\<rparr> else s)
         (g_memberSlots gr)\<rparr>"

definition SetGroupMemberFlag ::
  "group_env \<Rightarrow> guid \<Rightarrow> bool \<Rightarrow> uint8 \<Rightarrow> nat \<Rightarrow> group_world \<Rightarrow> (group_fault, group_world) result" where
  "SetGroupMemberFlag ge p apply_it flag g w =
     with_group g w (\<lambda>gr.
       if \<not> isRaidGroup gr \<or> getMemberSlot p gr = None then Inr w
       else if flag \<notin> {MEMBER_FLAG_ASSISTANT, MEMBER_FLAG_MAINTANK, MEMBER_FLAG_MAINASSIST} then Inr w
       else
         let gr1 = (if flag = MEMBER_FLAG_ASSISTANT then gr else RemoveUniqueGroupMemberFlag flag gr);
             gr2 = ToggleGroupMemberFlag p flag apply_it gr1
         in SendUpdate ge g (gstmt ''CHAR_UPD_GROUP_MEMBER_FLAG'' [ucast (GetMemberFlags p gr2), ucast (guid_counter p)]
              (set_group g gr2 w)))"

section \<open>Round robin\<close>

text \<open>
  The members after the current looter, then those up to the current looter, in order; when the
  current looter is no member the search goes through all members once.
\<close>

definition looter_order :: "guid \<Rightarrow> member_slot list \<Rightarrow> guid list" where
  "looter_order old slots =
     (case first_index (\<lambda>s. ms_guid s = old) slots of
        None \<Rightarrow> map ms_guid slots
      | Some i \<Rightarrow> map ms_guid (drop (Suc i) slots) @ map ms_guid (take (Suc i) slots))"

definition can_loot :: "group_env \<Rightarrow> guid \<Rightarrow> guid \<Rightarrow> bool" where
  "can_loot ge obj p \<longleftrightarrow> le_FindPlayer (ge_env ge) p \<and> le_near (ge_env ge) p obj"

definition UpdateLooterGuid ::
  "group_env \<Rightarrow> guid \<Rightarrow> bool \<Rightarrow> nat \<Rightarrow> group_world \<Rightarrow> (group_fault, group_world) result" where
  "UpdateLooterGuid ge obj ifneed g w =
     with_group g w (\<lambda>gr.
       if g_lootMethod gr = FREE_FOR_ALL then Inr w
       else
         let old = GetLooterGuid gr in
         if ifneed \<and> IsMember old gr \<and> can_loot ge obj old then Inr w
         else case find (can_loot ge obj) (looter_order old (g_memberSlots gr)) of
             Some p \<Rightarrow> if old \<noteq> p then SendUpdate ge g (set_group g (gr\<lparr>g_looterGuid := p\<rparr>) w) else Inr w
           | None \<Rightarrow> SendUpdate ge g (set_group g (gr\<lparr>g_looterGuid := 0\<rparr>) w))"

section \<open>Disbanding\<close>

definition remove_buffs :: "guid \<Rightarrow> group_obj \<Rightarrow> group_world \<Rightarrow> group_world" where
  "remove_buffs p gr =
     fold (\<lambda>(q, orig) w. if q = p then w
       else gcall p ''RemoveAllGroupBuffsFromCaster'' [guid_counter q]
             (gcall q ''RemoveAllGroupBuffsFromCaster'' [guid_counter p] w)) (g_refs gr)"

definition detach :: "guid \<Rightarrow> nat \<Rightarrow> group_world \<Rightarrow> (group_fault, group_world) result" where
  "detach p g w =
     with_group g w (\<lambda>gr.
       if g_bgGroup gr then RemoveFromBattlegroundRaid p w
       else if gp_original (gw_players w p) = Some g then SetOriginalGroup p None 0 w
       else SetGroup p None 0 w)"

definition disband_member :: "group_env \<Rightarrow> bool \<Rightarrow> nat \<Rightarrow> guid \<Rightarrow> group_world \<Rightarrow> (group_fault, group_world) result" where
  "disband_member ge hideDestroy g p w =
     (if \<not> le_FindConnected (ge_env ge) p then Inr w
      else with_group g w (\<lambda>gr.
        bind_result (detach p g (remove_buffs p gr w)) (\<lambda>w1.
        let w2 = (if isRaidGroup gr then gcall p ''UpdateForQuestWorldObjects'' [] w1 else w1) in
        if \<not> le_session (ge_env ge) p then Inr w2
        else
          bind_result
            (let w3 = (if hideDestroy then w2 else gsend p 0x07C [] w2) in
             case gp_group (gw_players w3 p) of
               Some h \<Rightarrow> SendUpdate ge h w3
             | None \<Rightarrow> Inr (gsend p 0x07D [U64 0, U64 0, U64 0] w3))
            (\<lambda>w4. Inr (set_leader_flag False p (gcall p ''homebindIfInstance'' [] w4))))))"

definition Disband :: "group_env \<Rightarrow> bool \<Rightarrow> nat \<Rightarrow> group_world \<Rightarrow> (group_fault, group_world) result" where
  "Disband ge hideDestroy g w =
     with_group g w (\<lambda>gr.
       bind_result (fold_result (\<lambda>s. disband_member ge hideDestroy g (ms_guid s)) (g_memberSlots gr) w) (\<lambda>w1.
       bind_result (update_group g (\<lambda>gr. gr\<lparr>g_memberSlots := []\<rparr>) w1) (\<lambda>w2.
       bind_result (RemoveAllInvites ge g w2) (\<lambda>w3.
       bind_result
         (if g_bgGroup gr then Inr w3
          else FreeGroupDbStoreId gr (gcall 0 ''ResetInstances'' [g_dbStoreId gr]
                 (gstmt ''CHAR_DEL_GROUP_MEMBER_ALL'' [ucast (g_dbStoreId gr)]
                   (gstmt ''CHAR_DEL_GROUP'' [ucast (g_dbStoreId gr)] w3)))) (\<lambda>w4.
       delete_group g (RemoveGroup gr w4))))))"

section \<open>Members\<close>

definition add_slot :: "guid \<Rightarrow> string \<Rightarrow> uint8 \<Rightarrow> group_obj \<Rightarrow> group_obj" where
  "add_slot p name sub gr =
     gr\<lparr>g_memberSlots := g_memberSlots gr @
          [\<lparr>ms_guid = p, ms_name = name, ms_group = sub, ms_flags = 0, ms_roles = 0\<rparr>]\<rparr>"

definition free_subgroup :: "group_obj \<Rightarrow> uint8 option" where
  "free_subgroup gr = (case g_subGroupsCounts gr of None \<Rightarrow> Some 0 | Some cs \<Rightarrow> first_free 0 cs)"

definition join_link :: "guid \<Rightarrow> nat \<Rightarrow> uint8 \<Rightarrow> group_obj \<Rightarrow> group_world \<Rightarrow> (group_fault, group_world) result" where
  "join_link p g sub gr w =
     (if gp_group (gw_players w p) \<noteq> None
      then (if g_bgGroup gr then SetBattlegroundRaid p g sub w else SetOriginalGroup p (Some g) sub w)
      else SetGroup p (Some g) sub w)"

definition welcome_member :: "group_env \<Rightarrow> guid \<Rightarrow> group_obj \<Rightarrow> group_world \<Rightarrow> group_world" where
  "welcome_member ge p gr w =
     (let w1 = (if IsLeader p gr \<or> g_bgGroup gr then w
                else
                  let w' = gcall p ''ResetInstances'' [] w in
                  if ge_level ge p \<ge> 70 \<and> ge_difficulty ge p \<noteq> g_dungeonDifficulty gr
                  then gcall p ''SendDungeonDifficulty'' [1]
                         (gcall p ''SetDungeonDifficulty'' [ucast (g_dungeonDifficulty gr)] w')
                  else w');
          w2 = gcall p ''UpdatePlayerOutOfRange'' [] (gcall p ''SetGroupUpdateFlag'' [0x7FFFF] w1)
      in gcall p ''SendPartyMemberFields'' []
           (if isRaidGroup gr then gcall p ''UpdateForQuestWorldObjects'' [] w2 else w2))"

definition AddMember :: "group_env \<Rightarrow> guid \<Rightarrow> nat \<Rightarrow> group_world \<Rightarrow> (group_fault, bool \<times> group_world) result" where
  "AddMember ge p g w =
     with_group g w (\<lambda>gr.
       case free_subgroup gr of
         None \<Rightarrow> Inr (False, w)
       | Some sub \<Rightarrow>
           bind_result (SubGroupCounterIncrease sub (add_slot p (ge_name ge p) sub gr)) (\<lambda>gr1.
           bind_result (join_link p g sub gr1 (SetGroupInvite p None (set_group g gr1 w))) (\<lambda>w1.
           bind_result (update_group g (\<lambda>gr. if isRaidGroup gr then gr
               else gr\<lparr>g_targetIcons := replicate TARGETICONCOUNT 0\<rparr>) (gcall p ''CheckInstanceValidity'' [0] w1)) (\<lambda>w2.
           let w3 = (if g_bgGroup gr \<or> ge_testingBot ge p then w2
                     else gstmt ''CHAR_INS_GROUP_MEMBER''
                            [ucast (g_dbStoreId gr), ucast (guid_counter p), 0, ucast sub, 0] w2)
           in bind_result (SendUpdate ge g w3) (\<lambda>w4. Inr (True, welcome_member ge p gr w4))))))"


section \<open>The rolls of a group\<close>

text \<open>The state of \<open>LootRoll\<close> for one group, and its change put back.\<close>

definition loot_group_of :: "group_obj \<Rightarrow> loot_group" where
  "loot_group_of gr = \<lparr>lg_lowGuid = guid_counter (g_guid gr), lg_lootMethod = g_lootMethod gr,
     lg_masterLooterGuid = g_masterLooterGuid gr, lg_lootThreshold = g_lootThreshold gr,
     lg_members = map fst (g_refs gr)\<rparr>"

definition roll_state_of :: "group_obj \<Rightarrow> group_world \<Rightarrow> roll_state" where
  "roll_state_of gr w = \<lparr>rs_group = loot_group_of gr, rs_rolls = g_rolls gr, rs_loots = gw_loots w,
     rs_timers = gw_timers w, rs_items = gw_items w, rs_world = gw_world w\<rparr>"

definition put_roll_state :: "nat \<Rightarrow> group_obj \<Rightarrow> roll_state \<Rightarrow> group_world \<Rightarrow> group_world" where
  "put_roll_state g gr rs w = (set_group g (gr\<lparr>g_rolls := rs_rolls rs\<rparr>) w)
     \<lparr>gw_loots := rs_loots rs, gw_timers := rs_timers rs, gw_items := rs_items rs, gw_world := rs_world rs\<rparr>"

definition on_roll_state ::
  "nat \<Rightarrow> (roll_state \<Rightarrow> (loot_fault, roll_state) result) \<Rightarrow> group_world \<Rightarrow> (group_fault, group_world) result" where
  "on_roll_state g f w =
     with_group g w (\<lambda>gr. case f (roll_state_of gr w) of
        Inl e \<Rightarrow> Inl (LootFault e)
      | Inr rs \<Rightarrow> Inr (put_roll_state g gr rs w))"

section \<open>Removing a member\<close>

definition DelinkMember :: "guid \<Rightarrow> nat \<Rightarrow> group_world \<Rightarrow> (group_fault, group_world) result" where
  "DelinkMember p g w =
     with_group g w (\<lambda>gr.
       case find (\<lambda>(q, orig). q = p) (g_refs gr) of None \<Rightarrow> Inr w | Some (q, orig) \<Rightarrow> Inr (unlink orig q w))"

definition say_goodbye :: "guid \<Rightarrow> bool \<Rightarrow> nat \<Rightarrow> group_obj \<Rightarrow> group_world \<Rightarrow> (group_fault, group_world) result" where
  "say_goodbye p kick g gr w =
     bind_result (detach p g w) (\<lambda>w1.
     let w2 = (if g_bgGroup gr then w1 else gcall p ''UpdateForQuestWorldObjects'' [] w1);
         w3 = (if kick then gsend p 0x077 [] w2 else w2)
     in Inr (gcall p ''homebindIfInstance'' [] (gsend p 0x07D [U64 (g_guid gr), U64 0, U64 0] w3)))"

definition forget_member :: "guid \<Rightarrow> nat \<Rightarrow> group_world \<Rightarrow> (group_fault, group_world) result" where
  "forget_member p g w =
     with_group g w (\<lambda>gr.
       if g_bgGroup gr then Inr w
       else DelinkMember p g (gstmt ''CHAR_DEL_GROUP_MEMBER'' [ucast (guid_counter p)] w))"

definition erase_slot :: "guid \<Rightarrow> group_obj \<Rightarrow> (group_fault, group_obj) result" where
  "erase_slot p gr =
     (case first_index (\<lambda>s. ms_guid s = p) (g_memberSlots gr) of
        None \<Rightarrow> Inr gr
      | Some i \<Rightarrow> bind_result (SubGroupCounterDecrease (ms_group (g_memberSlots gr ! i)) gr) (\<lambda>gr1.
          Inr (gr1\<lparr>g_memberSlots := take i (g_memberSlots gr1) @ drop (Suc i) (g_memberSlots gr1)\<rparr>)))"

definition pick_leader :: "group_env \<Rightarrow> guid \<Rightarrow> nat \<Rightarrow> group_world \<Rightarrow> (group_fault, group_world) result" where
  "pick_leader ge p g w =
     with_group g w (\<lambda>gr.
       if g_leaderGuid gr \<noteq> p then Inr w
       else case find (\<lambda>s. le_FindConnected (ge_env ge) (ms_guid s)) (g_memberSlots gr) of
           None \<Rightarrow> Inr w
         | Some s \<Rightarrow> ChangeLeader ge (ms_guid s) g w)"

definition RemoveMember ::
  "group_env \<Rightarrow> guid \<Rightarrow> bool \<Rightarrow> nat \<Rightarrow> group_world \<Rightarrow> (group_fault, bool \<times> group_world) result" where
  "RemoveMember ge p kick g w =
     with_group g w (\<lambda>gr.
       let connected = le_FindConnected (ge_env ge) p;
           w1 = BroadcastGroupUpdate ge gr w;
           w2 = (if connected then remove_buffs p gr w1 else w1)
       in if GetMembersCount gr > (if g_bgGroup gr then 1 else 2) then
            bind_result (if connected then say_goodbye p kick g gr w2 else Inr w2) (\<lambda>w3.
            bind_result (forget_member p g w3) (\<lambda>w4.
            bind_result (on_roll_state g (RemoveMember_rolls (ge_roll ge) p) w4) (\<lambda>w5.
            bind_result (with_group g w5 (\<lambda>gr. bind_result (erase_slot p gr) (\<lambda>gr'. Inr (set_group g gr' w5)))) (\<lambda>w6.
            bind_result (pick_leader ge p g w6) (\<lambda>w7.
            bind_result (SendUpdate ge g w7) (\<lambda>w8.
            with_group g w8 (\<lambda>gr.
              if length (g_refs gr) < (if g_bgGroup gr then 1 else 2)
              then bind_result (Disband ge False g w8) (\<lambda>w9. Inr (True, w9))
              else Inr (True, w8))))))))
          else bind_result (Disband ge False g w2) (\<lambda>w3. Inr (False, w3)))"

definition RemoveFromGroup ::
  "group_env \<Rightarrow> guid \<Rightarrow> bool \<Rightarrow> nat option \<Rightarrow> group_world \<Rightarrow> (group_fault, group_world) result" where
  "RemoveFromGroup ge p kick grp w =
     (case grp of None \<Rightarrow> Inr w | Some g \<Rightarrow> bind_result (RemoveMember ge p kick g w) (\<lambda>(ok, w1). Inr w1))"

definition UninviteFromGroup :: "group_env \<Rightarrow> guid \<Rightarrow> group_world \<Rightarrow> (group_fault, group_world) result" where
  "UninviteFromGroup ge p w =
     (case gp_invite (gw_players w p) of
        None \<Rightarrow> Inr w
      | Some g \<Rightarrow>
          bind_result (RemoveInvite p g w) (\<lambda>w1.
          with_group g w1 (\<lambda>gr.
            if IsCreated gr then (if GetMembersCount gr \<le> 1 then Disband ge True g w1 else Inr w1)
            else if length (g_invitees gr) \<le> 1
            then bind_result (RemoveAllInvites ge g w1) (delete_group g)
            else Inr w1)))"

section \<open>Creating\<close>

definition create_object :: "group_env \<Rightarrow> guid \<Rightarrow> uint32 \<Rightarrow> group_obj \<Rightarrow> group_obj" where
  "create_object ge leader lowguid gr =
     gr\<lparr>g_guid := guid_of_counter HG_Group lowguid, g_leaderGuid := leader, g_leaderName := ge_name ge leader,
        g_groupType := (if g_bgGroup gr then GROUPTYPE_RAID else GROUPTYPE_NORMAL), g_lootMethod := GROUP_LOOT,
        g_lootThreshold := ITEM_QUALITY_UNCOMMON, g_looterGuid := leader, g_masterLooterGuid := 0,
        g_dungeonDifficulty := (if g_bgGroup gr then 0 else ge_difficulty ge leader)\<rparr>"

definition group_row :: "group_obj \<Rightarrow> uint64 list" where
  "group_row gr =
     [ucast (g_dbStoreId gr), ucast (guid_counter (g_leaderGuid gr)), ucast (method_code (g_lootMethod gr)),
      ucast (guid_counter (g_looterGuid gr)), ucast (g_lootThreshold gr)] @ g_targetIcons gr @
     [ucast (g_groupType gr), ucast (g_dungeonDifficulty gr), 0, ucast (guid_counter (g_masterLooterGuid gr))]"

definition Group_Create :: "group_env \<Rightarrow> guid \<Rightarrow> nat \<Rightarrow> group_world \<Rightarrow> (group_fault, bool \<times> group_world) result" where
  "Group_Create ge leader g w =
     with_group g w (\<lambda>gr.
       let (lowguid, w1) = GenerateGroupId w;
           gr1 = create_object ge leader lowguid gr;
           w2 = set_leader_flag True leader w1
       in bind_result (if isRaidGroup gr1 then initRaidSubGroupsCounter gr1 else Inr gr1) (\<lambda>gr2.
          if g_bgGroup gr then AddMember ge leader g (set_group g gr2 w2)
          else
            let (i, w3) = GenerateNewGroupDbStoreId w2;
                gr3 = gr2\<lparr>g_dbStoreId := i\<rparr>;
                w4 = RegisterGroupDbStoreId i g (set_group g gr3 w3);
                w5 = (if ge_testingBot ge leader then w4 else gstmt ''CHAR_INS_GROUP'' (group_row gr3) w4)
            in bind_result (AddMember ge leader g (gcall leader ''ConvertLeaderInstancesToGroup'' [0] w5))
                 (\<lambda>(ok, w6). if ok then Inr (True, w6) else Inl FullGroup)))"

section \<open>Loading, logging in and out\<close>

text \<open>The columns of a row of \<open>groups\<close> in the order of the query, without the instance columns.\<close>

record group_db_row =
  gd_leaderGuid :: uint32
  gd_lootMethod :: uint8
  gd_looterGuid :: uint32
  gd_lootThreshold :: uint8
  gd_icons :: "uint64 list"
  gd_groupType :: uint8
  gd_difficulty :: uint8
  gd_masterLooterGuid :: uint32
  gd_guid :: uint32

definition LoadGroupFromDB ::
  "group_env \<Rightarrow> (guid \<Rightarrow> string option) \<Rightarrow> group_db_row \<Rightarrow> uint32 \<Rightarrow> group_obj \<Rightarrow> (group_fault, group_obj) result" where
  "LoadGroupFromDB ge charName row lowguid gr =
     (let leader = guid_of_counter HG_Player (gd_leaderGuid row);
          gr1 = gr\<lparr>g_dbStoreId := gd_guid row, g_guid := guid_of_counter HG_Group lowguid, g_leaderGuid := leader,
                   g_leaderLogoutTime := ge_now ge\<rparr>
      in case charName leader of
           None \<Rightarrow> Inr gr1
         | Some n \<Rightarrow>
             let gr2 = gr1\<lparr>g_leaderName := n, g_targetIcons := gd_icons row, g_groupType := gd_groupType row\<rparr> in
             bind_result (if isRaidGroup gr2 then initRaidSubGroupsCounter gr2 else Inr gr2) (\<lambda>gr3.
             Inr (gr3\<lparr>g_dungeonDifficulty := (if gd_difficulty row \<ge> 2 then 0 else gd_difficulty row),
                      g_masterLooterGuid := guid_of_counter HG_Player (gd_masterLooterGuid row)\<rparr>)))"

definition load_group ::
  "group_env \<Rightarrow> (guid \<Rightarrow> string option) \<Rightarrow> group_db_row \<Rightarrow> group_world \<Rightarrow> (group_fault, group_world) result" where
  "load_group ge charName row w =
     (let (g, w1) = new_group w; (lowguid, w2) = GenerateGroupId w1 in
      bind_result (LoadGroupFromDB ge charName row lowguid Group_new) (\<lambda>gr.
      bind_result (AddGroup g (set_group g gr w2)) (\<lambda>w3.
      let w4 = RegisterGroupDbStoreId (g_dbStoreId gr) g w3 in
      Inr (if g_dbStoreId gr = gw_NextGroupDbStoreId w4
           then w4\<lparr>gw_NextGroupDbStoreId := gw_NextGroupDbStoreId w4 + 1\<rparr> else w4))))"

definition LoadMemberFromDB ::
  "(guid \<Rightarrow> string option) \<Rightarrow> uint32 \<Rightarrow> uint8 \<Rightarrow> uint8 \<Rightarrow> uint8 \<Rightarrow> nat \<Rightarrow> group_world \<Rightarrow>
   (group_fault, group_world) result" where
  "LoadMemberFromDB charName guidLow memberFlags subgroup roles g w =
     (let p = guid_of_counter HG_Player guidLow in
      case charName p of
        None \<Rightarrow> Inr (gstmt ''CHAR_DEL_GROUP_MEMBER'' [ucast guidLow] w)
      | Some n \<Rightarrow> with_group g w (\<lambda>gr.
          bind_result (SubGroupCounterIncrease subgroup (gr\<lparr>g_memberSlots := g_memberSlots gr @
            [\<lparr>ms_guid = p, ms_name = n, ms_group = subgroup, ms_flags = memberFlags, ms_roles = roles\<rparr>]\<rparr>))
            (\<lambda>gr1. Inr (set_group g gr1 w))))"

definition LoadGroups ::
  "group_env \<Rightarrow> (guid \<Rightarrow> string option) \<Rightarrow> group_db_row list \<Rightarrow> (uint32 \<times> uint32 \<times> uint8 \<times> uint8 \<times> uint8) list \<Rightarrow>
   group_world \<Rightarrow> (group_fault, group_world) result" where
  "LoadGroups ge charName rows members w =
     (if rows = [] then Inr w
      else bind_result (fold_result (load_group ge charName) rows w)
        (fold_result (\<lambda>(i, guidLow, flags, sub, roles) w.
           case GetGroupByDbStoreId i w of
             None \<Rightarrow> Inr w
           | Some g \<Rightarrow> LoadMemberFromDB charName guidLow flags sub roles g w) members))"

text \<open>
  Logging in: a new player object with the saved flags, the row of \<open>group_member\<close>, then the
  announcement. Logging out: the invitation, the announcement when the player can no longer be
  found (the second environment), and the end of the player object with its links.
\<close>

definition LoadGroup_player :: "group_env \<Rightarrow> guid \<Rightarrow> uint32 option \<Rightarrow> group_world \<Rightarrow> (group_fault, group_world) result" where
  "LoadGroup_player ge p row w =
     bind_result
       (case (case row of None \<Rightarrow> None | Some i \<Rightarrow> GetGroupByDbStoreId i w) of
          None \<Rightarrow> Inr w
        | Some g \<Rightarrow> with_group g w (\<lambda>gr.
            bind_result (SetGroup p (Some g) (GetMemberGroup p gr) w) (\<lambda>w1.
            Inr (if ge_level ge p \<ge> 70 then gcall p ''SetDifficulty'' [ucast (g_dungeonDifficulty gr)] w1 else w1))))
       (\<lambda>w1. case gp_group (gw_players w1 p) of
          None \<Rightarrow> Inr (set_leader_flag False p w1)
        | Some g \<Rightarrow> with_group g w1 (\<lambda>gr. Inr (if IsLeader p gr then w1 else set_leader_flag False p w1)))"

definition announce_presence ::
  "group_env \<Rightarrow> guid \<Rightarrow> bool \<Rightarrow> group_world \<Rightarrow> (group_fault, group_world) result" where
  "announce_presence ge p isLogout w =
     (case gp_group (gw_players w p) of
        None \<Rightarrow> Inr w
      | Some g \<Rightarrow> bind_result (CheckLeader ge p isLogout g w) (SendUpdate ge g))"

definition PlayerLogin :: "group_env \<Rightarrow> guid \<Rightarrow> uint32 option \<Rightarrow> group_world \<Rightarrow> (group_fault, group_world) result" where
  "PlayerLogin ge p row w =
     bind_result (LoadGroup_player ge p row
         (set_player p (Player_new\<lparr>gp_leaderFlag := gp_leaderFlag (gw_players w p)\<rparr>) w))
       (announce_presence ge p False)"

definition LogoutPlayer ::
  "group_env \<Rightarrow> group_env \<Rightarrow> guid \<Rightarrow> group_world \<Rightarrow> (group_fault, group_world) result" where
  "LogoutPlayer ge ge' p w =
     bind_result (UninviteFromGroup ge p w) (\<lambda>w1.
     bind_result (announce_presence ge' p True w1) (\<lambda>w2.
     Inr (unlink True p (unlink False p w2))))"


end
