(* ===== verification/GroupSession.thy ===== *)
theory GroupSession
  imports GroupOps
begin

text \<open>
  The packet handlers of src/src/server/game/Groups/GroupHandler.cpp on the groups of
  \<open>GroupOps\<close>, with the fields of the packet as arguments, and the sessions of all players as one
  function from requests to worlds. Invitations ask the ignore lists of \<open>Social\<close>; votes go to
  the rolls of \<open>LootRoll\<close>.
\<close>

abbreviation (input) "PARTY_OP_INVITE \<equiv> (0 :: uint32)"
abbreviation (input) "PARTY_OP_LEAVE \<equiv> (2 :: uint32)"
abbreviation (input) "PARTY_OP_SWAP \<equiv> (4 :: uint32)"
abbreviation (input) "PARTY_RESULT_OK \<equiv> (0 :: uint32)"
abbreviation (input) "PARTY_RESULT_CANT_FIND_TARGET \<equiv> (1 :: uint32)"
abbreviation (input) "PARTY_RESULT_NOT_IN_YOUR_PARTY \<equiv> (2 :: uint32)"
abbreviation (input) "PARTY_RESULT_NOT_IN_YOUR_INSTANCE \<equiv> (3 :: uint32)"
abbreviation (input) "PARTY_RESULT_PARTY_FULL \<equiv> (4 :: uint32)"
abbreviation (input) "PARTY_RESULT_ALREADY_IN_GROUP \<equiv> (5 :: uint32)"
abbreviation (input) "PARTY_RESULT_YOU_NOT_IN_GROUP \<equiv> (6 :: uint32)"
abbreviation (input) "PARTY_RESULT_YOU_NOT_LEADER \<equiv> (7 :: uint32)"
abbreviation (input) "PARTY_RESULT_TARGET_UNFRIENDLY \<equiv> (8 :: uint32)"
abbreviation (input) "PARTY_RESULT_TARGET_IGNORE_YOU \<equiv> (9 :: uint32)"
abbreviation (input) "PARTY_RESULT_INVITE_RESTRICTED \<equiv> (13 :: uint32)"

text \<open>What the handlers ask besides \<open>group_env\<close>; a name that is not found has the guid 0.\<close>

record group_session_env =
  gs_env :: group_env
  gs_gm :: "guid \<Rightarrow> bool"
  gs_allowGm :: bool
  gs_twoSide :: bool
  gs_team :: "guid \<Rightarrow> uint32"
  gs_instance :: "guid \<Rightarrow> uint32"
  gs_social :: "guid \<Rightarrow> player_social"
  gs_inBattleground :: "guid \<Rightarrow> bool"
  gs_normalize :: "string \<Rightarrow> string option"
  gs_findByName :: "string \<Rightarrow> guid option"
  gs_cacheByName :: "string \<Rightarrow> guid"

definition SendPartyResult :: "guid \<Rightarrow> uint32 \<Rightarrow> string \<Rightarrow> uint32 \<Rightarrow> group_world \<Rightarrow> group_world" where
  "SendPartyResult p operation member res = gsend p 0x07F [U32 operation, Str member, U32 res]"

definition may_lead :: "guid \<Rightarrow> group_obj \<Rightarrow> bool" where
  "may_lead p gr \<longleftrightarrow> IsLeader p gr \<or> IsAssistant p gr"

definition in_group ::
  "guid \<Rightarrow> group_world \<Rightarrow> (nat \<Rightarrow> group_obj \<Rightarrow> (group_fault, group_world) result) \<Rightarrow> (group_fault, group_world) result" where
  "in_group p w f =
     (case gp_group (gw_players w p) of None \<Rightarrow> Inr w | Some g \<Rightarrow> with_group g w (f g))"

section \<open>Invitations\<close>

text \<open>The reasons not to invite a player that need no group, in the order of the tests.\<close>

definition invite_refusal :: "group_session_env \<Rightarrow> guid \<Rightarrow> guid \<Rightarrow> uint32 option" where
  "invite_refusal se p q =
     (let ge = gs_env se in
      if q = p then Some PARTY_RESULT_CANT_FIND_TARGET
      else if \<not> gs_allowGm se \<and> \<not> gs_gm se p \<and> gs_gm se q then Some PARTY_RESULT_CANT_FIND_TARGET
      else if \<not> gs_gm se p \<and> \<not> gs_twoSide se \<and> gs_team se p \<noteq> gs_team se q
      then Some PARTY_RESULT_TARGET_UNFRIENDLY
      else if gs_instance se p \<noteq> 0 \<and> gs_instance se q \<noteq> 0 \<and> gs_instance se p \<noteq> gs_instance se q \<and>
              le_mapOf (ge_env ge) p = le_mapOf (ge_env ge) q
      then Some PARTY_RESULT_NOT_IN_YOUR_INSTANCE
      else if gs_instance se q \<noteq> 0 \<and> ge_difficulty ge q \<noteq> ge_difficulty ge p
      then Some PARTY_RESULT_ALREADY_IN_GROUP
      else if HasIgnore (guid_counter p) (gs_social se q) then Some PARTY_RESULT_TARGET_IGNORE_YOU
      else None)"

definition start_group :: "group_env \<Rightarrow> guid \<Rightarrow> guid \<Rightarrow> group_world \<Rightarrow> (group_fault, bool \<times> group_world) result" where
  "start_group ge p q w =
     (let (g, w1) = new_group w in
      bind_result (AddLeaderInvite ge p g w1) (\<lambda>(ok, w2).
      if \<not> ok then bind_result (delete_group g w2) (\<lambda>w3. Inr (False, w3))
      else bind_result (AddInvite q g w2) (\<lambda>(ok, w3).
        if ok then Inr (True, w3)
        else bind_result (RemoveAllInvites ge g w3) (\<lambda>w4.
             bind_result (delete_group g w4) (\<lambda>w5. Inr (False, w5))))))"

definition invite_player ::
  "group_session_env \<Rightarrow> guid \<Rightarrow> guid \<Rightarrow> string \<Rightarrow> group_world \<Rightarrow> (group_fault, group_world) result" where
  "invite_player se p q membername w =
     (let ge = gs_env se; reply = (\<lambda>n r. Inr (SendPartyResult p PARTY_OP_INVITE n r w)) in
      case invite_refusal se p q of
        Some r \<Rightarrow> reply membername r
      | None \<Rightarrow>
          bind_result (own_group p w) (\<lambda>group1.
          bind_result (own_group q w) (\<lambda>group2.
          if group2 \<noteq> None \<or> gp_invite (gw_players w q) \<noteq> None then reply membername PARTY_RESULT_ALREADY_IN_GROUP
          else
            let done = (\<lambda>(ok, w1). Inr (if \<not> ok then w1
                  else SendPartyResult p PARTY_OP_INVITE membername PARTY_RESULT_OK
                         (gsend q 0x06F [Str (ge_name ge p)] w1)))
            in case group1 of
                 None \<Rightarrow> bind_result (start_group ge p q w) done
               | Some g \<Rightarrow> with_group g w (\<lambda>gr.
                   if \<not> may_lead p gr then reply [] PARTY_RESULT_YOU_NOT_LEADER
                   else if IsFull gr then reply [] PARTY_RESULT_PARTY_FULL
                   else bind_result (AddInvite q g w) done))))"

definition HandleGroupInviteOpcode ::
  "group_session_env \<Rightarrow> guid \<Rightarrow> string \<Rightarrow> group_world \<Rightarrow> (group_fault, group_world) result" where
  "HandleGroupInviteOpcode se p membername w =
     (case gs_normalize se membername of
        None \<Rightarrow> Inr (SendPartyResult p PARTY_OP_INVITE membername PARTY_RESULT_CANT_FIND_TARGET w)
      | Some n \<Rightarrow> (case gs_findByName se n of
          None \<Rightarrow> Inr (SendPartyResult p PARTY_OP_INVITE n PARTY_RESULT_CANT_FIND_TARGET w)
        | Some q \<Rightarrow> invite_player se p q n w))"

text \<open>The group is created with the first acceptance, unless the leader is not in the world.\<close>

definition form_group :: "group_env \<Rightarrow> nat \<Rightarrow> group_world \<Rightarrow> (group_fault, bool \<times> group_world) result" where
  "form_group ge g w =
     with_group g w (\<lambda>gr.
       if IsCreated gr then Inr (True, w)
       else if \<not> le_FindPlayer (ge_env ge) (g_leaderGuid gr)
       then bind_result (RemoveAllInvites ge g w) (\<lambda>w1. Inr (False, w1))
       else
         bind_result (RemoveInvite (g_leaderGuid gr) g w) (\<lambda>w1.
         bind_result (Group_Create ge (g_leaderGuid gr) g w1) (\<lambda>(ok, w2).
         bind_result (AddGroup g w2) (\<lambda>w3. Inr (True, w3)))))"

definition HandleGroupAcceptOpcode :: "group_env \<Rightarrow> guid \<Rightarrow> group_world \<Rightarrow> (group_fault, group_world) result" where
  "HandleGroupAcceptOpcode ge p w =
     (case gp_invite (gw_players w p) of
        None \<Rightarrow> Inr w
      | Some g \<Rightarrow> with_group g w (\<lambda>gr.
          if IsLeader p gr then Inr w
          else
            bind_result (RemoveInvite p g w) (\<lambda>w1.
            if IsFull gr then Inr (SendPartyResult p PARTY_OP_INVITE [] PARTY_RESULT_PARTY_FULL w1)
            else
              bind_result (form_group ge g w1) (\<lambda>(formed, w2).
              if \<not> formed then Inr w2
              else bind_result (AddMember ge p g w2) (\<lambda>(ok, w3).
                if \<not> ok then Inr w3
                else with_group g w3 (\<lambda>gr. Inr (BroadcastGroupUpdate ge gr w3)))))))"

definition HandleGroupDeclineOpcode :: "group_env \<Rightarrow> guid \<Rightarrow> group_world \<Rightarrow> (group_fault, group_world) result" where
  "HandleGroupDeclineOpcode ge p w =
     (case gp_invite (gw_players w p) of
        None \<Rightarrow> Inr w
      | Some g \<Rightarrow> with_group g w (\<lambda>gr.
          let leader = g_leaderGuid gr in
          if \<not> le_FindConnected (ge_env ge) leader \<or> \<not> le_session (ge_env ge) leader then Inr w
          else
            bind_result (if IsCreated gr then Inr w else bind_result (RemoveAllInvites ge g w) (delete_group g)) (\<lambda>w1.
            Inr (gsend leader 0x074 [Str (ge_name ge p)] (SetGroupInvite p None w1)))))"

section \<open>Leaving\<close>

definition CanUninviteFromGroup :: "group_session_env \<Rightarrow> guid \<Rightarrow> group_world \<Rightarrow> (group_fault, uint32) result" where
  "CanUninviteFromGroup se p w =
     (case gp_group (gw_players w p) of
        None \<Rightarrow> Inr PARTY_RESULT_YOU_NOT_IN_GROUP
      | Some g \<Rightarrow> with_group g w (\<lambda>gr. Inr (
          if \<not> may_lead p gr then PARTY_RESULT_YOU_NOT_LEADER
          else if gs_inBattleground se p then PARTY_RESULT_INVITE_RESTRICTED
          else PARTY_RESULT_OK)))"

definition HandleGroupUninviteGuidOpcode ::
  "group_session_env \<Rightarrow> guid \<Rightarrow> guid \<Rightarrow> group_world \<Rightarrow> (group_fault, group_world) result" where
  "HandleGroupUninviteGuidOpcode se p q w =
     (if q = p then Inr w
      else bind_result (CanUninviteFromGroup se p w) (\<lambda>res.
        if res \<noteq> PARTY_RESULT_OK then Inr (SendPartyResult p PARTY_OP_LEAVE [] res w)
        else in_group p w (\<lambda>g gr.
          if IsMember q gr then RemoveFromGroup (gs_env se) q True (Some g) w
          else bind_result (GetInvited (gs_env se) q gr) (\<lambda>i. case i of
              Some i \<Rightarrow> UninviteFromGroup (gs_env se) i w
            | None \<Rightarrow> Inr (SendPartyResult p PARTY_OP_LEAVE [] PARTY_RESULT_NOT_IN_YOUR_PARTY w)))))"

definition HandleGroupUninviteOpcode ::
  "group_session_env \<Rightarrow> guid \<Rightarrow> string \<Rightarrow> group_world \<Rightarrow> (group_fault, group_world) result" where
  "HandleGroupUninviteOpcode se p membername w =
     (case gs_normalize se membername of
        None \<Rightarrow> Inr w
      | Some n \<Rightarrow>
          if ge_name (gs_env se) p = n then Inr w
          else bind_result (CanUninviteFromGroup se p w) (\<lambda>res.
            if res \<noteq> PARTY_RESULT_OK then Inr (SendPartyResult p PARTY_OP_LEAVE [] res w)
            else in_group p w (\<lambda>g gr.
              let q = GetMemberGUID n gr in
              if q = g_leaderGuid gr then Inr w
              else if q \<noteq> 0 then RemoveFromGroup (gs_env se) q True (Some g) w
              else bind_result (GetInvited_by_name (gs_env se) n gr) (\<lambda>i. case i of
                  Some i \<Rightarrow> UninviteFromGroup (gs_env se) i w
                | None \<Rightarrow> Inr (SendPartyResult p PARTY_OP_LEAVE n PARTY_RESULT_NOT_IN_YOUR_PARTY w)))))"

definition HandleGroupDisbandOpcode :: "group_session_env \<Rightarrow> guid \<Rightarrow> group_world \<Rightarrow> (group_fault, group_world) result" where
  "HandleGroupDisbandOpcode se p w =
     (if gp_group (gw_players w p) = None then Inr w
      else if gs_inBattleground se p then Inr (SendPartyResult p PARTY_OP_INVITE [] PARTY_RESULT_OK w)
      else RemoveFromGroup (gs_env se) p False (gp_group (gw_players w p))
             (SendPartyResult p PARTY_OP_LEAVE (ge_name (gs_env se) p) PARTY_RESULT_OK w))"

section \<open>Leading\<close>

definition HandleGroupSetLeaderOpcode ::
  "group_env \<Rightarrow> guid \<Rightarrow> guid \<Rightarrow> group_world \<Rightarrow> (group_fault, group_world) result" where
  "HandleGroupSetLeaderOpcode ge p q w =
     in_group p w (\<lambda>g gr.
       if \<not> le_FindConnected (ge_env ge) q \<or> \<not> IsLeader p gr \<or> gp_group (gw_players w q) \<noteq> Some g then Inr w
       else ChangeLeader ge q g w)"

text \<open>
  The loot settings are cast to enumerations without a test; a number outside them is a fault.
\<close>

fun method_of :: "uint32 \<Rightarrow> loot_method option" where
  "method_of n = (if n = 0 then Some FREE_FOR_ALL else if n = 1 then Some ROUND_ROBIN
     else if n = 2 then Some MASTER_LOOT else if n = 3 then Some GROUP_LOOT
     else if n = 4 then Some NEED_BEFORE_GREED else None)"

definition HandleLootMethodOpcode ::
  "group_env \<Rightarrow> guid \<Rightarrow> uint32 \<Rightarrow> guid \<Rightarrow> uint32 \<Rightarrow> group_world \<Rightarrow> (group_fault, group_world) result" where
  "HandleLootMethodOpcode ge p lootMethod lootMaster lootThreshold w =
     in_group p w (\<lambda>g gr.
       if \<not> IsLeader p gr then Inr w
       else case method_of lootMethod of
           None \<Rightarrow> Inl OutOfEnum
         | Some m \<Rightarrow>
             if lootThreshold > 255 then Inl OutOfEnum
             else SendUpdate ge g (set_group g (gr\<lparr>g_lootMethod := m, g_masterLooterGuid := lootMaster,
                    g_lootThreshold := ucast lootThreshold\<rparr>) w))"

definition HandleGroupRaidConvertOpcode ::
  "group_session_env \<Rightarrow> guid \<Rightarrow> group_world \<Rightarrow> (group_fault, group_world) result" where
  "HandleGroupRaidConvertOpcode se p w =
     in_group p w (\<lambda>g gr.
       if gs_inBattleground se p \<or> \<not> IsLeader p gr \<or> GetMembersCount gr < 2 then Inr w
       else ConvertToRaid (gs_env se) g (SendPartyResult p PARTY_OP_INVITE [] PARTY_RESULT_OK w))"

definition guid_of_name :: "group_session_env \<Rightarrow> string \<Rightarrow> guid" where
  "guid_of_name se n = (case gs_findByName se n of Some q \<Rightarrow> q | None \<Rightarrow> gs_cacheByName se n)"

definition HandleGroupChangeSubGroupOpcode ::
  "group_session_env \<Rightarrow> guid \<Rightarrow> string \<Rightarrow> uint8 \<Rightarrow> group_world \<Rightarrow> (group_fault, group_world) result" where
  "HandleGroupChangeSubGroupOpcode se p name groupNr w =
     in_group p w (\<lambda>g gr.
       case gs_normalize se name of
         None \<Rightarrow> Inr w
       | Some n \<Rightarrow>
           if unat groupNr \<ge> MAX_RAID_SUBGROUPS \<or> \<not> may_lead p gr then Inr w
           else bind_result (HasFreeSlotSubGroup groupNr gr) (\<lambda>free.
             if \<not> free \<or> guid_of_name se n = 0 then Inr w
             else ChangeMembersGroup (gs_env se) (guid_of_name se n) groupNr g w))"

definition HandleGroupSwapSubGroupOpcode ::
  "group_session_env \<Rightarrow> guid \<Rightarrow> string \<Rightarrow> string \<Rightarrow> group_world \<Rightarrow> (group_fault, group_world) result" where
  "HandleGroupSwapSubGroupOpcode se p name1 name2 w =
     (let unknown = (\<lambda>n. Inr (SendPartyResult p PARTY_OP_SWAP n PARTY_RESULT_CANT_FIND_TARGET w)) in
      case gs_normalize se name1 of
        None \<Rightarrow> unknown name1
      | Some n1 \<Rightarrow> (case gs_normalize se name2 of
          None \<Rightarrow> unknown n1
        | Some n2 \<Rightarrow>
            in_group p w (\<lambda>g gr.
              if \<not> isRaidGroup gr \<or> \<not> may_lead p gr then Inr w
              else
                let q1 = guid_of_name se n1; q2 = guid_of_name se n2;
                    s1 = GetMemberGroup q1 gr; s2 = GetMemberGroup q2 gr;
                    absent = of_nat MAX_RAID_SUBGROUPS + 1
                in if q1 = 0 \<or> q2 = 0 then unknown n1
                   else if s1 = absent \<or> s2 = absent \<or> s1 = s2 then Inr w
                   else bind_result (ChangeMembersGroup (gs_env se) q1 s2 g w)
                          (ChangeMembersGroup (gs_env se) q2 s1 g))))"

definition HandleGroupAssistantLeaderOpcode ::
  "group_env \<Rightarrow> guid \<Rightarrow> guid \<Rightarrow> bool \<Rightarrow> group_world \<Rightarrow> (group_fault, group_world) result" where
  "HandleGroupAssistantLeaderOpcode ge p q apply_it w =
     in_group p w (\<lambda>g gr. if \<not> IsLeader p gr then Inr w
       else SetGroupMemberFlag ge q apply_it MEMBER_FLAG_ASSISTANT g w)"

definition HandlePartyAssignmentOpcode ::
  "group_env \<Rightarrow> guid \<Rightarrow> uint8 \<Rightarrow> bool \<Rightarrow> guid \<Rightarrow> group_world \<Rightarrow> (group_fault, group_world) result" where
  "HandlePartyAssignmentOpcode ge p assignment apply_it q w =
     in_group p w (\<lambda>g gr.
       if \<not> IsLeader p gr then Inr w
       else
         let assign = (\<lambda>flag. SetGroupMemberFlag ge q apply_it flag g
                        (set_group g (RemoveUniqueGroupMemberFlag flag gr) w))
         in bind_result (if assignment = 1 then assign MEMBER_FLAG_MAINASSIST
                         else if assignment = 0 then assign MEMBER_FLAG_MAINTANK else Inr w) (SendUpdate ge g))"

section \<open>Messages to the group\<close>

definition HandleRaidTargetUpdateOpcode ::
  "group_env \<Rightarrow> guid \<Rightarrow> uint8 \<Rightarrow> guid \<Rightarrow> group_world \<Rightarrow> (group_fault, group_world) result" where
  "HandleRaidTargetUpdateOpcode ge p icon target w =
     in_group p w (\<lambda>g gr.
       if icon = 0xFF then Inr (SendTargetIconList p gr w)
       else if icon \<ge> 8 \<or> \<not> may_lead p gr then Inr w
       else SetTargetIcon ge g icon target w)"

text \<open>An empty packet asks for the ready check, another one answers it.\<close>

definition HandleRaidReadyCheckOpcode ::
  "group_env \<Rightarrow> guid \<Rightarrow> uint8 option \<Rightarrow> group_world \<Rightarrow> (group_fault, group_world) result" where
  "HandleRaidReadyCheckOpcode ge p answer w =
     in_group p w (\<lambda>g gr. case answer of
         None \<Rightarrow> Inr (if \<not> may_lead p gr then w
           else OfflineReadyCheck ge gr (BroadcastPacket ge g 0x322 [U64 p] False None 0 gr w))
       | Some state \<Rightarrow> Inr (BroadcastReadyCheck ge 0x3AE [U64 p, U8 state] gr w))"

definition HandleMinimapPingOpcode ::
  "group_env \<Rightarrow> guid \<Rightarrow> uint32 \<Rightarrow> uint32 \<Rightarrow> group_world \<Rightarrow> (group_fault, group_world) result" where
  "HandleMinimapPingOpcode ge p x y w =
     in_group p w (\<lambda>g gr. Inr (BroadcastPacket ge g 0x1D5 [U64 p, U32 x, U32 y] True None p gr w))"

definition HandleRandomRollOpcode ::
  "group_env \<Rightarrow> guid \<Rightarrow> uint32 \<Rightarrow> uint32 \<Rightarrow> group_world \<Rightarrow> (group_fault, group_world) result" where
  "HandleRandomRollOpcode ge p minimum maximum w =
     (if minimum > maximum \<or> maximum > 10000 then Inr w
      else
        let roll = le_urand (ge_env ge) (lw_draws (gw_world w)) minimum maximum;
            w1 = w\<lparr>gw_world := draw (gw_world w)\<rparr>;
            fs = [U32 minimum, U32 maximum, U32 roll, U64 p]
        in case gp_group (gw_players w p) of
             None \<Rightarrow> Inr (gsend p 0x1FB fs w1)
           | Some g \<Rightarrow> with_group g w1 (\<lambda>gr. Inr (BroadcastPacket ge g 0x1FB fs False None 0 gr w1)))"

section \<open>Sessions\<close>

datatype group_request =
    GroupInvite string
  | GroupAccept
  | GroupDecline
  | GroupUninviteGuid guid
  | GroupUninvite string
  | GroupSetLeader guid
  | GroupDisband
  | GroupLootMethod uint32 guid uint32
  | GroupRaidConvert
  | GroupChangeSubGroup string uint8
  | GroupSwapSubGroup string string
  | GroupAssistantLeader guid bool
  | PartyAssignment uint8 bool guid
  | RaidTargetUpdate uint8 guid
  | RaidReadyCheck "uint8 option"
  | MinimapPing uint32 uint32
  | RandomRoll uint32 uint32
  | RollVote guid uint32 uint8

fun handle_request ::
  "group_session_env \<Rightarrow> guid \<Rightarrow> group_request \<Rightarrow> group_world \<Rightarrow> (group_fault, group_world) result" where
  "handle_request se p (GroupInvite n) w = HandleGroupInviteOpcode se p n w"
| "handle_request se p GroupAccept w = HandleGroupAcceptOpcode (gs_env se) p w"
| "handle_request se p GroupDecline w = HandleGroupDeclineOpcode (gs_env se) p w"
| "handle_request se p (GroupUninviteGuid q) w = HandleGroupUninviteGuidOpcode se p q w"
| "handle_request se p (GroupUninvite n) w = HandleGroupUninviteOpcode se p n w"
| "handle_request se p (GroupSetLeader q) w = HandleGroupSetLeaderOpcode (gs_env se) p q w"
| "handle_request se p GroupDisband w = HandleGroupDisbandOpcode se p w"
| "handle_request se p (GroupLootMethod m q t) w = HandleLootMethodOpcode (gs_env se) p m q t w"
| "handle_request se p GroupRaidConvert w = HandleGroupRaidConvertOpcode se p w"
| "handle_request se p (GroupChangeSubGroup n i) w = HandleGroupChangeSubGroupOpcode se p n i w"
| "handle_request se p (GroupSwapSubGroup n m) w = HandleGroupSwapSubGroupOpcode se p n m w"
| "handle_request se p (GroupAssistantLeader q b) w = HandleGroupAssistantLeaderOpcode (gs_env se) p q b w"
| "handle_request se p (PartyAssignment a b q) w = HandlePartyAssignmentOpcode (gs_env se) p a b q w"
| "handle_request se p (RaidTargetUpdate i t) w = HandleRaidTargetUpdateOpcode (gs_env se) p i t w"
| "handle_request se p (RaidReadyCheck a) w = HandleRaidReadyCheckOpcode (gs_env se) p a w"
| "handle_request se p (MinimapPing x y) w = HandleMinimapPingOpcode (gs_env se) p x y w"
| "handle_request se p (RandomRoll a b) w = HandleRandomRollOpcode (gs_env se) p a b w"
| "handle_request se p (RollVote g slot v) w =
     (case gp_group (gw_players w p) of
        None \<Rightarrow> Inr w
      | Some h \<Rightarrow> on_roll_state h (HandleLootRoll (ge_roll (gs_env se)) True p g slot v) w)"

end
