(* ===== verification/GroupLaws.thy ===== *)
theory GroupLaws
  imports GroupSession
begin

text \<open>
  The invariant of groups: what the group objects, the player objects and the group manager say
  about each other. First the operations that only produce output, then one lemma per change of
  the heap (a link, a slot, an invitation, a group object), then one per operation of the code.
\<close>

section \<open>Outcomes\<close>

text \<open>
  The operation does not use a deleted object and does not leave the counters, and what it
  returns satisfies the postcondition. Faults of the loot code and numbers outside an
  enumeration are the business of others.
\<close>

definition safely :: "(group_fault, 'a) result \<Rightarrow> ('a \<Rightarrow> bool) \<Rightarrow> bool" where
  "safely r P \<longleftrightarrow>
     (case r of Inl e \<Rightarrow> (case e of LootFault _ \<Rightarrow> True | OutOfEnum \<Rightarrow> True | _ \<Rightarrow> False) | Inr x \<Rightarrow> P x)"

lemma safely_simps [simp]:
  "safely (Inr x) P = P x"
  "\<not> safely (Inl UseAfterFree) P"
  "\<not> safely (Inl IndexRange) P"
  "\<not> safely (Inl FullGroup) P"
  "safely (Inl OutOfEnum) P"
  "safely (Inl (LootFault e)) P"
  by (simp_all add: safely_def)

lemma safely_bind: "safely (bind_result r f) P \<longleftrightarrow> safely r (\<lambda>x. safely (f x) P)"
  by (cases r) (simp_all add: safely_def)

lemma safely_if: "safely (if b then r else r') P \<longleftrightarrow> (if b then safely r P else safely r' P)"
  by simp

lemma safely_mono: "safely r P \<Longrightarrow> (\<And>x. P x \<Longrightarrow> Q x) \<Longrightarrow> safely r Q"
  by (auto simp: safely_def split: sum.splits)

lemma safely_bindI: "safely r P \<Longrightarrow> (\<And>x. P x \<Longrightarrow> safely (f x) Q) \<Longrightarrow> safely (bind_result r f) Q"
  by (auto simp: safely_bind elim: safely_mono)

lemma safelyD: "safely r P \<Longrightarrow> r = Inr x \<Longrightarrow> P x"
  by simp

lemma safely_fold:
  "I s \<Longrightarrow> (\<And>x s. x \<in> set xs \<Longrightarrow> I s \<Longrightarrow> safely (f x s) I) \<Longrightarrow> safely (fold_result f xs s) I"
  by (induction xs arbitrary: s) (auto intro!: safely_bindI [where P = I])

lemma with_group_live [simp]: "gw_groups w g = Some gr \<Longrightarrow> with_group g w f = f gr"
  by (simp add: with_group_def)

section \<open>Output\<close>

definition only_out :: "group_world \<Rightarrow> group_world \<Rightarrow> bool" where
  "only_out w w' \<longleftrightarrow> (\<exists>x. w' = w\<lparr>gw_world := x\<rparr>)"

lemma only_out_refl [simp, intro]: "only_out w w"
  unfolding only_out_def by (rule exI [of _ "gw_world w"]) simp

lemma only_out_trans: "only_out w w' \<Longrightarrow> only_out w' w'' \<Longrightarrow> only_out w w''"
  by (auto simp: only_out_def)

lemma only_out_frame:
  "only_out w w' \<Longrightarrow> gw_groups w' = gw_groups w \<and> gw_players w' = gw_players w \<and> gw_next w' = gw_next w \<and>
     gw_GroupDbStore w' = gw_GroupDbStore w \<and> gw_GroupStore w' = gw_GroupStore w"
  by (auto simp: only_out_def)

lemma only_out_world [simp]: "only_out w (w'\<lparr>gw_world := x\<rparr>) \<longleftrightarrow> only_out w w'"
proof
  assume "only_out w (w'\<lparr>gw_world := x\<rparr>)"
  then obtain y where "w'\<lparr>gw_world := x\<rparr> = w\<lparr>gw_world := y\<rparr>" by (auto simp: only_out_def)
  then have "w' = w\<lparr>gw_world := gw_world w'\<rparr>" by (cases w, cases w') simp
  then show "only_out w w'" by (auto simp: only_out_def)
qed (auto simp: only_out_def)

lemma only_out_emit [simp]:
  "only_out w (gemit e w') = only_out w w'" "only_out w (gsend p opcode fs w') = only_out w w'"
  "only_out w (gcall p what args w') = only_out w w'" "only_out w (gstmt what args' w') = only_out w w'"
  by (simp_all add: gemit_def gsend_def gcall_def gstmt_def)

lemma group_emit_frame [simp]:
  "gw_groups (gemit e w) = gw_groups w" "gw_players (gemit e w) = gw_players w"
  "gw_next (gemit e w) = gw_next w" "gw_GroupDbStore (gemit e w) = gw_GroupDbStore w"
  "gw_GroupStore (gemit e w) = gw_GroupStore w"
  "gw_groups (gsend p opcode fs w) = gw_groups w" "gw_players (gsend p opcode fs w) = gw_players w"
  "gw_next (gsend p opcode fs w) = gw_next w" "gw_GroupDbStore (gsend p opcode fs w) = gw_GroupDbStore w"
  "gw_GroupStore (gsend p opcode fs w) = gw_GroupStore w"
  "gw_groups (gcall q what args w) = gw_groups w" "gw_players (gcall q what args w) = gw_players w"
  "gw_next (gcall q what args w) = gw_next w" "gw_GroupDbStore (gcall q what args w) = gw_GroupDbStore w"
  "gw_GroupStore (gcall q what args w) = gw_GroupStore w"
  "gw_groups (gstmt what args' w) = gw_groups w" "gw_players (gstmt what args' w) = gw_players w"
  "gw_next (gstmt what args' w) = gw_next w" "gw_GroupDbStore (gstmt what args' w) = gw_GroupDbStore w"
  "gw_GroupStore (gstmt what args' w) = gw_GroupStore w"
  by (simp_all add: gemit_def gsend_def gcall_def gstmt_def)

lemma only_out_fold: "(\<And>x w. only_out w (f x w)) \<Longrightarrow> only_out w (fold f xs w)"
  by (induction xs arbitrary: w) (auto intro: only_out_trans)

lemma set_frame [simp]:
  "gw_groups (set_group g gr w) = (gw_groups w)(g \<mapsto> gr)" "gw_players (set_group g gr w) = gw_players w"
  "gw_next (set_group g gr w) = gw_next w" "gw_GroupDbStore (set_group g gr w) = gw_GroupDbStore w"
  "gw_GroupStore (set_group g gr w) = gw_GroupStore w" "gw_GroupStore (set_player p pl w) = gw_GroupStore w"
  "gw_groups (set_player p pl w) = gw_groups w" "gw_players (set_player p pl w) = (gw_players w)(p := pl)"
  "gw_next (set_player p pl w) = gw_next w" "gw_GroupDbStore (set_player p pl w) = gw_GroupDbStore w"
  by (simp_all add: set_group_def set_player_def)

lemma BroadcastPacket_out: "only_out w (BroadcastPacket ge g opcode fs b sub ignored gr w)"
  by (auto simp: BroadcastPacket_def Let_def intro!: only_out_fold split: prod.split)

lemma SendUpdateToPlayer_out: "only_out w (SendUpdateToPlayer ge g gr p w)"
  by (auto simp: SendUpdateToPlayer_def split: option.split)

lemma SendUpdate_out: "gw_groups w g = Some gr \<Longrightarrow> safely (SendUpdate ge g w) (only_out w)"
  by (simp add: SendUpdate_def only_out_fold SendUpdateToPlayer_out)

lemma BroadcastGroupUpdate_out: "only_out w (BroadcastGroupUpdate ge gr w)"
  by (auto simp: BroadcastGroupUpdate_def intro!: only_out_fold)

lemma BroadcastReadyCheck_out: "only_out w (BroadcastReadyCheck ge opcode fs gr w)"
  by (auto simp: BroadcastReadyCheck_def intro!: only_out_fold split: prod.split)

lemma OfflineReadyCheck_out: "only_out w (OfflineReadyCheck ge gr w)"
  by (auto simp: OfflineReadyCheck_def BroadcastReadyCheck_out intro!: only_out_fold)

lemma remove_buffs_out: "only_out w (remove_buffs p gr w)"
  by (auto simp: remove_buffs_def intro!: only_out_fold split: prod.split)

lemma welcome_member_out: "only_out w (welcome_member ge p gr w)"
  by (simp add: welcome_member_def Let_def)

lemmas out_rules = BroadcastPacket_out SendUpdateToPlayer_out BroadcastGroupUpdate_out BroadcastReadyCheck_out
  OfflineReadyCheck_out remove_buffs_out welcome_member_out

section \<open>The invariant\<close>

definition members :: "group_obj \<Rightarrow> guid set" where
  "members gr = ms_guid ` set (g_memberSlots gr)"

definition in_subgroup :: "nat \<Rightarrow> member_slot list \<Rightarrow> nat" where
  "in_subgroup i slots = length (filter (\<lambda>s. unat (ms_group s) = i) slots)"

text \<open>Members are distinct and the counters of the subgroups of a raid are exact.\<close>

definition slots_ok :: "group_obj \<Rightarrow> bool" where
  "slots_ok gr \<longleftrightarrow> distinct (map ms_guid (g_memberSlots gr)) \<and>
     (case g_subGroupsCounts gr of
        None \<Rightarrow> \<not> isRaidGroup gr \<and> (\<forall>s \<in> set (g_memberSlots gr). ms_group s = 0)
      | Some cs \<Rightarrow> isRaidGroup gr \<and> length cs = MAX_RAID_SUBGROUPS \<and>
          (\<forall>s \<in> set (g_memberSlots gr). unat (ms_group s) < MAX_RAID_SUBGROUPS) \<and>
          (\<forall>i < MAX_RAID_SUBGROUPS. cs ! i = of_nat (in_subgroup i (g_memberSlots gr))))"

text \<open>No subgroup has more than five members; a group that is no raid is one subgroup.\<close>

definition roomy :: "group_obj \<Rightarrow> bool" where
  "roomy gr \<longleftrightarrow> (\<forall>i. in_subgroup i (g_memberSlots gr) \<le> MAXGROUPSIZE)"

text \<open>
  A group nobody is changing: when it is created, the leader is a member, the manager has it, and
  every member who is connected is linked to it; before that it is no raid, and the leader and one
  other player are invited, or nobody.
\<close>

definition settled :: "(guid \<Rightarrow> bool) \<Rightarrow> nat \<Rightarrow> group_obj \<Rightarrow> group_world \<Rightarrow> bool" where
  "settled con g gr w \<longleftrightarrow> roomy gr \<and>
     (if IsCreated gr
      then g_leaderGuid gr \<in> members gr \<and> unat (g_dbStoreId gr) < length (gw_GroupDbStore w) \<and>
        (\<forall>p \<in> members gr. con p \<longrightarrow> gp_group (gw_players w p) = Some g)
      else g_subGroupsCounts gr = None \<and>
        (g_invitees gr = [] \<or> g_leaderGuid gr \<in> set (g_invitees gr) \<and> length (g_invitees gr) = 2))"

definition group_inv :: "nat \<Rightarrow> group_obj \<Rightarrow> group_world \<Rightarrow> bool" where
  "group_inv g gr w \<longleftrightarrow> g < gw_next w \<and> \<not> g_bgGroup gr \<and> slots_ok gr \<and>
     length (g_targetIcons gr) = TARGETICONCOUNT \<and> oset_ok (g_invitees gr) \<and> distinct (g_refs gr) \<and>
     (\<forall>p orig. (p, orig) \<in> set (g_refs gr) \<longleftrightarrow> \<not> orig \<and> gp_group (gw_players w p) = Some g) \<and>
     (\<forall>p. p \<in> set (g_invitees gr) \<longleftrightarrow> gp_invite (gw_players w p) = Some g)"

definition player_inv :: "(guid \<Rightarrow> bool) \<Rightarrow> guid \<Rightarrow> group_world \<Rightarrow> bool" where
  "player_inv con p w \<longleftrightarrow> gp_original (gw_players w p) = None \<and>
     (\<forall>g. gp_group (gw_players w p) = Some g \<longrightarrow> con p \<and> gp_invite (gw_players w p) = None \<and>
        (\<exists>gr. gw_groups w g = Some gr \<and>
          (\<exists>s \<in> set (g_memberSlots gr). ms_guid s = p \<and> ms_group s = gp_subGroup (gw_players w p)))) \<and>
     (\<forall>g. gp_invite (gw_players w p) = Some g \<longrightarrow> con p \<and> gw_groups w g \<noteq> None)"

text \<open>
  The group \<open>b\<close>, if any, is being changed. The entries of the group manager are the groups under
  their numbers, and the other groups in it are created.
\<close>

definition manager_inv :: "nat option \<Rightarrow> group_world \<Rightarrow> bool" where
  "manager_inv b w \<longleftrightarrow> omap_ok (gw_GroupStore w) \<and>
     (\<forall>i g. (i, g) \<in> set (gw_GroupStore w) \<longrightarrow>
        (\<exists>gr. gw_groups w g = Some gr \<and> guid_counter (g_guid gr) = i \<and> (b \<noteq> Some g \<longrightarrow> IsCreated gr))) \<and>
     (\<forall>i g. i < length (gw_GroupDbStore w) \<longrightarrow> gw_GroupDbStore w ! i = Some g \<longrightarrow>
        (\<exists>gr. gw_groups w g = Some gr \<and> unat (g_dbStoreId gr) = i \<and> (b \<noteq> Some g \<longrightarrow> IsCreated gr)))"

definition roster_inv :: "(guid \<Rightarrow> bool) \<Rightarrow> nat option \<Rightarrow> group_world \<Rightarrow> bool" where
  "roster_inv con b w \<longleftrightarrow>
     (\<forall>g gr. gw_groups w g = Some gr \<longrightarrow> group_inv g gr w \<and> (b \<noteq> Some g \<longrightarrow> settled con g gr w)) \<and>
     (\<forall>p. player_inv con p w) \<and>
     (\<forall>g h gr hr p. gw_groups w g = Some gr \<longrightarrow> gw_groups w h = Some hr \<longrightarrow>
        p \<in> members gr \<longrightarrow> p \<in> members hr \<longrightarrow> g = h) \<and>
     manager_inv b w"

definition unlisted :: "nat \<Rightarrow> group_world \<Rightarrow> bool" where
  "unlisted g w \<longleftrightarrow> g \<notin> snd ` set (gw_GroupStore w) \<and> Some g \<notin> set (gw_GroupDbStore w)"

lemma manager_change:
  assumes m: "manager_inv b w"
    and w': "gw_GroupStore w' = gw_GroupStore w" "gw_GroupDbStore w' = gw_GroupDbStore w"
    and step: "\<And>g gr. \<not> unlisted g w \<Longrightarrow> gw_groups w g = Some gr \<Longrightarrow> b = Some g \<or> IsCreated gr \<Longrightarrow>
      \<exists>gr'. gw_groups w' g = Some gr' \<and> g_guid gr' = g_guid gr \<and> g_dbStoreId gr' = g_dbStoreId gr \<and>
        (b' = Some g \<or> IsCreated gr')"
  shows "manager_inv b' w'"
  unfolding manager_inv_def w'
proof (intro conjI allI impI)
  show "omap_ok (gw_GroupStore w)" using m by (simp add: manager_inv_def)
next
  fix i g assume e: "(i, g) \<in> set (gw_GroupStore w)"
  then obtain gr where "gw_groups w g = Some gr" "guid_counter (g_guid gr) = i" "b = Some g \<or> IsCreated gr"
    using m unfolding manager_inv_def by blast
  moreover have "\<not> unlisted g w" using e by (force simp: unlisted_def)
  ultimately show "\<exists>gr. gw_groups w' g = Some gr \<and> guid_counter (g_guid gr) = i \<and> (b' \<noteq> Some g \<longrightarrow> IsCreated gr)"
    using step [of g gr] by auto
next
  fix i g assume e: "i < length (gw_GroupDbStore w)" "gw_GroupDbStore w ! i = Some g"
  then obtain gr where "gw_groups w g = Some gr" "unat (g_dbStoreId gr) = i" "b = Some g \<or> IsCreated gr"
    using m unfolding manager_inv_def by blast
  moreover have "\<not> unlisted g w" using e nth_mem [of i "gw_GroupDbStore w"] by (simp add: unlisted_def)
  ultimately show "\<exists>gr. gw_groups w' g = Some gr \<and> unat (g_dbStoreId gr) = i \<and> (b' \<noteq> Some g \<longrightarrow> IsCreated gr)"
    using step [of g gr] by auto
qed

lemma manager_inv_cong:
  "gw_groups w' = gw_groups w \<Longrightarrow> gw_GroupStore w' = gw_GroupStore w \<Longrightarrow> gw_GroupDbStore w' = gw_GroupDbStore w \<Longrightarrow>
   manager_inv b w' = manager_inv b w"
  by (simp add: manager_inv_def)

lemma unlisted_cong:
  "gw_GroupStore w' = gw_GroupStore w \<Longrightarrow> gw_GroupDbStore w' = gw_GroupDbStore w \<Longrightarrow> unlisted g w' = unlisted g w"
  by (simp add: unlisted_def)

lemma unlisted_not_created:
  assumes "roster_inv con None w" "gw_groups w g = Some gr" "\<not> IsCreated gr"
  shows "unlisted g w"
proof -
  have m: "manager_inv None w" using assms(1) by (simp add: roster_inv_def)
  have "(i, g) \<notin> set (gw_GroupStore w)" for i
    using m assms(2,3) unfolding manager_inv_def by (metis option.inject option.distinct(1))
  moreover have "Some g \<notin> set (gw_GroupDbStore w)"
    using m assms(2,3) unfolding manager_inv_def in_set_conv_nth by (metis option.inject option.distinct(1))
  ultimately show ?thesis by (auto simp: unlisted_def)
qed

lemma roster_inv_players:
  assumes "gw_groups w' = gw_groups w" "gw_next w' = gw_next w" "gw_GroupDbStore w' = gw_GroupDbStore w"
    "gw_GroupStore w' = gw_GroupStore w"
    and "\<And>p. gp_group (gw_players w' p) = gp_group (gw_players w p)"
    and "\<And>p. gp_invite (gw_players w' p) = gp_invite (gw_players w p)"
    and "\<And>p. gp_original (gw_players w' p) = gp_original (gw_players w p)"
    and "\<And>p. gp_subGroup (gw_players w' p) = gp_subGroup (gw_players w p)"
  shows "roster_inv con b w' = roster_inv con b w"
  by (simp add: roster_inv_def group_inv_def player_inv_def settled_def manager_inv_def assms)

lemma roster_inv_cong:
  "gw_groups w' = gw_groups w \<Longrightarrow> gw_players w' = gw_players w \<Longrightarrow> gw_next w' = gw_next w \<Longrightarrow>
   gw_GroupDbStore w' = gw_GroupDbStore w \<Longrightarrow> gw_GroupStore w' = gw_GroupStore w \<Longrightarrow>
   roster_inv con b w' = roster_inv con b w"
  by (rule roster_inv_players) simp_all

lemma roster_inv_out: "only_out w w' \<Longrightarrow> roster_inv con b w' = roster_inv con b w"
  using only_out_frame by (intro roster_inv_cong) auto

lemma roster_inv_emit [simp]:
  "roster_inv con b (gemit e w) = roster_inv con b w"
  "roster_inv con b (gsend p opcode fs w) = roster_inv con b w"
  "roster_inv con b (gcall p what args w) = roster_inv con b w"
  "roster_inv con b (gstmt what args' w) = roster_inv con b w"
  by (simp_all add: roster_inv_out)

lemma invD:
  assumes "roster_inv con b w"
  shows "gw_groups w g = Some gr \<Longrightarrow> group_inv g gr w"
    and "gw_groups w g = Some gr \<Longrightarrow> b \<noteq> Some g \<Longrightarrow> settled con g gr w"
    and "player_inv con p w"
    and "gw_groups w g = Some gr \<Longrightarrow> gw_groups w h = Some hr \<Longrightarrow> p \<in> members gr \<Longrightarrow> p \<in> members hr \<Longrightarrow> g = h"
    and "manager_inv b w"
  using assms unfolding roster_inv_def by blast+

lemma unsettle: "roster_inv con None w \<Longrightarrow> roster_inv con (Some g) w"
  unfolding roster_inv_def by (auto intro: manager_change [of None w w])

lemma settle:
  assumes "roster_inv con (Some g) w" "gw_groups w g = Some gr" "settled con g gr w" "IsCreated gr \<or> unlisted g w"
  shows "roster_inv con None w"
proof -
  have "manager_inv None w"
    by (rule manager_change [OF invD(5) [OF assms(1)]]) (use assms(2,4) in auto)
  moreover have "settled con h hr w" if "gw_groups w h = Some hr" for h hr
    using that assms(1-3) by (cases "h = g") (auto simp: roster_inv_def)
  ultimately show ?thesis using assms(1) by (simp add: roster_inv_def)
qed

lemma inv_set_group [simp]:
  "group_inv g gr (set_group h hr w) = group_inv g gr w" "settled con g gr (set_group h hr w) = settled con g gr w"
  by (simp_all add: group_inv_def settled_def)

section \<open>Changes of the heap\<close>

text \<open>
  The group \<open>g\<close> and any players change: what has to be shown about them for the invariant of the
  others to survive.
\<close>

lemma change_group_ids:
  assumes inv: "roster_inv con (Some g) w" and g: "gw_groups w g = Some gr"
    and w': "gw_groups w' = (gw_groups w)(g \<mapsto> gr')" "gw_next w' = gw_next w"
      "length (gw_GroupDbStore w') \<ge> length (gw_GroupDbStore w)"
    and mgr: "manager_inv (Some g) w'"
    and gi: "group_inv g gr' w'"
    and other: "\<And>p h. h \<noteq> g \<Longrightarrow> (gp_group (gw_players w' p) = Some h \<longleftrightarrow> gp_group (gw_players w p) = Some h) \<and>
      (gp_invite (gw_players w' p) = Some h \<longleftrightarrow> gp_invite (gw_players w p) = Some h)"
    and pi: "\<And>p. gw_players w' p \<noteq> gw_players w p \<Longrightarrow> player_inv con p w'"
    and keep: "\<And>s. s \<in> set (g_memberSlots gr) \<Longrightarrow> gw_players w' (ms_guid s) = gw_players w (ms_guid s) \<Longrightarrow>
      gp_group (gw_players w (ms_guid s)) = Some g \<Longrightarrow>
      \<exists>s' \<in> set (g_memberSlots gr'). ms_guid s' = ms_guid s \<and> ms_group s' = ms_group s"
    and new: "\<And>p h hr. p \<in> members gr' \<Longrightarrow> p \<notin> members gr \<Longrightarrow> h \<noteq> g \<Longrightarrow> gw_groups w h = Some hr \<Longrightarrow> p \<notin> members hr"
  shows "roster_inv con (Some g) w'"
proof -
  have "group_inv h hr w' \<and> settled con h hr w'" if "h \<noteq> g" "gw_groups w h = Some hr" for h hr
    using invD(1,2) [OF inv that(2)] that(1) other w'(2,3)
    by (auto simp: group_inv_def settled_def)
  then have "gw_groups w' h = Some hr \<longrightarrow> group_inv h hr w' \<and> (Some g \<noteq> Some h \<longrightarrow> settled con h hr w')" for h hr
    using gi w'(1) by (cases "h = g") auto
  moreover have "player_inv con p w'" for p
  proof (cases "gw_players w' p = gw_players w p")
    case True
    have "\<exists>hr. gw_groups w' h = Some hr \<and>
        (\<exists>s \<in> set (g_memberSlots hr). ms_guid s = p \<and> ms_group s = gp_subGroup (gw_players w p))"
      if "gp_group (gw_players w p) = Some h" for h
      using invD(3) [OF inv, of p] that True keep g w'(1) by (cases "h = g") (fastforce simp: player_inv_def)+
    then show ?thesis
      using invD(3) [OF inv, of p] True w'(1) by (auto simp: player_inv_def)
  qed (rule pi)
  moreover have "h = i" if "gw_groups w' h = Some hr" "gw_groups w' i = Some ir" "p \<in> members hr" "p \<in> members ir"
    for h i hr ir p
    using that invD(4) [OF inv] new g w'(1) by (auto split: if_splits) blast+
  ultimately show ?thesis using mgr unfolding roster_inv_def by blast
qed

lemma change_group:
  assumes inv: "roster_inv con (Some g) w" and g: "gw_groups w g = Some gr"
    and w': "gw_groups w' = (gw_groups w)(g \<mapsto> gr')" "gw_next w' = gw_next w"
      "gw_GroupDbStore w' = gw_GroupDbStore w" "gw_GroupStore w' = gw_GroupStore w"
      "g_guid gr' = g_guid gr" "g_dbStoreId gr' = g_dbStoreId gr"
    and gi: "group_inv g gr' w'"
    and other: "\<And>p h. h \<noteq> g \<Longrightarrow> (gp_group (gw_players w' p) = Some h \<longleftrightarrow> gp_group (gw_players w p) = Some h) \<and>
      (gp_invite (gw_players w' p) = Some h \<longleftrightarrow> gp_invite (gw_players w p) = Some h)"
    and pi: "\<And>p. gw_players w' p \<noteq> gw_players w p \<Longrightarrow> player_inv con p w'"
    and keep: "\<And>s. s \<in> set (g_memberSlots gr) \<Longrightarrow> gw_players w' (ms_guid s) = gw_players w (ms_guid s) \<Longrightarrow>
      gp_group (gw_players w (ms_guid s)) = Some g \<Longrightarrow>
      \<exists>s' \<in> set (g_memberSlots gr'). ms_guid s' = ms_guid s \<and> ms_group s' = ms_group s"
    and new: "\<And>p h hr. p \<in> members gr' \<Longrightarrow> p \<notin> members gr \<Longrightarrow> h \<noteq> g \<Longrightarrow> gw_groups w h = Some hr \<Longrightarrow> p \<notin> members hr"
  shows "roster_inv con (Some g) w'"
proof -
  have "manager_inv (Some g) w'"
    by (rule manager_change [OF invD(5) [OF inv]]) (use g w' in auto)
  then show ?thesis
    using w'(3) by (intro change_group_ids [OF inv g w'(1,2) _ _ gi other pi keep new]) simp_all
qed

text \<open>The group \<open>g\<close> is deleted.\<close>

lemma drop_group:
  assumes inv: "roster_inv con (Some g) w"
    and w': "gw_groups w' = (gw_groups w)(g := None)" "gw_next w' = gw_next w"
      "gw_GroupDbStore w' = gw_GroupDbStore w" "gw_GroupStore w' = gw_GroupStore w"
    and un: "unlisted g w"
    and other: "\<And>p h. h \<noteq> g \<Longrightarrow> (gp_group (gw_players w' p) = Some h \<longleftrightarrow> gp_group (gw_players w p) = Some h) \<and>
      (gp_invite (gw_players w' p) = Some h \<longleftrightarrow> gp_invite (gw_players w p) = Some h)"
    and gone: "\<And>p. gp_group (gw_players w' p) \<noteq> Some g \<and> gp_invite (gw_players w' p) \<noteq> Some g"
    and rest: "\<And>p. gp_original (gw_players w' p) = gp_original (gw_players w p) \<and>
      gp_subGroup (gw_players w' p) = gp_subGroup (gw_players w p)"
  shows "roster_inv con None w'"
proof -
  have "group_inv h hr w' \<and> settled con h hr w'" if "gw_groups w' h = Some hr" for h hr
    using invD(1,2) [OF inv, of h hr] that other w' by (auto simp: group_inv_def settled_def split: if_splits)
  moreover have "player_inv con p w'" for p
  proof -
    have "gp_group (gw_players w' p) = gp_group (gw_players w p) \<or> gp_group (gw_players w' p) = None"
      using other gone by (metis option.exhaust)
    moreover have "gp_invite (gw_players w' p) = gp_invite (gw_players w p) \<or> gp_invite (gw_players w' p) = None"
      using other gone by (metis option.exhaust)
    ultimately show ?thesis
      using invD(3) [OF inv, of p] gone [of p] rest [of p] w'(1)
      by (cases "gp_group (gw_players w p)"; cases "gp_invite (gw_players w p)")
        (auto simp: player_inv_def split: if_splits)
  qed
  moreover have "h = i" if "gw_groups w' h = Some hr" "gw_groups w' i = Some ir" "p \<in> members hr" "p \<in> members ir"
    for h i hr ir p
    using that invD(4) [OF inv] w'(1) by (auto split: if_splits)
  moreover have "manager_inv None w'"
    by (rule manager_change [OF invD(5) [OF inv]]) (use un w' in auto)
  ultimately show ?thesis unfolding roster_inv_def by blast
qed

text \<open>A new, empty group.\<close>

lemma add_group:
  assumes inv: "roster_inv con None w"
    and w': "gw_groups w' = (gw_groups w)(gw_next w \<mapsto> Group_new)" "gw_next w' = Suc (gw_next w)"
      "gw_players w' = gw_players w" "gw_GroupDbStore w' = gw_GroupDbStore w"
      "gw_GroupStore w' = gw_GroupStore w"
  shows "roster_inv con None w'"
proof -
  have fresh: "gw_groups w (gw_next w) = None"
    using invD(1) [OF inv] by (cases "gw_groups w (gw_next w)") (auto simp: group_inv_def)
  have none: "gp_group (gw_players w p) \<noteq> Some (gw_next w) \<and> gp_invite (gw_players w p) \<noteq> Some (gw_next w)" for p
    using invD(3) [OF inv, of p] fresh by (auto simp: player_inv_def)
  have "group_inv h hr w' \<and> settled con h hr w'" if "gw_groups w' h = Some hr" for h hr
  proof (cases "h = gw_next w")
    case True
    then show ?thesis
      using that w' none by (auto simp: group_inv_def settled_def Group_new_def slots_ok_def isRaidGroup_def
          roomy_def in_subgroup_def IsCreated_def GetMembersCount_def oset_ok_def)
  next
    case False
    then show ?thesis
      using that w' invD(1,2) [OF inv, of h hr] by (auto simp: group_inv_def settled_def)
  qed
  moreover have "player_inv con p w'" for p
    using invD(3) [OF inv, of p] none [of p] w' by (auto simp: player_inv_def)
  moreover have "h = i" if "gw_groups w' h = Some hr" "gw_groups w' i = Some ir" "p \<in> members hr" "p \<in> members ir"
    for h i hr ir p
    using that invD(4) [OF inv] w'(1) by (auto simp: members_def Group_new_def split: if_splits)
  moreover have "manager_inv None w'"
    by (rule manager_change [OF invD(5) [OF inv]]) (use fresh w' in auto)
  ultimately show ?thesis unfolding roster_inv_def by blast
qed


section \<open>Changes that keep the roster\<close>

definition seat_list :: "group_obj \<Rightarrow> (guid \<times> uint8) list" where
  "seat_list gr = map (\<lambda>s. (ms_guid s, ms_group s)) (g_memberSlots gr)"

text \<open>Two states of a group with the same members, links and invitations.\<close>

definition like :: "group_obj \<Rightarrow> group_obj \<Rightarrow> bool" where
  "like gr gr' \<longleftrightarrow> seat_list gr' = seat_list gr \<and> g_refs gr' = g_refs gr \<and> g_invitees gr' = g_invitees gr \<and>
     g_bgGroup gr' = g_bgGroup gr \<and> g_subGroupsCounts gr' = g_subGroupsCounts gr \<and>
     isRaidGroup gr' = isRaidGroup gr \<and> length (g_targetIcons gr') = length (g_targetIcons gr) \<and>
     g_dbStoreId gr' = g_dbStoreId gr \<and> g_guid gr' = g_guid gr"

lemma members_seats: "members gr = fst ` set (seat_list gr)"
  by (simp add: members_def seat_list_def image_image)

lemma in_subgroup_seats: "in_subgroup i (g_memberSlots gr) = length (filter (\<lambda>s. unat (snd s) = i) (seat_list gr))"
  by (simp add: in_subgroup_def seat_list_def filter_map comp_def)

lemma seat_iff: "(\<exists>s \<in> set (g_memberSlots gr). ms_guid s = p \<and> ms_group s = sub) \<longleftrightarrow> (p, sub) \<in> set (seat_list gr)"
  by (auto simp: seat_list_def)

lemma count_seats: "GetMembersCount gr = length (seat_list gr)"
  by (simp add: GetMembersCount_def seat_list_def)

lemma slots_ok_seats:
  "slots_ok gr \<longleftrightarrow> distinct (map fst (seat_list gr)) \<and>
     (case g_subGroupsCounts gr of
        None \<Rightarrow> \<not> isRaidGroup gr \<and> (\<forall>s \<in> set (seat_list gr). snd s = 0)
      | Some cs \<Rightarrow> isRaidGroup gr \<and> length cs = MAX_RAID_SUBGROUPS \<and>
          (\<forall>s \<in> set (seat_list gr). unat (snd s) < MAX_RAID_SUBGROUPS) \<and>
          (\<forall>i < MAX_RAID_SUBGROUPS. cs ! i = of_nat (length (filter (\<lambda>s. unat (snd s) = i) (seat_list gr)))))"
  unfolding slots_ok_def in_subgroup_seats by (simp add: seat_list_def comp_def split: option.split)

lemma like_members: "like gr gr' \<Longrightarrow> members gr' = members gr"
  by (simp add: like_def members_seats)

lemma like_created: "like gr gr' \<Longrightarrow> IsCreated gr' = IsCreated gr"
  by (simp add: like_def IsCreated_def count_seats)

lemma like_slots: "like gr gr' \<Longrightarrow> slots_ok gr' = slots_ok gr"
  unfolding slots_ok_seats like_def by (cases "g_subGroupsCounts gr") simp_all

lemma like_roomy: "like gr gr' \<Longrightarrow> roomy gr' = roomy gr"
  by (simp add: roomy_def in_subgroup_seats like_def)

lemma like_group_inv: "like gr gr' \<Longrightarrow> group_inv g gr' w = group_inv g gr w"
  using like_slots [of gr gr'] by (simp add: like_def group_inv_def)

lemma like_refl [simp]: "like gr gr"
  by (simp add: like_def)

lemma like_trans: "like a b \<Longrightarrow> like b c \<Longrightarrow> like a c"
  by (simp add: like_def)

lemma like_simple [simp]:
  "like gr (gr\<lparr>g_leaderLogoutTime := t\<rparr>)" "like gr (gr\<lparr>g_looterGuid := p\<rparr>)"
  "like gr (gr\<lparr>g_leaderGuid := p, g_leaderName := n\<rparr>)" "like gr (gr\<lparr>g_rolls := rs\<rparr>)"
  "like gr (gr\<lparr>g_lootMethod := m, g_masterLooterGuid := p, g_lootThreshold := q\<rparr>)"
  "like gr (gr\<lparr>g_targetIcons := (g_targetIcons gr)[i := t']\<rparr>)"
  by (simp_all add: like_def seat_list_def isRaidGroup_def)

lemma like_map_slot:
  assumes "\<And>s. ms_guid (f s) = ms_guid s \<and> ms_group (f s) = ms_group s"
  shows "like gr (map_slot p f gr)"
proof (cases "first_index (\<lambda>s. ms_guid s = p) (g_memberSlots gr)")
  case (Some i)
  have "map h (xs[i := f (xs ! i)]) = map h xs" if "\<And>s. h (f s) = h s" for h :: "member_slot \<Rightarrow> guid \<times> uint8" and xs
    by (cases "i < length xs") (auto simp: map_update that list_update_same_conv list_update_beyond)
  then show ?thesis
    using Some assms by (simp add: map_slot_def like_def seat_list_def isRaidGroup_def)
qed (simp add: map_slot_def)

lemma like_flags [simp]: "like gr (ToggleGroupMemberFlag p flag b gr)" "like gr (RemoveUniqueGroupMemberFlag flag gr)"
  by (simp add: ToggleGroupMemberFlag_def like_map_slot)
    (auto simp: RemoveUniqueGroupMemberFlag_def like_def seat_list_def isRaidGroup_def comp_def intro!: map_cong)

lemma modify_group:
  assumes inv: "roster_inv con b w" and g: "gw_groups w g = Some gr" and l: "like gr gr'"
    and led: "b \<noteq> Some g \<Longrightarrow> g_leaderGuid gr' = g_leaderGuid gr \<or> IsCreated gr \<and> g_leaderGuid gr' \<in> members gr"
  shows "roster_inv con b (set_group g gr' w)"
proof -
  let ?w = "set_group g gr' w"
  have s: "settled con g gr' ?w" if "settled con g gr w" "b \<noteq> Some g"
  proof -
    have "g_invitees gr' = g_invitees gr" "g_dbStoreId gr' = g_dbStoreId gr"
      "g_subGroupsCounts gr' = g_subGroupsCounts gr"
      using l by (simp_all add: like_def)
    then show ?thesis
      using that led [OF that(2)] unfolding settled_def like_created [OF l] like_members [OF l] like_roomy [OF l]
      by (auto split: if_splits)
  qed
  have "group_inv h hr ?w \<and> (b \<noteq> Some h \<longrightarrow> settled con h hr ?w)" if "gw_groups ?w h = Some hr" for h hr
  proof (cases "h = g")
    case True
    then show ?thesis
      using that invD(1,2) [OF inv g] s like_group_inv [OF l] by simp
  next
    case False
    then show ?thesis
      using that invD(1,2) [OF inv, of h hr] by simp
  qed
  moreover have "player_inv con p ?w" for p
    using invD(3) [OF inv, of p] g l by (auto simp: player_inv_def seat_iff like_def)
  moreover have "h = i" if "gw_groups ?w h = Some hr" "gw_groups ?w i = Some ir" "p \<in> members hr" "p \<in> members ir"
    for h i hr ir p
    using that invD(4) [OF inv] g like_members [OF l] by (auto split: if_splits)
  moreover have "manager_inv b ?w"
    by (rule manager_change [OF invD(5) [OF inv]]) (use g l like_created [OF l] in \<open>auto simp: like_def\<close>)
  ultimately show ?thesis unfolding roster_inv_def by blast
qed

lemma leader_flag_inv [simp]: "roster_inv con b (set_leader_flag x p w) = roster_inv con b w"
  by (rule roster_inv_players) (simp_all add: set_leader_flag_def)

lemma leader_flag_frame [simp]: "gw_groups (set_leader_flag x p w) = gw_groups w"
  "gp_group (gw_players (set_leader_flag x p w) q) = gp_group (gw_players w q)"
  by (simp_all add: set_leader_flag_def)


section \<open>Links\<close>

lemma updated_simps [simp]:
  "slots_ok (gr\<lparr>g_refs := rs\<rparr>) = slots_ok gr" "slots_ok (gr\<lparr>g_invitees := is\<rparr>) = slots_ok gr"
  "roomy (gr\<lparr>g_refs := rs\<rparr>) = roomy gr" "roomy (gr\<lparr>g_invitees := is\<rparr>) = roomy gr"
  "members (gr\<lparr>g_refs := rs\<rparr>) = members gr" "members (gr\<lparr>g_invitees := is\<rparr>) = members gr"
  "IsCreated (gr\<lparr>g_refs := rs\<rparr>) = IsCreated gr" "IsCreated (gr\<lparr>g_invitees := is\<rparr>) = IsCreated gr"
  by (cases "g_subGroupsCounts gr";
      simp add: slots_ok_def roomy_def members_def IsCreated_def GetMembersCount_def isRaidGroup_def)+

lemma live:
  assumes "roster_inv con b w"
  shows "gp_group (gw_players w p) = Some g \<Longrightarrow> \<exists>gr. gw_groups w g = Some gr \<and> p \<in> members gr"
    and "gp_invite (gw_players w p) = Some g \<Longrightarrow> \<exists>gr. gw_groups w g = Some gr"
    and "gp_group (gw_players w p) = Some g \<Longrightarrow> con p" "gp_invite (gw_players w p) = Some g \<Longrightarrow> con p"
    and "gp_original (gw_players w p) = None"
  using invD(3) [OF assms, of p] by (auto simp: player_inv_def members_def)

lemma member_group:
  "roster_inv con b w \<Longrightarrow> gw_groups w g = Some gr \<Longrightarrow> p \<in> members gr \<Longrightarrow>
   gp_group (gw_players w p) = None \<or> gp_group (gw_players w p) = Some g"
  using live(1) invD(4) by (metis option.exhaust)

lemma not_bg: "roster_inv con b w \<Longrightarrow> gw_groups w g = Some gr \<Longrightarrow> \<not> g_bgGroup gr"
  using invD(1) by (fastforce simp: group_inv_def)

lemma same_player [simp]:
  "gp_group (gw_players w p) = None \<Longrightarrow> set_player p ((gw_players w p)\<lparr>gp_group := None\<rparr>) w = w"
  "gp_original (gw_players w p) = None \<Longrightarrow> set_player p ((gw_players w p)\<lparr>gp_original := None\<rparr>) w = w"
  "gp_invite (gw_players w p) = None \<Longrightarrow> set_player p ((gw_players w p)\<lparr>gp_invite := None\<rparr>) w = w"
  by (cases "gw_players w p"; simp add: set_player_def fun_upd_idem)+

lemma unlink_effect:
  "gp_group (gw_players w p) = Some g \<Longrightarrow> gw_groups w g = Some gr \<Longrightarrow>
   unlink False p w = set_player p ((gw_players w p)\<lparr>gp_group := None\<rparr>)
     (set_group g (gr\<lparr>g_refs := remove1 (p, False) (g_refs gr)\<rparr>) w)"
  "gp_group (gw_players w p) = None \<Longrightarrow> unlink False p w = w"
  "gp_original (gw_players w p) = None \<Longrightarrow> unlink True p w = w"
  by (simp_all add: unlink_def link_target_def) (simp add: set_player_def)?

lemma unlink_inv:
  assumes inv: "roster_inv con (Some g) w" and g: "gp_group (gw_players w p) = Some g"
  shows "roster_inv con (Some g) (unlink False p w)"
proof -
  obtain gr where gr: "gw_groups w g = Some gr" using live(1) [OF inv g] by blast
  note gi = invD(1) [OF inv gr] and pi = invD(3) [OF inv, of p]
  let ?w = "unlink False p w"
  have "group_inv g (gr\<lparr>g_refs := remove1 (p, False) (g_refs gr)\<rparr>) ?w"
    using gi unfolding unlink_effect(1) [OF g gr] by (auto simp: group_inv_def set_remove1_eq)
  moreover have "player_inv con q ?w" if "gw_players ?w q \<noteq> gw_players w q" for q
    using that pi gr unfolding unlink_effect(1) [OF g gr] by (auto simp: player_inv_def split: if_splits)
  ultimately show ?thesis
    using g unfolding unlink_effect(1) [OF g gr]
    by (intro change_group [OF inv gr, where gr' = "gr\<lparr>g_refs := remove1 (p, False) (g_refs gr)\<rparr>"]) auto
qed

lemma link_effect:
  "gp_group (gw_players w p) = None \<Longrightarrow> gw_groups w g = Some gr \<Longrightarrow>
   link False p g sub w = Inr (set_group g (gr\<lparr>g_refs := (p, False) # g_refs gr\<rparr>)
     (set_player p ((gw_players w p)\<lparr>gp_group := Some g, gp_subGroup := sub\<rparr>) w))"
  by (simp add: link_def unlink_effect update_group_def)

lemma link_inv:
  assumes inv: "roster_inv con (Some g) w" and gr: "gw_groups w g = Some gr"
    and p: "gp_group (gw_players w p) = None" "gp_invite (gw_players w p) = None" "con p"
    and seat: "(p, sub) \<in> set (seat_list gr)"
  shows "safely (link False p g sub w) (roster_inv con (Some g))"
proof -
  note gi = invD(1) [OF inv gr] and pi = invD(3) [OF inv, of p]
  let ?gr = "gr\<lparr>g_refs := (p, False) # g_refs gr\<rparr>"
  let ?w = "set_group g ?gr (set_player p ((gw_players w p)\<lparr>gp_group := Some g, gp_subGroup := sub\<rparr>) w)"
  have "group_inv g ?gr ?w" using gi p(1,2) by (auto simp: group_inv_def)
  moreover have "player_inv con q ?w" if "gw_players ?w q \<noteq> gw_players w q" for q
    using that pi p seat by (auto simp: player_inv_def seat_list_def split: if_splits)
  ultimately show ?thesis
    unfolding link_effect [OF p(1) gr] safely_simps
    using p(1) by (intro change_group [OF inv gr, where gr' = ?gr]) auto
qed

section \<open>Invitations\<close>

lemma RemoveInvite_effect:
  "gw_groups w g = Some gr \<Longrightarrow> RemoveInvite p g w =
     Inr (set_player p ((gw_players w p)\<lparr>gp_invite := None\<rparr>)
            (set_group g (gr\<lparr>g_invitees := oset_erase p (g_invitees gr)\<rparr>) w))"
  by (simp add: RemoveInvite_def update_group_def SetGroupInvite_def)

lemma RemoveInvite_inv:
  assumes inv: "roster_inv con (Some g) w" and gr: "gw_groups w g = Some gr"
    and p: "gp_invite (gw_players w p) = Some g \<or> gp_invite (gw_players w p) = None"
  shows "safely (RemoveInvite p g w) (roster_inv con (Some g))"
proof -
  note gi = invD(1) [OF inv gr] and pi = invD(3) [OF inv, of p]
  let ?gr = "gr\<lparr>g_invitees := oset_erase p (g_invitees gr)\<rparr>"
  let ?w = "set_player p ((gw_players w p)\<lparr>gp_invite := None\<rparr>) (set_group g ?gr w)"
  have "group_inv g ?gr ?w" using gi p by (auto simp: group_inv_def oset_erase_set oset_erase_ok)
  moreover have "player_inv con q ?w" if "gw_players ?w q \<noteq> gw_players w q" for q
    using that pi gr by (auto simp: player_inv_def split: if_splits)
  ultimately show ?thesis
    unfolding RemoveInvite_effect [OF gr] safely_simps
    using p by (intro change_group [OF inv gr, where gr' = ?gr]) auto
qed


lemma set_set [simp]:
  "set_group g a (set_group g b w) = set_group g a w" "set_player p x (set_player p y w) = set_player p x w"
  "set_player p x (set_group g a w) = set_group g a (set_player p x w)"
  by (simp_all add: set_group_def set_player_def)

lemma oset_erase_absent: "x \<notin> set xs \<Longrightarrow> oset_erase x xs = xs"
  by (induction x xs rule: oset_erase.induct) auto

definition invited :: "guid \<Rightarrow> nat \<Rightarrow> group_obj \<Rightarrow> group_world \<Rightarrow> group_world" where
  "invited p g gr w = set_player p ((gw_players w p)\<lparr>gp_invite := Some g\<rparr>)
     (set_group g (gr\<lparr>g_invitees := oset_insert p (g_invitees gr)\<rparr>) w)"

lemma own_group_effect:
  assumes "roster_inv con b w"
  shows "own_group p w = Inr (gp_group (gw_players w p))"
  using live(1) [OF assms, of p] not_bg [OF assms]
  by (cases "gp_group (gw_players w p)") (auto simp: own_group_def with_group_def)

lemma AddInvite_effect:
  assumes inv: "roster_inv con b w" and gr: "gw_groups w g = Some gr"
  shows "AddInvite p g w =
    (if gp_invite (gw_players w p) \<noteq> None \<or> gp_group (gw_players w p) \<noteq> None then Inr (False, w)
     else Inr (True, invited p g gr w))"
proof -
  have "oset_erase p (g_invitees gr) = g_invitees gr" if "gp_invite (gw_players w p) = None"
    using invD(1) [OF inv gr] that by (intro oset_erase_absent) (auto simp: group_inv_def)
  then show ?thesis
    by (simp add: AddInvite_def own_group_effect [OF inv] RemoveInvite_effect [OF gr] update_group_def
        SetGroupInvite_def invited_def)
qed

lemma invited_inv:
  assumes inv: "roster_inv con (Some g) w" and gr: "gw_groups w g = Some gr"
    and p: "gp_invite (gw_players w p) = None" "gp_group (gw_players w p) = None" "con p"
  shows "roster_inv con (Some g) (invited p g gr w)"
proof -
  note gi = invD(1) [OF inv gr] and pi = invD(3) [OF inv, of p]
  let ?gr = "gr\<lparr>g_invitees := oset_insert p (g_invitees gr)\<rparr>"
  have "group_inv g ?gr (invited p g gr w)"
    using gi p by (auto simp: group_inv_def invited_def oset_insert_set oset_insert_ok)
  moreover have "player_inv con q (invited p g gr w)" if "gw_players (invited p g gr w) q \<noteq> gw_players w q" for q
    using that pi p by (auto simp: player_inv_def invited_def split: if_splits)
  ultimately show ?thesis
    using p by (intro change_group [OF inv gr, where gr' = ?gr]) (auto simp: invited_def)
qed

lemma fold_invites:
  "(\<And>p. p \<in> set xs \<Longrightarrow> le_FindConnected (ge_env ge) p) \<Longrightarrow>
   fold_result (\<lambda>p w. if le_FindConnected (ge_env ge) p then Inr (SetGroupInvite p None w) else Inl UseAfterFree) xs w =
   Inr (w\<lparr>gw_players := \<lambda>p. if p \<in> set xs then (gw_players w p)\<lparr>gp_invite := None\<rparr> else gw_players w p\<rparr>)"
proof (induction xs arbitrary: w)
  case (Cons x xs)
  have "(\<lambda>p. if p \<in> set xs then (gw_players (SetGroupInvite x None w) p)\<lparr>gp_invite := None\<rparr>
             else gw_players (SetGroupInvite x None w) p) =
        (\<lambda>p. if p \<in> set (x # xs) then (gw_players w p)\<lparr>gp_invite := None\<rparr> else gw_players w p)"
    by (auto simp: SetGroupInvite_def)
  moreover have "(SetGroupInvite x None w)\<lparr>gw_players := f\<rparr> = w\<lparr>gw_players := f\<rparr>" for f
    by (simp add: SetGroupInvite_def set_player_def)
  ultimately show ?case using Cons by simp
qed simp

definition uninvited :: "nat \<Rightarrow> group_obj \<Rightarrow> group_world \<Rightarrow> group_world" where
  "uninvited g gr w = set_group g (gr\<lparr>g_invitees := []\<rparr>)
     (w\<lparr>gw_players := \<lambda>p. if p \<in> set (g_invitees gr) then (gw_players w p)\<lparr>gp_invite := None\<rparr> else gw_players w p\<rparr>)"

lemma RemoveAllInvites_effect:
  assumes inv: "roster_inv con b w" and gr: "gw_groups w g = Some gr" and c: "con = le_FindConnected (ge_env ge)"
  shows "RemoveAllInvites ge g w = Inr (uninvited g gr w)"
proof -
  have "con p" if "p \<in> set (g_invitees gr)" for p
    using invD(1) [OF inv gr] live(4) [OF inv] that by (auto simp: group_inv_def)
  then show ?thesis
    using gr by (simp add: RemoveAllInvites_def fold_invites c update_group_def uninvited_def)
qed

lemma uninvited_inv:
  assumes inv: "roster_inv con (Some g) w" and gr: "gw_groups w g = Some gr"
  shows "roster_inv con (Some g) (uninvited g gr w)"
proof -
  note gi = invD(1) [OF inv gr]
  have i: "p \<in> set (g_invitees gr) \<longleftrightarrow> gp_invite (gw_players w p) = Some g" for p
    using gi by (simp add: group_inv_def)
  have "group_inv g (gr\<lparr>g_invitees := []\<rparr>) (uninvited g gr w)"
    using gi by (auto simp: group_inv_def uninvited_def oset_ok_def)
  moreover have "player_inv con q (uninvited g gr w)" for q
    using invD(3) [OF inv, of q] gr by (auto simp: player_inv_def uninvited_def)
  ultimately show ?thesis
    using i by (intro change_group [OF inv gr, where gr' = "gr\<lparr>g_invitees := []\<rparr>"]) (auto simp: uninvited_def)
qed

section \<open>New and deleted groups\<close>

lemma new_group_inv:
  assumes inv: "roster_inv con None w" and new: "new_group w = (g, w')"
  shows "roster_inv con None w'" "gw_groups w' g = Some Group_new" "gw_players w' = gw_players w"
proof -
  have w': "w' = set_group (gw_next w) Group_new (w\<lparr>gw_next := Suc (gw_next w)\<rparr>)" "g = gw_next w"
    using new by (auto simp: new_group_def)
  show "roster_inv con None w'" by (rule add_group [OF inv]) (simp_all add: w')
qed (use new in \<open>auto simp: new_group_def\<close>)

lemma fold_invalidate:
  "(\<And>r. r \<in> set rs \<Longrightarrow> \<not> snd r) \<Longrightarrow>
   fold invalidate rs w =
   w\<lparr>gw_players := \<lambda>p. if (p, False) \<in> set rs then (gw_players w p)\<lparr>gp_group := None\<rparr> else gw_players w p\<rparr>"
proof (induction rs arbitrary: w)
  case (Cons r rs)
  obtain p where r: "r = (p, False)" using Cons.prems [of r] by (cases r) auto
  have "(\<lambda>q. if (q, False) \<in> set rs then (gw_players (invalidate r w) q)\<lparr>gp_group := None\<rparr>
             else gw_players (invalidate r w) q) =
        (\<lambda>q. if (q, False) \<in> set (r # rs) then (gw_players w q)\<lparr>gp_group := None\<rparr> else gw_players w q)"
    by (auto simp: invalidate_def r)
  moreover have "(invalidate r w)\<lparr>gw_players := f\<rparr> = w\<lparr>gw_players := f\<rparr>" for f
    by (simp add: invalidate_def r set_player_def)
  ultimately show ?case using Cons by simp
qed simp

lemma delete_group_inv:
  assumes inv: "roster_inv con (Some g) w" and gr: "gw_groups w g = Some gr" and no: "g_invitees gr = []"
    and un: "unlisted g w"
  shows "safely (delete_group g w) (\<lambda>w'. roster_inv con None w' \<and> gw_groups w' g = None \<and>
     (\<forall>p. gp_invite (gw_players w' p) = gp_invite (gw_players w p)))"
proof -
  note gi = invD(1) [OF inv gr]
  have refs: "\<not> snd r" if "r \<in> set (g_refs gr)" for r
    using gi that by (cases r) (auto simp: group_inv_def)
  have r: "(p, False) \<in> set (g_refs gr) \<longleftrightarrow> gp_group (gw_players w p) = Some g"
    and i: "gp_invite (gw_players w p) \<noteq> Some g" for p
    using gi no by (auto simp: group_inv_def)
  let ?w = "w\<lparr>gw_players := \<lambda>p. if (p, False) \<in> set (g_refs gr) then (gw_players w p)\<lparr>gp_group := None\<rparr>
      else gw_players w p, gw_groups := (gw_groups w)(g := None)\<rparr>"
  have "roster_inv con None ?w"
    using r i un by (intro drop_group [OF inv]) auto
  then show ?thesis
    using gr not_bg [OF inv gr] by (simp add: delete_group_def fold_invalidate [OF refs])
qed


end
