(* ===== verification/GroupInv.thy ===== *)
theory GroupInv
  imports GroupLaws LootLaws
begin

text \<open>
  The operations of \<open>GroupOps\<close> and \<open>GroupSession\<close> on the invariant of \<open>GroupLaws\<close>: first those
  that keep members, links and invitations, then those that change them, then the requests.
\<close>

section \<open>Operations that keep the roster\<close>

definition same_links :: "group_world \<Rightarrow> group_world \<Rightarrow> bool" where
  "same_links w w' \<longleftrightarrow> gw_next w' = gw_next w \<and> gw_GroupStore w' = gw_GroupStore w \<and>
     gw_GroupDbStore w' = gw_GroupDbStore w \<and>
     (\<forall>p. gp_group (gw_players w' p) = gp_group (gw_players w p) \<and>
          gp_invite (gw_players w' p) = gp_invite (gw_players w p) \<and>
          gp_original (gw_players w' p) = gp_original (gw_players w p) \<and>
          gp_subGroup (gw_players w' p) = gp_subGroup (gw_players w p))"

definition quiet :: "nat \<Rightarrow> group_world \<Rightarrow> group_world \<Rightarrow> bool" where
  "quiet g w w' \<longleftrightarrow> same_links w w' \<and>
     (\<exists>gr gr'. gw_groups w g = Some gr \<and> gw_groups w' = (gw_groups w)(g \<mapsto> gr') \<and> like gr gr' \<and>
        (g_leaderGuid gr' = g_leaderGuid gr \<or> g_leaderGuid gr' \<in> members gr))"

lemma same_links_simps [simp]:
  "same_links w w"
  "same_links w (set_group g gr w') = same_links w w'"
  "same_links w (set_leader_flag x p w') = same_links w w'"
  "same_links w (gsend p opcode fs w') = same_links w w'"
  "same_links w (gcall p what args w') = same_links w w'"
  "same_links w (gstmt what args' w') = same_links w w'"
  by (auto simp: same_links_def set_leader_flag_def)

lemma same_links_out: "only_out w w' \<Longrightarrow> same_links w w'"
  using only_out_frame [of w w'] by (simp add: same_links_def)

lemma same_links_trans: "same_links a b \<Longrightarrow> same_links b c \<Longrightarrow> same_links a c"
  by (simp add: same_links_def)

lemma same_links_inv: "gw_groups w' = gw_groups w \<Longrightarrow> same_links w w' \<Longrightarrow> roster_inv con b w' = roster_inv con b w"
  by (intro roster_inv_players) (simp_all add: same_links_def)

lemma quiet_live: "quiet g w w' \<Longrightarrow> \<exists>gr gr'. gw_groups w g = Some gr \<and> gw_groups w' g = Some gr' \<and> like gr gr'"
  by (auto simp: quiet_def)

lemma quiet_links: "quiet g w w' \<Longrightarrow> same_links w w'"
  by (simp add: quiet_def)

lemma quiet_out: "gw_groups w g = Some gr \<Longrightarrow> only_out w w' \<Longrightarrow> quiet g w w'"
  using only_out_frame [of w w'] same_links_out [of w w']
  by (auto simp: quiet_def fun_upd_idem intro!: exI [of _ gr])

lemma quiet_trans:
  assumes "quiet g a b" "quiet g b c"
  shows "quiet g a c"
proof -
  obtain gr gr' where ab: "gw_groups a g = Some gr" "gw_groups b = (gw_groups a)(g \<mapsto> gr')" "like gr gr'"
    "g_leaderGuid gr' = g_leaderGuid gr \<or> g_leaderGuid gr' \<in> members gr"
    using assms(1) by (auto simp: quiet_def)
  obtain gr'' where bc: "gw_groups c = (gw_groups b)(g \<mapsto> gr'')" "like gr' gr''"
    "g_leaderGuid gr'' = g_leaderGuid gr' \<or> g_leaderGuid gr'' \<in> members gr'"
    using assms(2) ab(2) by (auto simp: quiet_def)
  have "gw_groups c = (gw_groups a)(g \<mapsto> gr'')" using ab(2) bc(1) by simp
  moreover have "like gr gr''" using ab(3) bc(2) by (rule like_trans)
  moreover have "g_leaderGuid gr'' = g_leaderGuid gr \<or> g_leaderGuid gr'' \<in> members gr"
    using ab(4) bc(3) like_members [OF ab(3)] by auto
  ultimately show ?thesis
    using ab(1) same_links_trans quiet_links assms unfolding quiet_def by blast
qed

lemma quiet_set:
  assumes "gw_groups w g = Some gr" "like gr gr'" "same_links w w'" "gw_groups w' = gw_groups w"
    and "g_leaderGuid gr' = g_leaderGuid gr \<or> g_leaderGuid gr' \<in> members gr"
  shows "quiet g w (set_group g gr' w')"
  using assms by (auto simp: quiet_def)

lemma quiet_inv:
  assumes inv: "roster_inv con b w" and q: "quiet g w w'"
  shows "roster_inv con b w'"
proof -
  obtain gr gr' where g: "gw_groups w g = Some gr" "gw_groups w' = (gw_groups w)(g \<mapsto> gr')" "like gr gr'"
    "g_leaderGuid gr' = g_leaderGuid gr \<or> g_leaderGuid gr' \<in> members gr"
    using q by (auto simp: quiet_def)
  have "roster_inv con b (set_group g gr' w)"
    by (rule modify_group [OF inv g(1,3)])
      (use g(4) in \<open>auto simp: IsCreated_def GetMembersCount_def members_def\<close>)
  moreover have "same_links (set_group g gr' w) w'"
    using quiet_links [OF q] unfolding same_links_def by simp
  moreover have "gw_groups w' = gw_groups (set_group g gr' w)" using g(2) by simp
  ultimately show ?thesis
    using same_links_inv [of w' "set_group g gr' w" con b] by blast
qed

lemma quiet_bind:
  assumes r: "safely r (quiet g w)"
    and f: "\<And>w' gr'. quiet g w w' \<Longrightarrow> gw_groups w' g = Some gr' \<Longrightarrow> safely (f w') (quiet g w')"
  shows "safely (bind_result r f) (quiet g w)"
proof (rule safely_bindI [OF r])
  fix w' assume q: "quiet g w w'"
  then obtain gr' where "gw_groups w' g = Some gr'" using quiet_live by blast
  from f [OF q this] show "safely (f w') (quiet g w)"
    by (rule safely_mono) (rule quiet_trans [OF q])
qed

lemma quiet_fold:
  "gw_groups w g = Some gr \<Longrightarrow>
   (\<And>x w gr. x \<in> set xs \<Longrightarrow> gw_groups w g = Some gr \<Longrightarrow> safely (f x w) (quiet g w)) \<Longrightarrow>
   safely (fold_result f xs w) (quiet g w)"
  by (induction xs arbitrary: w gr) (auto intro!: quiet_bind intro: quiet_out)

lemma SendUpdate_quiet: "gw_groups w g = Some gr \<Longrightarrow> safely (SendUpdate ge g w) (quiet g w)"
  by (rule safely_mono [OF SendUpdate_out]) (auto intro: quiet_out)

text \<open>A packet and an update after a change of the group object.\<close>

lemma quiet_then_update:
  assumes "quiet g w w'"
  shows "safely (SendUpdate ge g w') (quiet g w)"
  using quiet_live [OF assms] assms by (metis SendUpdate_quiet quiet_trans safely_mono)

lemma quiet_then_out: "quiet g w w' \<Longrightarrow> only_out w' w'' \<Longrightarrow> quiet g w w''"
  by (meson quiet_live quiet_out quiet_trans)

lemma leader_is_member: "getMemberSlot p gr = Some slot \<Longrightarrow> p \<in> members gr"
  by (auto simp: getMemberSlot_def members_def find_Some_iff)

lemma ChangeLeader_quiet:
  assumes gr: "gw_groups w g = Some gr"
  shows "safely (ChangeLeader ge p g w) (quiet g w)"
proof (cases "getMemberSlot p gr")
  case None
  then show ?thesis using gr by (simp add: ChangeLeader_def quiet_out [OF gr])
next
  case (Some slot)
  let ?gr = "ToggleGroupMemberFlag p 1 False (gr\<lparr>g_leaderGuid := p, g_leaderName := ge_name ge p\<rparr>)"
  have l: "like gr ?gr" by (rule like_trans [OF like_simple(3) like_flags(1)])
  have "g_leaderGuid ?gr = p"
    by (simp add: ToggleGroupMemberFlag_def map_slot_def split: option.split)
  then have q: "quiet g w (set_group g ?gr w')" if "same_links w w'" "gw_groups w' = gw_groups w" for w'
    using that quiet_set [OF gr l] leader_is_member [OF Some] by auto
  show ?thesis
    using gr Some
    by (auto simp: ChangeLeader_def Let_def quiet_out [OF gr]
        intro!: quiet_then_update quiet_then_out [OF q BroadcastPacket_out])
qed

lemma update_quiet:
  assumes "gw_groups w g = Some gr" "like gr (f gr)" "g_leaderGuid (f gr) = g_leaderGuid gr"
  shows "safely (update_group g f w) (quiet g w)"
  using assms by (simp add: update_group_def quiet_set)

lemma CheckLeader_quiet:
  assumes gr: "gw_groups w g = Some gr"
  shows "safely (CheckLeader ge p b g w) (quiet g w)"
  unfolding CheckLeader_def by (rule update_quiet [OF gr]) auto

lemma ChangeLeaderToFirstOnlineMember_quiet:
  assumes gr: "gw_groups w g = Some gr"
  shows "safely (ChangeLeaderToFirstOnlineMember ge g w) (\<lambda>(ok, w'). quiet g w w')"
  using gr ChangeLeader_quiet [OF gr]
  by (auto simp: ChangeLeaderToFirstOnlineMember_def safely_bind quiet_out [OF gr] split: option.split)

lemma Group_Update_quiet:
  assumes gr: "gw_groups w g = Some gr"
  shows "safely (Group_Update ge g w) (quiet g w)"
proof -
  have "safely (update_group g (\<lambda>gr. gr\<lparr>g_leaderLogoutTime := 0\<rparr>) w') (quiet g w)" if "quiet g w w'" for w'
    using quiet_live [OF that] that
    by (auto intro!: safely_mono [OF update_quiet] intro: quiet_trans)
  then show ?thesis
    using gr by (auto simp: Group_Update_def quiet_out [OF gr]
        intro!: safely_bindI [OF ChangeLeaderToFirstOnlineMember_quiet [OF gr]])
qed

lemma map_slot_leader [simp]: "g_leaderGuid (map_slot p f gr) = g_leaderGuid gr"
  by (simp add: map_slot_def split: option.split)

lemma flags_leader [simp]:
  "g_leaderGuid (ToggleGroupMemberFlag p flag b gr) = g_leaderGuid gr"
  "g_leaderGuid (RemoveUniqueGroupMemberFlag flag gr) = g_leaderGuid gr"
  by (simp_all add: ToggleGroupMemberFlag_def RemoveUniqueGroupMemberFlag_def)

lemma flags_quiet:
  assumes gr: "gw_groups w g = Some gr"
  shows "safely (SetGroupMemberFlag ge p b flag g w) (quiet g w)"
proof -
  have q: "quiet g w (set_group g (ToggleGroupMemberFlag p flag b gr1) w)"
    if "gr1 \<in> {gr, RemoveUniqueGroupMemberFlag flag gr}" for gr1
    by (rule quiet_set [OF gr]) (use that like_trans [OF like_flags(2) like_flags(1)] in auto)
  have "safely (SendUpdate ge g (gstmt what args (set_group g (ToggleGroupMemberFlag p flag b gr1) w))) (quiet g w)"
    if "gr1 \<in> {gr, RemoveUniqueGroupMemberFlag flag gr}" for gr1 what args
    by (rule quiet_then_update, rule quiet_then_out [OF q [OF that]]) simp
  then show ?thesis
    using gr quiet_out [OF gr] by (simp add: SetGroupMemberFlag_def Let_def)
qed

lemma put_icon_quiet: "gw_groups w g = Some gr \<Longrightarrow> safely (put_icon ge g i t w) (quiet g w)"
  by (auto simp: put_icon_def Let_def intro!: quiet_then_out [OF quiet_set BroadcastPacket_out])

lemma SetTargetIcon_quiet:
  assumes gr: "gw_groups w g = Some gr"
  shows "safely (SetTargetIcon ge g i t w) (quiet g w)"
  unfolding SetTargetIcon_def
  by (auto simp: gr quiet_out put_icon_quiet intro!: quiet_bind quiet_fold [OF gr])

lemma on_roll_state_quiet:
  assumes gr: "gw_groups w g = Some gr"
  shows "safely (on_roll_state g f w) (quiet g w)"
proof (cases "f (roll_state_of gr w)")
  case (Inr rs)
  have "same_links w (put_roll_state g gr rs w)" by (simp add: put_roll_state_def same_links_def)
  then show ?thesis
    using gr Inr by (auto simp: on_roll_state_def quiet_def put_roll_state_def)
qed (use gr in \<open>simp add: on_roll_state_def\<close>)

lemma UpdateLooterGuid_quiet:
  assumes gr: "gw_groups w g = Some gr"
  shows "safely (UpdateLooterGuid ge obj b g w) (quiet g w)"
  using gr by (auto simp: UpdateLooterGuid_def Let_def quiet_out intro!: quiet_then_update quiet_set split: option.split)

lemma GroupMgr_Update_inv:
  assumes inv: "roster_inv con None w"
  shows "safely (GroupMgr_Update ge w) (roster_inv con None)"
proof -
  let ?I = "\<lambda>w'. roster_inv con None w' \<and> gw_GroupStore w' = gw_GroupStore w"
  have "safely (Group_Update ge g w') ?I" if g: "g \<in> set (map snd (gw_GroupStore w))" and w': "?I w'" for g w'
  proof -
    obtain i where "(i, g) \<in> set (gw_GroupStore w')" using g w' by auto
    moreover have "manager_inv None w'" using w' invD(5) by blast
    ultimately obtain gr where "gw_groups w' g = Some gr" unfolding manager_inv_def by blast
    then show ?thesis
      by (rule safely_mono [OF Group_Update_quiet])
        (use w' quiet_links in \<open>auto simp: same_links_def intro: quiet_inv\<close>)
  qed
  then have "safely (GroupMgr_Update ge w) ?I"
    unfolding GroupMgr_Update_def using inv by (intro safely_fold) auto
  then show ?thesis by (rule safely_mono) simp
qed

section \<open>Subgroups\<close>

lemma in_subgroup_update:
  "k < length xs \<Longrightarrow> in_subgroup i (xs[k := y]) + (if unat (ms_group (xs ! k)) = i then 1 else 0) =
     in_subgroup i xs + (if unat (ms_group y) = i then 1 else 0)"
proof (induction xs arbitrary: k)
  case (Cons x xs)
  then show ?case using Cons.IH [of "k - 1"] by (cases k) (simp_all add: in_subgroup_def)
qed simp

lemma in_subgroup_append: "in_subgroup i (xs @ ys) = in_subgroup i xs + in_subgroup i ys"
  by (simp add: in_subgroup_def)

lemma in_subgroup_le: "in_subgroup i xs \<le> length xs"
  by (simp add: in_subgroup_def)

lemma count_at_simps:
  "unat sub < length cs \<Longrightarrow> SubGroupCounterIncrease sub (gr\<lparr>g_subGroupsCounts := Some cs\<rparr>) =
     Inr (gr\<lparr>g_subGroupsCounts := Some (cs[unat sub := cs ! unat sub + 1])\<rparr>)"
  "unat sub < length cs \<Longrightarrow> SubGroupCounterDecrease sub (gr\<lparr>g_subGroupsCounts := Some cs\<rparr>) =
     Inr (gr\<lparr>g_subGroupsCounts := Some (cs[unat sub := cs ! unat sub - 1])\<rparr>)"
  by (simp_all add: SubGroupCounterIncrease_def SubGroupCounterDecrease_def count_at_def)

lemma count_all:
  "\<forall>s \<in> set xs. unat (ms_group s) < length cs \<Longrightarrow>
   \<exists>cs'. fold_result (\<lambda>s. SubGroupCounterIncrease (ms_group s)) xs (gr\<lparr>g_subGroupsCounts := Some cs\<rparr>) =
           Inr (gr\<lparr>g_subGroupsCounts := Some cs'\<rparr>) \<and> length cs' = length cs \<and>
           (\<forall>i < length cs. cs' ! i = cs ! i + of_nat (in_subgroup i xs))"
proof (induction xs arbitrary: cs)
  case Nil
  show ?case by (intro exI [of _ cs]) (simp add: in_subgroup_def)
next
  case (Cons x xs)
  let ?cs = "cs[unat (ms_group x) := cs ! unat (ms_group x) + 1]"
  obtain cs' where "fold_result (\<lambda>s. SubGroupCounterIncrease (ms_group s)) xs (gr\<lparr>g_subGroupsCounts := Some ?cs\<rparr>) =
           Inr (gr\<lparr>g_subGroupsCounts := Some cs'\<rparr>)" "length cs' = length cs"
           "\<forall>i < length cs. cs' ! i = ?cs ! i + of_nat (in_subgroup i xs)"
    using Cons.IH [of ?cs] Cons.prems by auto
  then show ?case
    using Cons.prems
    by (auto simp: count_at_simps in_subgroup_def nth_list_update intro!: exI [of _ cs'])
qed

lemma initRaidSubGroupsCounter_ok:
  assumes "\<forall>s \<in> set (g_memberSlots gr). unat (ms_group s) < 8"
  shows "\<exists>cs. initRaidSubGroupsCounter gr = Inr (gr\<lparr>g_subGroupsCounts := Some cs\<rparr>) \<and> length cs = 8 \<and>
           (\<forall>i < 8. cs ! i = of_nat (in_subgroup i (g_memberSlots gr)))"
  using count_all [of "g_memberSlots gr" "replicate 8 0" gr] assms
  by (auto simp: initRaidSubGroupsCounter_def)


text \<open>A change of the slots that leaves the links and the invitations alone.\<close>

lemma change_slots:
  assumes inv: "roster_inv con (Some g) w" and gr: "gw_groups w g = Some gr"
    and same: "g_refs gr' = g_refs gr" "g_invitees gr' = g_invitees gr" "g_bgGroup gr' = g_bgGroup gr"
      "length (g_targetIcons gr') = length (g_targetIcons gr)" "g_guid gr' = g_guid gr" "g_dbStoreId gr' = g_dbStoreId gr"
    and ok: "slots_ok gr'" and sub: "members gr' \<subseteq> members gr"
    and keep: "\<And>s. s \<in> set (g_memberSlots gr) \<Longrightarrow> gp_group (gw_players w (ms_guid s)) = Some g \<Longrightarrow>
      \<exists>s' \<in> set (g_memberSlots gr'). ms_guid s' = ms_guid s \<and> ms_group s' = ms_group s"
  shows "roster_inv con (Some g) (set_group g gr' w)"
proof (rule change_group [OF inv gr])
  show "group_inv g gr' (set_group g gr' w)"
    using invD(1) [OF inv gr] same ok by (simp add: group_inv_def)
qed (use same sub keep in auto)

lemma settled_same:
  assumes "g_memberSlots gr' = g_memberSlots gr" "g_invitees gr' = g_invitees gr" "g_leaderGuid gr' = g_leaderGuid gr"
    "g_dbStoreId gr' = g_dbStoreId gr" "same_links w w'" "IsCreated gr"
  shows "settled con g gr' w' = settled con g gr w"
  using assms by (simp add: settled_def IsCreated_def GetMembersCount_def members_def roomy_def same_links_def)

lemma ConvertToRaid_inv:
  assumes inv: "roster_inv con None w" and gr: "gw_groups w g = Some gr"
    and c: "IsCreated gr"
  shows "safely (ConvertToRaid ge g w) (roster_inv con None)"
proof -
  let ?gr = "gr\<lparr>g_groupType := add_flag (g_groupType gr) 1\<rparr>"
  note gi = invD(1) [OF inv gr]
  have "\<forall>s \<in> set (g_memberSlots gr). unat (ms_group s) < 8"
    using gi by (auto simp: group_inv_def slots_ok_def split: option.splits)
  then obtain cs where cs: "initRaidSubGroupsCounter ?gr = Inr (?gr\<lparr>g_subGroupsCounts := Some cs\<rparr>)" "length cs = 8"
      "\<forall>i < 8. cs ! i = of_nat (in_subgroup i (g_memberSlots gr))"
    using initRaidSubGroupsCounter_ok [of ?gr] by auto
  let ?gr' = "?gr\<lparr>g_subGroupsCounts := Some cs\<rparr>"
  have "isRaidGroup ?gr'" by (simp add: isRaidGroup_def has_flag_add) (simp add: has_flag_def)
  then have ok: "slots_ok ?gr'"
    using gi cs by (auto simp: group_inv_def slots_ok_def split: option.splits)
  have "roster_inv con (Some g) (set_group g ?gr' w)"
    by (rule change_slots [OF unsettle [OF inv] gr]) (use ok in \<open>auto simp: members_def\<close>)
  then have "roster_inv con None (set_group g ?gr' w)"
    by (rule settle [where gr = ?gr'])
      (use invD(2) [OF inv gr] c settled_same [of ?gr' gr w w] in \<open>auto simp: IsCreated_def GetMembersCount_def\<close>)
  then have u: "roster_inv con None w'" if "only_out (set_group g ?gr' w) w'" for w'
    using that roster_inv_out by blast
  let ?upd = "fold (\<lambda>s w. if le_FindPlayer (ge_env ge) (ms_guid s)
      then gcall (ms_guid s) ''UpdateForQuestWorldObjects'' [] w else w) (g_memberSlots gr)"
  have f: "only_out w' (?upd w')" for w'
    by (rule only_out_fold) simp
  have "safely (bind_result (SendUpdate ge g w1) (\<lambda>w3. Inr (?upd w3))) (roster_inv con None)"
    if w1: "only_out (set_group g ?gr' w) w1" for w1
  proof (rule safely_bindI [OF SendUpdate_out [where gr = ?gr']])
    show "gw_groups w1 g = Some ?gr'" using only_out_frame [OF w1] by simp
  next
    fix w3 assume "only_out w1 w3"
    then have "only_out (set_group g ?gr' w) (?upd w3)" using w1 f only_out_trans by blast
    then show "safely (Inr (?upd w3)) (roster_inv con None)" using u by simp
  qed
  then show ?thesis
    using gr cs(1) by (simp add: ConvertToRaid_def Let_def)
qed

lemma find_first_index: "find P xs = map_option ((!) xs) (first_index P xs)"
  by (induction xs) (auto simp: option.map_comp comp_def)

lemma first_index_update:
  "(\<And>x. P (f x) = P x) \<Longrightarrow> first_index P (xs[k := f (xs ! k)]) = first_index P xs"
  by (induction xs arbitrary: k) (auto split: nat.split)

text \<open>The subgroup of one member changes.\<close>

definition moved :: "guid \<Rightarrow> uint8 \<Rightarrow> group_obj \<Rightarrow> group_obj \<Rightarrow> bool" where
  "moved p sub gr gr' \<longleftrightarrow> g_leaderGuid gr' = g_leaderGuid gr \<and> g_invitees gr' = g_invitees gr \<and>
     g_dbStoreId gr' = g_dbStoreId gr \<and> members gr' = members gr \<and> isRaidGroup gr' = isRaidGroup gr \<and>
     (\<forall>i. in_subgroup i (g_memberSlots gr') + (if unat (GetMemberGroup p gr) = i then 1 else 0) =
          in_subgroup i (g_memberSlots gr) + (if unat sub = i then 1 else 0)) \<and>
     (\<forall>q. GetMemberGroup q gr' = (if q = p then sub else GetMemberGroup q gr))"

lemma moved_map_slot:
  assumes p: "getMemberSlot p gr \<noteq> None"
  shows "moved p sub gr (map_slot p (set_slot_group sub) gr\<lparr>g_subGroupsCounts := cs\<rparr>)"
proof -
  let ?xs = "g_memberSlots gr"
  obtain k where k: "first_index (\<lambda>s. ms_guid s = p) ?xs = Some k"
    using p by (auto simp: getMemberSlot_def find_first_index)
  then have xk: "k < length ?xs" "ms_guid (?xs ! k) = p" by (auto simp: first_index_Some)
  let ?ys = "?xs[k := set_slot_group sub (?xs ! k)]"
  have f: "first_index (\<lambda>s. ms_guid s = q) ?ys = first_index (\<lambda>s. ms_guid s = q) ?xs" for q
    by (rule first_index_update) (simp add: set_slot_group_def)
  have old: "GetMemberGroup p gr = ms_group (?xs ! k)"
    by (simp add: GetMemberGroup_def getMemberSlot_def find_first_index k)
  have "map ms_guid ?ys = map ms_guid ?xs"
    using xk by (simp add: map_update set_slot_group_def list_update_same_conv)
  then have "ms_guid ` set ?ys = ms_guid ` set ?xs" by (metis set_map)
  moreover have "GetMemberGroup q (gr\<lparr>g_memberSlots := ?ys, g_subGroupsCounts := cs\<rparr>) =
      (if q = p then sub else GetMemberGroup q gr)" for q
  proof (cases "first_index (\<lambda>s. ms_guid s = q) ?xs")
    case (Some j)
    then have j: "ms_guid (?xs ! j) = q" by (simp add: first_index_Some)
    have "q = p \<longleftrightarrow> j = k" using Some k j xk(2) by (metis option.inject)
    then have "?ys ! j = (if q = p then set_slot_group sub (?xs ! j) else ?xs ! j)"
      using xk(1) by simp
    then show ?thesis
      using Some by (simp add: GetMemberGroup_def getMemberSlot_def find_first_index f set_slot_group_def [of sub "?xs ! j"])
  next
    case None
    then have "q \<noteq> p" using k by auto
    then show ?thesis using None by (simp add: GetMemberGroup_def getMemberSlot_def find_first_index f)
  qed
  ultimately show ?thesis
    using in_subgroup_update [OF xk(1), of _ "set_slot_group sub (?xs ! k)"]
    by (simp add: moved_def map_slot_def k members_def isRaidGroup_def old set_slot_group_def)
qed


lemma find_unique: "distinct (map f xs) \<Longrightarrow> s \<in> set xs \<Longrightarrow> find (\<lambda>x. f x = f s) xs = Some s"
  by (induction xs) (auto simp: image_iff)

lemma slot_group:
  "distinct (map ms_guid (g_memberSlots gr)) \<Longrightarrow> s \<in> set (g_memberSlots gr) \<Longrightarrow> GetMemberGroup (ms_guid s) gr = ms_group s"
  by (simp add: GetMemberGroup_def getMemberSlot_def find_unique)

lemma map_slot_slots:
  "first_index (\<lambda>s. ms_guid s = p) (g_memberSlots gr) = Some k \<Longrightarrow>
   map_slot p f gr = gr\<lparr>g_memberSlots := (g_memberSlots gr)[k := f (g_memberSlots gr ! k)]\<rparr>"
  by (simp add: map_slot_def)

text \<open>The counters follow the member.\<close>

lemma moved_slots_ok:
  assumes ok: "slots_ok gr" and cs: "g_subGroupsCounts gr = Some cs" and p: "getMemberSlot p gr \<noteq> None"
    and sub: "unat sub < 8" and ne: "GetMemberGroup p gr \<noteq> sub"
  defines "old \<equiv> GetMemberGroup p gr"
  defines "cs' \<equiv> cs[unat sub := cs ! unat sub + 1, unat old := cs ! unat old - 1]"
  shows "unat old < 8" "slots_ok (map_slot p (set_slot_group sub) gr\<lparr>g_subGroupsCounts := Some cs'\<rparr>)"
proof -
  let ?xs = "g_memberSlots gr"
  obtain k where k: "first_index (\<lambda>s. ms_guid s = p) ?xs = Some k"
    using p by (auto simp: getMemberSlot_def find_first_index)
  then have xk: "k < length ?xs" "ms_guid (?xs ! k) = p" by (simp_all add: first_index_Some)
  let ?ys = "?xs[k := set_slot_group sub (?xs ! k)]"
  have d: "distinct (map ms_guid ?xs)" and s8: "\<forall>s \<in> set ?xs. unat (ms_group s) < 8" and raid: "isRaidGroup gr"
    and l8: "length cs = 8" and c: "\<And>i. i < 8 \<Longrightarrow> cs ! i = of_nat (in_subgroup i ?xs)"
    using ok cs by (auto simp: slots_ok_def)
  have old: "old = ms_group (?xs ! k)"
    using slot_group [OF d nth_mem [OF xk(1)]] xk(2) by (simp add: old_def)
  then show o8: "unat old < 8" using s8 xk(1) by simp
  have ne': "unat sub \<noteq> unat old" using ne by (simp add: old_def word_unat_eq_iff)
  have n: "in_subgroup i ?ys + (if unat old = i then 1 else 0) = in_subgroup i ?xs + (if unat sub = i then 1 else 0)" for i
    using in_subgroup_update [OF xk(1), of i "set_slot_group sub (?xs ! k)"] by (simp add: old set_slot_group_def)
  have "cs' ! i = of_nat (in_subgroup i ?ys)" if i: "i < 8" for i
  proof -
    consider "i = unat old" | "i = unat sub" "i \<noteq> unat old" | "i \<noteq> unat old" "i \<noteq> unat sub" by blast
    then show ?thesis
    proof cases
      case 1
      then have "in_subgroup i ?xs = Suc (in_subgroup i ?ys)" using n [of i] ne' by simp
      then show ?thesis using 1 c [OF i] o8 l8 by (simp add: cs'_def)
    next
      case 2
      then have "in_subgroup i ?ys = Suc (in_subgroup i ?xs)" using n [of i] by simp
      then show ?thesis using 2 c [OF i] i l8 by (simp add: cs'_def)
    next
      case 3
      then show ?thesis using n [of i] c [OF i] by (simp add: cs'_def)
    qed
  qed
  moreover have "map ms_guid ?ys = map ms_guid ?xs"
    using xk by (simp add: map_update set_slot_group_def list_update_same_conv)
  moreover have "unat (ms_group s) < 8" if "s \<in> set ?ys" for s
    using that set_update_subset_insert [of ?xs k "set_slot_group sub (?xs ! k)"] s8 sub
    by (auto simp: set_slot_group_def)
  moreover have "length cs' = 8" using l8 by (simp add: cs'_def)
  ultimately show "slots_ok (map_slot p (set_slot_group sub) gr\<lparr>g_subGroupsCounts := Some cs'\<rparr>)"
    using d raid by (simp add: slots_ok_def map_slot_slots [OF k] isRaidGroup_def)
qed

lemma count_some:
  "g_subGroupsCounts gr = Some cs \<Longrightarrow> unat sub < length cs \<Longrightarrow>
   SubGroupCounterIncrease sub gr = Inr (gr\<lparr>g_subGroupsCounts := Some (cs[unat sub := cs ! unat sub + 1])\<rparr>)"
  "g_subGroupsCounts gr = Some cs \<Longrightarrow> unat sub < length cs \<Longrightarrow>
   SubGroupCounterDecrease sub gr = Inr (gr\<lparr>g_subGroupsCounts := Some (cs[unat sub := cs ! unat sub - 1])\<rparr>)"
  by (simp_all add: SubGroupCounterIncrease_def SubGroupCounterDecrease_def count_at_def)

text \<open>What is left of the links of the players when only subgroups change.\<close>

definition same_groups :: "group_world \<Rightarrow> group_world \<Rightarrow> bool" where
  "same_groups w w' \<longleftrightarrow> gw_GroupStore w' = gw_GroupStore w \<and> gw_GroupDbStore w' = gw_GroupDbStore w \<and>
     (\<forall>p. gp_group (gw_players w' p) = gp_group (gw_players w p) \<and>
          gp_invite (gw_players w' p) = gp_invite (gw_players w p))"

lemma map_slot_frame [simp]:
  "g_refs (map_slot p f gr) = g_refs gr" "g_invitees (map_slot p f gr) = g_invitees gr"
  "g_bgGroup (map_slot p f gr) = g_bgGroup gr" "g_targetIcons (map_slot p f gr) = g_targetIcons gr"
  "g_guid (map_slot p f gr) = g_guid gr" "g_dbStoreId (map_slot p f gr) = g_dbStoreId gr"
  "g_subGroupsCounts (map_slot p f gr) = g_subGroupsCounts gr" "isRaidGroup (map_slot p f gr) = isRaidGroup gr"
  by (simp_all add: map_slot_def isRaidGroup_def split: option.split)

lemma move_link_frame [simp]:
  "gw_groups (move_link ge p g sub w) = gw_groups w" "gw_next (move_link ge p g sub w) = gw_next w"
  "gw_GroupStore (move_link ge p g sub w) = gw_GroupStore w"
  "gw_GroupDbStore (move_link ge p g sub w) = gw_GroupDbStore w"
  "gp_group (gw_players (move_link ge p g sub w) q) = gp_group (gw_players w q)"
  "gp_invite (gw_players (move_link ge p g sub w) q) = gp_invite (gw_players w q)"
  "gp_original (gw_players (move_link ge p g sub w) q) = gp_original (gw_players w q)"
  by (simp_all add: move_link_def Let_def)

lemma group_inv_frame:
  "gw_next w' = gw_next w \<Longrightarrow> (\<And>p. gp_group (gw_players w' p) = gp_group (gw_players w p)) \<Longrightarrow>
   (\<And>p. gp_invite (gw_players w' p) = gp_invite (gw_players w p)) \<Longrightarrow> group_inv g gr w' = group_inv g gr w"
  by (simp add: group_inv_def)

lemma member_moved_inv:
  assumes inv: "roster_inv con (Some g) w" and gr: "gw_groups w g = Some gr" and con: "con = le_FindConnected (ge_env ge)"
    and ok: "slots_ok gr'" and gr': "gr' = map_slot p (set_slot_group sub) gr\<lparr>g_subGroupsCounts := cs\<rparr>"
    and m: "moved p sub gr gr'" and ne: "GetMemberGroup p gr \<noteq> sub" and p: "p \<in> members gr"
  shows "roster_inv con (Some g) (move_link ge p g sub (set_group g gr' w))"
proof (rule change_group [OF inv gr, of _ gr'])
  let ?w = "move_link ge p g sub (set_group g gr' w)"
  have d: "distinct (map ms_guid (g_memberSlots gr))" and d': "distinct (map ms_guid (g_memberSlots gr'))"
    using invD(1) [OF inv gr] ok by (simp_all add: group_inv_def slots_ok_def split: option.splits)
  have g': "GetMemberGroup q gr' = (if q = p then sub else GetMemberGroup q gr)" for q
    using m by (simp add: moved_def)
  have seat: "\<exists>s' \<in> set (g_memberSlots gr'). ms_guid s' = q \<and> ms_group s' = GetMemberGroup q gr'" if "q \<in> members gr" for q
  proof -
    have "q \<in> members gr'" using that m by (simp add: moved_def)
    then obtain s where "s \<in> set (g_memberSlots gr')" "ms_guid s = q" by (auto simp: members_def)
    then show ?thesis using slot_group [OF d'] by metis
  qed
  have pg: "gp_group (gw_players w p) = None \<or> gp_group (gw_players w p) = Some g"
    by (rule member_group [OF inv gr p])
  have moves: "gw_players ?w p \<noteq> gw_players w p" if "gp_group (gw_players w p) = Some g"
  proof -
    have "gp_subGroup (gw_players w p) = GetMemberGroup p gr"
      using invD(3) [OF inv, of p] that gr slot_group [OF d] by (auto simp: player_inv_def)
    moreover have "gp_subGroup (gw_players ?w p) = sub"
      using that live(3) [OF inv that] by (simp add: move_link_def con Let_def)
    ultimately show ?thesis using ne by auto
  qed
  show "group_inv g gr' ?w"
    using invD(1) [OF inv gr] ok by (simp add: group_inv_def gr')
  show "player_inv con q ?w" if "gw_players ?w q \<noteq> gw_players w q" for q
  proof -
    have q: "q = p" "le_FindConnected (ge_env ge) p" using that by (auto simp: move_link_def Let_def split: if_splits)
    show ?thesis
      using invD(3) [OF inv, of p] pg seat [OF p] g' gr q by (auto simp: player_inv_def move_link_def Let_def)
  qed
  show "\<exists>s' \<in> set (g_memberSlots gr'). ms_guid s' = ms_guid s \<and> ms_group s' = ms_group s"
    if "s \<in> set (g_memberSlots gr)" "gw_players ?w (ms_guid s) = gw_players w (ms_guid s)"
      "gp_group (gw_players w (ms_guid s)) = Some g" for s
  proof -
    have "ms_guid s \<noteq> p" using that moves by auto
    then show ?thesis
      using seat [of "ms_guid s"] g' slot_group [OF d that(1)] that(1) by (auto simp: members_def)
  qed
qed (use m in \<open>auto simp: gr' moved_def\<close>)


definition regrouped :: "guid \<Rightarrow> uint8 \<Rightarrow> group_obj \<Rightarrow> group_obj \<Rightarrow> bool" where
  "regrouped p sub gr gr' \<longleftrightarrow>
     (if isRaidGroup gr \<and> getMemberSlot p gr \<noteq> None \<and> GetMemberGroup p gr \<noteq> sub then moved p sub gr gr' else gr' = gr)"

lemma ChangeMembersGroup_inv:
  assumes inv: "roster_inv con (Some g) w" and gr: "gw_groups w g = Some gr" and con: "con = le_FindConnected (ge_env ge)"
    and sub: "unat sub < 8"
  shows "safely (ChangeMembersGroup ge p sub g w) (\<lambda>w'. roster_inv con (Some g) w' \<and> same_groups w w' \<and>
    (\<exists>gr'. gw_groups w' g = Some gr' \<and> regrouped p sub gr gr'))"
proof (cases "isRaidGroup gr \<and> getMemberSlot p gr \<noteq> None \<and> GetMemberGroup p gr \<noteq> sub")
  case False
  then show ?thesis
    using gr inv by (auto simp: ChangeMembersGroup_def regrouped_def same_groups_def)
next
  case True
  let ?old = "GetMemberGroup p gr"
  have ok: "slots_ok gr" using invD(1) [OF inv gr] by (simp add: group_inv_def)
  then obtain cs where cs: "g_subGroupsCounts gr = Some cs" "length cs = 8"
    using True by (auto simp: slots_ok_def split: option.splits)
  define cs' where "cs' = cs[unat sub := cs ! unat sub + 1, unat ?old := cs ! unat ?old - 1]"
  define gr' where "gr' = map_slot p (set_slot_group sub) gr\<lparr>g_subGroupsCounts := Some cs'\<rparr>"
  have o8: "unat ?old < 8" and ok': "slots_ok gr'"
    using moved_slots_ok [OF ok cs(1) _ sub] True by (simp_all add: gr'_def cs'_def)
  have ne: "unat sub \<noteq> unat ?old" using True by (metis word_unat_eq_iff)
  have m: "moved p sub gr gr'" unfolding gr'_def by (rule moved_map_slot) (use True in simp)
  have p: "p \<in> members gr" using True leader_is_member by blast
  have eff: "ChangeMembersGroup ge p sub g w = SendUpdate ge g (move_link ge p g sub
      (let w1 = set_group g gr' w in if g_bgGroup gr then w1
       else gstmt ''CHAR_UPD_GROUP_MEMBER_SUBGROUP'' [ucast sub, ucast (guid_counter p)] w1))"
    using True sub o8 ne
    by (auto simp: ChangeMembersGroup_def gr count_some cs gr'_def cs'_def Let_def)
  have nb: "\<not> g_bgGroup gr" by (rule not_bg [OF inv gr])
  have out: "only_out (move_link ge p g sub w1) (move_link ge p g sub (gstmt what args w1))" for what args w1
    unfolding only_out_def
    by (rule exI [of _ "gw_world (gstmt what args w1)"])
      (simp add: move_link_def gstmt_def gemit_def set_player_def Let_def)
  have i: "roster_inv con (Some g) (move_link ge p g sub (set_group g gr' w))"
    by (rule member_moved_inv [OF inv gr con ok' gr'_def m _ p]) (use True in simp)
  show ?thesis
    unfolding eff Let_def if_not_P [OF nb]
  proof (rule safely_mono [OF SendUpdate_out [where gr = gr']])
    fix w' assume w': "only_out (move_link ge p g sub (gstmt ''CHAR_UPD_GROUP_MEMBER_SUBGROUP''
        [ucast sub, ucast (guid_counter p)] (set_group g gr' w))) w'"
    then have "roster_inv con (Some g) w'"
      using i roster_inv_out [OF only_out_trans [OF out w']] by simp
    moreover have "gw_groups w' g = Some gr'" "same_groups w w'"
      using only_out_frame [OF w'] by (simp_all add: same_groups_def)
    ultimately show "roster_inv con (Some g) w' \<and> same_groups w w' \<and> (\<exists>gr'. gw_groups w' g = Some gr' \<and> regrouped p sub gr gr')"
      using m True by (auto simp: regrouped_def)
  qed simp
qed

text \<open>When no subgroup has become too large the group is settled again.\<close>

lemma resettle:
  assumes old: "roster_inv con None w" and gr: "gw_groups w g = Some gr" and c: "IsCreated gr"
    and new: "roster_inv con (Some g) w'" "gw_groups w' g = Some gr'" and links: "same_groups w w'"
    and same: "g_leaderGuid gr' = g_leaderGuid gr" "g_dbStoreId gr' = g_dbStoreId gr" "members gr' = members gr"
    and r: "roomy gr'"
  shows "roster_inv con None w'"
proof (rule settle [OF new])
  have c': "IsCreated gr'"
    using c same(3) by (auto simp: IsCreated_def GetMembersCount_def members_def)
  then show "settled con g gr' w'"
    using invD(2) [OF old gr] c links same r by (simp add: settled_def same_groups_def)
  show "IsCreated gr' \<or> unlisted g w'" using c' by simp
qed


section \<open>Members\<close>

lemma first_free_Some:
  "first_free i cs = Some s \<Longrightarrow> unat i + length cs < 256 \<Longrightarrow>
   unat i \<le> unat s \<and> unat s < unat i + length cs \<and> unat (cs ! (unat s - unat i)) < 5"
proof (induction i cs rule: first_free.induct)
  case (2 i c cs)
  show ?case
  proof (cases "unat c < 5")
    case False
    have "unat (i + 1) = unat i + 1"
      using 2(3) by (intro unat_add_lem [THEN iffD1, THEN trans]) auto
    moreover have "unat s - unat i = Suc (unat s - unat (i + 1))" if "unat (i + 1) \<le> unat s"
      using that calculation by simp
    ultimately show ?thesis using 2 False by auto
  qed (use 2 in auto)
qed simp

lemma first_free_None: "first_free i cs = None \<longleftrightarrow> (\<forall>c \<in> set cs. unat c \<ge> 5)"
  by (induction i cs rule: first_free.induct) auto

lemma add_slot_ok:
  assumes ok: "slots_ok gr" and p: "p \<notin> members gr" and sub: "free_subgroup gr = Some sub"
  shows "\<exists>cs. SubGroupCounterIncrease sub (add_slot p n sub gr) = Inr (add_slot p n sub gr\<lparr>g_subGroupsCounts := cs\<rparr>) \<and>
    slots_ok (add_slot p n sub gr\<lparr>g_subGroupsCounts := cs\<rparr>)"
proof (cases "g_subGroupsCounts gr")
  case None
  then show ?thesis
    using ok p sub
    by (intro exI [of _ None])
      (auto simp: slots_ok_def add_slot_def members_def free_subgroup_def isRaidGroup_def
        SubGroupCounterIncrease_def count_at_def)
next
  case (Some cs)
  have c: "length cs = 8" "\<forall>i < 8. cs ! i = of_nat (in_subgroup i (g_memberSlots gr))" "isRaidGroup gr"
    using ok Some by (auto simp: slots_ok_def)
  have s: "unat sub < 8"
    using sub Some c(1) first_free_Some [of 0 cs sub] by (simp add: free_subgroup_def)
  let ?cs = "cs[unat sub := cs ! unat sub + 1]"
  have "\<forall>i < 8. ?cs ! i = of_nat (in_subgroup i (g_memberSlots gr @ [\<lparr>ms_guid = p, ms_name = n, ms_group = sub, ms_flags = 0, ms_roles = 0\<rparr>]))"
    using c s by (auto simp: in_subgroup_def nth_list_update)
  then show ?thesis
    using ok p Some c s
    by (intro exI [of _ "Some ?cs"]) (auto simp: slots_ok_def add_slot_def members_def isRaidGroup_def count_some)
qed

lemma add_slot_roomy:
  assumes ok: "slots_ok gr" and r: "roomy gr" and sub: "free_subgroup gr = Some sub"
    and len: "isRaidGroup gr \<or> length (g_memberSlots gr) < 5"
  shows "roomy (add_slot p n sub gr\<lparr>g_subGroupsCounts := cs'\<rparr>)"
proof (cases "g_subGroupsCounts gr")
  case None
  then have "length (g_memberSlots gr) < 5" using len ok by (simp add: slots_ok_def)
  then show ?thesis
    using in_subgroup_le [of _ "g_memberSlots gr"]
    by (auto simp: roomy_def add_slot_def in_subgroup_append in_subgroup_def intro: le_trans [OF length_filter_le])
next
  case (Some cs)
  have c: "length cs = 8" "\<forall>i < 8. cs ! i = of_nat (in_subgroup i (g_memberSlots gr))"
    using ok Some by (auto simp: slots_ok_def)
  have s: "unat sub < 8" "unat (cs ! unat sub) < 5"
    using sub Some c(1) first_free_Some [of 0 cs sub] by (simp_all add: free_subgroup_def)
  have n: "in_subgroup (unat sub) (g_memberSlots gr) \<le> 5" using r by (simp add: roomy_def)
  then have "in_subgroup (unat sub) (g_memberSlots gr) < 5"
    using c(2) s by (simp add: unat_of_nat)
  then show ?thesis
    using r by (auto simp: roomy_def add_slot_def in_subgroup_append) (auto simp: in_subgroup_def)
qed

definition joined :: "guid \<Rightarrow> nat \<Rightarrow> group_obj \<Rightarrow> group_world \<Rightarrow> group_world \<Rightarrow> bool" where
  "joined p g gr w w' \<longleftrightarrow> gw_GroupStore w' = gw_GroupStore w \<and> gw_GroupDbStore w' = gw_GroupDbStore w \<and>
     (\<forall>q. gp_group (gw_players w' q) = (if q = p then Some g else gp_group (gw_players w q)) \<and>
          gp_invite (gw_players w' q) = gp_invite (gw_players w q)) \<and>
     (\<exists>gr'. gw_groups w' g = Some gr' \<and> members gr' = insert p (members gr) \<and> g_leaderGuid gr' = g_leaderGuid gr \<and>
        g_invitees gr' = g_invitees gr \<and> g_dbStoreId gr' = g_dbStoreId gr \<and> g_guid gr' = g_guid gr \<and>
        isRaidGroup gr' = isRaidGroup gr \<and> length (g_memberSlots gr') = Suc (length (g_memberSlots gr)) \<and>
        (roomy gr \<and> (isRaidGroup gr \<or> length (g_memberSlots gr) < 5) \<longrightarrow> roomy gr'))"

lemma joined_quiet:
  assumes j: "joined p g gr w w'" and q: "quiet g w' w''"
    and l: "\<And>a b. gw_groups w' g = Some a \<Longrightarrow> gw_groups w'' g = Some b \<Longrightarrow> g_leaderGuid b = g_leaderGuid a"
  shows "joined p g gr w w''"
proof -
  obtain a b where ab: "gw_groups w' g = Some a" "gw_groups w'' g = Some b" "like a b"
    using quiet_live [OF q] by blast
  have "g_invitees b = g_invitees a \<and> g_dbStoreId b = g_dbStoreId a \<and> g_guid b = g_guid a \<and> isRaidGroup b = isRaidGroup a"
    using ab(3) by (simp add: like_def)
  moreover have "length (g_memberSlots b) = length (g_memberSlots a)"
    using ab(3) count_seats [of a] count_seats [of b] by (simp add: like_def GetMembersCount_def)
  ultimately show ?thesis
    using j ab l [OF ab(1,2)] like_members [OF ab(3)] like_roomy [OF ab(3)] quiet_links [OF q]
    by (simp add: joined_def same_links_def)
qed

lemma not_elsewhere:
  assumes inv: "roster_inv con (Some g) w" and p: "gp_group (gw_players w p) = None" "con p"
    and h: "h \<noteq> g" "gw_groups w h = Some hr"
  shows "p \<notin> members hr"
proof
  assume m: "p \<in> members hr"
  then have "IsCreated hr" by (auto simp: IsCreated_def GetMembersCount_def members_def)
  then show False using invD(2) [OF inv h(2)] h(1) m p by (auto simp: settled_def)
qed


lemma AddMember_inv:
  assumes inv: "roster_inv con (Some g) w" and gr: "gw_groups w g = Some gr"
    and p: "gp_group (gw_players w p) = None" "gp_invite (gw_players w p) = None" "con p" "p \<notin> members gr"
  shows "safely (AddMember ge p g w) (\<lambda>(ok, w'). roster_inv con (Some g) w' \<and>
    (if ok then joined p g gr w w' else w' = w \<and> free_subgroup gr = None))"
proof (cases "free_subgroup gr")
  case None
  then show ?thesis using inv gr by (simp add: AddMember_def)
next
  case (Some sub)
  note gi = invD(1) [OF inv gr]
  obtain cs where cnt: "SubGroupCounterIncrease sub (add_slot p (ge_name ge p) sub gr) =
        Inr (add_slot p (ge_name ge p) sub gr\<lparr>g_subGroupsCounts := cs\<rparr>)"
      and ok: "slots_ok (add_slot p (ge_name ge p) sub gr\<lparr>g_subGroupsCounts := cs\<rparr>)"
    using add_slot_ok [OF _ p(4) Some, of "ge_name ge p"] gi unfolding group_inv_def by blast
  define gr1 where "gr1 = add_slot p (ge_name ge p) sub gr\<lparr>g_subGroupsCounts := cs\<rparr>"
  define w1 where "w1 = set_group g gr1 w"
  have fields: "g_refs gr1 = g_refs gr" "g_invitees gr1 = g_invitees gr" "g_bgGroup gr1 = g_bgGroup gr"
    "g_targetIcons gr1 = g_targetIcons gr" "g_guid gr1 = g_guid gr" "g_dbStoreId gr1 = g_dbStoreId gr"
    "g_leaderGuid gr1 = g_leaderGuid gr" "members gr1 = insert p (members gr)" "isRaidGroup gr1 = isRaidGroup gr"
    "length (g_memberSlots gr1) = Suc (length (g_memberSlots gr))" "(p, sub) \<in> set (seat_list gr1)"
    "set (g_memberSlots gr) \<subseteq> set (g_memberSlots gr1)"
    by (auto simp: gr1_def add_slot_def members_def isRaidGroup_def seat_list_def)
  have room: "roomy gr \<and> (isRaidGroup gr \<or> length (g_memberSlots gr) < 5) \<longrightarrow> roomy gr1"
    using add_slot_roomy [OF _ _ Some] gi unfolding gr1_def group_inv_def by blast
  have i1: "roster_inv con (Some g) w1"
  proof (rule change_group [OF inv gr])
    show "gw_groups w1 = (gw_groups w)(g \<mapsto> gr1)" by (simp add: w1_def)
    show "group_inv g gr1 w1" using gi ok unfolding group_inv_def fields w1_def gr1_def [symmetric] by simp
  qed (use fields not_elsewhere [OF inv p(1,3)] in \<open>auto simp: w1_def\<close>)
  have g1: "gw_groups w1 g = Some gr1" "gp_group (gw_players w1 p) = None" "gp_invite (gw_players w1 p) = None"
    using p by (simp_all add: w1_def)
  have same: "SetGroupInvite p None w1 = w1"
    by (simp add: SetGroupInvite_def g1(3))
  let ?l = "\<lambda>w2. roster_inv con (Some g) w2 \<and> joined p g gr w w2"
  let ?gr2 = "gr1\<lparr>g_refs := (p, False) # g_refs gr1\<rparr>"
  let ?w2 = "set_group g ?gr2 (set_player p ((gw_players w1 p)\<lparr>gp_group := Some g, gp_subGroup := sub\<rparr>) w1)"
  have "isRaidGroup ?gr2 = isRaidGroup gr1" by (simp add: isRaidGroup_def)
  then have "joined p g gr w ?w2"
    unfolding joined_def using fields room by (intro conjI exI [of _ ?gr2]) (simp_all add: w1_def)
  moreover have e: "link False p g sub w1 = Inr ?w2" by (rule link_effect [OF g1(2,1)])
  ultimately have link: "safely (link False p g sub w1) ?l"
    using link_inv [OF i1 g1 p(3) fields(11)] unfolding e by simp
  have nb: "\<not> g_bgGroup gr" by (rule not_bg [OF inv gr])
  have step: "?l w3" if "?l w2" "quiet g w2 w3"
    "\<And>a b. gw_groups w2 g = Some a \<Longrightarrow> gw_groups w3 g = Some b \<Longrightarrow> g_leaderGuid b = g_leaderGuid a" for w2 w3
    using that quiet_inv joined_quiet by blast
  have live: "\<exists>a. gw_groups w2 g = Some a" if "?l w2" for w2 using that by (auto simp: joined_def)
  have out: "?l w3" if "?l w2" "only_out w2 w3" for w2 w3
    using live [OF that(1)] step [OF that(1)] quiet_out [OF _ that(2)] only_out_frame [OF that(2)] by fastforce
  have icons: "safely (update_group g (\<lambda>gr. if isRaidGroup gr then gr else gr\<lparr>g_targetIcons := replicate 8 0\<rparr>) w2) ?l"
    if w2: "?l w2" for w2
  proof -
    obtain a where a: "gw_groups w2 g = Some a" using live [OF w2] by blast
    have "length (g_targetIcons a) = 8" using invD(1) [of con "Some g" w2 g a] w2 a by (simp add: group_inv_def)
    then have "like a (if isRaidGroup a then a else a\<lparr>g_targetIcons := replicate 8 0\<rparr>)"
      by (simp add: like_def seat_list_def isRaidGroup_def)
    then have q: "quiet g w2 (set_group g (if isRaidGroup a then a else a\<lparr>g_targetIcons := replicate 8 0\<rparr>) w2)"
      by (intro quiet_set [OF a]) simp_all
    show ?thesis
      unfolding update_group_def with_group_live [OF a] safely_simps
      by (rule step [OF w2 q]) (use a in auto)
  qed
  have rest: "safely (bind_result (SendUpdate ge g w3) (\<lambda>w4. Inr (True, welcome_member ge p gr w4)))
      (\<lambda>(ok, w'). roster_inv con (Some g) w' \<and> (if ok then joined p g gr w w' else w' = w \<and> free_subgroup gr = None))"
    if w3: "?l w3" for w3
  proof -
    obtain a where a: "gw_groups w3 g = Some a" using live [OF w3] by blast
    show ?thesis
      by (rule safely_bindI [OF SendUpdate_out [OF a]])
        (use out [OF out [OF w3] welcome_member_out] in simp)
  qed
  have "AddMember ge p g w = bind_result (link False p g sub w1) (\<lambda>w1.
      bind_result (update_group g (\<lambda>gr. if isRaidGroup gr then gr else gr\<lparr>g_targetIcons := replicate 8 0\<rparr>)
        (gcall p ''CheckInstanceValidity'' [0] w1)) (\<lambda>w2.
      bind_result (SendUpdate ge g (if g_bgGroup gr \<or> ge_testingBot ge p then w2
        else gstmt ''CHAR_INS_GROUP_MEMBER'' [ucast (g_dbStoreId gr), ucast (guid_counter p), 0, ucast sub, 0] w2))
        (\<lambda>w4. Inr (True, welcome_member ge p gr w4))))"
    using gr Some cnt g1(2) same by (simp add: AddMember_def gr1_def w1_def join_link_def SetGroup_def Let_def)
  moreover have "?l (if b then w2 else gstmt what args w2)" if "?l w2" for w2 b what args
    using that out [of w2 "gstmt what args w2"] by simp
  moreover have "?l (gcall q what args w2)" if "?l w2" for w2 q what args
    using that out [of w2 "gcall q what args w2"] by simp
  ultimately show ?thesis
    by (simp only:) (intro safely_bindI [OF link] safely_bindI [OF icons] rest; assumption?)
qed


end
