(* ===== verification/GroupForm.thy ===== *)
theory GroupForm
  imports GroupInv
begin

text \<open>
  Groups come and go: invitations that found a group, the first acceptance that creates it with
  its numbers in the group manager, declining, and disbanding.
\<close>

section \<open>Numbers in the group manager\<close>

lemma register_length:
  "length (gw_GroupDbStore (RegisterGroupDbStoreId i g w)) \<ge> length (gw_GroupDbStore w)"
  "unat i < length (gw_GroupDbStore (RegisterGroupDbStoreId i g w))"
  by (simp_all add: RegisterGroupDbStoreId_def Let_def)

lemma register_entry:
  assumes "j < length (gw_GroupDbStore (RegisterGroupDbStoreId i g w))"
    and "gw_GroupDbStore (RegisterGroupDbStoreId i g w) ! j = Some h"
  shows "j = unat i \<and> h = g \<or> j < length (gw_GroupDbStore w) \<and> gw_GroupDbStore w ! j = Some h"
  using assms by (auto simp: RegisterGroupDbStoreId_def Let_def nth_list_update nth_append split: if_splits)

lemma register_frame [simp]:
  "gw_groups (RegisterGroupDbStoreId i g w) = gw_groups w" "gw_players (RegisterGroupDbStoreId i g w) = gw_players w"
  "gw_next (RegisterGroupDbStoreId i g w) = gw_next w" "gw_GroupStore (RegisterGroupDbStoreId i g w) = gw_GroupStore w"
  by (simp_all add: RegisterGroupDbStoreId_def Let_def)

lemma ids_frame:
  assumes "GenerateGroupId w = (i, w')"
  shows "gw_groups w' = gw_groups w" "gw_players w' = gw_players w" "gw_next w' = gw_next w"
    "gw_GroupStore w' = gw_GroupStore w" "gw_GroupDbStore w' = gw_GroupDbStore w"
  using assms by (auto simp: GenerateGroupId_def Let_def)

lemma storage_ids_frame:
  assumes "GenerateNewGroupDbStoreId w = (i, w')"
  shows "gw_groups w' = gw_groups w" "gw_players w' = gw_players w" "gw_next w' = gw_next w"
    "gw_GroupStore w' = gw_GroupStore w" "gw_GroupDbStore w' = gw_GroupDbStore w"
  using assms by (auto simp: GenerateNewGroupDbStoreId_def Let_def)

lemma manager_entry:
  assumes "manager_inv b w"
  shows "(i, h) \<in> set (gw_GroupStore w) \<Longrightarrow>
      \<exists>hr. gw_groups w h = Some hr \<and> guid_counter (g_guid hr) = i \<and> (b = Some h \<or> IsCreated hr)"
    and "j < length (gw_GroupDbStore w) \<Longrightarrow> gw_GroupDbStore w ! j = Some h \<Longrightarrow>
      \<exists>hr. gw_groups w h = Some hr \<and> unat (g_dbStoreId hr) = j \<and> (b = Some h \<or> IsCreated hr)"
  using assms unfolding manager_inv_def by blast+

lemma set_omap_set: "set (omap_set k v m) \<subseteq> insert (k, v) (set m)"
  by (induction k v m rule: omap_set.induct) auto

lemma set_omap_erase: "omap_ok m \<Longrightarrow> set (omap_erase k m) = {e \<in> set m. fst e \<noteq> k}"
  by (induction k m rule: omap_erase.induct) (auto simp: omap_ok_def)

lemma AddGroup_inv:
  assumes inv: "roster_inv con b w" and gr: "gw_groups w g = Some gr" and ok: "b = Some g \<or> IsCreated gr"
  shows "\<exists>m. AddGroup g w = Inr (w\<lparr>gw_GroupStore := m\<rparr>) \<and> roster_inv con b (w\<lparr>gw_GroupStore := m\<rparr>)"
proof -
  let ?m = "omap_set (guid_counter (g_guid gr)) g (gw_GroupStore w)"
  have m: "manager_inv b w" by (rule invD(5) [OF inv])
  have "manager_inv b (w\<lparr>gw_GroupStore := ?m\<rparr>)"
    using m gr ok set_omap_set [of "guid_counter (g_guid gr)" g "gw_GroupStore w"]
    unfolding manager_inv_def by (auto simp: omap_set_ok)
  moreover have "group_inv h hr (w\<lparr>gw_GroupStore := ?m\<rparr>) = group_inv h hr w"
    "settled con h hr (w\<lparr>gw_GroupStore := ?m\<rparr>) = settled con h hr w"
    "player_inv con p (w\<lparr>gw_GroupStore := ?m\<rparr>) = player_inv con p w" for h hr p
    by (simp_all add: group_inv_def settled_def player_inv_def)
  ultimately have "roster_inv con b (w\<lparr>gw_GroupStore := ?m\<rparr>)"
    using inv by (simp add: roster_inv_def)
  then show ?thesis using gr by (intro exI [of _ ?m]) (simp add: AddGroup_def)
qed

text \<open>The group gets its numbers while it has no members and is not in the manager.\<close>

lemma numbered:
  assumes inv: "roster_inv con (Some g) w" and gr: "gw_groups w g = Some gr" and un: "unlisted g w"
    and same: "g_refs gr' = g_refs gr" "g_invitees gr' = g_invitees gr" "g_bgGroup gr' = g_bgGroup gr"
      "g_targetIcons gr' = g_targetIcons gr" "g_memberSlots gr = []" "g_memberSlots gr' = []"
      "g_subGroupsCounts gr' = None" "\<not> isRaidGroup gr'"
    and w': "gw_groups w' = (gw_groups w)(g \<mapsto> gr')" "gw_next w' = gw_next w" "gw_GroupStore w' = gw_GroupStore w"
      "gw_GroupDbStore w' = gw_GroupDbStore (RegisterGroupDbStoreId (g_dbStoreId gr') g w)"
    and links: "\<And>p. gp_group (gw_players w' p) = gp_group (gw_players w p)"
      "\<And>p. gp_invite (gw_players w' p) = gp_invite (gw_players w p)"
      "\<And>p. gp_original (gw_players w' p) = gp_original (gw_players w p)"
      "\<And>p. gp_subGroup (gw_players w' p) = gp_subGroup (gw_players w p)"
  shows "roster_inv con (Some g) w'"
proof (rule change_group_ids [OF inv gr w'(1,2)])
  show "length (gw_GroupDbStore w') \<ge> length (gw_GroupDbStore w)" using w'(4) register_length by simp
  show "manager_inv (Some g) w'"
    unfolding manager_inv_def w'(3,4)
  proof (intro conjI allI impI)
    show "omap_ok (gw_GroupStore w)" using invD(5) [OF inv] by (simp add: manager_inv_def)
  next
    fix i h assume e: "(i, h) \<in> set (gw_GroupStore w)"
    then have "h \<noteq> g" using un by (force simp: unlisted_def)
    then show "\<exists>hr. gw_groups w' h = Some hr \<and> guid_counter (g_guid hr) = i \<and> (Some g \<noteq> Some h \<longrightarrow> IsCreated hr)"
      using manager_entry(1) [OF invD(5) [OF inv] e] w'(1) by auto
  next
    fix i h assume e: "i < length (gw_GroupDbStore (RegisterGroupDbStoreId (g_dbStoreId gr') g w))"
      "gw_GroupDbStore (RegisterGroupDbStoreId (g_dbStoreId gr') g w) ! i = Some h"
    show "\<exists>hr. gw_groups w' h = Some hr \<and> unat (g_dbStoreId hr) = i \<and> (Some g \<noteq> Some h \<longrightarrow> IsCreated hr)"
    proof (cases "h = g")
      case True
      then have "i = unat (g_dbStoreId gr')"
        using register_entry [OF e] un unfolding unlisted_def by (metis nth_mem)
      then show ?thesis using True w'(1) by simp
    next
      case False
      then have "i < length (gw_GroupDbStore w)" "gw_GroupDbStore w ! i = Some h" using register_entry [OF e] by auto
      then show ?thesis using manager_entry(2) [OF invD(5) [OF inv]] False w'(1) by auto
    qed
  qed
  show "group_inv g gr' w'"
    using invD(1) [OF inv gr] same w'(2) links by (simp add: group_inv_def slots_ok_def)
  show "player_inv con p w'" for p
    using invD(3) [OF inv, of p] same w'(1) links gr by (auto simp: player_inv_def)
qed (use same links in \<open>auto simp: members_def\<close>)

lemma register_cong:
  "gw_GroupDbStore v = gw_GroupDbStore w \<Longrightarrow>
   gw_GroupDbStore (RegisterGroupDbStoreId i g v) = gw_GroupDbStore (RegisterGroupDbStoreId i g w)"
  by (simp add: RegisterGroupDbStoreId_def Let_def)

section \<open>Creating a group\<close>

definition founded :: "guid \<Rightarrow> nat \<Rightarrow> group_obj \<Rightarrow> group_world \<Rightarrow> group_world \<Rightarrow> bool" where
  "founded p g gr w w' \<longleftrightarrow>
     (\<forall>q. gp_group (gw_players w' q) = (if q = p then Some g else gp_group (gw_players w q)) \<and>
          gp_invite (gw_players w' q) = gp_invite (gw_players w q)) \<and>
     (\<exists>gr'. gw_groups w' g = Some gr' \<and> members gr' = {p} \<and> g_leaderGuid gr' = p \<and> roomy gr' \<and>
        unat (g_dbStoreId gr') < length (gw_GroupDbStore w') \<and> \<not> isRaidGroup gr' \<and> length (g_memberSlots gr') = 1)"

lemma founded_settled:
  assumes inv: "roster_inv con (Some g) w'" and f: "founded p g gr w w'"
  shows "roster_inv con None w'"
proof -
  obtain gr' where g': "gw_groups w' g = Some gr'" "members gr' = {p}" "g_leaderGuid gr' = p" "roomy gr'"
      "unat (g_dbStoreId gr') < length (gw_GroupDbStore w')" "length (g_memberSlots gr') = 1"
    using f by (auto simp: founded_def)
  have c: "IsCreated gr'" using g'(6) by (simp add: IsCreated_def GetMembersCount_def)
  have "settled con g gr' w'"
    using g' c f by (simp add: settled_def founded_def)
  then show ?thesis using settle [OF inv g'(1)] c by blast
qed

lemma Group_Create_inv:
  assumes inv: "roster_inv con (Some g) w" and gr: "gw_groups w g = Some gr" and un: "unlisted g w"
    and e: "g_memberSlots gr = []" "g_subGroupsCounts gr = None"
    and p: "gp_group (gw_players w p) = None" "gp_invite (gw_players w p) = None" "con p"
  shows "safely (Group_Create ge p g w) (\<lambda>(ok, w'). roster_inv con None w' \<and> founded p g gr w w')"
proof -
  have nb: "\<not> g_bgGroup gr" by (rule not_bg [OF inv gr])
  obtain lowguid w1 where w1: "GenerateGroupId w = (lowguid, w1)" by (cases "GenerateGroupId w")
  define w2 where "w2 = set_leader_flag True p w1"
  obtain i w3 where w3: "GenerateNewGroupDbStoreId w2 = (i, w3)" by (cases "GenerateNewGroupDbStoreId w2")
  define gr3 where "gr3 = create_object ge p lowguid gr\<lparr>g_dbStoreId := i\<rparr>"
  have raid: "\<not> isRaidGroup (create_object ge p lowguid gr)" "\<not> isRaidGroup gr3"
    using nb by (simp_all add: create_object_def isRaidGroup_def gr3_def)
  have gr3: "g_refs gr3 = g_refs gr" "g_invitees gr3 = g_invitees gr" "g_bgGroup gr3 = g_bgGroup gr"
    "g_targetIcons gr3 = g_targetIcons gr" "g_memberSlots gr3 = []" "g_subGroupsCounts gr3 = None"
    "g_dbStoreId gr3 = i" "g_leaderGuid gr3 = p"
    using e by (simp_all add: gr3_def create_object_def)
  define w4 where "w4 = RegisterGroupDbStoreId i g (set_group g gr3 w3)"
  define w6 where "w6 = gcall p ''ConvertLeaderInstancesToGroup'' [0]
    (if ge_testingBot ge p then w4 else gstmt ''CHAR_INS_GROUP'' (group_row gr3) w4)"
  note fr = ids_frame [OF w1] storage_ids_frame [OF w3]
  have w6: "gw_groups w6 = (gw_groups w)(g \<mapsto> gr3)" "gw_next w6 = gw_next w" "gw_GroupStore w6 = gw_GroupStore w"
    "gw_players w6 = gw_players w2" "gw_GroupDbStore w6 = gw_GroupDbStore (RegisterGroupDbStoreId i g w)"
    using fr register_cong [of "set_group g gr3 w3" w] by (simp_all add: w6_def w4_def w2_def set_leader_flag_def)
  have pl: "gp_group (gw_players w6 q) = gp_group (gw_players w q)" "gp_invite (gw_players w6 q) = gp_invite (gw_players w q)"
    "gp_original (gw_players w6 q) = gp_original (gw_players w q)" "gp_subGroup (gw_players w6 q) = gp_subGroup (gw_players w q)" for q
    using fr by (simp_all add: w6(4) w2_def set_leader_flag_def)
  have i6: "roster_inv con (Some g) w6"
    by (rule numbered [OF inv gr un, of gr3]) (use gr3 e raid w6 pl in simp_all)
  have g6: "gw_groups w6 g = Some gr3" by (simp add: w6)
  have ends: "founded p g gr w w' \<and> roster_inv con None w'"
    if "roster_inv con (Some g) w'" "joined p g gr3 w6 w'" for w'
  proof -
    have "unat i < length (gw_GroupDbStore w')" using that(2) w6(5) register_length(2) by (simp add: joined_def)
    moreover have "roomy gr3" using gr3 by (simp add: roomy_def in_subgroup_def)
    ultimately have "founded p g gr w w'"
      using that(2) gr3 raid pl by (auto simp: joined_def founded_def members_def)
    then show ?thesis using founded_settled [OF that(1)] by blast
  qed
  have "safely (AddMember ge p g w6) (\<lambda>(ok, w'). roster_inv con (Some g) w' \<and>
      (if ok then joined p g gr3 w6 w' else w' = w6 \<and> free_subgroup gr3 = None))"
    by (rule AddMember_inv [OF i6 g6]) (use p pl gr3 in \<open>auto simp: members_def\<close>)
  then have "safely (AddMember ge p g w6) (\<lambda>(ok, w'). ok \<and> roster_inv con None w' \<and> founded p g gr w w')"
    by (rule safely_mono) (use ends gr3(6) in \<open>auto simp: free_subgroup_def split: if_splits\<close>)
  then have "safely (bind_result (AddMember ge p g w6) (\<lambda>(ok, w6). if ok then Inr (True, w6) else Inl FullGroup))
      (\<lambda>(ok, w'). roster_inv con None w' \<and> founded p g gr w w')"
    by (rule safely_bindI) auto
  moreover have "Group_Create ge p g w =
      bind_result (AddMember ge p g w6) (\<lambda>(ok, w6). if ok then Inr (True, w6) else Inl FullGroup)"
    using gr nb raid w1 w3 by (simp add: Group_Create_def w6_def w4_def gr3_def w2_def Let_def)
  ultimately show ?thesis by simp
qed


section \<open>Accepting an invitation\<close>

lemma created_members: "IsCreated gr \<longleftrightarrow> members gr \<noteq> {}"
  by (simp add: IsCreated_def GetMembersCount_def members_def)

lemma not_member:
  "roster_inv con None w \<Longrightarrow> gw_groups w g = Some gr \<Longrightarrow> con p \<Longrightarrow> gp_group (gw_players w p) = None \<Longrightarrow> p \<notin> members gr"
  using invD(2) [of con None w g gr] by (auto simp: settled_def created_members split: if_splits)

lemma joined_settled:
  assumes inv: "roster_inv con None w" and gr: "gw_groups w g = Some gr" and c: "IsCreated gr"
    and len: "isRaidGroup gr \<or> length (g_memberSlots gr) < 5"
    and new: "roster_inv con (Some g) w'" "joined p g gr w w'"
  shows "roster_inv con None w'"
proof -
  obtain gr' where g': "gw_groups w' g = Some gr'" "members gr' = insert p (members gr)" "g_leaderGuid gr' = g_leaderGuid gr"
      "g_dbStoreId gr' = g_dbStoreId gr" "roomy gr \<longrightarrow> roomy gr'"
    using new(2) len by (auto simp: joined_def)
  have c': "IsCreated gr'" using g'(2) by (simp add: created_members)
  have "settled con g gr' w'"
    using invD(2) [OF inv gr] c c' g' new(2) by (simp add: settled_def joined_def)
  then show ?thesis using settle [OF new(1) g'(1)] c' by blast
qed

text \<open>What is known of the player and the group when the invitation has been taken back.\<close>

definition may_join :: "(guid \<Rightarrow> bool) \<Rightarrow> guid \<Rightarrow> nat \<Rightarrow> group_world \<Rightarrow> bool" where
  "may_join con p g w \<longleftrightarrow> roster_inv con None w \<and> gp_group (gw_players w p) = None \<and> gp_invite (gw_players w p) = None \<and>
     (\<exists>gr. gw_groups w g = Some gr \<and> IsCreated gr \<and> (isRaidGroup gr \<or> length (g_memberSlots gr) < 5))"

lemma form_group_inv:
  assumes inv: "roster_inv con None w" and gr: "gw_groups w g = Some gr" and con: "con = le_FindConnected (ge_env ge)"
    and p: "gp_invite (gw_players w p) = Some g" "p \<noteq> g_leaderGuid gr" and full: "\<not> IsFull gr"
    and w1: "RemoveInvite p g w = Inr w1"
  shows "safely (form_group ge g w1) (\<lambda>(formed, w'). roster_inv con None w' \<and> (formed \<longrightarrow> may_join con p g w'))"
proof -
  define gr1 where "gr1 = gr\<lparr>g_invitees := oset_erase p (g_invitees gr)\<rparr>"
  have i1: "roster_inv con (Some g) w1"
    using RemoveInvite_inv [OF unsettle [OF inv] gr, of p] p(1) w1 by simp
  have eff: "w1 = set_player p ((gw_players w p)\<lparr>gp_invite := None\<rparr>) (set_group g gr1 w)"
    using w1 unfolding RemoveInvite_effect [OF gr] gr1_def by simp
  have g1: "gw_groups w1 g = Some gr1" by (simp add: eff)
  have pg: "gp_group (gw_players w p) = None"
    using invD(3) [OF inv, of p] p(1) by (cases "gp_group (gw_players w p)") (auto simp: player_inv_def)
  then have pw1: "gp_group (gw_players w1 p) = None" "gp_invite (gw_players w1 p) = None" by (simp_all add: eff)
  have len: "isRaidGroup gr1 \<or> length (g_memberSlots gr1) < 5"
    using full by (auto simp: IsFull_def GetMembersCount_def gr1_def isRaidGroup_def split: if_splits)
  show ?thesis
  proof (cases "IsCreated gr")
    case True
    have c1: "IsCreated gr1" using True by (simp add: gr1_def)
    have "settled con g gr1 w1"
      using invD(2) [OF inv gr] True by (simp add: settled_def gr1_def eff)
    then have "roster_inv con None w1" using settle [OF i1 g1] c1 by blast
    then show ?thesis using g1 c1 len pw1 by (simp add: form_group_def may_join_def)
  next
    case False
    let ?l = "g_leaderGuid gr"
    have e: "g_memberSlots gr = []" "g_subGroupsCounts gr = None"
      using invD(2) [OF inv gr] False by (simp_all add: settled_def IsCreated_def GetMembersCount_def)
    have un: "unlisted g w" by (rule unlisted_not_created [OF inv gr False])
    have un1: "unlisted g w1" using un by (simp add: eff unlisted_def)
    have "p \<in> set (g_invitees gr)" using invD(1) [OF inv gr] p(1) by (simp add: group_inv_def)
    then have "?l \<in> set (g_invitees gr)" using invD(2) [OF inv gr] False by (auto simp: settled_def)
    then have li: "gp_invite (gw_players w1 ?l) = Some g"
      using invD(1) [OF inv gr] p(2) by (simp add: group_inv_def eff)
    show ?thesis
    proof (cases "le_FindPlayer (ge_env ge) ?l")
      case False
      have "settled con g (gr1\<lparr>g_invitees := []\<rparr>) (uninvited g gr1 w1)"
        using e by (simp add: settled_def gr1_def IsCreated_def GetMembersCount_def roomy_def in_subgroup_def)
      moreover have "unlisted g (uninvited g gr1 w1)" using un1 by (simp add: uninvited_def unlisted_def)
      ultimately have "roster_inv con None (uninvited g gr1 w1)"
        by (intro settle [OF uninvited_inv [OF i1 g1], of "gr1\<lparr>g_invitees := []\<rparr>"]) (simp_all add: uninvited_def)
      then show ?thesis
        using g1 False \<open>\<not> IsCreated gr\<close> RemoveAllInvites_effect [OF i1 g1 con] by (simp add: form_group_def gr1_def)
    next
      case True
      define gr2 where "gr2 = gr1\<lparr>g_invitees := oset_erase ?l (g_invitees gr1)\<rparr>"
      define w2 where "w2 = set_player ?l ((gw_players w1 ?l)\<lparr>gp_invite := None\<rparr>) (set_group g gr2 w1)"
      have r2: "RemoveInvite ?l g w1 = Inr w2" by (simp add: RemoveInvite_effect [OF g1] w2_def gr2_def)
      have i2: "roster_inv con (Some g) w2" using RemoveInvite_inv [OF i1 g1, of ?l] li r2 by simp
      have g2: "gw_groups w2 g = Some gr2" and un2: "unlisted g w2" and e2: "g_memberSlots gr2 = []" "g_subGroupsCounts gr2 = None"
        using un1 e by (simp_all add: w2_def unlisted_def gr2_def gr1_def)
      have "gp_group (gw_players w1 ?l) = None"
        using invD(3) [OF i1, of ?l] li by (cases "gp_group (gw_players w1 ?l)") (auto simp: player_inv_def)
      then have l2: "gp_group (gw_players w2 ?l) = None" "gp_invite (gw_players w2 ?l) = None" "con ?l"
        using live(4) [OF i1 li] by (simp_all add: w2_def)
      have p2: "gp_group (gw_players w2 p) = None" "gp_invite (gw_players w2 p) = None"
        using pw1 p(2) by (simp_all add: w2_def)
      have add: "safely (bind_result (AddGroup g w3) (\<lambda>w4. Inr (True, w4)))
          (\<lambda>(formed, w'). roster_inv con None w' \<and> (formed \<longrightarrow> may_join con p g w'))"
        if w3: "roster_inv con None w3" "founded ?l g gr2 w2 w3" for w3
      proof -
        obtain gr3 where g3: "gw_groups w3 g = Some gr3" "members gr3 = {?l}" "length (g_memberSlots gr3) = 1"
          using w3(2) by (auto simp: founded_def)
        then have c3: "IsCreated gr3" by (simp add: created_members)
        obtain m where m: "AddGroup g w3 = Inr (w3\<lparr>gw_GroupStore := m\<rparr>)" "roster_inv con None (w3\<lparr>gw_GroupStore := m\<rparr>)"
          using AddGroup_inv [OF w3(1) g3(1)] c3 by blast
        then show ?thesis
          using g3 c3 w3(2) p2 p(2) by (simp add: may_join_def founded_def)
      qed
      show ?thesis
        using g1 True \<open>\<not> IsCreated gr\<close> r2
        by (simp add: form_group_def gr1_def)
          (rule safely_bindI [OF Group_Create_inv [OF i2 g2 un2 e2 l2]], use add in auto)
    qed
  qed
qed

lemma HandleGroupAcceptOpcode_inv:
  assumes inv: "roster_inv con None w" and con: "con = le_FindConnected (ge_env ge)"
  shows "safely (HandleGroupAcceptOpcode ge p w) (roster_inv con None)"
proof (cases "gp_invite (gw_players w p)")
  case None
  then show ?thesis using inv by (simp add: HandleGroupAcceptOpcode_def)
next
  case (Some g)
  obtain gr where gr: "gw_groups w g = Some gr" using live(2) [OF inv Some] by blast
  obtain w1 where w1: "RemoveInvite p g w = Inr w1" using RemoveInvite_effect [OF gr] by blast
  have cp: "con p" by (rule live(4) [OF inv Some])
  have add: "safely (bind_result (AddMember ge p g w2) (\<lambda>(ok, w3). if \<not> ok then Inr w3
      else with_group g w3 (\<lambda>gr. Inr (BroadcastGroupUpdate ge gr w3)))) (roster_inv con None)"
    if j: "may_join con p g w2" for w2
  proof -
    obtain gr2 where g2: "gw_groups w2 g = Some gr2" "IsCreated gr2" "isRaidGroup gr2 \<or> length (g_memberSlots gr2) < 5"
        and i2: "roster_inv con None w2" and p2: "gp_group (gw_players w2 p) = None" "gp_invite (gw_players w2 p) = None"
      using j by (auto simp: may_join_def)
    have s: "roster_inv con None w3 \<and> gw_groups w3 g \<noteq> None" if "roster_inv con (Some g) w3" "joined p g gr2 w2 w3" for w3
      using joined_settled [OF i2 g2 that] that(2) by (auto simp: joined_def)
    have "roster_inv con None (BroadcastGroupUpdate ge hr w3)" if "roster_inv con None w3" for hr w3
      using that roster_inv_out [OF BroadcastGroupUpdate_out] by blast
    then have "safely (if \<not> ok then Inr w3 else with_group g w3 (\<lambda>gr. Inr (BroadcastGroupUpdate ge gr w3))) (roster_inv con None)"
      if "roster_inv con (Some g) w3" "if ok then joined p g gr2 w2 w3 else w3 = w2 \<and> free_subgroup gr2 = None" for ok w3
      using that s [of w3] i2 by (auto simp: split: if_splits)
    then show ?thesis
      by (intro safely_bindI [OF AddMember_inv [OF unsettle [OF i2] g2(1) p2 cp not_member [OF i2 g2(1) cp p2(1)]]]) auto
  qed
  show ?thesis
  proof (cases "g_leaderGuid gr = p")
    case False
    have f: "roster_inv con None w1" if "IsFull gr"
    proof -
      have c: "IsCreated gr" using that by (auto simp: IsFull_def IsCreated_def split: if_splits)
      have "roster_inv con (Some g) w1" using RemoveInvite_inv [OF unsettle [OF inv] gr, of p] Some w1 by simp
      then show ?thesis
        by (rule settle [where gr = "gr\<lparr>g_invitees := oset_erase p (g_invitees gr)\<rparr>"])
          (use w1 c invD(2) [OF inv gr] in \<open>auto simp: RemoveInvite_effect [OF gr] settled_def\<close>)
    qed
    have "safely (bind_result (form_group ge g w1) (\<lambda>(formed, w2). if \<not> formed then Inr w2
        else bind_result (AddMember ge p g w2) (\<lambda>(ok, w3). if \<not> ok then Inr w3
          else with_group g w3 (\<lambda>gr. Inr (BroadcastGroupUpdate ge gr w3))))) (roster_inv con None)" if "\<not> IsFull gr"
      by (rule safely_bindI [OF form_group_inv [OF inv gr con Some False [symmetric] that w1]]) (use add in auto)
    then show ?thesis
      using Some gr w1 False f by (simp add: HandleGroupAcceptOpcode_def IsLeader_def SendPartyResult_def)
  qed (use Some gr inv in \<open>simp add: HandleGroupAcceptOpcode_def IsLeader_def\<close>)
qed


section \<open>Inviting\<close>

lemma created_invited:
  assumes inv: "roster_inv con None w" and gr: "gw_groups w g = Some gr" and c: "IsCreated gr"
    and q: "gp_invite (gw_players w q) = None" "gp_group (gw_players w q) = None" "con q"
  shows "roster_inv con None (invited q g gr w)"
proof (rule settle [OF invited_inv [OF unsettle [OF inv] gr q]])
  let ?gr = "gr\<lparr>g_invitees := oset_insert q (g_invitees gr)\<rparr>"
  show "gw_groups (invited q g gr w) g = Some ?gr" by (simp add: invited_def)
  show "settled con g ?gr (invited q g gr w)"
    using invD(2) [OF inv gr] c by (simp add: settled_def invited_def)
qed (use c in simp)

lemma start_group_inv:
  assumes inv: "roster_inv con None w" and con: "con p" "con q" "p \<noteq> q"
    and p: "gp_group (gw_players w p) = None"
    and q: "gp_group (gw_players w q) = None" "gp_invite (gw_players w q) = None"
  shows "safely (start_group ge p q w) (\<lambda>(ok, w'). roster_inv con None w')"
proof -
  obtain g w1 where w1: "new_group w = (g, w1)" by (cases "new_group w")
  note new = new_group_inv [OF inv w1]
  have e: "g_invitees Group_new = []" "\<not> IsCreated Group_new" "g_subGroupsCounts Group_new = None" "g_memberSlots Group_new = []"
    by (simp_all add: Group_new_def IsCreated_def GetMembersCount_def)
  have un: "unlisted g w1" by (rule unlisted_not_created [OF new(1,2) e(2)])
  show ?thesis
  proof (cases "gp_invite (gw_players w p)")
    case (Some h)
    then have "AddLeaderInvite ge p g w1 = Inr (False, w1)"
      using AddInvite_effect [OF new(1,2), of p] new(3) by (simp add: AddLeaderInvite_def)
    then show ?thesis
      using w1 delete_group_inv [OF unsettle [OF new(1)] new(2) e(1) un]
      by (auto simp: start_group_def intro: safely_bindI)
  next
    case None
    let ?gr2 = "Group_new\<lparr>g_invitees := [p], g_leaderGuid := p, g_leaderName := ge_name ge p\<rparr>"
    define w2 where "w2 = set_group g ?gr2 (invited p g Group_new w1)"
    have l: "AddLeaderInvite ge p g w1 = Inr (True, w2)"
      using AddInvite_effect [OF new(1,2), of p] new(3) None p e
      by (simp add: AddLeaderInvite_def update_group_def w2_def invited_def)
    have "roster_inv con (Some g) (invited p g Group_new w1)"
      by (rule invited_inv [OF unsettle [OF new(1)] new(2)]) (use None p con new(3) in simp_all)
    moreover have "gw_groups (invited p g Group_new w1) g = Some (Group_new\<lparr>g_invitees := [p]\<rparr>)"
      by (simp add: invited_def e)
    ultimately have i2: "roster_inv con (Some g) w2"
      unfolding w2_def by (rule modify_group) (simp_all add: like_def seat_list_def isRaidGroup_def)
    have g2: "gw_groups w2 g = Some ?gr2" by (simp add: w2_def)
    have q2: "gp_invite (gw_players w2 q) = None" "gp_group (gw_players w2 q) = None"
      using q con(3) new(3) by (simp_all add: w2_def invited_def)
    have i3: "roster_inv con (Some g) (invited q g ?gr2 w2)" by (rule invited_inv [OF i2 g2 q2 con(2)])
    have "roster_inv con None (invited q g ?gr2 w2)"
      by (rule settle [OF i3, where gr = "?gr2\<lparr>g_invitees := oset_insert q [p]\<rparr>"])
        (use un con(3) e in \<open>auto simp: invited_def settled_def w2_def unlisted_def IsCreated_def GetMembersCount_def
          roomy_def in_subgroup_def oset_insert_set\<close>)
    then show ?thesis
      using w1 l AddInvite_effect [OF i2 g2, of q] q2 by (simp add: start_group_def)
  qed
qed

lemma invite_player_inv:
  assumes inv: "roster_inv con None w" and con: "con p" "con q"
  shows "safely (invite_player se p q n w) (roster_inv con None)"
proof (cases "invite_refusal se p q")
  case (Some r)
  then show ?thesis using inv by (simp add: invite_player_def SendPartyResult_def Let_def)
next
  case None
  then have pq: "p \<noteq> q" by (auto simp: invite_refusal_def Let_def split: if_splits)
  let ?ok = "\<lambda>(ok, w1). Inr (if \<not> ok then w1 else SendPartyResult p 0 n 0
      (gsend q 0x06F [Str (ge_name (gs_env se) p)] w1)) :: (group_fault, group_world) result"
  have reply: "safely (?ok (ok, w1)) (roster_inv con None)" if "roster_inv con None w1" for ok w1
    using that by (simp add: SendPartyResult_def)
  show ?thesis
  proof (cases "gp_group (gw_players w q) \<noteq> None \<or> gp_invite (gw_players w q) \<noteq> None")
    case True
    then show ?thesis
      using inv None by (simp add: invite_player_def own_group_effect [OF inv] SendPartyResult_def Let_def)
  next
    case False
    then have q: "gp_group (gw_players w q) = None" "gp_invite (gw_players w q) = None" by simp_all
    show ?thesis
    proof (cases "gp_group (gw_players w p)")
      case None
      have "safely (bind_result (start_group (gs_env se) p q w) ?ok) (roster_inv con None)"
        by (rule safely_bindI [OF start_group_inv [OF inv con pq None q]]) (use reply in auto)
      then show ?thesis
        using None q \<open>invite_refusal se p q = None\<close>
        by (simp add: invite_player_def own_group_effect [OF inv] Let_def)
    next
      case (Some g)
      then obtain gr where gr: "gw_groups w g = Some gr" "p \<in> members gr" using live(1) [OF inv] by blast
      then have "IsCreated gr" by (auto simp: created_members)
      then have "roster_inv con None (invited q g gr w)"
        by (rule created_invited [OF inv gr(1) _ q(2,1) con(2)])
      then show ?thesis
        using Some q gr inv \<open>invite_refusal se p q = None\<close> AddInvite_effect [OF inv gr(1), of q] reply
        by (simp add: invite_player_def own_group_effect [OF inv] Let_def SendPartyResult_def)
    qed
  qed
qed

section \<open>Declining\<close>

lemma take_back_all:
  assumes inv: "roster_inv con (Some g) w" and gr: "gw_groups w g = Some gr" and un: "unlisted g w"
    and con: "con = le_FindConnected (ge_env ge)"
  shows "safely (bind_result (RemoveAllInvites ge g w) (delete_group g))
    (\<lambda>w'. roster_inv con None w' \<and> (\<forall>p. gp_invite (gw_players w' p) = (if gp_invite (gw_players w p) = Some g then None else gp_invite (gw_players w p))))"
proof -
  have i: "gp_invite (gw_players w p) = Some g \<longleftrightarrow> p \<in> set (g_invitees gr)" for p
    using invD(1) [OF inv gr] by (simp add: group_inv_def)
  show ?thesis
    unfolding RemoveAllInvites_effect [OF inv gr con] bind_result_simps
    by (rule safely_mono [OF delete_group_inv [OF uninvited_inv [OF inv gr]]])
      (use un i in \<open>auto simp: uninvited_def unlisted_def\<close>)
qed

lemma HandleGroupDeclineOpcode_inv:
  assumes inv: "roster_inv con None w" and con: "con = le_FindConnected (ge_env ge)"
    and fresh: "\<And>g gr. gp_invite (gw_players w p) = Some g \<Longrightarrow> gw_groups w g = Some gr \<Longrightarrow> \<not> IsCreated gr"
  shows "safely (HandleGroupDeclineOpcode ge p w) (roster_inv con None)"
proof (cases "gp_invite (gw_players w p)")
  case None
  then show ?thesis using inv by (simp add: HandleGroupDeclineOpcode_def)
next
  case (Some g)
  obtain gr where gr: "gw_groups w g = Some gr" using live(2) [OF inv Some] by blast
  have nc: "\<not> IsCreated gr" by (rule fresh [OF Some gr])
  have "roster_inv con None (gsend l 0x074 fs (SetGroupInvite p None w1))" if "roster_inv con None w1"
      "gp_invite (gw_players w1 p) = None" for w1 l fs
    using that by (simp add: SetGroupInvite_def)
  then show ?thesis
    using gr Some nc inv
    by (auto simp: HandleGroupDeclineOpcode_def Let_def simp del: roster_inv_emit
        intro!: safely_bindI [OF take_back_all [OF unsettle [OF inv] gr unlisted_not_created [OF inv gr nc] con]])
qed


end
