(* ===== verification/GroupLeave.thy ===== *)
theory GroupLeave
  imports GroupForm
begin

text \<open>
  Members leave: disbanding a group, removing a member, taking an invitation back, and the
  logins and logouts that change which players are connected.
\<close>

section \<open>Disbanding\<close>

text \<open>What is left of a group while its members are sent away one after another.\<close>

definition emptying :: "nat \<Rightarrow> group_obj \<Rightarrow> group_world \<Rightarrow> group_world \<Rightarrow> bool" where
  "emptying g gr w w' \<longleftrightarrow> gw_GroupStore w' = gw_GroupStore w \<and> gw_GroupDbStore w' = gw_GroupDbStore w \<and>
     (\<forall>p. gp_group (gw_players w' p) = Some g \<longrightarrow> gp_group (gw_players w p) = Some g) \<and>
     (\<forall>p. gp_invite (gw_players w' p) = gp_invite (gw_players w p)) \<and>
     (\<exists>gr'. gw_groups w' g = Some gr' \<and> g_memberSlots gr' = g_memberSlots gr \<and> g_invitees gr' = g_invitees gr \<and>
        g_guid gr' = g_guid gr \<and> g_dbStoreId gr' = g_dbStoreId gr)"

lemma emptying_trans: "emptying g gr w w' \<Longrightarrow> gw_groups w' g = Some gr' \<Longrightarrow> emptying g gr' w' w'' \<Longrightarrow> emptying g gr w w''"
  by (auto simp: emptying_def)

lemma emptying_out: "emptying g gr w w' \<Longrightarrow> only_out w' w'' \<Longrightarrow> emptying g gr w w''"
  using only_out_frame [of w' w''] by (simp add: emptying_def)

lemma emptying_flag: "emptying g gr w w' \<Longrightarrow> emptying g gr w (set_leader_flag x p w')"
  by (auto simp: emptying_def set_leader_flag_def)

lemma unlink_emptying:
  assumes inv: "roster_inv con (Some g) w" and gr: "gw_groups w g = Some gr" and p: "p \<in> members gr"
  shows "roster_inv con (Some g) (unlink False p w) \<and> emptying g gr w (unlink False p w) \<and>
    gp_group (gw_players (unlink False p w) p) = None"
proof (cases "gp_group (gw_players w p)")
  case None
  then show ?thesis using inv gr by (simp add: unlink_effect emptying_def)
next
  case (Some h)
  then have h: "gp_group (gw_players w p) = Some g" using member_group [OF inv gr p] by auto
  show ?thesis
    using unlink_inv [OF inv h] gr unfolding unlink_effect(1) [OF h gr] by (simp add: emptying_def)
qed

lemma detach_is_unlink:
  assumes inv: "roster_inv con b w" and gr: "gw_groups w g = Some gr"
  shows "detach p g w = Inr (unlink False p w)"
  using live(5) [OF inv, of p] not_bg [OF inv gr] gr by (simp add: detach_def SetGroup_def)

lemma disband_member_inv:
  assumes inv: "roster_inv con (Some g) w" and gr: "gw_groups w g = Some gr" and p: "p \<in> members gr"
    and con: "con = le_FindConnected (ge_env ge)"
  shows "safely (disband_member ge b g p w)
    (\<lambda>w'. roster_inv con (Some g) w' \<and> emptying g gr w w' \<and> gp_group (gw_players w' p) \<noteq> Some g)"
proof (cases "con p")
  case False
  then have "gp_group (gw_players w p) \<noteq> Some g" using live(3) [OF inv] by blast
  then show ?thesis using False inv gr by (simp add: disband_member_def con emptying_def)
next
  case True
  let ?P = "\<lambda>w'. roster_inv con (Some g) w' \<and> emptying g gr w w' \<and> gp_group (gw_players w' p) = None"
  define w0 where "w0 = remove_buffs p gr w"
  have o: "only_out w w0" by (simp add: w0_def remove_buffs_out)
  have i0: "roster_inv con (Some g) w0" using inv roster_inv_out [OF o] by simp
  have g0: "gw_groups w0 g = Some gr" using gr only_out_frame [OF o] by simp
  have "emptying g gr w w0" using gr only_out_frame [OF o] by (simp add: emptying_def)
  then have u: "?P (unlink False p w0)"
    using unlink_emptying [OF i0 g0 p] emptying_trans [OF _ g0] by blast
  have out: "?P w2" if "?P w1" "only_out w1 w2" for w1 w2
    using that roster_inv_out [OF that(2)] emptying_out [OF _ that(2)] only_out_frame [OF that(2)] by simp
  have flag: "?P (set_leader_flag x p w1)" if "?P w1" for w1 x
    using that emptying_flag by simp
  have "?P (if c then gcall p what args w1 else w1)" if "?P w1" for w1 c what args
    using that out [OF that, of "gcall p what args w1"] by simp
  then show ?thesis
    using True gr u
    by (simp add: disband_member_def con [symmetric] w0_def [symmetric] detach_is_unlink [OF i0 g0] Let_def)
      (auto simp: emptying_flag emptying_out)
qed

lemma disband_members_inv:
  "roster_inv con (Some g) w \<Longrightarrow> gw_groups w g = Some gr \<Longrightarrow> ms_guid ` set xs \<subseteq> members gr \<Longrightarrow>
   con = le_FindConnected (ge_env ge) \<Longrightarrow>
   safely (fold_result (\<lambda>s. disband_member ge b g (ms_guid s)) xs w)
     (\<lambda>w'. roster_inv con (Some g) w' \<and> emptying g gr w w' \<and> (\<forall>s \<in> set xs. gp_group (gw_players w' (ms_guid s)) \<noteq> Some g))"
proof (induction xs arbitrary: w gr)
  case Nil
  then show ?case by (simp add: emptying_def)
next
  case (Cons s xs)
  have p: "ms_guid s \<in> members gr" using Cons.prems(3) by simp
  have "safely (fold_result (\<lambda>s. disband_member ge b g (ms_guid s)) xs w1)
     (\<lambda>w'. roster_inv con (Some g) w' \<and> emptying g gr w w' \<and>
        (\<forall>s' \<in> set (s # xs). gp_group (gw_players w' (ms_guid s')) \<noteq> Some g))"
    if w1: "roster_inv con (Some g) w1" "emptying g gr w w1" "gp_group (gw_players w1 (ms_guid s)) \<noteq> Some g" for w1
  proof -
    obtain gr1 where g1: "gw_groups w1 g = Some gr1" "g_memberSlots gr1 = g_memberSlots gr"
      using w1(2) by (auto simp: emptying_def)
    have "ms_guid ` set xs \<subseteq> members gr1" using Cons.prems(3) g1(2) by (auto simp: members_def)
    from Cons.IH [OF w1(1) g1(1) this Cons.prems(4)] show ?thesis
      by (rule safely_mono) (use w1 emptying_trans [OF w1(2) g1(1)] in \<open>auto simp: emptying_def\<close>)
  qed
  then show ?case
    using disband_member_inv [OF Cons.prems(1,2) p Cons.prems(4)]
    by (auto intro: safely_bindI)
qed

text \<open>The group leaves the group manager.\<close>

lemma nth_cleared: "xs[k := None] ! i = Some h \<Longrightarrow> xs ! i = Some h"
  by (cases "k < length xs"; cases "i = k") (auto simp: list_update_beyond)

lemma unlist_group:
  assumes inv: "roster_inv con (Some g) w" and gr: "gw_groups w g = Some gr"
  defines "w' \<equiv> w\<lparr>gw_GroupStore := omap_erase (guid_counter (g_guid gr)) (gw_GroupStore w),
    gw_GroupDbStore := (gw_GroupDbStore w)[unat (g_dbStoreId gr) := None]\<rparr>"
  shows "roster_inv con (Some g) w'" "unlisted g w'"
proof -
  have m: "manager_inv (Some g) w" by (rule invD(5) [OF inv])
  have ok: "omap_ok (gw_GroupStore w)" using m by (simp add: manager_inv_def)
  have "manager_inv (Some g) w'"
    using m set_omap_erase [OF ok] omap_erase_ok [OF ok] unfolding manager_inv_def w'_def
    by (auto dest: nth_cleared)
  moreover have "group_inv h hr w' = group_inv h hr w" "settled con h hr w' = settled con h hr w"
    "player_inv con p w' = player_inv con p w" for h hr p
    by (simp_all add: w'_def group_inv_def settled_def player_inv_def)
  ultimately show "roster_inv con (Some g) w'"
    using inv by (simp add: roster_inv_def) (simp add: w'_def)
  have "(i, g) \<notin> set (gw_GroupStore w')" for i
    using manager_entry(1) [OF m, of i g] gr set_omap_erase [OF ok] by (auto simp: w'_def)
  moreover have "gw_GroupDbStore w' ! i \<noteq> Some g" if "i < length (gw_GroupDbStore w)" for i
    using manager_entry(2) [OF m that, of g] gr that
    by (cases "i = unat (g_dbStoreId gr)") (auto simp: w'_def)
  ultimately show "unlisted g w'" by (auto simp: unlisted_def in_set_conv_nth w'_def)
qed

lemma Disband_inv:
  assumes inv: "roster_inv con (Some g) w" and gr: "gw_groups w g = Some gr"
    and con: "con = le_FindConnected (ge_env ge)" and db: "unat (g_dbStoreId gr) < length (gw_GroupDbStore w)"
  shows "safely (Disband ge b g w) (\<lambda>w'. roster_inv con None w' \<and>
    (\<forall>p. gp_invite (gw_players w' p) = (if gp_invite (gw_players w p) = Some g then None else gp_invite (gw_players w p))))"
    (is "safely _ ?P")
proof -
  have nb: "\<not> g_bgGroup gr" by (rule not_bg [OF inv gr])
  have rest: "safely (bind_result (update_group g (\<lambda>gr. gr\<lparr>g_memberSlots := []\<rparr>) w1) (\<lambda>w2.
      bind_result (RemoveAllInvites ge g w2) (\<lambda>w3.
      bind_result (FreeGroupDbStoreId gr (gcall 0 ''ResetInstances'' [g_dbStoreId gr]
          (gstmt ''CHAR_DEL_GROUP_MEMBER_ALL'' [ucast (g_dbStoreId gr)]
            (gstmt ''CHAR_DEL_GROUP'' [ucast (g_dbStoreId gr)] w3))))
        (\<lambda>w4. delete_group g (RemoveGroup gr w4))))) ?P"
    if i1: "roster_inv con (Some g) w1" and em: "emptying g gr w w1"
      and gone: "\<forall>s \<in> set (g_memberSlots gr). gp_group (gw_players w1 (ms_guid s)) \<noteq> Some g" for w1
  proof -
    obtain gr1 where g1: "gw_groups w1 g = Some gr1" "g_memberSlots gr1 = g_memberSlots gr"
        "g_guid gr1 = g_guid gr" "g_dbStoreId gr1 = g_dbStoreId gr"
      using em by (auto simp: emptying_def)
    have no: "gp_group (gw_players w1 p) \<noteq> Some g" for p
      using live(1) [OF i1, of p g] g1(1,2) gone by (auto simp: members_def)
    have "(p, orig) \<notin> set (g_refs gr1)" for p orig
      using invD(1) [OF i1 g1(1)] no by (simp add: group_inv_def)
    then have refs: "g_refs gr1 = []" by (cases "g_refs gr1") auto
    have nb1: "\<not> g_bgGroup gr1" by (rule not_bg [OF i1 g1(1)])
    have i: "gp_invite (gw_players w1 p) = Some g \<longleftrightarrow> p \<in> set (g_invitees gr1)" for p
      using invD(1) [OF i1 g1(1)] by (simp add: group_inv_def)
    have ci: "le_FindConnected (ge_env ge) p" if "p \<in> set (g_invitees gr1)" for p
      using that i live(4) [OF i1] con by blast
    define v where "v = w1\<lparr>gw_GroupStore := omap_erase (guid_counter (g_guid gr1)) (gw_GroupStore w1),
      gw_GroupDbStore := (gw_GroupDbStore w1)[unat (g_dbStoreId gr1) := None]\<rparr>"
    note un = unlist_group [OF i1 g1(1), folded v_def]
    have d: "roster_inv con None w'"
      if "gw_groups w' = (gw_groups w1)(g := None)" "gw_next w' = gw_next w1"
        "gw_GroupDbStore w' = gw_GroupDbStore v" "gw_GroupStore w' = gw_GroupStore v"
        "gw_players w' = (\<lambda>p. if p \<in> set (g_invitees gr1) then (gw_players w1 p)\<lparr>gp_invite := None\<rparr> else gw_players w1 p)" for w'
      by (rule drop_group [OF un(1) _ _ _ _ un(2)]) (use that no in \<open>auto simp: v_def i [symmetric]\<close>)
    have ni: "gp_invite (gw_players w1 p) = gp_invite (gw_players w p)" for p using em by (simp add: emptying_def)
    have db1: "unat (g_dbStoreId gr) < length (gw_GroupDbStore w1)" using db em by (simp add: emptying_def)
    show ?thesis
      using g1 refs nb1 db1 ni i
      by (auto simp: update_group_def RemoveAllInvites_def fold_invites [OF ci] FreeGroupDbStoreId_def RemoveGroup_def
          delete_group_def Let_def v_def intro!: d)
  qed
  have "safely (fold_result (\<lambda>s. disband_member ge b g (ms_guid s)) (g_memberSlots gr) w)
     (\<lambda>w'. roster_inv con (Some g) w' \<and> emptying g gr w w' \<and>
        (\<forall>s \<in> set (g_memberSlots gr). gp_group (gw_players w' (ms_guid s)) \<noteq> Some g))"
    by (rule disband_members_inv [OF inv gr _ con]) (simp add: members_def)
  then have "safely (bind_result (fold_result (\<lambda>s. disband_member ge b g (ms_guid s)) (g_memberSlots gr) w) (\<lambda>w1.
      bind_result (update_group g (\<lambda>gr. gr\<lparr>g_memberSlots := []\<rparr>) w1) (\<lambda>w2.
      bind_result (RemoveAllInvites ge g w2) (\<lambda>w3.
      bind_result (FreeGroupDbStoreId gr (gcall 0 ''ResetInstances'' [g_dbStoreId gr]
          (gstmt ''CHAR_DEL_GROUP_MEMBER_ALL'' [ucast (g_dbStoreId gr)]
            (gstmt ''CHAR_DEL_GROUP'' [ucast (g_dbStoreId gr)] w3))))
        (\<lambda>w4. delete_group g (RemoveGroup gr w4)))))) ?P"
    by (rule safely_bindI) (use rest in blast)
  then show ?thesis using gr nb by (simp add: Disband_def)
qed


section \<open>Removing a member\<close>

lemma remove_nth:
  assumes "i < length xs" "distinct (map f xs)"
  shows "distinct (map f (take i xs @ drop (Suc i) xs))" "set (take i xs @ drop (Suc i) xs) = {x \<in> set xs. f x \<noteq> f (xs ! i)}"
proof -
  have xs: "xs = take i xs @ xs ! i # drop (Suc i) xs" by (rule id_take_nth_drop [OF assms(1)])
  have d: "distinct (map f (take i xs @ xs ! i # drop (Suc i) xs))" using assms(2) xs by simp
  then show "distinct (map f (take i xs @ drop (Suc i) xs))" by auto
  have "set xs = insert (xs ! i) (set (take i xs @ drop (Suc i) xs))" by (subst xs) auto
  moreover have "f x \<noteq> f (xs ! i)" if "x \<in> set (take i xs @ drop (Suc i) xs)" for x
    using d that by (auto simp: image_iff)
  ultimately show "set (take i xs @ drop (Suc i) xs) = {x \<in> set xs. f x \<noteq> f (xs ! i)}" by auto
qed

lemma in_subgroup_remove:
  assumes "i < length xs"
  shows "in_subgroup j xs = in_subgroup j (take i xs @ drop (Suc i) xs) + (if unat (ms_group (xs ! i)) = j then 1 else 0)"
proof -
  have "in_subgroup j xs = in_subgroup j (take i xs @ xs ! i # drop (Suc i) xs)"
    using id_take_nth_drop [OF assms] by simp
  then show ?thesis by (simp add: in_subgroup_def)
qed

definition erased :: "guid \<Rightarrow> group_obj \<Rightarrow> group_obj \<Rightarrow> bool" where
  "erased p gr gr' \<longleftrightarrow> g_leaderGuid gr' = g_leaderGuid gr \<and> g_dbStoreId gr' = g_dbStoreId gr \<and>
     members gr' = members gr - {p} \<and> (roomy gr \<longrightarrow> roomy gr')"

lemma erase_slot_ok:
  assumes ok: "slots_ok gr"
  shows "\<exists>cs xs. erase_slot p gr = Inr (gr\<lparr>g_subGroupsCounts := cs, g_memberSlots := xs\<rparr>) \<and>
    slots_ok (gr\<lparr>g_subGroupsCounts := cs, g_memberSlots := xs\<rparr>) \<and>
    set xs = {s \<in> set (g_memberSlots gr). ms_guid s \<noteq> p} \<and> (\<forall>j. in_subgroup j xs \<le> in_subgroup j (g_memberSlots gr))"
proof (cases "first_index (\<lambda>s. ms_guid s = p) (g_memberSlots gr)")
  case None
  have "ms_guid s \<noteq> p" if "s \<in> set (g_memberSlots gr)" for s
    using find_first_index [of "\<lambda>s. ms_guid s = p" "g_memberSlots gr"] None that by (auto simp: find_None_iff)
  then show ?thesis
    using ok None by (intro exI [of _ "g_subGroupsCounts gr"] exI [of _ "g_memberSlots gr"]) (auto simp: erase_slot_def)
next
  case (Some i)
  let ?xs = "g_memberSlots gr"
  let ?ys = "take i ?xs @ drop (Suc i) ?xs"
  have i: "i < length ?xs" "ms_guid (?xs ! i) = p" using Some by (simp_all add: first_index_Some)
  have d: "distinct (map ms_guid ?xs)" using ok by (simp add: slots_ok_def split: option.splits)
  note r = remove_nth [OF i(1) d] and n = in_subgroup_remove [OF i(1)]
  have s: "set ?ys = {s \<in> set ?xs. ms_guid s \<noteq> p}" using r(2) i(2) by simp
  have le: "\<forall>j. in_subgroup j ?ys \<le> in_subgroup j ?xs" using n by simp
  show ?thesis
  proof (cases "g_subGroupsCounts gr")
    case None
    then show ?thesis
      using ok Some r(1) s le
      by (intro exI [of _ None] exI [of _ ?ys])
        (auto simp: erase_slot_def SubGroupCounterDecrease_def count_at_def slots_ok_def isRaidGroup_def)
  next
    case (Some cs)
    let ?o = "unat (ms_group (?xs ! i))"
    let ?cs = "cs[?o := cs ! ?o - 1]"
    have c: "isRaidGroup gr" "length cs = 8" "\<forall>s \<in> set ?xs. unat (ms_group s) < 8"
      "\<forall>j < 8. cs ! j = of_nat (in_subgroup j ?xs)"
      using ok Some by (simp_all add: slots_ok_def)
    have o: "?o < 8" using c(3) i(1) by simp
    have "?cs ! j = of_nat (in_subgroup j ?ys)" if "j < 8" for j
      using n [of j] c(2,4) that o by (cases "?o = j") auto
    then have "slots_ok (gr\<lparr>g_subGroupsCounts := Some ?cs, g_memberSlots := ?ys\<rparr>)"
      using c r(1) s by (auto simp: slots_ok_def isRaidGroup_def)
    then show ?thesis
      using \<open>first_index _ _ = Some i\<close> Some o c(2) s le
      by (intro exI [of _ "Some ?cs"] exI [of _ ?ys]) (simp add: erase_slot_def count_some)
  qed
qed

lemma erase_slot_inv:
  assumes inv: "roster_inv con (Some g) w" and gr: "gw_groups w g = Some gr" and p: "gp_group (gw_players w p) \<noteq> Some g"
  shows "\<exists>gr'. erase_slot p gr = Inr gr' \<and> roster_inv con (Some g) (set_group g gr' w) \<and> erased p gr gr' \<and>
    g_refs gr' = g_refs gr"
proof -
  obtain cs xs where e: "erase_slot p gr = Inr (gr\<lparr>g_subGroupsCounts := cs, g_memberSlots := xs\<rparr>)"
      "slots_ok (gr\<lparr>g_subGroupsCounts := cs, g_memberSlots := xs\<rparr>)"
      "set xs = {s \<in> set (g_memberSlots gr). ms_guid s \<noteq> p}" "\<forall>j. in_subgroup j xs \<le> in_subgroup j (g_memberSlots gr)"
    using erase_slot_ok [of gr p] invD(1) [OF inv gr] by (auto simp: group_inv_def)
  let ?gr = "gr\<lparr>g_subGroupsCounts := cs, g_memberSlots := xs\<rparr>"
  have "roster_inv con (Some g) (set_group g ?gr w)"
    by (rule change_slots [OF inv gr]) (use e p in \<open>auto simp: members_def\<close>)
  moreover have "erased p gr ?gr"
    using e(3,4) by (auto simp: erased_def members_def roomy_def intro: le_trans)
  ultimately show ?thesis using e(1) by auto
qed

lemma safely_conj: "safely r P \<Longrightarrow> safely r Q \<Longrightarrow> safely r (\<lambda>x. P x \<and> Q x)"
  by (auto simp: safely_def split: sum.splits)

lemma ChangeLeader_leads:
  assumes gr: "gw_groups w g = Some gr" and p: "p \<in> members gr" "le_FindConnected (ge_env ge) p"
  shows "safely (ChangeLeader ge p g w) (\<lambda>w'. quiet g w w' \<and> (\<exists>gr'. gw_groups w' g = Some gr' \<and> g_leaderGuid gr' = p))"
proof -
  obtain slot where s: "getMemberSlot p gr = Some slot"
    using p(1) by (cases "getMemberSlot p gr") (auto simp: getMemberSlot_def members_def find_None_iff)
  let ?gr = "ToggleGroupMemberFlag p 1 False (gr\<lparr>g_leaderGuid := p, g_leaderName := ge_name ge p\<rparr>)"
  have "safely (SendUpdate ge g (BroadcastPacket ge g 0x079 [Str (ms_name slot)] True None 0 ?gr (set_group g ?gr w2)))
      (\<lambda>w'. \<exists>gr'. gw_groups w' g = Some gr' \<and> g_leaderGuid gr' = p)" for w2
  proof (rule safely_mono [OF SendUpdate_out [where gr = ?gr]])
    show "gw_groups (BroadcastPacket ge g 0x079 [Str (ms_name slot)] True None 0 ?gr (set_group g ?gr w2)) g = Some ?gr"
      using only_out_frame [OF BroadcastPacket_out] by simp
  qed (use only_out_frame [OF BroadcastPacket_out] only_out_frame in fastforce)
  then have "safely (ChangeLeader ge p g w) (\<lambda>w'. \<exists>gr'. gw_groups w' g = Some gr' \<and> g_leaderGuid gr' = p)"
    using gr s p(2) by (simp add: ChangeLeader_def Let_def)
  then show ?thesis by (rule safely_conj [OF ChangeLeader_quiet [OF gr]])
qed

text \<open>A leader who has left is replaced by a connected member, when there is one.\<close>

lemma pick_leader_inv:
  assumes gr: "gw_groups w g = Some gr"
  shows "safely (pick_leader ge p g w) (\<lambda>w'. quiet g w w' \<and> (\<exists>gr'. gw_groups w' g = Some gr' \<and>
    (g_leaderGuid gr = p \<and> (\<exists>q \<in> members gr. le_FindConnected (ge_env ge) q) \<longrightarrow> g_leaderGuid gr' \<in> members gr) \<and>
    (g_leaderGuid gr \<noteq> p \<longrightarrow> g_leaderGuid gr' = g_leaderGuid gr)))"
proof (cases "g_leaderGuid gr = p")
  case True
  show ?thesis
  proof (cases "find (\<lambda>s. le_FindConnected (ge_env ge) (ms_guid s)) (g_memberSlots gr)")
    case None
    then have "pick_leader ge p g w = Inr w" by (simp add: pick_leader_def gr True)
    then show ?thesis
      using gr True quiet_out [OF gr] None by (auto simp: find_None_iff members_def)
  next
    case (Some s)
    then have "ms_guid s \<in> members gr" "le_FindConnected (ge_env ge) (ms_guid s)"
      by (auto simp: find_Some_iff members_def)
    from ChangeLeader_leads [OF gr this] this(1) show ?thesis
      using gr True Some by (auto simp: pick_leader_def elim!: safely_mono)
  qed
qed (use gr quiet_out [OF gr] in \<open>simp add: pick_leader_def\<close>)


text \<open>The world after the links of \<open>p\<close> to the group are gone, with the members \<open>M\<close> and the leader in \<open>L\<close>.\<close>

definition away :: "guid \<Rightarrow> nat \<Rightarrow> guid set \<Rightarrow> guid set \<Rightarrow> group_world \<Rightarrow> group_world \<Rightarrow> bool" where
  "away p g M L w w' \<longleftrightarrow> gp_group (gw_players w' p) \<noteq> Some g \<and>
     (\<forall>q. q \<noteq> p \<longrightarrow> gp_group (gw_players w' q) = gp_group (gw_players w q)) \<and>
     (\<exists>gr'. gw_groups w' g = Some gr' \<and> members gr' = M \<and> roomy gr' \<and> g_leaderGuid gr' \<in> L \<and>
        unat (g_dbStoreId gr') < length (gw_GroupDbStore w'))"

lemma away_quiet:
  assumes a: "away p g M L w w'" and q: "quiet g w' w''" and M: "M \<subseteq> L"
  shows "away p g M L w w''"
proof -
  obtain gr' gr'' where g: "gw_groups w' g = Some gr'" "gw_groups w'' g = Some gr''" "like gr' gr''"
      "g_leaderGuid gr'' = g_leaderGuid gr' \<or> g_leaderGuid gr'' \<in> members gr'"
    using q by (auto simp: quiet_def)
  moreover have "g_dbStoreId gr'' = g_dbStoreId gr'" using g(3) by (simp add: like_def)
  ultimately show ?thesis
    using a M like_members [OF g(3)] like_roomy [OF g(3)] quiet_links [OF q] by (auto simp: away_def same_links_def)
qed

lemma away_out: "away p g M L w w' \<Longrightarrow> only_out w' w'' \<Longrightarrow> away p g M L w w''"
  using only_out_frame [of w' w''] by (simp add: away_def)

lemma say_goodbye_inv:
  assumes inv: "roster_inv con (Some g) w" and gr: "gw_groups w g = Some gr" and p: "p \<in> members gr"
    and s: "settled con g gr w"
  shows "safely (if con p then say_goodbye p kick g gr w else Inr w)
    (\<lambda>w'. roster_inv con (Some g) w' \<and> away p g (members gr) (members gr) w w')"
proof -
  have c: "IsCreated gr" using p by (auto simp: created_members)
  have l: "g_leaderGuid gr \<in> members gr" "roomy gr" "unat (g_dbStoreId gr) < length (gw_GroupDbStore w)"
    using s c by (simp_all add: settled_def)
  have a: "away p g (members gr) (members gr) w (unlink False p w)"
  proof (cases "gp_group (gw_players w p)")
    case None
    then show ?thesis using gr l by (simp add: unlink_effect away_def)
  next
    case (Some h)
    then have h: "gp_group (gw_players w p) = Some g" using member_group [OF inv gr p] by auto
    show ?thesis using l unfolding unlink_effect(1) [OF h gr] by (simp add: away_def)
  qed
  show ?thesis
  proof (cases "con p")
    case False
    then have "gp_group (gw_players w p) \<noteq> Some g" using live(3) [OF inv] by blast
    then show ?thesis using False inv gr l by (simp add: away_def)
  next
    case True
    have nb: "\<not> g_bgGroup gr" by (rule not_bg [OF inv gr])
    have u: "roster_inv con (Some g) (unlink False p w)" using unlink_emptying [OF inv gr p] by blast
    show ?thesis
      using True u away_out [OF a] by (simp add: say_goodbye_def detach_is_unlink [OF inv gr] nb Let_def)
  qed
qed

lemma forget_member_inv:
  assumes inv: "roster_inv con (Some g) w" and a: "away p g M L w0 w"
  shows "safely (forget_member p g w) (\<lambda>w'. roster_inv con (Some g) w' \<and> away p g M L w0 w')"
proof -
  obtain gr where gr: "gw_groups w g = Some gr" using a by (auto simp: away_def)
  have "gp_group (gw_players w p) \<noteq> Some g" using a by (simp add: away_def)
  then have "find (\<lambda>(q, orig). q = p) (g_refs gr) = None"
    using invD(1) [OF inv gr] by (auto simp: find_None_iff group_inv_def)
  then have "forget_member p g w = Inr (gstmt ''CHAR_DEL_GROUP_MEMBER'' [ucast (guid_counter p)] w)"
    using gr not_bg [OF inv gr] by (simp add: forget_member_def DelinkMember_def)
  then show ?thesis using inv away_out [OF a] by simp
qed

lemma erase_member_inv:
  assumes inv: "roster_inv con (Some g) w" and a: "away p g M L w0 w"
  shows "safely (with_group g w (\<lambda>gr. bind_result (erase_slot p gr) (\<lambda>gr'. Inr (set_group g gr' w))))
    (\<lambda>w'. roster_inv con (Some g) w' \<and> away p g (M - {p}) L w0 w')"
proof -
  obtain gr where gr: "gw_groups w g = Some gr" "members gr = M" "roomy gr" "g_leaderGuid gr \<in> L"
      "unat (g_dbStoreId gr) < length (gw_GroupDbStore w)" and p: "gp_group (gw_players w p) \<noteq> Some g"
    using a by (auto simp: away_def)
  obtain gr' where g': "erase_slot p gr = Inr gr'" "roster_inv con (Some g) (set_group g gr' w)" "erased p gr gr'"
    using erase_slot_inv [OF inv gr(1) p] by blast
  then show ?thesis using gr a by (simp add: away_def erased_def)
qed

lemma pick_leader_away:
  assumes inv: "roster_inv con (Some g) w" and a: "away p g M L w0 w" and L: "L = insert p M" "p \<notin> M"
    and con: "con = le_FindConnected (ge_env ge)"
  shows "safely (pick_leader ge p g w) (\<lambda>w'. roster_inv con (Some g) w' \<and> away p g M L w0 w' \<and>
    ((\<exists>q \<in> M. con q) \<longrightarrow> away p g M M w0 w'))"
proof -
  obtain gr where gr: "gw_groups w g = Some gr" "members gr = M" "g_leaderGuid gr \<in> L" using a by (auto simp: away_def)
  show ?thesis
  proof (rule safely_mono [OF pick_leader_inv [OF gr(1), of ge p]])
    fix w' assume w': "quiet g w w' \<and> (\<exists>gr'. gw_groups w' g = Some gr' \<and>
      (g_leaderGuid gr = p \<and> (\<exists>q \<in> members gr. le_FindConnected (ge_env ge) q) \<longrightarrow> g_leaderGuid gr' \<in> members gr) \<and>
      (g_leaderGuid gr \<noteq> p \<longrightarrow> g_leaderGuid gr' = g_leaderGuid gr))"
    then have al: "away p g M L w0 w'" using away_quiet [OF a] L by blast
    moreover have "away p g M M w0 w'" if "\<exists>q \<in> M. con q"
      using w' al that gr L con by (cases "g_leaderGuid gr = p") (auto simp: away_def)
    ultimately show "roster_inv con (Some g) w' \<and> away p g M L w0 w' \<and> ((\<exists>q \<in> M. con q) \<longrightarrow> away p g M M w0 w')"
      using quiet_inv [OF inv] w' by blast
  qed
qed


lemma away_settled:
  assumes old: "roster_inv con None w" and gr: "gw_groups w g = Some gr" and p: "p \<in> members gr"
    and new: "roster_inv con (Some g) w'" and a: "away p g M M w w'" and M: "M = members gr - {p}"
  shows "roster_inv con None w'"
proof -
  obtain gr' where g': "gw_groups w' g = Some gr'" "members gr' = M" "roomy gr'" "g_leaderGuid gr' \<in> M"
      "unat (g_dbStoreId gr') < length (gw_GroupDbStore w')"
    using a by (auto simp: away_def)
  have c': "IsCreated gr'" using g'(2,4) by (auto simp: created_members)
  have "gp_group (gw_players w' q) = Some g" if "q \<in> M" "con q" for q
    using invD(2) [OF old gr] p that a M by (auto simp: settled_def created_members away_def split: if_splits)
  then have "settled con g gr' w'" using g' c' by (simp add: settled_def)
  then show ?thesis using settle [OF new g'(1)] c' by blast
qed

text \<open>What follows when the member is out of the slots.\<close>

lemma close_ranks_inv:
  assumes old: "roster_inv con None w" and gr: "gw_groups w g = Some gr" and p: "p \<in> members gr"
    and new: "roster_inv con (Some g) w6" and a: "away p g (members gr - {p}) (members gr) w w6"
    and con: "con = le_FindConnected (ge_env ge)"
  shows "safely (bind_result (pick_leader ge p g w6) (\<lambda>w7. bind_result (SendUpdate ge g w7) (\<lambda>w8.
      with_group g w8 (\<lambda>gr8. if length (g_refs gr8) < (if g_bgGroup gr8 then 1 else 2) then bind_result (Disband ge False g w8) (\<lambda>w9. Inr (True, w9))
        else Inr (True, w8))))) (\<lambda>(ok, w'). roster_inv con None w')"
proof -
  let ?M = "members gr - {p}" and ?L = "members gr"
  have L: "?L = insert p ?M" "p \<notin> ?M" using p by auto
  have rest: "safely (bind_result (SendUpdate ge g w7) (\<lambda>w8.
      with_group g w8 (\<lambda>gr8. if length (g_refs gr8) < (if g_bgGroup gr8 then 1 else 2) then bind_result (Disband ge False g w8) (\<lambda>w9. Inr (True, w9))
        else Inr (True, w8)))) (\<lambda>(ok, w'). roster_inv con None w')"
    if w7: "roster_inv con (Some g) w7" "away p g ?M ?L w w7" "(\<exists>q \<in> ?M. con q) \<longrightarrow> away p g ?M ?M w w7" for w7
  proof -
    obtain gr7 where g7: "gw_groups w7 g = Some gr7" "members gr7 = ?M"
        "unat (g_dbStoreId gr7) < length (gw_GroupDbStore w7)"
      using w7(2) by (auto simp: away_def)
    show ?thesis
    proof (rule safely_bindI [OF SendUpdate_out [OF g7(1)]])
      fix w8 assume o: "only_out w7 w8"
      have i8: "roster_inv con (Some g) w8" using w7(1) roster_inv_out [OF o] by simp
      have g8: "gw_groups w8 g = Some gr7" and db: "unat (g_dbStoreId gr7) < length (gw_GroupDbStore w8)"
        using g7 only_out_frame [OF o] by simp_all
      have "roster_inv con None w8" if two: "\<not> length (g_refs gr7) < 2"
      proof -
        obtain q orig where "(q, orig) \<in> set (g_refs gr7)" using two by (cases "g_refs gr7") auto
        then have q: "gp_group (gw_players w7 q) = Some g" using invD(1) [OF w7(1) g7(1)] by (simp add: group_inv_def)
        then have "q \<in> ?M" "con q" using live(1,3) [OF w7(1) q] g7 by auto
        then have "away p g ?M ?M w w8" using w7(3) away_out [OF _ o] by blast
        then show ?thesis by (rule away_settled [OF old gr p i8]) simp
      qed
      then show "safely (with_group g w8 (\<lambda>gr8. if length (g_refs gr8) < (if g_bgGroup gr8 then 1 else 2)
          then bind_result (Disband ge False g w8) (\<lambda>w9. Inr (True, w9)) else Inr (True, w8)))
          (\<lambda>(ok, w'). roster_inv con None w')"
        using g8 not_bg [OF i8 g8] by (auto intro: safely_bindI [OF Disband_inv [OF i8 g8 con db]])
    qed
  qed
  show ?thesis
    by (rule safely_bindI [OF pick_leader_away [OF new a L con]]) (use rest in blast)
qed

lemma RemoveMember_inv:
  assumes inv: "roster_inv con None w" and gr: "gw_groups w g = Some gr" and p: "p \<in> members gr"
    and con: "con = le_FindConnected (ge_env ge)"
  shows "safely (RemoveMember ge p kick g w) (\<lambda>(ok, w'). roster_inv con None w')"
proof -
  let ?M = "members gr"
  define w2 where "w2 = (if con p then remove_buffs p gr (BroadcastGroupUpdate ge gr w) else BroadcastGroupUpdate ge gr w)"
  have o: "only_out w w2"
    unfolding w2_def by (auto intro: only_out_trans [OF BroadcastGroupUpdate_out remove_buffs_out] BroadcastGroupUpdate_out)
  have n2: "roster_inv con None w2" using inv roster_inv_out [OF o] by simp
  have i2: "roster_inv con (Some g) w2" by (rule unsettle [OF n2])
  have g2: "gw_groups w2 g = Some gr" using gr only_out_frame [OF o] by simp
  have s2: "settled con g gr w2" by (rule invD(2) [OF n2 g2]) simp
  have nb: "\<not> g_bgGroup gr" by (rule not_bg [OF inv gr])
  have db: "unat (g_dbStoreId gr) < length (gw_GroupDbStore w2)"
    using s2 p by (auto simp: settled_def created_members split: if_splits)
  have roll: "safely (on_roll_state g f w4) (\<lambda>w'. roster_inv con (Some g) w' \<and> away p g ?M ?M w2 w')"
    if w4: "roster_inv con (Some g) w4" "away p g ?M ?M w2 w4" for f w4
  proof -
    obtain gr4 where g4: "gw_groups w4 g = Some gr4" using w4(2) by (auto simp: away_def)
    show ?thesis
      by (rule safely_mono [OF on_roll_state_quiet [OF g4]]) (use w4 quiet_inv away_quiet in blast)
  qed
  have "safely (bind_result (if con p then say_goodbye p kick g gr w2 else Inr w2) (\<lambda>w3.
      bind_result (forget_member p g w3) (\<lambda>w4. bind_result (on_roll_state g f w4) (\<lambda>w5.
      bind_result (with_group g w5 (\<lambda>gr. bind_result (erase_slot p gr) (\<lambda>gr'. Inr (set_group g gr' w5)))) (\<lambda>w6.
      bind_result (pick_leader ge p g w6) (\<lambda>w7. bind_result (SendUpdate ge g w7) (\<lambda>w8.
      with_group g w8 (\<lambda>gr. if length (g_refs gr) < (if g_bgGroup gr then 1 else 2) then bind_result (Disband ge False g w8) (\<lambda>w9. Inr (True, w9))
        else Inr (True, w8))))))))) (\<lambda>(ok, w'). roster_inv con None w')" for f
    apply (rule safely_bindI [OF say_goodbye_inv [OF i2 g2 p s2]], erule conjE)
    apply (rule safely_bindI [OF forget_member_inv], assumption, assumption, erule conjE)
    apply (rule safely_bindI [OF roll], assumption, assumption, erule conjE)
    apply (rule safely_bindI [OF erase_member_inv], assumption, assumption, erule conjE)
    by (rule close_ranks_inv [OF n2 g2 p _ _ con])
  moreover have "safely (bind_result (Disband ge False g w2) (\<lambda>w3. Inr (False, w3))) (\<lambda>(ok, w'). roster_inv con None w')"
    by (rule safely_bindI [OF Disband_inv [OF i2 g2 con db]]) simp
  moreover have "RemoveMember ge p kick g w =
      (if GetMembersCount gr > 2 then bind_result (if con p then say_goodbye p kick g gr w2 else Inr w2) (\<lambda>w3.
      bind_result (forget_member p g w3) (\<lambda>w4. bind_result (on_roll_state g (RemoveMember_rolls (ge_roll ge) p) w4) (\<lambda>w5.
      bind_result (with_group g w5 (\<lambda>gr. bind_result (erase_slot p gr) (\<lambda>gr'. Inr (set_group g gr' w5)))) (\<lambda>w6.
      bind_result (pick_leader ge p g w6) (\<lambda>w7. bind_result (SendUpdate ge g w7) (\<lambda>w8.
      with_group g w8 (\<lambda>gr. if length (g_refs gr) < (if g_bgGroup gr then 1 else 2)
        then bind_result (Disband ge False g w8) (\<lambda>w9. Inr (True, w9)) else Inr (True, w8))))))))
      else bind_result (Disband ge False g w2) (\<lambda>w3. Inr (False, w3)))"
    using gr nb by (simp add: RemoveMember_def Let_def w2_def con)
  ultimately show ?thesis by simp
qed


section \<open>Taking an invitation back\<close>

lemma oset_erase_length: "x \<in> set xs \<Longrightarrow> Suc (length (oset_erase x xs)) = length xs"
  by (induction x xs rule: oset_erase.induct) auto

lemma UninviteFromGroup_inv:
  assumes inv: "roster_inv con None w" and con: "con = le_FindConnected (ge_env ge)"
  shows "safely (UninviteFromGroup ge p w) (\<lambda>w'. roster_inv con None w' \<and> gp_invite (gw_players w' p) = None)"
proof (cases "gp_invite (gw_players w p)")
  case None
  then show ?thesis using inv by (simp add: UninviteFromGroup_def)
next
  case (Some g)
  obtain gr where gr: "gw_groups w g = Some gr" using live(2) [OF inv Some] by blast
  define gr1 where "gr1 = gr\<lparr>g_invitees := oset_erase p (g_invitees gr)\<rparr>"
  define w1 where "w1 = set_player p ((gw_players w p)\<lparr>gp_invite := None\<rparr>) (set_group g gr1 w)"
  have r: "RemoveInvite p g w = Inr w1" by (simp add: RemoveInvite_effect [OF gr] w1_def gr1_def)
  have i1: "roster_inv con (Some g) w1" using RemoveInvite_inv [OF unsettle [OF inv] gr, of p] Some r by simp
  have g1: "gw_groups w1 g = Some gr1" and n1: "gp_invite (gw_players w1 p) = None" by (simp_all add: w1_def)
  show ?thesis
  proof (cases "IsCreated gr")
    case True
    then have c1: "IsCreated gr1" by (simp add: gr1_def)
    have s: "settled con g gr1 w1" using invD(2) [OF inv gr] True by (simp add: settled_def gr1_def w1_def)
    then have "roster_inv con None w1" using settle [OF i1 g1] c1 by blast
    moreover have "unat (g_dbStoreId gr1) < length (gw_GroupDbStore w1)" using s c1 by (simp add: settled_def)
    ultimately show ?thesis
      using Some r g1 c1 n1 by (auto simp: UninviteFromGroup_def intro: safely_mono [OF Disband_inv [OF i1 g1 con]])
  next
    case False
    have "p \<in> set (g_invitees gr)" using invD(1) [OF inv gr] Some by (simp add: group_inv_def)
    moreover from this have "length (g_invitees gr) = 2" using invD(2) [OF inv gr] False by (auto simp: settled_def)
    ultimately have l: "length (g_invitees gr1) \<le> 1"
      using oset_erase_length [of p "g_invitees gr"] by (simp add: gr1_def)
    have un: "unlisted g w1" using unlisted_not_created [OF inv gr False] by (simp add: w1_def unlisted_def)
    have "safely (bind_result (RemoveAllInvites ge g w1) (delete_group g))
        (\<lambda>w'. roster_inv con None w' \<and> gp_invite (gw_players w' p) = None)"
      by (rule safely_mono [OF take_back_all [OF i1 g1 un con]]) (use n1 in auto)
    then show ?thesis using Some r g1 False l by (simp add: UninviteFromGroup_def gr1_def)
  qed
qed

section \<open>Logging in and out\<close>

lemma connect:
  assumes inv: "roster_inv con None w" and out: "\<not> con p"
    and home: "\<And>h hr. gw_groups w h = Some hr \<Longrightarrow> p \<in> members hr \<Longrightarrow> b = Some h"
  shows "roster_inv (con(p := True)) b w"
proof -
  have "settled (con(p := True)) h hr w" if "gw_groups w h = Some hr" "b \<noteq> Some h" for h hr
    using invD(2) [OF inv that(1)] home [OF that(1)] that(2) by (auto simp: settled_def)
  moreover have "player_inv (con(p := True)) q w" for q
    using invD(3) [OF inv, of q] by (auto simp: player_inv_def)
  moreover have "manager_inv b w" by (rule manager_change [OF invD(5) [OF inv]]) auto
  ultimately show ?thesis using inv unfolding roster_inv_def by blast
qed

lemma disconnect:
  assumes inv: "roster_inv con b w" and p: "gp_group (gw_players w p) = None" "gp_invite (gw_players w p) = None"
  shows "roster_inv (con(p := False)) b w"
proof -
  have "settled (con(p := False)) h hr w" if "gw_groups w h = Some hr" "b \<noteq> Some h" for h hr
    using invD(2) [OF inv that(1)] that(2) by (auto simp: settled_def)
  moreover have "player_inv (con(p := False)) q w" for q
    using invD(3) [OF inv, of q] p by (auto simp: player_inv_def)
  ultimately show ?thesis using inv unfolding roster_inv_def by blast
qed

text \<open>The group of a player who was not connected, by the row of \<open>group_member\<close>.\<close>

definition row_ok :: "guid \<Rightarrow> uint32 option \<Rightarrow> group_world \<Rightarrow> bool" where
  "row_ok p row w \<longleftrightarrow>
     (case (case row of None \<Rightarrow> None | Some i \<Rightarrow> GetGroupByDbStoreId i w) of
        None \<Rightarrow> (\<forall>g gr. gw_groups w g = Some gr \<longrightarrow> p \<notin> members gr)
      | Some g \<Rightarrow> (\<exists>gr. gw_groups w g = Some gr \<and> p \<in> members gr))"

lemma announce_presence_inv:
  assumes inv: "roster_inv con None w"
  shows "safely (announce_presence ge p b w) (\<lambda>w'. roster_inv con None w' \<and> same_links w w')"
proof (cases "gp_group (gw_players w p)")
  case (Some g)
  then obtain gr where gr: "gw_groups w g = Some gr" using live(1) [OF inv] by blast
  have "safely (bind_result (CheckLeader ge p b g w) (SendUpdate ge g)) (quiet g w)"
    by (rule quiet_bind [OF CheckLeader_quiet [OF gr]]) (rule SendUpdate_quiet)
  then show ?thesis
    using Some by (auto simp: announce_presence_def intro: quiet_inv [OF inv] quiet_links elim: safely_mono)
qed (use inv in \<open>simp add: announce_presence_def\<close>)

lemma fresh_player:
  assumes inv: "roster_inv con b w" and out: "\<not> con p"
  shows "roster_inv con b (set_player p (Player_new\<lparr>gp_leaderFlag := x\<rparr>) w)"
proof -
  define w' where "w' = set_player p (Player_new\<lparr>gp_leaderFlag := x\<rparr>) w"
  have p: "gp_group (gw_players w p) = None" "gp_invite (gw_players w p) = None" "gp_original (gw_players w p) = None"
    using live(3,4,5) [OF inv, of p] out
    by (cases "gp_group (gw_players w p)"; cases "gp_invite (gw_players w p)"; simp)+
  have same: "gp_group (gw_players w' q) = gp_group (gw_players w q)" "gp_invite (gw_players w' q) = gp_invite (gw_players w q)" for q
    using p by (simp_all add: w'_def Player_new_def)
  have "group_inv h hr w' = group_inv h hr w" "settled con h hr w' = settled con h hr w" "manager_inv b w' = manager_inv b w" for h hr
    using same by (simp_all add: group_inv_def settled_def manager_inv_def) (simp_all add: w'_def)
  moreover have "player_inv con q w'" for q
    using invD(3) [OF inv, of q] p by (cases "q = p") (simp_all add: player_inv_def w'_def Player_new_def)
  moreover have "gw_groups w' = gw_groups w" by (simp add: w'_def)
  ultimately have "roster_inv con b w'" using inv by (simp add: roster_inv_def)
  then show ?thesis by (simp add: w'_def)
qed

lemma PlayerLogin_inv:
  assumes inv: "roster_inv con None w" and out: "\<not> con p" and row: "row_ok p row w"
  shows "safely (PlayerLogin ge p row w) (roster_inv (con(p := True)) None)"
proof -
  define w0 where "w0 = set_player p (Player_new\<lparr>gp_leaderFlag := gp_leaderFlag (gw_players w p)\<rparr>) w"
  have i0: "roster_inv con None w0" unfolding w0_def by (rule fresh_player [OF inv out])
  have p0: "gp_group (gw_players w0 p) = None" "gp_invite (gw_players w0 p) = None"
    and g0: "gw_groups w0 = gw_groups w" "gw_GroupDbStore w0 = gw_GroupDbStore w"
    by (simp_all add: w0_def Player_new_def)
  have st: "GetGroupByDbStoreId i w0 = GetGroupByDbStoreId i w" for i
    using g0 by (simp add: GetGroupByDbStoreId_def)
  let ?con = "con(p := True)"
  have "safely (LoadGroup_player ge p row w0) (roster_inv ?con None)"
  proof (cases "case row of None \<Rightarrow> None | Some i \<Rightarrow> GetGroupByDbStoreId i w")
    case None
    have "roster_inv ?con None w0"
      by (rule connect [OF i0 out]) (use row None g0 in \<open>auto simp: row_ok_def\<close>)
    then show ?thesis
      using None p0(1) by (simp add: LoadGroup_player_def st cong: option.case_cong)
  next
    case (Some g)
    then obtain gr where gr: "gw_groups w0 g = Some gr" "p \<in> members gr"
      using row g0 by (auto simp: row_ok_def)
    have i1: "roster_inv ?con (Some g) w0"
      by (rule connect [OF i0 out]) (use invD(4) [OF i0 gr(1)] gr(2) in blast)
    have d: "distinct (map ms_guid (g_memberSlots gr))"
      using invD(1) [OF i0 gr(1)] by (simp add: group_inv_def slots_ok_def split: option.splits)
    obtain s where "s \<in> set (g_memberSlots gr)" "ms_guid s = p" using gr(2) by (auto simp: members_def)
    then have seat: "(p, GetMemberGroup p gr) \<in> set (seat_list gr)"
      using slot_group [OF d] by (force simp: seat_list_def)
    let ?gr = "gr\<lparr>g_refs := (p, False) # g_refs gr\<rparr>"
    define w1 where "w1 = set_group g ?gr (set_player p ((gw_players w0 p)\<lparr>gp_group := Some g, gp_subGroup := GetMemberGroup p gr\<rparr>) w0)"
    have l: "link False p g (GetMemberGroup p gr) w0 = Inr w1" unfolding w1_def by (rule link_effect [OF p0(1) gr(1)])
    have "roster_inv ?con (Some g) w1"
      using link_inv [OF i1 gr(1) p0 _ seat] l by simp
    moreover have "settled ?con g ?gr w1"
      using invD(2) [OF i0 gr(1)] gr(2) by (auto simp: settled_def w1_def created_members split: if_splits)
    moreover have "gw_groups w1 g = Some ?gr" "IsCreated ?gr" using gr(2) by (auto simp: w1_def created_members)
    ultimately have n1: "roster_inv ?con None w1" using settle by blast
    then show ?thesis
      using Some gr(1) l
      by (simp add: LoadGroup_player_def st SetGroup_def w1_def [symmetric] cong: option.case_cong)
        (simp add: w1_def)
  qed
  then show ?thesis
    unfolding PlayerLogin_def w0_def [symmetric]
    by (rule safely_bindI) (auto intro: safely_mono [OF announce_presence_inv])
qed

lemma LogoutPlayer_inv:
  assumes inv: "roster_inv con None w" and con: "con = le_FindConnected (ge_env ge)"
  shows "safely (LogoutPlayer ge ge' p w) (roster_inv (con(p := False)) None)"
proof -
  let ?con = "con(p := False)"
  have "roster_inv ?con None (unlink True p (unlink False p w2))"
    if w2: "roster_inv con None w2" "gp_invite (gw_players w2 p) = None" for w2
  proof (cases "gp_group (gw_players w2 p)")
    case None
    then show ?thesis
      using disconnect [OF w2(1) None w2(2)] live(5) [OF w2(1)] by (simp add: unlink_effect)
  next
    case (Some g)
    then obtain gr where gr: "gw_groups w2 g = Some gr" "p \<in> members gr" using live(1) [OF w2(1)] by blast
    let ?gr = "gr\<lparr>g_refs := remove1 (p, False) (g_refs gr)\<rparr>"
    have e: "unlink False p w2 = set_player p ((gw_players w2 p)\<lparr>gp_group := None\<rparr>) (set_group g ?gr w2)"
      by (rule unlink_effect(1) [OF Some gr(1)])
    have i3: "roster_inv con (Some g) (unlink False p w2)" by (rule unlink_inv [OF unsettle [OF w2(1)] Some])
    have "roster_inv ?con (Some g) (unlink False p w2)"
      by (rule disconnect [OF i3]) (use w2(2) in \<open>simp_all add: e\<close>)
    moreover have "settled ?con g ?gr (unlink False p w2)"
      using invD(2) [OF w2(1) gr(1)] gr(2) by (auto simp: settled_def e created_members split: if_splits)
    moreover have "gw_groups (unlink False p w2) g = Some ?gr" "IsCreated ?gr" using gr(2) by (auto simp: e created_members)
    ultimately have "roster_inv ?con None (unlink False p w2)" using settle by blast
    then show ?thesis using live(5) [OF i3] by (simp add: unlink_effect(3))
  qed
  then have "safely (bind_result (announce_presence ge' p True w1) (\<lambda>w2. Inr (unlink True p (unlink False p w2)))) (roster_inv ?con None)"
    if "roster_inv con None w1" "gp_invite (gw_players w1 p) = None" for w1
    by (intro safely_bindI [OF announce_presence_inv [OF that(1)]]) (use that(2) in \<open>auto simp: same_links_def\<close>)
  then show ?thesis
    unfolding LogoutPlayer_def by (intro safely_bindI [OF UninviteFromGroup_inv [OF inv con]]) blast
qed


end
