(* ===== verification/GroupSafety.thy ===== *)
theory GroupSafety
  imports GroupLeave
begin

text \<open>
  Every request of a group session keeps the invariant and does not use a deleted object, and so
  do logins, logouts and the update of the group manager; declining an invitation to a group that
  exists is the exception. Then what this means for all reachable worlds.
\<close>

section \<open>Requests\<close>

lemma in_group_inv:
  assumes inv: "roster_inv con None w"
    and f: "\<And>g gr. gp_group (gw_players w p) = Some g \<Longrightarrow> gw_groups w g = Some gr \<Longrightarrow> p \<in> members gr \<Longrightarrow>
      safely (f g gr) (roster_inv con None)"
  shows "safely (in_group p w f) (roster_inv con None)"
  using inv live(1) [OF inv, of p] f by (auto simp: in_group_def split: option.split)

lemma quiet_safe:
  "roster_inv con b w \<Longrightarrow> safely r (quiet g w) \<Longrightarrow> safely r (roster_inv con b)"
  using safely_mono [of r "quiet g w" "roster_inv con b"] quiet_inv by blast

lemma find_invitee_safe:
  assumes inv: "roster_inv con b w" and gr: "gw_groups w g = Some gr" and con: "con = le_FindConnected (ge_env ge)"
  shows "safely (find_invitee ge P gr) (\<lambda>_. True)"
proof -
  have "con q" if "q \<in> set (g_invitees gr)" for q
    using invD(1) [OF inv gr] live(4) [OF inv] that by (auto simp: group_inv_def)
  then show ?thesis unfolding find_invitee_def by (intro safely_fold) (auto simp: con)
qed

lemma CanUninvite_safe:
  assumes inv: "roster_inv con b w"
  shows "safely (CanUninviteFromGroup se p w) (\<lambda>_. True)"
  using live(1) [OF inv, of p] by (auto simp: CanUninviteFromGroup_def split: option.split)

lemma RemoveFromGroup_inv:
  assumes "roster_inv con None w" "gw_groups w g = Some gr" "p \<in> members gr" "con = le_FindConnected (ge_env ge)"
  shows "safely (RemoveFromGroup ge p kick (Some g) w) (roster_inv con None)"
  unfolding RemoveFromGroup_def using assms by (auto intro: safely_bindI [OF RemoveMember_inv])

lemma uninvite_found:
  assumes inv: "roster_inv con None w" and gr: "gw_groups w g = Some gr" and con: "con = le_FindConnected (ge_env ge)"
  shows "safely (bind_result (find_invitee ge P gr) (\<lambda>i. case i of
      Some i \<Rightarrow> UninviteFromGroup ge i w | None \<Rightarrow> Inr (SendPartyResult p a n r w))) (roster_inv con None)"
  by (rule safely_bindI [OF find_invitee_safe [OF inv gr con]])
    (use inv in \<open>auto simp: SendPartyResult_def split: option.split intro: safely_mono [OF UninviteFromGroup_inv [OF inv con]]\<close>)

lemma named_member: "GetMemberGUID n gr = q \<Longrightarrow> q \<noteq> 0 \<Longrightarrow> q \<in> members gr"
  by (auto simp: GetMemberGUID_def members_def find_Some_iff split: option.splits)

lemma uninvite_requests_inv:
  assumes inv: "roster_inv con None w" and con: "con = le_FindConnected (ge_env (gs_env se))"
  shows "safely (HandleGroupUninviteGuidOpcode se p q w) (roster_inv con None)"
    and "safely (HandleGroupUninviteOpcode se p n w) (roster_inv con None)"
proof -
  have reply: "safely (Inr (SendPartyResult p a m r w) :: (group_fault, group_world) result) (roster_inv con None)" for a m r
    using inv by (simp add: SendPartyResult_def)
  have "safely (in_group p w (\<lambda>g gr. if IsMember q gr then RemoveFromGroup (gs_env se) q True (Some g) w
      else bind_result (GetInvited (gs_env se) q gr) (\<lambda>i. case i of Some i \<Rightarrow> UninviteFromGroup (gs_env se) i w
        | None \<Rightarrow> Inr (SendPartyResult p 2 [] 2 w)))) (roster_inv con None)"
    unfolding GetInvited_def
    by (rule in_group_inv [OF inv])
      (use RemoveFromGroup_inv [OF inv _ _ con] uninvite_found [OF inv _ con] leader_is_member in \<open>auto simp: IsMember_def\<close>)
  then show "safely (HandleGroupUninviteGuidOpcode se p q w) (roster_inv con None)"
    unfolding HandleGroupUninviteGuidOpcode_def
    using inv reply by (auto intro: safely_bindI [OF CanUninvite_safe [OF inv]])
  have "safely (in_group p w (\<lambda>g gr. let q = GetMemberGUID m gr in if q = g_leaderGuid gr then Inr w
      else if q \<noteq> 0 then RemoveFromGroup (gs_env se) q True (Some g) w
      else bind_result (GetInvited_by_name (gs_env se) m gr) (\<lambda>i. case i of Some i \<Rightarrow> UninviteFromGroup (gs_env se) i w
        | None \<Rightarrow> Inr (SendPartyResult p 2 m 2 w)))) (roster_inv con None)" for m
    unfolding GetInvited_by_name_def
    by (rule in_group_inv [OF inv])
      (use inv RemoveFromGroup_inv [OF inv _ _ con] uninvite_found [OF inv _ con] named_member in \<open>auto simp: Let_def\<close>)
  then show "safely (HandleGroupUninviteOpcode se p n w) (roster_inv con None)"
    unfolding HandleGroupUninviteOpcode_def
    using inv reply by (auto intro: safely_bindI [OF CanUninvite_safe [OF inv]] split: option.split)
qed

section \<open>Subgroups\<close>

lemma same_groups_trans: "same_groups a b \<Longrightarrow> same_groups b c \<Longrightarrow> same_groups a c"
  by (simp add: same_groups_def)

lemma small_subgroup:
  assumes ok: "slots_ok gr" and r: "roomy gr" and free: "HasFreeSlotSubGroup sub gr = Inr True"
  shows "isRaidGroup gr" "in_subgroup (unat sub) (g_memberSlots gr) < 5"
proof -
  obtain cs where cs: "g_subGroupsCounts gr = Some cs" "unat sub < length cs" "unat (cs ! unat sub) < 5"
    using free by (auto simp: HasFreeSlotSubGroup_def split: option.splits if_splits)
  have "cs ! unat sub = of_nat (in_subgroup (unat sub) (g_memberSlots gr))" and raid: "isRaidGroup gr"
    using ok cs by (auto simp: slots_ok_def)
  moreover have "in_subgroup (unat sub) (g_memberSlots gr) \<le> 5" using r by (simp add: roomy_def)
  ultimately show "isRaidGroup gr" "in_subgroup (unat sub) (g_memberSlots gr) < 5"
    using cs(3) by (simp_all add: unat_of_nat)
qed

lemma HandleGroupChangeSubGroupOpcode_inv:
  assumes inv: "roster_inv con None w" and con: "con = le_FindConnected (ge_env (gs_env se))"
  shows "safely (HandleGroupChangeSubGroupOpcode se p n sub w) (roster_inv con None)"
  unfolding HandleGroupChangeSubGroupOpcode_def
proof (rule in_group_inv [OF inv])
  fix g gr assume gr: "gw_groups w g = Some gr" "p \<in> members gr"
  have c: "IsCreated gr" using gr(2) by (auto simp: created_members)
  have r: "roomy gr" and ok: "slots_ok gr"
    using invD(1,2) [OF inv gr(1)] by (simp_all add: settled_def group_inv_def)
  show "safely (case gs_normalize se n of None \<Rightarrow> Inr w | Some m \<Rightarrow>
      if 8 \<le> unat sub \<or> \<not> may_lead p gr then Inr w
      else bind_result (HasFreeSlotSubGroup sub gr) (\<lambda>free. if \<not> free \<or> guid_of_name se m = 0 then Inr w
        else ChangeMembersGroup (gs_env se) (guid_of_name se m) sub g w)) (roster_inv con None)"
  proof -
    have free: "\<exists>b. HasFreeSlotSubGroup sub gr = Inr b" if "unat sub < 8"
      using ok that by (auto simp: HasFreeSlotSubGroup_def slots_ok_def split: option.splits)
    have "safely (ChangeMembersGroup (gs_env se) q sub g w) (roster_inv con None)"
      if "unat sub < 8" "HasFreeSlotSubGroup sub gr = Inr True" for q
    proof (rule safely_mono [OF ChangeMembersGroup_inv [OF unsettle [OF inv] gr(1) con that(1)]])
      fix w' assume w': "roster_inv con (Some g) w' \<and> same_groups w w' \<and>
        (\<exists>gr'. gw_groups w' g = Some gr' \<and> regrouped q sub gr gr')"
      then obtain gr' where g': "gw_groups w' g = Some gr'" "regrouped q sub gr gr'" by blast
      have small: "in_subgroup (unat sub) (g_memberSlots gr) < 5" by (rule small_subgroup(2) [OF ok r that(2)])
      have "roomy gr'"
        unfolding roomy_def
      proof
        fix i
        have "in_subgroup i (g_memberSlots gr) \<le> 5" using r by (simp add: roomy_def)
        then show "in_subgroup i (g_memberSlots gr') \<le> 5"
          using g'(2) small by (cases "i = unat sub") (auto simp: regrouped_def moved_def split: if_splits dest: spec [of _ i])
      qed
      then show "roster_inv con None w'"
        using resettle [OF inv gr(1) c] w' g' by (auto simp: regrouped_def moved_def split: if_splits)
    qed
    then show ?thesis
      using inv free by (auto split: option.split)
  qed
qed

lemma member_subgroup: "slots_ok gr \<Longrightarrow> isRaidGroup gr \<Longrightarrow> GetMemberGroup p gr \<noteq> 9 \<Longrightarrow> unat (GetMemberGroup p gr) < 8"
  by (auto simp: GetMemberGroup_def getMemberSlot_def slots_ok_def find_Some_iff split: option.splits)

lemma regrouped_same:
  "regrouped p sub gr gr' \<Longrightarrow> g_leaderGuid gr' = g_leaderGuid gr \<and> g_dbStoreId gr' = g_dbStoreId gr \<and>
     members gr' = members gr \<and> isRaidGroup gr' = isRaidGroup gr"
  by (auto simp: regrouped_def moved_def split: if_splits)

lemma slot_present: "getMemberSlot p gr \<noteq> None \<longleftrightarrow> p \<in> members gr"
  by (auto simp: getMemberSlot_def members_def find_None_iff)

text \<open>Two members who change places leave the sizes of the subgroups as they were.\<close>

lemma swapped_roomy:
  assumes r: "roomy gr" and raid: "isRaidGroup gr" and m: "q1 \<in> members gr" "q2 \<in> members gr"
    and ne: "GetMemberGroup q1 gr \<noteq> GetMemberGroup q2 gr"
    and s1: "regrouped q1 (GetMemberGroup q2 gr) gr gr1" and s2: "regrouped q2 (GetMemberGroup q1 gr) gr1 gr2"
  shows "roomy gr2"
proof -
  let ?a = "GetMemberGroup q1 gr" and ?b = "GetMemberGroup q2 gr"
  have m1: "moved q1 ?b gr gr1" using s1 raid m(1) ne slot_present [of q1 gr] by (auto simp: regrouped_def)
  then have g1: "isRaidGroup gr1" "members gr1 = members gr" "GetMemberGroup q2 gr1 = ?b"
    using raid ne by (auto simp: moved_def)
  have m2: "moved q2 ?a gr1 gr2" using s2 g1 m(2) ne slot_present [of q2 gr1] by (auto simp: regrouped_def)
  show ?thesis
    unfolding roomy_def
  proof
    fix i
    have "in_subgroup i (g_memberSlots gr1) + (if unat ?a = i then 1 else 0) = in_subgroup i (g_memberSlots gr) + (if unat ?b = i then 1 else 0)"
      using m1 by (simp add: moved_def)
    moreover have "in_subgroup i (g_memberSlots gr2) + (if unat ?b = i then 1 else 0) = in_subgroup i (g_memberSlots gr1) + (if unat ?a = i then 1 else 0)"
      using m2 g1(3) by (simp add: moved_def)
    ultimately have "in_subgroup i (g_memberSlots gr2) = in_subgroup i (g_memberSlots gr)" by linarith
    then show "in_subgroup i (g_memberSlots gr2) \<le> 5" using r by (simp add: roomy_def)
  qed
qed

lemma swap_inv:
  assumes inv: "roster_inv con None w" and gr: "gw_groups w g = Some gr" and c: "IsCreated gr" and raid: "isRaidGroup gr"
    and con: "con = le_FindConnected (ge_env ge)"
    and s: "GetMemberGroup q1 gr \<noteq> 9" "GetMemberGroup q2 gr \<noteq> 9" "GetMemberGroup q1 gr \<noteq> GetMemberGroup q2 gr"
  shows "safely (bind_result (ChangeMembersGroup ge q1 (GetMemberGroup q2 gr) g w)
    (ChangeMembersGroup ge q2 (GetMemberGroup q1 gr) g)) (roster_inv con None)"
proof -
  have ok: "slots_ok gr" and r: "roomy gr"
    using invD(1,2) [OF inv gr] by (simp_all add: group_inv_def settled_def)
  have m: "q1 \<in> members gr" "q2 \<in> members gr"
    using s slot_present by (auto simp: GetMemberGroup_def split: option.splits)
  note sub = member_subgroup [OF ok raid s(1)] member_subgroup [OF ok raid s(2)]
  show ?thesis
  proof (rule safely_bindI [OF ChangeMembersGroup_inv [OF unsettle [OF inv] gr con sub(2)]])
    fix w1 assume w1: "roster_inv con (Some g) w1 \<and> same_groups w w1 \<and>
      (\<exists>gr'. gw_groups w1 g = Some gr' \<and> regrouped q1 (GetMemberGroup q2 gr) gr gr')"
    then obtain gr1 where g1: "gw_groups w1 g = Some gr1" "regrouped q1 (GetMemberGroup q2 gr) gr gr1" by blast
    show "safely (ChangeMembersGroup ge q2 (GetMemberGroup q1 gr) g w1) (roster_inv con None)"
    proof (rule safely_mono [OF ChangeMembersGroup_inv [OF _ g1(1) con sub(1)]])
      show "roster_inv con (Some g) w1" using w1 by blast
    next
      fix w2 assume w2: "roster_inv con (Some g) w2 \<and> same_groups w1 w2 \<and>
        (\<exists>gr'. gw_groups w2 g = Some gr' \<and> regrouped q2 (GetMemberGroup q1 gr) gr1 gr')"
      then obtain gr2 where g2: "gw_groups w2 g = Some gr2" "regrouped q2 (GetMemberGroup q1 gr) gr1 gr2" by blast
      have "roomy gr2" by (rule swapped_roomy [OF r raid m s(3) g1(2) g2(2)])
      then show "roster_inv con None w2"
        using resettle [OF inv gr c _ g2(1)] w1 w2 same_groups_trans regrouped_same [OF g1(2)] regrouped_same [OF g2(2)] by metis
    qed
  qed
qed

lemma HandleGroupSwapSubGroupOpcode_inv:
  assumes inv: "roster_inv con None w" and con: "con = le_FindConnected (ge_env (gs_env se))"
  shows "safely (HandleGroupSwapSubGroupOpcode se p n1 n2 w) (roster_inv con None)"
proof -
  have reply: "safely (Inr (SendPartyResult p a m r w) :: (group_fault, group_world) result) (roster_inv con None)" for a m r
    using inv by (simp add: SendPartyResult_def)
  have swap: "safely (bind_result (ChangeMembersGroup (gs_env se) q1 (GetMemberGroup q2 gr) g w)
      (ChangeMembersGroup (gs_env se) q2 (GetMemberGroup q1 gr) g)) (roster_inv con None)"
    if "gw_groups w g = Some gr" "p \<in> members gr" "isRaidGroup gr" "GetMemberGroup q1 gr \<noteq> 9" "GetMemberGroup q2 gr \<noteq> 9"
      "GetMemberGroup q1 gr \<noteq> GetMemberGroup q2 gr" for g gr q1 q2
    using swap_inv [OF inv that(1) _ that(3) con that(4-6)] that(2) by (auto simp: created_members)
  show ?thesis
    unfolding HandleGroupSwapSubGroupOpcode_def Let_def
    using inv reply by (auto split: option.split intro!: in_group_inv [OF inv] swap)
qed

section \<open>All requests\<close>

text \<open>A player found by name is connected.\<close>

definition names_ok :: "group_session_env \<Rightarrow> bool" where
  "names_ok se \<longleftrightarrow> (\<forall>n q. gs_findByName se n = Some q \<longrightarrow> le_FindConnected (ge_env (gs_env se)) q)"

text \<open>The request is no refusal of an invitation to a group that has been created.\<close>

definition sound_request :: "guid \<Rightarrow> group_request \<Rightarrow> group_world \<Rightarrow> bool" where
  "sound_request p r w \<longleftrightarrow> (r = GroupDecline \<longrightarrow>
     (case gp_invite (gw_players w p) of None \<Rightarrow> True
      | Some g \<Rightarrow> (case gw_groups w g of None \<Rightarrow> True | Some gr \<Rightarrow> \<not> IsCreated gr)))"

lemma leading_requests_inv:
  assumes inv: "roster_inv con None w" and con: "con = le_FindConnected (ge_env ge)"
  shows "safely (HandleGroupSetLeaderOpcode ge p q w) (roster_inv con None)"
    and "safely (HandleLootMethodOpcode ge p m q t w) (roster_inv con None)"
    and "safely (HandleGroupAssistantLeaderOpcode ge p q b w) (roster_inv con None)"
    and "safely (HandlePartyAssignmentOpcode ge p a b q w) (roster_inv con None)"
    and "safely (HandleRaidTargetUpdateOpcode ge p i q w) (roster_inv con None)"
proof -
  note qs = quiet_safe [OF inv]
  show "safely (HandleGroupSetLeaderOpcode ge p q w) (roster_inv con None)"
    unfolding HandleGroupSetLeaderOpcode_def
    by (rule in_group_inv [OF inv]) (use inv in \<open>auto intro: qs [OF ChangeLeader_quiet]\<close>)
  show "safely (HandleLootMethodOpcode ge p m q t w) (roster_inv con None)"
    unfolding HandleLootMethodOpcode_def
    by (rule in_group_inv [OF inv])
      (use inv in \<open>auto split: option.split intro!: qs quiet_then_update quiet_set\<close>)
  show "safely (HandleGroupAssistantLeaderOpcode ge p q b w) (roster_inv con None)"
    unfolding HandleGroupAssistantLeaderOpcode_def
    by (rule in_group_inv [OF inv]) (use inv in \<open>auto intro: qs [OF flags_quiet]\<close>)
  have assign: "safely (bind_result (SetGroupMemberFlag ge q b flag g (set_group g (RemoveUniqueGroupMemberFlag flag gr) w)) (SendUpdate ge g))
      (roster_inv con None)" if gr: "gw_groups w g = Some gr" for g gr flag
  proof (rule qs [where g = g])
    have s: "quiet g w (set_group g (RemoveUniqueGroupMemberFlag flag gr) w)" by (rule quiet_set [OF gr]) auto
    have "safely (SetGroupMemberFlag ge q b flag g (set_group g (RemoveUniqueGroupMemberFlag flag gr) w)) (quiet g w)"
      by (rule safely_mono [OF flags_quiet [where gr = "RemoveUniqueGroupMemberFlag flag gr"]]) (auto intro: quiet_trans [OF s])
    then show "safely (bind_result (SetGroupMemberFlag ge q b flag g (set_group g (RemoveUniqueGroupMemberFlag flag gr) w)) (SendUpdate ge g)) (quiet g w)"
      by (rule quiet_bind) (rule SendUpdate_quiet)
  qed
  have "safely (SendUpdate ge g w) (roster_inv con None)" if "gw_groups w g = Some gr" for g gr
    by (rule qs [OF SendUpdate_quiet [OF that]])
  then show "safely (HandlePartyAssignmentOpcode ge p a b q w) (roster_inv con None)"
    unfolding HandlePartyAssignmentOpcode_def Let_def
    by (intro in_group_inv [OF inv]) (use inv assign in auto)
  show "safely (HandleRaidTargetUpdateOpcode ge p i q w) (roster_inv con None)"
    unfolding HandleRaidTargetUpdateOpcode_def
    by (rule in_group_inv [OF inv]) (use inv in \<open>auto simp: SendTargetIconList_def intro: qs [OF SetTargetIcon_quiet]\<close>)
qed


lemma talking_requests_inv:
  assumes inv: "roster_inv con None w"
  shows "safely (HandleRaidReadyCheckOpcode ge p a w) (roster_inv con None)"
    and "safely (HandleMinimapPingOpcode ge p x y w) (roster_inv con None)"
    and "safely (HandleRandomRollOpcode ge p lo hi w) (roster_inv con None)"
proof -
  have out: "roster_inv con None w'" if "only_out w w'" for w'
    using inv roster_inv_out [OF that] by simp
  show "safely (HandleRaidReadyCheckOpcode ge p a w) (roster_inv con None)"
    unfolding HandleRaidReadyCheckOpcode_def
    by (rule in_group_inv [OF inv])
      (use inv in \<open>auto split: option.split intro!: out BroadcastReadyCheck_out only_out_trans [OF BroadcastPacket_out OfflineReadyCheck_out]\<close>)
  show "safely (HandleMinimapPingOpcode ge p x y w) (roster_inv con None)"
    unfolding HandleMinimapPingOpcode_def
    by (rule in_group_inv [OF inv]) (auto intro!: out BroadcastPacket_out)
  have d: "only_out w (w\<lparr>gw_world := draw (gw_world w)\<rparr>)" by simp
  show "safely (HandleRandomRollOpcode ge p lo hi w) (roster_inv con None)"
    using inv live(1) [OF inv, of p]
    by (auto simp: HandleRandomRollOpcode_def Let_def with_group_def split: option.split
        intro!: out only_out_trans [OF d BroadcastPacket_out])
qed

lemma handle_request_inv:
  assumes inv: "roster_inv con None w" and con: "con = le_FindConnected (ge_env (gs_env se))" and p: "con p"
    and names: "names_ok se" and sound: "sound_request p r w"
  shows "safely (handle_request se p r w) (roster_inv con None)"
proof -
  have created: "IsCreated gr" if "p \<in> members gr" for gr using that by (auto simp: created_members)
  show ?thesis
  proof (cases r)
    case (GroupInvite n)
    have "safely (HandleGroupInviteOpcode se p n w) (roster_inv con None)"
      using inv p names invite_player_inv [OF inv]
      by (auto simp: HandleGroupInviteOpcode_def SendPartyResult_def names_ok_def con split: option.split)
    then show ?thesis by (simp add: GroupInvite)
  next
    case GroupDecline
    have "safely (HandleGroupDeclineOpcode (gs_env se) p w) (roster_inv con None)"
      by (rule HandleGroupDeclineOpcode_inv [OF inv con])
        (use sound GroupDecline in \<open>auto simp: sound_request_def split: option.splits\<close>)
    then show ?thesis by (simp add: GroupDecline)
  next
    case GroupDisband
    have "safely (HandleGroupDisbandOpcode se p w) (roster_inv con None)"
    proof (cases "gp_group (gw_players w p)")
      case (Some g)
      then obtain gr where gr: "gw_groups w g = Some gr" "p \<in> members gr" using live(1) [OF inv] by blast
      let ?w = "SendPartyResult p 2 (ge_name (gs_env se) p) 0 w"
      have "safely (RemoveFromGroup (gs_env se) p False (Some g) ?w) (roster_inv con None)"
        by (rule RemoveFromGroup_inv [OF _ _ gr(2) con]) (use inv gr(1) in \<open>simp_all add: SendPartyResult_def\<close>)
      then show ?thesis using Some inv by (simp add: HandleGroupDisbandOpcode_def SendPartyResult_def)
    qed (use inv in \<open>simp add: HandleGroupDisbandOpcode_def\<close>)
    then show ?thesis by (simp add: GroupDisband)
  next
    case GroupRaidConvert
    have "safely (HandleGroupRaidConvertOpcode se p w) (roster_inv con None)"
      unfolding HandleGroupRaidConvertOpcode_def
    proof (rule in_group_inv [OF inv])
      fix g gr assume gr: "gw_groups w g = Some gr" "p \<in> members gr"
      have "safely (ConvertToRaid (gs_env se) g (SendPartyResult p 0 [] 0 w)) (roster_inv con None)"
        by (rule ConvertToRaid_inv [OF _ _ created [OF gr(2)]]) (use inv gr(1) in \<open>simp_all add: SendPartyResult_def\<close>)
      then show "safely (if gs_inBattleground se p \<or> \<not> IsLeader p gr \<or> GetMembersCount gr < 2 then Inr w
          else ConvertToRaid (gs_env se) g (SendPartyResult p 0 [] 0 w)) (roster_inv con None)"
        using inv by simp
    qed
    then show ?thesis by (simp add: GroupRaidConvert)
  next
    case (RollVote g slot v)
    have "safely (on_roll_state h f w) (roster_inv con None)" if "gp_group (gw_players w p) = Some h" for h f
      using live(1) [OF inv that] quiet_safe [OF inv on_roll_state_quiet] by blast
    then show ?thesis using inv by (auto simp: RollVote split: option.split)
  qed (use HandleGroupAcceptOpcode_inv [OF inv con] uninvite_requests_inv [OF inv con] leading_requests_inv [OF inv con]
      talking_requests_inv [OF inv] HandleGroupChangeSubGroupOpcode_inv [OF inv con]
      HandleGroupSwapSubGroupOpcode_inv [OF inv con] in simp_all)
qed

section \<open>Reachable worlds\<close>

text \<open>
  From a world without groups: requests of connected players, logins and logouts, the update of
  the group manager, and the choice of the next looter when a creature dies. The first argument
  says which players are connected.
\<close>

definition empty_world :: "group_world \<Rightarrow> bool" where
  "empty_world w \<longleftrightarrow> gw_groups w = (\<lambda>_. None) \<and> gw_players w = (\<lambda>_. Player_new) \<and> gw_GroupStore w = [] \<and>
     gw_GroupDbStore w = []"

inductive group_reach :: "(guid \<Rightarrow> bool) \<Rightarrow> group_world \<Rightarrow> bool" where
  at_start: "empty_world w \<Longrightarrow> group_reach (\<lambda>_. False) w"
| on_request: "group_reach con w \<Longrightarrow> con = le_FindConnected (ge_env (gs_env se)) \<Longrightarrow> con p \<Longrightarrow> names_ok se \<Longrightarrow>
    sound_request p r w \<Longrightarrow> handle_request se p r w = Inr w' \<Longrightarrow> group_reach con w'"
| on_login: "group_reach con w \<Longrightarrow> \<not> con p \<Longrightarrow> row_ok p row w \<Longrightarrow> PlayerLogin ge p row w = Inr w' \<Longrightarrow>
    group_reach (con(p := True)) w'"
| on_logout: "group_reach con w \<Longrightarrow> con = le_FindConnected (ge_env ge) \<Longrightarrow> LogoutPlayer ge ge' p w = Inr w' \<Longrightarrow>
    group_reach (con(p := False)) w'"
| on_update: "group_reach con w \<Longrightarrow> GroupMgr_Update ge w = Inr w' \<Longrightarrow> group_reach con w'"
| on_loot: "group_reach con w \<Longrightarrow> gw_groups w g = Some gr \<Longrightarrow> UpdateLooterGuid ge obj ifneed g w = Inr w' \<Longrightarrow>
    group_reach con w'"

lemma reach_inv: "group_reach con w \<Longrightarrow> roster_inv con None w"
proof (induction rule: group_reach.induct)
  case (at_start w)
  then have "gw_groups w = (\<lambda>_. None)" "gw_players w = (\<lambda>_. Player_new)" "gw_GroupStore w = []" "gw_GroupDbStore w = []"
    by (simp_all add: empty_world_def)
  then show ?case
    by (simp add: roster_inv_def player_inv_def manager_inv_def Player_new_def omap_ok_def)
next
  case (on_request con w se p r w')
  show ?case
    by (rule safelyD [OF handle_request_inv [OF on_request.IH on_request.hyps(2-5)] on_request.hyps(6)])
next
  case (on_login con w p row ge w')
  show ?case by (rule safelyD [OF PlayerLogin_inv [OF on_login.IH on_login.hyps(2,3)] on_login.hyps(4)])
next
  case (on_logout con w ge ge' p w')
  show ?case by (rule safelyD [OF LogoutPlayer_inv [OF on_logout.IH on_logout.hyps(2)] on_logout.hyps(3)])
next
  case (on_update con w ge w')
  show ?case by (rule safelyD [OF GroupMgr_Update_inv [OF on_update.IH] on_update.hyps(2)])
next
  case (on_loot con w g gr ge obj ifneed w')
  show ?case
    by (rule quiet_inv [OF on_loot.IH safelyD [OF UpdateLooterGuid_quiet [OF on_loot.hyps(2)] on_loot.hyps(3)]])
qed

end
