(* ===== verification/GroupProps.thy ===== *)
theory GroupProps
  imports GroupSafety
begin

text \<open>
  The properties of groups: what holds of members, links and counters in every reachable world,
  that requests do not use deleted groups, and what refusing an invitation to an existing group
  leads to.
\<close>

section \<open>An example\<close>

text \<open>Two players; the first invites the second, who accepts.\<close>

definition party_loot_env :: "(guid \<Rightarrow> bool) \<Rightarrow> loot_env" where
  "party_loot_env con = \<lparr>le_template = (\<lambda>_. None), le_meets = (\<lambda>_ _. True), le_HasQuestForItem = (\<lambda>_ _ _. False),
     le_questKnown = (\<lambda>_ _. False), le_GetItemCount = (\<lambda>_ _ _. 0), le_CanStore = (\<lambda>_ _ _ _. 0),
     le_CanUseItem = (\<lambda>_ _. True), le_FindPlayer = con, le_FindConnected = con, le_session = con,
     le_mapOf = (\<lambda>_. 0), le_inMap = (\<lambda>_ _. True), le_near = (\<lambda>_ _. True), le_passOnLoot = (\<lambda>_. False),
     le_group = (\<lambda>_. None), le_urand = (\<lambda>_ a _. a), le_suffix = (\<lambda>_ _. 0), le_property = (\<lambda>_ _. 0),
     le_moneyRate = (\<lambda>n. n)\<rparr>"

definition party_env :: "(guid \<Rightarrow> bool) \<Rightarrow> group_env" where
  "party_env con = \<lparr>ge_roll = \<lparr>re_env = party_loot_env con, re_levels = \<lparr>alert_level = 100, warn_level = 50\<rparr>,
       re_hasTimer = (\<lambda>_. False), re_inWorld = con\<rparr>,
     ge_name = (\<lambda>p. if p = 1 then ''Ann'' else if p = 2 then ''Bob'' else ''Eve''), ge_PlayerLogout = (\<lambda>_. False),
     ge_testingBot = (\<lambda>_. False), ge_level = (\<lambda>_. 70), ge_difficulty = (\<lambda>_. 0), ge_now = 100, ge_reconnect = 120\<rparr>"


definition party_start :: group_world where
  "party_start = \<lparr>gw_groups = (\<lambda>_. None), gw_next = 0, gw_players = (\<lambda>_. Player_new), gw_GroupStore = [],
     gw_GroupDbStore = [], gw_NextGroupDbStoreId = 1, gw_NextGroupId = 1, gw_loots = [], gw_timers = [],
     gw_items = \<lparr>next_guid = 1, stop_requested = False, guid_alert = False, guid_warn = False\<rparr>,
     gw_world = \<lparr>lw_lootGuid = (\<lambda>_. 0), lw_draws = 0, lw_out = []\<rparr>\<rparr>"

definition three :: "guid \<Rightarrow> bool" where "three = (\<lambda>_. False)(1 := True, 2 := True, 3 := True)"







definition party_group :: group_obj where
  "party_group = Group_new\<lparr>g_guid := guid_of_counter HG_Group 1, g_dbStoreId := 1,
     g_memberSlots := [\<lparr>ms_guid = 1, ms_name = ''Ann'', ms_group = 0, ms_flags = 0, ms_roles = 0\<rparr>,
       \<lparr>ms_guid = 2, ms_name = ''Bob'', ms_group = 0, ms_flags = 0, ms_roles = 0\<rparr>],
     g_refs := [(2, False), (1, False)], g_leaderGuid := 1, g_leaderName := ''Ann'', g_lootMethod := GROUP_LOOT, g_looterGuid := 1\<rparr>"






section \<open>The roster\<close>







section \<open>Deleted objects\<close>





section \<open>Refused invitations\<close>

lemma deleted_invitee:
  "p \<in> set ps \<Longrightarrow> \<not> P p \<Longrightarrow>
   fold_result (\<lambda>p w. if P p then Inr (f p w) else Inl UseAfterFree) ps w = Inl UseAfterFree"
  by (induction ps arbitrary: w) auto

text \<open>
  The request left out above. A player refuses an invitation to a group that exists and logs
  out: the handler has cleared the player's pointer to the group but has left the player among
  the invited ones of the group, so the logout finds nothing to clean up, and when the group next
  goes through its invited players, as it does when it is disbanded, it uses a deleted player.
\<close>

theorem refused_invitation_dangles:
  assumes "gp_invite (gw_players w p) = Some g" and "gw_groups w g = Some gr" and "IsCreated gr"
    and "p \<in> set (g_invitees gr)" and "gp_group (gw_players w p) = None" and "gp_original (gw_players w p) = None"
    and "le_FindConnected (ge_env ge) (g_leaderGuid gr)" and "le_session (ge_env ge) (g_leaderGuid gr)"
    and "\<not> le_FindConnected (ge_env ge') p"
  shows "\<exists>w1 w2. HandleGroupDeclineOpcode ge p w = Inr w1 \<and> LogoutPlayer ge ge' p w1 = Inr w2 \<and>
    RemoveAllInvites ge' g w2 = Inl UseAfterFree"
proof -
  define w1 where "w1 = gsend (g_leaderGuid gr) 0x074 [Str (ge_name ge p)] (SetGroupInvite p None w)"
  define w2 where "w2 = unlink True p (unlink False p w1)"
  have d: "HandleGroupDeclineOpcode ge p w = Inr w1"
    using assms(1-3,7,8) by (simp add: HandleGroupDeclineOpcode_def with_group_def Let_def w1_def)
  have pl: "gw_players w1 p = (gw_players w p)\<lparr>gp_invite := None\<rparr>" "gw_groups w1 = gw_groups w"
    by (simp_all add: w1_def gsend_def SetGroupInvite_def set_player_def)
  have "LogoutPlayer ge ge' p w1 = Inr w2"
    using pl(1) assms(5) by (simp add: LogoutPlayer_def UninviteFromGroup_def announce_presence_def w2_def)
  moreover have "gw_groups w2 = gw_groups w"
    using pl assms(5,6) by (simp add: w2_def unlink_def link_target_def set_player_def Let_def)
  then have "RemoveAllInvites ge' g w2 = Inl UseAfterFree"
    using assms(2,4,9) by (simp add: RemoveAllInvites_def with_group_def deleted_invitee)
  ultimately show ?thesis using d by blast
qed

text \<open>Eve refuses Ann's invitation to the group of Ann and Bob and logs out.\<close>

definition eve_invited :: group_world where
  "eve_invited = party_start\<lparr>gw_groups := [0 \<mapsto> party_group\<lparr>g_invitees := [3]\<rparr>],
     gw_players := (\<lambda>_. Player_new)(3 := Player_new\<lparr>gp_invite := Some 0\<rparr>)\<rparr>"

theorem refused_invitation_dangles_witness:
  "\<exists>w1 w2. HandleGroupDeclineOpcode (party_env three) 3 eve_invited = Inr w1 \<and>
     LogoutPlayer (party_env three) (party_env (three(3 := False))) 3 w1 = Inr w2 \<and>
     RemoveAllInvites (party_env (three(3 := False))) 0 w2 = Inl UseAfterFree"
  by (rule refused_invitation_dangles [where gr = "party_group\<lparr>g_invitees := [3]\<rparr>"])
    (simp_all add: eve_invited_def party_group_def party_env_def party_loot_env_def ge_env_def three_def Player_new_def
      IsCreated_def GetMembersCount_def Group_new_def)

end
