(* ===== verification/Spec2Isabelle.thy ===== *)
theory Spec2Isabelle
  imports ChannelMgr EventMap EventProcessor Timers Rbac Reputation ArenaLaws GuildProps RollProps
    GroupProps
begin

text \<open>
  Verification of the core of the Sunstrider game server (C++, under src/src).

  \<^bold>\<open>The program.\<close> The server reads packets from clients, changes its in-memory state, writes
  statements to a database and sends packets back. The parts modelled here and how they
  interact:

  \<^item> \<open>Prelude\<close>, \<open>Containers\<close>: results with errors, words, folds, and the ordered containers of
    the C++ library (\<open>std::map\<close>, \<open>std::multimap\<close>, \<open>std::set\<close>) as sorted lists, with the locale
    of a finite map that the containers interpret and the locale \<open>invariant_ops\<close> of a state
    with an invariant that a set of operations keeps.
  \<^item> \<open>ByteBuffer\<close>, \<open>Codec\<close>, \<open>Packets\<close>: src/src/server/shared/Packets/ByteBuffer.h. Positions,
    bound checks and exceptions, little-endian words, strings, packed guids and times, the
    container operators, and packets as lists of fields. \<open>Packets\<close> shows that what is written
    is read back, for single fields and whole packets, and where the bound check fails.
  \<^item> \<open>ObjectGuids\<close>: Entities/Object/ObjectGuid.h. The layout of a guid and the generator.
  \<^item> \<open>Channel\<close>, \<open>ChannelOps\<close>, \<open>ChannelLaws\<close>: game/Channel.h and Channel.cpp, the chat channel.
    Every operation returns the new channel with the effects (packets, callbacks on players)
    in order. The laws: at most one owner who is a member, bans, mutes, privileges, who hears
    a message.
  \<^item> \<open>ChannelMgr\<close>: game/ChannelMgr.h, Handlers/ChannelHandler.cpp and the channel part of
    Handlers/ChatHandler.cpp. The handlers decode raw bytes with \<open>ByteBuffer\<close>, look channels up
    and call \<open>ChannelOps\<close>; the invariant of sessions spans all three.
  \<^item> \<open>EventMap\<close>: common/Utilities/EventMap. Events in a multimap keyed by 32-bit time.
  \<^item> \<open>EventProcessor\<close>: common/Utilities/EventProcessor. Events on a heap with arbitrary
    callbacks.
  \<^item> \<open>Timers\<close>: common/Utilities/Timer.h.
  \<^item> \<open>Rbac\<close>: game/Accounts/RBAC and the permission part of AccountMgr.cpp.
  \<^item> \<open>Reputation\<close>: game/Reputation/ReputationMgr.
  \<^item> \<open>Social\<close>: Entities/Player/SocialMgr and game/SocialHandler.cpp. Friend and ignore lists,
    with the database table as the state the emitted statements produce.
  \<^item> \<open>ArenaTeam\<close>, \<open>ArenaTeamMgr\<close>, \<open>ArenaLaws\<close>: Battlegrounds/ArenaTeam, ArenaTeamMgr and
    ArenaTeamHandler.cpp. Teams, the store, packet handlers and the weekly distribution. The
    invitation handler reads the ignore lists of \<open>Social\<close>.
  \<^item> \<open>Guild\<close>, \<open>GuildOps\<close>, \<open>GuildHandlers\<close>, \<open>GuildLaws\<close>, \<open>GuildProps\<close>: Guilds/Guild, GuildMgr and
    Handlers/GuildHandler.cpp. \<open>Guild\<close> has the state of a guild, its queries and packets,
    \<open>GuildOps\<close> the operations on members, ranks, bank account and logs, \<open>GuildHandlers\<close> the
    commands of clients, the store and the packet handlers, which decode bytes with
    \<open>ByteBuffer\<close>. \<open>GuildLaws\<close> proves the invariant command by command and that every command
    ends, \<open>GuildProps\<close> holds the theorems. Guild chat uses the chat packet of \<open>ChannelOps\<close>,
    invitations the ignore lists of \<open>Social\<close>.
  \<^item> \<open>Loot\<close>, \<open>LootTables\<close>, \<open>LootRoll\<close>, \<open>LootHandlers\<close>, \<open>LootLaws\<close>, \<open>LootProps\<close>, \<open>RollProps\<close>:
    Loot/Loot, Loot/LootMgr, Loot/LootHandler.cpp, the loot part of Groups/Group.cpp and
    \<open>Player::StoreLootItem\<close>. \<open>Loot\<close> has the loot of one object: its items, the lists of each
    player, taking an item, and the packet of the loot window. \<open>LootTables\<close> rolls the tables and
    fills a loot. \<open>LootRoll\<close> has the rolls of a group about items of loots, with the item guids
    generated by \<open>ObjectGuids\<close>. \<open>LootHandlers\<close> has the packet handlers, which find the loot a
    player has open and call the operations of \<open>Loot\<close> and \<open>LootRoll\<close>. \<open>LootLaws\<close> proves that
    loots stay well formed; the theorems are in \<open>LootProps\<close> and \<open>RollProps\<close>. The bags of a
    player are seen only through the questions whether there is room for an item and how many
    the player has, whose answers may depend on the effects so far. Null pointers, bad indices,
    endless loops and exhausted stacks are fault values.
  \<^item> \<open>GroupRoster\<close>, \<open>GroupOps\<close>, \<open>GroupSession\<close>, \<open>GroupLaws\<close>, \<open>GroupInv\<close>, \<open>GroupForm\<close>, \<open>GroupLeave\<close>,
    \<open>GroupSafety\<close>, \<open>GroupProps\<close>: Groups/Group, GroupMgr, GroupReference, GroupHandler.cpp and the
    group part of Player.cpp. Groups, players and the group manager refer to each other, so the
    groups are on a heap: a group is an address, a deleted group is \<open>None\<close>, and using it or a
    player who has logged out is the fault \<open>UseAfterFree\<close>. \<open>GroupRoster\<close> has the objects, the
    links and the packets, \<open>GroupOps\<close> the operations and the group manager, \<open>GroupSession\<close> the
    packet handlers, with the ignore lists of \<open>Social\<close> and the rolls of \<open>LootRoll\<close>. \<open>GroupLaws\<close>
    states the invariant of the heap and what single changes do to it; \<open>GroupInv\<close> treats the
    operations that keep the members, \<open>GroupForm\<close> inviting and joining, \<open>GroupLeave\<close> leaving and
    disbanding, \<open>GroupSafety\<close> the requests and the reachable worlds; \<open>GroupProps\<close> has the theorems.

  \<^bold>\<open>Correspondence.\<close> A class is a record with the fields of the class; a method is a definition
  of the same name that takes the object last and returns it changed, with a prefix where
  two classes share a name. Integers keep their width as words. Exceptions and crashes are
  values of a result type. Packets, statements and calls into parts that are not modelled are
  effects appended to a list. A definition that stands for the body of a loop or for a block
  two methods share has a name of its own.

  \<^bold>\<open>What is shown.\<close> Round trips: packet fields, whole packets, packed guids, packed times, maps,
  guids, joining and leaving a channel, granting and revoking a permission, logging out and in
  again with a social list. Invariants over arbitrary sequences of client packets or calls:
  channels and their sessions, permission sets, reputation counters, social lists and their
  table, arena teams, guilds, groups, the counters of a roll when voters leave, the ban list of a channel. An ordinary item of a
  loot and an item that is rolled for have at most one taker, and the highest roll wins.
  Reference definitions: permission expansion is the reachable set, the
  rank of a reputation is given by thresholds, the points of a week are the maximum over the
  teams; the event log of a guild is the tail of the sequence of events, in memory and in its
  table; the loot window shows as lootable what can be taken. Termination: the event processor's update, permission expansion, disbanding a
  team or a guild, every guild packet, the end of the rolls of a loot, filling a loot from
  tables whose references do not go in a circle. Memory safety: requests, logouts and updates of
  groups use nothing that has been deleted, one kind of request excepted. Bounds: reads, standings, ratings, withdrawals from a
  guild bank. Error theorems state where the code does
  something other than its comments or its other half say.

  \<^bold>\<open>Fuel.\<close> Four recursions have fuel. The update loop of \<open>EventProcessor\<close>: the number of queued
  events that are due at the new time, plus one, is shown to be enough when callbacks queue new
  events strictly later than now. The loop of \<open>Disband\<close> of an arena team: the number of members plus one is enough if
  and only if the loop ends at all. The loop of \<open>Disband\<close> of a guild: the number of members is
  enough whenever members are filed under their own guids. The stack frames of \<open>Process\<close> and of
  the quest queries of \<open>LootTables\<close>: one frame more than the rank of the table is enough when
  every reference leads to a smaller rank, and no number is enough for a table that refers to
  itself; a call without a frame left is the fault \<open>StackOverflow\<close>. Everything else is structural or has a termination proof.

  \<^bold>\<open>Parameters.\<close> Online players, the character cache, configuration values, name
  normalisation, the clock, random choice, the static data of factions and channels, rows read
  from the database, two floating-point formulas of the arena and the floating-point chances of
  loot are arguments.

  \<^bold>\<open>Not modelled.\<close> Units, spells, auras, maps, movement and creature scripts: floating-point
  geometry over the whole object graph. Sockets, encryption, threads, the database driver,
  logging and configuration: input and output. The object manager and client data stores:
  table loading. Moving items in and out of a guild bank: rests on the player's inventory.
  The instance binds of a group, battleground queues and auctions;
  of loot, who may open what (\<open>Player::SendLoot\<close>), the storage of container loot in the database
  and the reports about loot tables. Vendored code under src/dep.
\<close>

end
